(* ===== verification/Prelude.thy ===== *)
theory Prelude
  imports Complex_Main "HOL-Library.AList"
begin

text \<open>
  Shared vocabulary of the development: the Python values that every component uses
  (insertion-ordered dictionaries, optional values, ASCII string helpers), the exceptions
  the modelled code can raise, and the collections of simplification facts the component
  theories extend.

  A Python \<open>dict\<close> keeps the insertion order of its keys and updates an existing key in
  place. \<open>AList.update\<close> does the same on association lists (it replaces the first entry
  of the key, or appends a new one), so a dictionary is an association list with distinct
  keys. The contract the clients use is the locale \<open>py_dict\<close> below.
\<close>

named_theorems code_facts \<open>unfolding rules of the modelled operations\<close>

subsection \<open>Exceptions as values\<close>

datatype py_error =
    ValueError string
  | KeyError string
  | InvalidOperation
  | DivisionByZero
  | LibraryError string

type_synonym 'a result = "py_error + 'a"

definition bind_result :: "'a result \<Rightarrow> ('a \<Rightarrow> 'b result) \<Rightarrow> 'b result" where
  "bind_result r f = (case r of Inl e \<Rightarrow> Inl e | Inr x \<Rightarrow> f x)"

declare bind_result_def [code_unfold]

lemma bind_result_simps [simp]:
  "bind_result (Inl e) f = Inl e"
  "bind_result (Inr x) f = f x"
  by (simp_all add: bind_result_def)

lemma bind_result_Inr [simp]:
  "bind_result r f = Inr y \<longleftrightarrow> (\<exists>x. r = Inr x \<and> f x = Inr y)"
  by (cases r) auto

lemma not_isl_Inr: "\<not> isl r \<Longrightarrow> (\<And>x. r = Inr x \<Longrightarrow> P) \<Longrightarrow> P"
  by (cases r) auto

subsection \<open>Optional values\<close>

text \<open>\<open>a if a is not None else b\<close>, for an optional \<open>b\<close> and for a definite one.\<close>

definition or_else :: "'a option \<Rightarrow> 'a option \<Rightarrow> 'a option" where
  "or_else a b = (case a of None \<Rightarrow> b | Some _ \<Rightarrow> a)"

definition or_default :: "'a option \<Rightarrow> 'a \<Rightarrow> 'a" where
  "or_default a d = (case a of None \<Rightarrow> d | Some x \<Rightarrow> x)"

lemma or_else_simps [simp]:
  "or_else None b = b"
  "or_else (Some x) b = Some x"
  by (simp_all add: or_else_def)

lemma or_else_absorb: "a \<noteq> None \<Longrightarrow> or_else a b = a"
  by (cases a) simp_all

lemma or_default_simps [simp]:
  "or_default None d = d"
  "or_default (Some x) d = x"
  by (simp_all add: or_default_def)

text \<open>\<open>a or b\<close> on an optional string: both \<open>None\<close> and the empty string are falsy.\<close>

definition str_or :: "string option \<Rightarrow> string option \<Rightarrow> string option" where
  "str_or a b = (case a of None \<Rightarrow> b | Some s \<Rightarrow> (if s = [] then b else a))"

lemma str_or_simps [simp]:
  "str_or None b = b"
  "str_or (Some []) b = b"
  "str_or (Some (c # s)) b = Some (c # s)"
  by (simp_all add: str_or_def)

subsection \<open>ASCII string helpers\<close>

definition py_space :: "char \<Rightarrow> bool" where
  "py_space c \<longleftrightarrow> (of_char c :: nat) \<in> {9, 10, 11, 12, 13, 28, 29, 30, 31, 32}"

definition py_strip :: "string \<Rightarrow> string" where
  "py_strip s = rev (dropWhile py_space (rev (dropWhile py_space s)))"

definition lower_char :: "char \<Rightarrow> char" where
  "lower_char c = (let n = (of_char c :: nat) in
     if 65 \<le> n \<and> n \<le> 90 then char_of (n + 32) else c)"

definition py_lower :: "string \<Rightarrow> string" where
  "py_lower s = map lower_char s"

definition upper_char :: "char \<Rightarrow> char" where
  "upper_char c = (let n = (of_char c :: nat) in
     if 97 \<le> n \<and> n \<le> 122 then char_of (n - 32) else c)"

definition py_upper :: "string \<Rightarrow> string" where
  "py_upper s = map upper_char s"

text \<open>\<open>part in text\<close>\<close>

fun py_in :: "string \<Rightarrow> string \<Rightarrow> bool" where
  "py_in part [] \<longleftrightarrow> part = []"
| "py_in part (x # xs) \<longleftrightarrow> take (length part) (x # xs) = part \<or> py_in part xs"

subsection \<open>Insertion-ordered dictionaries\<close>

type_synonym ('k, 'v) dict = "('k \<times> 'v) list"

definition dict_ok :: "('k, 'v) dict \<Rightarrow> bool" where
  "dict_ok d \<longleftrightarrow> distinct (map fst d)"

definition dict_get :: "('k, 'v) dict \<Rightarrow> 'k \<Rightarrow> 'v option" where
  "dict_get d k = map_of d k"

definition dict_set :: "('k, 'v) dict \<Rightarrow> 'k \<Rightarrow> 'v \<Rightarrow> ('k, 'v) dict" where
  "dict_set d k v = AList.update k v d"

definition dict_pop :: "('k, 'v) dict \<Rightarrow> 'k \<Rightarrow> ('k, 'v) dict" where
  "dict_pop d k = filter (\<lambda>p. fst p \<noteq> k) d"

definition dict_values :: "('k, 'v) dict \<Rightarrow> 'v list" where
  "dict_values d = map snd d"

definition dict_keys :: "('k, 'v) dict \<Rightarrow> 'k list" where
  "dict_keys d = map fst d"

text \<open>
  What a client of a dictionary relies on: a lookup returns what was last stored, other
  keys are untouched, and every operation keeps the keys distinct.
\<close>

locale py_dict =
  fixes get :: "'d \<Rightarrow> 'k \<Rightarrow> 'v option"
    and put :: "'d \<Rightarrow> 'k \<Rightarrow> 'v \<Rightarrow> 'd"
    and pop :: "'d \<Rightarrow> 'k \<Rightarrow> 'd"
    and entries :: "'d \<Rightarrow> ('k \<times> 'v) set"
    and ok :: "'d \<Rightarrow> bool"
  assumes get_put: "get (put d k v) k' = (if k' = k then Some v else get d k')"
    and get_pop: "ok d \<Longrightarrow> get (pop d k) k' = (if k' = k then None else get d k')"
    and ok_put: "ok d \<Longrightarrow> ok (put d k v)"
    and ok_pop: "ok d \<Longrightarrow> ok (pop d k)"
    and entries_get: "ok d \<Longrightarrow> (k, v) \<in> entries d \<longleftrightarrow> get d k = Some v"
begin

lemma get_put_same [simp]: "get (put d k v) k = Some v"
  by (simp add: get_put)

lemma get_put_other [simp]: "k' \<noteq> k \<Longrightarrow> get (put d k v) k' = get d k'"
  by (simp add: get_put)

lemma put_pop: "ok d \<Longrightarrow> get (put (pop d k) k v) k' = get (put d k v) k'"
  by (simp add: get_put get_pop)

lemma entries_put:
  "ok d \<Longrightarrow> entries (put d k v) = {(k', v'). if k' = k then v' = v else (k', v') \<in> entries d}"
  using entries_get [OF ok_put] by (auto simp: get_put entries_get split: if_splits)

lemma entries_pop:
  "ok d \<Longrightarrow> entries (pop d k) = {(k', v') \<in> entries d. k' \<noteq> k}"
  using entries_get [OF ok_pop] by (auto simp: get_pop entries_get split: if_splits)

text \<open>An invariant on all values survives storing a good value and removing any.\<close>

lemma values_put:
  assumes "ok d" and "\<forall>(k, v) \<in> entries d. P v" and "P v"
  shows "\<forall>(k, v) \<in> entries (put d k' v). P v"
  using assms by (auto simp: entries_put split: if_splits)

lemma values_pop:
  assumes "ok d" and "\<forall>(k, v) \<in> entries d. P v"
  shows "\<forall>(k, v) \<in> entries (pop d k'). P v"
  using assms by (auto simp: entries_pop)

end

lemma map_of_filter_key:
  "map_of (filter (\<lambda>p. fst p \<noteq> k) d) k' = (if k' = k then None else map_of d k')"
  by (induction d) auto

interpretation pd: py_dict dict_get dict_set dict_pop set dict_ok
proof unfold_locales
  show "dict_get (dict_set d k v) k' = (if k' = k then Some v else dict_get d k')"
    for d :: "('a \<times> 'b) list" and k v k'
    by (simp add: dict_get_def dict_set_def update_conv')
  show "dict_ok d \<Longrightarrow> dict_get (dict_pop d k) k' = (if k' = k then None else dict_get d k')"
    for d :: "('a \<times> 'b) list" and k k'
    by (simp add: dict_get_def dict_pop_def map_of_filter_key)
  show "dict_ok d \<Longrightarrow> dict_ok (dict_set d k v)" for d :: "('a \<times> 'b) list" and k v
    by (simp add: dict_ok_def dict_set_def distinct_update)
  show "dict_ok d \<Longrightarrow> dict_ok (dict_pop d k)" for d :: "('a \<times> 'b) list" and k
    by (simp add: dict_ok_def dict_pop_def distinct_map_filter)
  show "dict_ok d \<Longrightarrow> ((k, v) \<in> set d) = (dict_get d k = Some v)"
    for d :: "('a \<times> 'b) list" and k v
    by (simp add: dict_ok_def dict_get_def)
qed

lemma dict_ok_Nil [simp]: "dict_ok []"
  by (simp add: dict_ok_def)

lemma dict_get_Nil [simp]: "dict_get [] k = None"
  by (simp add: dict_get_def)

lemma length_dict_pop_le: "length (dict_pop d k) \<le> length d"
  by (simp add: dict_pop_def)

lemma dict_set_keys: "fst ` set (dict_set d k v) = insert k (fst ` set d)"
  by (simp add: dict_set_def dom_update)

lemma dict_pop_keys: "fst ` set (dict_pop d k) = fst ` set d - {k}"
  by (auto simp: dict_pop_def)

lemma dict_get_set: "dict_get (dict_set d k v) k' = (if k' = k then Some v else dict_get d k')"
  by (rule pd.get_put)

lemma dict_get_pop: "dict_get (dict_pop d k) k' = (if k' = k then None else dict_get d k')"
  by (simp add: dict_get_def dict_pop_def map_of_filter_key)

text \<open>A property of every value of a dictionary, and \<open>d.get(k, v)\<close>.\<close>

definition dict_all :: "('v \<Rightarrow> bool) \<Rightarrow> ('k, 'v) dict \<Rightarrow> bool" where
  "dict_all P d \<longleftrightarrow> dict_ok d \<and> (\<forall>(k, v) \<in> set d. P v)"

lemma dict_all_Nil [simp]: "dict_all P []"
  by (simp add: dict_all_def)

lemma dict_all_set [intro]: "dict_all P d \<Longrightarrow> P v \<Longrightarrow> dict_all P (dict_set d k v)"
  unfolding dict_all_def using pd.values_put [of d P v k] pd.ok_put [of d k v] by simp

lemma dict_all_pop [intro]: "dict_all P d \<Longrightarrow> dict_all P (dict_pop d k)"
  unfolding dict_all_def using pd.values_pop [of d P k] pd.ok_pop [of d k] by simp

lemma dict_all_get: "dict_all P d \<Longrightarrow> dict_get d k = Some v \<Longrightarrow> P v"
  unfolding dict_all_def using pd.entries_get [of d k v] by auto

lemma dict_all_fold_set:
  "dict_all P d \<Longrightarrow> \<forall>v \<in> set vs. P v \<Longrightarrow> dict_all P (fold (\<lambda>v d. dict_set d (f v) v) vs d)"
  by (induction vs arbitrary: d) auto

definition dict_get_or :: "('k, 'v) dict \<Rightarrow> 'k \<Rightarrow> 'v \<Rightarrow> 'v" where
  "dict_get_or d k v = or_default (dict_get d k) v"

lemma dict_get_key: "dict_get d k = Some v \<Longrightarrow> k \<in> fst ` set d"
  by (force simp: dict_get_def dest: map_of_SomeD)

lemma dict_all_get_or: "dict_all P d \<Longrightarrow> P w \<Longrightarrow> P (dict_get_or d k w)"
  using dict_all_get [of P d k] by (cases "dict_get d k") (auto simp: dict_get_or_def)

lemma dict_get_or_simps [simp]:
  "dict_get_or (dict_set d k v) k' w = (if k' = k then v else dict_get_or d k' w)"
  "dict_get_or (dict_pop d k) k' w = (if k' = k then w else dict_get_or d k' w)"
  "dict_get_or [] k w = w"
  by (simp_all add: dict_get_or_def dict_get_set dict_get_pop)

lemma dict_get_or_key: "dict_get_or d k w \<noteq> w \<Longrightarrow> k \<in> fst ` set d"
  using dict_get_key [of d k] by (cases "dict_get d k") (auto simp: dict_get_or_def)

text \<open>\<open>xs[-n:]\<close> once the list is longer than \<open>n\<close>.\<close>

definition keep_last :: "nat \<Rightarrow> 'a list \<Rightarrow> 'a list" where
  "keep_last n xs = (if length xs > n then drop (length xs - n) xs else xs)"

lemma length_keep_last: "length (keep_last n xs) \<le> n"
  by (auto simp: keep_last_def)

lemma last_keep_last: "0 < n \<Longrightarrow> keep_last n (xs @ [x]) = keep_last (n - 1) xs @ [x]"
  by (auto simp: keep_last_def Suc_diff_le)

lemmas dict_get_simps = dict_get_set dict_get_pop

lemma dict_set_fresh: "dict_get d k = None \<Longrightarrow> dict_set d k v = d @ [(k, v)]"
  by (induction d) (auto simp: dict_get_def dict_set_def split: if_splits)

lemma dict_pop_fresh: "dict_get d k = None \<Longrightarrow> dict_pop d k = d"
  by (induction d) (auto simp: dict_get_def dict_pop_def split: if_splits)

lemma dict_pop_append: "dict_pop (d @ d') k = dict_pop d k @ dict_pop d' k"
  by (simp add: dict_pop_def)

subsection \<open>Dictionaries whose values carry their key\<close>

definition keyed :: "('v \<Rightarrow> 'k) \<Rightarrow> ('k, 'v) dict \<Rightarrow> bool" where
  "keyed key d \<longleftrightarrow> dict_ok d \<and> (\<forall>(k, v) \<in> set d. key v = k)"

lemma keyed_ok: "keyed key d \<Longrightarrow> dict_ok d"
  by (simp add: keyed_def)

lemma keyed_Nil [simp]: "keyed key []"
  by (simp add: keyed_def)

lemma keyed_set [intro]: "keyed key d \<Longrightarrow> key v = k \<Longrightarrow> keyed key (dict_set d k v)"
  by (auto simp: keyed_def pd.ok_put pd.entries_put split: if_splits)

lemma keyed_pop [intro]: "keyed key d \<Longrightarrow> keyed key (dict_pop d k)"
  by (auto simp: keyed_def pd.ok_pop pd.entries_pop)

lemma keyed_fold_set:
  "keyed key d \<Longrightarrow> (\<And>x. x \<in> set xs \<Longrightarrow> key (g x) = f x) \<Longrightarrow>
     keyed key (fold (\<lambda>x d. dict_set d (f x) (g x)) xs d)"
  by (induction xs arbitrary: d) auto

lemma keyed_fold_pop: "keyed key d \<Longrightarrow> keyed key (fold (\<lambda>k d. dict_pop d k) ks d)"
  by (induction ks arbitrary: d) auto

lemma keyed_get: "keyed key d \<Longrightarrow> dict_get d k = Some v \<Longrightarrow> key v = k"
  by (auto simp: keyed_def pd.entries_get [symmetric])

lemma keyed_values: "keyed key d \<Longrightarrow> v \<in> set (dict_values d) \<longleftrightarrow> dict_get d (key v) = Some v"
  by (force simp: keyed_def dict_values_def pd.entries_get [symmetric])

lemma keyed_distinct_values: "keyed key d \<Longrightarrow> distinct (map key (dict_values d))"
proof -
  assume k: "keyed key d"
  then have "map key (dict_values d) = map fst d"
    by (auto simp: keyed_def dict_values_def)
  with k show ?thesis by (simp add: keyed_def dict_ok_def)
qed

text \<open>Searching the values for a key is the lookup.\<close>

lemma keyed_find: "keyed key d \<Longrightarrow> find (\<lambda>v. key v = k) (dict_values d) = dict_get d k"
  by (induction d) (auto simp: keyed_def dict_ok_def dict_values_def dict_get_def)

lemma fold_set_get:
  "dict_get (fold (\<lambda>x d. dict_set d (f x) (g x)) xs d) k =
     (case find (\<lambda>x. f x = k) (rev xs) of Some x \<Rightarrow> Some (g x) | None \<Rightarrow> dict_get d k)"
proof (induction xs arbitrary: d)
  case (Cons x xs)
  have "find P (ys @ [z]) = (case find P ys of None \<Rightarrow> if P z then Some z else None | Some y \<Rightarrow> Some y)"
    for P and ys :: "'c list" and z
    by (induction ys) auto
  then show ?case using Cons by (auto simp: pd.get_put split: option.splits)
qed simp

subsection \<open>Bounded dictionaries\<close>

text \<open>\<open>while len(d) > cap: d.popitem(last=False)\<close>\<close>

function trim_front :: "nat \<Rightarrow> 'a list \<Rightarrow> 'a list" where
  "trim_front cap d = (if cap < length d then trim_front cap (tl d) else d)"
  by pat_completeness auto
termination by (relation "measure (\<lambda>(cap, d). length d)") auto

declare trim_front.simps [simp del]

lemma trim_front_drop: "trim_front cap d = drop (length d - cap) d"
proof (induction cap d rule: trim_front.induct)
  case (1 cap d)
  show ?case
  proof (cases "cap < length d")
    case True
    then have "trim_front cap d = drop (length (tl d) - cap) (tl d)"
      using 1 by (simp add: trim_front.simps [of cap d])
    also have "\<dots> = drop (length d - cap) d"
      using True by (cases d) (simp_all add: Suc_diff_le)
    finally show ?thesis .
  qed (simp add: trim_front.simps [of cap d])
qed

lemma length_trim_front: "length (trim_front cap d) = min cap (length d)"
  by (simp add: trim_front_drop)

lemma keyed_drop: "keyed key d \<Longrightarrow> keyed key (drop n d)"
  by (auto simp: keyed_def dict_ok_def drop_map [symmetric] dest: in_set_dropD)

lemma keyed_trim [intro]: "keyed key d \<Longrightarrow> keyed key (trim_front cap d)"
  by (simp add: trim_front_drop keyed_drop)

lemma keyed_move_to_end: "keyed key d \<Longrightarrow> key v = k \<Longrightarrow> keyed key (dict_pop d k @ [(k, v)])"
  by (auto simp: keyed_def dict_ok_def dict_pop_def distinct_map_filter)

end
