(* ===== verification/Outbox.thy ===== *)
theory Outbox
  imports Prelude "HOL-Library.List_Lexorder" "HOL-Library.Char_ord" "HOL-Library.Product_Lexorder"
begin

text \<open>
  \<open>infra/outbox/local_queue.py\<close> and the \<open>OutboxEvent\<close> of \<open>domain/events.py\<close>: the local
  outbox between the trading path and the database. The priority queue of the standard
  library is a sorted list of tickets. One consumer calls \<open>get\<close>, \<open>ack\<close>, \<open>retry\<close> and
  \<open>dead_letter\<close>, so while it waits for a slot nobody frees one: a wait on a full queue times
  out. The clock is an argument. The summary of an event was bounded to 512 characters when
  the event was built, so \<open>_prepare_event\<close> returns its argument and has no counterpart here.
\<close>

record outbox_event =
  oe_trace_id :: string
  oe_event_type :: string
  oe_idempotency_key :: string
  oe_event_id :: string
  oe_market_slug :: "string option"
  oe_event_slug :: "string option"
  oe_condition_id :: "string option"
  oe_token_id :: "string option"
  oe_reason :: "string option"
  oe_created_at :: int
  oe_priority :: int
  oe_retry_count :: nat
  oe_last_error :: "string option"
  oe_raw_response_summary :: "string option"
  oe_payload :: string

definition is_critical :: "outbox_event \<Rightarrow> bool" where
  "is_critical e \<longleftrightarrow> oe_priority e \<le> 1"

definition oe_merge_key :: "outbox_event \<Rightarrow> string option" where
  "oe_merge_key e =
     (if oe_priority e < 2 then None
      else (let slug = or_default (oe_market_slug e) []; cid = or_default (oe_condition_id e) [];
                tok = or_default (oe_token_id e) []
            in if slug = [] \<and> cid = [] \<and> tok = [] then None
               else Some (oe_event_type e @ ''|'' @ slug @ ''|'' @ cid @ ''|'' @ tok)))"

definition with_retry :: "outbox_event \<Rightarrow> string option \<Rightarrow> outbox_event" where
  "with_retry e last_error = e\<lparr>oe_retry_count := oe_retry_count e + 1,
     oe_last_error := or_else last_error (oe_last_error e)\<rparr>"

definition with_dead_letter :: "outbox_event \<Rightarrow> string option \<Rightarrow> outbox_event" where
  "with_dead_letter e last_error = with_retry e last_error"

subsection \<open>State\<close>

type_synonym ticket = "int \<times> nat \<times> string"

record outbox =
  ox_max_size :: int
  ox_retained_max_size :: int
  ox_dead_letter_max_size :: int
  ox_retained_ttl :: "int option"
  ox_sequence :: nat
  ox_ready :: "ticket list"
  ox_events_by_id :: "(string, outbox_event) dict"
  ox_queued_event_ids :: "string list"
  ox_merge_index :: "(string, string) dict"
  ox_retained :: "(string, outbox_event) dict"
  ox_dead_letters :: "outbox_event list"

definition new_outbox :: "int \<Rightarrow> int option \<Rightarrow> int option \<Rightarrow> int option \<Rightarrow> outbox" where
  "new_outbox max_size retained_max retained_ttl dead_max =
     \<lparr>ox_max_size = max_size, ox_retained_max_size = or_default retained_max max_size,
      ox_dead_letter_max_size = or_default dead_max max_size, ox_retained_ttl = retained_ttl,
      ox_sequence = 0, ox_ready = [], ox_events_by_id = [], ox_queued_event_ids = [],
      ox_merge_index = [], ox_retained = [], ox_dead_letters = []\<rparr>"

definition ready_full :: "outbox \<Rightarrow> bool" where
  "ready_full s \<longleftrightarrow> 0 < ox_max_size s \<and> ox_max_size s \<le> int (length (ox_ready s))"

definition has_capacity :: "outbox \<Rightarrow> bool" where
  "has_capacity s \<longleftrightarrow> (if ox_max_size s > 0 then int (length (ox_ready s)) < ox_max_size s else True)"

text \<open>The order in which retained events are promoted, evicted and listed.\<close>

definition event_rank :: "string \<times> outbox_event \<Rightarrow> int \<times> int \<times> string" where
  "event_rank p = (oe_priority (snd p), oe_created_at (snd p), fst p)"

definition drop_merge_entry :: "(string, string) dict \<Rightarrow> outbox_event \<Rightarrow> string \<Rightarrow> (string, string) dict" where
  "drop_merge_entry mi e event_id =
     (case oe_merge_key e of
        None \<Rightarrow> mi
      | Some k \<Rightarrow> if dict_get mi k = Some event_id then dict_pop mi k else mi)"

definition trim_dead_letters :: "outbox \<Rightarrow> outbox" where
  "trim_dead_letters s =
     (let cap = ox_dead_letter_max_size s; n = int (length (ox_dead_letters s))
      in if cap \<le> 0 then s
         else if n > cap then s\<lparr>ox_dead_letters := drop (nat (n - cap)) (ox_dead_letters s)\<rparr>
         else s)"

text \<open>Removing one retained event into the dead letters.\<close>

definition bury :: "string \<Rightarrow> outbox \<Rightarrow> string \<times> outbox_event \<Rightarrow> outbox" where
  "bury reason s p = (case p of (event_id, e) \<Rightarrow>
     s\<lparr>ox_retained := dict_pop (ox_retained s) event_id,
       ox_events_by_id := dict_pop (ox_events_by_id s) event_id,
       ox_merge_index := drop_merge_entry (ox_merge_index s) e event_id,
       ox_dead_letters := ox_dead_letters s
         @ [e\<lparr>oe_last_error := str_or (oe_last_error e) (Some reason)\<rparr>]\<rparr>)"

definition expire_retained :: "outbox \<Rightarrow> int \<Rightarrow> outbox" where
  "expire_retained s now =
     (case ox_retained_ttl s of
        None \<Rightarrow> s
      | Some ttl \<Rightarrow>
          trim_dead_letters (foldl (bury ''retained_ttl_expired'') s
            (filter (\<lambda>(i, e). i \<notin> set (ox_queued_event_ids s) \<and> now - oe_created_at e > ttl)
              (ox_retained s))))"

definition evictable :: "outbox \<Rightarrow> (string \<times> outbox_event) list" where
  "evictable s = filter (\<lambda>(i, e). \<not> is_critical e \<and> i \<notin> set (ox_queued_event_ids s)) (ox_retained s)"

fun pick_max :: "(string \<times> outbox_event) \<Rightarrow> (string \<times> outbox_event) list \<Rightarrow> string \<times> outbox_event" where
  "pick_max best [] = best"
| "pick_max best (p # ps) = pick_max (if event_rank best < event_rank p then p else best) ps"

lemma pick_max_in: "pick_max b ps \<in> set (b # ps)"
  by (induction ps arbitrary: b) auto

text \<open>
  The overflow loop. It leaves through the early return, which skips the trimming of the
  dead letters, when only critical or queued events are left.
\<close>

function evict_overflow :: "outbox \<Rightarrow> outbox" where
  "evict_overflow s =
     (if int (length (ox_retained s)) > ox_retained_max_size s
      then (case evictable s of
          [] \<Rightarrow> s
        | p # ps \<Rightarrow> evict_overflow (bury ''retained_low_priority_overflow'' s (pick_max p ps)))
      else trim_dead_letters s)"
  by pat_completeness auto
termination
proof (relation "measure (\<lambda>s. length (ox_retained s))")
  fix s p ps
  assume e: "evictable s = p # ps"
  have "pick_max p ps \<in> set (ox_retained s)"
    using pick_max_in [of p ps] unfolding e [symmetric] by (auto simp: evictable_def)
  then have "length (dict_pop (ox_retained s) (fst (pick_max p ps))) < length (ox_retained s)"
    unfolding dict_pop_def by (intro length_filter_less) auto
  then show "(bury ''retained_low_priority_overflow'' s (pick_max p ps), s) \<in> measure (\<lambda>s. length (ox_retained s))"
    by (cases "pick_max p ps") (simp add: bury_def)
qed simp

declare evict_overflow.simps [simp del]

definition enforce_retained_capacity :: "outbox \<Rightarrow> int \<Rightarrow> outbox" where
  "enforce_retained_capacity s now =
     (let s1 = expire_retained s now
      in if ox_retained_max_size s1 \<le> 0 then s1 else evict_overflow s1)"

definition index_event :: "outbox \<Rightarrow> outbox_event \<Rightarrow> (string, string) dict" where
  "index_event s e = (case oe_merge_key e of
     None \<Rightarrow> ox_merge_index s | Some k \<Rightarrow> dict_set (ox_merge_index s) k (oe_event_id e))"

definition store_pending :: "outbox \<Rightarrow> outbox_event \<Rightarrow> outbox" where
  "store_pending s e = s\<lparr>ox_events_by_id := dict_set (ox_events_by_id s) (oe_event_id e) e,
     ox_retained := dict_pop (ox_retained s) (oe_event_id e),
     ox_merge_index := index_event s e\<rparr>"

definition store_retained :: "outbox \<Rightarrow> outbox_event \<Rightarrow> int \<Rightarrow> outbox" where
  "store_retained s e now = enforce_retained_capacity
     (s\<lparr>ox_events_by_id := dict_set (ox_events_by_id s) (oe_event_id e) e,
        ox_retained := dict_set (ox_retained s) (oe_event_id e) e,
        ox_merge_index := index_event s e\<rparr>) now"

text \<open>Putting a ticket on the ready queue; \<open>next(self._sequence)\<close> is spent either way.\<close>

definition put_ticket :: "outbox \<Rightarrow> outbox_event \<Rightarrow> outbox" where
  "put_ticket s e = s\<lparr>ox_ready := insort (oe_priority e, ox_sequence s, oe_event_id e) (ox_ready s),
     ox_sequence := ox_sequence s + 1\<rparr>"

definition enqueue_ready :: "outbox \<Rightarrow> outbox_event \<Rightarrow> outbox \<times> bool" where
  "enqueue_ready s e =
     (if ready_full s then (s\<lparr>ox_sequence := ox_sequence s + 1\<rparr>, False)
      else (let s1 = put_ticket s e
            in (s1\<lparr>ox_queued_event_ids := List.insert (oe_event_id e) (ox_queued_event_ids s1)\<rparr>, True)))"

subsection \<open>Operations\<close>

definition merge_events :: "outbox_event \<Rightarrow> outbox_event \<Rightarrow> outbox_event" where
  "merge_events current e = e\<lparr>oe_event_id := oe_event_id current,
     oe_created_at := oe_created_at current, oe_retry_count := oe_retry_count current,
     oe_priority := min (oe_priority current) (oe_priority e)\<rparr>"

definition known_event :: "outbox \<Rightarrow> string \<Rightarrow> outbox_event option" where
  "known_event s event_id =
     or_else (dict_get (ox_events_by_id s) event_id) (dict_get (ox_retained s) event_id)"

text \<open>The pending event a new one merges into, if any.\<close>

definition merge_target :: "outbox \<Rightarrow> outbox_event \<Rightarrow> outbox_event option" where
  "merge_target s e =
     (case oe_merge_key e of
        None \<Rightarrow> None
      | Some k \<Rightarrow>
          (case dict_get (ox_merge_index s) k of
             None \<Rightarrow> None
           | Some existing_id \<Rightarrow> known_event s existing_id))"

definition store_merged :: "outbox \<Rightarrow> outbox_event \<Rightarrow> outbox_event \<Rightarrow> int \<Rightarrow> outbox" where
  "store_merged s current e now =
     (if oe_event_id current \<in> set (ox_queued_event_ids s)
      then store_pending s (merge_events current e)
      else store_retained s (merge_events current e) now)"

definition enqueue :: "outbox \<Rightarrow> outbox_event \<Rightarrow> int \<Rightarrow> outbox" where
  "enqueue s e now =
     (case merge_target s e of
        Some current \<Rightarrow> store_merged s current e now
      | None \<Rightarrow>
          if has_capacity s
          then (case enqueue_ready s e of
              (s1, True) \<Rightarrow> store_pending s1 e
            | (s1, False) \<Rightarrow> store_retained s1 e now)
          else store_retained s e now)"

definition put_nowait :: "outbox \<Rightarrow> outbox_event \<Rightarrow> int \<Rightarrow> outbox" where
  "put_nowait s e now =
     (case merge_target s e of
        Some current \<Rightarrow> store_merged s current e now
      | None \<Rightarrow>
          if has_capacity s then store_pending (put_ticket s e) e
          else store_retained s e now)"

definition promote_one :: "outbox \<Rightarrow> string \<times> outbox_event \<Rightarrow> outbox" where
  "promote_one s p = (case p of (event_id, e) \<Rightarrow>
     if event_id \<in> set (ox_queued_event_ids s) then s
     else (case enqueue_ready s e of
         (s1, True) \<Rightarrow> s1\<lparr>ox_retained := dict_pop (ox_retained s1) event_id\<rparr>
       | (s1, False) \<Rightarrow> s1))"

definition promote_retained :: "outbox \<Rightarrow> outbox" where
  "promote_retained s =
     (if ox_retained s = [] then s
      else foldl promote_one s (sort_key event_rank (ox_retained s)))"

definition discard :: "string \<Rightarrow> string list \<Rightarrow> string list" where
  "discard x xs = removeAll x xs"

definition ack :: "outbox \<Rightarrow> string \<Rightarrow> outbox" where
  "ack s event_id =
     promote_retained (s\<lparr>ox_events_by_id := dict_pop (ox_events_by_id s) event_id,
       ox_queued_event_ids := discard event_id (ox_queued_event_ids s),
       ox_retained := dict_pop (ox_retained s) event_id,
       ox_merge_index := (case dict_get (ox_events_by_id s) event_id of
           None \<Rightarrow> ox_merge_index s
         | Some e \<Rightarrow> drop_merge_entry (ox_merge_index s) e event_id)\<rparr>)"

definition retry :: "outbox \<Rightarrow> string \<Rightarrow> string option \<Rightarrow> int \<Rightarrow> (outbox \<times> outbox_event) result" where
  "retry s event_id last_error now =
     (case known_event s event_id of
        None \<Rightarrow> Inl (KeyError ''unknown outbox event'')
      | Some current \<Rightarrow>
          (let retried = with_retry current last_error
           in if event_id \<in> set (ox_queued_event_ids s)
              then Inr (store_pending s retried, retried)
              else (case enqueue_ready (store_retained s retried now) retried of
                  (s1, True) \<Rightarrow> Inr (s1\<lparr>ox_retained := dict_pop (ox_retained s1) event_id\<rparr>, retried)
                | (s1, False) \<Rightarrow> Inr (store_retained s1 retried now, retried))))"

definition finish_dead_letter ::
  "outbox \<Rightarrow> string \<Rightarrow> outbox_event \<Rightarrow> string option \<Rightarrow> outbox \<times> outbox_event" where
  "finish_dead_letter s event_id current last_error =
     (let dl = with_dead_letter current last_error
      in (trim_dead_letters (s\<lparr>ox_queued_event_ids := discard event_id (ox_queued_event_ids s),
            ox_merge_index := drop_merge_entry (ox_merge_index s) dl event_id,
            ox_dead_letters := ox_dead_letters s @ [dl]\<rparr>), dl))"

text \<open>\<open>pop(...) or pop(...)\<close>: the retained copy stays when the event was pending.\<close>

definition dead_letter :: "outbox \<Rightarrow> string \<Rightarrow> string option \<Rightarrow> (outbox \<times> outbox_event) result" where
  "dead_letter s event_id last_error =
     (case dict_get (ox_events_by_id s) event_id of
        Some current \<Rightarrow> Inr (finish_dead_letter
          (s\<lparr>ox_events_by_id := dict_pop (ox_events_by_id s) event_id\<rparr>) event_id current last_error)
      | None \<Rightarrow>
          (case dict_get (ox_retained s) event_id of
             Some current \<Rightarrow> Inr (finish_dead_letter
               (s\<lparr>ox_retained := dict_pop (ox_retained s) event_id\<rparr>) event_id current last_error)
           | None \<Rightarrow> Inl (KeyError ''unknown outbox event'')))"

definition outbox_snapshot :: "outbox \<Rightarrow> nat \<times> nat \<times> nat" where
  "outbox_snapshot s = (length (ox_ready s), length (ox_retained s), length (ox_dead_letters s))"

definition pending_events :: "outbox \<Rightarrow> outbox_event list" where
  "pending_events s =
     sort_key (\<lambda>e. (oe_priority e, oe_created_at e, oe_event_id e)) (dict_values (ox_events_by_id s))"

subsection \<open>Promotion\<close>

lemma put_ticket_simps [simp]:
  "ox_events_by_id (put_ticket s e) = ox_events_by_id s"
  "ox_retained (put_ticket s e) = ox_retained s"
  "ox_dead_letters (put_ticket s e) = ox_dead_letters s"
  "ox_merge_index (put_ticket s e) = ox_merge_index s"
  "ox_queued_event_ids (put_ticket s e) = ox_queued_event_ids s"
  "ox_retained_ttl (put_ticket s e) = ox_retained_ttl s"
  "ox_max_size (put_ticket s e) = ox_max_size s"
  by (simp_all add: put_ticket_def)

lemma enqueue_ready_cases:
  "enqueue_ready s e = (if ready_full s then (s\<lparr>ox_sequence := ox_sequence s + 1\<rparr>, False)
     else ((put_ticket s e)\<lparr>ox_queued_event_ids :=
        List.insert (oe_event_id e) (ox_queued_event_ids s)\<rparr>, True))"
  by (simp add: enqueue_ready_def Let_def)

lemma promote_one_simps [simp]:
  "ox_events_by_id (promote_one s p) = ox_events_by_id s"
  "ox_dead_letters (promote_one s p) = ox_dead_letters s"
  "ox_merge_index (promote_one s p) = ox_merge_index s"
  "ox_retained_ttl (promote_one s p) = ox_retained_ttl s"
  "ox_max_size (promote_one s p) = ox_max_size s"
  by (cases p; simp add: promote_one_def enqueue_ready_cases)+

lemma foldl_promote_simps [simp]:
  "ox_events_by_id (foldl promote_one s ps) = ox_events_by_id s"
  "ox_dead_letters (foldl promote_one s ps) = ox_dead_letters s"
  "ox_merge_index (foldl promote_one s ps) = ox_merge_index s"
  "ox_retained_ttl (foldl promote_one s ps) = ox_retained_ttl s"
  "ox_max_size (foldl promote_one s ps) = ox_max_size s"
  by (induction ps arbitrary: s) simp_all

lemma promote_simps [simp]:
  "ox_events_by_id (promote_retained s) = ox_events_by_id s"
  "ox_dead_letters (promote_retained s) = ox_dead_letters s"
  "ox_merge_index (promote_retained s) = ox_merge_index s"
  "ox_retained_ttl (promote_retained s) = ox_retained_ttl s"
  "ox_max_size (promote_retained s) = ox_max_size s"
  by (simp_all add: promote_retained_def)

definition load :: "outbox \<Rightarrow> nat" where
  "load s = length (ox_ready s) + length (ox_retained s)"

lemma length_dict_pop_less: "k \<in> fst ` set d \<Longrightarrow> length (dict_pop d k) < length d"
  unfolding dict_pop_def by (auto intro: length_filter_less)

lemma promote_one_queues:
  "ox_queued_event_ids (promote_one s (i, e)) =
     (if i \<in> set (ox_queued_event_ids s) \<or> ready_full s then ox_queued_event_ids s
      else List.insert (oe_event_id e) (ox_queued_event_ids s))"
  "ox_retained (promote_one s (i, e)) =
     (if i \<in> set (ox_queued_event_ids s) \<or> ready_full s then ox_retained s
      else dict_pop (ox_retained s) i)"
  by (auto simp: promote_one_def enqueue_ready_cases)

text \<open>Every promoted event is still retained, or was promoted before.\<close>

lemma foldl_promote_load:
  assumes "\<forall>p \<in> set ps. oe_event_id (snd p) = fst p"
    and "\<forall>p \<in> set ps. fst p \<in> set (ox_queued_event_ids s) \<or> fst p \<in> fst ` set (ox_retained s)"
  shows "load (foldl promote_one s ps) \<le> load s"
  using assms
proof (induction ps arbitrary: s)
  case (Cons p ps)
  obtain i e where p: "p = (i, e)" by (cases p)
  have step: "load (promote_one s p) \<le> load s"
    using Cons.prems length_dict_pop_less [of i "ox_retained s"]
    by (auto simp: p promote_one_def enqueue_ready_cases load_def put_ticket_def Suc_le_eq image_iff)
  have e: "oe_event_id e = i" using Cons.prems(1) by (simp add: p)
  have "\<forall>q \<in> set ps. fst q \<in> set (ox_queued_event_ids (promote_one s p))
      \<or> fst q \<in> fst ` set (ox_retained (promote_one s p))"
  proof
    fix q assume q: "q \<in> set ps"
    with Cons.prems(2) have "fst q \<in> set (ox_queued_event_ids s) \<or> fst q \<in> fst ` set (ox_retained s)"
      by simp
    then show "fst q \<in> set (ox_queued_event_ids (promote_one s p))
      \<or> fst q \<in> fst ` set (ox_retained (promote_one s p))"
      by (simp only: p promote_one_queues dict_pop_keys e split: if_split) auto
  qed
  with Cons have "load (foldl promote_one (promote_one s p) ps) \<le> load (promote_one s p)"
    by simp
  with step show ?case by simp
qed simp

subsection \<open>Taking the next event\<close>

text \<open>
  The loop of \<open>get\<close>. The inner option is \<open>None\<close> where the code would wait for a ticket; a
  ticket whose event is gone is skipped. The outer option is the loop itself: that it always
  ends on a consistent outbox is \<open>get_event_total\<close>.
\<close>

partial_function (option) get_event :: "outbox \<Rightarrow> (outbox \<times> outbox_event option) option" where
  [code]: "get_event s =
     (let s1 = promote_retained s
      in case ox_ready s1 of
        [] \<Rightarrow> Some (s1, None)
      | t # ts \<Rightarrow>
          (let event_id = snd (snd t);
               s2 = s1\<lparr>ox_ready := ts,
                 ox_queued_event_ids := discard event_id (ox_queued_event_ids s1)\<rparr>
           in case dict_get (ox_events_by_id s2) event_id of
               None \<Rightarrow> get_event s2
             | Some e \<Rightarrow> Some (s2, Some e)))"

subsection \<open>Runs and their invariant\<close>

datatype outbox_op =
    PutNowait outbox_event int
  | Enqueue outbox_event int
  | Get
  | Ack string
  | Retry string "string option" int
  | DeadLetter string "string option"

text \<open>One call; a raised \<open>KeyError\<close> leaves the outbox as it is.\<close>

fun outbox_step :: "outbox \<Rightarrow> outbox_op \<Rightarrow> outbox" where
  "outbox_step s (PutNowait e now) = put_nowait s e now"
| "outbox_step s (Enqueue e now) = enqueue s e now"
| "outbox_step s Get = (case get_event s of Some (s', r) \<Rightarrow> s' | None \<Rightarrow> s)"
| "outbox_step s (Ack i) = ack s i"
| "outbox_step s (Retry i err now) = (case retry s i err now of Inr (s', r) \<Rightarrow> s' | Inl x \<Rightarrow> s)"
| "outbox_step s (DeadLetter i err) = (case dead_letter s i err of Inr (s', r) \<Rightarrow> s' | Inl x \<Rightarrow> s)"

text \<open>Event ids are generated by \<open>uuid4\<close>: a new event has an id the outbox has not seen.\<close>

definition fresh_id :: "outbox \<Rightarrow> string \<Rightarrow> bool" where
  "fresh_id s i \<longleftrightarrow> dict_get (ox_events_by_id s) i = None \<and> dict_get (ox_retained s) i = None
     \<and> i \<notin> set (dict_values (ox_merge_index s))"

fun fresh_op :: "outbox \<Rightarrow> outbox_op \<Rightarrow> bool" where
  "fresh_op s (PutNowait e now) = fresh_id s (oe_event_id e)"
| "fresh_op s (Enqueue e now) = fresh_id s (oe_event_id e)"
| "fresh_op s op = True"

inductive outbox_reachable :: "outbox \<Rightarrow> bool" where
  outbox_new: "outbox_reachable (new_outbox n r t d)"
| outbox_next: "outbox_reachable s \<Longrightarrow> fresh_op s op \<Longrightarrow> outbox_reachable (outbox_step s op)"

definition outbox_inv :: "outbox \<Rightarrow> bool" where
  "outbox_inv s \<longleftrightarrow> keyed oe_event_id (ox_retained s) \<and> keyed oe_event_id (ox_events_by_id s)
     \<and> (\<forall>i e. dict_get (ox_retained s) i = Some e \<longrightarrow> dict_get (ox_events_by_id s) i \<in> {None, Some e})
     \<and> (\<forall>k i e. dict_get (ox_merge_index s) k = Some i \<longrightarrow>
          (dict_get (ox_events_by_id s) i = Some e \<or> dict_get (ox_retained s) i = Some e)
          \<longrightarrow> \<not> is_critical e)"

lemma merge_key_not_critical: "oe_merge_key e = Some k \<Longrightarrow> \<not> is_critical e"
  by (auto simp: oe_merge_key_def is_critical_def Let_def split: if_splits)

lemma retry_simps [simp]:
  "oe_event_id (with_retry e x) = oe_event_id e" "is_critical (with_retry e x) = is_critical e"
  "oe_merge_key (with_retry e x) = oe_merge_key e"
  by (simp_all add: with_retry_def is_critical_def oe_merge_key_def Let_def)

lemma merge_events_simps [simp]: "oe_event_id (merge_events c e) = oe_event_id c"
  by (simp add: merge_events_def)

lemma merge_events_critical: "\<not> is_critical c \<Longrightarrow> \<not> is_critical e \<Longrightarrow> \<not> is_critical (merge_events c e)"
  by (simp add: merge_events_def is_critical_def)

lemma drop_merge_entry_get:
  "dict_get (drop_merge_entry mi e i) k = Some j \<Longrightarrow> dict_get mi k = Some j"
  by (auto simp: drop_merge_entry_def dict_get_pop split: option.splits if_splits)

lemma index_event_get:
  "dict_get (index_event s e) k = Some j \<Longrightarrow>
     dict_get (ox_merge_index s) k = Some j \<or> oe_merge_key e = Some k \<and> j = oe_event_id e"
  by (auto simp: index_event_def dict_get_set split: option.splits if_splits)

text \<open>Removing events, tickets and index entries keeps the invariant.\<close>

lemma outbox_inv_shrink:
  assumes "outbox_inv s"
    and "keyed oe_event_id (ox_retained s')" "keyed oe_event_id (ox_events_by_id s')"
    and "\<And>i e. dict_get (ox_retained s') i = Some e \<Longrightarrow> dict_get (ox_retained s) i = Some e"
    and "\<And>i. dict_get (ox_events_by_id s') i \<in> {None, dict_get (ox_events_by_id s) i}"
    and "\<And>k j. dict_get (ox_merge_index s') k = Some j \<Longrightarrow> dict_get (ox_merge_index s) k = Some j"
  shows "outbox_inv s'"
  unfolding outbox_inv_def
proof (intro conjI allI impI)
  fix i e assume "dict_get (ox_retained s') i = Some e"
  with assms(4) have "dict_get (ox_retained s) i = Some e" .
  with assms(1) have "dict_get (ox_events_by_id s) i \<in> {None, Some e}" by (auto simp: outbox_inv_def)
  with assms(5) [of i] show "dict_get (ox_events_by_id s') i \<in> {None, Some e}" by auto
next
  fix k i e
  assume k: "dict_get (ox_merge_index s') k = Some i"
    and e: "dict_get (ox_events_by_id s') i = Some e \<or> dict_get (ox_retained s') i = Some e"
  from e assms(4,5) [of i] have "dict_get (ox_events_by_id s) i = Some e \<or> dict_get (ox_retained s) i = Some e"
    by auto
  with assms(1) assms(6) [OF k] show "\<not> is_critical e" by (auto simp: outbox_inv_def)
qed (fact assms)+

lemma outbox_inv_bury: "outbox_inv s \<Longrightarrow> outbox_inv (bury r s p)"
  by (rule outbox_inv_shrink, assumption)
    (auto simp: bury_def outbox_inv_def dict_get_pop split: prod.splits if_splits dest: drop_merge_entry_get)

lemma outbox_inv_fields:
  "ox_retained s' = ox_retained s \<Longrightarrow> ox_events_by_id s' = ox_events_by_id s \<Longrightarrow>
     ox_merge_index s' = ox_merge_index s \<Longrightarrow> outbox_inv s' = outbox_inv s"
  by (simp add: outbox_inv_def)

lemma trim_simps [simp]:
  "ox_retained (trim_dead_letters s) = ox_retained s"
  "ox_events_by_id (trim_dead_letters s) = ox_events_by_id s"
  "ox_merge_index (trim_dead_letters s) = ox_merge_index s"
  "ox_retained_ttl (trim_dead_letters s) = ox_retained_ttl s"
  "ox_queued_event_ids (trim_dead_letters s) = ox_queued_event_ids s"
  "outbox_inv (trim_dead_letters s) = outbox_inv s"
  by (simp_all add: trim_dead_letters_def Let_def outbox_inv_def)

lemma bury_simps [simp]:
  "ox_retained_ttl (bury r s p) = ox_retained_ttl s"
  "ox_queued_event_ids (bury r s p) = ox_queued_event_ids s"
  by (simp_all add: bury_def split: prod.split)

lemma evict_overflow_inv: "outbox_inv s \<Longrightarrow> outbox_inv (evict_overflow s)"
proof (induction s rule: evict_overflow.induct)
  case (1 s)
  then show ?case
    by (subst evict_overflow.simps) (auto simp: outbox_inv_bury split: list.split)
qed

lemma foldl_bury_inv: "outbox_inv s \<Longrightarrow> outbox_inv (foldl (bury r) s ps)"
  by (induction ps arbitrary: s) (simp_all add: outbox_inv_bury)

lemma expire_inv: "outbox_inv s \<Longrightarrow> outbox_inv (expire_retained s now)"
  by (simp add: expire_retained_def foldl_bury_inv split: option.split)

lemma enforce_inv: "outbox_inv s \<Longrightarrow> outbox_inv (enforce_retained_capacity s now)"
  by (simp add: enforce_retained_capacity_def Let_def evict_overflow_inv expire_inv)

text \<open>Storing an event that no index entry contradicts keeps it.\<close>

definition storable :: "outbox \<Rightarrow> outbox_event \<Rightarrow> bool" where
  "storable s e \<longleftrightarrow> (is_critical e \<longrightarrow> (\<forall>k. dict_get (ox_merge_index s) k \<noteq> Some (oe_event_id e)))"

lemma store_inv:
  assumes "outbox_inv s" "storable s e"
    and "ox_events_by_id s' = dict_set (ox_events_by_id s) (oe_event_id e) e"
    and "ox_retained s' = dict_set (ox_retained s) (oe_event_id e) e
       \<or> ox_retained s' = dict_pop (ox_retained s) (oe_event_id e)"
    and "ox_merge_index s' = index_event s e"
  shows "outbox_inv s'"
  unfolding outbox_inv_def
proof (intro conjI allI impI)
  show "keyed oe_event_id (ox_retained s')" "keyed oe_event_id (ox_events_by_id s')"
    using assms by (auto simp: outbox_inv_def)
next
  fix i x assume x: "dict_get (ox_retained s') i = Some x"
  have "dict_get (ox_retained s) i = Some x \<Longrightarrow> dict_get (ox_events_by_id s) i \<in> {None, Some x}"
    using assms(1) unfolding outbox_inv_def by blast
  with x assms(3,4) show "dict_get (ox_events_by_id s') i \<in> {None, Some x}"
    by (auto simp: dict_get_simps split: if_splits)
next
  fix k i x
  assume k: "dict_get (ox_merge_index s') k = Some i"
    and x: "dict_get (ox_events_by_id s') i = Some x \<or> dict_get (ox_retained s') i = Some x"
  show "\<not> is_critical x"
  proof (cases "i = oe_event_id e")
    case True
    with x assms(3,4) have "x = e" by (auto simp: dict_get_simps)
    with k True assms(2,5) show ?thesis
      by (auto simp: storable_def dest!: index_event_get dest: merge_key_not_critical)
  next
    case False
    with k have "dict_get (ox_merge_index s) k = Some i"
      unfolding assms(5) by (auto dest: index_event_get)
    with x False assms(1,3,4) show ?thesis by (auto simp: outbox_inv_def dict_get_simps)
  qed
qed

lemma store_pending_inv: "outbox_inv s \<Longrightarrow> storable s e \<Longrightarrow> outbox_inv (store_pending s e)"
  by (rule store_inv, assumption+) (simp_all add: store_pending_def)

lemma store_retained_inv: "outbox_inv s \<Longrightarrow> storable s e \<Longrightarrow> outbox_inv (store_retained s e now)"
  unfolding store_retained_def by (intro enforce_inv, rule store_inv, assumption+) simp_all

lemma storable_fresh: "fresh_id s (oe_event_id e) \<Longrightarrow> storable s e"
  by (force simp: storable_def fresh_id_def dict_values_def dict_get_def dest: map_of_SomeD)

lemma known_event_id:
  "outbox_inv s \<Longrightarrow> known_event s i = Some c \<Longrightarrow> oe_event_id c = i"
  by (cases "dict_get (ox_events_by_id s) i")
    (auto simp: known_event_def outbox_inv_def dest: keyed_get)

lemma known_event_Some:
  "known_event s i = Some c \<Longrightarrow> dict_get (ox_events_by_id s) i = Some c \<or> dict_get (ox_retained s) i = Some c"
  by (cases "dict_get (ox_events_by_id s) i") (auto simp: known_event_def)

lemma merge_target_Some:
  assumes "outbox_inv s" "merge_target s e = Some c"
  shows "\<not> is_critical c" "\<not> is_critical e"
    "\<exists>k. dict_get (ox_merge_index s) k = Some (oe_event_id c)"
proof -
  from assms(2) obtain k i where k: "oe_merge_key e = Some k" "dict_get (ox_merge_index s) k = Some i"
    "known_event s i = Some c"
    by (auto simp: merge_target_def split: option.splits)
  then show "\<not> is_critical c" "\<not> is_critical e"
    using assms(1) known_event_Some [OF k(3)] by (auto simp: outbox_inv_def dest: merge_key_not_critical)
  show "\<exists>k. dict_get (ox_merge_index s) k = Some (oe_event_id c)"
    using k known_event_id [OF assms(1) k(3)] by blast
qed

lemma store_merged_inv:
  assumes "outbox_inv s" "merge_target s e = Some c"
  shows "outbox_inv (store_merged s c e now)"
proof -
  have "storable s (merge_events c e)"
    using merge_events_critical [OF merge_target_Some(1,2) [OF assms]] by (simp add: storable_def)
  then show ?thesis using assms(1)
    by (simp add: store_merged_def store_pending_inv store_retained_inv)
qed

lemma put_ticket_inv [simp]: "outbox_inv (put_ticket s e) = outbox_inv s"
  "storable (put_ticket s e) x = storable s x"
  by (simp_all add: outbox_inv_def storable_def)

lemma enqueue_ready_inv:
  "enqueue_ready s e = (s1, b) \<Longrightarrow> outbox_inv s1 = outbox_inv s \<and> storable s1 x = storable s x
     \<and> ox_events_by_id s1 = ox_events_by_id s \<and> ox_merge_index s1 = ox_merge_index s
     \<and> ox_retained s1 = ox_retained s \<and> ox_retained_ttl s1 = ox_retained_ttl s"
proof -
  assume e: "enqueue_ready s e = (s1, b)"
  then have f: "ox_events_by_id s1 = ox_events_by_id s" "ox_merge_index s1 = ox_merge_index s"
    "ox_retained s1 = ox_retained s" "ox_retained_ttl s1 = ox_retained_ttl s"
    by (auto simp: enqueue_ready_cases split: if_splits)
  then show ?thesis using outbox_inv_fields [of s1 s] by (simp add: storable_def)
qed

lemma put_nowait_inv: "outbox_inv s \<Longrightarrow> storable s e \<Longrightarrow> outbox_inv (put_nowait s e now)"
  by (auto simp: put_nowait_def store_pending_inv store_retained_inv intro: store_merged_inv split: option.split)

lemma enqueue_inv: "outbox_inv s \<Longrightarrow> storable s e \<Longrightarrow> outbox_inv (enqueue s e now)"
  by (auto simp: enqueue_def store_pending_inv store_retained_inv enqueue_ready_inv
      intro: store_merged_inv split: option.split prod.split bool.split)

lemma promote_one_inv: "outbox_inv s \<Longrightarrow> outbox_inv (promote_one s p)"
proof (cases p)
  case (Pair i e)
  assume inv: "outbox_inv s"
  have "outbox_inv (s\<lparr>ox_retained := dict_pop (ox_retained s) i\<rparr>)"
    by (rule outbox_inv_shrink [OF inv])
      (use inv in \<open>auto simp: outbox_inv_def dict_get_pop split: if_splits\<close>)
  then show ?thesis using inv
    using outbox_inv_fields [of "promote_one s p" s]
      outbox_inv_fields [of "promote_one s p" "s\<lparr>ox_retained := dict_pop (ox_retained s) i\<rparr>"]
    by (cases "i \<in> set (ox_queued_event_ids s) \<or> ready_full s") (simp_all add: Pair promote_one_queues)
qed

lemma promote_retained_inv: "outbox_inv s \<Longrightarrow> outbox_inv (promote_retained s)"
proof -
  have "outbox_inv s \<Longrightarrow> outbox_inv (foldl promote_one s ps)" for ps
    by (induction ps arbitrary: s) (simp_all add: promote_one_inv)
  then show "outbox_inv s \<Longrightarrow> outbox_inv (promote_retained s)" by (simp add: promote_retained_def)
qed

lemma ack_inv: "outbox_inv s \<Longrightarrow> outbox_inv (ack s i)"
  unfolding ack_def
  by (rule promote_retained_inv, rule outbox_inv_shrink, assumption)
    (auto simp: outbox_inv_def dict_get_pop split: option.splits if_splits dest: drop_merge_entry_get)

lemma promote_load: "outbox_inv s \<Longrightarrow> load (promote_retained s) \<le> load s"
  unfolding promote_retained_def
  by (auto simp: outbox_inv_def keyed_def intro!: foldl_promote_load)

lemma promote_one_sorted: "sorted (ox_ready s) \<Longrightarrow> sorted (ox_ready (promote_one s p))"
  by (cases p) (simp add: promote_one_def enqueue_ready_cases put_ticket_def sorted_insort)

lemma promote_sorted: "sorted (ox_ready s) \<Longrightarrow> sorted (ox_ready (promote_retained s))"
proof -
  have "sorted (ox_ready s) \<Longrightarrow> sorted (ox_ready (foldl promote_one s ps))" for ps
    by (induction ps arbitrary: s) (simp_all add: promote_one_sorted)
  then show "sorted (ox_ready s) \<Longrightarrow> sorted (ox_ready (promote_retained s))"
    by (simp add: promote_retained_def)
qed

text \<open>
  \<open>get\<close> always ends; it leaves the events and the dead letters alone, hands out a stored event
  through its least ticket, and waits only when no ticket is left.
\<close>

lemma get_event_total:
  assumes "outbox_inv s" "sorted (ox_ready s)"
  shows "\<exists>s' r. get_event s = Some (s', r) \<and> outbox_inv s' \<and> sorted (ox_ready s')
    \<and> ox_events_by_id s' = ox_events_by_id s \<and> ox_dead_letters s' = ox_dead_letters s
    \<and> (case r of
         None \<Rightarrow> ox_ready s' = []
       | Some e \<Rightarrow> \<exists>p n i. dict_get (ox_events_by_id s) i = Some e
           \<and> (\<forall>t' \<in> set (ox_ready s'). (p, n, i) \<le> t'))"
  using assms
proof (induction "load s" arbitrary: s rule: less_induct)
  case less
  let ?s1 = "promote_retained s"
  have inv: "outbox_inv ?s1" and sd: "sorted (ox_ready ?s1)"
    using less.prems by (simp_all add: promote_retained_inv promote_sorted)
  show ?case
  proof (cases "ox_ready ?s1")
    case Nil
    then show ?thesis using inv by (simp add: get_event.simps)
  next
    case (Cons t ts)
    let ?id = "snd (snd t)"
    let ?s2 = "?s1\<lparr>ox_ready := ts, ox_queued_event_ids := discard ?id (ox_queued_event_ids ?s1)\<rparr>"
    have inv2: "outbox_inv ?s2" by (rule outbox_inv_fields [THEN iffD2, OF _ _ _ inv]) simp_all
    have sd2: "sorted (ox_ready ?s2)" "\<forall>t' \<in> set ts. t \<le> t'" using sd Cons by simp_all
    show ?thesis
    proof (cases "dict_get (ox_events_by_id s) ?id")
      case None
      have "load ?s2 < load ?s1" using Cons by (simp add: load_def)
      then have "load ?s2 < load s" using promote_load [OF less.prems(1)] by simp
      note ih = less.hyps [OF this inv2 sd2(1)]
      have ev: "ox_events_by_id ?s2 = ox_events_by_id s" "ox_dead_letters ?s2 = ox_dead_letters s"
        by simp_all
      have "get_event s = get_event ?s2" using Cons None by (subst get_event.simps) (simp add: Let_def)
      then show ?thesis using ih unfolding ev by simp
    next
      case (Some e)
      obtain p n i where t: "t = (p, n, i)" by (cases t)
      have "get_event s = Some (?s2, Some e)"
        using Cons Some by (subst get_event.simps) (simp add: Let_def)
      then show ?thesis using Some inv2 sd2 by (auto simp: t)
    qed
  qed
qed

text \<open>Tickets and the configuration across the storing operations.\<close>

lemma evict_overflow_ready [simp]:
  "ox_ready (evict_overflow s) = ox_ready s" "ox_retained_ttl (evict_overflow s) = ox_retained_ttl s"
proof (induction s rule: evict_overflow.induct)
  case (1 s)
  { case 1 then show ?case by (subst evict_overflow.simps)
      (use "1.IH" in \<open>simp add: bury_def trim_dead_letters_def Let_def split: list.split prod.split\<close>) }
  { case 2 then show ?case by (subst evict_overflow.simps)
      (use "1.IH" in \<open>simp split: list.split\<close>) }
qed

lemma foldl_bury_ready [simp]:
  "ox_ready (foldl (bury r) s ps) = ox_ready s"
  "ox_retained_ttl (foldl (bury r) s ps) = ox_retained_ttl s"
  by (induction ps arbitrary: s) (simp_all add: bury_def split: prod.split)

lemma store_ready [simp]:
  "ox_ready (store_pending s e) = ox_ready s" "ox_ready (store_retained s e now) = ox_ready s"
  "ox_retained_ttl (store_pending s e) = ox_retained_ttl s"
  "ox_retained_ttl (store_retained s e now) = ox_retained_ttl s"
  by (simp_all add: store_pending_def store_retained_def enforce_retained_capacity_def
      expire_retained_def trim_dead_letters_def Let_def split: option.split)

lemma put_ticket_sorted: "sorted (ox_ready s) \<Longrightarrow> sorted (ox_ready (put_ticket s e))"
  by (simp add: put_ticket_def sorted_insort)

lemma enqueue_ready_sorted:
  "enqueue_ready s e = (s1, b) \<Longrightarrow> sorted (ox_ready s) \<Longrightarrow> sorted (ox_ready s1)"
  by (auto simp: enqueue_ready_cases put_ticket_def sorted_insort split: if_splits)

lemma retry_result:
  assumes "retry s i err now = Inr (s', x)"
  shows "(\<exists>c. known_event s i = Some c \<and> x = with_retry c err)
    \<and> s' = (if i \<in> set (ox_queued_event_ids s) then store_pending s x
       else (case enqueue_ready (store_retained s x now) x of (s1, b) \<Rightarrow>
         if b then s1\<lparr>ox_retained := dict_pop (ox_retained s1) i\<rparr> else store_retained s1 x now))"
  using assms by (auto simp: retry_def Let_def split: option.splits if_splits prod.splits bool.splits)

lemma pop_retained_inv: "outbox_inv s \<Longrightarrow> outbox_inv (s\<lparr>ox_retained := dict_pop (ox_retained s) i\<rparr>)"
  by (rule outbox_inv_shrink, assumption)
    (auto simp: outbox_inv_def dict_get_pop split: if_splits)

lemma storable_index: "outbox_inv s \<Longrightarrow> known_event s i = Some c \<Longrightarrow> storable s (with_retry c err)"
  using known_event_id [of s i c] known_event_Some [of s i c]
  by (auto simp: storable_def outbox_inv_def)

lemma bury_index:
  "dict_get (ox_merge_index (bury r s p)) k = Some j \<Longrightarrow> dict_get (ox_merge_index s) k = Some j"
  by (auto simp: bury_def split: prod.splits dest: drop_merge_entry_get)

lemma evict_overflow_index:
  "dict_get (ox_merge_index (evict_overflow s)) k = Some j \<Longrightarrow> dict_get (ox_merge_index s) k = Some j"
proof (induction s rule: evict_overflow.induct)
  case (1 s)
  from "1.prems" show ?case
    by (subst (asm) evict_overflow.simps) (auto split: list.splits if_splits dest!: "1.IH" bury_index)
qed

lemma foldl_bury_index:
  "dict_get (ox_merge_index (foldl (bury r) s ps)) k = Some j \<Longrightarrow> dict_get (ox_merge_index s) k = Some j"
  by (induction ps arbitrary: s) (auto dest!: bury_index)

lemma enforce_index:
  "dict_get (ox_merge_index (enforce_retained_capacity s now)) k = Some j \<Longrightarrow>
     dict_get (ox_merge_index s) k = Some j"
  by (auto simp: enforce_retained_capacity_def expire_retained_def Let_def
      dest!: evict_overflow_index foldl_bury_index split: if_splits option.splits)

lemma storable_again:
  assumes "storable s x" shows "storable (store_retained s x now) x"
  unfolding storable_def
proof (intro impI allI notI)
  fix k assume c: "is_critical x"
    and "dict_get (ox_merge_index (store_retained s x now)) k = Some (oe_event_id x)"
  then have "dict_get (index_event s x) k = Some (oe_event_id x)"
    unfolding store_retained_def by (auto dest: enforce_index)
  then have "dict_get (ox_merge_index s) k = Some (oe_event_id x)"
    using c by (auto dest!: index_event_get dest: merge_key_not_critical)
  with assms c show False by (simp add: storable_def)
qed

lemma retry_inv:
  assumes "outbox_inv s" "retry s i err now = Inr (s', x)"
  shows "outbox_inv s'"
proof -
  obtain c where c: "known_event s i = Some c" "x = with_retry c err"
    using retry_result [OF assms(2)] by blast
  have st: "storable s x" using storable_index [OF assms(1) c(1)] c(2) by simp
  obtain s1 b where e: "enqueue_ready (store_retained s x now) x = (s1, b)" by fastforce
  have i1: "outbox_inv s1" "storable s1 x"
    using enqueue_ready_inv [OF e] store_retained_inv [OF assms(1) st] storable_again [OF st] by simp_all
  show ?thesis
    using retry_result [OF assms(2)] e st i1 assms(1)
    by (cases "i \<in> set (ox_queued_event_ids s)")
      (simp_all add: store_pending_inv store_retained_inv pop_retained_inv)
qed

lemma dead_letter_inv:
  assumes "outbox_inv s" "dead_letter s i err = Inr (s', x)"
  shows "outbox_inv s'"
proof (rule outbox_inv_shrink [OF assms(1)])
qed (use assms in \<open>auto simp: dead_letter_def finish_dead_letter_def Let_def outbox_inv_def dict_get_pop
    split: option.splits if_splits dest: drop_merge_entry_get\<close>)

lemma outbox_step_inv:
  assumes "outbox_inv s" "sorted (ox_ready s)" "fresh_op s op"
  shows "outbox_inv (outbox_step s op)"
proof (cases op)
  case Get
  obtain s' r where "get_event s = Some (s', r)" "outbox_inv s'"
    using get_event_total [OF assms(1,2)] by blast
  then show ?thesis using Get by simp
qed (use assms in \<open>auto simp: ack_inv put_nowait_inv enqueue_inv storable_fresh
    dest: retry_inv dead_letter_inv split: sum.split prod.split\<close>)

lemma outbox_step_sorted:
  assumes "outbox_inv s" "sorted (ox_ready s)"
  shows "sorted (ox_ready (outbox_step s op))"
proof (cases op)
  case Get
  obtain s' r where "get_event s = Some (s', r)" "sorted (ox_ready s')"
    using get_event_total [OF assms] by blast
  then show ?thesis using Get by simp
next
  case (Retry i err now)
  show ?thesis
  proof (cases "retry s i err now")
    case (Inr p)
    obtain s' x where p: "p = (s', x)" by (cases p)
    obtain s1 b where e: "enqueue_ready (store_retained s x now) x = (s1, b)" by fastforce
    then have "sorted (ox_ready s1)" using enqueue_ready_sorted assms(2) by fastforce
    then have "sorted (ox_ready s')"
      using retry_result [OF Inr [unfolded p]] e assms(2) by simp
    then show ?thesis using Retry Inr p by simp
  qed (use assms Retry in simp)
qed (use assms in \<open>auto simp: put_nowait_def enqueue_def store_merged_def ack_def dead_letter_def
    finish_dead_letter_def trim_dead_letters_def Let_def put_ticket_sorted promote_sorted
    split: option.split prod.split bool.split sum.split dest: enqueue_ready_sorted\<close>)

lemma outbox_reachable_inv: "outbox_reachable s \<Longrightarrow> outbox_inv s \<and> sorted (ox_ready s)"
proof (induction rule: outbox_reachable.induct)
  case (outbox_new n r t d)
  show ?case by (simp add: new_outbox_def outbox_inv_def)
next
  case (outbox_next s op)
  then show ?case by (simp add: outbox_step_inv outbox_step_sorted)
qed

subsection \<open>Critical events stay\<close>

definition holds_critical :: "outbox \<Rightarrow> string \<Rightarrow> bool" where
  "holds_critical s i \<longleftrightarrow> (case dict_get (ox_events_by_id s) i of None \<Rightarrow> False | Some e \<Rightarrow> is_critical e)"

lemma holds_critical_events:
  "ox_events_by_id s' = ox_events_by_id s \<Longrightarrow> holds_critical s' i = holds_critical s i"
  by (simp add: holds_critical_def)

lemma bury_keeps:
  assumes "outbox_inv s" "holds_critical s i" "p \<in> set (evictable s)"
  shows "holds_critical (bury r s p) i"
proof -
  obtain j e where p: "p = (j, e)" by (cases p)
  then have "(j, e) \<in> set (ox_retained s)" "\<not> is_critical e"
    using assms(3) by (auto simp: evictable_def)
  then have "dict_get (ox_retained s) j = Some e"
    using assms(1) by (auto simp: outbox_inv_def keyed_def pd.entries_get)
  then have "dict_get (ox_events_by_id s) j \<in> {None, Some e}"
    using assms(1) unfolding outbox_inv_def by blast
  then have "j \<noteq> i" using assms(2) \<open>\<not> is_critical e\<close> by (auto simp: holds_critical_def)
  then show ?thesis using assms(2) by (simp add: p bury_def holds_critical_def dict_get_pop)
qed

lemma evict_keeps: "outbox_inv s \<Longrightarrow> holds_critical s i \<Longrightarrow> holds_critical (evict_overflow s) i"
proof (induction s rule: evict_overflow.induct)
  case (1 s)
  show ?case
  proof (cases "int (length (ox_retained s)) > ox_retained_max_size s \<and> evictable s \<noteq> []")
    case True
    then obtain p ps where e: "evictable s = p # ps" by (cases "evictable s") auto
    then have "pick_max p ps \<in> set (evictable s)" using pick_max_in by simp
    then show ?thesis
      using 1 True e by (subst evict_overflow.simps) (simp add: outbox_inv_bury bury_keeps)
  next
    case False
    then show ?thesis using 1 by (subst evict_overflow.simps)
      (auto simp: holds_critical_def split: list.split)
  qed
qed

lemma enforce_keeps:
  "outbox_inv s \<Longrightarrow> ox_retained_ttl s = None \<Longrightarrow> holds_critical s i \<Longrightarrow>
     holds_critical (enforce_retained_capacity s now) i"
  by (simp add: enforce_retained_capacity_def expire_retained_def evict_keeps)

lemma store_pending_keeps:
  "holds_critical s i \<and> oe_event_id x \<noteq> i \<or> oe_event_id x = i \<and> is_critical x \<Longrightarrow>
     holds_critical (store_pending s x) i"
  by (auto simp: holds_critical_def store_pending_def dict_get_set)

lemma store_retained_keeps:
  assumes "outbox_inv s" "storable s x" "ox_retained_ttl s = None"
    and "holds_critical s i \<and> oe_event_id x \<noteq> i \<or> oe_event_id x = i \<and> is_critical x"
  shows "holds_critical (store_retained s x now) i"
  unfolding store_retained_def
proof (rule enforce_keeps)
  show "outbox_inv (s\<lparr>ox_events_by_id := dict_set (ox_events_by_id s) (oe_event_id x) x,
      ox_retained := dict_set (ox_retained s) (oe_event_id x) x, ox_merge_index := index_event s x\<rparr>)"
    by (rule store_inv [OF assms(1,2)]) simp_all
qed (use assms in \<open>auto simp: holds_critical_def dict_get_set\<close>)

lemma store_merged_keeps:
  assumes "outbox_inv s" "ox_retained_ttl s = None" "holds_critical s i" "merge_target s e = Some c"
  shows "holds_critical (store_merged s c e now) i"
proof -
  have ncm: "\<not> is_critical (merge_events c e)"
    using merge_events_critical [OF merge_target_Some(1,2) [OF assms(1,4)]] .
  then have st: "storable s (merge_events c e)" by (simp add: storable_def)
  obtain k where "dict_get (ox_merge_index s) k = Some (oe_event_id c)"
    using merge_target_Some(3) [OF assms(1,4)] by blast
  then have "oe_event_id c \<noteq> i"
    using assms(1,3) by (auto simp: holds_critical_def outbox_inv_def split: option.splits)
  then show ?thesis
    using assms st by (simp add: store_merged_def store_pending_keeps store_retained_keeps)
qed

lemma put_keeps:
  assumes "outbox_inv s" "ox_retained_ttl s = None" "fresh_id s (oe_event_id e)"
    and "holds_critical s i \<or> oe_event_id e = i \<and> is_critical e"
  shows "holds_critical (put_nowait s e now) i" "holds_critical (enqueue s e now) i"
proof -
  note st = storable_fresh [OF assms(3)]
  have ne: "holds_critical s i \<Longrightarrow> oe_event_id e \<noteq> i"
    using assms(3) by (auto simp: fresh_id_def holds_critical_def)
  have c: "merge_target s e = Some c \<Longrightarrow> holds_critical s i" for c
    using assms(4) merge_target_Some(2) [OF assms(1)] by blast
  have pt: "holds_critical (put_ticket s e) i = holds_critical s i"
    by (rule holds_critical_events) simp
  show "holds_critical (put_nowait s e now) i"
    using assms ne c st pt
    by (auto simp: put_nowait_def store_merged_keeps store_pending_keeps store_retained_keeps
        split: option.split)
  show "holds_critical (enqueue s e now) i"
  proof (cases "merge_target s e")
    case None
    obtain s1 b where e: "enqueue_ready s e = (s1, b)" by fastforce
    have h1: "holds_critical s1 i = holds_critical s i"
      using enqueue_ready_inv [OF e] by (intro holds_critical_events) simp
    show ?thesis
      using None e enqueue_ready_inv [OF e] h1 assms ne st
      by (cases b) (auto simp: enqueue_def store_pending_keeps store_retained_keeps)
  qed (use assms c in \<open>simp add: enqueue_def store_merged_keeps\<close>)
qed

lemma retry_keeps:
  assumes "outbox_inv s" "ox_retained_ttl s = None" "holds_critical s i" "retry s j err now = Inr (s', x)"
  shows "holds_critical s' i"
proof -
  obtain c where c: "known_event s j = Some c" "x = with_retry c err"
    using retry_result [OF assms(4)] by blast
  have xi: "oe_event_id x = j" using known_event_id [OF assms(1) c(1)] c(2) by simp
  have st: "storable s x" using storable_index [OF assms(1) c(1)] c(2) by simp
  have x: "holds_critical z i \<Longrightarrow> holds_critical z i \<and> oe_event_id x \<noteq> i \<or> oe_event_id x = i \<and> is_critical x" for z
    using c assms(3) xi by (auto simp: holds_critical_def known_event_def split: option.splits)
  obtain s1 b where e: "enqueue_ready (store_retained s x now) x = (s1, b)" by fastforce
  have h: "holds_critical (store_retained s x now) i"
    using store_retained_keeps [OF assms(1) st assms(2) x [OF assms(3)]] .
  then have h1: "holds_critical s1 i" using enqueue_ready_inv [OF e] by (simp add: holds_critical_def)
  have i1: "outbox_inv s1" "storable s1 x" "ox_retained_ttl s1 = None"
    using enqueue_ready_inv [OF e] store_retained_inv [OF assms(1) st] storable_again [OF st] assms(2)
    by simp_all
  have h2: "holds_critical (store_retained s1 x now) i"
    using store_retained_keeps [OF i1(1,2,3) x [OF h1]] .
  have h3: "holds_critical (store_pending s x) i" using store_pending_keeps [OF x [OF assms(3)]] .
  show ?thesis using retry_result [OF assms(4)] e h1 h2 h3 by (auto simp: holds_critical_def)
qed

lemma ack_other: "dict_get (ox_events_by_id s) i = None \<Longrightarrow> dict_get (ox_events_by_id (ack s j)) i = None"
  "i \<noteq> j \<Longrightarrow> dict_get (ox_events_by_id (ack s j)) i = dict_get (ox_events_by_id s) i"
  by (simp_all add: ack_def dict_get_pop)

lemma promote_retained_get:
  "dict_get (ox_retained s) i = None \<Longrightarrow> dict_get (ox_retained (promote_retained s)) i = None"
proof -
  have "dict_get (ox_retained s) i = None \<Longrightarrow> dict_get (ox_retained (foldl promote_one s ps)) i = None" for ps
  proof (induction ps arbitrary: s)
    case (Cons p ps)
    have "dict_get (ox_retained (promote_one s p)) i = None"
      using Cons.prems by (cases p) (simp add: promote_one_queues dict_get_pop)
    with Cons.IH show ?case by simp
  qed simp
  then show "dict_get (ox_retained s) i = None \<Longrightarrow> dict_get (ox_retained (promote_retained s)) i = None"
    by (simp add: promote_retained_def)
qed

text \<open>Storing into a retained area with room buries nothing.\<close>

lemma length_dict_set: "length (dict_set d k v) \<le> Suc (length d)"
  by (induction d) (auto simp: dict_set_def)

lemma store_retained_room:
  assumes "ox_retained_ttl s = None" "int (length (ox_retained s)) < ox_retained_max_size s"
    and "ox_dead_letter_max_size s \<le> 0 \<or> int (length (ox_dead_letters s)) \<le> ox_dead_letter_max_size s"
  shows "store_retained s e now = s\<lparr>ox_events_by_id := dict_set (ox_events_by_id s) (oe_event_id e) e,
     ox_retained := dict_set (ox_retained s) (oe_event_id e) e, ox_merge_index := index_event s e\<rparr>"
proof -
  have "\<not> ox_retained_max_size s < int (length (dict_set (ox_retained s) (oe_event_id e) e))"
    using assms(2) length_dict_set [of "ox_retained s" "oe_event_id e" e] by linarith
  then show ?thesis
    using assms by (auto simp: store_retained_def enforce_retained_capacity_def expire_retained_def
        evict_overflow.simps trim_dead_letters_def Let_def)
qed

subsection \<open>Properties\<close>

definition demo_event :: "string \<Rightarrow> int \<Rightarrow> string \<Rightarrow> outbox_event" where
  "demo_event i p payload = \<lparr>oe_trace_id = ''x'', oe_event_type = ''orderbook'',
     oe_idempotency_key = i, oe_event_id = i, oe_market_slug = Some ''m'', oe_event_slug = None,
     oe_condition_id = None, oe_token_id = None, oe_reason = None, oe_created_at = 0,
     oe_priority = p, oe_retry_count = 0, oe_last_error = None, oe_raw_response_summary = None,
     oe_payload = payload\<rparr>"

definition demo_outbox :: outbox where
  "demo_outbox = outbox_step (new_outbox 1 (Some 1) None None) (PutNowait (demo_event ''a'' 2 ''old'') 0)"

lemma demo_outbox_reachable: "outbox_reachable demo_outbox"
  unfolding demo_outbox_def by (intro outbox_next outbox_new) (simp add: fresh_id_def new_outbox_def dict_values_def)

text \<open>
  C37: Critical events (priority 0 and 1) are never dropped by the outbox. Without a retention
  time limit, an event that is put with critical priority is pending at once, however full the
  queue and the retained area are, and it stays pending with critical priority through every
  operation on any event until it is acknowledged or dead-lettered itself.
\<close>

theorem outbox_critical_until_acked:
  assumes "outbox_reachable s" "ox_retained_ttl s = None" "fresh_op s op"
    and "\<forall>err. op \<noteq> Ack i \<and> op \<noteq> DeadLetter i err"
    and "holds_critical s i
       \<or> (\<exists>e now. (op = PutNowait e now \<or> op = Enqueue e now) \<and> oe_event_id e = i \<and> is_critical e)"
  shows "holds_critical (outbox_step s op) i"
proof -
  note inv = conjunct1 [OF outbox_reachable_inv [OF assms(1)]]
    and sd = conjunct2 [OF outbox_reachable_inv [OF assms(1)]]
  show ?thesis
  proof (cases op)
    case Get
    obtain s' r where "get_event s = Some (s', r)" "ox_events_by_id s' = ox_events_by_id s"
      using get_event_total [OF inv sd] by blast
    then show ?thesis using Get assms(5) by (simp add: holds_critical_def)
  next
    case (Ack j)
    then show ?thesis using assms(4,5) ack_other(2) [of i j s] by (simp add: holds_critical_def)
  next
    case (Retry j err now)
    then show ?thesis using assms(5) retry_keeps [OF inv assms(2)]
      by (auto split: sum.split)
  next
    case (DeadLetter j err)
    then show ?thesis using assms(4,5)
      by (auto simp: holds_critical_def dead_letter_def finish_dead_letter_def Let_def dict_get_pop
          split: option.splits)
  qed (use assms put_keeps [OF inv assms(2)] in auto)
qed

theorem outbox_critical_until_acked_witness:
  "holds_critical (outbox_step demo_outbox (PutNowait (demo_event ''b'' 0 ''order'') 1)) ''b''"
proof -
  have "ox_retained_ttl demo_outbox = None" "fresh_op demo_outbox (PutNowait (demo_event ''b'' 0 ''order'') 1)"
    by code_simp+
  moreover have "is_critical (demo_event ''b'' 0 ''order'')" "oe_event_id (demo_event ''b'' 0 ''order'') = ''b''"
    by (simp_all add: is_critical_def demo_event_def)
  ultimately show ?thesis
    using outbox_critical_until_acked [OF demo_outbox_reachable] by blast
qed

text \<open>
  Taking the next event always ends on a reachable outbox, changes no stored event, hands out
  a stored event through the ticket with the lowest priority number and the earliest sequence
  number, and waits only when no ticket is left.
\<close>

lemma outbox_get_in_order:
  assumes "outbox_reachable s"
  shows "\<exists>s' r. get_event s = Some (s', r) \<and> ox_events_by_id s' = ox_events_by_id s
    \<and> (case r of
         None \<Rightarrow> ox_ready s' = []
       | Some e \<Rightarrow> \<exists>p n i. dict_get (ox_events_by_id s) i = Some e
           \<and> (\<forall>t' \<in> set (ox_ready s'). (p, n, i) \<le> t'))"
  using outbox_reachable_inv [OF assms] get_event_total [of s] by blast

text \<open>
  An update that merges into an event whose ticket is already gone is lost when that event is
  acknowledged: the merged event is kept only in the retained area under the old id, and the
  acknowledgement of the old id removes it, although it was never handed out. Every other event
  and the dead letters are as before.
\<close>

lemma outbox_merge_lost_on_ack:
  assumes "outbox_reachable s" "ox_retained_ttl s = None"
    and "int (length (ox_retained s)) < ox_retained_max_size s"
    and "ox_dead_letter_max_size s \<le> 0 \<or> int (length (ox_dead_letters s)) \<le> ox_dead_letter_max_size s"
    and "merge_target s e = Some c" "oe_event_id c \<notin> set (ox_queued_event_ids s)"
    and "s' = ack (put_nowait s e now) (oe_event_id c)"
  shows "dict_get (ox_events_by_id (put_nowait s e now)) (oe_event_id c) = Some (merge_events c e)
    \<and> dict_get (ox_events_by_id s') (oe_event_id c) = None
    \<and> dict_get (ox_retained s') (oe_event_id c) = None
    \<and> ox_dead_letters s' = ox_dead_letters s
    \<and> (\<forall>i. i \<noteq> oe_event_id c \<longrightarrow> dict_get (ox_events_by_id s') i = dict_get (ox_events_by_id s) i)"
proof -
  let ?m = "merge_events c e"
  have p: "put_nowait s e now = s\<lparr>ox_events_by_id := dict_set (ox_events_by_id s) (oe_event_id c) ?m,
     ox_retained := dict_set (ox_retained s) (oe_event_id c) ?m, ox_merge_index := index_event s ?m\<rparr>"
    using assms(5,6) store_retained_room [OF assms(2,3,4), of ?m now]
    by (simp add: put_nowait_def store_merged_def)
  show ?thesis
    unfolding assms(7) p
    by (simp add: ack_def dict_get_simps promote_retained_get)
qed

definition demo_in_flight :: outbox where
  "demo_in_flight = foldl outbox_step (new_outbox 10 None None None)
     [PutNowait (demo_event ''a'' 2 ''old'') 0, Get]"

text \<open>
  The bound on the dead letters does not hold: while the retained area holds more critical
  events than its capacity and the ready queue is full, every further event that is not critical
  goes straight to the dead letters, which grow by one each time whatever their bound.
\<close>

lemma outbox_dead_letters_grow:
  assumes "ox_retained_ttl s = None" "\<not> has_capacity s" "merge_target s e = None"
    and "fresh_id s (oe_event_id e)" "\<not> is_critical e" "oe_event_id e \<notin> set (ox_queued_event_ids s)"
    and "0 < ox_retained_max_size s" "ox_retained_max_size s < int (length (ox_retained s))"
    and "\<forall>(i, x) \<in> set (ox_retained s). is_critical x"
  shows "ox_retained (put_nowait s e now) = ox_retained s
    \<and> length (ox_dead_letters (put_nowait s e now)) = Suc (length (ox_dead_letters s))"
proof -
  let ?i = "oe_event_id e"
  let ?s1 = "s\<lparr>ox_events_by_id := dict_set (ox_events_by_id s) ?i e,
     ox_retained := dict_set (ox_retained s) ?i e, ox_merge_index := index_event s e\<rparr>"
  let ?s2 = "bury ''retained_low_priority_overflow'' ?s1 (?i, e)"
  have r: "dict_set (ox_retained s) ?i e = ox_retained s @ [(?i, e)]" "dict_pop (ox_retained s) ?i = ox_retained s"
    using assms(4) by (simp_all add: fresh_id_def dict_set_fresh dict_pop_fresh)
  have none: "filter (\<lambda>(i, x). \<not> is_critical x \<and> i \<notin> set (ox_queued_event_ids s)) (ox_retained s) = []"
    using assms(9) by (auto simp: filter_empty_conv)
  have ev1: "evictable ?s1 = [(?i, e)]"
    using none assms(5,6) by (simp add: evictable_def r(1))
  have ret2: "ox_retained ?s2 = ox_retained s"
    by (simp add: bury_def r dict_pop_append) (simp add: dict_pop_def)
  then have ev2: "evictable ?s2 = []" using none by (simp add: evictable_def)
  have max2: "ox_retained_max_size ?s2 = ox_retained_max_size s" by (simp add: bury_def)
  have "evict_overflow ?s2 = ?s2"
    using assms(8) ev2 ret2 max2 by (subst evict_overflow.simps) simp
  moreover have "evict_overflow ?s1 = evict_overflow ?s2"
    using assms(8) ev1 by (subst evict_overflow.simps) (simp add: r(1))
  moreover have "put_nowait s e now = evict_overflow ?s1"
    using assms(1,2,3,7)
    by (simp add: put_nowait_def store_retained_def enforce_retained_capacity_def expire_retained_def)
  ultimately have p: "put_nowait s e now = ?s2" by simp
  show ?thesis using ret2 unfolding p by (simp add: bury_def)
qed

definition demo_full :: outbox where
  "demo_full = foldl outbox_step (new_outbox 1 (Some 1) None (Some 1))
     [PutNowait (demo_event ''a'' 0 ''1'') 0, PutNowait (demo_event ''b'' 0 ''2'') 0,
      PutNowait (demo_event ''c'' 0 ''3'') 0, PutNowait (demo_event ''d'' 2 ''4'') 0]"

end
