(* ===== verification/Decimal_Arith.thy ===== *)
theory Decimal_Arith
  imports Prelude
begin

text \<open>
  Python's \<open>decimal.Decimal\<close> under the default context, which the program never changes:
  28 significant digits, \<open>ROUND_HALF_EVEN\<close>. A finite decimal is its exact value, a
  rational; every arithmetic operation computes the exact result and rounds it once with
  \<open>dround\<close>. Comparisons, \<open>min\<close>, \<open>max\<close> and construction from a literal do not round.
  The exponent range (\<open>Emin\<close>/\<open>Emax\<close> of one million) and the quantum that only shows in
  \<open>str\<close> are not modelled; NaN and infinities are not values of the model.

  The locale \<open>rounding\<close> is the contract the money computations rely on: a monotone,
  odd, idempotent rounding function. It is interpreted on \<open>dround\<close> and on the
  half-up rounding to a fixed number of places that \<open>quantize\<close> performs.
\<close>

type_synonym decimal = rat

subsection \<open>The rounding contract\<close>

locale rounding =
  fixes rnd :: "rat \<Rightarrow> rat"
  assumes rnd_mono: "x \<le> y \<Longrightarrow> rnd x \<le> rnd y"
    and rnd_minus: "rnd (- x) = - rnd x"
    and rnd_idem: "rnd (rnd x) = rnd x"
begin

lemma rnd_0 [simp]: "rnd 0 = 0"
  using rnd_minus [of 0] by simp

lemma rnd_nonneg: "0 \<le> x \<Longrightarrow> 0 \<le> rnd x"
  using rnd_mono [of 0 x] by simp

lemma rnd_nonpos: "x \<le> 0 \<Longrightarrow> rnd x \<le> 0"
  using rnd_mono [of x 0] by simp

lemma rnd_le_fix: "x \<le> b \<Longrightarrow> rnd b = b \<Longrightarrow> rnd x \<le> b"
  using rnd_mono [of x b] by simp

lemma rnd_ge_fix: "b \<le> x \<Longrightarrow> rnd b = b \<Longrightarrow> b \<le> rnd x"
  using rnd_mono [of b x] by simp

lemma rnd_less_imp: "rnd x < rnd y \<Longrightarrow> x < y"
  using rnd_mono [of y x] by (meson leD leI)

lemma rnd_abs: "rnd \<bar>x\<bar> = \<bar>rnd x\<bar>"
proof (cases "0 \<le> x")
  case True
  then show ?thesis using rnd_nonneg [OF True] by simp
next
  case False
  then have "x \<le> 0" by simp
  with rnd_nonpos [OF this] False show ?thesis by (simp add: rnd_minus)
qed

lemma rnd_scale_le:
  assumes "0 \<le> x" "c \<le> 1"
  shows "rnd (c * x) \<le> rnd x"
proof (rule rnd_mono)
  show "c * x \<le> x" using mult_right_mono [OF assms(2,1)] by simp
qed

end

text \<open>A rounding that never rounds a non-zero value to zero (floating precision).\<close>

locale floating_rounding = rounding +
  assumes rnd_zero_imp: "rnd x = 0 \<Longrightarrow> x = 0"
begin

lemma rnd_eq_0_iff [simp]: "rnd x = 0 \<longleftrightarrow> x = 0"
  using rnd_zero_imp by auto

lemma rnd_pos_iff: "0 < rnd x \<longleftrightarrow> 0 < x"
  by (metis linorder_not_le order.order_iff_strict rnd_eq_0_iff rnd_nonneg rnd_nonpos)

lemma rnd_neg_iff: "rnd x < 0 \<longleftrightarrow> x < 0"
  by (metis linorder_not_le order.order_iff_strict rnd_eq_0_iff rnd_nonneg rnd_nonpos)

lemma rnd_nonneg_iff: "0 \<le> rnd x \<longleftrightarrow> 0 \<le> x"
  using rnd_neg_iff [of x] by linarith

lemma rnd_nonpos_iff: "rnd x \<le> 0 \<longleftrightarrow> x \<le> 0"
  using rnd_pos_iff [of x] by linarith

end

subsection \<open>Rounding to an integer\<close>

text \<open>Half to even, and half away from zero.\<close>

definition round_half_even :: "rat \<Rightarrow> int" where
  "round_half_even y = (let f = \<lfloor>y\<rfloor>; r = y - of_int f in
     if r < 1/2 then f else if r > 1/2 then f + 1 else if even f then f else f + 1)"

definition round_half_up :: "rat \<Rightarrow> int" where
  "round_half_up y = (if 0 \<le> y then \<lfloor>y + 1/2\<rfloor> else - \<lfloor>- y + 1/2\<rfloor>)"

lemma rhe_bounds: "\<lfloor>y\<rfloor> \<le> round_half_even y" "round_half_even y \<le> \<lfloor>y\<rfloor> + 1"
  by (simp_all add: round_half_even_def Let_def)

lemma rhe_of_int [simp]: "round_half_even (of_int k) = k"
  by (simp add: round_half_even_def)

lemma rhe_mono:
  assumes "x \<le> y"
  shows "round_half_even x \<le> round_half_even y"
proof (cases "\<lfloor>x\<rfloor> = \<lfloor>y\<rfloor>")
  case True
  then show ?thesis using assms by (auto simp: round_half_even_def Let_def)
next
  case False
  with floor_mono [OF assms] have "\<lfloor>x\<rfloor> + 1 \<le> \<lfloor>y\<rfloor>" by linarith
  with rhe_bounds [of x] rhe_bounds [of y] show ?thesis by linarith
qed

lemma rhe_minus: "round_half_even (- y) = - round_half_even y"
proof (cases "y = of_int \<lfloor>y\<rfloor>")
  case True
  then have "- y = of_int (- \<lfloor>y\<rfloor>)" by simp
  then show ?thesis using True by (metis rhe_of_int)
next
  case False
  let ?f = "\<lfloor>y\<rfloor>"
  from False have lt: "of_int ?f < y" "y < of_int ?f + 1"
    using of_int_floor_le [of y] by linarith+
  have fl: "\<lfloor>- y\<rfloor> = - ?f - 1"
    by (rule floor_unique) (use lt in simp_all)
  have "even (- ?f - 1) \<longleftrightarrow> odd ?f" by simp
  with lt show ?thesis
    unfolding round_half_even_def Let_def fl
    by (simp split: if_splits)
qed

lemma rhe_error: "\<bar>of_int (round_half_even y) - y\<bar> \<le> 1/2"
proof -
  have "of_int \<lfloor>y\<rfloor> \<le> y" "y < of_int \<lfloor>y\<rfloor> + 1" by linarith+
  then show ?thesis by (auto simp: round_half_even_def Let_def)
qed

lemma rhu_of_int [simp]: "round_half_up (of_int k) = k"
proof (cases "0 \<le> k")
  case True
  have "\<lfloor>of_int k + 1/2 :: rat\<rfloor> = k" by (rule floor_unique) simp_all
  with True show ?thesis by (simp add: round_half_up_def)
next
  case False
  have "\<lfloor>- of_int k + 1/2 :: rat\<rfloor> = - k" by (rule floor_unique) simp_all
  with False show ?thesis by (simp add: round_half_up_def)
qed

lemma rhu_minus: "round_half_up (- y) = - round_half_up y"
proof (cases "y = 0")
  case True
  then show ?thesis using rhu_of_int [of 0] by simp
next
  case False
  then show ?thesis by (auto simp: round_half_up_def)
qed

lemma rhu_nonneg: "0 \<le> y \<Longrightarrow> 0 \<le> round_half_up y"
  by (simp add: round_half_up_def)

lemma rhu_mono:
  assumes "x \<le> y"
  shows "round_half_up x \<le> round_half_up y"
proof -
  consider "0 \<le> x" | "x < 0" "0 \<le> y" | "y < 0" using assms by linarith
  then show ?thesis
  proof cases
    case 1
    with assms show ?thesis by (simp add: round_half_up_def floor_mono)
  next
    case 2
    then have "round_half_up x \<le> 0"
      using rhu_nonneg [of "- x"] by (simp add: rhu_minus)
    with rhu_nonneg [OF 2(2)] show ?thesis by linarith
  next
    case 3
    with assms show ?thesis
      by (simp add: round_half_up_def floor_mono)
  qed
qed

lemma rhu_error: "\<bar>of_int (round_half_up y) - y\<bar> \<le> 1/2"
proof -
  have pos: "\<bar>of_int (round_half_up z) - z\<bar> \<le> 1/2" if "0 \<le> z" for z :: rat
  proof -
    have "of_int \<lfloor>z + 1/2\<rfloor> \<le> z + 1/2" "z + 1/2 < of_int \<lfloor>z + 1/2\<rfloor> + 1" by linarith+
    then have "\<bar>of_int \<lfloor>z + 1/2\<rfloor> - z\<bar> \<le> 1/2" by linarith
    with that show ?thesis by (simp add: round_half_up_def)
  qed
  show ?thesis
  proof (cases "0 \<le> y")
    case True
    then show ?thesis by (rule pos)
  next
    case False
    then show ?thesis using pos [of "- y"] by (simp add: rhu_minus abs_minus_commute)
  qed
qed

subsection \<open>The decimal exponent\<close>

text \<open>
  \<open>dec_exp x\<close> is the exponent of the leading digit of a positive \<open>x\<close>:
  \<open>10 ^ e \<le> x < 10 ^ (e + 1)\<close>, computed from the digit counts of its fraction.
\<close>

fun num_digits :: "nat \<Rightarrow> nat" where
  "num_digits n = (if n < 10 then 1 else Suc (num_digits (n div 10)))"

declare num_digits.simps [simp del]

definition pow10 :: "int \<Rightarrow> rat" where
  "pow10 e = (if 0 \<le> e then 10 ^ nat e else 1 / 10 ^ nat (- e))"

definition dec_exp :: "rat \<Rightarrow> int" where
  "dec_exp x = (let (n, d) = quotient_of x;
                    e = int (num_digits (nat n)) - int (num_digits (nat d))
                in if pow10 e \<le> x then e else e - 1)"

text \<open>The same count on integers by comparison with growing powers, which evaluates fast.\<close>

function digits_up :: "int \<Rightarrow> int \<Rightarrow> int" where
  "digits_up k p = (if k < p \<or> p \<le> 0 then 1 else 1 + digits_up k (10 * p))"
  by auto
termination by (relation "measure (\<lambda>(k, p). nat (k + 1 - p))") auto

declare digits_up.simps [simp del]

definition int_digits :: "int \<Rightarrow> int" where "int_digits k = digits_up k 10"

lemma digits_up_div: "0 < p \<Longrightarrow> digits_up k (10 * p) = digits_up (k div 10) p"
proof (induction k p rule: digits_up.induct)
  case (1 k p)
  have lt: "k < 10 * p \<longleftrightarrow> k div 10 < p" by linarith
  show ?case
  proof (cases "k < 10 * p")
    case True
    then show ?thesis using lt by (simp add: digits_up.simps [of k "10 * p"] digits_up.simps [of "k div 10" p])
  next
    case False
    then have "\<not> (k < p \<or> p \<le> 0)" using 1(2) by simp
    then have "digits_up k (10 * (10 * p)) = digits_up (k div 10) (10 * p)" using 1 by simp
    then show ?thesis using False lt 1(2)
      by (simp add: digits_up.simps [of k "10 * p"] digits_up.simps [of "k div 10" p])
  qed
qed

lemma int_digits_rec: "int_digits k = (if k < 10 then 1 else 1 + int_digits (k div 10))"
  using digits_up_div [of 10 k] by (simp add: int_digits_def digits_up.simps [of k 10])

lemma int_digits_num_digits: "int_digits k = int (num_digits (nat k))"
proof (induction "nat k" arbitrary: k rule: num_digits.induct)
  case (1 k)
  show ?case
  proof (cases "k < 10")
    case True
    then have "nat k < 10" by simp
    with True show ?thesis by (simp add: int_digits_rec [of k] num_digits.simps [of "nat k"])
  next
    case False
    then have "nat (k div 10) = nat k div 10" "\<not> nat k < 10" by (auto simp: nat_div_distrib)
    with False 1 show ?thesis by (simp add: int_digits_rec [of k] num_digits.simps [of "nat k"])
  qed
qed

lemma pow10_powi: "pow10 e = 10 powi e"
  by (simp add: pow10_def power_int_def power_inverse inverse_eq_divide power_one_over)

lemma pow10_pos [simp]: "0 < pow10 e"
  by (simp add: pow10_def)

lemma pow10_neq_0 [simp]: "pow10 e \<noteq> 0"
  using pow10_pos [of e] by linarith

lemma pow10_add: "pow10 (a + b) = pow10 a * pow10 b"
  by (simp add: pow10_powi power_int_add)

lemma pow10_mono: "a \<le> b \<Longrightarrow> pow10 a \<le> pow10 b"
  by (simp add: pow10_powi power_int_increasing)

lemma pow10_less_imp: "pow10 a < pow10 b \<Longrightarrow> a < b"
  using pow10_mono [of b a] by linarith

lemma pow10_nat: "pow10 (int n) = of_int (10 ^ n)"
  by (simp add: pow10_def)

lemma num_digits_bounds: "n < 10 ^ num_digits n \<and> (0 < n \<longrightarrow> 10 ^ (num_digits n - 1) \<le> n)"
proof (induction n rule: num_digits.induct)
  case (1 n)
  show ?case
  proof (cases "n < 10")
    case True
    then show ?thesis by (simp add: num_digits.simps [of n])
  next
    case False
    then have IH: "n div 10 < 10 ^ num_digits (n div 10)"
        "10 ^ (num_digits (n div 10) - 1) \<le> n div 10"
      using "1.IH" by auto
    have sd: "num_digits n = Suc (num_digits (n div 10))"
      using False by (simp add: num_digits.simps [of n])
    have "0 < num_digits (n div 10)" by (subst num_digits.simps) simp
    then have "(10::nat) ^ num_digits (n div 10) = 10 * 10 ^ (num_digits (n div 10) - 1)"
      by (cases "num_digits (n div 10)") simp_all
    with IH have "10 ^ num_digits (n div 10) \<le> n" by linarith
    with IH sd show ?thesis by simp
  qed
qed

lemma num_digits_pow10:
  assumes "0 < k"
  shows "pow10 (int (num_digits (nat k)) - 1) \<le> of_int k" "of_int k < pow10 (int (num_digits (nat k)))"
proof -
  let ?m = "num_digits (nat k)"
  have m: "0 < ?m" by (subst num_digits.simps) simp
  from num_digits_bounds [of "nat k"] assms
  have b: "nat k < 10 ^ ?m" "10 ^ (?m - 1) \<le> nat k" by auto
  from b(1) have "k < 10 ^ ?m" using assms by (simp add: nat_less_iff)
  then show "of_int k < pow10 (int ?m)" unfolding pow10_nat by (simp only: of_int_less_iff)
  from b(2) have "10 ^ (?m - 1) \<le> k" using assms by (simp add: le_nat_iff)
  moreover have "int ?m - 1 = int (?m - 1)" using m by simp
  ultimately show "pow10 (int ?m - 1) \<le> of_int k"
    unfolding \<open>int ?m - 1 = int (?m - 1)\<close> pow10_nat by (simp only: of_int_le_iff)
qed

text \<open>The numbers of digits of a fraction give its exponent up to one.\<close>

lemma digits_bounds:
  assumes "0 < n" "0 < d"
  defines "e \<equiv> int (num_digits (nat n)) - int (num_digits (nat d))"
  shows "pow10 (e - 1) \<le> of_int n / of_int d" "of_int n / of_int d < pow10 (e + 1)"
proof -
  let ?a = "int (num_digits (nat n))" and ?b = "int (num_digits (nat d))"
  note N = num_digits_pow10 [OF assms(1)] and D = num_digits_pow10 [OF assms(2)]
  have "pow10 (?a - ?b - 1) * of_int d \<le> pow10 (?a - ?b - 1) * pow10 ?b"
    using D(2) by simp
  also have "\<dots> = pow10 (?a - 1)" by (simp flip: pow10_add)
  also have "\<dots> \<le> of_int n" by (rule N(1))
  finally show "pow10 (e - 1) \<le> of_int n / of_int d" using assms by (simp add: e_def le_divide_eq)
  have "of_int n < pow10 ?a" by (rule N(2))
  also have "\<dots> = pow10 (?a - ?b + 1) * pow10 (?b - 1)" by (simp flip: pow10_add)
  also have "\<dots> \<le> pow10 (?a - ?b + 1) * of_int d" using D(1) by simp
  finally show "of_int n / of_int d < pow10 (e + 1)" using assms by (simp add: e_def divide_less_eq)
qed

lemma dec_exp_bounds:
  assumes "0 < x"
  shows "pow10 (dec_exp x) \<le> x \<and> x < pow10 (dec_exp x + 1)"
proof -
  obtain n d where q: "quotient_of x = (n, d)" by force
  have d: "0 < d" using q by (rule quotient_of_denom_pos)
  have x: "x = of_int n / of_int d" using q by (rule quotient_of_div)
  have n: "0 < n" using assms d x by (simp add: zero_less_divide_iff)
  show ?thesis using digits_bounds [OF n d] by (simp add: dec_exp_def q Let_def flip: x)
qed

lemma dec_exp_unique:
  assumes "pow10 e \<le> x" "x < pow10 (e + 1)"
  shows "dec_exp x = e"
proof -
  have "0 < x" using assms(1) pow10_pos [of e] by linarith
  note B = dec_exp_bounds [OF this]
  have "pow10 e < pow10 (dec_exp x + 1)" "pow10 (dec_exp x) < pow10 (e + 1)"
    using B assms by linarith+
  then show ?thesis by (auto dest!: pow10_less_imp)
qed

lemma dec_exp_mono: "0 < x \<Longrightarrow> x \<le> y \<Longrightarrow> dec_exp x \<le> dec_exp y"
proof -
  assume "0 < x" "x \<le> y"
  then have "pow10 (dec_exp x) < pow10 (dec_exp y + 1)"
    using dec_exp_bounds [of x] dec_exp_bounds [of y] by linarith
  then show ?thesis by (auto dest!: pow10_less_imp)
qed

subsection \<open>Rounding to 28 significant digits\<close>

definition dec_prec :: int where "dec_prec = 28"

text \<open>The unit in the last place of the result, and the context rounding itself.\<close>

definition dec_ulp :: "rat \<Rightarrow> rat" where
  "dec_ulp x = pow10 (dec_exp \<bar>x\<bar> - (dec_prec - 1))"

definition dround :: "rat \<Rightarrow> rat" where
  "dround x = (if x = 0 then 0 else of_int (round_half_even (x / dec_ulp x)) * dec_ulp x)"

subsection \<open>Evaluation on integers\<close>

text \<open>
  The same rounding computed on a numerator and a denominator, reduced or not: these equations
  only serve to evaluate concrete inputs without a chain of normalised fractions.
\<close>

definition rhe_div :: "int \<Rightarrow> int \<Rightarrow> int" where
  "rhe_div a b = (let f = a div b; r = 2 * (a mod b) in
     if r < b then f else if b < r then f + 1 else if even f then f else f + 1)"

definition dec_exp_frac :: "int \<Rightarrow> int \<Rightarrow> int" where
  "dec_exp_frac n d = (let e = int_digits n - int_digits d in
     if (if 0 \<le> e then d * 10 ^ nat e \<le> n else d \<le> n * 10 ^ nat (- e)) then e else e - 1)"

definition dround_frac :: "int \<Rightarrow> int \<Rightarrow> rat" where
  "dround_frac n d = (if n = 0 then 0 else
     (let k = dec_exp_frac \<bar>n\<bar> d - 27
      in if 0 \<le> k then of_int (rhe_div n (d * 10 ^ nat k) * 10 ^ nat k)
         else of_int (rhe_div (n * 10 ^ nat (- k)) d) / of_int (10 ^ nat (- k))))"

lemma rhe_div:
  assumes "0 < b" shows "round_half_even (of_int a / of_int b) = rhe_div a b"
proof -
  have f: "\<lfloor>of_int a / of_int b :: rat\<rfloor> = a div b" by (rule floor_divide_of_int_eq)
  have "(of_int a :: rat) = of_int (a mod b) + of_int b * of_int (a div b)"
    by (metis mod_mult_div_eq of_int_add of_int_mult)
  then have "(of_int a / of_int b :: rat) = (of_int (a mod b) + of_int b * of_int (a div b)) / of_int b"
    by (simp only:)
  also have "\<dots> = of_int (a mod b) / of_int b + of_int (a div b)"
    using assms by (simp add: add_divide_distrib)
  finally have r: "(of_int a / of_int b :: rat) - of_int (a div b) = of_int (a mod b) / of_int b" by simp
  have c: "(of_int x / of_int b < (1/2 :: rat)) = (2 * x < b)" "((1/2 :: rat) < of_int x / of_int b) = (b < 2 * x)" for x
  proof -
    have "(of_int x / of_int b < (1/2 :: rat)) = (of_int (2 * x) < (of_int b :: rat))"
      "((1/2 :: rat) < of_int x / of_int b) = (of_int b < (of_int (2 * x) :: rat))"
      using assms by (simp_all add: field_simps)
    then show "(of_int x / of_int b < (1/2 :: rat)) = (2 * x < b)"
      "((1/2 :: rat) < of_int x / of_int b) = (b < 2 * x)" by (simp_all only: of_int_less_iff)
  qed
  show ?thesis unfolding round_half_even_def rhe_div_def Let_def f r c ..
qed

lemma pow10_le_frac:
  assumes "0 < d"
  shows "pow10 e \<le> of_int n / of_int d \<longleftrightarrow> (if 0 \<le> e then d * 10 ^ nat e \<le> n else d \<le> n * 10 ^ nat (- e))"
proof -
  have "(pow10 e \<le> of_int n / of_int d) = (pow10 e * of_int d \<le> of_int n)" using assms by (simp add: field_simps)
  also have "\<dots> = (if 0 \<le> e then of_int (d * 10 ^ nat e) \<le> (of_int n :: rat)
      else of_int d \<le> (of_int (n * 10 ^ nat (- e)) :: rat))"
    by (simp add: pow10_def field_simps)
  finally show ?thesis by (simp only: of_int_le_iff)
qed

lemma dec_exp_frac:
  assumes "0 < n" "0 < d"
  shows "dec_exp (of_int n / of_int d) = dec_exp_frac n d"
proof (rule dec_exp_unique)
  let ?x = "of_int n / of_int d :: rat"
  note b = digits_bounds [OF assms]
  have e: "dec_exp_frac n d = (let e = int (num_digits (nat n)) - int (num_digits (nat d))
      in if pow10 e \<le> ?x then e else e - 1)"
    by (simp add: dec_exp_frac_def int_digits_num_digits pow10_le_frac [OF assms(2)] Let_def)
  show "pow10 (dec_exp_frac n d) \<le> ?x" "?x < pow10 (dec_exp_frac n d + 1)"
    using b by (simp_all add: e Let_def)
qed

lemma dround_frac:
  assumes "0 < d"
  shows "dround (of_int n / of_int d) = dround_frac n d"
proof (cases "n = 0")
  case False
  let ?x = "of_int n / of_int d :: rat" and ?k = "dec_exp_frac \<bar>n\<bar> d - 27"
  have "\<bar>?x\<bar> = of_int \<bar>n\<bar> / of_int d" using assms by simp
  then have u: "dec_ulp ?x = pow10 ?k"
    using False dec_exp_frac [of "\<bar>n\<bar>" d] assms by (simp only: dec_ulp_def dec_prec_def) simp
  show ?thesis
  proof (cases "0 \<le> ?k")
    case True
    have "?x / pow10 ?k = of_int n / of_int (d * 10 ^ nat ?k)" using True by (simp add: pow10_def)
    then have "round_half_even (?x / pow10 ?k) = rhe_div n (d * 10 ^ nat ?k)"
      using assms by (simp only:) (rule rhe_div, simp)
    then show ?thesis using False True assms
      by (simp only: dround_def dround_frac_def u) (simp add: pow10_def Let_def)
  next
    case f: False
    have "?x / pow10 ?k = of_int (n * 10 ^ nat (- ?k)) / of_int d" using f by (simp add: pow10_def)
    then have "round_half_even (?x / pow10 ?k) = rhe_div (n * 10 ^ nat (- ?k)) d"
      by (simp only:) (rule rhe_div [OF assms])
    then show ?thesis using False f assms
      by (simp only: dround_def dround_frac_def u) (simp add: pow10_def Let_def)
  qed
qed (simp add: dround_frac_def dround_def)

lemma dround_code [code]: "dround x = (case quotient_of x of (n, d) \<Rightarrow> dround_frac n d)"
proof -
  obtain n d where q: "quotient_of x = (n, d)" by force
  show ?thesis using dround_frac [OF quotient_of_denom_pos [OF q], of n] quotient_of_div [OF q] q by simp
qed

text \<open>The values a context operation can return: at most 28 significant digits.\<close>

definition fits_prec :: "rat \<Rightarrow> bool" where
  "fits_prec x \<longleftrightarrow> (\<exists>k j. x = of_int k * pow10 j \<and> \<bar>k\<bar> \<le> 10 ^ 28)"

lemma dec_ulp_pos [simp]: "0 < dec_ulp x"
  by (simp add: dec_ulp_def)

lemma dec_ulp_neq_0 [simp]: "dec_ulp x \<noteq> 0"
  using dec_ulp_pos [of x] by linarith

lemma dec_ulp_minus [simp]: "dec_ulp (- x) = dec_ulp x"
  by (simp add: dec_ulp_def)

lemma dround_minus: "dround (- x) = - dround x"
  by (simp add: dround_def rhe_minus)

lemma dround_0 [simp]: "dround 0 = 0"
  by (simp add: dround_def)

lemma scaled_bounds:
  assumes "0 < x"
  shows "of_int (10 ^ 27) \<le> x / dec_ulp x" "x / dec_ulp x < of_int (10 ^ 28)"
proof -
  have u: "dec_ulp x = pow10 (dec_exp x - 27)" using assms by (simp add: dec_ulp_def dec_prec_def)
  have s: "of_int (10 ^ 27) * pow10 (dec_exp x - 27) = pow10 (dec_exp x)"
    "of_int (10 ^ 28) * pow10 (dec_exp x - 27) = pow10 (dec_exp x + 1)"
    using pow10_add [of 27 "dec_exp x - 27"] pow10_add [of 28 "dec_exp x - 27"]
      pow10_nat [of 27] pow10_nat [of 28] by (simp_all add: add.commute)
  show "of_int (10 ^ 27) \<le> x / dec_ulp x" "x / dec_ulp x < of_int (10 ^ 28)"
    using dec_exp_bounds [OF assms] unfolding u s [symmetric]
    by (simp_all add: le_divide_eq divide_less_eq)
qed

lemma dround_bounds:
  assumes "0 < x"
  shows "pow10 (dec_exp x) \<le> dround x" "dround x \<le> pow10 (dec_exp x + 1)"
proof -
  note b = scaled_bounds [OF assms]
  have r: "10 ^ 27 \<le> round_half_even (x / dec_ulp x)" "round_half_even (x / dec_ulp x) \<le> 10 ^ 28"
    using rhe_mono [OF b(1)] rhe_mono [OF less_imp_le [OF b(2)]] unfolding rhe_of_int by simp_all
  have u: "dec_ulp x = pow10 (dec_exp x - 27)" using assms by (simp add: dec_ulp_def dec_prec_def)
  have s: "pow10 (dec_exp x) = of_int (10 ^ 27) * dec_ulp x"
    "pow10 (dec_exp x + 1) = of_int (10 ^ 28) * dec_ulp x"
    using pow10_add [of 27 "dec_exp x - 27"] pow10_add [of 28 "dec_exp x - 27"]
      pow10_nat [of 27] pow10_nat [of 28] unfolding u by (simp_all add: add.commute)
  have "of_int (10 ^ 27) * dec_ulp x \<le> of_int (round_half_even (x / dec_ulp x)) * dec_ulp x"
    using r(1) by (intro mult_right_mono) (simp_all only: of_int_le_iff less_imp_le [OF dec_ulp_pos])
  then show "pow10 (dec_exp x) \<le> dround x"
    using assms unfolding dround_def s by simp
  have "of_int (round_half_even (x / dec_ulp x)) * dec_ulp x \<le> of_int (10 ^ 28) * dec_ulp x"
    using r(2) by (intro mult_right_mono) (simp_all only: of_int_le_iff less_imp_le [OF dec_ulp_pos])
  then show "dround x \<le> pow10 (dec_exp x + 1)"
    using assms unfolding dround_def s by simp
qed

lemma dround_pos: "0 < x \<Longrightarrow> 0 < dround x"
  using dround_bounds(1) [of x] pow10_pos [of "dec_exp x"] by linarith

lemma dround_mono_pos:
  assumes "0 < x" "x \<le> y"
  shows "dround x \<le> dround y"
proof (cases "dec_exp x = dec_exp y")
  case True
  then have "dec_ulp x = dec_ulp y" using assms by (simp add: dec_ulp_def)
  moreover have "round_half_even (x / dec_ulp y) \<le> round_half_even (y / dec_ulp y)"
    by (rule rhe_mono) (use assms in \<open>simp add: divide_right_mono less_imp_le\<close>)
  ultimately show ?thesis using assms by (simp add: dround_def)
next
  case False
  with dec_exp_mono [OF assms] have "pow10 (dec_exp x + 1) \<le> pow10 (dec_exp y)"
    by (intro pow10_mono) simp
  then show ?thesis
    using dround_bounds(2) [OF assms(1)] dround_bounds(1) [of y] assms by linarith
qed

lemma dround_mono: "x \<le> y \<Longrightarrow> dround x \<le> dround y"
proof -
  assume le: "x \<le> y"
  consider "0 < x" | "x \<le> 0" "0 \<le> y" | "y < 0" using le by linarith
  then show ?thesis
  proof cases
    case 1
    then show ?thesis using le by (rule dround_mono_pos)
  next
    case 2
    have "dround x \<le> 0"
      using 2 dround_pos [of "- x"] by (cases "x = 0") (simp_all add: dround_minus)
    moreover have "0 \<le> dround y"
      using 2 dround_pos [of y] by (cases "y = 0") simp_all
    ultimately show ?thesis by linarith
  next
    case 3
    then show ?thesis
      using dround_mono_pos [of "- y" "- x"] le by (simp add: dround_minus)
  qed
qed

lemma dround_fits: "fits_prec (dround x)"
proof (cases "x = 0")
  case True
  then show ?thesis by (auto simp: fits_prec_def intro: exI [of _ 0])
next
  case False
  let ?y = "\<bar>x\<bar>"
  note b = scaled_bounds [of ?y]
  have "0 \<le> round_half_even (?y / dec_ulp ?y)" "round_half_even (?y / dec_ulp ?y) \<le> 10 ^ 28"
    using False rhe_mono [OF b(1)] rhe_mono [OF less_imp_le [OF b(2)]] unfolding rhe_of_int by simp_all
  moreover have "\<bar>round_half_even (x / dec_ulp x)\<bar> = \<bar>round_half_even (?y / dec_ulp ?y)\<bar>"
    by (cases "0 \<le> x") (simp_all add: rhe_minus)
  ultimately have "\<bar>round_half_even (x / dec_ulp x)\<bar> \<le> 10 ^ 28" by simp
  then show ?thesis
    using False unfolding fits_prec_def dround_def dec_ulp_def by auto
qed

lemma dround_exact_pos:
  assumes "0 < x" "x = of_int k * pow10 j" "\<bar>k\<bar> \<le> 10 ^ 28"
  shows "dround x = x"
proof -
  have "0 < (of_int k :: rat)"
    using assms(1,2) zero_less_mult_pos2 [of "of_int k" "pow10 j"] by simp
  then have k: "0 < k" by simp
  have u: "dec_ulp x = pow10 (dec_exp x - 27)" using assms by (simp add: dec_ulp_def dec_prec_def)
  have "\<exists>m. x = of_int m * dec_ulp x"
  proof (cases "dec_exp x - 27 \<le> j")
    case True
    then have "pow10 j = of_int (10 ^ nat (j - (dec_exp x - 27))) * dec_ulp x"
      using pow10_add [of "j - (dec_exp x - 27)" "dec_exp x - 27"]
        pow10_nat [of "nat (j - (dec_exp x - 27))"] u by simp
    then have "x = of_int (k * 10 ^ nat (j - (dec_exp x - 27))) * dec_ulp x"
      using assms(2) by simp
    then show ?thesis by blast
  next
    case False
    have "of_int k \<le> (of_int (10 ^ 28) :: rat)" using assms(3) k by (simp only: of_int_le_iff)
    then have "x \<le> of_int (10 ^ 28) * pow10 j"
      unfolding assms(2) by (intro mult_right_mono) (simp_all only: less_imp_le [OF pow10_pos])
    also have "\<dots> = pow10 (28 + j)" using pow10_add [of 28 j] pow10_nat [of 28] by simp
    finally have "x \<le> pow10 (28 + j)" .
    moreover have "pow10 (28 + j) \<le> pow10 (dec_exp x)" using False by (intro pow10_mono) simp
    ultimately have "x = pow10 (dec_exp x)"
      using dec_exp_bounds [OF assms(1)] by linarith
    also have "\<dots> = of_int (10 ^ 27) * dec_ulp x"
      using pow10_add [of 27 "dec_exp x - 27"] pow10_nat [of 27] u by simp
    finally show ?thesis by blast
  qed
  then obtain m where m: "x = of_int m * dec_ulp x" by blast
  then have "x / dec_ulp x = of_int m" by (metis dec_ulp_pos less_irrefl nonzero_mult_div_cancel_right)
  then show ?thesis using assms(1) m by (simp add: dround_def)
qed

lemma dround_exact: "fits_prec x \<Longrightarrow> dround x = x"
proof -
  assume "fits_prec x"
  then obtain k j where kj: "x = of_int k * pow10 j" "\<bar>k\<bar> \<le> 10 ^ 28"
    by (auto simp: fits_prec_def)
  consider "x = 0" | "0 < x" | "x < 0" by linarith
  then show ?thesis
  proof cases
    case 2
    then show ?thesis using kj by (rule dround_exact_pos)
  next
    case 3
    then have "dround (- x) = - x"
      using kj by (intro dround_exact_pos [where k = "- k" and j = j]) simp_all
    then show ?thesis by (simp add: dround_minus)
  qed simp
qed

interpretation dr: floating_rounding dround
proof unfold_locales
  show "dround (dround x) = dround x" for x by (rule dround_exact [OF dround_fits])
  show "x = 0" if "dround x = 0" for x
  proof -
    have "\<not> 0 < x" "\<not> 0 < - x"
      using that dround_pos [of x] dround_pos [of "- x"] by (auto simp: dround_minus)
    then show ?thesis by linarith
  qed
qed (simp_all add: dround_mono dround_minus)

text \<open>The relative error of one operation is at most half a unit in the 28th digit.\<close>

lemma dround_error: "\<bar>dround x - x\<bar> \<le> \<bar>x\<bar> / (2 * 10 ^ 27)"
proof (cases "x = 0")
  case False
  have "\<bar>of_int (round_half_even (x / dec_ulp x)) - x / dec_ulp x\<bar> * dec_ulp x \<le> 1/2 * dec_ulp x"
    using rhe_error by (intro mult_right_mono) (simp_all add: less_imp_le)
  then have 1: "\<bar>dround x - x\<bar> \<le> dec_ulp x / 2"
  proof -
    have "\<bar>of_int (round_half_even (x / dec_ulp x)) - x / dec_ulp x\<bar> * dec_ulp x
        = \<bar>(of_int (round_half_even (x / dec_ulp x)) - x / dec_ulp x) * dec_ulp x\<bar>"
      using dec_ulp_pos [of x] by (simp only: abs_mult abs_of_pos)
    also have "\<dots> = \<bar>dround x - x\<bar>"
      using False dec_ulp_pos [of x] by (simp add: dround_def left_diff_distrib)
    finally show ?thesis
      using \<open>\<bar>of_int (round_half_even (x / dec_ulp x)) - x / dec_ulp x\<bar> * dec_ulp x
        \<le> 1/2 * dec_ulp x\<close> by simp
  qed
  have "of_int (10 ^ 27) \<le> \<bar>x\<bar> / dec_ulp \<bar>x\<bar>" using False by (intro scaled_bounds) simp
  then have "dec_ulp x \<le> \<bar>x\<bar> / 10 ^ 27" by (simp add: dec_ulp_def field_simps)
  with 1 show ?thesis by simp
qed simp

subsection \<open>The arithmetic operations\<close>

definition dadd :: "decimal \<Rightarrow> decimal \<Rightarrow> decimal" where "dadd a b = dround (a + b)"
definition dsub :: "decimal \<Rightarrow> decimal \<Rightarrow> decimal" where "dsub a b = dround (a - b)"
definition dmul :: "decimal \<Rightarrow> decimal \<Rightarrow> decimal" where "dmul a b = dround (a * b)"

text \<open>
  Division where the code has already excluded a zero divisor, and division that raises.
\<close>

definition ddiv :: "decimal \<Rightarrow> decimal \<Rightarrow> decimal" where "ddiv a b = dround (a / b)"

definition ddiv_checked :: "decimal \<Rightarrow> decimal \<Rightarrow> decimal result" where
  "ddiv_checked a b =
     (if b = 0 then Inl (if a = 0 then InvalidOperation else DivisionByZero) else Inr (ddiv a b))"

text \<open>The operations on unreduced fractions, for evaluation.\<close>

lemma decimal_op_code [code]:
  "dadd a b = (case quotient_of a of (n, d) \<Rightarrow> case quotient_of b of (n', d') \<Rightarrow>
     dround_frac (n * d' + n' * d) (d * d'))"
  "dsub a b = (case quotient_of a of (n, d) \<Rightarrow> case quotient_of b of (n', d') \<Rightarrow>
     dround_frac (n * d' - n' * d) (d * d'))"
  "dmul a b = (case quotient_of a of (n, d) \<Rightarrow> case quotient_of b of (n', d') \<Rightarrow>
     dround_frac (n * n') (d * d'))"
  "ddiv a b = (case quotient_of a of (n, d) \<Rightarrow> case quotient_of b of (n', d') \<Rightarrow>
     if n' = 0 then 0 else dround_frac (sgn n' * (n * d')) (d * \<bar>n'\<bar>))"
proof -
  obtain n d n' d' where q: "quotient_of a = (n, d)" "quotient_of b = (n', d')" by (metis surj_pair)
  have d: "0 < d" "0 < d'" using q by (auto intro: quotient_of_denom_pos)
  have ab: "a = of_int n / of_int d" "b = of_int n' / of_int d'" using q by (auto intro: quotient_of_div)
  have s: "a + b = of_int (n * d' + n' * d) / of_int (d * d')" "a - b = of_int (n * d' - n' * d) / of_int (d * d')"
    "a * b = of_int (n * n') / of_int (d * d')"
    using d by (simp_all add: ab field_simps)
  have v: "a / b = of_int (sgn n' * (n * d')) / of_int (d * \<bar>n'\<bar>)" if "n' \<noteq> 0"
    using that d by (cases "0 < n'") (simp_all add: ab field_simps)
  have b0: "b = 0 \<longleftrightarrow> n' = 0" using d by (simp add: ab)
  show "dadd a b = (case quotient_of a of (n, d) \<Rightarrow> case quotient_of b of (n', d') \<Rightarrow>
      dround_frac (n * d' + n' * d) (d * d'))"
    using d by (simp only: dadd_def s q prod.case) (rule dround_frac, simp)
  show "dsub a b = (case quotient_of a of (n, d) \<Rightarrow> case quotient_of b of (n', d') \<Rightarrow>
      dround_frac (n * d' - n' * d) (d * d'))"
    using d by (simp only: dsub_def s q prod.case) (rule dround_frac, simp)
  show "dmul a b = (case quotient_of a of (n, d) \<Rightarrow> case quotient_of b of (n', d') \<Rightarrow>
      dround_frac (n * n') (d * d'))"
    using d by (simp only: dmul_def s q prod.case) (rule dround_frac, simp)
  show "ddiv a b = (case quotient_of a of (n, d) \<Rightarrow> case quotient_of b of (n', d') \<Rightarrow>
      if n' = 0 then 0 else dround_frac (sgn n' * (n * d')) (d * \<bar>n'\<bar>))"
  proof (cases "n' = 0")
    case False
    have "dround (a / b) = dround_frac (sgn n' * (n * d')) (d * \<bar>n'\<bar>)"
      unfolding v [OF False] using d False by (intro dround_frac) simp
    then show ?thesis using False q by (simp add: ddiv_def)
  qed (use b0 q in \<open>simp add: ddiv_def\<close>)
qed

text \<open>\<open>sum(xs, Decimal("0"))\<close>: a left fold from zero, rounding at each step.\<close>

definition dsum :: "decimal list \<Rightarrow> decimal" where "dsum xs = foldl dadd 0 xs"

definition dabs :: "decimal \<Rightarrow> decimal" where "dabs a = dround \<bar>a\<bar>"

text \<open>
  \<open>value.quantize(Decimal(10) ** -places, rounding=ROUND_HALF_UP)\<close>: the context
  signals \<open>InvalidOperation\<close> when the result needs more than 28 digits.
\<close>

definition round_places :: "nat \<Rightarrow> rat \<Rightarrow> rat" where
  "round_places n x = of_int (round_half_up (x * 10 ^ n)) / 10 ^ n"

definition quantize_half_up :: "nat \<Rightarrow> decimal \<Rightarrow> decimal result" where
  "quantize_half_up n x =
     (if 10 ^ 28 \<le> \<bar>round_half_up (x * 10 ^ n)\<bar> then Inl InvalidOperation
      else Inr (round_places n x))"

text \<open>\<open>value.quantize(Decimal(10) ** -places)\<close> with the rounding of the context, half even.\<close>

definition even_places :: "nat \<Rightarrow> rat \<Rightarrow> rat" where
  "even_places n x = of_int (round_half_even (x * 10 ^ n)) / 10 ^ n"

definition quantize_half_even :: "nat \<Rightarrow> decimal \<Rightarrow> decimal result" where
  "quantize_half_even n x =
     (if 10 ^ 28 \<le> \<bar>round_half_even (x * 10 ^ n)\<bar> then Inl InvalidOperation
      else Inr (even_places n x))"

interpretation places: rounding "round_places n" for n
proof unfold_locales
  show "round_places n x \<le> round_places n y" if "x \<le> y" for x y
    using rhu_mono [of "x * 10 ^ n" "y * 10 ^ n"] that
    by (simp add: round_places_def divide_right_mono)
  show "round_places n (- x) = - round_places n x" for x
    using rhu_minus [of "x * 10 ^ n"] by (simp add: round_places_def)
  show "round_places n (round_places n x) = round_places n x" for x
    by (simp add: round_places_def)
qed

interpretation evens: rounding "even_places n" for n
proof unfold_locales
  show "even_places n x \<le> even_places n y" if "x \<le> y" for x y
    using rhe_mono [of "x * 10 ^ n" "y * 10 ^ n"] that
    by (simp add: even_places_def divide_right_mono)
  show "even_places n (- x) = - even_places n x" for x
    using rhe_minus [of "x * 10 ^ n"] by (simp add: even_places_def)
  show "even_places n (even_places n x) = even_places n x" for x
    by (simp add: even_places_def)
qed

lemma round_places_error: "\<bar>round_places n x - x\<bar> \<le> 1 / (2 * 10 ^ n)"
proof -
  have p: "(0::rat) < 10 ^ n" by simp
  have "\<bar>round_places n x - x\<bar> = \<bar>of_int (round_half_up (x * 10 ^ n)) - x * 10 ^ n\<bar> / 10 ^ n"
  proof -
    have "round_places n x - x = (of_int (round_half_up (x * 10 ^ n)) - x * 10 ^ n) / 10 ^ n"
      using p by (simp add: round_places_def diff_divide_distrib)
    then show ?thesis using p by (simp only: abs_divide abs_of_pos)
  qed
  also have "\<dots> \<le> (1/2) / 10 ^ n"
    by (rule divide_right_mono [OF rhu_error]) simp
  finally show ?thesis by simp
qed

subsection \<open>Signs and orders of rounded results\<close>

lemma dadd_nonneg [simp]: "0 \<le> a \<Longrightarrow> 0 \<le> b \<Longrightarrow> 0 \<le> dadd a b"
  by (simp add: dadd_def dr.rnd_nonneg)

lemma dadd_pos: "0 < a \<Longrightarrow> 0 \<le> b \<Longrightarrow> 0 < dadd a b"
  by (simp add: dadd_def dr.rnd_pos_iff)

lemma dadd_pos': "0 \<le> a \<Longrightarrow> 0 < b \<Longrightarrow> 0 < dadd a b"
  by (simp add: dadd_def dr.rnd_pos_iff)

lemma dmul_nonneg [simp]: "0 \<le> a \<Longrightarrow> 0 \<le> b \<Longrightarrow> 0 \<le> dmul a b"
  by (simp add: dmul_def dr.rnd_nonneg)

lemma dmul_pos: "0 < a \<Longrightarrow> 0 < b \<Longrightarrow> 0 < dmul a b"
  by (simp add: dmul_def dr.rnd_pos_iff)

lemma ddiv_nonneg [simp]: "0 \<le> a \<Longrightarrow> 0 \<le> b \<Longrightarrow> 0 \<le> ddiv a b"
  by (simp add: ddiv_def dr.rnd_nonneg)

lemma ddiv_pos: "0 < a \<Longrightarrow> 0 < b \<Longrightarrow> 0 < ddiv a b"
  by (simp add: ddiv_def dr.rnd_pos_iff)

lemma dsub_pos_iff [simp]: "0 < dsub a b \<longleftrightarrow> b < a"
  by (simp add: dsub_def dr.rnd_pos_iff)

lemma dsub_neg_iff [simp]: "dsub a b < 0 \<longleftrightarrow> a < b"
  by (simp add: dsub_def dr.rnd_neg_iff)

lemma dsub_nonneg_iff [simp]: "0 \<le> dsub a b \<longleftrightarrow> b \<le> a"
  by (simp add: dsub_def dr.rnd_nonneg_iff)

lemma dsub_nonpos_iff [simp]: "dsub a b \<le> 0 \<longleftrightarrow> a \<le> b"
  by (simp add: dsub_def dr.rnd_nonpos_iff)

lemma ddiv_nonpos_iff: "0 < b \<Longrightarrow> ddiv a b \<le> 0 \<longleftrightarrow> a \<le> 0"
  by (simp add: ddiv_def dr.rnd_nonpos_iff divide_le_0_iff)

lemma dadd_mono: "a \<le> a' \<Longrightarrow> b \<le> b' \<Longrightarrow> dadd a b \<le> dadd a' b'"
  by (simp add: dadd_def dround_mono)

lemma dsub_mono: "a \<le> a' \<Longrightarrow> b' \<le> b \<Longrightarrow> dsub a b \<le> dsub a' b'"
  by (simp add: dsub_def dround_mono)

lemma dmul_mono: "a \<le> a' \<Longrightarrow> b \<le> b' \<Longrightarrow> 0 \<le> b \<Longrightarrow> 0 \<le> a' \<Longrightarrow> dmul a b \<le> dmul a' b'"
  by (simp add: dmul_def dround_mono mult_mono)

lemma dmul_left_mono: "b \<le> b' \<Longrightarrow> 0 \<le> a \<Longrightarrow> dmul a b \<le> dmul a b'"
  by (simp add: dmul_def dround_mono mult_left_mono)

lemma dmul_right_mono: "a \<le> a' \<Longrightarrow> 0 \<le> b \<Longrightarrow> dmul a b \<le> dmul a' b"
  by (simp add: dmul_def dround_mono mult_right_mono)

lemma dmul_zero [simp]: "dmul a 0 = 0" "dmul 0 a = 0"
  by (simp_all add: dmul_def)

lemma ddiv_mono: "a \<le> a' \<Longrightarrow> 0 < b \<Longrightarrow> ddiv a b \<le> ddiv a' b"
  by (simp add: ddiv_def dround_mono divide_right_mono)

lemma fits_of_int: "\<bar>k\<bar> \<le> 10 ^ 28 \<Longrightarrow> fits_prec (of_int k)"
  unfolding fits_prec_def by (rule exI [of _ k], rule exI [of _ 0]) (simp add: pow10_def)

lemma dround_1 [simp]: "dround 1 = 1"
  using dround_exact [OF fits_of_int [of 1]] by simp

lemma dround_numeral [simp]:
  "numeral n \<le> (10 ^ 28 :: int) \<Longrightarrow> dround (numeral n) = numeral n"
  using dround_exact [OF fits_of_int [of "numeral n"]] by simp

lemma ddiv_le_1: "0 \<le> a \<Longrightarrow> a \<le> b \<Longrightarrow> ddiv a b \<le> 1"
  using dr.rnd_le_fix [of "a / b" 1] by (cases "b = 0") (auto simp: ddiv_def divide_le_eq_1)

lemma dmul_le_left: "0 \<le> a \<Longrightarrow> dround a = a \<Longrightarrow> b \<le> 1 \<Longrightarrow> dmul a b \<le> a"
  unfolding dmul_def by (rule dr.rnd_le_fix) (simp_all add: mult_left_le)

lemma dsum_Nil [simp]: "dsum [] = 0"
  by (simp add: dsum_def)

lemma dsum_snoc [simp]: "dsum (xs @ [x]) = dadd (dsum xs) x"
  by (simp add: dsum_def)

lemma dsum_nonneg: "\<forall>x \<in> set xs. 0 \<le> x \<Longrightarrow> 0 \<le> dsum xs"
  by (induction xs rule: rev_induct) auto

subsection \<open>Money on a grid\<close>

text \<open>
  On a grid of \<open>n\<close> decimal places and below \<open>10 ^ (28 - n)\<close> in size, additions and
  subtractions are exact: the balances of the program (six places) never round.
\<close>

definition on_grid :: "nat \<Rightarrow> rat \<Rightarrow> bool" where
  "on_grid n x \<longleftrightarrow> x * 10 ^ n = of_int \<lfloor>x * 10 ^ n\<rfloor>"

lemma on_grid_iff: "on_grid n x \<longleftrightarrow> (\<exists>k. x * 10 ^ n = of_int k)"
  unfolding on_grid_def by (metis floor_of_int)

lemma on_grid_add: "on_grid n a \<Longrightarrow> on_grid n b \<Longrightarrow> on_grid n (a + b)"
  unfolding on_grid_iff distrib_right by (metis of_int_add)

lemma on_grid_diff: "on_grid n a \<Longrightarrow> on_grid n b \<Longrightarrow> on_grid n (a - b)"
  unfolding on_grid_iff left_diff_distrib by (metis of_int_diff)

lemma on_grid_mult: "on_grid m a \<Longrightarrow> on_grid n b \<Longrightarrow> on_grid (m + n) (a * b)"
proof -
  assume "on_grid m a" "on_grid n b"
  then obtain i j where "a * 10 ^ m = of_int i" "b * 10 ^ n = of_int j"
    by (auto simp: on_grid_iff)
  then have "(a * b) * 10 ^ (m + n) = of_int (i * j)"
    by (simp add: power_add flip: \<open>a * 10 ^ m = of_int i\<close> \<open>b * 10 ^ n = of_int j\<close>)
  then show ?thesis unfolding on_grid_iff by blast
qed

lemma dround_grid:
  assumes "on_grid n x" "\<bar>x\<bar> * 10 ^ n \<le> 10 ^ 28"
  shows "dround x = x"
proof -
  obtain k where k: "x * 10 ^ n = of_int k" using assms(1) by (auto simp: on_grid_iff)
  have x: "x = of_int k * pow10 (- int n)"
    unfolding k [symmetric] by (simp add: pow10_def)
  have "\<bar>x * 10 ^ n\<bar> \<le> 10 ^ 28" using assms(2) by (simp add: abs_mult)
  then have "of_int \<bar>k\<bar> \<le> (of_int (10 ^ 28) :: rat)"
    unfolding k by (simp only: of_int_abs of_int_power of_int_numeral)
  then have "\<bar>k\<bar> \<le> 10 ^ 28" by (simp only: of_int_le_iff)
  with x have "\<exists>k j. x = of_int k * pow10 j \<and> \<bar>k\<bar> \<le> 10 ^ 28" by metis
  then show ?thesis by (intro dround_exact) (simp only: fits_prec_def)
qed

lemma dround_grid_le:
  assumes "on_grid n x" "0 \<le> x" "x \<le> b" "b * 10 ^ n \<le> 10 ^ 28"
  shows "dround x = x"
proof (rule dround_grid [OF assms(1)])
  have "x * 10 ^ n \<le> b * 10 ^ n" using assms(3) by (rule mult_right_mono) simp
  also note assms(4)
  finally show "\<bar>x\<bar> * 10 ^ n \<le> 10 ^ 28" unfolding abs_of_nonneg [OF assms(2)] .
qed

lemma dadd_grid:
  "on_grid n a \<Longrightarrow> on_grid n b \<Longrightarrow> \<bar>a + b\<bar> * 10 ^ n \<le> 10 ^ 28 \<Longrightarrow> dadd a b = a + b"
  using dround_grid [of n "a + b"] on_grid_add [of n a b] by (simp only: dadd_def)

lemma dsub_grid:
  "on_grid n a \<Longrightarrow> on_grid n b \<Longrightarrow> \<bar>a - b\<bar> * 10 ^ n \<le> 10 ^ 28 \<Longrightarrow> dsub a b = a - b"
  using dround_grid [of n "a - b"] on_grid_diff [of n a b] by (simp only: dsub_def)

lemma dadd_ge_left: "dround a = a \<Longrightarrow> 0 \<le> b \<Longrightarrow> a \<le> dadd a b"
  unfolding dadd_def by (rule dr.rnd_ge_fix) simp_all

lemma dsub_le_left: "dround a = a \<Longrightarrow> 0 \<le> b \<Longrightarrow> dsub a b \<le> a"
  unfolding dsub_def by (rule dr.rnd_le_fix) simp_all

lemma clamp_max: "(if x < 0 then 0 else x) = max 0 (x :: rat)"
  by (simp add: max_def)

lemma clamp_max': "(if 0 < x then x else 0) = max 0 (x :: rat)"
  by (simp add: max_def)

text \<open>
  One rounding changes a value by at most the factor \<open>1 + dec_rel\<close>, so \<open>n\<close> roundings change
  it by at most \<open>(1 + dec_rel) ^ n\<close>.
\<close>

definition dec_rel :: rat where "dec_rel = 1 / (2 * 10 ^ 27)"

lemma dec_rel_bounds [simp]: "0 < dec_rel" "0 \<le> dec_rel" "dec_rel < 1" "0 < 1 + dec_rel" "0 < 1 - dec_rel"
  by (simp_all add: dec_rel_def)

lemma dround_rel: "0 \<le> x \<Longrightarrow> \<bar>dround x - x\<bar> \<le> x * dec_rel"
  using dround_error [of x] by (simp add: dec_rel_def)

lemma dround_le_rel: "0 \<le> x \<Longrightarrow> dround x \<le> x * (1 + dec_rel)"
  using dround_rel [of x] by (simp add: distrib_left abs_le_iff)

lemma dround_ge_rel: "0 \<le> x \<Longrightarrow> x * (1 - dec_rel) \<le> dround x"
  using dround_rel [of x] by (simp add: right_diff_distrib abs_le_iff)

lemmas decimal_signs = dadd_nonneg dmul_nonneg ddiv_nonneg dmul_pos ddiv_pos dadd_pos

end
