(* ===== verification/Orderbook.thy ===== *)
theory Orderbook
  imports Decimal_Arith
begin

text \<open>
  \<open>domain/orderbook.py\<close>: the book snapshot, the liquidity state of each side, and the
  fair-value estimate \<open>microprice\<close>.
\<close>

definition CEILING_PRICE :: decimal where "CEILING_PRICE = 99/100"
definition FLOOR_PRICE :: decimal where "FLOOR_PRICE = 1/100"
definition DUST_USDC :: decimal where "DUST_USDC = 5"

datatype bid_liquidity_state = BID_OK | NO_BID | FLOOR_BID_ONLY | DUST_BID
datatype ask_liquidity_state = ASK_OK | NO_ASK | CEILING_ASK_ONLY | DUST_ASK

record price_level =
  lv_price :: decimal
  lv_size :: decimal

record book =
  ob_token_id :: string
  ob_best_bid :: "decimal option"
  ob_best_ask :: "decimal option"
  ob_bids :: "price_level list"
  ob_asks :: "price_level list"
  ob_received_at :: int
  ob_market_slug :: "string option"
  ob_condition_id :: "string option"
  ob_best_bid_size :: "decimal option"
  ob_best_ask_size :: "decimal option"
  ob_last_trade_price :: "decimal option"
  ob_tick_size :: "decimal option"

definition lv :: "decimal \<Rightarrow> decimal \<Rightarrow> price_level" where
  "lv p s = \<lparr>lv_price = p, lv_size = s\<rparr>"

lemma lv_simps [simp]: "lv_price (lv p s) = p" "lv_size (lv p s) = s"
  by (simp_all add: lv_def)

definition spread :: "book \<Rightarrow> decimal option" where
  "spread b = (case (ob_best_bid b, ob_best_ask b) of
     (Some bid, Some ask) \<Rightarrow> Some (dsub ask bid) | _ \<Rightarrow> None)"

fun ask_depth_loop :: "decimal option \<Rightarrow> decimal \<Rightarrow> price_level list \<Rightarrow> decimal" where
  "ask_depth_loop mp acc [] = acc"
| "ask_depth_loop mp acc (l # ls) =
     (if (case mp of None \<Rightarrow> False | Some m \<Rightarrow> lv_price l > m)
      then ask_depth_loop mp acc ls
      else ask_depth_loop mp (dadd acc (lv_size l)) ls)"

definition buyable_ask_depth :: "book \<Rightarrow> decimal option \<Rightarrow> decimal" where
  "buyable_ask_depth b mp = ask_depth_loop mp 0 (ob_asks b)"

definition dust_side :: "decimal \<Rightarrow> decimal option \<Rightarrow> bool" where
  "dust_side price sz = (case sz of None \<Rightarrow> False | Some s \<Rightarrow> dmul price s < DUST_USDC)"

definition bid_state :: "book \<Rightarrow> bid_liquidity_state" where
  "bid_state b = (case ob_best_bid b of
       None \<Rightarrow> NO_BID
     | Some bid \<Rightarrow>
         if ob_bids b = [] then NO_BID
         else if bid \<le> FLOOR_PRICE then FLOOR_BID_ONLY
         else if dust_side bid (ob_best_bid_size b) then DUST_BID
         else BID_OK)"

definition ask_state :: "book \<Rightarrow> ask_liquidity_state" where
  "ask_state b = (case ob_best_ask b of
       None \<Rightarrow> NO_ASK
     | Some ask \<Rightarrow>
         if ob_asks b = [] then NO_ASK
         else if ask \<ge> CEILING_PRICE then CEILING_ASK_ONLY
         else if dust_side ask (ob_best_ask_size b) then DUST_ASK
         else ASK_OK)"

definition mid_price :: "decimal \<Rightarrow> decimal \<Rightarrow> decimal" where
  "mid_price bid ask = ddiv (dadd bid ask) 2"

text \<open>
  The size-weighted price. Between two real sides with known sizes it is
  \<open>(ask * bid_size + bid * ask_size) / (bid_size + ask_size)\<close>.
\<close>

definition microprice :: "book \<Rightarrow> decimal option" where
  "microprice b =
     (let bid_real = bid_state b \<notin> {NO_BID, FLOOR_BID_ONLY};
          ask_real = ask_state b \<notin> {NO_ASK, CEILING_ASK_ONLY}
      in if \<not> bid_real \<and> \<not> ask_real then None
         else if \<not> bid_real then ob_best_ask b
         else if \<not> ask_real then ob_best_bid b
         else case (ob_best_bid b, ob_best_ask b) of
             (Some bid, Some ask) \<Rightarrow>
               (case (ob_best_bid_size b, ob_best_ask_size b) of
                  (Some bs, Some asz) \<Rightarrow>
                    (let total_size = dadd bs asz
                     in if total_size \<le> 0 then Some (mid_price bid ask)
                        else Some (ddiv (dadd (dmul ask bs) (dmul bid asz)) total_size))
                | _ \<Rightarrow> Some (mid_price bid ask))
           | _ \<Rightarrow> None)"

definition sell_actionable :: "book \<Rightarrow> bool" where
  "sell_actionable b \<longleftrightarrow> bid_state b = BID_OK"

definition buy_actionable :: "book \<Rightarrow> bool" where
  "buy_actionable b \<longleftrightarrow> ask_state b = ASK_OK"

subsection \<open>What the states mean\<close>

lemma sell_actionable_iff:
  "sell_actionable b \<longleftrightarrow> (\<exists>bid. ob_best_bid b = Some bid \<and> ob_bids b \<noteq> [] \<and> bid > FLOOR_PRICE
     \<and> \<not> dust_side bid (ob_best_bid_size b))"
  by (auto simp: sell_actionable_def bid_state_def split: option.splits)

lemma buy_actionable_iff:
  "buy_actionable b \<longleftrightarrow> (\<exists>ask. ob_best_ask b = Some ask \<and> ob_asks b \<noteq> [] \<and> ask < CEILING_PRICE
     \<and> \<not> dust_side ask (ob_best_ask_size b))"
  by (auto simp: buy_actionable_def ask_state_def split: option.splits)

lemma bid_state_real:
  "bid_state b \<notin> {NO_BID, FLOOR_BID_ONLY} \<longleftrightarrow>
     (\<exists>bid. ob_best_bid b = Some bid \<and> ob_bids b \<noteq> [] \<and> bid > FLOOR_PRICE)"
  by (auto simp: bid_state_def split: option.splits)

lemma ask_state_real:
  "ask_state b \<notin> {NO_ASK, CEILING_ASK_ONLY} \<longleftrightarrow>
     (\<exists>ask. ob_best_ask b = Some ask \<and> ob_asks b \<noteq> [] \<and> ask < CEILING_PRICE)"
  by (auto simp: ask_state_def split: option.splits)

lemma microprice_None:
  "microprice b = None \<longleftrightarrow>
     bid_state b \<in> {NO_BID, FLOOR_BID_ONLY} \<and> ask_state b \<in> {NO_ASK, CEILING_ASK_ONLY}"
proof -
  have "bid_state b \<in> {NO_BID, FLOOR_BID_ONLY} \<or> (\<exists>x. ob_best_bid b = Some x)"
    "ask_state b \<in> {NO_ASK, CEILING_ASK_ONLY} \<or> (\<exists>x. ob_best_ask b = Some x)"
    using bid_state_real [of b] ask_state_real [of b] by blast+
  then show ?thesis
    unfolding microprice_def Let_def by (auto split: option.splits)
qed

text \<open>The depth below a price cap is the rounded sum of the sizes that pass it.\<close>

lemma ask_depth_loop_eq:
  "ask_depth_loop mp acc ls = foldl dadd acc
     (map lv_size (filter (\<lambda>l. case mp of None \<Rightarrow> True | Some m \<Rightarrow> lv_price l \<le> m) ls))"
  by (induction ls arbitrary: acc) (auto split: option.splits)

lemma buyable_ask_depth_eq:
  "buyable_ask_depth b mp = dsum (map lv_size
     (filter (\<lambda>l. case mp of None \<Rightarrow> True | Some m \<Rightarrow> lv_price l \<le> m) (ob_asks b)))"
  by (simp add: buyable_ask_depth_def ask_depth_loop_eq dsum_def)

text \<open>
  The weighted price lies between bid and ask, up to the rounding of its four
  operations: exactly, when the products, their sum and the total do not round.
\<close>

lemma weighted_between:
  fixes bid ask :: rat
  assumes "bid \<le> ask" "0 \<le> bs" "0 \<le> asz" "0 < bs + asz"
  shows "bid \<le> (ask * bs + bid * asz) / (bs + asz)" "(ask * bs + bid * asz) / (bs + asz) \<le> ask"
proof -
  have "bid * bs \<le> ask * bs" "bid * asz \<le> ask * asz"
    using assms by (simp_all add: mult_right_mono)
  then show "bid \<le> (ask * bs + bid * asz) / (bs + asz)" "(ask * bs + bid * asz) / (bs + asz) \<le> ask"
    using assms(4) by (simp_all add: le_divide_eq divide_le_eq distrib_left)
qed

lemma microprice_grid:
  assumes g: "on_grid 4 bid" "on_grid 4 ask" "on_grid 6 bs" "on_grid 6 asz"
    and p: "0 \<le> bid" "bid \<le> ask" "ask \<le> 1"
    and z: "0 \<le> bs" "bs \<le> 10 ^ 12" "0 \<le> asz" "asz \<le> 10 ^ 12" "0 < bs + asz"
  shows "bid \<le> ddiv (dadd (dmul ask bs) (dmul bid asz)) (dadd bs asz)"
    and "ddiv (dadd (dmul ask bs) (dmul bid asz)) (dadd bs asz) \<le> ask"
proof -
  have m: "on_grid 10 (ask * bs)" "on_grid 10 (bid * asz)"
    using on_grid_mult [OF g(2,3)] on_grid_mult [OF g(1,4)] by simp_all
  have b: "0 \<le> ask * bs" "ask * bs \<le> 10 ^ 12" "0 \<le> bid * asz" "bid * asz \<le> 10 ^ 12"
    using p z mult_mono [of ask 1 bs "10 ^ 12"] mult_mono [of bid 1 asz "10 ^ 12"] by simp_all
  have e1: "dmul ask bs = ask * bs" "dmul bid asz = bid * asz"
    unfolding dmul_def
    using dround_grid_le [OF m(1) b(1,2)] dround_grid_le [OF m(2) b(3,4)] by simp_all
  have e2: "dadd (ask * bs) (bid * asz) = ask * bs + bid * asz"
    using m b by (intro dadd_grid [of 10]) simp_all
  have e3: "dadd bs asz = bs + asz"
    using g z by (intro dadd_grid [of 6]) simp_all
  have f: "dround bid = bid" "dround ask = ask"
    using g p dround_grid [of 4 bid] dround_grid [of 4 ask] by simp_all
  note w = weighted_between [OF p(2) z(1) z(3) z(5)]
  show "bid \<le> ddiv (dadd (dmul ask bs) (dmul bid asz)) (dadd bs asz)"
    unfolding e1 e2 e3 ddiv_def using w(1) f(1) by (rule dr.rnd_ge_fix)
  show "ddiv (dadd (dmul ask bs) (dmul bid asz)) (dadd bs asz) \<le> ask"
    unfolding e1 e2 e3 ddiv_def using w(2) f(2) by (rule dr.rnd_le_fix)
qed

subsection \<open>Properties\<close>

text \<open>
  The fair-value estimate exists exactly when one side is real (not empty, not the
  settlement floor or ceiling), and between two real sides on the price grid with positive
  total size it lies between the best bid and the best ask, decimal rounding included.
\<close>

lemma microprice_sound:
  assumes "ob_best_bid b = Some bid" "ob_best_ask b = Some ask"
    and "ob_best_bid_size b = Some bs" "ob_best_ask_size b = Some asz"
    and "on_grid 4 bid" "on_grid 4 ask" "on_grid 6 bs" "on_grid 6 asz"
    and "0 \<le> bid" "bid \<le> ask" "ask \<le> 1"
    and "0 \<le> bs" "bs \<le> 10 ^ 12" "0 \<le> asz" "asz \<le> 10 ^ 12" "0 < bs + asz"
  shows "case microprice b of
      Some x \<Rightarrow> bid \<le> x \<and> x \<le> ask
    | None \<Rightarrow> bid_state b \<in> {NO_BID, FLOOR_BID_ONLY} \<and> ask_state b \<in> {NO_ASK, CEILING_ASK_ONLY}"
proof (cases "microprice b")
  case None
  show ?thesis using microprice_None [of b] by (simp add: None)
next
  case (Some x)
  have pos: "0 < dadd bs asz"
    using assms(12,14,16) by (simp add: dadd_def dr.rnd_pos_iff)
  have "x = bid \<or> x = ask \<or> x = ddiv (dadd (dmul ask bs) (dmul bid asz)) (dadd bs asz)"
    using Some assms(1-4) pos by (auto simp: microprice_def Let_def split: if_splits)
  then show ?thesis using Some microprice_grid [OF assms(5-16)] assms(10) by auto
qed

definition demo_book :: book where
  "demo_book = \<lparr>ob_token_id = ''t1'', ob_best_bid = Some (48/100), ob_best_ask = Some (52/100),
     ob_bids = [lv (48/100) 100, lv (47/100) 50], ob_asks = [lv (52/100) 60, lv (53/100) 200],
     ob_received_at = 0, ob_market_slug = None, ob_condition_id = Some ''c1'',
     ob_best_bid_size = Some 100, ob_best_ask_size = Some 60, ob_last_trade_price = None,
     ob_tick_size = Some (1/100)\<rparr>"

text \<open>
  A position can be sold exactly when there is a best bid above the settlement floor
  whose first level is not dust, and a buy is possible exactly when there is a best ask below
  the settlement ceiling whose first level is not dust. An unknown size is not dust.
\<close>

lemma actionable_iff:
  "(sell_actionable b \<longleftrightarrow> (case ob_best_bid b of None \<Rightarrow> False
      | Some bid \<Rightarrow> ob_bids b \<noteq> [] \<and> FLOOR_PRICE < bid
          \<and> (case ob_best_bid_size b of None \<Rightarrow> True | Some s \<Rightarrow> DUST_USDC \<le> dmul bid s)))
   \<and> (buy_actionable b \<longleftrightarrow> (case ob_best_ask b of None \<Rightarrow> False
      | Some ask \<Rightarrow> ob_asks b \<noteq> [] \<and> ask < CEILING_PRICE
          \<and> (case ob_best_ask_size b of None \<Rightarrow> True | Some s \<Rightarrow> DUST_USDC \<le> dmul ask s)))"
  by (auto simp: sell_actionable_iff buy_actionable_iff dust_side_def split: option.splits)

end
