(* ===== verification/Orderbook_Delta.thy ===== *)
theory Orderbook_Delta
  imports Orderbook
begin

text \<open>
  \<open>runtime/orderbook_delta.py\<close>: a bounded buffer of book samples per token and the
  direction signal computed from the first and the last sample of a window. Times and windows
  are microseconds; \<open>Decimal(str(seconds))\<close> of a whole number of microseconds is exact.
  The reading of the clock is the argument \<open>now\<close>. A \<open>quantize\<close> that does not fit the
  context raises and is the value \<open>Inl\<close>.
\<close>

record ob_sample =
  sa_received_at :: int
  sa_best_bid :: "decimal option"
  sa_best_ask :: "decimal option"
  sa_best_bid_size :: "decimal option"
  sa_best_ask_size :: "decimal option"
  sa_microprice :: "decimal option"
  sa_real_bid_depth_usdc :: "decimal option"
  sa_real_ask_depth_usdc :: "decimal option"

record book_direction =
  ds_token_id :: string
  ds_window :: int
  ds_sample_count :: nat
  ds_first_observed_at :: int
  ds_last_observed_at :: int
  ds_bid_price_delta :: "decimal option"
  ds_ask_price_delta :: "decimal option"
  ds_mid_price_delta :: "decimal option"
  ds_bid_size_delta :: "decimal option"
  ds_ask_size_delta :: "decimal option"
  ds_first_microprice :: "decimal option"
  ds_last_microprice :: "decimal option"
  ds_microprice_delta :: "decimal option"
  ds_first_real_bid_depth_usdc :: "decimal option"
  ds_last_real_bid_depth_usdc :: "decimal option"
  ds_first_real_ask_depth_usdc :: "decimal option"
  ds_last_real_ask_depth_usdc :: "decimal option"
  ds_real_bid_depth_delta_usdc :: "decimal option"
  ds_real_ask_depth_delta_usdc :: "decimal option"
  ds_bid_price_velocity :: "decimal option"
  ds_ask_price_velocity :: "decimal option"
  ds_mid_price_velocity :: "decimal option"
  ds_bid_size_consumption_rate :: "decimal option"
  ds_ask_size_consumption_rate :: "decimal option"
  ds_direction_score :: decimal
  ds_price_momentum :: decimal
  ds_flow_imbalance :: decimal
  ds_direction_label :: string
  ds_confidence :: decimal

definition PRICE_DELTA_SCALE :: decimal where "PRICE_DELTA_SCALE = 5/1000"
definition PRICE_DELTA_SATURATE_UNITS :: decimal where "PRICE_DELTA_SATURATE_UNITS = 5"
definition PRICE_VELOCITY_SCALE :: decimal where "PRICE_VELOCITY_SCALE = 1/1000"
definition PRICE_VELOCITY_SATURATE_UNITS :: decimal where "PRICE_VELOCITY_SATURATE_UNITS = 5"
definition DIRECTION_LABEL_THRESHOLD :: decimal where "DIRECTION_LABEL_THRESHOLD = 2/10"
definition REAL_PRICE_BAND :: decimal where "REAL_PRICE_BAND = 5/100"

subsection \<open>Samples\<close>

fun band_depth_loop :: "decimal \<Rightarrow> decimal \<Rightarrow> decimal \<Rightarrow> price_level list \<Rightarrow> decimal" where
  "band_depth_loop low high acc [] = acc"
| "band_depth_loop low high acc (l # ls) =
     band_depth_loop low high
       (if lv_price l \<ge> low \<and> lv_price l \<le> high then dadd acc (dmul (lv_price l) (lv_size l)) else acc) ls"

definition real_price_band_depth ::
  "book \<Rightarrow> decimal option \<Rightarrow> (decimal option \<times> decimal option) result" where
  "real_price_band_depth b mp =
     (case mp of
        None \<Rightarrow> Inr (None, None)
      | Some m \<Rightarrow>
          let low = dsub m REAL_PRICE_BAND; high = dadd m REAL_PRICE_BAND;
              bid_depth = band_depth_loop low high 0 (ob_bids b);
              ask_depth = band_depth_loop low high 0 (ob_asks b)
          in bind_result (quantize_half_even 2 bid_depth) (\<lambda>bd.
             bind_result (quantize_half_even 2 ask_depth) (\<lambda>ad. Inr (Some bd, Some ad))))"

definition samples_equal :: "ob_sample \<Rightarrow> ob_sample \<Rightarrow> bool" where
  "samples_equal a b \<longleftrightarrow> sa_best_bid a = sa_best_bid b \<and> sa_best_ask a = sa_best_ask b
     \<and> sa_best_bid_size a = sa_best_bid_size b \<and> sa_best_ask_size a = sa_best_ask_size b
     \<and> sa_microprice a = sa_microprice b
     \<and> sa_real_bid_depth_usdc a = sa_real_bid_depth_usdc b
     \<and> sa_real_ask_depth_usdc a = sa_real_ask_depth_usdc b"

record delta_store =
  dl_max_window :: int
  dl_max_samples :: nat
  dl_samples :: "(string, ob_sample list) dict"

definition new_delta_store :: "int \<Rightarrow> nat \<Rightarrow> delta_store" where
  "new_delta_store max_window max_samples =
     \<lparr>dl_max_window = max 1000000 max_window, dl_max_samples = max 2 max_samples, dl_samples = []\<rparr>"

definition sample_of :: "book \<Rightarrow> ob_sample result" where
  "sample_of b =
     bind_result (real_price_band_depth b (microprice b)) (\<lambda>(bd, ad).
       Inr \<lparr>sa_received_at = ob_received_at b, sa_best_bid = ob_best_bid b, sa_best_ask = ob_best_ask b,
            sa_best_bid_size = ob_best_bid_size b, sa_best_ask_size = ob_best_ask_size b,
            sa_microprice = microprice b, sa_real_bid_depth_usdc = bd, sa_real_ask_depth_usdc = ad\<rparr>)"

text \<open>\<open>deque(maxlen=n).append(x)\<close> drops the oldest entry when it is full.\<close>

definition push_sample :: "nat \<Rightarrow> ob_sample list \<Rightarrow> ob_sample \<Rightarrow> ob_sample list" where
  "push_sample n buf s =
     (if buf \<noteq> [] \<and> samples_equal (last buf) s then buf else keep_last n (buf @ [s]))"

definition observe :: "delta_store \<Rightarrow> book \<Rightarrow> delta_store result" where
  "observe st b =
     (if ob_token_id b = '''' then Inr st
      else bind_result (sample_of b) (\<lambda>s.
        Inr (st\<lparr>dl_samples := dict_set (dl_samples st) (ob_token_id b)
               (push_sample (dl_max_samples st) (dict_get_or (dl_samples st) (ob_token_id b) []) s)\<rparr>)))"

definition tracked_tokens :: "delta_store \<Rightarrow> string list" where
  "tracked_tokens st = dict_keys (dl_samples st)"

definition token_samples :: "delta_store \<Rightarrow> string \<Rightarrow> ob_sample list" where
  "token_samples st tok = dict_get_or (dl_samples st) tok []"

definition prune_one :: "int \<Rightarrow> ob_sample list \<Rightarrow> ob_sample list" where
  "prune_one cutoff buf = dropWhile (\<lambda>s. sa_received_at s < cutoff) buf"

definition prune :: "delta_store \<Rightarrow> int \<Rightarrow> delta_store \<times> nat" where
  "prune st now =
     (let cutoff = now - dl_max_window st
      in (st\<lparr>dl_samples := map (\<lambda>(k, buf). (k, prune_one cutoff buf)) (dl_samples st)\<rparr>,
          sum_list (map (\<lambda>(k, buf). length buf - length (prune_one cutoff buf)) (dl_samples st))))"

subsection \<open>The signal\<close>

definition delta :: "decimal option \<Rightarrow> decimal option \<Rightarrow> decimal option" where
  "delta a b = (case (a, b) of (Some x, Some y) \<Rightarrow> Some (dsub y x) | _ \<Rightarrow> None)"

definition dneg :: "decimal \<Rightarrow> decimal" where "dneg x = dround (- x)"

definition saturated :: "decimal \<Rightarrow> decimal \<Rightarrow> decimal \<Rightarrow> decimal result" where
  "saturated scale limit x =
     (let units = ddiv x scale;
          units' = (if units > limit then limit else if units < - limit then - limit else units)
      in quantize_half_even 4 (ddiv units' limit))"

definition direction_score :: "decimal option \<Rightarrow> decimal result" where
  "direction_score mid_delta = (case mid_delta of
       None \<Rightarrow> Inr 0
     | Some d \<Rightarrow> if d = 0 then Inr 0 else saturated PRICE_DELTA_SCALE PRICE_DELTA_SATURATE_UNITS d)"

definition price_momentum :: "decimal option \<Rightarrow> decimal result" where
  "price_momentum mid_velocity = (case mid_velocity of
       None \<Rightarrow> Inr 0
     | Some v \<Rightarrow> if v = 0 then Inr 0 else saturated PRICE_VELOCITY_SCALE PRICE_VELOCITY_SATURATE_UNITS v)"

definition flow_imbalance :: "decimal option \<Rightarrow> decimal option \<Rightarrow> decimal result" where
  "flow_imbalance real_bid_delta real_ask_delta =
     (let bid_consumed = dneg (or_default real_bid_delta 0);
          ask_consumed = dneg (or_default real_ask_delta 0);
          denom = dadd (dabs bid_consumed) (dabs ask_consumed)
      in if denom = 0 then Inr 0
         else quantize_half_even 4 (ddiv (dsub ask_consumed bid_consumed) denom))"

definition composite_label :: "decimal \<Rightarrow> decimal \<Rightarrow> decimal \<Rightarrow> string" where
  "composite_label score momentum flow =
     (let th = DIRECTION_LABEL_THRESHOLD;
          yes_votes = length (filter (\<lambda>v. v \<ge> th) [score, momentum, flow]);
          no_votes = length (filter (\<lambda>v. v \<le> - th) [score, momentum, flow])
      in if yes_votes \<ge> 2 then ''yes''
         else if no_votes \<ge> 2 then ''no''
         else if score \<ge> th \<and> no_votes = 0 then ''yes''
         else if score \<le> - th \<and> yes_votes = 0 then ''no''
         else ''neutral'')"

definition confidence :: "ob_sample list \<Rightarrow> decimal result" where
  "confidence samples =
     (let base = ddiv (of_nat (min (length samples) 10)) 10;
          has_bid = list_ex (\<lambda>s. sa_best_bid s \<noteq> None) samples;
          has_ask = list_ex (\<lambda>s. sa_best_ask s \<noteq> None) samples
      in quantize_half_even 2 (if \<not> (has_bid \<and> has_ask) then ddiv base 2 else base))"

definition mid_delta :: "decimal option \<Rightarrow> decimal option \<Rightarrow> decimal option \<Rightarrow> decimal option" where
  "mid_delta micro bid ask =
     (case micro of
        Some m \<Rightarrow> Some m
      | None \<Rightarrow> (case (bid, ask) of
            (Some x, Some y) \<Rightarrow> Some (ddiv (dadd x y) 2)
          | (Some x, None) \<Rightarrow> Some x
          | (None, y) \<Rightarrow> y))"

definition velocity :: "decimal \<Rightarrow> decimal option \<Rightarrow> decimal option result" where
  "velocity elapsed d = (case d of
       None \<Rightarrow> Inr None
     | Some x \<Rightarrow> bind_result (quantize_half_even 6 (ddiv x elapsed)) (\<lambda>v. Inr (Some v)))"

definition elapsed_seconds :: "int \<Rightarrow> int \<Rightarrow> decimal" where
  "elapsed_seconds first last' =
     (if last' - first \<le> 0 then 1 else of_int (last' - first) / 10 ^ 6)"

definition signal_of ::
  "string \<Rightarrow> ob_sample list \<Rightarrow> int \<Rightarrow> decimal option \<Rightarrow> decimal option \<Rightarrow> decimal option \<Rightarrow> decimal option
   \<Rightarrow> decimal option \<Rightarrow> decimal \<Rightarrow> decimal \<Rightarrow> decimal \<Rightarrow> decimal \<Rightarrow> book_direction" where
  "signal_of tok samples window bid_v ask_v mid_v bid_rate ask_rate score momentum conf flow =
     (let f = hd samples; z = last samples;
          bid_delta = delta (sa_best_bid f) (sa_best_bid z);
          ask_delta = delta (sa_best_ask f) (sa_best_ask z);
          micro_delta = delta (sa_microprice f) (sa_microprice z)
      in \<lparr>ds_token_id = tok, ds_window = window, ds_sample_count = length samples,
          ds_first_observed_at = sa_received_at f, ds_last_observed_at = sa_received_at z,
          ds_bid_price_delta = bid_delta, ds_ask_price_delta = ask_delta,
          ds_mid_price_delta = mid_delta micro_delta bid_delta ask_delta,
          ds_bid_size_delta = delta (sa_best_bid_size f) (sa_best_bid_size z),
          ds_ask_size_delta = delta (sa_best_ask_size f) (sa_best_ask_size z),
          ds_first_microprice = sa_microprice f, ds_last_microprice = sa_microprice z,
          ds_microprice_delta = micro_delta,
          ds_first_real_bid_depth_usdc = sa_real_bid_depth_usdc f,
          ds_last_real_bid_depth_usdc = sa_real_bid_depth_usdc z,
          ds_first_real_ask_depth_usdc = sa_real_ask_depth_usdc f,
          ds_last_real_ask_depth_usdc = sa_real_ask_depth_usdc z,
          ds_real_bid_depth_delta_usdc = delta (sa_real_bid_depth_usdc f) (sa_real_bid_depth_usdc z),
          ds_real_ask_depth_delta_usdc = delta (sa_real_ask_depth_usdc f) (sa_real_ask_depth_usdc z),
          ds_bid_price_velocity = bid_v, ds_ask_price_velocity = ask_v, ds_mid_price_velocity = mid_v,
          ds_bid_size_consumption_rate = bid_rate, ds_ask_size_consumption_rate = ask_rate,
          ds_direction_score = score, ds_price_momentum = momentum,
          ds_flow_imbalance = flow, ds_direction_label = composite_label score momentum flow,
          ds_confidence = conf\<rparr>)"

definition compute_signal :: "string \<Rightarrow> ob_sample list \<Rightarrow> int \<Rightarrow> book_direction result" where
  "compute_signal tok samples window =
     (let f = hd samples; z = last samples;
          bid_delta = delta (sa_best_bid f) (sa_best_bid z);
          ask_delta = delta (sa_best_ask f) (sa_best_ask z);
          md = mid_delta (delta (sa_microprice f) (sa_microprice z)) bid_delta ask_delta;
          elapsed = elapsed_seconds (sa_received_at f) (sa_received_at z)
      in bind_result (velocity elapsed bid_delta) (\<lambda>bid_v.
         bind_result (velocity elapsed ask_delta) (\<lambda>ask_v.
         bind_result (velocity elapsed md) (\<lambda>mid_v.
         bind_result (velocity elapsed (map_option dneg (delta (sa_best_bid_size f) (sa_best_bid_size z)))) (\<lambda>bid_rate.
         bind_result (velocity elapsed (map_option dneg (delta (sa_best_ask_size f) (sa_best_ask_size z)))) (\<lambda>ask_rate.
         bind_result (direction_score md) (\<lambda>score.
         bind_result (price_momentum mid_v) (\<lambda>momentum.
         bind_result (confidence samples) (\<lambda>conf.
         bind_result (flow_imbalance (delta (sa_real_bid_depth_usdc f) (sa_real_bid_depth_usdc z))
             (delta (sa_real_ask_depth_usdc f) (sa_real_ask_depth_usdc z))) (\<lambda>flow.
           Inr (signal_of tok samples window bid_v ask_v mid_v bid_rate ask_rate score momentum conf flow)))))))))))"

definition direction_signal ::
  "delta_store \<Rightarrow> string \<Rightarrow> int \<Rightarrow> int \<Rightarrow> book_direction option result" where
  "direction_signal st tok window_arg now =
     (let buf = token_samples st tok
      in if length buf < 2 then Inr None
         else let window = max 500000 (min window_arg (dl_max_window st));
                  cutoff = now - window;
                  window_samples = filter (\<lambda>s. sa_received_at s \<ge> cutoff) buf
              in if length window_samples < 2 then Inr None
                 else bind_result (compute_signal tok window_samples window) (\<lambda>sig. Inr (Some sig)))"

subsection \<open>Bounds of the normalised signals\<close>

lemma quantize_half_even_between:
  assumes "quantize_half_even n x = Inr y" "a \<le> x" "x \<le> b" "even_places n a = a" "even_places n b = b"
  shows "a \<le> y \<and> y \<le> b"
  using assms evens.rnd_ge_fix [of a x n] evens.rnd_le_fix [of x b n]
  by (auto simp: quantize_half_even_def split: if_splits)

lemma even_places_of_int [simp]: "even_places n (of_int k) = of_int k"
  using rhe_of_int [of "k * 10 ^ n"] by (simp add: even_places_def)

lemma even_places_unit [simp]: "even_places n 1 = 1" "even_places n 0 = 0" "even_places n (- 1) = - 1"
  using even_places_of_int [of n 1] even_places_of_int [of n 0] even_places_of_int [of n "-1"] by simp_all

lemma dround_ratio:
  assumes "\<bar>a\<bar> \<le> b" "0 < b"
  shows "- 1 \<le> ddiv a b" "ddiv a b \<le> 1"
proof -
  have m: "dround (- 1) = - 1" using dround_minus [of 1] by simp
  have "- 1 \<le> a / b" "a / b \<le> 1" using assms by (simp_all add: le_divide_eq divide_le_eq)
  then show "- 1 \<le> ddiv a b" "ddiv a b \<le> 1"
    unfolding ddiv_def using m by (auto intro: dr.rnd_ge_fix dr.rnd_le_fix)
qed

lemma saturated_bounds:
  assumes "saturated scale limit x = Inr y" "0 < limit"
  shows "\<bar>y\<bar> \<le> 1"
proof -
  define u where "u = (let units = ddiv x scale in
    if units > limit then limit else if units < - limit then - limit else units)"
  have "\<bar>u\<bar> \<le> limit" using assms(2) by (auto simp: u_def Let_def)
  then have "- 1 \<le> ddiv u limit" "ddiv u limit \<le> 1" using dround_ratio assms(2) by auto
  moreover have "quantize_half_even 4 (ddiv u limit) = Inr y"
    using assms(1) by (simp add: saturated_def u_def Let_def)
  ultimately show ?thesis using quantize_half_even_between [of 4 "ddiv u limit" y "- 1" 1] by auto
qed

lemma score_bounds: "direction_score d = Inr y \<Longrightarrow> \<bar>y\<bar> \<le> 1" "price_momentum d = Inr y \<Longrightarrow> \<bar>y\<bar> \<le> 1"
  using saturated_bounds
  by (auto simp: direction_score_def price_momentum_def PRICE_DELTA_SATURATE_UNITS_def
      PRICE_VELOCITY_SATURATE_UNITS_def split: option.splits if_splits)

lemma flow_bounds:
  assumes "flow_imbalance b a = Inr y"
  shows "\<bar>y\<bar> \<le> 1"
proof -
  define bc where "bc = dneg (or_default b 0)"
  define ac where "ac = dneg (or_default a 0)"
  define n where "n = dadd (dabs bc) (dabs ac)"
  have abs_eq: "dabs bc = \<bar>bc\<bar>" "dabs ac = \<bar>ac\<bar>"
    by (simp_all add: dabs_def bc_def ac_def dneg_def dr.rnd_abs dr.rnd_idem)
  show ?thesis
  proof (cases "n = 0")
    case True
    then show ?thesis using assms by (simp add: flow_imbalance_def Let_def n_def bc_def ac_def)
  next
    case False
    have n: "0 \<le> n" by (simp add: n_def abs_eq)
    have "\<bar>dsub ac bc\<bar> = dround \<bar>ac - bc\<bar>" by (simp add: dsub_def dr.rnd_abs)
    also have "\<dots> \<le> n" unfolding n_def dadd_def abs_eq by (intro dround_mono) linarith
    finally have "- 1 \<le> ddiv (dsub ac bc) n" "ddiv (dsub ac bc) n \<le> 1" using dround_ratio n False by auto
    then show ?thesis
      using assms False quantize_half_even_between [of 4 "ddiv (dsub ac bc) n" y "- 1" 1]
      by (auto simp: flow_imbalance_def Let_def n_def bc_def ac_def)
  qed
qed

lemma confidence_bounds:
  assumes "confidence ss = Inr y" shows "0 \<le> y" "y \<le> 1"
proof -
  have b: "0 \<le> ddiv (of_nat (min (length ss) 10)) (10::rat)" "ddiv (of_nat (min (length ss) 10)) (10::rat) \<le> 1"
    by (auto intro!: ddiv_nonneg ddiv_le_1 simp del: of_nat_min)
  then have "0 \<le> ddiv (ddiv (of_nat (min (length ss) 10)) 10) 2" "ddiv (ddiv (of_nat (min (length ss) 10)) 10) 2 \<le> 1"
    by (auto intro: ddiv_le_1)
  then show "0 \<le> y" "y \<le> 1"
    using assms b quantize_half_even_between [of 2 _ y 0 1] by (auto simp: confidence_def Let_def split: if_splits)
qed

lemma compute_signal_Inr:
  assumes "compute_signal tok ss w = Inr sig"
  obtains b a m br ar score momentum conf flow d v rb ra where
    "sig = signal_of tok ss w b a m br ar score momentum conf flow"
    "direction_score d = Inr score" "price_momentum v = Inr momentum"
    "confidence ss = Inr conf" "flow_imbalance rb ra = Inr flow"
  using assms unfolding compute_signal_def Let_def bind_result_Inr by blast

lemma compute_signal_parts:
  assumes "compute_signal tok ss w = Inr sig"
  shows "\<exists>d. direction_score d = Inr (ds_direction_score sig)" "\<exists>v. price_momentum v = Inr (ds_price_momentum sig)"
    "\<exists>b a. flow_imbalance b a = Inr (ds_flow_imbalance sig)" "confidence ss = Inr (ds_confidence sig)"
    "ds_direction_label sig
      = composite_label (ds_direction_score sig) (ds_price_momentum sig) (ds_flow_imbalance sig)"
    "ds_sample_count sig = length ss" "ds_first_observed_at sig = sa_received_at (hd ss)"
  by (rule compute_signal_Inr [OF assms], force simp: signal_of_def Let_def)+

text \<open>
  Every direction signal the store answers is normalised: score, momentum and flow lie
  between -1 and 1, the confidence between 0 and 1, the label is one of the three, and the
  signal was computed from at least two samples no older than the window.
\<close>

lemma direction_signal_bounded:
  assumes "direction_signal st tok w now = Inr (Some sig)"
  shows "\<bar>ds_direction_score sig\<bar> \<le> 1 \<and> \<bar>ds_price_momentum sig\<bar> \<le> 1 \<and> \<bar>ds_flow_imbalance sig\<bar> \<le> 1
    \<and> 0 \<le> ds_confidence sig \<and> ds_confidence sig \<le> 1
    \<and> ds_direction_label sig \<in> {''yes'', ''no'', ''neutral''}
    \<and> 2 \<le> ds_sample_count sig
    \<and> now - max 500000 (dl_max_window st) \<le> ds_first_observed_at sig"
proof -
  let ?window = "max 500000 (min w (dl_max_window st))"
  let ?ss = "filter (\<lambda>s. sa_received_at s \<ge> now - ?window) (token_samples st tok)"
  have len: "2 \<le> length ?ss" and sig: "compute_signal tok ?ss ?window = Inr sig"
    using assms by (auto simp: direction_signal_def Let_def split: if_splits)
  have "hd ?ss \<in> set ?ss" using len by (intro hd_in_set) auto
  then have "now - max 500000 (dl_max_window st) \<le> sa_received_at (hd ?ss)" by auto
  moreover have "composite_label a b c \<in> {''yes'', ''no'', ''neutral''}" for a b c
    unfolding composite_label_def Let_def by (simp split: if_split)
  moreover note p = compute_signal_parts [OF sig]
  moreover have "\<bar>ds_direction_score sig\<bar> \<le> 1" "\<bar>ds_price_momentum sig\<bar> \<le> 1" "\<bar>ds_flow_imbalance sig\<bar> \<le> 1"
    "0 \<le> ds_confidence sig" "ds_confidence sig \<le> 1"
    using p(1-4) score_bounds flow_bounds confidence_bounds by blast+
  ultimately show ?thesis using len by simp
qed

definition demo_sample :: "int \<Rightarrow> decimal \<Rightarrow> ob_sample" where
  "demo_sample t p = \<lparr>sa_received_at = t, sa_best_bid = Some p, sa_best_ask = Some (p + 1/50),
     sa_best_bid_size = Some 10, sa_best_ask_size = Some 10, sa_microprice = Some (p + 1/100),
     sa_real_bid_depth_usdc = Some 100, sa_real_ask_depth_usdc = Some 80\<rparr>"

definition demo_delta_store :: delta_store where
  "demo_delta_store = (new_delta_store 120000000 256)
     \<lparr>dl_samples := [(''tok'', [demo_sample 0 (2/5), demo_sample 2000000 (1/2)])]\<rparr>"

definition mirror_label :: "string \<Rightarrow> string" where
  "mirror_label l = (if l = ''yes'' then ''no'' else if l = ''no'' then ''yes'' else l)"

lemma quantize_minus: "quantize_half_even n (- x) = map_sum id uminus (quantize_half_even n x)"
  using rhe_minus [of "x * 10 ^ n"] evens.rnd_minus [of n x] by (simp add: quantize_half_even_def)

lemma decimal_minus:
  "ddiv (- a) b = - ddiv a b" "dsub (- a) (- b) = - dsub a b" "dneg (- a) = - dneg a" "dabs (- a) = dabs a"
proof -
  have "- a - (- b) = - (a - b)" by simp
  then show "dsub (- a) (- b) = - dsub a b" by (simp only: dsub_def dround_minus)
  show "ddiv (- a) b = - ddiv a b" using dround_minus [of "a / b"] by (simp add: ddiv_def)
  show "dneg (- a) = - dneg a" using dround_minus [of "- a"] by (simp add: dneg_def)
qed (simp add: dabs_def)

lemma saturated_minus:
  assumes "0 < limit"
  shows "saturated scale limit (- x) = map_sum id uminus (saturated scale limit x)"
proof -
  define c where "c u = (if u > limit then limit else if u < - limit then - limit else u)" for u
  have "c (- u) = - c u" for u using assms by (simp add: c_def)
  moreover have "saturated scale limit y = quantize_half_even 4 (ddiv (c (ddiv y scale)) limit)" for y
    by (simp add: saturated_def c_def Let_def)
  ultimately show ?thesis by (simp add: decimal_minus quantize_minus)
qed

text \<open>
  The signal has no bias: turning every move around turns the score, the momentum and
  the flow into their negatives and swaps the labels yes and no.
\<close>

lemma signal_antisymmetric:
  "direction_score (map_option uminus d) = map_sum id uminus (direction_score d)
   \<and> price_momentum (map_option uminus v) = map_sum id uminus (price_momentum v)
   \<and> flow_imbalance (map_option uminus b) (map_option uminus a) = map_sum id uminus (flow_imbalance b a)
   \<and> composite_label (- s) (- m) (- f) = mirror_label (composite_label s m f)"
proof (intro conjI)
  show "direction_score (map_option uminus d) = map_sum id uminus (direction_score d)"
    by (simp add: direction_score_def saturated_minus PRICE_DELTA_SATURATE_UNITS_def split: option.split)
  show "price_momentum (map_option uminus v) = map_sum id uminus (price_momentum v)"
    by (simp add: price_momentum_def saturated_minus PRICE_VELOCITY_SATURATE_UNITS_def split: option.split)
  have o: "or_default (map_option uminus x) 0 = - or_default x (0 :: rat)" for x by (cases x) simp_all
  show "flow_imbalance (map_option uminus b) (map_option uminus a) = map_sum id uminus (flow_imbalance b a)"
    by (simp add: flow_imbalance_def Let_def o decimal_minus quantize_minus)
  show "composite_label (- s) (- m) (- f) = mirror_label (composite_label s m f)"
    by (auto simp: composite_label_def mirror_label_def DIRECTION_LABEL_THRESHOLD_def Let_def)
qed

subsection \<open>The buffers\<close>

inductive delta_reachable :: "delta_store \<Rightarrow> bool" where
  delta_init: "delta_reachable (new_delta_store window n)"
| delta_observe: "delta_reachable st \<Longrightarrow> observe st b = Inr st' \<Longrightarrow> delta_reachable st'"
| delta_prune: "delta_reachable st \<Longrightarrow> delta_reachable (fst (prune st now))"

inductive_cases delta_reachableE: "delta_reachable st"

definition fresh_run :: "ob_sample list \<Rightarrow> bool" where
  "fresh_run buf \<longleftrightarrow> successively (\<lambda>a b. \<not> samples_equal a b) buf"

definition buffer_ok :: "nat \<Rightarrow> ob_sample list \<Rightarrow> bool" where
  "buffer_ok n buf \<longleftrightarrow> length buf \<le> n \<and> fresh_run buf"

lemma fresh_run_drop: "fresh_run buf \<Longrightarrow> fresh_run (drop k buf)"
  using successively_append_iff [of "\<lambda>a b. \<not> samples_equal a b" "take k buf" "drop k buf"]
  by (simp add: fresh_run_def)

lemma buffer_ok_push: "buffer_ok n buf \<Longrightarrow> buffer_ok n (push_sample n buf s)"
proof -
  assume ok: "buffer_ok n buf"
  have "fresh_run (buf @ [s])" if "buf = [] \<or> \<not> samples_equal (last buf) s"
    using ok that by (auto simp: buffer_ok_def fresh_run_def successively_append_iff)
  then have "fresh_run (keep_last n (buf @ [s]))" if "buf = [] \<or> \<not> samples_equal (last buf) s"
    using that by (auto simp: keep_last_def intro: fresh_run_drop simp del: drop_append)
  then show ?thesis using ok length_keep_last [of n "buf @ [s]"] by (auto simp: push_sample_def buffer_ok_def)
qed

lemma buffer_ok_prune: "buffer_ok n buf \<Longrightarrow> buffer_ok n (prune_one cutoff buf)"
  using fresh_run_drop length_dropWhile_le
  by (auto simp: buffer_ok_def prune_one_def dropWhile_eq_drop intro: order_trans)

definition delta_ok :: "delta_store \<Rightarrow> bool" where
  "delta_ok st \<longleftrightarrow> 2 \<le> dl_max_samples st \<and> (\<forall>tok. buffer_ok (dl_max_samples st) (token_samples st tok))"

lemma dict_get_map: "dict_get (map (\<lambda>(k, v). (k, f v)) d) k' = map_option f (dict_get d k')"
  by (simp add: dict_get_def map_of_map)

lemma token_samples_prune:
  "token_samples (fst (prune st now)) tok = prune_one (now - dl_max_window st) (token_samples st tok)"
  by (cases "dict_get (dl_samples st) tok")
    (simp_all add: token_samples_def prune_def dict_get_or_def Let_def prune_one_def dict_get_map)

lemma delta_reachable_ok: "delta_reachable st \<Longrightarrow> delta_ok st"
proof (induction rule: delta_reachable.induct)
  case (delta_init window n)
  then show ?case by (simp add: delta_ok_def new_delta_store_def token_samples_def buffer_ok_def fresh_run_def)
next
  case (delta_observe st b st')
  then show ?case
    using buffer_ok_push by (auto simp: observe_def delta_ok_def token_samples_def split: if_splits)
next
  case (delta_prune st now)
  moreover have "dl_max_samples (fst (prune st now)) = dl_max_samples st" by (simp add: prune_def Let_def)
  ultimately show ?case by (simp add: delta_ok_def token_samples_prune buffer_ok_prune)
qed

lemma prune_counts:
  "(\<Sum>(k, buf)\<leftarrow>d. length buf - length (prune_one c buf)) + (\<Sum>(k, buf)\<leftarrow>d. length (prune_one c buf))
    = (\<Sum>(k, buf)\<leftarrow>d. length buf)"
proof (induction d)
  case (Cons x d)
  then show ?case using length_dropWhile_le [of "\<lambda>s. sa_received_at s < c" "snd x"]
    by (cases x) (simp add: prune_one_def)
qed simp

text \<open>
  In every reachable store each buffer holds at most the configured number of samples and
  no two neighbours that differ only in their time; pruning leaves no buffer with an overdue
  first sample, drops only samples from the front, and reports exactly how many it dropped.
\<close>

lemma delta_store_bounded:
  assumes "delta_reachable st"
  shows "length (token_samples st tok) \<le> dl_max_samples st
    \<and> successively (\<lambda>a b. \<not> samples_equal a b) (token_samples st tok)
    \<and> (case token_samples (fst (prune st now)) tok of [] \<Rightarrow> True
       | s # ss \<Rightarrow> now - dl_max_window st \<le> sa_received_at s)
    \<and> (\<exists>n. token_samples (fst (prune st now)) tok = drop n (token_samples st tok))
    \<and> snd (prune st now) + sum_list (map (\<lambda>(k, buf). length buf) (dl_samples (fst (prune st now))))
      = sum_list (map (\<lambda>(k, buf). length buf) (dl_samples st))"
proof -
  have "delta_ok st" using delta_reachable_ok [OF assms] .
  moreover have "case prune_one c buf of [] \<Rightarrow> True | s # ss \<Rightarrow> c \<le> sa_received_at s" for c buf
    by (auto simp: prune_one_def dropWhile_eq_Cons_conv split: list.split)
  moreover have "snd (prune st now) + sum_list (map (\<lambda>(k, buf). length buf) (dl_samples (fst (prune st now))))
      = sum_list (map (\<lambda>(k, buf). length buf) (dl_samples st))"
    using prune_counts [of "now - dl_max_window st" "dl_samples st"]
    by (simp add: prune_def Let_def case_prod_unfold o_def)
  moreover have "\<exists>n. prune_one c buf = drop n buf" for c buf
    unfolding prune_one_def dropWhile_eq_drop by blast
  ultimately show ?thesis
    by (simp add: delta_ok_def buffer_ok_def fresh_run_def token_samples_prune)
qed

definition demo_delta_run :: delta_store where
  "demo_delta_run = (case observe (new_delta_store 1000000 5) demo_book of
     Inl e \<Rightarrow> new_delta_store 1000000 5 | Inr st \<Rightarrow> st)"

end
