(* ===== verification/Book_History.thy ===== *)
theory Book_History
  imports Orderbook
begin

text \<open>
  \<open>runtime/orderbook_history_buffer.py\<close>: for every token the books seen in a window of time, the
  tokens themselves in the order of their last book and bounded in number. The monotonic clock is
  the argument \<open>now\<close>, in microseconds.
\<close>

record history_sample =
  hs_ts :: int
  hs_book :: book

record history_buffer =
  hb_max_age :: int
  hb_max_tokens :: nat
  hb_buffers :: "(string, history_sample list) dict"

definition new_history :: "int \<Rightarrow> nat \<Rightarrow> history_buffer" where
  "new_history age cap = \<lparr>hb_max_age = age, hb_max_tokens = cap, hb_buffers = []\<rparr>"

definition history_of :: "history_buffer \<Rightarrow> string \<Rightarrow> history_sample list" where
  "history_of h tok = dict_get_or (hb_buffers h) tok []"

definition history_record :: "history_buffer \<Rightarrow> int \<Rightarrow> book \<Rightarrow> history_buffer" where
  "history_record h now b =
     (let tok = ob_token_id b;
          buf = history_of h tok @ [\<lparr>hs_ts = now, hs_book = b\<rparr>];
          kept = dropWhile (\<lambda>s. hs_ts s < now - hb_max_age h) buf
      in h\<lparr>hb_buffers := trim_front (hb_max_tokens h) (dict_pop (hb_buffers h) tok @ [(tok, kept)])\<rparr>)"

definition history_latest :: "history_buffer \<Rightarrow> string \<Rightarrow> book option" where
  "history_latest h tok = (case history_of h tok of [] \<Rightarrow> None | s # ss \<Rightarrow> Some (hs_book (last (s # ss))))"

text \<open>
  The search for the sample nearest to a time goes up the samples and stops at the first one that
  is not nearer than the one before it.
\<close>

fun nearest_loop :: "int \<Rightarrow> book option \<Rightarrow> int option \<Rightarrow> history_sample list \<Rightarrow> book option" where
  "nearest_loop target best best_diff [] = best"
| "nearest_loop target best best_diff (s # ss) =
     (let diff = \<bar>hs_ts s - target\<bar> in
      if (case best_diff of None \<Rightarrow> True | Some d \<Rightarrow> diff < d)
      then nearest_loop target (Some (hs_book s)) (Some diff) ss else best)"

definition snapshot_at :: "history_buffer \<Rightarrow> int \<Rightarrow> string \<Rightarrow> int \<Rightarrow> book option" where
  "snapshot_at h now tok ago = nearest_loop (now - ago) None None (history_of h tok)"

definition sample_count :: "history_buffer \<Rightarrow> string \<Rightarrow> nat" where
  "sample_count h tok = length (history_of h tok)"

definition history_samples :: "history_buffer \<Rightarrow> string \<Rightarrow> (int \<times> book) list" where
  "history_samples h tok = map (\<lambda>s. (hs_ts s, hs_book s)) (history_of h tok)"

definition tracked_token_count :: "history_buffer \<Rightarrow> nat" where
  "tracked_token_count h = length (hb_buffers h)"

definition total_samples :: "history_buffer \<Rightarrow> nat" where
  "total_samples h = sum_list (map length (dict_values (hb_buffers h)))"

subsection \<open>What holds after any books\<close>

definition history_window :: "int \<Rightarrow> string \<Rightarrow> history_sample list \<Rightarrow> bool" where
  "history_window age tok ss \<longleftrightarrow> ss \<noteq> [] \<and> sorted (map hs_ts ss)
     \<and> list_all (\<lambda>s. ob_token_id (hs_book s) = tok \<and> hs_ts (last ss) - age \<le> hs_ts s) ss"

definition history_ok :: "int \<Rightarrow> history_buffer \<Rightarrow> bool" where
  "history_ok now h \<longleftrightarrow> dict_ok (hb_buffers h) \<and> length (hb_buffers h) \<le> hb_max_tokens h \<and> 0 \<le> hb_max_age h
     \<and> list_all (\<lambda>(tok, ss). history_window (hb_max_age h) tok ss \<and> hs_ts (last ss) \<le> now) (hb_buffers h)"

text \<open>A history whose clock stands at \<open>now\<close>; the clock never goes back.\<close>

inductive history_reachable :: "int \<Rightarrow> nat \<Rightarrow> int \<Rightarrow> history_buffer \<Rightarrow> bool"
  for age :: int and cap :: nat where
  history_init: "0 \<le> age \<Longrightarrow> history_reachable age cap now (new_history age cap)"
| history_next: "history_reachable age cap t h \<Longrightarrow> t \<le> now
    \<Longrightarrow> history_reachable age cap now (history_record h now b)"

lemma history_of_window:
  assumes "history_ok now h" "history_of h tok \<noteq> []"
  shows "history_window (hb_max_age h) tok (history_of h tok)" "hs_ts (last (history_of h tok)) \<le> now"
proof -
  obtain ss where ss: "dict_get (hb_buffers h) tok = Some ss" "history_of h tok = ss"
    using assms(2) by (cases "dict_get (hb_buffers h) tok") (auto simp: history_of_def dict_get_or_def)
  then have "(tok, ss) \<in> set (hb_buffers h)"
    using assms(1) pd.entries_get [of "hb_buffers h" tok ss] by (simp add: history_ok_def)
  with assms(1) ss(2) show "history_window (hb_max_age h) tok (history_of h tok)"
    "hs_ts (last (history_of h tok)) \<le> now"
    by (auto simp: history_ok_def list_all_iff)
qed

lemma sorted_le_last: "sorted (map f xs) \<Longrightarrow> x \<in> set xs \<Longrightarrow> f x \<le> f (last xs)"
  by (induction xs) (auto simp: last_in_set)

definition kept_samples :: "history_buffer \<Rightarrow> int \<Rightarrow> book \<Rightarrow> history_sample list" where
  "kept_samples h now b = dropWhile (\<lambda>s. hs_ts s < now - hb_max_age h)
     (history_of h (ob_token_id b) @ [\<lparr>hs_ts = now, hs_book = b\<rparr>])"

lemma record_kept:
  "hb_buffers (history_record h now b) = trim_front (hb_max_tokens h)
     (dict_pop (hb_buffers h) (ob_token_id b) @ [(ob_token_id b, kept_samples h now b)])"
  "hb_max_age (history_record h now b) = hb_max_age h" "hb_max_tokens (history_record h now b) = hb_max_tokens h"
  by (simp_all add: history_record_def kept_samples_def Let_def)

lemma kept_snoc:
  assumes "history_ok t h"
  shows "kept_samples h now b = dropWhile (\<lambda>s. hs_ts s < now - hb_max_age h) (history_of h (ob_token_id b))
    @ [\<lparr>hs_ts = now, hs_book = b\<rparr>]"
  using assms by (simp add: kept_samples_def dropWhile_append3 history_ok_def)

lemma old_samples:
  assumes "history_ok t h" "t \<le> now"
  shows "sorted (map hs_ts (history_of h tok))"
    and "s \<in> set (history_of h tok) \<Longrightarrow> ob_token_id (hs_book s) = tok \<and> hs_ts s \<le> now"
proof -
  show "sorted (map hs_ts (history_of h tok))"
    using history_of_window(1) [OF assms(1), of tok] by (cases "history_of h tok = []") (simp_all add: history_window_def)
  assume s: "s \<in> set (history_of h tok)"
  then have "history_of h tok \<noteq> []" by auto
  note w = history_of_window [OF assms(1) this]
  have "hs_ts s \<le> hs_ts (last (history_of h tok))"
    using sorted_le_last [of hs_ts, OF _ s] w(1) by (simp add: history_window_def)
  then show "ob_token_id (hs_book s) = tok \<and> hs_ts s \<le> now"
    using w s assms(2) by (auto simp: history_window_def list_all_iff)
qed

lemma sorted_map_dropWhile: "sorted (map f xs) \<Longrightarrow> sorted (map f (dropWhile P xs))"
  by (simp add: dropWhile_eq_drop drop_map [symmetric] sorted_wrt_drop)

lemma dropWhile_sorted_ge:
  assumes "sorted (map f xs)" "x \<in> set (dropWhile (\<lambda>y. f y < c) xs)"
  shows "c \<le> f x"
  using assms by (induction xs) (auto split: if_splits dest: order_trans [rotated])

lemma kept_window:
  assumes "history_ok t h" "t \<le> now"
  shows "history_window (hb_max_age h) (ob_token_id b) (kept_samples h now b)"
proof -
  let ?old = "history_of h (ob_token_id b)" and ?c = "now - hb_max_age h"
  note old = old_samples [OF assms, where tok = "ob_token_id b"] and age = assms(1) [unfolded history_ok_def]
  have "sorted (map hs_ts (dropWhile (\<lambda>s. hs_ts s < ?c) ?old @ [\<lparr>hs_ts = now, hs_book = b\<rparr>]))"
    using sorted_map_dropWhile [OF old(1)] old(2) by (auto simp: sorted_append dest: set_dropWhileD)
  moreover have "ob_token_id (hs_book s) = ob_token_id b \<and> ?c \<le> hs_ts s"
    if "s \<in> set (dropWhile (\<lambda>s. hs_ts s < ?c) ?old)" for s
    using old(2) set_dropWhileD [OF that] dropWhile_sorted_ge [OF old(1) that] by blast
  ultimately show ?thesis
    using age by (auto simp: history_window_def kept_snoc [OF assms(1)] list_all_iff)
qed

lemma kept_last:
  assumes "history_ok t h"
  shows "kept_samples h now b \<noteq> []" "last (kept_samples h now b) = \<lparr>hs_ts = now, hs_book = b\<rparr>"
  by (simp_all add: kept_snoc [OF assms])

lemma history_record_ok:
  assumes "history_ok t h" "t \<le> now"
  shows "history_ok now (history_record h now b)"
proof -
  let ?tok = "ob_token_id b"
  let ?d = "dict_pop (hb_buffers h) ?tok @ [(?tok, kept_samples h now b)]"
  have "dict_ok (dict_pop (hb_buffers h) ?tok)" using assms(1) by (simp add: history_ok_def pd.ok_pop)
  moreover have "?tok \<notin> fst ` set (dict_pop (hb_buffers h) ?tok)" by (simp add: dict_pop_keys)
  ultimately have "dict_ok ?d" by (simp add: dict_ok_def)
  then have ok: "dict_ok (drop n ?d)" for n by (simp only: dict_ok_def drop_map [symmetric] distinct_drop)
  have "history_window (hb_max_age h) tok ss \<and> hs_ts (last ss) \<le> now" if "(tok, ss) \<in> set ?d" for tok ss
    using that assms kept_window [OF assms, of b] kept_last [OF assms(1), of now b]
    by (auto simp: history_ok_def list_all_iff dict_pop_def)
  then have "\<forall>(tok, ss) \<in> set (drop n ?d). history_window (hb_max_age h) tok ss \<and> hs_ts (last ss) \<le> now" for n
    using in_set_dropD [of _ n ?d] by blast
  then show ?thesis
    using assms(1) ok by (simp add: history_ok_def record_kept list_all_iff length_trim_front trim_front_drop
        del: drop_append)
qed

lemma history_reachable_ok: "history_reachable age cap now h \<Longrightarrow> history_ok now h \<and> hb_max_age h = age \<and> hb_max_tokens h = cap"
proof (induction rule: history_reachable.induct)
  case (history_next t h now b)
  then show ?case using history_record_ok [of t h now b] by (simp add: record_kept)
qed (simp add: history_ok_def new_history_def)

lemma dict_get_appended: "k \<notin> fst ` set xs \<Longrightarrow> dict_get (xs @ [(k, v)]) k = Some v"
  by (induction xs) (auto simp: dict_get_def)

lemma latest_recorded:
  assumes "history_ok t h" "0 < hb_max_tokens h"
  shows "history_latest (history_record h now b) (ob_token_id b) = Some b"
proof -
  let ?tok = "ob_token_id b" and ?kept = "kept_samples h now b"
  let ?rest = "drop (Suc (length (dict_pop (hb_buffers h) ?tok)) - hb_max_tokens h) (dict_pop (hb_buffers h) ?tok)"
  have "hb_buffers (history_record h now b) = ?rest @ [(?tok, ?kept)]"
    using assms(2) by (simp add: record_kept trim_front_drop)
  moreover have "?tok \<notin> fst ` set ?rest"
  proof -
    have "fst ` set ?rest \<subseteq> fst ` set (dict_pop (hb_buffers h) ?tok)" by (intro image_mono set_drop_subset)
    then show ?thesis using dict_pop_keys [of "hb_buffers h" ?tok] by blast
  qed
  ultimately have "history_of (history_record h now b) ?tok = ?kept"
    by (simp add: history_of_def dict_get_or_def dict_get_appended del: set_drop_subset)
  then show ?thesis
    using kept_last [OF assms(1), of now b] by (cases ?kept) (simp_all add: history_latest_def)
qed

subsection \<open>The nearest sample\<close>

lemma nearest_after:
  assumes "sorted_wrt (<) (map hs_ts (y # ss))"
  shows "\<exists>s \<in> set (y # ss). nearest_loop target (Some (hs_book y)) (Some \<bar>hs_ts y - target\<bar>) ss = Some (hs_book s)
    \<and> (\<forall>r \<in> set (y # ss). \<bar>hs_ts s - target\<bar> \<le> \<bar>hs_ts r - target\<bar>)"
  using assms
proof (induction ss arbitrary: y)
  case (Cons x xs)
  show ?case
  proof (cases "\<bar>hs_ts x - target\<bar> < \<bar>hs_ts y - target\<bar>")
    case True
    have "sorted_wrt (<) (map hs_ts (x # xs))" using Cons.prems by simp
    from Cons.IH [OF this] obtain s where s: "s \<in> set (x # xs)"
        "nearest_loop target (Some (hs_book x)) (Some \<bar>hs_ts x - target\<bar>) xs = Some (hs_book s)"
        "\<forall>r \<in> set (x # xs). \<bar>hs_ts s - target\<bar> \<le> \<bar>hs_ts r - target\<bar>" by blast
    then have "\<bar>hs_ts s - target\<bar> \<le> \<bar>hs_ts y - target\<bar>" using True by fastforce
    with s True show ?thesis by (intro bexI [of _ s]) (simp_all add: Let_def)
  next
    case False
    have "\<bar>hs_ts y - target\<bar> \<le> \<bar>hs_ts r - target\<bar>" if "r \<in> set (x # xs)" for r
    proof -
      have "hs_ts y < hs_ts x" "hs_ts x \<le> hs_ts r" using Cons.prems that by auto
      then show ?thesis using False by linarith
    qed
    with False show ?thesis by (intro bexI [of _ y]) (simp_all add: Let_def)
  qed
qed simp

lemma nearest_sample:
  assumes "sorted_wrt (<) (map hs_ts ss)" "ss \<noteq> []"
  shows "\<exists>s \<in> set ss. nearest_loop target None None ss = Some (hs_book s)
    \<and> (\<forall>r \<in> set ss. \<bar>hs_ts s - target\<bar> \<le> \<bar>hs_ts r - target\<bar>)"
  using assms nearest_after [of "hd ss" "tl ss" target] by (cases ss) simp_all

text \<open>
  The search that stops early finds the nearest book: in every reachable history in which no
  two books of the token carry the same time, \<open>snapshot_at\<close> answers with a recorded book of the
  token such that no recorded book is nearer to the time asked for, and it answers whenever there
  is one. Books of the same time break it (lemma \<open>equal_times_stop\<close>).
\<close>

lemma history_nearest:
  assumes "history_reachable age cap t h" "history_of h tok \<noteq> []" "distinct (map hs_ts (history_of h tok))"
  shows "\<exists>s \<in> set (history_of h tok). snapshot_at h now tok ago = Some (hs_book s) \<and> ob_token_id (hs_book s) = tok
    \<and> (\<forall>r \<in> set (history_of h tok). \<bar>hs_ts s - (now - ago)\<bar> \<le> \<bar>hs_ts r - (now - ago)\<bar>)"
proof -
  have w: "history_window (hb_max_age h) tok (history_of h tok)"
    using history_reachable_ok [OF assms(1)] history_of_window(1) assms(2) by blast
  then have "sorted_wrt (<) (map hs_ts (history_of h tok))"
    using assms(3) by (simp add: history_window_def strict_sorted_iff)
  from nearest_sample [OF this assms(2), of "now - ago"] w show ?thesis
    by (auto simp: snapshot_at_def history_window_def list_all_iff)
qed

definition timed_book :: "decimal \<Rightarrow> book" where
  "timed_book p = demo_book\<lparr>ob_token_id := ''t1'', ob_best_bid := Some p\<rparr>"

definition demo_history :: "int \<Rightarrow> history_buffer" where
  "demo_history t2 = history_record (history_record (history_record (new_history 15000000 2) 1000000
     (timed_book (1/10))) t2 (timed_book (2/10))) 5000000 (timed_book (3/10))"

text \<open>Three books, the second as old as the first: the search for the newest one returns the oldest.\<close>

lemma equal_times_stop:
  "map_option ob_best_bid (snapshot_at (demo_history 1000000) 6000000 ''t1'' 1000000) = Some (Some (1/10))
   \<and> map (map_option ob_best_bid) [history_latest (demo_history 1000000) ''t1'',
       snapshot_at (demo_history 2000000) 6000000 ''t1'' 1000000] = [Some (Some (3/10)), Some (Some (3/10))]"
  by code_simp

end
