(* ===== verification/Order_Types.thy ===== *)
theory Order_Types
  imports Decimal_Arith
begin

text \<open>
  The order vocabulary of \<open>domain/order.py\<close>: sides, types and statuses, the two tradable
  intents with their computed properties, the local order record and the result of an
  execution. Timestamps are microseconds since the epoch. The fields \<open>intent_tags\<close> and
  \<open>metadata\<close> carry audit data that no modelled operation reads; they are left out.
\<close>

datatype order_side = BUY | SELL

datatype order_type = FAK | GTC

datatype order_status =
    OS_CREATED | OS_SIGNED | OS_SUBMITTED | OS_CANCEL_REQUESTED | OS_MATCHED
  | OS_PARTIALLY_FILLED | OS_NO_FILL | OS_LIVE | OS_CANCELLED | OS_REJECTED | OS_FAILED

datatype order_result_status =
    FULL_FILL | PARTIAL_FILL | NO_FILL | LIVE | REJECTED | FAILED | CANCELLED | UNKNOWN_TIMEOUT

text \<open>The string values of the enumerations (\<open>StrEnum\<close>).\<close>

fun side_value :: "order_side \<Rightarrow> string" where
  "side_value BUY = ''BUY''"
| "side_value SELL = ''SELL''"

fun order_type_value :: "order_type \<Rightarrow> string" where
  "order_type_value FAK = ''FAK''"
| "order_type_value GTC = ''GTC''"

fun order_status_value :: "order_status \<Rightarrow> string" where
  "order_status_value OS_CREATED = ''created''"
| "order_status_value OS_SIGNED = ''signed''"
| "order_status_value OS_SUBMITTED = ''submitted''"
| "order_status_value OS_CANCEL_REQUESTED = ''cancel_requested''"
| "order_status_value OS_MATCHED = ''matched''"
| "order_status_value OS_PARTIALLY_FILLED = ''partially_filled''"
| "order_status_value OS_NO_FILL = ''no_fill''"
| "order_status_value OS_LIVE = ''live''"
| "order_status_value OS_CANCELLED = ''cancelled''"
| "order_status_value OS_REJECTED = ''rejected''"
| "order_status_value OS_FAILED = ''failed''"

fun result_status_value :: "order_result_status \<Rightarrow> string" where
  "result_status_value FULL_FILL = ''full_fill''"
| "result_status_value PARTIAL_FILL = ''partial_fill''"
| "result_status_value NO_FILL = ''no_fill''"
| "result_status_value LIVE = ''live''"
| "result_status_value REJECTED = ''rejected''"
| "result_status_value FAILED = ''failed''"
| "result_status_value CANCELLED = ''cancelled''"
| "result_status_value UNKNOWN_TIMEOUT = ''unknown_timeout''"

text \<open>A decimal that Python counts as true, and \<open>a or b\<close> on optional decimals.\<close>

definition dec_truthy :: "decimal option \<Rightarrow> decimal option" where
  "dec_truthy a = (case a of Some x \<Rightarrow> if x = 0 then None else Some x | None \<Rightarrow> None)"

definition dec_or :: "decimal option \<Rightarrow> decimal option \<Rightarrow> decimal option" where
  "dec_or a b = or_else (dec_truthy a) b"

fun order_result_to_order_status :: "order_result_status \<Rightarrow> order_status" where
  "order_result_to_order_status FULL_FILL = OS_MATCHED"
| "order_result_to_order_status PARTIAL_FILL = OS_PARTIALLY_FILLED"
| "order_result_to_order_status NO_FILL = OS_NO_FILL"
| "order_result_to_order_status LIVE = OS_LIVE"
| "order_result_to_order_status REJECTED = OS_REJECTED"
| "order_result_to_order_status FAILED = OS_FAILED"
| "order_result_to_order_status CANCELLED = OS_CANCELLED"
| "order_result_to_order_status UNKNOWN_TIMEOUT = OS_FAILED"

subsection \<open>Intents\<close>

record buy_intent =
  bi_trace_id :: string
  bi_condition_id :: string
  bi_token_id :: string
  bi_price :: decimal
  bi_amount_usdc :: decimal
  bi_market_slug :: "string option"
  bi_order_type :: order_type
  bi_idempotency_key :: "string option"
  bi_post_only :: bool
  bi_allow_open_exit_overlap :: bool

record sell_intent =
  si_trace_id :: string
  si_condition_id :: string
  si_token_id :: string
  si_price :: decimal
  si_size_shares :: decimal
  si_market_slug :: "string option"
  si_order_type :: order_type
  si_idempotency_key :: "string option"
  si_post_only :: bool

datatype order_intent = BuyIntent buy_intent | SellIntent sell_intent

fun intent_side :: "order_intent \<Rightarrow> order_side" where
  "intent_side (BuyIntent b) = BUY"
| "intent_side (SellIntent s) = SELL"

fun intent_size_shares :: "order_intent \<Rightarrow> decimal option" where
  "intent_size_shares (BuyIntent b) = None"
| "intent_size_shares (SellIntent s) = Some (si_size_shares s)"

fun intent_amount_usdc :: "order_intent \<Rightarrow> decimal option" where
  "intent_amount_usdc (BuyIntent b) = Some (bi_amount_usdc b)"
| "intent_amount_usdc (SellIntent s) = None"

fun intent_notional_usdc :: "order_intent \<Rightarrow> decimal" where
  "intent_notional_usdc (BuyIntent b) = bi_amount_usdc b"
| "intent_notional_usdc (SellIntent s) = dmul (si_price s) (si_size_shares s)"

fun intent_price :: "order_intent \<Rightarrow> decimal" where
  "intent_price (BuyIntent b) = bi_price b"
| "intent_price (SellIntent s) = si_price s"

fun intent_order_type :: "order_intent \<Rightarrow> order_type" where
  "intent_order_type (BuyIntent b) = bi_order_type b"
| "intent_order_type (SellIntent s) = si_order_type s"

fun intent_post_only :: "order_intent \<Rightarrow> bool" where
  "intent_post_only (BuyIntent b) = bi_post_only b"
| "intent_post_only (SellIntent s) = si_post_only s"

fun intent_trace_id :: "order_intent \<Rightarrow> string" where
  "intent_trace_id (BuyIntent b) = bi_trace_id b"
| "intent_trace_id (SellIntent s) = si_trace_id s"

fun intent_condition_id :: "order_intent \<Rightarrow> string" where
  "intent_condition_id (BuyIntent b) = bi_condition_id b"
| "intent_condition_id (SellIntent s) = si_condition_id s"

fun intent_token_id :: "order_intent \<Rightarrow> string" where
  "intent_token_id (BuyIntent b) = bi_token_id b"
| "intent_token_id (SellIntent s) = si_token_id s"

text \<open>Control intents, and the union a result can refer back to.\<close>

record cancel_intent =
  ci_trace_id :: string
  ci_condition_id :: string
  ci_token_id :: string
  ci_order_id :: string
  ci_market_slug :: "string option"
  ci_idempotency_key :: "string option"
  ci_reason :: string

record replace_intent =
  ri_trace_id :: string
  ri_condition_id :: string
  ri_token_id :: string
  ri_order_id :: string
  ri_new_price :: decimal
  ri_size_shares :: decimal
  ri_market_slug :: "string option"
  ri_idempotency_key :: "string option"
  ri_reason :: string
  ri_side :: "order_side option"

datatype managed_intent = Tradable order_intent | Cancelling cancel_intent | Replacing replace_intent

fun intent_idempotency_key :: "order_intent \<Rightarrow> string option" where
  "intent_idempotency_key (BuyIntent b) = bi_idempotency_key b"
| "intent_idempotency_key (SellIntent s) = si_idempotency_key s"

fun intent_market_slug :: "order_intent \<Rightarrow> string option" where
  "intent_market_slug (BuyIntent b) = bi_market_slug b"
| "intent_market_slug (SellIntent s) = si_market_slug s"

fun managed_idempotency_key :: "managed_intent \<Rightarrow> string option" where
  "managed_idempotency_key (Tradable i) = intent_idempotency_key i"
| "managed_idempotency_key (Cancelling c) = ci_idempotency_key c"
| "managed_idempotency_key (Replacing r) = ri_idempotency_key r"

text \<open>\<open>bool(getattr(intent, "post_only", False))\<close>: the control intents have no such field.\<close>

fun managed_post_only :: "managed_intent \<Rightarrow> bool" where
  "managed_post_only (Tradable i) = intent_post_only i"
| "managed_post_only (Cancelling c) = False"
| "managed_post_only (Replacing r) = False"

subsection \<open>Order records and results\<close>

record order =
  or_condition_id :: string
  or_token_id :: string
  or_side :: order_side
  or_order_type :: order_type
  or_price :: decimal
  or_trace_id :: string
  or_market_slug :: "string option"
  or_amount_usdc :: "decimal option"
  or_size_shares :: "decimal option"
  or_filled_shares :: decimal
  or_remaining_shares :: "decimal option"
  or_notional_usdc :: "decimal option"
  or_order_id :: "string option"
  or_trade_id :: "string option"
  or_status :: order_status
  or_idempotency_key :: "string option"
  or_reason :: string
  or_post_only :: bool
  or_created_at :: "int option"
  or_updated_at :: "int option"

definition order_open :: "order \<Rightarrow> bool" where
  "order_open r \<longleftrightarrow> or_status r \<in> {OS_CREATED, OS_SIGNED, OS_SUBMITTED,
     OS_CANCEL_REQUESTED, OS_LIVE, OS_MATCHED, OS_PARTIALLY_FILLED}"

record order_result =
  rs_trace_id :: string
  rs_condition_id :: string
  rs_token_id :: string
  rs_status :: order_result_status
  rs_intent :: "managed_intent option"
  rs_market_slug :: "string option"
  rs_order_id :: "string option"
  rs_trade_id :: "string option"
  rs_side :: "order_side option"
  rs_order_type :: "order_type option"
  rs_price :: "decimal option"
  rs_requested_amount_usdc :: "decimal option"
  rs_requested_size_shares :: "decimal option"
  rs_matched_shares :: decimal
  rs_remaining_shares :: decimal
  rs_spent_usdc :: decimal
  rs_notional_usdc :: decimal
  rs_reason :: string
  rs_retryable :: bool
  rs_queued_at :: "int option"
  rs_ack_at :: "int option"

definition result_filled :: "order_result \<Rightarrow> bool" where
  "result_filled r \<longleftrightarrow> rs_status r \<in> {FULL_FILL, PARTIAL_FILL}"

definition has_resting_order :: "order_result \<Rightarrow> bool" where
  "has_resting_order r \<longleftrightarrow> rs_status r = LIVE"

text \<open>Defaults of the dataclasses, for building concrete values.\<close>

definition buy_order :: "string \<Rightarrow> string \<Rightarrow> string \<Rightarrow> decimal \<Rightarrow> decimal \<Rightarrow> buy_intent" where
  "buy_order trace cid tok price amount =
     \<lparr>bi_trace_id = trace, bi_condition_id = cid, bi_token_id = tok, bi_price = price,
      bi_amount_usdc = amount, bi_market_slug = None, bi_order_type = FAK,
      bi_idempotency_key = None, bi_post_only = False, bi_allow_open_exit_overlap = False\<rparr>"

definition sell_order :: "string \<Rightarrow> string \<Rightarrow> string \<Rightarrow> decimal \<Rightarrow> decimal \<Rightarrow> sell_intent" where
  "sell_order trace cid tok price sz =
     \<lparr>si_trace_id = trace, si_condition_id = cid, si_token_id = tok, si_price = price,
      si_size_shares = sz, si_market_slug = None, si_order_type = GTC,
      si_idempotency_key = None, si_post_only = False\<rparr>"

definition new_order ::
  "string \<Rightarrow> string \<Rightarrow> order_side \<Rightarrow> order_type \<Rightarrow> decimal \<Rightarrow> order" where
  "new_order cid tok sd ty price =
     \<lparr>or_condition_id = cid, or_token_id = tok, or_side = sd, or_order_type = ty,
      or_price = price, or_trace_id = [], or_market_slug = None, or_amount_usdc = None,
      or_size_shares = None, or_filled_shares = 0, or_remaining_shares = None,
      or_notional_usdc = None, or_order_id = None, or_trade_id = None,
      or_status = OS_CREATED, or_idempotency_key = None, or_reason = [],
      or_post_only = False, or_created_at = None, or_updated_at = None\<rparr>"

definition new_result ::
  "string \<Rightarrow> string \<Rightarrow> string \<Rightarrow> order_result_status \<Rightarrow> order_result" where
  "new_result trace cid tok st =
     \<lparr>rs_trace_id = trace, rs_condition_id = cid, rs_token_id = tok, rs_status = st,
      rs_intent = None, rs_market_slug = None, rs_order_id = None, rs_trade_id = None, rs_side = None,
      rs_order_type = None, rs_price = None, rs_requested_amount_usdc = None,
      rs_requested_size_shares = None, rs_matched_shares = 0, rs_remaining_shares = 0,
      rs_spent_usdc = 0, rs_notional_usdc = 0, rs_reason = [], rs_retryable = False,
      rs_queued_at = None, rs_ack_at = None\<rparr>"

lemmas order_defaults = buy_order_def sell_order_def new_order_def new_result_def

end
