(* ===== verification/Market_Model.thy ===== *)
theory Market_Model
  imports Order_Types
begin

text \<open>
  \<open>domain/market.py\<close>: the immutable market value, its outcome lookups and its
  copy-with-changes methods, plus the manual-order guard. Names are ASCII strings; the
  case folding of outcome names is modelled on ASCII.
\<close>

datatype trading_status =
  TS_CANDIDATE | TS_ELIGIBLE | TS_PAUSED | TS_CLOSED | TS_RESOLVED | TS_REJECTED

record market_outcome =
  mo_token_id :: string
  mo_outcome :: string

record market =
  mk_condition_id :: string
  mk_market_slug :: string
  mk_outcomes :: "market_outcome list"
  mk_market_name :: "string option"
  mk_market_question :: "string option"
  mk_event_id :: "string option"
  mk_event_title :: "string option"
  mk_event_slug :: "string option"
  mk_icon_url :: "string option"
  mk_end_date :: "int option"
  mk_game_start_time :: "int option"
  mk_tick_size :: decimal
  mk_min_order_size :: decimal
  mk_neg_risk :: bool
  mk_fees_enabled :: "bool option"
  mk_maker_base_fee_bps :: "int option"
  mk_taker_base_fee_bps :: "int option"
  mk_fee_rate_bps :: "int option"
  mk_fee_rate_updated_at :: "int option"
  mk_category :: "string option"
  mk_tags :: "string list"
  mk_sports_market_type :: "string option"
  mk_sport :: "string option"
  mk_matched_keywords :: "string list"
  mk_trading_status :: trading_status
  mk_reject_reason :: "string option"

definition new_market :: "string \<Rightarrow> string \<Rightarrow> market_outcome list \<Rightarrow> market" where
  "new_market cid slug outs =
     \<lparr>mk_condition_id = cid, mk_market_slug = slug, mk_outcomes = outs, mk_market_name = None,
      mk_market_question = None, mk_event_id = None, mk_event_title = None,
      mk_event_slug = None, mk_icon_url = None, mk_end_date = None,
      mk_game_start_time = None, mk_tick_size = 1/100, mk_min_order_size = 1,
      mk_neg_risk = False, mk_fees_enabled = None, mk_maker_base_fee_bps = None,
      mk_taker_base_fee_bps = None, mk_fee_rate_bps = None, mk_fee_rate_updated_at = None,
      mk_category = None, mk_tags = [], mk_sports_market_type = None, mk_sport = None,
      mk_matched_keywords = [], mk_trading_status = TS_CANDIDATE, mk_reject_reason = None\<rparr>"

subsection \<open>Outcome lookups\<close>

definition token_ids :: "market \<Rightarrow> string list" where
  "token_ids m = map mo_token_id (mk_outcomes m)"

definition get_outcome_by_token_id :: "market \<Rightarrow> string \<Rightarrow> market_outcome option" where
  "get_outcome_by_token_id m tid = find (\<lambda>x. mo_token_id x = tid) (mk_outcomes m)"

definition get_outcome :: "market \<Rightarrow> string \<Rightarrow> market_outcome option" where
  "get_outcome m outcome_name =
     (let normalized = py_upper (py_strip outcome_name)
      in find (\<lambda>x. py_upper (py_strip (mo_outcome x)) = normalized) (mk_outcomes m))"

definition find_token_id :: "market \<Rightarrow> string \<Rightarrow> string option" where
  "find_token_id m outcome_name = map_option mo_token_id (get_outcome m outcome_name)"

definition require_token_id :: "market \<Rightarrow> string \<Rightarrow> string result" where
  "require_token_id m outcome_name =
     (case find_token_id m outcome_name of
        None \<Rightarrow> Inl (ValueError (''market is missing outcome '' @ outcome_name))
      | Some t \<Rightarrow> Inr t)"

subsection \<open>Copies with changes\<close>

definition with_trading_status :: "market \<Rightarrow> trading_status \<Rightarrow> string option \<Rightarrow> market" where
  "with_trading_status m st rr = m\<lparr>mk_trading_status := st, mk_reject_reason := rr\<rparr>"

definition with_tick_size :: "market \<Rightarrow> decimal \<Rightarrow> market" where
  "with_tick_size m t = m\<lparr>mk_tick_size := t\<rparr>"

definition with_min_order_size :: "market \<Rightarrow> decimal \<Rightarrow> market" where
  "with_min_order_size m s = m\<lparr>mk_min_order_size := s\<rparr>"

definition with_fee_schedule ::
  "market \<Rightarrow> bool option \<Rightarrow> int option \<Rightarrow> int option \<Rightarrow> market" where
  "with_fee_schedule m enabled maker taker =
     (let resolved_taker = or_else taker (mk_taker_base_fee_bps m)
      in m\<lparr>mk_fees_enabled := or_else enabled (mk_fees_enabled m),
           mk_maker_base_fee_bps := or_else maker (mk_maker_base_fee_bps m),
           mk_taker_base_fee_bps := resolved_taker,
           mk_fee_rate_bps := (if taker = None then mk_fee_rate_bps m else resolved_taker),
           mk_fee_rate_updated_at := (if taker = None then mk_fee_rate_updated_at m else None)\<rparr>)"

definition with_fee_rate :: "market \<Rightarrow> int option \<Rightarrow> int option \<Rightarrow> market" where
  "with_fee_rate m rate updated =
     m\<lparr>mk_fee_rate_bps := rate,
       mk_fee_rate_updated_at := or_else updated (mk_fee_rate_updated_at m)\<rparr>"

record market_metadata_update =
  mu_market_name :: "string option"
  mu_market_question :: "string option"
  mu_event_id :: "string option"
  mu_event_title :: "string option"
  mu_event_slug :: "string option"
  mu_icon_url :: "string option"
  mu_end_date :: "int option"
  mu_game_start_time :: "int option"
  mu_category :: "string option"
  mu_tags :: "string list option"
  mu_matched_keywords :: "string list option"
  mu_outcomes :: "market_outcome list option"
  mu_neg_risk :: "bool option"

definition with_metadata :: "market \<Rightarrow> market_metadata_update \<Rightarrow> market" where
  "with_metadata m u = m\<lparr>
     mk_market_name := or_else (mu_market_name u) (mk_market_name m),
     mk_market_question := or_else (mu_market_question u) (mk_market_question m),
     mk_event_id := or_else (mu_event_id u) (mk_event_id m),
     mk_event_title := or_else (mu_event_title u) (mk_event_title m),
     mk_event_slug := or_else (mu_event_slug u) (mk_event_slug m),
     mk_icon_url := or_else (mu_icon_url u) (mk_icon_url m),
     mk_end_date := or_else (mu_end_date u) (mk_end_date m),
     mk_game_start_time := or_else (mu_game_start_time u) (mk_game_start_time m),
     mk_category := or_else (mu_category u) (mk_category m),
     mk_tags := or_default (mu_tags u) (mk_tags m),
     mk_matched_keywords := or_default (mu_matched_keywords u) (mk_matched_keywords m),
     mk_outcomes := or_default (mu_outcomes u) (mk_outcomes m),
     mk_neg_risk := or_default (mu_neg_risk u) (mk_neg_risk m)\<rparr>"

subsection \<open>Guards\<close>

definition market_status_allowed_for_manual_order :: "market \<Rightarrow> bool" where
  "market_status_allowed_for_manual_order m \<longleftrightarrow>
     mk_trading_status m \<notin> {TS_CLOSED, TS_RESOLVED, TS_REJECTED}"

definition normalize_condition_ids :: "string option list option \<Rightarrow> string list" where
  "normalize_condition_ids ids =
     (case ids of None \<Rightarrow> [] | Some xs \<Rightarrow> [s. Some s \<leftarrow> xs, s \<noteq> []])"

subsection \<open>Lemmas\<close>

lemma find_SomeD: "find P xs = Some x \<Longrightarrow> x \<in> set xs \<and> P x"
  by (induction xs) (auto split: if_splits)

lemma find_None_iff': "find P xs = None \<longleftrightarrow> (\<forall>x \<in> set xs. \<not> P x)"
  by (induction xs) auto

lemma get_outcome_by_token_id_sound:
  "get_outcome_by_token_id m tid = Some x \<Longrightarrow> x \<in> set (mk_outcomes m) \<and> mo_token_id x = tid"
  unfolding get_outcome_by_token_id_def by (rule find_SomeD)

lemma get_outcome_by_token_id_complete:
  "get_outcome_by_token_id m tid = None \<longleftrightarrow> tid \<notin> set (token_ids m)"
  by (auto simp: get_outcome_by_token_id_def token_ids_def find_None_iff')

lemma require_token_id_in: "require_token_id m n = Inr t \<Longrightarrow> t \<in> set (token_ids m)"
  by (auto simp: require_token_id_def find_token_id_def get_outcome_def token_ids_def Let_def
      dest!: find_SomeD split: option.splits)

text \<open>
  A new taker base fee invalidates the fetched fee rate (its update time is cleared and
  the rate falls back to the schedule); without one, the fetched rate stays.
\<close>

lemma fee_schedule_rate:
  "mk_fee_rate_bps (with_fee_schedule m e mb (Some t)) = Some t"
  "mk_fee_rate_updated_at (with_fee_schedule m e mb (Some t)) = None"
  "mk_fee_rate_bps (with_fee_schedule m e mb None) = mk_fee_rate_bps m"
  "mk_fee_rate_updated_at (with_fee_schedule m e mb None) = mk_fee_rate_updated_at m"
  by (simp_all add: with_fee_schedule_def Let_def)

lemma normalize_condition_ids_set:
  "set (normalize_condition_ids (Some xs)) = {s. Some s \<in> set xs \<and> s \<noteq> []}"
  by (auto simp: normalize_condition_ids_def)

end
