(* ===== verification/Fees.thy ===== *)
theory Fees
  imports Market_Model Orderbook
begin

text \<open>
  \<open>domain/fees.py\<close>: the taker fee of one trade, the fee preview of a market's best
  prices, and the resolution of a market's fee rate. Rates are per mille, whatever the
  parameter name says. The message of a \<open>ValueError\<close> keeps its fixed text and leaves
  out the offending value.
\<close>

datatype trade_side = Side_Buy | Side_Sell
datatype liquidity_role = Maker | Taker
datatype charged_in = In_Shares | In_Usdc
datatype price_source = From_Best_Ask | From_Best_Bid

record fee_quote =
  fq_price :: decimal
  fq_size_shares :: decimal
  fq_fee_rate_bps :: int
  fq_fee_usdc :: decimal
  fq_fee_shares :: "decimal option"
  fq_charged_in :: charged_in
  fq_side :: trade_side
  fq_liquidity_role :: liquidity_role
  fq_price_source :: "price_source option"

record taker_fee_preview =
  tp_basis_size_shares :: decimal
  tp_fee_rate_bps :: int
  tp_buy :: "fee_quote option"
  tp_sell :: "fee_quote option"

definition normalize_side :: "string \<Rightarrow> trade_side result" where
  "normalize_side value =
     (let normalized = py_lower (py_strip value)
      in if normalized = ''buy'' then Inr Side_Buy
         else if normalized = ''sell'' then Inr Side_Sell
         else Inl (ValueError ''unsupported trade side''))"

definition normalize_liquidity_role :: "string \<Rightarrow> liquidity_role result" where
  "normalize_liquidity_role value =
     (let normalized = py_lower (py_strip value)
      in if normalized = ''maker'' then Inr Maker
         else if normalized = ''taker'' then Inr Taker
         else Inl (ValueError ''unsupported liquidity role''))"

definition normalize_price :: "decimal \<Rightarrow> decimal result" where
  "normalize_price value =
     (if value < 0 \<or> value > 1 then Inl (ValueError ''price must be within [0, 1]'')
      else Inr value)"

definition normalize_size :: "decimal \<Rightarrow> decimal result" where
  "normalize_size value =
     (if value < 0 then Inl (ValueError ''size_shares must be >= 0'') else Inr value)"

definition bps_to_rate :: "int \<Rightarrow> decimal" where
  "bps_to_rate value = (if value \<le> 0 then 0 else ddiv (of_int value) 1000)"

definition effective_rate ::
  "int option \<Rightarrow> bool option \<Rightarrow> liquidity_role \<Rightarrow> int" where
  "effective_rate fee_rate_bps fees_enabled role =
     (case fee_rate_bps of
        None \<Rightarrow> 0
      | Some r \<Rightarrow> if fees_enabled \<noteq> Some False \<and> role = Taker \<and> r > 0 then r else 0)"

definition raw_fee_usdc :: "decimal \<Rightarrow> int \<Rightarrow> decimal \<Rightarrow> decimal" where
  "raw_fee_usdc size_shares rate price =
     dmul (dmul (dmul size_shares (bps_to_rate rate)) price) (dsub 1 price)"

definition fee_shares_of :: "trade_side \<Rightarrow> decimal \<Rightarrow> decimal \<Rightarrow> decimal option result" where
  "fee_shares_of sd price fee_usdc =
     (case sd of
        Side_Sell \<Rightarrow> Inr None
      | Side_Buy \<Rightarrow>
          if price = 0 then Inr (Some 0)
          else bind_result (quantize_half_up 5 (ddiv fee_usdc price)) (\<lambda>s. Inr (Some s)))"

definition calculate_trade_fee ::
  "decimal \<Rightarrow> decimal \<Rightarrow> string \<Rightarrow> int option \<Rightarrow> bool option \<Rightarrow> string \<Rightarrow> price_source option
   \<Rightarrow> fee_quote result" where
  "calculate_trade_fee price size_shares side fee_rate_bps fees_enabled role price_source =
     bind_result (normalize_side side) (\<lambda>sd.
     bind_result (normalize_liquidity_role role) (\<lambda>rl.
     bind_result (normalize_price price) (\<lambda>p.
     bind_result (normalize_size size_shares) (\<lambda>sz.
       (let rate = effective_rate fee_rate_bps fees_enabled rl
        in bind_result (quantize_half_up 5 (raw_fee_usdc sz rate p)) (\<lambda>fee_usdc.
           bind_result (fee_shares_of sd p fee_usdc) (\<lambda>fee_shares.
             Inr \<lparr>fq_price = p, fq_size_shares = sz, fq_fee_rate_bps = rate,
                  fq_fee_usdc = fee_usdc, fq_fee_shares = fee_shares,
                  fq_charged_in = (if sd = Side_Buy then In_Shares else In_Usdc),
                  fq_side = sd, fq_liquidity_role = rl,
                  fq_price_source = price_source\<rparr>)))))))"

definition resolve_taker_fee_rate_bps :: "market option \<Rightarrow> int option" where
  "resolve_taker_fee_rate_bps market =
     (case market of
        None \<Rightarrow> None
      | Some m \<Rightarrow>
          if mk_fees_enabled m = Some False then Some 0
          else or_else (mk_fee_rate_bps m) (mk_taker_base_fee_bps m))"

definition side_preview ::
  "decimal option \<Rightarrow> decimal \<Rightarrow> string \<Rightarrow> int \<Rightarrow> bool option \<Rightarrow> price_source
   \<Rightarrow> fee_quote option result" where
  "side_preview best basis side rate enabled src =
     (case best of
        None \<Rightarrow> Inr None
      | Some p \<Rightarrow> bind_result
          (calculate_trade_fee p basis side (Some rate) enabled ''taker'' (Some src))
          (\<lambda>q. Inr (Some q)))"

definition build_taker_fee_preview ::
  "market \<Rightarrow> book option \<Rightarrow> decimal \<Rightarrow> taker_fee_preview option result" where
  "build_taker_fee_preview m orderbook basis =
     (case orderbook of
        None \<Rightarrow> Inr None
      | Some b \<Rightarrow>
          bind_result (normalize_size basis) (\<lambda>nb.
          (case resolve_taker_fee_rate_bps (Some m) of
             None \<Rightarrow> Inr None
           | Some rate \<Rightarrow>
               bind_result (side_preview (ob_best_ask b) nb ''buy'' rate (mk_fees_enabled m)
                 From_Best_Ask) (\<lambda>buy_quote.
               bind_result (side_preview (ob_best_bid b) nb ''sell'' rate (mk_fees_enabled m)
                 From_Best_Bid) (\<lambda>sell_quote.
               if buy_quote = None \<and> sell_quote = None then Inr None
               else Inr (Some \<lparr>tp_basis_size_shares = nb,
                      tp_fee_rate_bps = (if mk_fees_enabled m \<noteq> Some False then rate else 0),
                      tp_buy = buy_quote, tp_sell = sell_quote\<rparr>))))))"

subsection \<open>Normalisation\<close>

lemma normalize_price_Inr [simp]: "normalize_price v = Inr p \<longleftrightarrow> p = v \<and> 0 \<le> v \<and> v \<le> 1"
  by (auto simp: normalize_price_def)

lemma normalize_size_Inr [simp]: "normalize_size v = Inr s \<longleftrightarrow> s = v \<and> 0 \<le> v"
  by (auto simp: normalize_size_def)

lemma normalize_literals [simp]:
  "normalize_side ''buy'' = Inr Side_Buy"
  "normalize_side ''sell'' = Inr Side_Sell"
  "normalize_liquidity_role ''taker'' = Inr Taker"
  "normalize_liquidity_role ''maker'' = Inr Maker"
  by code_simp+

lemma quantize_Inr [simp]:
  "quantize_half_up n x = Inr y \<longleftrightarrow>
     y = round_places n x \<and> \<bar>round_half_up (x * 10 ^ n)\<bar> < 10 ^ 28"
  by (auto simp: quantize_half_up_def)

lemma bps_to_rate_nonneg [simp]: "0 \<le> bps_to_rate r"
  by (simp add: bps_to_rate_def)

lemma bps_to_rate_exact:
  "0 \<le> r \<Longrightarrow> r \<le> 10 ^ 28 \<Longrightarrow> bps_to_rate r = of_int r / 1000"
proof -
  assume r: "0 \<le> r" "r \<le> 10 ^ 28"
  have "of_int r / 1000 = of_int r * pow10 (- 3)" by (simp add: pow10_def)
  with r have "fits_prec (of_int r / 1000)" unfolding fits_prec_def by (metis abs_of_nonneg)
  then show ?thesis using r by (auto simp: bps_to_rate_def ddiv_def dround_exact)
qed

lemma effective_rate_nonneg [simp]: "0 \<le> effective_rate r e l"
  by (simp add: effective_rate_def split: option.splits)

lemma raw_fee_nonneg: "0 \<le> sz \<Longrightarrow> 0 \<le> p \<Longrightarrow> p \<le> 1 \<Longrightarrow> 0 \<le> raw_fee_usdc sz rate p"
  by (simp add: raw_fee_usdc_def)

lemma raw_fee_zero_rate: "raw_fee_usdc sz 0 p = 0"
  by (simp add: raw_fee_usdc_def bps_to_rate_def dmul_def)

text \<open>
  Prices on four places, sizes on six places below a hundred million, rates up to 100%:
  the four context operations are exact, and the fee before quantisation is the formula.
\<close>

lemma raw_fee_grid:
  assumes "on_grid 4 p" "0 \<le> p" "p \<le> 1" "on_grid 6 sz" "0 \<le> sz" "sz \<le> 10 ^ 8"
    and "0 \<le> rate" "rate \<le> 1000"
  shows "raw_fee_usdc sz rate p = sz * (of_int rate / 1000) * p * (1 - p)"
proof -
  let ?r = "of_int rate / 1000 :: rat"
  have r: "bps_to_rate rate = ?r" using assms by (intro bps_to_rate_exact) simp_all
  have gr: "on_grid 3 ?r" unfolding on_grid_iff by (rule exI [of _ rate]) simp
  have br: "0 \<le> ?r" "?r \<le> 1" using assms by simp_all
  have g1: "on_grid 9 (sz * ?r)" using on_grid_mult [OF assms(4) gr] by simp
  have b1: "0 \<le> sz * ?r" "sz * ?r \<le> 10 ^ 8"
    using br assms(5,6) mult_mono [of sz "10 ^ 8" ?r 1] by simp_all
  have e1: "dmul sz ?r = sz * ?r" unfolding dmul_def by (rule dround_grid_le [OF g1 b1]) simp
  have g2: "on_grid 13 (sz * ?r * p)" using on_grid_mult [OF g1 assms(1)] by simp
  have b2: "0 \<le> sz * ?r * p" "sz * ?r * p \<le> 10 ^ 8"
    using b1 assms(2,3) mult_mono [of "sz * ?r" "10 ^ 8" p 1] by simp_all
  have e2: "dmul (sz * ?r) p = sz * ?r * p"
    unfolding dmul_def by (rule dround_grid_le [OF g2 b2]) simp
  have o: "on_grid 4 1" unfolding on_grid_iff by (rule exI [of _ "10 ^ 4"]) simp
  have g3: "on_grid 4 (1 - p)" by (rule on_grid_diff [OF o assms(1)])
  have e3: "dsub 1 p = 1 - p"
    unfolding dsub_def using assms(2,3) by (intro dround_grid_le [OF g3, of 1]) simp_all
  have g4: "on_grid 17 (sz * ?r * p * (1 - p))" using on_grid_mult [OF g2 g3] by simp
  have b4: "0 \<le> sz * ?r * p * (1 - p)" "sz * ?r * p * (1 - p) \<le> 10 ^ 8"
    using b2 assms(2,3) mult_mono [of "sz * ?r * p" "10 ^ 8" "1 - p" 1] by simp_all
  have e4: "dmul (sz * ?r * p) (1 - p) = sz * ?r * p * (1 - p)"
    unfolding dmul_def by (rule dround_grid_le [OF g4 b4]) simp
  show ?thesis by (simp only: raw_fee_usdc_def r e1 e2 e3 e4)
qed

subsection \<open>What a returned quote is\<close>

lemma calculate_trade_fee_Inr:
  "calculate_trade_fee p sz sd r en rl src = Inr q \<Longrightarrow>
     fq_price q = p \<and> fq_size_shares q = sz \<and> 0 \<le> p \<and> p \<le> 1 \<and> 0 \<le> sz
     \<and> normalize_side sd = Inr (fq_side q) \<and> normalize_liquidity_role rl = Inr (fq_liquidity_role q)
     \<and> fq_fee_rate_bps q = effective_rate r en (fq_liquidity_role q)
     \<and> fq_fee_usdc q = round_places 5 (raw_fee_usdc sz (fq_fee_rate_bps q) p)
     \<and> fee_shares_of (fq_side q) p (fq_fee_usdc q) = Inr (fq_fee_shares q)"
  by (auto simp: calculate_trade_fee_def Let_def)

lemma fee_usdc_nonneg: "calculate_trade_fee p sz sd r en rl src = Inr q \<Longrightarrow> 0 \<le> fq_fee_usdc q"
  by (auto dest!: calculate_trade_fee_Inr simp: places.rnd_nonneg raw_fee_nonneg)

lemma fee_shares_of_nonneg:
  "fee_shares_of sd p f = Inr (Some s) \<Longrightarrow> 0 \<le> p \<Longrightarrow> 0 \<le> f \<Longrightarrow> 0 \<le> s"
  by (auto simp: fee_shares_of_def places.rnd_nonneg split: trade_side.splits if_splits)

lemma fee_shares_nonneg:
  assumes "calculate_trade_fee p sz sd r en rl src = Inr q" "fq_fee_shares q = Some s"
  shows "0 \<le> s"
  using calculate_trade_fee_Inr [OF assms(1)] fee_usdc_nonneg [OF assms(1)] assms(2)
  by (auto intro: fee_shares_of_nonneg)

lemma quote_free:
  assumes "calculate_trade_fee p sz sd r en rl src = Inr q"
    and "effective_rate r en (fq_liquidity_role q) = 0"
  shows "fq_fee_usdc q = 0 \<and> (fq_fee_shares q = None \<or> fq_fee_shares q = Some 0)"
proof -
  note c = calculate_trade_fee_Inr [OF assms(1)]
  have z: "fq_fee_usdc q = 0" using c assms(2) by (auto simp: raw_fee_zero_rate)
  have "fee_shares_of (fq_side q) p 0 = Inr (fq_fee_shares q)" using c z by metis
  then have "fq_fee_shares q = None \<or> fq_fee_shares q = Some 0"
    by (auto simp: fee_shares_of_def ddiv_def split: trade_side.splits if_splits)
  with z show ?thesis by simp
qed

subsection \<open>Properties\<close>

text \<open>
  A quoted fee is never negative, and for a price on four places, a size on six places
  up to a hundred million shares and a rate of at most 1000 per mille it is the documented
  \<open>size * rate * price * (1 - price)\<close> up to half a unit of the fifth place.
\<close>

lemma trade_fee_formula:
  assumes "calculate_trade_fee p sz sd (Some rate) en ''taker'' src = Inr q" "en \<noteq> Some False"
    and "on_grid 4 p" "on_grid 6 sz" "sz \<le> 10 ^ 8" "0 \<le> rate" "rate \<le> 1000"
  shows "0 \<le> fq_fee_usdc q
    \<and> \<bar>fq_fee_usdc q - sz * (of_int rate / 1000) * p * (1 - p)\<bar> \<le> 1 / (2 * 10 ^ 5)"
proof -
  note c = calculate_trade_fee_Inr [OF assms(1)]
  then have b: "0 \<le> p" "p \<le> 1" "0 \<le> sz" and r: "fq_fee_rate_bps q = rate"
    using assms(2,6) by (auto simp: effective_rate_def)
  have "fq_fee_usdc q = round_places 5 (sz * (of_int rate / 1000) * p * (1 - p))"
    using c r raw_fee_grid [OF assms(3) b(1,2) assms(4) b(3) assms(5,6,7)] by metis
  then show ?thesis using round_places_error [of 5] fee_usdc_nonneg [OF assms(1)] by metis
qed

text \<open>
  A quote is refused with a \<open>ValueError\<close> exactly when the side or the liquidity role is
  unknown, the price lies outside [0, 1] or the size is negative. Every other failure is the
  decimal context running out of digits while quantising.
\<close>

lemma trade_fee_refused:
  "(\<exists>e. calculate_trade_fee p sz sd r en rl src = Inl (ValueError e)) \<longleftrightarrow>
     \<not> (py_lower (py_strip sd) \<in> {''buy'', ''sell''} \<and> py_lower (py_strip rl) \<in> {''maker'', ''taker''}
        \<and> 0 \<le> p \<and> p \<le> 1 \<and> 0 \<le> sz)"
  unfolding calculate_trade_fee_def bind_result_def Let_def
  by (auto simp: normalize_price_def normalize_size_def quantize_half_up_def fee_shares_of_def
      normalize_side_def normalize_liquidity_role_def Let_def
      bind_result_def split: sum.splits if_splits trade_side.splits)

text \<open>
  Makers, markets with fees disabled, and markets with no or a non-positive rate trade
  free: the quoted fee is zero in dollars and in shares, and a fee preview of a market with
  fees disabled reports rate zero.
\<close>

lemma trade_fee_free:
  assumes "calculate_trade_fee p sz sd r en rl src = Inr q"
    and "fq_liquidity_role q = Maker \<or> en = Some False \<or> r = None \<or> (\<exists>k. r = Some k \<and> k \<le> 0)"
  shows "fq_fee_rate_bps q = 0 \<and> fq_fee_usdc q = 0 \<and> fq_fee_shares q \<in> {None, Some 0}"
proof -
  have e: "effective_rate r en (fq_liquidity_role q) = 0"
    using assms(2) by (auto simp: effective_rate_def split: option.splits)
  show ?thesis
    using calculate_trade_fee_Inr [OF assms(1)] quote_free [OF assms(1) e] e by auto
qed

end
