(* ===== verification/Position.thy ===== *)
theory Position
  imports Decimal_Arith
begin

text \<open>
  \<open>domain/position.py\<close> and \<open>domain/position_lifecycle.py\<close>: the position record, its
  mark-to-market and confirmation updates, the settled-worthless test and the lifecycle
  stage. Timestamps are microseconds since the epoch.
\<close>

record position =
  po_condition_id :: string
  po_token_id :: string
  po_shares :: decimal
  po_cost_usdc :: decimal
  po_market_slug :: "string option"
  po_open_buy_shares :: decimal
  po_open_sell_shares :: decimal
  po_pending_buy_shares :: decimal
  po_confirmed_shares :: decimal
  po_last_order_id :: "string option"
  po_last_trade_id :: "string option"
  po_confirmation_status :: string
  po_updated_at :: "int option"
  po_avg_price :: "decimal option"
  po_initial_value :: "decimal option"
  po_current_value :: "decimal option"
  po_cash_pnl :: "decimal option"
  po_percent_pnl :: "decimal option"
  po_realized_pnl :: "decimal option"
  po_percent_realized_pnl :: "decimal option"
  po_cur_price :: "decimal option"
  po_redeemable :: "bool option"
  po_opened_at :: "int option"

text \<open>The dataclass defaults.\<close>

definition new_position :: "string \<Rightarrow> string \<Rightarrow> decimal \<Rightarrow> decimal \<Rightarrow> position" where
  "new_position cid tok shares cost =
     \<lparr>po_condition_id = cid, po_token_id = tok, po_shares = shares, po_cost_usdc = cost,
      po_market_slug = None, po_open_buy_shares = 0, po_open_sell_shares = 0,
      po_pending_buy_shares = 0, po_confirmed_shares = 0, po_last_order_id = None,
      po_last_trade_id = None, po_confirmation_status = ''unknown'', po_updated_at = None,
      po_avg_price = None, po_initial_value = None, po_current_value = None,
      po_cash_pnl = None, po_percent_pnl = None, po_realized_pnl = None,
      po_percent_realized_pnl = None, po_cur_price = None, po_redeemable = None,
      po_opened_at = None\<rparr>"

definition settled_zero_value :: "position \<Rightarrow> bool" where
  "settled_zero_value p \<longleftrightarrow>
     (if po_redeemable p \<noteq> Some True then False
      else if po_current_value p \<noteq> Some 0 then False
      else if po_cur_price p \<noteq> None \<and> po_cur_price p \<noteq> Some 0 then False
      else (case po_cash_pnl p of None \<Rightarrow> True | Some c \<Rightarrow> \<not> c > 0))"

definition with_open_buy_shares :: "position \<Rightarrow> decimal \<Rightarrow> position" where
  "with_open_buy_shares p s = p\<lparr>po_open_buy_shares := s\<rparr>"

definition with_open_sell_shares :: "position \<Rightarrow> decimal \<Rightarrow> position" where
  "with_open_sell_shares p s = p\<lparr>po_open_sell_shares := s\<rparr>"

definition with_pending_buy_shares :: "position \<Rightarrow> decimal \<Rightarrow> position" where
  "with_pending_buy_shares p s = p\<lparr>po_pending_buy_shares := s\<rparr>"

definition with_mark_to_market :: "position \<Rightarrow> decimal \<Rightarrow> position" where
  "with_mark_to_market p cur_price =
     (let current_value = (if po_shares p > 0 then dmul (po_shares p) cur_price else 0);
          cash_pnl = (if po_cost_usdc p > 0 then Some (dsub current_value (po_cost_usdc p)) else None);
          percent_pnl = (case cash_pnl of
              None \<Rightarrow> None
            | Some c \<Rightarrow> if po_cost_usdc p > 0
                then Some (dmul (ddiv c (po_cost_usdc p)) 100) else None)
      in p\<lparr>po_current_value := Some current_value, po_cur_price := Some cur_price,
           po_cash_pnl := cash_pnl, po_percent_pnl := percent_pnl\<rparr>)"

definition with_confirmation ::
  "position \<Rightarrow> decimal \<Rightarrow> string \<Rightarrow> string option \<Rightarrow> string option \<Rightarrow> int option \<Rightarrow> position" where
  "with_confirmation p confirmed status last_order_id last_trade_id updated_at =
     p\<lparr>po_confirmed_shares := confirmed, po_confirmation_status := status,
       po_last_order_id := or_else last_order_id (po_last_order_id p),
       po_last_trade_id := or_else last_trade_id (po_last_trade_id p),
       po_updated_at := or_else updated_at (po_updated_at p)\<rparr>"

subsection \<open>Lifecycle\<close>

datatype lifecycle_stage = ENTRY_PENDING | HOLDING | EXITING | POS_CLOSED | POS_UNKNOWN

definition classify :: "decimal \<Rightarrow> decimal \<Rightarrow> decimal \<Rightarrow> decimal \<Rightarrow> lifecycle_stage" where
  "classify shares open_buy_shares open_sell_shares confirmed_shares =
     (if shares = 0 \<and> open_buy_shares > 0 then ENTRY_PENDING
      else if shares > 0 \<and> open_sell_shares = 0 then HOLDING
      else if shares > 0 \<and> open_sell_shares > 0 then EXITING
      else if shares = 0 \<and> confirmed_shares > 0 \<and> open_buy_shares = 0 then POS_CLOSED
      else POS_UNKNOWN)"

subsection \<open>Lemmas\<close>

lemma classify_held: "0 < s \<Longrightarrow> 0 \<le> os \<Longrightarrow> classify s ob os c = (if os = 0 then HOLDING else EXITING)"
  by (auto simp: classify_def)

lemma classify_flat:
  "0 \<le> ob \<Longrightarrow> classify 0 ob os c =
     (if 0 < ob then ENTRY_PENDING else if 0 < c then POS_CLOSED else POS_UNKNOWN)"
  by (auto simp: classify_def)

lemma settled_mark_to_market:
  "settled_zero_value (with_mark_to_market p 0) \<longleftrightarrow> po_redeemable p = Some True"
  by (auto simp: settled_zero_value_def with_mark_to_market_def Let_def)

lemma mark_to_market_price_pos:
  "0 < po_shares p \<Longrightarrow> 0 < c \<Longrightarrow> \<not> settled_zero_value (with_mark_to_market p c)"
  by (auto simp: settled_zero_value_def with_mark_to_market_def Let_def)

subsection \<open>Properties\<close>

text \<open>
  Marking a position to market is monotone in the price and consistent: a higher price
  never lowers its value, its profit or its percentage, and the profit and the percentage
  are present exactly when the cost is positive.
\<close>

lemma mark_to_market_monotone:
  assumes "c \<le> c'"
  shows "the (po_current_value (with_mark_to_market p c))
      \<le> the (po_current_value (with_mark_to_market p c'))
    \<and> (case (po_cash_pnl (with_mark_to_market p c), po_cash_pnl (with_mark_to_market p c')) of
         (Some a, Some b) \<Rightarrow> 0 < po_cost_usdc p \<and> a \<le> b
       | (None, None) \<Rightarrow> po_cost_usdc p \<le> 0
       | _ \<Rightarrow> False)
    \<and> (case (po_percent_pnl (with_mark_to_market p c), po_percent_pnl (with_mark_to_market p c')) of
         (Some a, Some b) \<Rightarrow> a \<le> b
       | (None, None) \<Rightarrow> po_cost_usdc p \<le> 0
       | _ \<Rightarrow> False)"
proof -
  have v: "dmul (po_shares p) c \<le> dmul (po_shares p) c'" if "0 < po_shares p"
    using assms that by (intro dmul_left_mono) simp_all
  have d: "dsub x (po_cost_usdc p) \<le> dsub y (po_cost_usdc p)" if "x \<le> y" for x y
    using that by (intro dsub_mono) simp_all
  have q: "dmul (ddiv x (po_cost_usdc p)) 100 \<le> dmul (ddiv y (po_cost_usdc p)) 100"
    if "x \<le> y" "0 < po_cost_usdc p" for x y
    using that by (intro dmul_right_mono ddiv_mono) simp_all
  show ?thesis
    using v d q by (simp add: with_mark_to_market_def Let_def not_less)
qed

end
