(* ===== verification/Account.thy ===== *)
theory Account
  imports Order_Types Position
begin

text \<open>
  \<open>domain/account.py\<close>: market pauses, the account snapshot, and the amounts derived from
  it: the dollars the exchange reserves for open buys, what is left to spend, and the equity.
  \<open>fill\<close> is the \<open>Fill\<close> of \<open>domain/events.py\<close>.
\<close>

record fill =
  fl_trace_id :: string
  fl_event_type :: string
  fl_event_id :: string
  fl_market_slug :: "string option"
  fl_condition_id :: "string option"
  fl_token_id :: "string option"
  fl_reason :: string
  fl_created_at :: int
  fl_order_id :: "string option"
  fl_trade_id :: "string option"
  fl_side :: "string option"
  fl_price :: "decimal option"
  fl_size :: "decimal option"
  fl_notional_usdc :: "decimal option"
  fl_status :: string
  fl_confirmed_at :: "int option"

subsection \<open>Market pauses\<close>

datatype pause_source = PS_MANUAL | PS_RECONCILE | PS_RISK

definition parse_pause_source :: "string \<Rightarrow> pause_source result" where
  "parse_pause_source s =
     (if s = ''manual'' then Inr PS_MANUAL
      else if s = ''reconcile'' then Inr PS_RECONCILE
      else if s = ''risk'' then Inr PS_RISK
      else Inl (ValueError ''not a valid MarketPauseSource''))"

definition recoverable_pause_reasons :: "string list" where
  "recoverable_pause_reasons = [''market_not_tradable'', ''missing_primary_outcome'']"

definition default_pause_source :: "string \<Rightarrow> pause_source" where
  "default_pause_source reason =
     (if reason = ''manual_pause'' then PS_MANUAL
      else if reason = ''unexpected_resting_order'' then PS_RISK
      else PS_RECONCILE)"

record market_pause =
  mp_condition_id :: string
  mp_reason :: string
  mp_source :: pause_source
  mp_recoverable :: bool

definition build_pause ::
  "string \<Rightarrow> string \<Rightarrow> string option \<Rightarrow> bool option \<Rightarrow> market_pause result" where
  "build_pause cid reason source recoverable =
     bind_result (case source of
         None \<Rightarrow> Inr (default_pause_source reason)
       | Some s \<Rightarrow> parse_pause_source s) (\<lambda>src.
       Inr \<lparr>mp_condition_id = cid, mp_reason = reason, mp_source = src,
            mp_recoverable = (case recoverable of
                None \<Rightarrow> src = PS_RECONCILE \<and> reason \<in> set recoverable_pause_reasons
              | Some r \<Rightarrow> r)\<rparr>)"

subsection \<open>The snapshot\<close>

record account =
  ac_balance_usdc :: decimal
  ac_allowance_usdc :: decimal
  ac_positions :: "position list"
  ac_open_orders :: "order list"
  ac_fills :: "fill list"
  ac_user_ws_connected :: bool
  ac_allow_new_entries :: bool
  ac_market_pauses :: "market_pause list"
  ac_last_reconcile_at :: "int option"

definition new_account :: account where
  "new_account = \<lparr>ac_balance_usdc = 0, ac_allowance_usdc = 0, ac_positions = [],
     ac_open_orders = [], ac_fills = [], ac_user_ws_connected = False,
     ac_allow_new_entries = False, ac_market_pauses = [], ac_last_reconcile_at = None\<rparr>"

text \<open>
  The reservation of one open buy: price times remaining shares when they are known, or
  else the dollar amount of the order. The price of an order record is always present.
\<close>

definition open_buy_order_reserved_usdc :: "order \<Rightarrow> decimal" where
  "open_buy_order_reserved_usdc r =
     (case (case or_remaining_shares r of
              Some s \<Rightarrow> Some s
            | None \<Rightarrow> map_option (\<lambda>sz. dsub sz (or_filled_shares r)) (or_size_shares r)) of
        Some shares \<Rightarrow> if shares \<le> 0 then 0 else dmul (or_price r) shares
      | None \<Rightarrow>
          (case or_amount_usdc r of
             Some a \<Rightarrow> max a 0
           | None \<Rightarrow> (case or_notional_usdc r of Some n \<Rightarrow> max n 0 | None \<Rightarrow> 0)))"

fun reserved_loop :: "decimal \<Rightarrow> order list \<Rightarrow> decimal" where
  "reserved_loop acc [] = acc"
| "reserved_loop acc (r # rs) =
     (if or_side r \<noteq> BUY \<or> \<not> order_open r then reserved_loop acc rs
      else reserved_loop (dadd acc (open_buy_order_reserved_usdc r)) rs)"

definition open_buy_reserved_usdc :: "account \<Rightarrow> decimal" where
  "open_buy_reserved_usdc a = reserved_loop 0 (ac_open_orders a)"

definition available_usdc :: "account \<Rightarrow> decimal" where
  "available_usdc a =
     (let available = dsub (min (ac_balance_usdc a) (ac_allowance_usdc a)) (open_buy_reserved_usdc a)
      in if available < 0 then 0 else available)"

fun equity_loop :: "decimal \<Rightarrow> position list \<Rightarrow> decimal" where
  "equity_loop acc [] = acc"
| "equity_loop acc (p # ps) =
     (case po_current_value p of
        Some v \<Rightarrow> if v > 0 then equity_loop (dadd acc v) ps else equity_loop acc ps
      | None \<Rightarrow> equity_loop acc ps)"

definition equity_usdc :: "account \<Rightarrow> decimal" where
  "equity_usdc a = equity_loop (available_usdc a) (ac_positions a)"

subsection \<open>Lookups\<close>

definition get_position :: "account \<Rightarrow> string \<Rightarrow> string \<Rightarrow> position option" where
  "get_position a cid tok =
     find (\<lambda>p. po_condition_id p = cid \<and> po_token_id p = tok) (ac_positions a)"

definition pause_for_market :: "account \<Rightarrow> string \<Rightarrow> market_pause option" where
  "pause_for_market a cid = find (\<lambda>p. mp_condition_id p = cid) (ac_market_pauses a)"

definition is_market_paused :: "account \<Rightarrow> string \<Rightarrow> bool" where
  "is_market_paused a cid \<longleftrightarrow> pause_for_market a cid \<noteq> None"

definition without_market_pause :: "account \<Rightarrow> string \<Rightarrow> account" where
  "without_market_pause a cid =
     a\<lparr>ac_market_pauses := filter (\<lambda>p. mp_condition_id p \<noteq> cid) (ac_market_pauses a)\<rparr>"

definition open_orders_for_market :: "account \<Rightarrow> string \<Rightarrow> string \<Rightarrow> order list" where
  "open_orders_for_market a cid tok =
     filter (\<lambda>r. or_condition_id r = cid \<and> or_token_id r = tok) (ac_open_orders a)"

definition open_buy_orders_for_market :: "account \<Rightarrow> string \<Rightarrow> string \<Rightarrow> order list" where
  "open_buy_orders_for_market a cid tok =
     filter (\<lambda>r. or_side r = BUY \<and> order_open r) (open_orders_for_market a cid tok)"

definition open_sell_orders_for_market :: "account \<Rightarrow> string \<Rightarrow> string \<Rightarrow> order list" where
  "open_sell_orders_for_market a cid tok =
     filter (\<lambda>r. or_side r = SELL \<and> order_open r) (open_orders_for_market a cid tok)"

fun sell_shares_loop :: "decimal \<Rightarrow> order list \<Rightarrow> decimal" where
  "sell_shares_loop acc [] = acc"
| "sell_shares_loop acc (r # rs) =
     (case or_remaining_shares r of
        Some s \<Rightarrow> sell_shares_loop (dadd acc s) rs
      | None \<Rightarrow>
          (case or_size_shares r of
             Some s \<Rightarrow> sell_shares_loop (dadd acc s) rs
           | None \<Rightarrow> sell_shares_loop acc rs))"

definition open_sell_shares_for_market :: "account \<Rightarrow> string \<Rightarrow> string \<Rightarrow> decimal" where
  "open_sell_shares_for_market a cid tok = sell_shares_loop 0 (open_sell_orders_for_market a cid tok)"

subsection \<open>Lemmas\<close>

lemma reserved_nonneg: "0 \<le> or_price r \<Longrightarrow> 0 \<le> open_buy_order_reserved_usdc r"
  by (auto simp: open_buy_order_reserved_usdc_def split: option.splits)

lemma reserved_loop_eq:
  "reserved_loop acc rs = foldl dadd acc
     (map open_buy_order_reserved_usdc (filter (\<lambda>r. or_side r = BUY \<and> order_open r) rs))"
  by (induction rs arbitrary: acc) auto

lemma equity_loop_mono:
  "dround acc = acc \<Longrightarrow> acc \<le> equity_loop acc ps"
proof (induction ps arbitrary: acc)
  case (Cons p ps)
  show ?case
  proof (cases "\<exists>v. po_current_value p = Some v \<and> 0 < v")
    case True
    then obtain v where v: "po_current_value p = Some v" "0 < v" by auto
    have "acc \<le> dadd acc v" using Cons.prems v(2) by (simp add: dadd_ge_left)
    also have "\<dots> \<le> equity_loop (dadd acc v) ps"
      by (rule Cons.IH) (simp add: dadd_def dr.rnd_idem)
    finally show ?thesis using v by simp
  next
    case False
    then show ?thesis using Cons by (auto split: option.splits)
  qed
qed simp

lemma available_max:
  "available_usdc a =
     max 0 (dsub (min (ac_balance_usdc a) (ac_allowance_usdc a)) (open_buy_reserved_usdc a))"
  unfolding available_usdc_def Let_def by (rule clamp_max)

lemma available_fixed: "dround (available_usdc a) = available_usdc a"
  by (simp add: available_usdc_def Let_def dsub_def dr.rnd_idem)

lemma foldl_dadd_fixed: "dround acc = acc \<Longrightarrow> dround (foldl dadd acc xs) = foldl dadd acc xs"
  by (induction xs arbitrary: acc) (simp_all add: dadd_def dr.rnd_idem)

lemma reserved_fixed: "dround (open_buy_reserved_usdc a) = open_buy_reserved_usdc a"
  by (simp add: open_buy_reserved_usdc_def reserved_loop_eq foldl_dadd_fixed)

text \<open>Appending an order to the snapshot.\<close>

lemma reserved_append:
  "open_buy_reserved_usdc (a\<lparr>ac_open_orders := ac_open_orders a @ [r]\<rparr>) =
     (if or_side r = BUY \<and> order_open r
      then dadd (open_buy_reserved_usdc a) (open_buy_order_reserved_usdc r)
      else open_buy_reserved_usdc a)"
  by (simp add: open_buy_reserved_usdc_def reserved_loop_eq)

lemma is_market_paused_iff:
  "is_market_paused a cid \<longleftrightarrow> cid \<in> mp_condition_id ` set (ac_market_pauses a)"
  by (auto simp: is_market_paused_def pause_for_market_def find_None_iff)

subsection \<open>Properties\<close>

definition demo_account :: account where
  "demo_account = new_account\<lparr>ac_balance_usdc := 100, ac_allowance_usdc := 80,
     ac_open_orders := [new_order ''c1'' ''t1'' BUY GTC (1/2) \<lparr>or_size_shares := Some 40,
       or_filled_shares := 10\<rparr>],
     ac_positions := [new_position ''c1'' ''t1'' 10 4 \<lparr>po_current_value := Some 6\<rparr>]\<rparr>"

text \<open>
  What an account can spend. The available dollars are never negative, never exceed the
  balance or the allowance (values of at most 28 digits) when the reservations are
  non-negative, and never exceed the equity.
\<close>

lemma available_bounded:
  assumes "0 \<le> open_buy_reserved_usdc a" "0 \<le> min (ac_balance_usdc a) (ac_allowance_usdc a)"
    and "dround (ac_balance_usdc a) = ac_balance_usdc a"
    and "dround (ac_allowance_usdc a) = ac_allowance_usdc a"
  shows "0 \<le> available_usdc a \<and> available_usdc a \<le> ac_balance_usdc a
    \<and> available_usdc a \<le> ac_allowance_usdc a \<and> available_usdc a \<le> equity_usdc a"
proof -
  have "dround (min (ac_balance_usdc a) (ac_allowance_usdc a)) = min (ac_balance_usdc a) (ac_allowance_usdc a)"
    using assms(3,4) by (simp add: min_def)
  then have "dsub (min (ac_balance_usdc a) (ac_allowance_usdc a)) (open_buy_reserved_usdc a)
      \<le> min (ac_balance_usdc a) (ac_allowance_usdc a)"
    using assms(1) by (rule dsub_le_left)
  then have "available_usdc a \<le> min (ac_balance_usdc a) (ac_allowance_usdc a)"
    using assms(2) by (simp only: available_max max.bounded_iff)
  moreover have "0 \<le> available_usdc a" by (simp add: available_max)
  moreover have "available_usdc a \<le> equity_usdc a"
    unfolding equity_usdc_def by (rule equity_loop_mono) (rule available_fixed)
  ultimately show ?thesis by simp
qed

text \<open>
  Placing an order never frees money: adding an open order with a non-negative price to
  the snapshot never raises the available dollars, and adding a sell or a closed order
  leaves them as they are.
\<close>

lemma available_antitone:
  assumes "0 \<le> or_price r"
  shows "available_usdc (a\<lparr>ac_open_orders := ac_open_orders a @ [r]\<rparr>) \<le> available_usdc a
    \<and> (or_side r = BUY \<and> order_open r \<or>
       available_usdc (a\<lparr>ac_open_orders := ac_open_orders a @ [r]\<rparr>) = available_usdc a)"
proof -
  let ?R = "open_buy_reserved_usdc a"
  have "?R \<le> dadd ?R (open_buy_order_reserved_usdc r)"
    using reserved_nonneg [OF assms] by (intro dadd_ge_left reserved_fixed)
  then have "max 0 (dsub m (dadd ?R (open_buy_order_reserved_usdc r))) \<le> max 0 (dsub m ?R)" for m
    by (intro max.mono dsub_mono) simp_all
  then show ?thesis
    by (simp only: available_max reserved_append account.simps split: if_split) simp
qed

text \<open>
  Pauses. A pause is recoverable by default only when reconciliation raised it for an
  untradable market or a missing primary outcome; manual and risk pauses are never recovered
  by default; lifting the pause of one market unpauses it and no other; and an unknown source
  is refused.
\<close>

lemma pause_defaults:
  "(case build_pause cid reason source None of
      Inr p \<Rightarrow> mp_condition_id p = cid \<and> mp_reason p = reason
        \<and> (mp_recoverable p \<longleftrightarrow> mp_source p = PS_RECONCILE
             \<and> (reason = ''market_not_tradable'' \<or> reason = ''missing_primary_outcome''))
        \<and> mp_source p = (case source of None \<Rightarrow> default_pause_source reason
             | Some s \<Rightarrow> if s = ''manual'' then PS_MANUAL else if s = ''risk'' then PS_RISK
                 else PS_RECONCILE)
    | Inl e \<Rightarrow> \<exists>s. source = Some s \<and> s \<notin> {''manual'', ''reconcile'', ''risk''})
   \<and> (is_market_paused (without_market_pause a cid) c \<longleftrightarrow> c \<noteq> cid \<and> is_market_paused a c)"
proof -
  have r: "is_market_paused (without_market_pause a cid) c \<longleftrightarrow> c \<noteq> cid \<and> is_market_paused a c"
    by (auto simp: is_market_paused_iff without_market_pause_def)
  show ?thesis
  proof (cases source)
    case None
    then show ?thesis using r by (simp add: build_pause_def recoverable_pause_reasons_def)
  next
    case (Some s)
    consider "s = ''manual''" | "s = ''reconcile''" | "s = ''risk''"
      | "s \<notin> {''manual'', ''reconcile'', ''risk''}" by blast
    then show ?thesis
      using r Some by cases (simp_all add: build_pause_def parse_pause_source_def recoverable_pause_reasons_def)
  qed
qed

end
