(* ===== verification/Allocation.thy ===== *)
theory Allocation
  imports Account
begin

text \<open>
  \<open>domain/allocation.py\<close>: the budget plan of one decision and the exposure of one token.
  The optional audit fields of an allocation are kept in the record \<open>kelly_audit\<close>.
\<close>

record kelly_audit =
  ka_prob_p :: "decimal option"
  ka_audit_confidence :: "decimal option"
  ka_audit_price_c :: "decimal option"
  ka_edge_net :: "decimal option"
  ka_edge_gross :: "decimal option"
  ka_fee_per_share_usdc :: "decimal option"
  ka_kelly_f_star :: "decimal option"
  ka_effective_kelly_fraction :: "decimal option"
  ka_effective_min_stake_usdc :: "decimal option"
  ka_capped_by :: "string option"
  ka_is_round_up_overbet :: bool

record allocation =
  al_condition_id :: string
  al_target_budget_usdc :: decimal
  al_buy_budget_usdc :: decimal
  al_market_slug :: "string option"
  al_token_id :: "string option"
  al_current_exposure_usdc :: decimal
  al_released_budget_usdc :: decimal
  al_reason :: string
  al_idempotency_key :: "string option"
  al_release_reason :: string
  al_audit :: kelly_audit

record allocation_plan =
  ap_trace_id :: string
  ap_total_budget_usdc :: decimal
  ap_allocations :: "allocation list"
  ap_reason :: string

definition allocated_budget_usdc :: "allocation_plan \<Rightarrow> decimal" where
  "allocated_budget_usdc p = dsum (map al_buy_budget_usdc (ap_allocations p))"

definition plan_released_budget_usdc :: "allocation_plan \<Rightarrow> decimal" where
  "plan_released_budget_usdc p = dsum (map al_released_budget_usdc (ap_allocations p))"

definition unallocated_budget_usdc :: "allocation_plan \<Rightarrow> decimal" where
  "unallocated_budget_usdc p =
     (let remaining = dsub (ap_total_budget_usdc p) (allocated_budget_usdc p)
      in if remaining > 0 then remaining else 0)"

definition eligible_market_count :: "allocation_plan \<Rightarrow> nat" where
  "eligible_market_count p = length (filter (\<lambda>a. al_target_budget_usdc a > 0) (ap_allocations p))"

subsection \<open>Exposure\<close>

definition position_exposure :: "position option \<Rightarrow> decimal" where
  "position_exposure position =
     (case position of
        None \<Rightarrow> 0
      | Some p \<Rightarrow>
          if settled_zero_value p then 0
          else (let e = dadd 0 (po_cost_usdc p)
                in if po_shares p > 0 \<and> po_open_sell_shares p > 0
                   then (let open_sell = (if po_open_sell_shares p > po_shares p
                           then po_shares p else po_open_sell_shares p)
                         in dadd e (dmul (po_cost_usdc p) (ddiv open_sell (po_shares p))))
                   else e))"

text \<open>The buy-order part: an order contributes its amount, or notional, or price times size.\<close>

fun exposure_loop :: "decimal \<Rightarrow> order list \<Rightarrow> decimal" where
  "exposure_loop acc [] = acc"
| "exposure_loop acc (r # rs) =
     (if or_side r \<noteq> BUY then exposure_loop acc rs
      else if or_order_type r = FAK then exposure_loop acc rs
      else (case or_amount_usdc r of
              Some a \<Rightarrow> exposure_loop (dadd acc a) rs
            | None \<Rightarrow>
                (case or_notional_usdc r of
                   Some n \<Rightarrow> exposure_loop (dadd acc n) rs
                 | None \<Rightarrow>
                     (case or_size_shares r of
                        Some s \<Rightarrow> exposure_loop (dadd acc (dmul (or_price r) s)) rs
                      | None \<Rightarrow> exposure_loop acc rs))))"

definition current_exposure_usdc :: "position option \<Rightarrow> order list \<Rightarrow> decimal" where
  "current_exposure_usdc position open_orders = exposure_loop (position_exposure position) open_orders"

subsection \<open>Lemmas\<close>

lemma exposure_loop_irrelevant:
  "exposure_loop acc rs = exposure_loop acc (filter (\<lambda>r. or_side r = BUY \<and> or_order_type r = GTC) rs)"
proof (induction rs arbitrary: acc)
  case (Cons r rs)
  show ?case by (cases "or_order_type r") (auto simp: Cons.IH [symmetric] split: option.splits)
qed simp

lemma position_exposure_plain:
  "\<not> settled_zero_value p \<Longrightarrow> \<not> (0 < po_shares p \<and> 0 < po_open_sell_shares p) \<Longrightarrow>
     position_exposure (Some p) = dround (po_cost_usdc p)"
  by (auto simp: position_exposure_def Let_def dadd_def)

lemma position_exposure_sell:
  assumes "\<not> settled_zero_value p" "0 < po_shares p" "po_shares p \<le> po_open_sell_shares p"
    and "dround (po_cost_usdc p) = po_cost_usdc p"
  shows "position_exposure (Some p) = dround (2 * po_cost_usdc p)"
proof -
  have "ddiv (po_shares p) (po_shares p) = 1" using assms(2) by (simp add: ddiv_def dround_1)
  then show ?thesis
    using assms by (cases "po_open_sell_shares p > po_shares p")
      (auto simp: position_exposure_def Let_def dadd_def dmul_def)
qed

lemma position_exposure_bounds:
  assumes "0 \<le> po_cost_usdc p" "dround (po_cost_usdc p) = po_cost_usdc p" "\<not> settled_zero_value p"
  shows "po_cost_usdc p \<le> position_exposure (Some p)"
    "position_exposure (Some p) \<le> dround (2 * po_cost_usdc p)"
proof -
  let ?k = "po_cost_usdc p"
  have le2: "?k \<le> dround (2 * ?k)" using assms(1,2) by (intro dr.rnd_ge_fix) simp_all
  have b: "0 \<le> dmul ?k (ddiv s (po_shares p))" "dmul ?k (ddiv s (po_shares p)) \<le> ?k"
    if "0 < s" "s \<le> po_shares p" for s
  proof -
    show "0 \<le> dmul ?k (ddiv s (po_shares p))" using that assms(1) by simp
    show "dmul ?k (ddiv s (po_shares p)) \<le> ?k"
      using that assms(1,2) by (intro dmul_le_left ddiv_le_1) simp_all
  qed
  have add: "?k \<le> dadd ?k x" "dadd ?k x \<le> dround (2 * ?k)" if "0 \<le> x" "x \<le> ?k" for x
    unfolding dadd_def using that assms(2) by (auto intro: dr.rnd_ge_fix dround_mono)
  show "?k \<le> position_exposure (Some p)" "position_exposure (Some p) \<le> dround (2 * ?k)"
    using le2 add b assms(3)
    by (auto simp: position_exposure_def Let_def dadd_def [of 0] assms(2) not_less)
qed

subsection \<open>Properties\<close>

text \<open>
  Exposure of a position. A settled worthless position and a missing one count nothing;
  any other position counts at least its cost and at most twice its cost (an open sell is
  counted on top of the cost it already occupies), exactly once without open sells and
  exactly twice when all its shares are offered.
\<close>

lemma position_exposure_counts:
  assumes "0 \<le> po_cost_usdc p" "dround (po_cost_usdc p) = po_cost_usdc p"
  shows "if settled_zero_value p then current_exposure_usdc (Some p) [] = 0
    else po_cost_usdc p \<le> current_exposure_usdc (Some p) []
      \<and> current_exposure_usdc (Some p) [] \<le> dround (2 * po_cost_usdc p)
      \<and> (if 0 < po_shares p \<and> po_shares p \<le> po_open_sell_shares p
         then current_exposure_usdc (Some p) [] = dround (2 * po_cost_usdc p)
         else 0 < po_shares p \<and> 0 < po_open_sell_shares p
           \<or> current_exposure_usdc (Some p) [] = po_cost_usdc p)"
proof (cases "settled_zero_value p")
  case True
  then show ?thesis by (simp add: current_exposure_usdc_def position_exposure_def)
next
  case False
  then show ?thesis
    unfolding current_exposure_usdc_def exposure_loop.simps
    using position_exposure_bounds [OF assms False] position_exposure_sell [OF False _ _ assms(2)]
      position_exposure_plain [OF False] assms(2)
    by (cases "0 < po_shares p \<and> 0 < po_open_sell_shares p") auto
qed

text \<open>
  Sells and fill-and-kill buys never add to the exposure: only resting buys do, so the
  order of events around a fill-and-kill order does not change what a market may still buy.
\<close>

lemma exposure_resting_buys_only:
  "current_exposure_usdc position rs =
     current_exposure_usdc position (filter (\<lambda>r. or_side r = BUY \<and> or_order_type r = GTC) rs)"
  unfolding current_exposure_usdc_def by (rule exposure_loop_irrelevant)

lemma dsum_grid:
  assumes "\<forall>x \<in> set xs. on_grid 6 x \<and> 0 \<le> x" "sum_list xs \<le> 10 ^ 12"
  shows "dsum xs = sum_list xs \<and> on_grid 6 (dsum xs)"
  using assms
proof (induction xs rule: rev_induct)
  case Nil
  have "on_grid 6 0" by code_simp
  then show ?case by (simp add: dsum_def)
next
  case (snoc x xs)
  have nn: "0 \<le> sum_list xs" "0 \<le> x" using snoc.prems by (auto intro: sum_list_nonneg)
  then have IH: "dsum xs = sum_list xs" "on_grid 6 (dsum xs)"
    using snoc by auto
  have "dadd (dsum xs) x = dsum xs + x"
    using snoc.prems nn IH by (intro dadd_grid [of 6]) auto
  then show ?case
    using IH snoc.prems on_grid_add [of 6 "dsum xs" x] by (simp add: dsum_def)
qed

text \<open>
  A plan whose budgets are on the dollar grid splits its total: what is unallocated is
  exactly what the allocations leave, the two parts add up to the total, and an overspent
  plan leaves nothing rather than a negative amount.
\<close>

lemma plan_budget_split:
  assumes "\<forall>a \<in> set (ap_allocations p). on_grid 6 (al_buy_budget_usdc a) \<and> 0 \<le> al_buy_budget_usdc a"
    and "on_grid 6 (ap_total_budget_usdc p)" "0 \<le> ap_total_budget_usdc p"
    and "ap_total_budget_usdc p \<le> 10 ^ 12"
    and "sum_list (map al_buy_budget_usdc (ap_allocations p)) \<le> 10 ^ 12"
  shows "allocated_budget_usdc p = sum_list (map al_buy_budget_usdc (ap_allocations p))
    \<and> unallocated_budget_usdc p = max 0 (ap_total_budget_usdc p - allocated_budget_usdc p)"
proof -
  have s: "dsum (map al_buy_budget_usdc (ap_allocations p))
        = sum_list (map al_buy_budget_usdc (ap_allocations p))"
      "on_grid 6 (dsum (map al_buy_budget_usdc (ap_allocations p)))"
    using dsum_grid [of "map al_buy_budget_usdc (ap_allocations p)"] assms(1,5) by auto
  have nn: "0 \<le> sum_list (map al_buy_budget_usdc (ap_allocations p))"
    using assms(1) by (intro sum_list_nonneg) auto
  have "dsub (ap_total_budget_usdc p) (allocated_budget_usdc p)
      = ap_total_budget_usdc p - allocated_budget_usdc p"
    unfolding allocated_budget_usdc_def using s nn assms by (intro dsub_grid [of 6]) auto
  then show ?thesis using s(1) by (auto simp: allocated_budget_usdc_def unallocated_budget_usdc_def Let_def)
qed

definition demo_allocation :: "decimal \<Rightarrow> allocation" where
  "demo_allocation b = \<lparr>al_condition_id = ''c'', al_target_budget_usdc = b, al_buy_budget_usdc = b,
     al_market_slug = None, al_token_id = None, al_current_exposure_usdc = 0,
     al_released_budget_usdc = 0, al_reason = [], al_idempotency_key = None,
     al_release_reason = [], al_audit = \<lparr>ka_prob_p = None, ka_audit_confidence = None,
       ka_audit_price_c = None, ka_edge_net = None, ka_edge_gross = None,
       ka_fee_per_share_usdc = None, ka_kelly_f_star = None, ka_effective_kelly_fraction = None,
       ka_effective_min_stake_usdc = None, ka_capped_by = None,
       ka_is_round_up_overbet = False\<rparr>\<rparr>"

definition demo_plan :: allocation_plan where
  "demo_plan = \<lparr>ap_trace_id = ''x'', ap_total_budget_usdc = 100,
     ap_allocations = [demo_allocation 30, demo_allocation (25/2)], ap_reason = []\<rparr>"

end
