(* ===== verification/Risk.thy ===== *)
theory Risk
  imports Fees Allocation
begin

text \<open>
  \<open>domain/risk.py\<close>: the mandatory gate in front of every order. The list of checks that the
  code appends to is threaded through the gates; a gate either returns a final decision or
  the extended list. A raised \<open>ValueError\<close> of the fee estimate is the left summand.
\<close>

datatype check_value =
    No_Value
  | Flag_Value bool
  | Status_Value trading_status
  | Reducing_Sell_Value trading_status
  | Amounts_Value "(string \<times> decimal option) list"
  | Type_Value string
  | Type_Post_Only_Value string bool

record risk_check =
  rc_name :: string
  rc_passed :: bool
  rc_reason :: string
  rc_field :: "string option"
  rc_value :: check_value
  rc_suggested_action :: string
  rc_retryable :: bool

record risk_decision =
  rd_passed :: bool
  rd_reason :: string
  rd_trace_id :: string
  rd_failed_field :: "string option"
  rd_suggested_action :: string
  rd_retryable :: bool
  rd_checks :: "risk_check list"

text \<open>What a gate returns: a final decision, or the list of checks to go on with.\<close>

datatype gate = Stop risk_decision | Go "risk_check list"

definition passed_check :: "string \<Rightarrow> string \<Rightarrow> check_value \<Rightarrow> risk_check" where
  "passed_check name fieldname value =
     \<lparr>rc_name = name, rc_passed = True, rc_reason = [], rc_field = Some fieldname,
      rc_value = value, rc_suggested_action = [], rc_retryable = False\<rparr>"

definition fail_gate ::
  "string \<Rightarrow> risk_check list \<Rightarrow> string \<Rightarrow> string \<Rightarrow> string \<Rightarrow> check_value \<Rightarrow> string \<Rightarrow> gate" where
  "fail_gate trace_id checks name reason fieldname value action =
     Stop \<lparr>rd_passed = False, rd_reason = reason, rd_trace_id = trace_id,
       rd_failed_field = Some fieldname, rd_suggested_action = action, rd_retryable = False,
       rd_checks = checks @ [\<lparr>rc_name = name, rc_passed = False, rc_reason = reason,
         rc_field = Some fieldname, rc_value = value, rc_suggested_action = action,
         rc_retryable = False\<rparr>]\<rparr>"

subsection \<open>Helpers\<close>

text \<open>Both tradable intents have a notional, so the fallbacks of the code are never reached.\<close>

definition risk_notional :: "order_intent \<Rightarrow> decimal" where
  "risk_notional intent = intent_notional_usdc intent"

record market_flags =
  fg_active :: "bool option"
  fg_open :: "bool option"
  fg_clob :: "bool option"
  fg_resolved :: "bool option"
  fg_cancelled :: "bool option"
  fg_archived :: "bool option"

definition no_flags :: market_flags where
  "no_flags = \<lparr>fg_active = None, fg_open = None, fg_clob = None, fg_resolved = None,
     fg_cancelled = None, fg_archived = None\<rparr>"

definition resolve_market_flags ::
  "market option \<Rightarrow> market_flags \<Rightarrow> bool \<times> bool \<times> bool \<times> bool \<times> bool \<times> bool" where
  "resolve_market_flags mk f =
     (let f1 = (case mk of
            None \<Rightarrow> f
          | Some m \<Rightarrow> f\<lparr>
              fg_active := or_else (fg_active f) (Some (mk_trading_status m = TS_ELIGIBLE)),
              fg_open := or_else (fg_open f) (Some (mk_trading_status m = TS_ELIGIBLE)),
              fg_resolved := or_else (fg_resolved f) (Some (mk_trading_status m = TS_RESOLVED))\<rparr>);
          f2 = (if mk = None \<and> fg_active f1 = None \<and> fg_open f1 = None
                then f1\<lparr>fg_active := Some False, fg_open := Some False,
                        fg_clob := or_else (fg_clob f1) (Some False)\<rparr>
                else f1)
      in (or_default (fg_active f2) True, or_default (fg_open f2) True,
          or_default (fg_clob f2) True, or_default (fg_resolved f2) False,
          or_default (fg_cancelled f2) False, or_default (fg_archived f2) False))"

definition candidate_position_reducing_sell ::
  "order_intent \<Rightarrow> market option \<Rightarrow> position option \<Rightarrow> bool" where
  "candidate_position_reducing_sell intent mk position =
     (case intent of
        BuyIntent b \<Rightarrow> False
      | SellIntent s \<Rightarrow>
          (case mk of
             None \<Rightarrow> False
           | Some m \<Rightarrow>
               if mk_trading_status m \<noteq> TS_CANDIDATE then False
               else (case position of
                   None \<Rightarrow> False
                 | Some p \<Rightarrow>
                     if po_condition_id p \<noteq> si_condition_id s \<or> po_token_id p \<noteq> si_token_id s
                     then False
                     else si_size_shares s > 0 \<and> po_shares p \<ge> si_size_shares s)))"

definition post_only_maker_buy :: "order_intent \<Rightarrow> bool" where
  "post_only_maker_buy intent \<longleftrightarrow>
     intent_side intent = BUY \<and> intent_order_type intent = GTC \<and> intent_post_only intent"

definition effective_taker_fee_rate_bps :: "market \<Rightarrow> int option" where
  "effective_taker_fee_rate_bps m =
     (if mk_fees_enabled m = Some False then Some 0
      else or_else (mk_fee_rate_bps m) (mk_taker_base_fee_bps m))"

definition estimated_buy_taker_fee :: "order_intent \<Rightarrow> market option \<Rightarrow> decimal result" where
  "estimated_buy_taker_fee intent mk =
     (case mk of
        None \<Rightarrow> Inr 0
      | Some m \<Rightarrow>
          if intent_side intent \<noteq> BUY \<or> post_only_maker_buy intent then Inr 0
          else (case (effective_taker_fee_rate_bps m, intent_amount_usdc intent) of
              (Some rate, Some amount) \<Rightarrow>
                if rate \<le> 0 \<or> intent_price intent \<le> 0 then Inr 0
                else bind_result (calculate_trade_fee (intent_price intent)
                    (ddiv amount (intent_price intent)) ''buy'' (Some rate) (mk_fees_enabled m)
                    ''taker'' None) (\<lambda>q. Inr (fq_fee_usdc q))
            | _ \<Rightarrow> Inr 0))"

subsection \<open>The gates\<close>

text \<open>
  The loop over the six flag gates. Each gate records its own check before it fails, so the
  failing gate leaves two failing checks.
\<close>

fun flag_gates ::
  "string \<Rightarrow> risk_check list \<Rightarrow> (string \<times> bool \<times> string \<times> string \<times> string) list \<Rightarrow> gate" where
  "flag_gates trace_id checks [] = Go checks"
| "flag_gates trace_id checks ((name, passed, reason, fieldname, action) # rest) =
     (let checks' = checks @ [(passed_check name fieldname (Flag_Value passed))\<lparr>rc_passed := passed\<rparr>]
      in if \<not> passed
         then fail_gate trace_id checks' name reason fieldname No_Value action
         else flag_gates trace_id checks' rest)"

definition check_market_state ::
  "order_intent \<Rightarrow> risk_check list \<Rightarrow> market option \<Rightarrow> position option \<Rightarrow> market_flags \<Rightarrow> gate" where
  "check_market_state intent checks mk position flags =
     (let (active, opn, clob, resolved, cancelled, archived) = resolve_market_flags mk flags;
          reducing = candidate_position_reducing_sell intent mk position
      in case flag_gates (intent_trace_id intent) checks
          [(''market_active_gate'', active \<or> reducing, ''market_not_active'', ''market.active'', ''refresh_snapshot''),
           (''market_open_gate'', opn \<or> reducing, ''market_not_open'', ''market.open'', ''refresh_snapshot''),
           (''clob_gate'', clob, ''clob_disabled'', ''market.clob_enabled'', ''refresh_snapshot''),
           (''resolved_gate'', \<not> resolved, ''market_resolved'', ''market.resolved'', ''reject''),
           (''cancelled_gate'', \<not> cancelled, ''market_cancelled'', ''market.cancelled'', ''reject''),
           (''archived_gate'', \<not> archived, ''market_archived'', ''market.archived'', ''reject'')] of
        Stop d \<Rightarrow> Stop d
      | Go checks' \<Rightarrow>
          (case mk of
             None \<Rightarrow> Go checks'
           | Some m \<Rightarrow>
               if mk_trading_status m \<noteq> TS_ELIGIBLE
               then (if reducing
                     then Go (checks' @ [passed_check ''market_status_gate'' ''market.trading_status''
                         (Reducing_Sell_Value (mk_trading_status m))])
                     else fail_gate (intent_trace_id intent) checks' ''market_status_gate''
                       ''market_not_active'' ''market.trading_status''
                       (Status_Value (mk_trading_status m)) ''reject'')
               else Go checks'))"

definition check_bankroll_total ::
  "order_intent \<Rightarrow> risk_check list \<Rightarrow> decimal \<Rightarrow> decimal \<Rightarrow> decimal option \<Rightarrow> gate" where
  "check_bankroll_total intent checks notional portfolio_total bankroll =
     (if intent_side intent \<noteq> BUY then Go checks
      else (case bankroll of
          None \<Rightarrow> fail_gate (intent_trace_id intent) checks ''bankroll_gate''
            ''bankroll_non_positive'' ''bankroll_usdc''
            (Amounts_Value [(''bankroll_usdc'', bankroll)]) ''fund_or_reduce_budget''
        | Some b \<Rightarrow>
            if b \<le> 0
            then fail_gate (intent_trace_id intent) checks ''bankroll_gate''
              ''bankroll_non_positive'' ''bankroll_usdc''
              (Amounts_Value [(''bankroll_usdc'', bankroll)]) ''fund_or_reduce_budget''
            else (let amounts = Amounts_Value
                      [(''portfolio_total_invested_usdc'', Some portfolio_total),
                       (''notional_usdc'', Some notional), (''bankroll_usdc'', Some b)]
                  in if dadd portfolio_total notional > b
                     then fail_gate (intent_trace_id intent) checks ''bankroll_total_gate''
                       ''bankroll_overspent'' ''portfolio.total_invested_usdc'' amounts ''reduce_size''
                     else Go (checks @ [passed_check ''bankroll_total_gate''
                       ''portfolio.total_invested_usdc'' amounts]))))"

definition check_balance_and_allowance ::
  "order_intent \<Rightarrow> risk_check list \<Rightarrow> market option \<Rightarrow> decimal \<Rightarrow> decimal option \<Rightarrow> decimal option
   \<Rightarrow> gate result" where
  "check_balance_and_allowance intent checks mk notional balance allowance =
     (if intent_side intent \<noteq> BUY then Inr (Go checks)
      else bind_result (estimated_buy_taker_fee intent mk) (\<lambda>fee.
        (let required = dadd notional fee
         in if (case balance of None \<Rightarrow> False | Some b \<Rightarrow> required > b)
            then Inr (fail_gate (intent_trace_id intent) checks ''balance_gate''
              ''balance_insufficient'' ''account.balance_usdc''
              (Amounts_Value [(''balance_usdc'', balance), (''notional_usdc'', Some notional),
                (''estimated_fee_usdc'', Some fee), (''required_balance_usdc'', Some required)])
              ''reduce_size'')
            else if (case allowance of None \<Rightarrow> False | Some al \<Rightarrow> required > al)
            then Inr (fail_gate (intent_trace_id intent) checks ''allowance_gate''
              ''allowance_insufficient'' ''account.allowance_usdc''
              (Amounts_Value [(''allowance_usdc'', allowance), (''notional_usdc'', Some notional),
                (''estimated_fee_usdc'', Some fee), (''required_allowance_usdc'', Some required)])
              ''approve_or_reduce'')
            else Inr (Go (checks @ [passed_check ''balance_gate'' ''account.balance_usdc''
              (Amounts_Value [(''balance_usdc'', balance), (''allowance_usdc'', allowance),
                (''required_usdc'', Some required)])])))))"

definition check_buy_order_type :: "order_intent \<Rightarrow> risk_check list \<Rightarrow> gate" where
  "check_buy_order_type intent checks =
     (if intent_side intent \<noteq> BUY then Go checks
      else if intent_order_type intent = FAK
      then Go (checks @ [passed_check ''buy_order_type_gate'' ''intent.order_type'' (Type_Value ''FAK'')])
      else if intent_order_type intent = GTC \<and> intent_post_only intent
      then Go (checks @ [passed_check ''buy_order_type_gate'' ''intent.order_type''
             (Type_Value ''GTC+post_only'')])
      else fail_gate (intent_trace_id intent) checks ''buy_order_type_gate''
             ''resting_buy_not_allowed'' ''intent.order_type''
             (Type_Post_Only_Value (order_type_value (intent_order_type intent)) (intent_post_only intent))
             ''use_fak_or_post_only_gtc'')"

text \<open>The arguments of one call.\<close>

record risk_args =
  ra_market :: "market option"
  ra_position :: "position option"
  ra_flags :: market_flags
  ra_balance_usdc :: "decimal option"
  ra_allowance_usdc :: "decimal option"
  ra_portfolio_total :: "decimal option"
  ra_bankroll_usdc :: "decimal option"

definition portfolio_total_of :: "risk_args \<Rightarrow> decimal" where
  "portfolio_total_of a = (case ra_portfolio_total a of
     None \<Rightarrow> 0 | Some t \<Rightarrow> if t < 0 then 0 else t)"

definition check_order_intent :: "order_intent \<Rightarrow> risk_args \<Rightarrow> risk_decision result" where
  "check_order_intent intent a =
     (let notional = risk_notional intent; portfolio = portfolio_total_of a
      in case check_market_state intent [] (ra_market a) (ra_position a) (ra_flags a) of
        Stop d \<Rightarrow> Inr d
      | Go c1 \<Rightarrow>
        (case check_bankroll_total intent c1 notional portfolio (ra_bankroll_usdc a) of
          Stop d \<Rightarrow> Inr d
        | Go c2 \<Rightarrow>
          bind_result (check_balance_and_allowance intent c2 (ra_market a) notional
              (ra_balance_usdc a) (ra_allowance_usdc a)) (\<lambda>g.
          (case g of
            Stop d \<Rightarrow> Inr d
          | Go c3 \<Rightarrow>
            (case check_buy_order_type intent c3 of
              Stop d \<Rightarrow> Inr d
            | Go c4 \<Rightarrow>
                Inr \<lparr>rd_passed = True, rd_reason = ''passed'',
                  rd_trace_id = intent_trace_id intent, rd_failed_field = None,
                  rd_suggested_action = ''submit'', rd_retryable = False, rd_checks = c4\<rparr>)))))"

subsection \<open>What every gate does to the list of checks\<close>

definition all_passed :: "risk_check list \<Rightarrow> bool" where
  "all_passed cs \<longleftrightarrow> (\<forall>c \<in> set cs. rc_passed c)"

text \<open>A decision that stopped: the last check fails and names its reason and field.\<close>

definition audited_stop :: "risk_decision \<Rightarrow> bool" where
  "audited_stop d \<longleftrightarrow> \<not> rd_passed d \<and> rd_checks d \<noteq> []
     \<and> \<not> rc_passed (last (rd_checks d)) \<and> rc_reason (last (rd_checks d)) = rd_reason d
     \<and> rc_field (last (rd_checks d)) = rd_failed_field d"

text \<open>
  The contract of a gate: it only appends to the audit trail, goes on with passed checks
  only, and stops with a failing check that names the reason.
\<close>

locale risk_gate =
  fixes run :: "risk_check list \<Rightarrow> gate"
  assumes go_appends: "run cs = Go cs' \<Longrightarrow> \<exists>new. cs' = cs @ new \<and> all_passed new"
    and stop_audited: "run cs = Stop d \<Longrightarrow> audited_stop d \<and> (\<exists>new. rd_checks d = cs @ new)"
begin

lemma go_passed: "run cs = Go cs' \<Longrightarrow> all_passed cs \<Longrightarrow> all_passed cs'"
  using go_appends [of cs cs'] by (auto simp: all_passed_def)

lemma stop_failed: "run cs = Stop d \<Longrightarrow> \<not> rd_passed d"
  using stop_audited [of cs d] by (auto simp: audited_stop_def)

end

lemma fail_gate_audited:
  "fail_gate t cs n r f v a = Stop d \<Longrightarrow> audited_stop d \<and> (\<exists>new. rd_checks d = cs @ new)"
  by (auto simp: fail_gate_def audited_stop_def)

lemma fail_gate_not_Go [simp]: "fail_gate t cs n r f v a \<noteq> Go cs'"
  by (simp add: fail_gate_def)

lemma passed_check_passed [simp]: "rc_passed (passed_check n f v)"
  by (simp add: passed_check_def)

lemma all_passed_simps [simp]:
  "all_passed []" "all_passed (c # cs) \<longleftrightarrow> rc_passed c \<and> all_passed cs"
  "all_passed (cs @ ds) \<longleftrightarrow> all_passed cs \<and> all_passed ds"
  by (auto simp: all_passed_def)

lemma flag_gates_Go:
  "flag_gates t cs gs = Go cs' \<Longrightarrow>
     (\<forall>(n, p, r, f, a) \<in> set gs. p) \<and> (\<exists>new. cs' = cs @ new \<and> all_passed new)"
proof (induction t cs gs rule: flag_gates.induct)
  case (2 t cs n p r f a gs)
  then have "p" by (auto simp: Let_def split: if_splits)
  with 2 show ?case by (fastforce simp: Let_def)
qed simp

lemma flag_gates_all:
  "(\<forall>(n, p, r, f, a) \<in> set gs. p) \<Longrightarrow> \<exists>cs'. flag_gates t cs gs = Go cs'"
  by (induction t cs gs rule: flag_gates.induct) (auto simp: Let_def)

lemma flag_gates_Stop:
  "flag_gates t cs gs = Stop d \<Longrightarrow> audited_stop d \<and> (\<exists>new. rd_checks d = cs @ new)"
proof (induction t cs gs rule: flag_gates.induct)
  case (2 t cs n p r f a gs)
  show ?case
  proof (cases p)
    case True
    with 2 show ?thesis by (fastforce simp: Let_def)
  next
    case False
    with 2(2) show ?thesis by (fastforce simp: Let_def dest: fail_gate_audited)
  qed
qed simp

declare flag_gates.simps [simp del]

interpretation market_gate: risk_gate "\<lambda>cs. check_market_state intent cs mk pos flags"
  for intent mk pos flags
proof unfold_locales
  show "\<exists>new. cs' = cs @ new \<and> all_passed new"
    if "check_market_state intent cs mk pos flags = Go cs'" for cs cs'
    using that by (fastforce simp: check_market_state_def Let_def
        split: prod.splits gate.splits option.splits if_splits dest!: flag_gates_Go)
  show "audited_stop d \<and> (\<exists>new. rd_checks d = cs @ new)"
    if "check_market_state intent cs mk pos flags = Stop d" for cs d
    using that by (fastforce simp: check_market_state_def Let_def
        split: prod.splits gate.splits option.splits if_splits
        dest: flag_gates_Stop flag_gates_Go fail_gate_audited)
qed

interpretation bankroll_gate: risk_gate "\<lambda>cs. check_bankroll_total intent cs n p b"
  for intent n p b
  by unfold_locales
    (auto simp: check_bankroll_total_def Let_def split: option.splits if_splits dest: fail_gate_audited)

interpretation order_type_gate: risk_gate "check_buy_order_type intent" for intent
  by unfold_locales
    (auto simp: check_buy_order_type_def split: if_splits dest: fail_gate_audited)

text \<open>The balance gate can raise; it is a gate wherever it returns.\<close>

interpretation balance_gate: risk_gate
  "\<lambda>cs. case check_balance_and_allowance intent cs mk n b al of Inr g \<Rightarrow> g | Inl _ \<Rightarrow> Go cs"
  for intent mk n b al
  by unfold_locales
    (auto simp: check_balance_and_allowance_def Let_def bind_result_def
      split: sum.splits option.splits if_splits dest: fail_gate_audited)

subsection \<open>When each gate goes on\<close>

text \<open>The specification of the market gate: what it must admit, without the audit trail.\<close>

definition market_admits :: "order_intent \<Rightarrow> market option \<Rightarrow> position option \<Rightarrow> market_flags \<Rightarrow> bool" where
  "market_admits intent mk pos flags \<longleftrightarrow>
     (case resolve_market_flags mk flags of (active, opn, clob, resolved, cancelled, archived) \<Rightarrow>
        clob \<and> \<not> resolved \<and> \<not> cancelled \<and> \<not> archived
        \<and> (candidate_position_reducing_sell intent mk pos
           \<or> active \<and> opn \<and> (case mk of None \<Rightarrow> True | Some m \<Rightarrow> mk_trading_status m = TS_ELIGIBLE)))"

lemma flag_gates_cases:
  "(\<exists>cs'. flag_gates t cs gs = Go cs') \<longleftrightarrow> (\<forall>(n, p, r, f, a) \<in> set gs. p)"
  using flag_gates_all flag_gates_Go by blast

lemma after_flags_Go:
  "(\<exists>cs'. (case g of Stop d \<Rightarrow> Stop d
      | Go cs' \<Rightarrow> (case mk of None \<Rightarrow> Go cs' | Some m \<Rightarrow>
          if mk_trading_status m \<noteq> TS_ELIGIBLE
          then (if red then Go (F cs' m) else fail_gate t cs' n r f (V m) a)
          else Go cs')) = Go cs')
   \<longleftrightarrow> (\<exists>cs'. g = Go cs')
     \<and> (red \<or> (case mk of None \<Rightarrow> True | Some m \<Rightarrow> mk_trading_status m = TS_ELIGIBLE))"
  by (cases g; cases mk) auto

lemma check_market_state_Go:
  "(\<exists>cs'. check_market_state intent cs mk pos flags = Go cs') \<longleftrightarrow> market_admits intent mk pos flags"
proof -
  obtain active opn clob resolved cancelled archived where
    r: "resolve_market_flags mk flags = (active, opn, clob, resolved, cancelled, archived)"
    by (metis prod_cases6)
  let ?red = "candidate_position_reducing_sell intent mk pos"
  let ?gs = "[(''market_active_gate'', active \<or> ?red, ''market_not_active'', ''market.active'', ''refresh_snapshot''),
    (''market_open_gate'', opn \<or> ?red, ''market_not_open'', ''market.open'', ''refresh_snapshot''),
    (''clob_gate'', clob, ''clob_disabled'', ''market.clob_enabled'', ''refresh_snapshot''),
    (''resolved_gate'', \<not> resolved, ''market_resolved'', ''market.resolved'', ''reject''),
    (''cancelled_gate'', \<not> cancelled, ''market_cancelled'', ''market.cancelled'', ''reject''),
    (''archived_gate'', \<not> archived, ''market_archived'', ''market.archived'', ''reject'')]"
  let ?fg = "flag_gates (intent_trace_id intent) cs ?gs"
  have f: "(\<exists>cs'. ?fg = Go cs') \<longleftrightarrow>
      (active \<or> ?red) \<and> (opn \<or> ?red) \<and> clob \<and> \<not> resolved \<and> \<not> cancelled \<and> \<not> archived"
    unfolding flag_gates_cases by auto
  have u: "check_market_state intent cs mk pos flags = (case ?fg of Stop d \<Rightarrow> Stop d
      | Go cs' \<Rightarrow> (case mk of None \<Rightarrow> Go cs' | Some m \<Rightarrow>
          if mk_trading_status m \<noteq> TS_ELIGIBLE
          then (if ?red then Go (cs' @ [passed_check ''market_status_gate'' ''market.trading_status''
                  (Reducing_Sell_Value (mk_trading_status m))])
                else fail_gate (intent_trace_id intent) cs' ''market_status_gate''
                  ''market_not_active'' ''market.trading_status''
                  (Status_Value (mk_trading_status m)) ''reject'')
          else Go cs'))"
    by (simp only: check_market_state_def r Let_def prod.case)
  show ?thesis unfolding u after_flags_Go f market_admits_def r prod.case by blast
qed

lemma check_bankroll_total_Go:
  "(\<exists>cs'. check_bankroll_total intent cs n pt b = Go cs') \<longleftrightarrow>
     intent_side intent = SELL \<or> (\<exists>x. b = Some x \<and> 0 < x \<and> dadd pt n \<le> x)"
  by (cases "intent_side intent") (auto simp: check_bankroll_total_def Let_def split: option.splits)

lemma check_buy_order_type_Go:
  "(\<exists>cs'. check_buy_order_type intent cs = Go cs') \<longleftrightarrow>
     intent_side intent = SELL \<or> intent_order_type intent = FAK \<or> intent_post_only intent"
  by (cases "intent_side intent"; cases "intent_order_type intent")
    (auto simp: check_buy_order_type_def)

lemma check_balance_Go:
  "(\<exists>cs'. check_balance_and_allowance intent cs mk n b al = Inr (Go cs')) \<longleftrightarrow>
     intent_side intent = SELL \<or> (\<exists>fee. estimated_buy_taker_fee intent mk = Inr fee
       \<and> (\<forall>x. b = Some x \<longrightarrow> dadd n fee \<le> x) \<and> (\<forall>x. al = Some x \<longrightarrow> dadd n fee \<le> x))"
  by (cases "intent_side intent"; cases "estimated_buy_taker_fee intent mk")
    (auto simp: check_balance_and_allowance_def Let_def not_less split: option.splits)

lemma gate_not_Stop: "(\<exists>d. g = Stop d) \<longleftrightarrow> \<not> (\<exists>cs. g = Go cs)"
  by (cases g) auto

text \<open>The whole chain, gate by gate.\<close>

lemma check_order_intent_passed:
  "(\<exists>d. check_order_intent intent a = Inr d \<and> rd_passed d) \<longleftrightarrow>
     (\<exists>c1 c2 c3 c4. check_market_state intent [] (ra_market a) (ra_position a) (ra_flags a) = Go c1
       \<and> check_bankroll_total intent c1 (risk_notional intent) (portfolio_total_of a) (ra_bankroll_usdc a) = Go c2
       \<and> check_balance_and_allowance intent c2 (ra_market a) (risk_notional intent)
           (ra_balance_usdc a) (ra_allowance_usdc a) = Inr (Go c3)
       \<and> check_buy_order_type intent c3 = Go c4)"
proof -
  have s: "check_balance_and_allowance i cs mk n b al = Inr (Stop d) \<Longrightarrow> \<not> rd_passed d" for i cs mk n b al d
    using balance_gate.stop_failed [of cs i mk n b al d] by simp
  show ?thesis
    unfolding check_order_intent_def Let_def
    by (auto simp: bind_result_def simp del: bind_result_Inr split: gate.splits sum.splits
        dest: market_gate.stop_failed bankroll_gate.stop_failed order_type_gate.stop_failed s)
qed

definition buy_affordable :: "order_intent \<Rightarrow> risk_args \<Rightarrow> bool" where
  "buy_affordable intent a \<longleftrightarrow>
     (case (ra_bankroll_usdc a, estimated_buy_taker_fee intent (ra_market a)) of
        (Some bankroll, Inr fee) \<Rightarrow>
          0 < bankroll \<and> dadd (portfolio_total_of a) (intent_notional_usdc intent) \<le> bankroll
          \<and> (case ra_balance_usdc a of None \<Rightarrow> True
               | Some b \<Rightarrow> dadd (intent_notional_usdc intent) fee \<le> b)
          \<and> (case ra_allowance_usdc a of None \<Rightarrow> True
               | Some al \<Rightarrow> dadd (intent_notional_usdc intent) fee \<le> al)
      | _ \<Rightarrow> False)"

lemma check_order_intent_passed_iff:
  "(\<exists>d. check_order_intent intent a = Inr d \<and> rd_passed d) \<longleftrightarrow>
     market_admits intent (ra_market a) (ra_position a) (ra_flags a)
     \<and> (intent_side intent = SELL
        \<or> buy_affordable intent a \<and> (intent_order_type intent = FAK \<or> intent_post_only intent))"
proof -
  have "(\<exists>d. check_order_intent intent a = Inr d \<and> rd_passed d) \<longleftrightarrow>
     market_admits intent (ra_market a) (ra_position a) (ra_flags a)
     \<and> (intent_side intent = SELL \<or> (\<exists>x. ra_bankroll_usdc a = Some x \<and> 0 < x
           \<and> dadd (portfolio_total_of a) (risk_notional intent) \<le> x))
     \<and> (intent_side intent = SELL \<or> (\<exists>fee. estimated_buy_taker_fee intent (ra_market a) = Inr fee
       \<and> (\<forall>x. ra_balance_usdc a = Some x \<longrightarrow> dadd (risk_notional intent) fee \<le> x)
       \<and> (\<forall>x. ra_allowance_usdc a = Some x \<longrightarrow> dadd (risk_notional intent) fee \<le> x)))
     \<and> (intent_side intent = SELL \<or> intent_order_type intent = FAK \<or> intent_post_only intent)"
    unfolding check_order_intent_passed
    using check_market_state_Go [of intent "[]" "ra_market a" "ra_position a" "ra_flags a"]
      check_bankroll_total_Go [of intent _ "risk_notional intent" "portfolio_total_of a" "ra_bankroll_usdc a"]
      check_balance_Go [of intent _ "ra_market a" "risk_notional intent" "ra_balance_usdc a" "ra_allowance_usdc a"]
      check_buy_order_type_Go [of intent]
    by meson
  then show ?thesis
    by (cases "intent_side intent")
      (auto simp: buy_affordable_def risk_notional_def split: option.splits sum.splits)
qed

lemma fail_gate_trace: "fail_gate t cs n r f v a = Stop d \<Longrightarrow> rd_trace_id d = t \<and> \<not> rd_retryable d"
  by (auto simp: fail_gate_def)

lemma flag_gates_trace: "flag_gates t cs gs = Stop d \<Longrightarrow> rd_trace_id d = t \<and> \<not> rd_retryable d"
  by (induction t cs gs rule: flag_gates.induct)
    (auto simp: Let_def flag_gates.simps dest: fail_gate_trace split: if_splits)

lemma gates_trace:
  "check_market_state i cs mk pos fl = Stop d \<Longrightarrow> rd_trace_id d = intent_trace_id i \<and> \<not> rd_retryable d"
  "check_bankroll_total i cs n pt b = Stop d \<Longrightarrow> rd_trace_id d = intent_trace_id i \<and> \<not> rd_retryable d"
  "check_balance_and_allowance i cs mk n ba al = Inr (Stop d) \<Longrightarrow>
     rd_trace_id d = intent_trace_id i \<and> \<not> rd_retryable d"
  "check_buy_order_type i cs = Stop d \<Longrightarrow> rd_trace_id d = intent_trace_id i \<and> \<not> rd_retryable d"
  by (auto simp: check_market_state_def check_bankroll_total_def check_balance_and_allowance_def
      check_buy_order_type_def Let_def
      split: prod.splits gate.splits option.splits if_splits dest: fail_gate_trace flag_gates_trace)

lemma check_order_intent_audit:
  assumes "check_order_intent intent a = Inr d"
  shows "rd_trace_id d = intent_trace_id intent \<and> \<not> rd_retryable d
    \<and> (if rd_passed d then all_passed (rd_checks d) else audited_stop d)"
proof -
  have b: "check_balance_and_allowance i cs mk n ba al = Inr (Stop d) \<Longrightarrow> audited_stop d"
    "check_balance_and_allowance i cs mk n ba al = Inr (Go cs') \<Longrightarrow> all_passed cs \<Longrightarrow> all_passed cs'"
    for i cs mk n ba al d cs'
    using balance_gate.stop_audited [of cs i mk n ba al d]
      balance_gate.go_passed [of cs i mk n ba al cs'] by simp_all
  have st: "audited_stop d \<Longrightarrow> \<not> rd_passed d" for d by (simp add: audited_stop_def)
  show ?thesis
    using assms unfolding check_order_intent_def Let_def
    by (auto simp: bind_result_def simp del: bind_result_Inr split: gate.splits sum.splits
        dest: gates_trace st market_gate.stop_audited bankroll_gate.stop_audited
          order_type_gate.stop_audited b(1)
        dest!: market_gate.go_passed bankroll_gate.go_passed order_type_gate.go_passed b(2))
qed

text \<open>Fee estimates of a price tick and a bounded amount never raise.\<close>

lemma dround_pow10 [simp]: "dround (10 ^ n) = 10 ^ n"
proof -
  have "(10::rat) ^ n = of_int 1 * pow10 (int n)" by (simp add: pow10_def)
  moreover have "\<bar>1::int\<bar> \<le> 10 ^ 28" by simp
  ultimately have "fits_prec (10 ^ n)" unfolding fits_prec_def by metis
  then show ?thesis by (rule dround_exact)
qed

lemma round_places_le:
  assumes "x \<le> 10 ^ m" shows "round_places n x \<le> 10 ^ m"
proof -
  have "round_half_up (10 ^ m * 10 ^ n) = 10 ^ (m + n)"
    using rhu_of_int [of "10 ^ (m + n)"] by (simp add: power_add)
  then have "round_places n (10 ^ m) = 10 ^ m" by (simp add: round_places_def power_add)
  with places.rnd_mono [OF assms, of n] show ?thesis by simp
qed

lemma quantize_total:
  assumes "0 \<le> x" "x \<le> 10 ^ 22"
  shows "quantize_half_up 5 x = Inr (round_places 5 x)"
proof -
  have "round_half_up (x * 10 ^ 5) \<le> round_half_up (of_int (10 ^ 27))"
    using assms by (intro rhu_mono) simp
  then have "round_half_up (x * 10 ^ 5) \<le> 10 ^ 27" by (simp only: rhu_of_int)
  moreover have "0 \<le> round_half_up (x * 10 ^ 5)"
    using assms rhu_mono [of 0 "x * 10 ^ 5"] rhu_of_int [of 0] by simp
  ultimately show ?thesis unfolding quantize_half_up_def by simp
qed

lemma calculate_trade_fee_total:
  assumes "0 < p" "p \<le> 1" "1 \<le> p * 10 ^ 9" "0 \<le> sz" "sz \<le> 10 ^ 12" "dround sz = sz" "r \<le> 1000"
    and "normalize_side sd = Inr x" "normalize_liquidity_role rl = Inr y"
  shows "\<exists>q. calculate_trade_fee p sz sd (Some r) en rl src = Inr q"
proof -
  have rate: "0 \<le> bps_to_rate k" "bps_to_rate k \<le> 1" if "k \<le> 1000" for k
    using that by (auto simp: bps_to_rate_def ddiv_le_1)
  have c: "0 \<le> dmul z w \<and> dmul z w \<le> z \<and> dround (dmul z w) = dmul z w"
    if "0 \<le> z" "dround z = z" "0 \<le> w" "w \<le> 1" for z w
    using that by (simp add: dmul_le_left) (simp add: dmul_def dr.rnd_idem)
  have d1: "0 \<le> dsub 1 p" "dsub 1 p \<le> 1"
    using assms(1,2) dsub_le_left [OF dround_1, of p] by simp_all
  have raw: "0 \<le> raw_fee_usdc sz k p \<and> raw_fee_usdc sz k p \<le> 10 ^ 12" if "k \<le> 1000" for k
  proof -
    note s1 = c [OF assms(4,6) rate [OF that]]
    note s2 = c [OF conjunct1 [OF s1] conjunct2 [OF conjunct2 [OF s1]] less_imp_le [OF assms(1)] assms(2)]
    note s3 = c [OF conjunct1 [OF s2] conjunct2 [OF conjunct2 [OF s2]] d1]
    show ?thesis using s1 s2 s3 assms(5) unfolding raw_fee_usdc_def by linarith
  qed
  define k where "k = effective_rate (Some r) en y"
  have k: "k \<le> 1000" using assms(7) by (simp add: k_def effective_rate_def)
  define fee where "fee = round_places 5 (raw_fee_usdc sz k p)"
  have fee: "0 \<le> fee" "fee \<le> 10 ^ 12"
    using raw [OF k] round_places_le [OF conjunct2 [OF raw [OF k]], of 5]
    unfolding fee_def by (simp_all only: places.rnd_nonneg)
  have qf: "quantize_half_up 5 (raw_fee_usdc sz k p) = Inr fee"
    unfolding fee_def using raw [OF k] by (intro quantize_total) simp_all
  have "fee / p \<le> 10 ^ 21"
  proof -
    have "fee * 1 \<le> 10 ^ 12 * (p * 10 ^ 9)" using fee assms(3) by (intro mult_mono) simp_all
    then show ?thesis using assms(1) by (simp add: divide_le_eq)
  qed
  then have "ddiv fee p \<le> 10 ^ 21"
    unfolding ddiv_def by (intro dr.rnd_le_fix dround_pow10)
  then have qs: "quantize_half_up 5 (ddiv fee p) = Inr (round_places 5 (ddiv fee p))"
    using fee assms(1) by (intro quantize_total) simp_all
  have "\<exists>s. fee_shares_of x p fee = Inr s"
    unfolding fee_shares_of_def qs using assms(1) by (cases x) simp_all
  then show ?thesis
    using assms(1-4) qf unfolding calculate_trade_fee_def Let_def assms(8,9) bind_result_simps k_def
    by (auto simp: normalize_price_def normalize_size_def)
qed

lemma check_order_intent_total:
  assumes "\<exists>f. estimated_buy_taker_fee intent (ra_market a) = Inr f"
  shows "\<exists>d. check_order_intent intent a = Inr d"
proof -
  have "\<exists>g. check_balance_and_allowance intent cs (ra_market a) n b al = Inr g" for cs n b al
    using assms by (auto simp: check_balance_and_allowance_def bind_result_def Let_def)
  then show ?thesis
    unfolding check_order_intent_def Let_def bind_result_def
    by (auto split: gate.splits sum.splits) (metis Inl_Inr_False)
qed

subsection \<open>Properties\<close>

definition demo_market :: market where
  "demo_market = (new_market ''c1'' ''slug'' [])\<lparr>mk_trading_status := TS_ELIGIBLE, mk_fee_rate_bps := Some 30\<rparr>"

definition demo_risk_args :: risk_args where
  "demo_risk_args = \<lparr>ra_market = Some demo_market, ra_position = None, ra_flags = no_flags,
     ra_balance_usdc = Some 50, ra_allowance_usdc = Some 60, ra_portfolio_total = Some 20,
     ra_bankroll_usdc = Some 40\<rparr>"

definition demo_buy :: order_intent where
  "demo_buy = BuyIntent (buy_order ''x'' ''c1'' ''t1'' (1/2) 10)"

text \<open>
  C3: The gate admits a buy exactly when the market gate admits it as an eligible market,
  the bankroll is positive and covers what is invested plus the order, the balance and the
  allowance cover the order plus the estimated taker fee (which must not raise), and the order
  is fill-and-kill or a post-only limit order.
\<close>

theorem risk_buy_iff:
  "(\<exists>d. check_order_intent (BuyIntent b) a = Inr d \<and> rd_passed d) \<longleftrightarrow>
     market_admits (BuyIntent b) (ra_market a) (ra_position a) (ra_flags a)
     \<and> (case ra_market a of None \<Rightarrow> True | Some m \<Rightarrow> mk_trading_status m = TS_ELIGIBLE)
     \<and> buy_affordable (BuyIntent b) a \<and> (bi_order_type b = FAK \<or> bi_post_only b)"
  unfolding check_order_intent_passed_iff
  by (auto simp: market_admits_def candidate_position_reducing_sell_def split: option.splits prod.splits)

text \<open>
  The gate admits a sell exactly when the exchange flags are clear and the market is
  eligible, or is a candidate and the position covers the sell; a sell never spends money,
  so balance, allowance, bankroll and order type play no part and nothing raises.
\<close>

lemma risk_sell_iff:
  "\<exists>d. check_order_intent (SellIntent s) a = Inr d
    \<and> (rd_passed d \<longleftrightarrow> market_admits (SellIntent s) (ra_market a) (ra_position a) (ra_flags a))"
proof -
  have "\<exists>d. check_order_intent (SellIntent s) a = Inr d"
    by (auto simp: check_order_intent_def Let_def check_bankroll_total_def
        check_balance_and_allowance_def check_buy_order_type_def split: gate.splits)
  then obtain d where d: "check_order_intent (SellIntent s) a = Inr d" by blast
  then show ?thesis using check_order_intent_passed_iff [of "SellIntent s" a] by auto
qed

theorem risk_buy_iff_witness:
  "(\<exists>d. check_order_intent demo_buy demo_risk_args = Inr d \<and> rd_passed d)
   \<and> \<not> (\<exists>d. check_order_intent demo_buy (demo_risk_args\<lparr>ra_bankroll_usdc := Some 29\<rparr>) = Inr d \<and> rd_passed d)"
proof -
  have "market_admits demo_buy (ra_market demo_risk_args) (ra_position demo_risk_args) (ra_flags demo_risk_args)"
    "buy_affordable demo_buy demo_risk_args"
    "\<not> buy_affordable demo_buy (demo_risk_args\<lparr>ra_bankroll_usdc := Some 29\<rparr>)"
    by code_simp+
  then show ?thesis
    unfolding demo_buy_def risk_buy_iff by (simp add: demo_risk_args_def demo_market_def buy_order_def)
qed

text \<open>
  C24: Every decision is auditable. It carries the trace id of its intent; an admitted order
  has only passed checks, in the order of the gates; a refused one ends with the failing
  check, whose reason and field are those of the decision; and no decision asks for a retry.
\<close>

theorem risk_decision_audited:
  assumes "check_order_intent intent a = Inr d"
  shows "rd_trace_id d = intent_trace_id intent \<and> \<not> rd_retryable d
    \<and> (if rd_passed d then all_passed (rd_checks d) else audited_stop d)"
  using assms by (rule check_order_intent_audit)

theorem risk_decision_audited_witness:
  "(case check_order_intent demo_buy (demo_risk_args\<lparr>ra_balance_usdc := Some 9\<rparr>) of
      Inl e \<Rightarrow> False | Inr d \<Rightarrow> rd_reason d = ''balance_insufficient'' \<and> audited_stop d)"
proof -
  let ?c = "check_order_intent demo_buy (demo_risk_args\<lparr>ra_balance_usdc := Some 9\<rparr>)"
  have v: "case ?c of Inl e \<Rightarrow> False | Inr d \<Rightarrow> rd_reason d = ''balance_insufficient'' \<and> \<not> rd_passed d"
    by code_simp
  then obtain d where d: "?c = Inr d" by (cases ?c) simp_all
  show ?thesis using v risk_decision_audited [OF d] by (simp add: d)
qed

text \<open>
  C26: The gate always answers. For a buy priced within (0, 1] on at most nine places, an amount
  whose share count stays below a million million, and a fee rate of at most 1000 per mille,
  the check returns a decision and never raises. (Sells never raise at all.)
\<close>

theorem risk_check_total:
  assumes "0 < bi_price b" "bi_price b \<le> 1" "1 \<le> bi_price b * 10 ^ 9"
    and "0 \<le> bi_amount_usdc b" "ddiv (bi_amount_usdc b) (bi_price b) \<le> 10 ^ 12"
    and "\<forall>m r. ra_market a = Some m \<and> effective_taker_fee_rate_bps m = Some r \<longrightarrow> r \<le> 1000"
  shows "\<exists>d. check_order_intent (BuyIntent b) a = Inr d"
proof (rule check_order_intent_total)
  have "\<exists>q. calculate_trade_fee (bi_price b) (ddiv (bi_amount_usdc b) (bi_price b)) ''buy'' (Some r)
      en ''taker'' None = Inr q" if "r \<le> 1000" for r en
    by (rule calculate_trade_fee_total)
      (use assms that dr.rnd_idem [of "bi_amount_usdc b / bi_price b"] in
        \<open>simp_all add: ddiv_nonneg ddiv_def [symmetric]\<close>)
  then show "\<exists>f. estimated_buy_taker_fee (BuyIntent b) (ra_market a) = Inr f"
    using assms(6) by (auto simp: estimated_buy_taker_fee_def split: option.splits)
qed

theorem risk_check_total_witness:
  "\<exists>d. check_order_intent (BuyIntent (buy_order ''x'' ''c1'' ''t1'' (1/2) 10)) demo_risk_args = Inr d"
proof -
  have "ddiv 10 (1/2) \<le> 10 ^ 12" by code_simp
  then show ?thesis
    by (intro risk_check_total)
      (simp_all add: buy_order_def demo_risk_args_def demo_market_def effective_taker_fee_rate_bps_def
        new_market_def)
qed

end
