(* ===== verification/Execution_Types.thy ===== *)
theory Execution_Types
  imports Order_Types
begin

text \<open>
  \<open>infra/polymarket/order_execution_types.py\<close>: the request the executor hands to an order
  client and the response it gets back, without the timestamps and the raw response. Amounts
  are decimals; a client that answers with text amounts has them parsed first.
\<close>

record execution_request =
  er_action :: string
  er_trace_id :: string
  er_idempotency_key :: string
  er_condition_id :: string
  er_token_id :: string
  er_market_slug :: "string option"
  er_side :: "order_side option"
  er_order_type :: "order_type option"
  er_price :: "decimal option"
  er_amount_usdc :: "decimal option"
  er_size_shares :: "decimal option"
  er_order_id :: "string option"
  er_new_price :: "decimal option"
  er_post_only :: bool
  er_reason :: string

definition new_request :: "string \<Rightarrow> string \<Rightarrow> string \<Rightarrow> string \<Rightarrow> string \<Rightarrow> execution_request" where
  "new_request action trace key cid tok =
     \<lparr>er_action = action, er_trace_id = trace, er_idempotency_key = key, er_condition_id = cid,
      er_token_id = tok, er_market_slug = None, er_side = None, er_order_type = None, er_price = None,
      er_amount_usdc = None, er_size_shares = None, er_order_id = None, er_new_price = None,
      er_post_only = False, er_reason = []\<rparr>"

datatype response_status = Result_Status order_result_status | Text_Status string

record execution_response =
  rp_status :: "response_status option"
  rp_order_id :: "string option"
  rp_trade_id :: "string option"
  rp_matched_shares :: "decimal option"
  rp_remaining_shares :: "decimal option"
  rp_spent_usdc :: "decimal option"
  rp_notional_usdc :: "decimal option"
  rp_reason :: string
  rp_retryable :: bool

definition plain_response :: "order_result_status \<Rightarrow> string \<Rightarrow> execution_response" where
  "plain_response status reason =
     \<lparr>rp_status = Some (Result_Status status), rp_order_id = None, rp_trade_id = None,
      rp_matched_shares = None, rp_remaining_shares = None, rp_spent_usdc = None,
      rp_notional_usdc = None, rp_reason = reason, rp_retryable = False\<rparr>"

subsection \<open>The signature of a request\<close>

text \<open>
  The text the idempotency index compares. The text form of a decimal is the argument
  \<open>dstr\<close>: the model's decimals carry no exponent, so it stands for \<open>str\<close> on amounts
  written in one form.
\<close>

definition join_with :: "string \<Rightarrow> string list \<Rightarrow> string" where
  "join_with sep xs = concat (case xs of [] \<Rightarrow> [] | y # ys \<Rightarrow> y # map (\<lambda>z. sep @ z) ys)"

definition opt_text :: "('a \<Rightarrow> string) \<Rightarrow> 'a option \<Rightarrow> string" where
  "opt_text f v = (case v of None \<Rightarrow> [] | Some x \<Rightarrow> f x)"

definition bool_digit :: "bool \<Rightarrow> string" where
  "bool_digit b = (if b then ''1'' else ''0'')"

definition request_signature :: "(decimal \<Rightarrow> string) \<Rightarrow> execution_request \<Rightarrow> string" where
  "request_signature dstr r = join_with ''|''
     [er_action r, er_trace_id r, er_idempotency_key r, er_condition_id r, er_token_id r,
      opt_text id (er_market_slug r), opt_text side_value (er_side r),
      opt_text order_type_value (er_order_type r), opt_text dstr (er_price r),
      opt_text dstr (er_amount_usdc r), opt_text dstr (er_size_shares r),
      opt_text id (er_order_id r), opt_text dstr (er_new_price r), bool_digit (er_post_only r)]"

end
