(* ===== verification/Order_Result.thy ===== *)
theory Order_Result
  imports Execution_Types
begin

text \<open>
  \<open>infra/polymarket/order_result_builder.py\<close>: from the answer of an order client to the
  \<open>OrderResult\<close> of the domain. An answer is a typed response, an \<open>OrderResult\<close>, or an object
  of which only its reason is read; the branch for raw mappings parses text and is left out.
  The times of a result are its \<open>queued_at\<close> and \<open>ack_at\<close>.
\<close>

datatype adapter_answer =
    Typed_Response execution_response
  | Typed_Result order_result
  | Opaque_Answer "string option"

definition as_text :: "string option \<Rightarrow> string option" where
  "as_text v = (case v of None \<Rightarrow> None | Some s \<Rightarrow> if py_strip s = [] then None else Some (py_strip s))"

subsection \<open>Statuses\<close>

definition default_status_for_action :: "string \<Rightarrow> managed_intent option \<Rightarrow> order_result_status" where
  "default_status_for_action action intent =
     (if action = ''cancel'' then CANCELLED
      else if action = ''replace'' then LIVE
      else case intent of
             Some (Tradable (BuyIntent b)) \<Rightarrow> if bi_order_type b = FAK then NO_FILL else LIVE
           | Some (Tradable (SellIntent s)) \<Rightarrow> LIVE
           | _ \<Rightarrow> FAILED)"

definition status_names :: "(string \<times> order_result_status) list" where
  "status_names =
     [(''full_fill'', FULL_FILL), (''full'', FULL_FILL), (''filled'', FULL_FILL),
      (''partial_fill'', PARTIAL_FILL), (''partial'', PARTIAL_FILL), (''partially_filled'', PARTIAL_FILL),
      (''no_fill'', NO_FILL), (''nofill'', NO_FILL),
      (''live'', LIVE), (''resting'', LIVE),
      (''rejected'', REJECTED), (''failed'', FAILED),
      (''cancelled'', CANCELLED), (''canceled'', CANCELLED),
      (''unknown_timeout'', UNKNOWN_TIMEOUT), (''timeout'', UNKNOWN_TIMEOUT)]"

definition normal_status_text :: "string \<Rightarrow> string" where
  "normal_status_text t = map (\<lambda>c. if c = CHR '' '' then CHR ''_'' else c) (py_lower (py_strip t))"

definition coerce_status ::
  "response_status option \<Rightarrow> string \<Rightarrow> managed_intent option \<Rightarrow> order_result_status" where
  "coerce_status value action intent =
     (case value of
        None \<Rightarrow> default_status_for_action action intent
      | Some (Result_Status s) \<Rightarrow> s
      | Some (Text_Status t) \<Rightarrow>
          (case map_of status_names (normal_status_text t) of
             Some s \<Rightarrow> s | None \<Rightarrow> default_status_for_action action intent))"

definition default_reason :: "order_result_status \<Rightarrow> string \<Rightarrow> string" where
  "default_reason status action =
     (if status = UNKNOWN_TIMEOUT then action @ ''_timeout''
      else if status = CANCELLED then ''cancelled''
      else if status = NO_FILL then ''no_fill''
      else if status = FULL_FILL then ''full_fill''
      else if status = PARTIAL_FILL then ''partial_fill''
      else if status = LIVE then ''live''
      else if status = REJECTED then ''rejected''
      else ''failed'')"

definition normalize_execution_response ::
  "adapter_answer \<Rightarrow> string \<Rightarrow> managed_intent \<Rightarrow> execution_response" where
  "normalize_execution_response answer action intent =
     (case answer of
        Typed_Response r \<Rightarrow> r
      | Typed_Result r \<Rightarrow>
          \<lparr>rp_status = Some (Result_Status (rs_status r)), rp_order_id = rs_order_id r,
           rp_trade_id = rs_trade_id r, rp_matched_shares = Some (rs_matched_shares r),
           rp_remaining_shares = Some (rs_remaining_shares r), rp_spent_usdc = Some (rs_spent_usdc r),
           rp_notional_usdc = Some (rs_notional_usdc r), rp_reason = rs_reason r,
           rp_retryable = rs_retryable r\<rparr>
      | Opaque_Answer reason \<Rightarrow>
          plain_response (coerce_status None action (Some intent)) (or_default (as_text reason) []))"

subsection \<open>The result\<close>

record fill_numbers =
  fn_matched :: decimal
  fn_remaining :: decimal
  fn_spent :: decimal
  fn_notional :: decimal

definition is_fill_status :: "order_result_status \<Rightarrow> bool" where
  "is_fill_status st \<longleftrightarrow> st \<in> {FULL_FILL, PARTIAL_FILL}"

definition buy_numbers :: "buy_intent \<Rightarrow> order_result_status \<Rightarrow> decimal option \<Rightarrow> fill_numbers \<Rightarrow> fill_numbers" where
  "buy_numbers b status price f =
     (let notional = (if fn_notional f = 0 then bi_amount_usdc b else fn_notional f);
          spent = (if notional \<noteq> 0 \<and> is_fill_status status \<and> fn_spent f = 0 then notional else fn_spent f);
          matched = (if is_fill_status status \<and> fn_matched f = 0 \<and> spent \<noteq> 0
                     then (case dec_truthy price of None \<Rightarrow> fn_matched f | Some p \<Rightarrow> ddiv spent p)
                     else fn_matched f)
      in \<lparr>fn_matched = matched,
          fn_remaining = (if status = NO_FILL then 0 else fn_remaining f),
          fn_spent = spent, fn_notional = notional\<rparr>)"

definition sell_numbers :: "sell_intent \<Rightarrow> order_result_status \<Rightarrow> decimal option \<Rightarrow> fill_numbers \<Rightarrow> fill_numbers" where
  "sell_numbers s status price f =
     (let notional = (if fn_notional f = 0 then dmul (si_price s) (si_size_shares s) else fn_notional f);
          spent = (if is_fill_status status \<and> fn_spent f = 0
                   then (case dec_truthy price of None \<Rightarrow> fn_spent f
                         | Some p \<Rightarrow> dmul p (if fn_matched f = 0 then si_size_shares s else fn_matched f))
                   else fn_spent f);
          matched = (if is_fill_status status \<and> fn_matched f = 0
                     then (if fn_remaining f \<noteq> 0 then dsub (si_size_shares s) (fn_remaining f) else si_size_shares s)
                     else fn_matched f)
      in \<lparr>fn_matched = matched, fn_remaining = fn_remaining f, fn_spent = spent, fn_notional = notional\<rparr>)"

definition cancelled_numbers :: "order_result_status \<Rightarrow> fill_numbers \<Rightarrow> fill_numbers" where
  "cancelled_numbers status f =
     (if status = CANCELLED then f\<lparr>fn_matched := 0, fn_remaining := 0, fn_spent := 0\<rparr> else f)"

definition result_numbers ::
  "managed_intent \<Rightarrow> order_result_status \<Rightarrow> decimal option \<Rightarrow> execution_response \<Rightarrow> fill_numbers" where
  "result_numbers intent status price r =
     (let f = \<lparr>fn_matched = or_default (rp_matched_shares r) 0, fn_remaining = or_default (rp_remaining_shares r) 0,
               fn_spent = or_default (rp_spent_usdc r) 0, fn_notional = or_default (rp_notional_usdc r) 0\<rparr>
      in cancelled_numbers status
           (case intent of
              Tradable (BuyIntent b) \<Rightarrow> buy_numbers b status price f
            | Tradable (SellIntent s) \<Rightarrow> sell_numbers s status price f
            | _ \<Rightarrow> f))"

definition request_price :: "execution_request \<Rightarrow> decimal option" where
  "request_price r = dec_or (er_price r) (er_new_price r)"

definition build_order_result ::
  "execution_request \<Rightarrow> managed_intent \<Rightarrow> execution_response \<Rightarrow> int option \<Rightarrow> int option \<Rightarrow> order_result" where
  "build_order_result request intent response queued_at ack_at =
     (let status = coerce_status (rp_status response) (er_action request) (Some intent);
          price = request_price request;
          f = result_numbers intent status price response
      in \<lparr>rs_trace_id = er_trace_id request, rs_condition_id = er_condition_id request,
          rs_token_id = er_token_id request, rs_status = status, rs_intent = Some intent,
          rs_market_slug = er_market_slug request, rs_order_id = rp_order_id response,
          rs_trade_id = rp_trade_id response, rs_side = er_side request,
          rs_order_type = er_order_type request, rs_price = price,
          rs_requested_amount_usdc = (case intent of Tradable (BuyIntent b) \<Rightarrow> Some (bi_amount_usdc b) | _ \<Rightarrow> None),
          rs_requested_size_shares = (case intent of Tradable (SellIntent s) \<Rightarrow> Some (si_size_shares s) | _ \<Rightarrow> None),
          rs_matched_shares = fn_matched f, rs_remaining_shares = fn_remaining f,
          rs_spent_usdc = fn_spent f, rs_notional_usdc = fn_notional f,
          rs_reason = (if rp_reason response = [] then default_reason status (er_action request) else rp_reason response),
          rs_retryable = rp_retryable response, rs_queued_at = queued_at, rs_ack_at = ack_at\<rparr>)"

subsection \<open>Properties\<close>

text \<open>
  Statuses survive the text form: the text of every status, in any case and with blanks
  around it or in place of its underscores, is read back as that status; a status that is
  already typed is kept; and an unknown text falls back to the status of the action.
\<close>

lemma coerce_status_roundtrip:
  "coerce_status (Some (Text_Status (result_status_value s))) action intent = s
   \<and> coerce_status (Some (Text_Status ('' '' @ py_upper (result_status_value s) @ '' ''))) action intent = s
   \<and> coerce_status (Some (Result_Status s)) action intent = s
   \<and> coerce_status (Some (Text_Status ''matched'')) action intent = default_status_for_action action intent"
proof -
  let ?all = "[FULL_FILL, PARTIAL_FILL, NO_FILL, LIVE, REJECTED, FAILED, CANCELLED, UNKNOWN_TIMEOUT]"
  have mem: "s \<in> set ?all" by (cases s) simp_all
  have "list_all (\<lambda>s. map_of status_names (normal_status_text (result_status_value s)) = Some s) ?all"
    by code_simp
  with mem have "map_of status_names (normal_status_text (result_status_value s)) = Some s"
    unfolding list_all_iff by blast
  moreover have "list_all (\<lambda>s. map_of status_names
      (normal_status_text ('' '' @ py_upper (result_status_value s) @ '' '')) = Some s) ?all" by code_simp
  with mem have "map_of status_names
      (normal_status_text ('' '' @ py_upper (result_status_value s) @ '' '')) = Some s"
    unfolding list_all_iff by blast
  moreover have "map_of status_names (normal_status_text ''matched'') = None" by code_simp
  ultimately show ?thesis by (simp add: coerce_status_def)
qed

text \<open>
  The numbers of a result never understate a fill: for a tradable intent with a positive
  price and size, whose response reports no negative number, a filled status comes with a
  positive number of shares and dollars unless the response itself leaves as many shares as
  the sell asked for; a cancellation reports nothing matched; and numbers the response gives
  are taken over.
\<close>

lemma result_reports_fill:
  assumes "build_order_result request (Tradable i) response q a = r"
    and "request_price request = Some p" "0 < p"
    and "case i of BuyIntent b \<Rightarrow> 0 < bi_amount_usdc b | SellIntent s \<Rightarrow> 0 < si_size_shares s
           \<and> or_default (rp_remaining_shares response) 0 < si_size_shares s"
    and "0 \<le> or_default (rp_matched_shares response) 0" "0 \<le> or_default (rp_spent_usdc response) 0"
      "0 \<le> or_default (rp_notional_usdc response) 0" "0 \<le> or_default (rp_remaining_shares response) 0"
  shows "(rs_status r \<in> {FULL_FILL, PARTIAL_FILL} \<longrightarrow> 0 < rs_matched_shares r \<and> 0 < rs_spent_usdc r)
    \<and> (rs_status r = CANCELLED \<longrightarrow> rs_matched_shares r = 0 \<and> rs_remaining_shares r = 0 \<and> rs_spent_usdc r = 0)
    \<and> (rs_status r \<noteq> CANCELLED \<and> 0 < or_default (rp_matched_shares response) 0 \<longrightarrow>
         rs_matched_shares r = or_default (rp_matched_shares response) 0)
    \<and> (rs_status r \<noteq> CANCELLED \<and> 0 < or_default (rp_spent_usdc response) 0 \<longrightarrow>
         rs_spent_usdc r = or_default (rp_spent_usdc response) 0)"
proof -
  define st where "st = coerce_status (rp_status response) (er_action request) (Some (Tradable i))"
  define f where "f = result_numbers (Tradable i) st (Some p) response"
  have r: "rs_status r = st" "rs_matched_shares r = fn_matched f" "rs_spent_usdc r = fn_spent f"
      "rs_remaining_shares r = fn_remaining f"
    using assms(1,2) by (auto simp: build_order_result_def st_def f_def Let_def)
  have t: "dec_truthy (Some p) = Some p" using assms(3) by (simp add: dec_truthy_def)
  have pz: "p \<noteq> 0" using assms(3) by simp
  have d: "ddiv x p \<noteq> 0" if "0 \<le> x" "x \<noteq> 0" for x using ddiv_pos [of x p] that assms(3) by simp
  show ?thesis
  proof (cases i)
    case (BuyIntent b)
    then show ?thesis
      using assms(4-8) pz assms(3) unfolding r f_def
      by (simp add: result_numbers_def cancelled_numbers_def buy_numbers_def is_fill_status_def t Let_def
          d less_le ddiv_nonneg)
  next
    case (SellIntent s)
    then show ?thesis
      using assms(4-8) pz assms(3) unfolding r f_def
      by (simp add: result_numbers_def cancelled_numbers_def sell_numbers_def is_fill_status_def t Let_def
          dmul_pos le_neq_trans order_le_neq_trans)
  qed
qed

end
