(* ===== verification/Paper_Match.thy ===== *)
theory Paper_Match
  imports Orderbook
begin

text \<open>
  \<open>app/paper/orderbook_matcher.py\<close>: the paper exchange. A taker order consumes the other
  side of the book level by level, best price first, up to its limit. The local variables of
  the two loops are the record \<open>match_state\<close>; the statements after the cut of the shares
  are \<open>consume_level\<close>. A buy is measured in dollars, a sell in shares.
\<close>

record consumed_level =
  cl_price :: decimal
  cl_shares :: decimal
  cl_notional_usdc :: decimal

record match_result =
  mr_filled_shares :: decimal
  mr_avg_price :: "decimal option"
  mr_gross_notional_usdc :: decimal
  mr_consumed_levels :: "consumed_level list"
  mr_unfilled_amount_usdc :: decimal
  mr_unfilled_size_shares :: decimal

definition is_filled :: "match_result \<Rightarrow> bool" where
  "is_filled r \<longleftrightarrow> mr_filled_shares r > 0"

definition is_full_fill :: "match_result \<Rightarrow> bool" where
  "is_full_fill r \<longleftrightarrow> is_filled r \<and> mr_unfilled_amount_usdc r \<le> 0 \<and> mr_unfilled_size_shares r \<le> 0"

record match_state =
  ms_remaining :: decimal
  ms_filled :: decimal
  ms_cash :: decimal
  ms_consumed :: "consumed_level list"

definition match_start :: "decimal \<Rightarrow> match_state" where
  "match_start x = \<lparr>ms_remaining = x, ms_filled = 0, ms_cash = 0, ms_consumed = []\<rparr>"

definition consume_level :: "match_state \<Rightarrow> price_level \<Rightarrow> decimal \<Rightarrow> decimal \<Rightarrow> match_state" where
  "consume_level st l shares used =
     (let notional = dmul shares (lv_price l)
      in \<lparr>ms_remaining = dsub (ms_remaining st) used,
          ms_filled = dadd (ms_filled st) shares,
          ms_cash = dadd (ms_cash st) notional,
          ms_consumed = ms_consumed st @
            [\<lparr>cl_price = lv_price l, cl_shares = shares, cl_notional_usdc = notional\<rparr>]\<rparr>)"

definition above_limit :: "decimal option \<Rightarrow> price_level \<Rightarrow> bool" where
  "above_limit limit l = (case limit of None \<Rightarrow> False | Some p \<Rightarrow> lv_price l > p)"

definition below_limit :: "decimal option \<Rightarrow> price_level \<Rightarrow> bool" where
  "below_limit limit l = (case limit of None \<Rightarrow> False | Some p \<Rightarrow> lv_price l < p)"

fun match_buy_loop :: "decimal option \<Rightarrow> match_state \<Rightarrow> price_level list \<Rightarrow> match_state" where
  "match_buy_loop limit st [] = st"
| "match_buy_loop limit st (l # ls) =
     (if above_limit limit l then st
      else if lv_price l \<le> 0 \<or> lv_size l \<le> 0 then match_buy_loop limit st ls
      else let shares_at_level = min (lv_size l) (ddiv (ms_remaining st) (lv_price l))
           in if shares_at_level \<le> 0 then st
              else let st' = consume_level st l shares_at_level (dmul shares_at_level (lv_price l))
                   in if ms_remaining st' \<le> 0 then st'\<lparr>ms_remaining := 0\<rparr>
                      else match_buy_loop limit st' ls)"

fun match_sell_loop :: "decimal option \<Rightarrow> match_state \<Rightarrow> price_level list \<Rightarrow> match_state" where
  "match_sell_loop limit st [] = st"
| "match_sell_loop limit st (l # ls) =
     (if below_limit limit l then st
      else if lv_price l \<le> 0 \<or> lv_size l \<le> 0 then match_sell_loop limit st ls
      else let shares_at_level = min (lv_size l) (ms_remaining st)
           in if shares_at_level \<le> 0 then st
              else let st' = consume_level st l shares_at_level shares_at_level
                   in if ms_remaining st' \<le> 0 then st'\<lparr>ms_remaining := 0\<rparr>
                      else match_sell_loop limit st' ls)"

definition match_avg_price :: "match_state \<Rightarrow> decimal option" where
  "match_avg_price st = (if ms_filled st > 0 then Some (ddiv (ms_cash st) (ms_filled st)) else None)"

definition match_taker_buy :: "book option \<Rightarrow> decimal \<Rightarrow> decimal option \<Rightarrow> match_result" where
  "match_taker_buy orderbook amount_usdc limit_price =
     (let none = \<lparr>mr_filled_shares = 0, mr_avg_price = None, mr_gross_notional_usdc = 0,
                  mr_consumed_levels = [], mr_unfilled_amount_usdc = max amount_usdc 0,
                  mr_unfilled_size_shares = 0\<rparr>
      in case orderbook of
           None \<Rightarrow> none
         | Some b \<Rightarrow>
             if amount_usdc \<le> 0 \<or> ob_asks b = [] then none
             else let st = match_buy_loop limit_price (match_start amount_usdc) (sort_key lv_price (ob_asks b))
                  in \<lparr>mr_filled_shares = ms_filled st, mr_avg_price = match_avg_price st,
                      mr_gross_notional_usdc = ms_cash st, mr_consumed_levels = ms_consumed st,
                      mr_unfilled_amount_usdc = max (ms_remaining st) 0,
                      mr_unfilled_size_shares = 0\<rparr>)"

definition match_taker_sell :: "book option \<Rightarrow> decimal \<Rightarrow> decimal option \<Rightarrow> match_result" where
  "match_taker_sell orderbook size_shares limit_price =
     (let none = \<lparr>mr_filled_shares = 0, mr_avg_price = None, mr_gross_notional_usdc = 0,
                  mr_consumed_levels = [], mr_unfilled_amount_usdc = 0,
                  mr_unfilled_size_shares = max size_shares 0\<rparr>
      in case orderbook of
           None \<Rightarrow> none
         | Some b \<Rightarrow>
             if size_shares \<le> 0 \<or> ob_bids b = [] then none
             else let st = match_sell_loop limit_price (match_start size_shares)
                             (sort_key (\<lambda>l. - lv_price l) (ob_bids b))
                  in \<lparr>mr_filled_shares = ms_filled st, mr_avg_price = match_avg_price st,
                      mr_gross_notional_usdc = ms_cash st, mr_consumed_levels = ms_consumed st,
                      mr_unfilled_amount_usdc = 0,
                      mr_unfilled_size_shares = max (ms_remaining st) 0\<rparr>)"

subsection \<open>What the two loops share\<close>

definition fits :: "consumed_level \<Rightarrow> price_level \<Rightarrow> bool" where
  "fits c l \<longleftrightarrow> cl_price c = lv_price l \<and> 0 < cl_shares c \<and> cl_shares c \<le> lv_size l
     \<and> cl_notional_usdc c = dmul (cl_shares c) (lv_price l)"

definition eligible :: "(price_level \<Rightarrow> bool) \<Rightarrow> price_level \<Rightarrow> bool" where
  "eligible beyond l \<longleftrightarrow> \<not> beyond l \<and> 0 < lv_price l \<and> 0 < lv_size l"

text \<open>
  Both loops run the same way; they differ in the limit, in the shares they cut from a level
  and in what those shares use up of the order.
\<close>

locale taker_loop =
  fixes loop :: "match_state \<Rightarrow> price_level list \<Rightarrow> match_state"
    and beyond :: "price_level \<Rightarrow> bool"
    and cut :: "decimal \<Rightarrow> price_level \<Rightarrow> decimal"
    and used :: "decimal \<Rightarrow> price_level \<Rightarrow> decimal"
  assumes loop_Nil: "loop st [] = st"
    and loop_Cons: "loop st (l # ls) =
      (if beyond l then st
       else if lv_price l \<le> 0 \<or> lv_size l \<le> 0 then loop st ls
       else if cut (ms_remaining st) l \<le> 0 then st
       else let st' = consume_level st l (cut (ms_remaining st) l) (used (cut (ms_remaining st) l) l)
            in if ms_remaining st' \<le> 0 then st'\<lparr>ms_remaining := 0\<rparr> else loop st' ls)"
    and cut_pos: "0 < r \<Longrightarrow> 0 < lv_price l \<Longrightarrow> 0 < lv_size l \<Longrightarrow> 0 < cut r l"
    and cut_le: "cut r l \<le> lv_size l"
begin

lemma beyond_rest:
  "sorted_wrt (\<lambda>l l'. beyond l \<longrightarrow> beyond l') (l # ls) \<Longrightarrow> beyond l \<Longrightarrow> filter (eligible beyond) (l # ls) = []"
  by (auto simp: eligible_def filter_empty_conv)

lemma loop_skip: "\<not> eligible beyond l \<Longrightarrow> \<not> beyond l \<Longrightarrow> loop st (l # ls) = loop st ls"
  by (auto simp: loop_Cons eligible_def)

lemma loop_take:
  assumes "eligible beyond l" "0 < ms_remaining st"
  defines "s \<equiv> cut (ms_remaining st) l"
  defines "st' \<equiv> consume_level st l s (used s l)"
  shows "0 < s" "s \<le> lv_size l"
    "loop st (l # ls) = (if ms_remaining st' \<le> 0 then st'\<lparr>ms_remaining := 0\<rparr> else loop st' ls)"
proof -
  show p: "0 < s" using assms cut_pos by (simp add: eligible_def)
  show "s \<le> lv_size l" unfolding s_def by (rule cut_le)
  show "loop st (l # ls) = (if ms_remaining st' \<le> 0 then st'\<lparr>ms_remaining := 0\<rparr> else loop st' ls)"
    using assms(1) p unfolding st'_def s_def by (simp add: loop_Cons eligible_def Let_def)
qed

text \<open>
  The run consumes the eligible levels in the order of the book, none twice and none skipped,
  and stops early only when the order is filled.
\<close>

lemma loop_conforms:
  assumes "0 < ms_remaining st" "sorted_wrt (\<lambda>l l'. beyond l \<longrightarrow> beyond l') ls"
  shows "\<exists>cs. ms_consumed (loop st ls) = ms_consumed st @ cs
    \<and> length cs \<le> length (filter (eligible beyond) ls)
    \<and> list_all2 fits cs (take (length cs) (filter (eligible beyond) ls))
    \<and> (ms_remaining (loop st ls) = 0 \<or> length cs = length (filter (eligible beyond) ls))
    \<and> 0 \<le> ms_remaining (loop st ls)
    \<and> ms_filled (loop st ls) = foldl dadd (ms_filled st) (map cl_shares cs)
    \<and> ms_cash (loop st ls) = foldl dadd (ms_cash st) (map cl_notional_usdc cs)"
  using assms
proof (induction ls arbitrary: st)
  case Nil
  then show ?case by (simp add: loop_Nil)
next
  case (Cons l ls)
  have srt: "sorted_wrt (\<lambda>l l'. beyond l \<longrightarrow> beyond l') ls" using Cons.prems(2) by simp
  consider "beyond l" | "\<not> beyond l" "\<not> eligible beyond l" | "eligible beyond l" by blast
  then show ?case
  proof cases
    case 1
    then show ?thesis using Cons.prems beyond_rest [OF Cons.prems(2)] by (simp add: loop_Cons)
  next
    case 2
    then show ?thesis using Cons.IH [OF Cons.prems(1) srt] by (simp add: loop_skip)
  next
    case 3
    define s where "s = cut (ms_remaining st) l"
    define st' where "st' = consume_level st l s (used s l)"
    define c where "c = \<lparr>cl_price = lv_price l, cl_shares = s, cl_notional_usdc = dmul s (lv_price l)\<rparr>"
    note t = loop_take [OF 3 Cons.prems(1), folded s_def, folded st'_def]
    have f: "fits c l" using t(1,2) by (simp add: fits_def c_def)
    have st': "ms_consumed st' = ms_consumed st @ [c]" "ms_filled st' = dadd (ms_filled st) s"
        "ms_cash st' = dadd (ms_cash st) (cl_notional_usdc c)"
      by (simp_all add: st'_def consume_level_def c_def Let_def)
    show ?thesis
    proof (cases "ms_remaining st' \<le> 0")
      case True
      then show ?thesis using 3 f by (intro exI [of _ "[c]"]) (simp add: t(3) st' c_def)
    next
      case False
      then obtain cs where cs: "ms_consumed (loop st' ls) = ms_consumed st' @ cs"
          "length cs \<le> length (filter (eligible beyond) ls)"
          "list_all2 fits cs (take (length cs) (filter (eligible beyond) ls))"
          "ms_remaining (loop st' ls) = 0 \<or> length cs = length (filter (eligible beyond) ls)"
          "0 \<le> ms_remaining (loop st' ls)"
          "ms_filled (loop st' ls) = foldl dadd (ms_filled st') (map cl_shares cs)"
          "ms_cash (loop st' ls) = foldl dadd (ms_cash st') (map cl_notional_usdc cs)"
        using Cons.IH [of st'] srt by fastforce
      then show ?thesis using False 3 f
        by (intro exI [of _ "c # cs"]) (auto simp: t(3) st' c_def)
    qed
  qed
qed

end

interpretation buy_side: taker_loop "match_buy_loop limit" "above_limit limit"
  "\<lambda>r l. min (lv_size l) (ddiv r (lv_price l))" "\<lambda>s l. dmul s (lv_price l)" for limit
  by unfold_locales (auto simp: Let_def intro: ddiv_pos)

interpretation sell_side: taker_loop "match_sell_loop limit" "below_limit limit"
  "\<lambda>r l. min (lv_size l) r" "\<lambda>s l. s" for limit
  by unfold_locales (auto simp: Let_def)

declare match_buy_loop.simps [simp del] match_sell_loop.simps [simp del]

subsection \<open>Buying\<close>

abbreviation eligible_asks :: "book \<Rightarrow> decimal option \<Rightarrow> price_level list" where
  "eligible_asks b limit \<equiv> filter (eligible (above_limit limit)) (sort_key lv_price (ob_asks b))"

lemma asks_beyond_sorted:
  "sorted_wrt (\<lambda>l l'. above_limit limit l \<longrightarrow> above_limit limit l') (sort_key lv_price ls)"
  using sorted_sort_key [of lv_price ls]
  by (auto simp: sorted_map above_limit_def split: option.splits elim!: sorted_wrt_mono_rel [rotated])

text \<open>
  C33: A paper buy executes best price first: the levels it consumes are the asks within the
  limit with a positive price and size, in ascending price, each at its own price and for a
  positive part of its size; it stops before the last of them only when the whole amount is
  spent; and the shares and dollars it reports are those of the levels.
\<close>

theorem buy_takes_best_asks:
  "list_all2 fits (mr_consumed_levels (match_taker_buy (Some b) amount limit))
      (take (length (mr_consumed_levels (match_taker_buy (Some b) amount limit))) (eligible_asks b limit))
   \<and> (mr_unfilled_amount_usdc (match_taker_buy (Some b) amount limit) = 0
      \<or> length (mr_consumed_levels (match_taker_buy (Some b) amount limit)) = length (eligible_asks b limit))
   \<and> mr_filled_shares (match_taker_buy (Some b) amount limit)
      = dsum (map cl_shares (mr_consumed_levels (match_taker_buy (Some b) amount limit)))
   \<and> mr_gross_notional_usdc (match_taker_buy (Some b) amount limit)
      = dsum (map cl_notional_usdc (mr_consumed_levels (match_taker_buy (Some b) amount limit)))"
proof (cases "amount \<le> 0 \<or> ob_asks b = []")
  case True
  then show ?thesis by (auto simp: match_taker_buy_def)
next
  case False
  obtain cs where "ms_consumed (match_buy_loop limit (match_start amount) (sort_key lv_price (ob_asks b))) = cs"
      "length cs \<le> length (eligible_asks b limit)"
      "list_all2 fits cs (take (length cs) (eligible_asks b limit))"
      "ms_remaining (match_buy_loop limit (match_start amount) (sort_key lv_price (ob_asks b))) = 0
        \<or> length cs = length (eligible_asks b limit)"
      "ms_filled (match_buy_loop limit (match_start amount) (sort_key lv_price (ob_asks b))) = dsum (map cl_shares cs)"
      "ms_cash (match_buy_loop limit (match_start amount) (sort_key lv_price (ob_asks b))) = dsum (map cl_notional_usdc cs)"
    using buy_side.loop_conforms [of "match_start amount" limit, OF _ asks_beyond_sorted, of "ob_asks b"] False
    by (auto simp: match_start_def dsum_def)
  then show ?thesis using False by (auto simp: match_taker_buy_def Let_def)
qed

lemma buy_step_bounds:
  assumes "0 < r" "0 < p" "0 \<le> s" "s \<le> ddiv r p"
  shows "dmul s p \<le> r * (1 + dec_rel) ^ 2"
proof -
  have "s * p \<le> r / p * (1 + dec_rel) * p"
    using assms dround_le_rel [of "r / p"] by (intro mult_right_mono) (auto simp: ddiv_def)
  also have "\<dots> = r * (1 + dec_rel)" using assms(2) by simp
  finally have a: "s * p * (1 + dec_rel) \<le> r * (1 + dec_rel) * (1 + dec_rel)"
    by (rule mult_right_mono) (simp add: less_imp_le)
  have "dmul s p \<le> s * p * (1 + dec_rel)"
    unfolding dmul_def using assms by (intro dround_le_rel) simp
  also note a
  also have "r * (1 + dec_rel) * (1 + dec_rel) = r * (1 + dec_rel) ^ 2" by (simp add: power2_eq_square)
  finally show ?thesis .
qed

text \<open>Each step keeps the cash and the remaining amount together, up to one rounding each.\<close>

lemma buy_level_conserves:
  assumes "0 < ms_remaining st" "0 \<le> ms_cash st" "0 < lv_price l" "0 < s"
    "s \<le> ddiv (ms_remaining st) (lv_price l)"
  defines "st' \<equiv> consume_level st l s (dmul s (lv_price l))"
  shows "0 \<le> ms_cash st'"
    "0 < ms_remaining st' \<Longrightarrow>
      (ms_cash st + ms_remaining st) * (1 - dec_rel) \<le> ms_cash st' + ms_remaining st'
      \<and> ms_cash st' + ms_remaining st' \<le> (ms_cash st + ms_remaining st) * (1 + dec_rel)"
    "ms_remaining st' \<le> 0 \<Longrightarrow>
      (ms_cash st + ms_remaining st) * (1 - dec_rel) \<le> ms_cash st'
      \<and> ms_cash st' \<le> (ms_cash st + ms_remaining st) * (1 + dec_rel) ^ 3"
proof -
  let ?n = "dmul s (lv_price l)" and ?r = "ms_remaining st" and ?c = "ms_cash st"
  have n: "0 \<le> ?n" "?n \<le> ?r * (1 + dec_rel) ^ 2"
    using assms buy_step_bounds [of ?r "lv_price l" s] by auto
  have c': "ms_cash st' = dround (?c + ?n)" and r': "ms_remaining st' = dround (?r - ?n)"
    by (simp_all add: st'_def consume_level_def dadd_def dsub_def Let_def)
  have cb: "(?c + ?n) * (1 - dec_rel) \<le> ms_cash st'" "ms_cash st' \<le> (?c + ?n) * (1 + dec_rel)"
    unfolding c' using n(1) assms(2) by (auto intro: dround_le_rel dround_ge_rel)
  show "0 \<le> ms_cash st'" unfolding c' using n(1) assms(2) by (intro dr.rnd_nonneg) simp
  show "(?c + ?r) * (1 - dec_rel) \<le> ms_cash st' + ms_remaining st'
      \<and> ms_cash st' + ms_remaining st' \<le> (?c + ?r) * (1 + dec_rel)" if "0 < ms_remaining st'"
  proof -
    have "0 \<le> ?r - ?n" using that unfolding r' by (simp add: dr.rnd_pos_iff)
    then have "(?r - ?n) * (1 - dec_rel) \<le> ms_remaining st'" "ms_remaining st' \<le> (?r - ?n) * (1 + dec_rel)"
      unfolding r' by (auto intro: dround_le_rel dround_ge_rel)
    then show ?thesis using cb by (simp add: algebra_simps)
  qed
  show "(?c + ?r) * (1 - dec_rel) \<le> ms_cash st' \<and> ms_cash st' \<le> (?c + ?r) * (1 + dec_rel) ^ 3"
    if "ms_remaining st' \<le> 0"
  proof
    have "?r \<le> ?n" using that unfolding r' by (simp add: dr.rnd_nonpos_iff)
    then have "(?c + ?r) * (1 - dec_rel) \<le> (?c + ?n) * (1 - dec_rel)"
      by (intro mult_right_mono) (auto simp: less_imp_le)
    then show "(?c + ?r) * (1 - dec_rel) \<le> ms_cash st'" using cb(1) by (rule order_trans)
    have "?c * 1 \<le> ?c * (1 + dec_rel) ^ 2"
      using assms(2) by (intro mult_left_mono one_le_power) simp_all
    then have "?c + ?n \<le> (?c + ?r) * (1 + dec_rel) ^ 2" using n(2) by (simp add: distrib_right)
    then have "(?c + ?n) * (1 + dec_rel) \<le> (?c + ?r) * (1 + dec_rel) ^ 2 * (1 + dec_rel)"
      by (rule mult_right_mono) (simp add: less_imp_le)
    then have "ms_cash st' \<le> (?c + ?r) * (1 + dec_rel) ^ 2 * (1 + dec_rel)"
      using cb(2) by (rule order_trans [rotated])
    also have "\<dots> = (?c + ?r) * (1 + dec_rel) ^ 3" by (simp add: power3_eq_cube power2_eq_square)
    finally show "ms_cash st' \<le> (?c + ?r) * (1 + dec_rel) ^ 3" .
  qed
qed

lemma rel_power_mono:
  assumes "0 \<le> T" "m \<le> n"
  shows "T * (1 - dec_rel) ^ n \<le> T * (1 - dec_rel) ^ m" "T * (1 + dec_rel) ^ m \<le> T * (1 + dec_rel) ^ n"
proof -
  have "(1 - dec_rel) ^ n \<le> (1 - dec_rel) ^ m"
    by (rule power_decreasing [OF assms(2)]) (simp_all add: less_imp_le)
  then show "T * (1 - dec_rel) ^ n \<le> T * (1 - dec_rel) ^ m" by (rule mult_left_mono [OF _ assms(1)])
  have "(1 + dec_rel) ^ m \<le> (1 + dec_rel) ^ n"
    by (rule power_increasing [OF assms(2)]) simp
  then show "T * (1 + dec_rel) ^ m \<le> T * (1 + dec_rel) ^ n" by (rule mult_left_mono [OF _ assms(1)])
qed

lemma buy_loop_conserves:
  assumes "0 < ms_remaining st" "0 \<le> ms_cash st"
  shows "(ms_cash st + ms_remaining st) * (1 - dec_rel) ^ length ls
      \<le> ms_cash (match_buy_loop limit st ls) + ms_remaining (match_buy_loop limit st ls)
    \<and> ms_cash (match_buy_loop limit st ls) + ms_remaining (match_buy_loop limit st ls)
      \<le> (ms_cash st + ms_remaining st) * (1 + dec_rel) ^ (length ls + 2)"
  using assms
proof (induction ls arbitrary: st)
  case Nil
  then show ?case
    using rel_power_mono [of "ms_cash st + ms_remaining st" 0 2] by (simp add: buy_side.loop_Nil power2_eq_square)
next
  case (Cons l ls)
  let ?T = "ms_cash st + ms_remaining st" and ?k = "length ls"
  have T: "0 \<le> ?T" using Cons.prems by simp
  note pm = rel_power_mono [OF T]
  consider "above_limit limit l" | "\<not> above_limit limit l" "\<not> eligible (above_limit limit) l"
    | "eligible (above_limit limit) l" by blast
  then show ?case
  proof cases
    case 1
    then have e: "match_buy_loop limit st (l # ls) = st" by (simp add: buy_side.loop_Cons)
    show ?thesis
      using pm(1) [of 0 "Suc ?k"] pm(2) [of 0 "Suc ?k + 2"] unfolding e by simp
  next
    case 2
    then have e: "match_buy_loop limit st (l # ls) = match_buy_loop limit st ls"
      by (intro buy_side.loop_skip) auto
    show ?thesis
      using Cons.IH [OF Cons.prems] pm(1) [of ?k "Suc ?k"] pm(2) [of "?k + 2" "Suc ?k + 2"]
      unfolding e list.size(4) add_0_right One_nat_def add_Suc_right by linarith
  next
    case 3
    define s where "s = min (lv_size l) (ddiv (ms_remaining st) (lv_price l))"
    define st' where "st' = consume_level st l s (dmul s (lv_price l))"
    note t = buy_side.loop_take [OF 3 Cons.prems(1), folded s_def, folded st'_def]
    have p: "0 < lv_price l" using 3 by (simp add: eligible_def)
    note b = buy_level_conserves [OF Cons.prems p t(1), folded st'_def]
    have sle: "s \<le> ddiv (ms_remaining st) (lv_price l)" by (simp add: s_def)
    show ?thesis
    proof (cases "ms_remaining st' \<le> 0")
      case True
      then have e: "match_buy_loop limit st (l # ls) = st'\<lparr>ms_remaining := 0\<rparr>" by (simp add: t(3))
      show ?thesis
        using b(3) [OF sle True] pm(1) [of 1 "Suc ?k"] pm(2) [of 3 "Suc ?k + 2"]
        unfolding e by simp
    next
      case False
      let ?T' = "ms_cash st' + ms_remaining st'"
      have pos: "0 < ms_remaining st'" using False by simp
      note ih = Cons.IH [OF pos b(1) [OF sle]]
      note c = b(2) [OF sle pos]
      have "?T * (1 - dec_rel) ^ Suc ?k \<le> ?T' * (1 - dec_rel) ^ ?k"
        using mult_right_mono [OF conjunct1 [OF c], of "(1 - dec_rel) ^ ?k"] by (simp add: less_imp_le mult.assoc)
      moreover have "?T' * (1 + dec_rel) ^ (?k + 2) \<le> ?T * (1 + dec_rel) ^ (Suc ?k + 2)"
        using mult_right_mono [OF conjunct2 [OF c], of "(1 + dec_rel) ^ (?k + 2)"]
        by (simp add: less_imp_le mult.assoc)
      moreover have e: "match_buy_loop limit st (l # ls) = match_buy_loop limit st' ls"
        using False by (simp add: t(3))
      ultimately show ?thesis using ih unfolding e length_Cons by linarith
    qed
  qed
qed

lemma match_buy_conserves:
  assumes "0 \<le> amount"
  shows "amount * (1 - dec_rel) ^ length (ob_asks b)
      \<le> mr_gross_notional_usdc (match_taker_buy (Some b) amount limit)
        + mr_unfilled_amount_usdc (match_taker_buy (Some b) amount limit)
    \<and> mr_gross_notional_usdc (match_taker_buy (Some b) amount limit)
        + mr_unfilled_amount_usdc (match_taker_buy (Some b) amount limit)
      \<le> amount * (1 + dec_rel) ^ (length (ob_asks b) + 2)"
proof (cases "amount \<le> 0 \<or> ob_asks b = []")
  case True
  then show ?thesis using assms rel_power_mono [OF assms, of 0 2]
    by (auto simp: match_taker_buy_def power2_eq_square)
next
  case False
  let ?ls = "sort_key lv_price (ob_asks b)"
  let ?st = "match_buy_loop limit (match_start amount) ?ls"
  have "0 \<le> ms_remaining ?st"
    using buy_side.loop_conforms [of "match_start amount" limit, OF _ asks_beyond_sorted, of "ob_asks b"] False
    by (auto simp: match_start_def)
  then show ?thesis
    using buy_loop_conserves [of "match_start amount" ?ls limit] False
    by (simp add: match_taker_buy_def match_start_def Let_def)
qed

text \<open>
  A paper buy neither creates nor loses dollars: what it spends and what it leaves of the
  amount add up to the amount, up to one rounding to 28 digits per level of the book and two
  for the cut of the last one.
\<close>

lemma buy_conserves_dollars:
  assumes "0 \<le> amount"
  shows "amount * (1 - dec_rel) ^ length (ob_asks b)
      \<le> mr_gross_notional_usdc (match_taker_buy (Some b) amount limit)
        + mr_unfilled_amount_usdc (match_taker_buy (Some b) amount limit)
    \<and> mr_gross_notional_usdc (match_taker_buy (Some b) amount limit)
        + mr_unfilled_amount_usdc (match_taker_buy (Some b) amount limit)
      \<le> amount * (1 + dec_rel) ^ (length (ob_asks b) + 2)"
  using match_buy_conserves [OF assms] .

definition match_book :: book where
  "match_book = \<lparr>ob_token_id = ''tok'', ob_best_bid = Some (2/5), ob_best_ask = Some (3/5),
     ob_bids = [lv (3/10) 20, lv (2/5) 10], ob_asks = [lv (7/10) 50, lv (3/5) 10],
     ob_received_at = 0, ob_market_slug = None, ob_condition_id = Some ''c'',
     ob_best_bid_size = Some 10, ob_best_ask_size = Some 10, ob_last_trade_price = None,
     ob_tick_size = None\<rparr>"

subsection \<open>Selling\<close>

abbreviation eligible_bids :: "book \<Rightarrow> decimal option \<Rightarrow> price_level list" where
  "eligible_bids b limit \<equiv> filter (eligible (below_limit limit)) (sort_key (\<lambda>l. - lv_price l) (ob_bids b))"

lemma bids_below_sorted:
  "sorted_wrt (\<lambda>l l'. below_limit limit l \<longrightarrow> below_limit limit l') (sort_key (\<lambda>l. - lv_price l) ls)"
  using sorted_sort_key [of "\<lambda>l. - lv_price l" ls]
  by (auto simp: sorted_map below_limit_def split: option.splits elim!: sorted_wrt_mono_rel [rotated])

lemma sum_sizes_nonneg: "0 \<le> sum_list (map lv_size (filter (eligible p) ls))"
  by (rule sum_list_nonneg) (auto simp: eligible_def)

text \<open>On a grid of share sizes the loop is exact.\<close>

lemma sell_loop_exact:
  assumes "sorted_wrt (\<lambda>l l'. below_limit limit l \<longrightarrow> below_limit limit l') ls"
    and "0 < ms_remaining st" "0 \<le> ms_filled st"
    and "\<forall>l \<in> set ls. on_grid n (lv_size l)" "on_grid n (ms_remaining st)" "on_grid n (ms_filled st)"
    and "(ms_filled st + ms_remaining st) * 10 ^ n \<le> 10 ^ 28"
  shows "ms_filled (match_sell_loop limit st ls)
      = ms_filled st + min (ms_remaining st) (sum_list (map lv_size (filter (eligible (below_limit limit)) ls)))
    \<and> ms_remaining (match_sell_loop limit st ls)
      = ms_remaining st - min (ms_remaining st) (sum_list (map lv_size (filter (eligible (below_limit limit)) ls)))"
  using assms
proof (induction ls arbitrary: st)
  case Nil
  then show ?case by (simp add: sell_side.loop_Nil)
next
  case (Cons l ls)
  let ?S = "sum_list (map lv_size (filter (eligible (below_limit limit)) ls))"
  have srt: "sorted_wrt (\<lambda>l l'. below_limit limit l \<longrightarrow> below_limit limit l') ls" using Cons.prems(1) by simp
  consider "below_limit limit l" | "\<not> below_limit limit l" "\<not> eligible (below_limit limit) l"
    | "eligible (below_limit limit) l" by blast
  then show ?case
  proof cases
    case 1
    then show ?thesis
      using sell_side.beyond_rest [OF Cons.prems(1)] Cons.prems(2) by (simp add: sell_side.loop_Cons)
  next
    case 2
    then show ?thesis using Cons.IH [OF srt] Cons.prems by (simp add: sell_side.loop_skip)
  next
    case 3
    define s where "s = min (lv_size l) (ms_remaining st)"
    define st' where "st' = consume_level st l s s"
    note t = sell_side.loop_take [OF 3 Cons.prems(2), folded s_def, folded st'_def]
    have g: "on_grid n s" using Cons.prems(4,5) by (simp add: s_def min_def)
    have s: "0 < s" "s \<le> ms_remaining st" using t(1) by (simp_all add: s_def)
    have b: "x * 10 ^ n \<le> 10 ^ 28" if "x \<le> ms_filled st + ms_remaining st" for x
      by (rule order_trans [OF mult_right_mono [OF that] Cons.prems(7)]) simp
    have f': "ms_filled st' = ms_filled st + s"
      using Cons.prems(3,6) g s b [of "ms_filled st + s"] dadd_grid [of n "ms_filled st" s]
      by (simp add: st'_def consume_level_def Let_def)
    have r': "ms_remaining st' = ms_remaining st - s"
      using Cons.prems(3,5) g s b [of "ms_remaining st - s"] dsub_grid [of n "ms_remaining st" s]
      by (simp add: st'_def consume_level_def Let_def)
    show ?thesis
    proof (cases "ms_remaining st' \<le> 0")
      case True
      then have "s = ms_remaining st" using r' s by simp
      moreover then have "ms_remaining st \<le> lv_size l" by (simp add: s_def min_def split: if_splits)
      ultimately show ?thesis
        using True 3 f' sum_sizes_nonneg [of "below_limit limit" ls] by (simp add: t(3) min_absorb1)
    next
      case False
      then have "s = lv_size l" using r' s by (simp add: s_def min_def split: if_splits)
      then show ?thesis
        using Cons.IH [OF srt, of st'] Cons.prems False 3 f' r' s g on_grid_add [of n "ms_filled st" s]
          on_grid_diff [of n "ms_remaining st" s]
        by (simp add: t(3) min_def)
    qed
  qed
qed

lemma match_sell_exact:
  assumes "0 \<le> shares" "shares * 10 ^ n \<le> 10 ^ 28" "on_grid n shares"
    and "\<forall>l \<in> set (ob_bids b). on_grid n (lv_size l)"
  shows "mr_filled_shares (match_taker_sell (Some b) shares limit)
      = min shares (sum_list (map lv_size (eligible_bids b limit)))
    \<and> mr_unfilled_size_shares (match_taker_sell (Some b) shares limit)
      = shares - mr_filled_shares (match_taker_sell (Some b) shares limit)
    \<and> list_all2 fits (mr_consumed_levels (match_taker_sell (Some b) shares limit))
        (take (length (mr_consumed_levels (match_taker_sell (Some b) shares limit))) (eligible_bids b limit))
    \<and> mr_gross_notional_usdc (match_taker_sell (Some b) shares limit)
      = dsum (map cl_notional_usdc (mr_consumed_levels (match_taker_sell (Some b) shares limit)))"
proof (cases "shares \<le> 0 \<or> ob_bids b = []")
  case True
  then show ?thesis
    using assms(1) sum_sizes_nonneg [of "below_limit limit" "sort_key (\<lambda>l. - lv_price l) (ob_bids b)"]
    by (auto simp: match_taker_sell_def)
next
  case False
  let ?ls = "sort_key (\<lambda>l. - lv_price l) (ob_bids b)"
  have z: "on_grid n 0" by (simp add: on_grid_def)
  note ex = sell_loop_exact [OF bids_below_sorted [of limit "ob_bids b"], of "match_start shares" n]
  note cf = sell_side.loop_conforms [of "match_start shares" limit, OF _ bids_below_sorted, of "ob_bids b"]
  show ?thesis
    using ex cf assms False z
    by (auto simp: match_taker_sell_def match_start_def dsum_def Let_def)
qed

text \<open>
  C34: On a grid of share sizes a paper sell fills exactly what the book can take: the smaller
  of the order and of the sizes of all bids at or above the limit; what is not filled is
  reported as unfilled; and the levels it consumes are those bids, best price first.
\<close>

theorem sell_fills_book:
  assumes "0 \<le> shares" "shares * 10 ^ n \<le> 10 ^ 28" "on_grid n shares"
    and "\<forall>l \<in> set (ob_bids b). on_grid n (lv_size l)"
  shows "mr_filled_shares (match_taker_sell (Some b) shares limit)
      = min shares (sum_list (map lv_size (eligible_bids b limit)))
    \<and> mr_unfilled_size_shares (match_taker_sell (Some b) shares limit)
      = shares - mr_filled_shares (match_taker_sell (Some b) shares limit)
    \<and> list_all2 fits (mr_consumed_levels (match_taker_sell (Some b) shares limit))
        (take (length (mr_consumed_levels (match_taker_sell (Some b) shares limit))) (eligible_bids b limit))
    \<and> mr_gross_notional_usdc (match_taker_sell (Some b) shares limit)
      = dsum (map cl_notional_usdc (mr_consumed_levels (match_taker_sell (Some b) shares limit)))"
  using match_sell_exact [OF assms] .

theorem sell_fills_book_witness:
  "mr_filled_shares (match_taker_sell (Some match_book) 25 (Some (3/10))) = 25
   \<and> mr_unfilled_size_shares (match_taker_sell (Some match_book) 25 (Some (2/5))) = 15"
proof -
  have g: "on_grid 6 25" "\<forall>l \<in> set (ob_bids match_book). on_grid 6 (lv_size l)" by code_simp+
  have "sum_list (map lv_size (eligible_bids match_book (Some (3/10)))) = 30"
      "sum_list (map lv_size (eligible_bids match_book (Some (2/5)))) = 10" by code_simp+
  then show ?thesis
    using sell_fills_book [OF _ _ g, of "Some (3/10)"] sell_fills_book [OF _ _ g, of "Some (2/5)"] by simp
qed

end
