(* ===== verification/Paper_Ledger.thy ===== *)
theory Paper_Ledger
  imports Paper_Match
begin

text \<open>
  \<open>app/paper/state.py\<close>: the books of the paper account. Times are microseconds since the
  epoch; the reading of the clock is the argument \<open>now\<close>. Decimals that the code stores as
  text in the record of a closed position are kept as decimals. The equity curve, which
  another task appends to, is left out.
\<close>

type_synonym price_history = "(int \<times> decimal) list"

record realized_trade =
  rt_token_id :: string
  rt_entry_at :: "int option"
  rt_exit_at :: int
  rt_holding :: "int option"
  rt_cost :: decimal
  rt_received_net :: decimal
  rt_realized_pnl :: decimal
  rt_max_unrealized_loss :: decimal
  rt_max_drawdown_pct :: decimal
  rt_price_history :: price_history
  rt_price_samples :: nat

record paper_ledger =
  lg_available_usdc :: decimal
  lg_positions :: "(string, decimal) dict"
  lg_cost_basis_usdc :: "(string, decimal) dict"
  lg_fees_accrued_usdc :: decimal
  lg_first_fill_at :: "(string, int) dict"
  lg_max_unrealized_loss :: "(string, decimal) dict"
  lg_realized_trades :: "realized_trade list"
  lg_position_price_history :: "(string, price_history) dict"
  lg_last_price_sample_at :: "(string, int) dict"

definition new_ledger :: paper_ledger where
  "new_ledger = \<lparr>lg_available_usdc = 0, lg_positions = [], lg_cost_basis_usdc = [],
     lg_fees_accrued_usdc = 0, lg_first_fill_at = [], lg_max_unrealized_loss = [],
     lg_realized_trades = [], lg_position_price_history = [], lg_last_price_sample_at = []\<rparr>"

definition position_for :: "paper_ledger \<Rightarrow> string \<Rightarrow> decimal" where
  "position_for l tok = dict_get_or (lg_positions l) tok 0"

definition cost_for :: "paper_ledger \<Rightarrow> string \<Rightarrow> decimal" where
  "cost_for l tok = dict_get_or (lg_cost_basis_usdc l) tok 0"

definition fund :: "paper_ledger \<Rightarrow> decimal \<Rightarrow> paper_ledger" where
  "fund l amount = l\<lparr>lg_available_usdc := dadd (lg_available_usdc l) amount\<rparr>"

definition sample_price :: "paper_ledger \<Rightarrow> int \<Rightarrow> string \<Rightarrow> decimal \<Rightarrow> paper_ledger" where
  "sample_price l now tok bid =
     (if (case dict_get (lg_last_price_sample_at l) tok of
            None \<Rightarrow> True | Some since \<Rightarrow> now - since \<ge> 5 * 1000000)
      then l\<lparr>lg_last_price_sample_at := dict_set (lg_last_price_sample_at l) tok now,
             lg_position_price_history := dict_set (lg_position_price_history l) tok
               (keep_last 240 (dict_get_or (lg_position_price_history l) tok [] @ [(now, bid)]))\<rparr>
      else l)"

definition observe_unrealized :: "paper_ledger \<Rightarrow> int \<Rightarrow> string \<Rightarrow> decimal \<Rightarrow> paper_ledger" where
  "observe_unrealized l now tok bid =
     (let shares = position_for l tok; cost = cost_for l tok
      in if shares \<le> 0 then l
         else let unrealized = dsub (dmul shares bid) cost;
                  prev = dict_get_or (lg_max_unrealized_loss l) tok 999999;
                  l1 = (if unrealized < prev
                        then l\<lparr>lg_max_unrealized_loss := dict_set (lg_max_unrealized_loss l) tok unrealized\<rparr>
                        else l)
              in sample_price l1 now tok bid)"

definition apply_buy_fill ::
  "paper_ledger \<Rightarrow> int \<Rightarrow> string \<Rightarrow> decimal \<Rightarrow> decimal \<Rightarrow> decimal \<Rightarrow> decimal \<Rightarrow> paper_ledger" where
  "apply_buy_fill l now tok spent filled fee_usdc fee_shares =
     (let l1 = l\<lparr>lg_available_usdc := dsub (lg_available_usdc l) spent\<rparr>;
          net0 = dsub filled fee_shares;
          net = (if net0 < 0 then 0 else net0);
          l2 = (if net > 0
                then l1\<lparr>lg_positions := dict_set (lg_positions l1) tok (dadd (position_for l1 tok) net),
                        lg_cost_basis_usdc := dict_set (lg_cost_basis_usdc l1) tok (dadd (cost_for l1 tok) spent)\<rparr>
                else l1);
          l3 = (if net > 0 \<and> dict_get (lg_first_fill_at l2) tok = None
                then l2\<lparr>lg_first_fill_at := dict_set (lg_first_fill_at l2) tok now,
                        lg_max_unrealized_loss := dict_set (lg_max_unrealized_loss l2) tok 0\<rparr>
                else l2)
      in l3\<lparr>lg_fees_accrued_usdc := dadd (lg_fees_accrued_usdc l3) fee_usdc\<rparr>)"

definition max_drawdown_pct :: "decimal \<Rightarrow> decimal \<Rightarrow> decimal result" where
  "max_drawdown_pct max_loss cost =
     (if cost > 0 then quantize_half_even 2 (dmul (ddiv max_loss cost) 100) else Inr 0)"

text \<open>
  The closing of a position. The statistics are taken out of the ledger before the record is
  built, so when the percentage does not fit the context the exception leaves the position
  without them.
\<close>

definition close_position ::
  "paper_ledger \<Rightarrow> int \<Rightarrow> string \<Rightarrow> decimal \<Rightarrow> decimal \<Rightarrow> decimal \<Rightarrow> paper_ledger \<times> unit result" where
  "close_position l now tok received fee cost =
     (let entry_at = dict_get (lg_first_fill_at l) tok;
          max_loss = dict_get_or (lg_max_unrealized_loss l) tok 0;
          history = dict_get_or (lg_position_price_history l) tok [];
          l1 = l\<lparr>lg_first_fill_at := dict_pop (lg_first_fill_at l) tok,
                 lg_max_unrealized_loss := dict_pop (lg_max_unrealized_loss l) tok,
                 lg_position_price_history := dict_pop (lg_position_price_history l) tok,
                 lg_last_price_sample_at := dict_pop (lg_last_price_sample_at l) tok\<rparr>
      in case max_drawdown_pct max_loss cost of
           Inl e \<Rightarrow> (l1, Inl e)
         | Inr pct \<Rightarrow>
             (l1\<lparr>lg_realized_trades := keep_last 1000 (lg_realized_trades l1 @
                   [\<lparr>rt_token_id = tok, rt_entry_at = entry_at, rt_exit_at = now,
                     rt_holding = map_option (\<lambda>e. now - e) entry_at,
                     rt_cost = cost, rt_received_net = dsub received fee,
                     rt_realized_pnl = dsub (dsub received fee) cost,
                     rt_max_unrealized_loss = max_loss, rt_max_drawdown_pct = pct,
                     rt_price_history = history, rt_price_samples = length history\<rparr>]),
                 lg_positions := dict_pop (lg_positions l1) tok,
                 lg_cost_basis_usdc := dict_pop (lg_cost_basis_usdc l1) tok\<rparr>, Inr ()))"

definition release_cost :: "paper_ledger \<Rightarrow> string \<Rightarrow> decimal \<Rightarrow> decimal \<Rightarrow> paper_ledger" where
  "release_cost l tok actual current =
     (let current_cost = cost_for l tok;
          consumed_ratio = min (ddiv actual current) 1;
          cost_released = dmul current_cost consumed_ratio;
          remaining_cost = dsub current_cost cost_released
      in l\<lparr>lg_cost_basis_usdc :=
             (if remaining_cost \<le> 0 then dict_pop (lg_cost_basis_usdc l) tok
              else dict_set (lg_cost_basis_usdc l) tok remaining_cost)\<rparr>)"

definition credit_sale :: "paper_ledger \<Rightarrow> decimal \<Rightarrow> decimal \<Rightarrow> paper_ledger" where
  "credit_sale l received fee =
     l\<lparr>lg_available_usdc := dadd (lg_available_usdc l) (dsub received fee),
       lg_fees_accrued_usdc := dadd (lg_fees_accrued_usdc l) fee\<rparr>"

definition apply_sell_fill ::
  "paper_ledger \<Rightarrow> int \<Rightarrow> string \<Rightarrow> decimal \<Rightarrow> decimal \<Rightarrow> decimal \<Rightarrow> paper_ledger \<times> unit result" where
  "apply_sell_fill l now tok received filled fee =
     (let current = position_for l tok
      in if current \<le> 0 \<or> filled \<le> 0 then (l, Inr ())
         else let actual_filled = min filled current;
                  ratio = ddiv actual_filled filled;
                  actual_received = dmul received ratio;
                  actual_fee = dmul fee ratio;
                  current_cost = cost_for l tok;
                  l1 = release_cost l tok actual_filled current;
                  new_position = dsub current actual_filled
              in if new_position \<le> 0
                 then case close_position l1 now tok actual_received actual_fee current_cost of
                        (l2, Inl e) \<Rightarrow> (l2, Inl e)
                      | (l2, Inr _) \<Rightarrow> (credit_sale l2 actual_received actual_fee, Inr ())
                 else (credit_sale (l1\<lparr>lg_positions := dict_set (lg_positions l1) tok new_position\<rparr>)
                         actual_received actual_fee, Inr ()))"

subsection \<open>Reachable ledgers\<close>

datatype ledger_op =
    Fund decimal
  | Observe int string decimal
  | BuyFill int string decimal decimal decimal decimal
  | SellFill int string decimal decimal decimal

text \<open>The fills the matching engine reports spend a positive amount.\<close>

fun ledger_op_ok :: "ledger_op \<Rightarrow> bool" where
  "ledger_op_ok (BuyFill now tok spent filled fee fee_shares) = (0 < spent)"
| "ledger_op_ok _ = True"

text \<open>An exception leaves the ledger as it stood when it was raised.\<close>

fun ledger_step :: "paper_ledger \<Rightarrow> ledger_op \<Rightarrow> paper_ledger" where
  "ledger_step l (Fund a) = fund l a"
| "ledger_step l (Observe now tok bid) = observe_unrealized l now tok bid"
| "ledger_step l (BuyFill now tok spent filled fee fee_shares) = apply_buy_fill l now tok spent filled fee fee_shares"
| "ledger_step l (SellFill now tok received filled fee) = fst (apply_sell_fill l now tok received filled fee)"

inductive ledger_reachable :: "paper_ledger \<Rightarrow> bool" where
  ledger_init: "ledger_reachable new_ledger"
| ledger_next: "ledger_reachable l \<Longrightarrow> ledger_op_ok op \<Longrightarrow> ledger_reachable (ledger_step l op)"

inductive_cases ledger_stepE: "ledger_reachable l"

definition ledger_ok :: "paper_ledger \<Rightarrow> bool" where
  "ledger_ok l \<longleftrightarrow>
     dict_all (\<lambda>x. 0 < x) (lg_positions l) \<and> dict_all (\<lambda>x. 0 < x) (lg_cost_basis_usdc l)
   \<and> dict_all (\<lambda>h. length h \<le> 240) (lg_position_price_history l)
   \<and> fst ` set (lg_cost_basis_usdc l) \<subseteq> fst ` set (lg_positions l)
   \<and> fst ` set (lg_first_fill_at l) \<subseteq> fst ` set (lg_positions l)
   \<and> fst ` set (lg_max_unrealized_loss l) \<subseteq> fst ` set (lg_positions l)
   \<and> fst ` set (lg_position_price_history l) \<subseteq> fst ` set (lg_positions l)
   \<and> fst ` set (lg_last_price_sample_at l) \<subseteq> fst ` set (lg_positions l)
   \<and> length (lg_realized_trades l) \<le> 1000"

lemmas dict_key_sets = dict_set_keys dict_pop_keys

lemma position_key: "position_for l tok \<noteq> 0 \<Longrightarrow> tok \<in> fst ` set (lg_positions l)"
  unfolding position_for_def by (rule dict_get_or_key)

lemma dict_all_pos_or: "dict_all (\<lambda>x. 0 < x) d \<Longrightarrow> 0 \<le> dict_get_or d k (0 :: rat)"
  using dict_all_get [of "\<lambda>x. 0 < x" d k] by (cases "dict_get d k") (auto simp: dict_get_or_def)

lemma ledger_ok_nonneg: "ledger_ok l \<Longrightarrow> 0 \<le> position_for l tok" "ledger_ok l \<Longrightarrow> 0 \<le> cost_for l tok"
  by (simp_all add: ledger_ok_def position_for_def cost_for_def dict_all_pos_or)

lemma ledger_ok_sample:
  assumes "ledger_ok l" "tok \<in> fst ` set (lg_positions l)"
  shows "ledger_ok (sample_price l now tok bid)"
  using assms unfolding ledger_ok_def sample_price_def
  by (auto simp: dict_key_sets length_keep_last)

lemma ledger_ok_observe:
  assumes "ledger_ok l" shows "ledger_ok (observe_unrealized l now tok bid)"
proof (cases "position_for l tok \<le> 0")
  case False
  then have k: "tok \<in> fst ` set (lg_positions l)" by (intro position_key) simp
  then have "ledger_ok (l\<lparr>lg_max_unrealized_loss := dict_set (lg_max_unrealized_loss l) tok u\<rparr>)" for u
    using assms unfolding ledger_ok_def by (simp add: dict_key_sets)
  then show ?thesis
    using assms False k ledger_ok_sample by (simp add: observe_unrealized_def Let_def)
qed (simp add: observe_unrealized_def assms)

lemma ledger_ok_buy: "ledger_ok l \<Longrightarrow> 0 < spent \<Longrightarrow> ledger_ok (apply_buy_fill l now tok spent filled fee fs)"
  using ledger_ok_nonneg [of l tok]
  by (auto simp: ledger_ok_def apply_buy_fill_def Let_def dict_key_sets position_for_def cost_for_def
      intro!: dict_all_set dadd_pos' split: option.splits)

lemma ledger_ok_release:
  "ledger_ok l \<Longrightarrow> position_for l tok \<noteq> 0 \<Longrightarrow> ledger_ok (release_cost l tok actual current)"
  using position_key [of l tok]
  by (auto simp: ledger_ok_def release_cost_def Let_def dict_key_sets)

lemma ledger_ok_close: "ledger_ok l \<Longrightarrow> ledger_ok (fst (close_position l now tok received fee cost))"
  by (auto simp: ledger_ok_def close_position_def Let_def dict_key_sets length_keep_last split: sum.splits)

lemma ledger_ok_credit: "ledger_ok l \<Longrightarrow> ledger_ok (credit_sale l received fee)"
  by (simp add: ledger_ok_def credit_sale_def)

lemma ledger_ok_reduce:
  "ledger_ok l \<Longrightarrow> 0 < n \<Longrightarrow> ledger_ok (l\<lparr>lg_positions := dict_set (lg_positions l) tok n\<rparr>)"
  by (auto simp: ledger_ok_def dict_key_sets)

lemma ledger_ok_sell: "ledger_ok l \<Longrightarrow> ledger_ok (fst (apply_sell_fill l now tok received filled fee))"
proof -
  assume ok: "ledger_ok l"
  have close: "ledger_ok l2" if "close_position l' now tok r f c = (l2, x)" "ledger_ok l'" for l' l2 r f c x
    using ledger_ok_close [OF that(2), of now tok r f c] that(1) by simp
  show ?thesis
  proof (cases "position_for l tok \<le> 0")
    case False
    then have rel: "ledger_ok (release_cost l tok a c)" for a c using ledger_ok_release [OF ok] by simp
    show ?thesis
      using ok rel ledger_ok_credit ledger_ok_reduce close [OF _ rel]
      by (auto simp: apply_sell_fill_def Let_def not_le split: prod.split sum.split)
  qed (simp add: apply_sell_fill_def ok)
qed

lemma ledger_ok_init: "ledger_ok new_ledger"
  by (simp add: ledger_ok_def new_ledger_def)

lemma ledger_reachable_ok: "ledger_reachable l \<Longrightarrow> ledger_ok l"
proof (induction rule: ledger_reachable.induct)
  case (ledger_next l op)
  then show ?case
    by (cases op) (simp_all add: ledger_ok_observe ledger_ok_buy ledger_ok_sell, simp add: ledger_ok_def fund_def)
qed (rule ledger_ok_init)

lemma unheld_key:
  assumes "ledger_ok l" "position_for l tok = 0" "fst ` set d \<subseteq> fst ` set (lg_positions l)"
  shows "dict_get d tok = None"
proof (rule ccontr)
  assume "dict_get d tok \<noteq> None"
  then have "tok \<in> fst ` set (lg_positions l)" using assms(3) dict_get_key [of d tok] by auto
  then obtain x where "dict_get (lg_positions l) tok = Some x"
    using weak_map_of_SomeI by (fastforce simp: dict_get_def)
  then show False
    using assms(1,2) dict_all_get [of "\<lambda>x. 0 < x" "lg_positions l" tok x]
    by (simp add: position_for_def dict_get_or_def ledger_ok_def)
qed

text \<open>
  C19: In every reachable paper ledger, also after a sell that raised, each held token has a
  positive number of shares and each recorded cost is positive; costs, entry times, deepest
  losses and price samples exist only for held tokens; and the two logs keep to their bounds
  of a thousand closed trades and 240 samples per position.
\<close>

theorem ledger_invariant:
  assumes "ledger_reachable l"
  shows "dict_all (\<lambda>x. 0 < x) (lg_positions l) \<and> dict_all (\<lambda>x. 0 < x) (lg_cost_basis_usdc l)
    \<and> (position_for l tok = 0 \<longrightarrow>
         cost_for l tok = 0 \<and> dict_get (lg_first_fill_at l) tok = None
       \<and> dict_get (lg_max_unrealized_loss l) tok = None \<and> dict_get (lg_position_price_history l) tok = None
       \<and> dict_get (lg_last_price_sample_at l) tok = None)
    \<and> length (lg_realized_trades l) \<le> 1000
    \<and> dict_all (\<lambda>h. length h \<le> 240) (lg_position_price_history l)"
proof -
  have ok: "ledger_ok l" using ledger_reachable_ok [OF assms] .
  note none = unheld_key [OF ok]
  have "dict_get (lg_cost_basis_usdc l) tok = None" if "position_for l tok = 0"
    using none [OF that, of "lg_cost_basis_usdc l"] ok by (simp add: ledger_ok_def)
  then show ?thesis
    using ok none [of tok "lg_first_fill_at l"] none [of tok "lg_max_unrealized_loss l"]
      none [of tok "lg_position_price_history l"] none [of tok "lg_last_price_sample_at l"]
    by (simp add: ledger_ok_def cost_for_def dict_get_or_def)
qed

definition demo_ledger :: paper_ledger where
  "demo_ledger = foldl ledger_step new_ledger [Fund 100, BuyFill 5 ''tok'' 50 100 0 0]"

lemma demo_ledger_reachable: "ledger_reachable demo_ledger"
proof -
  have "ledger_reachable (ledger_step (ledger_step new_ledger (Fund 100)) (BuyFill 5 ''tok'' 50 100 0 0))"
    by (rule ledger_next [OF ledger_next [OF ledger_init]]) simp_all
  then show ?thesis by (simp only: demo_ledger_def foldl.simps)
qed

theorem ledger_invariant_witness:
  "position_for demo_ledger ''tok'' = 100 \<and> dict_all (\<lambda>x. 0 < x) (lg_positions demo_ledger)
   \<and> cost_for demo_ledger ''other'' = 0"
proof -
  have "position_for demo_ledger ''tok'' = 100 \<and> position_for demo_ledger ''other'' = 0" by code_simp
  then show ?thesis
    using ledger_invariant [OF demo_ledger_reachable, of "''other''"] by blast
qed

lemma buy_fill_effects:
  "lg_available_usdc (apply_buy_fill l now tok spent filled fee fs) = dsub (lg_available_usdc l) spent"
  "position_for (apply_buy_fill l now tok spent filled fee fs) t
     = (if t = tok \<and> 0 < dsub filled fs then dadd (position_for l t) (dsub filled fs) else position_for l t)"
  by (simp_all add: apply_buy_fill_def Let_def position_for_def)

text \<open>What one sell does to a position and to the cash, whatever branch it takes.\<close>

lemma close_position_available:
  "lg_available_usdc (fst (close_position l now tok r f c)) = lg_available_usdc l"
  by (simp add: close_position_def Let_def split: sum.split)

lemma close_position_positions:
  "close_position l now tok r f c = (l', Inr u) \<Longrightarrow> lg_positions l' = dict_pop (lg_positions l) tok"
  by (auto simp: close_position_def Let_def split: sum.splits)

lemma release_cost_simps [simp]:
  "lg_positions (release_cost l tok a c) = lg_positions l"
  "lg_available_usdc (release_cost l tok a c) = lg_available_usdc l"
  by (simp_all add: release_cost_def Let_def)

lemma sell_fill_position:
  assumes "apply_sell_fill l now tok received filled fee = (l', Inr u)" "0 < filled" "0 \<le> position_for l tok"
  shows "position_for l' t =
    (if t \<noteq> tok then position_for l t
     else if position_for l tok \<le> filled then 0 else dsub (position_for l tok) filled)"
proof (cases "position_for l tok \<le> 0")
  case True
  then show ?thesis using assms by (auto simp: apply_sell_fill_def)
next
  case False
  then show ?thesis
    using assms(1,2)
    by (auto simp: apply_sell_fill_def Let_def min_def credit_sale_def position_for_def
        dest!: close_position_positions split: if_splits prod.splits sum.splits)
qed

lemma sell_fill_cash:
  assumes "apply_sell_fill l now tok received filled fee = (l', Inr u)"
    "0 < position_for l tok" "0 < filled"
  shows "lg_available_usdc l' = dadd (lg_available_usdc l)
    (let ratio = ddiv (min filled (position_for l tok)) filled in dsub (dmul received ratio) (dmul fee ratio))"
proof -
  have close: "lg_available_usdc l2 = lg_available_usdc l1" if "close_position l1 now tok r f c = (l2, x)" for l1 l2 r f c x
    using close_position_available [of l1 now tok r f c] that by simp
  show ?thesis
    using assms by (auto simp: apply_sell_fill_def Let_def credit_sale_def close split: if_splits prod.splits sum.splits)
qed

text \<open>
  A paper sell never sells short: without a position it changes nothing; with one it
  takes away the smaller of the sold shares and the position and touches no other token; and
  with no negative fee it credits no more than what the match received.
\<close>

lemma sell_fill_never_short:
  assumes "apply_sell_fill l now tok received filled fee = (l', Inr ())"
    and "0 \<le> received" "0 \<le> fee" "0 < filled" "0 \<le> position_for l tok" "dround received = received"
  shows "(position_for l tok = 0 \<longrightarrow> l' = l)
    \<and> position_for l' tok = (if position_for l tok \<le> filled then 0 else dsub (position_for l tok) filled)
    \<and> 0 \<le> position_for l' tok
    \<and> (t \<noteq> tok \<longrightarrow> position_for l' t = position_for l t)
    \<and> lg_available_usdc l' \<le> max (lg_available_usdc l) (dadd (lg_available_usdc l) received)"
proof -
  have p: "position_for l' t = (if t \<noteq> tok then position_for l t
      else if position_for l tok \<le> filled then 0 else dsub (position_for l tok) filled)" for t
    using sell_fill_position [OF assms(1,4,5)] .
  have same: "l' = l" if "position_for l tok = 0" using assms(1) that by (simp add: apply_sell_fill_def)
  have "lg_available_usdc l' \<le> dadd (lg_available_usdc l) received" if "0 < position_for l tok"
  proof -
    let ?r = "ddiv (min filled (position_for l tok)) filled"
    have r: "0 \<le> ?r" "?r \<le> 1" using that assms(4) by (auto intro: ddiv_le_1)
    then have "dmul received ?r \<le> received" using assms(2,6) by (intro dmul_le_left)
    moreover have "dsub (dmul received ?r) (dmul fee ?r) \<le> dmul received ?r"
      using r assms(3) by (intro dsub_le_left) (simp_all add: dmul_def dr.rnd_idem dr.rnd_nonneg)
    ultimately show ?thesis
      using sell_fill_cash [OF assms(1) that assms(4)] by (simp add: dadd_mono Let_def)
  qed
  then show ?thesis using p same assms(4,5) by (cases "position_for l tok = 0") auto
qed

lemma buy_new_position:
  fixes now :: int
  assumes "ledger_ok l" "position_for l tok = 0" "0 < shares" "dround shares = shares" "dround spent = spent"
  defines "l1 \<equiv> apply_buy_fill l now tok spent shares 0 0"
  shows "position_for l1 tok = shares" "cost_for l1 tok = spent"
    "lg_available_usdc l1 = dsub (lg_available_usdc l) spent"
    "dict_get (lg_first_fill_at l1) tok = Some now" "dict_get_or (lg_max_unrealized_loss l1) tok 0 = 0"
proof -
  have n: "dict_get (lg_cost_basis_usdc l) tok = None" "dict_get (lg_first_fill_at l) tok = None"
    using unheld_key [OF assms(1,2), of "lg_cost_basis_usdc l"]
      unheld_key [OF assms(1,2), of "lg_first_fill_at l"] assms(1) by (simp_all add: ledger_ok_def)
  then have "cost_for l tok = 0" by (simp add: cost_for_def dict_get_or_def)
  then show "position_for l1 tok = shares" "cost_for l1 tok = spent"
    "lg_available_usdc l1 = dsub (lg_available_usdc l) spent"
    "dict_get (lg_first_fill_at l1) tok = Some now" "dict_get_or (lg_max_unrealized_loss l1) tok 0 = 0"
    using n assms(2-5)
    by (simp_all add: l1_def apply_buy_fill_def Let_def dsub_def dadd_def position_for_def cost_for_def dict_get_set)
qed

lemma max_drawdown_pct_0 [simp]: "max_drawdown_pct 0 cost = Inr 0"
  by (simp add: max_drawdown_pct_def ddiv_def quantize_half_even_def even_places_def rhe_of_int [of 0, simplified])

lemma sell_all:
  assumes "position_for l tok = shares" "0 < shares" "cost_for l tok = cost" "dict_get_or (lg_max_unrealized_loss l) tok 0 = 0"
    "dround received = received" "dround cost = cost"
    "apply_sell_fill l later tok received shares 0 = (l', r)"
  shows "r = Inr ()" "lg_available_usdc l' = dadd (lg_available_usdc l) received"
    "position_for l' tok = 0" "cost_for l' tok = 0"
    "rt_realized_pnl (last (lg_realized_trades l')) = dsub received cost"
    "rt_holding (last (lg_realized_trades l')) = map_option (\<lambda>e. later - e) (dict_get (lg_first_fill_at l) tok)"
proof -
  have one: "ddiv shares shares = 1" using assms(2) by (simp add: ddiv_def)
  have k: "keep_last 1000 (xs @ [x]) = keep_last 999 xs @ [x]" for xs :: "realized_trade list" and x
    using last_keep_last [of 1000 xs x] by simp
  show "r = Inr ()" "lg_available_usdc l' = dadd (lg_available_usdc l) received"
    "position_for l' tok = 0" "cost_for l' tok = 0"
    "rt_realized_pnl (last (lg_realized_trades l')) = dsub received cost"
    "rt_holding (last (lg_realized_trades l')) = map_option (\<lambda>e. later - e) (dict_get (lg_first_fill_at l) tok)"
    using assms
    by (auto simp: apply_sell_fill_def Let_def one dmul_def dsub_def close_position_def release_cost_def
        credit_sale_def position_for_def cost_for_def k)
qed

text \<open>
  C35: Buying a token that is not held and selling the same shares for the same dollars, both
  without a fee, gives the cash back to the cent, leaves no position and no cost, and records
  one closed trade with a profit of zero.
\<close>

theorem buy_sell_roundtrip:
  assumes "ledger_ok l" "position_for l tok = 0"
    and "0 < spent" "on_grid 6 spent" "spent \<le> 10 ^ 12" "0 < shares" "dround shares = shares"
    and "on_grid 6 (lg_available_usdc l)" "\<bar>lg_available_usdc l\<bar> \<le> 10 ^ 12"
    and "apply_sell_fill (apply_buy_fill l now tok spent shares 0 0) later tok spent shares 0 = (l', r)"
  shows "r = Inr () \<and> lg_available_usdc l' = lg_available_usdc l
    \<and> position_for l' tok = 0 \<and> cost_for l' tok = 0
    \<and> rt_realized_pnl (last (lg_realized_trades l')) = 0
    \<and> rt_holding (last (lg_realized_trades l')) = Some (later - now)"
proof -
  have sp: "dround spent = spent" using assms(3-5) by (intro dround_grid_le [of 6 spent "10 ^ 12"]) simp_all
  note b = buy_new_position [OF assms(1,2,6,7) sp, of now]
  note s = sell_all [OF b(1) assms(6) b(2) b(5) sp sp assms(10)]
  have "dsub (lg_available_usdc l) spent = lg_available_usdc l - spent"
    using assms(3,4,5,8,9) by (intro dsub_grid [of 6]) auto
  moreover have "dadd (lg_available_usdc l - spent) spent = lg_available_usdc l"
    using assms(3,4,5,8,9) by (subst dadd_grid [of 6]) (auto intro: on_grid_diff)
  ultimately show ?thesis using s b(3,4) by (simp add: dsub_def)
qed

theorem buy_sell_roundtrip_witness:
  "lg_available_usdc (fst (apply_sell_fill (apply_buy_fill demo_ledger 9 ''b'' 7 10 0 0) 11 ''b'' 7 10 0)) = 50"
proof -
  have g: "on_grid 6 (7::rat)" "on_grid 6 (lg_available_usdc demo_ledger)" "lg_available_usdc demo_ledger = 50"
      "position_for demo_ledger ''b'' = 0" by code_simp+
  let ?e = "apply_sell_fill (apply_buy_fill demo_ledger 9 ''b'' 7 10 0 0) 11 ''b'' 7 10 0"
  have e: "?e = (fst ?e, snd ?e)" by simp
  show ?thesis
    using buy_sell_roundtrip [OF ledger_reachable_ok [OF demo_ledger_reachable] _ _ _ _ _ _ _ _ e] g by simp
qed

text \<open>
  The record of a position that was reduced before it was closed covers only its last
  slice: after a purchase for 50 dollars, a fall of the bid to 10 cents, and two sales at 90
  cents that bring in 90 dollars, the record reports a cost of 5 dollars and a profit of 4
  instead of 40, and a drawdown of 800 per cent of that cost.
\<close>

lemma partial_sale_record:
  "map (\<lambda>t. (rt_cost t, rt_received_net t, rt_realized_pnl t, rt_max_drawdown_pct t))
     (lg_realized_trades (foldl ledger_step demo_ledger
        [Observe 6 ''tok'' (1/10), SellFill 7 ''tok'' 81 90 0, SellFill 8 ''tok'' 9 10 0]))
   = [(5, 9, 4, - 800)]
   \<and> lg_available_usdc (foldl ledger_step demo_ledger
        [Observe 6 ''tok'' (1/10), SellFill 7 ''tok'' 81 90 0, SellFill 8 ''tok'' 9 10 0])
     = lg_available_usdc demo_ledger + 90"
  by code_simp

end
