(* ===== verification/Paper_Fill.thy ===== *)
theory Paper_Fill
  imports Fees Execution_Types Paper_Ledger
begin

text \<open>
  \<open>app/paper/fill_engine.py\<close> and \<open>app/paper/client.py\<close>: the submission of one order to
  the paper exchange (match, fees level by level, ledger, response) and the order client that
  the executor calls. The raw response is audit data and is left out. An exception is the value \<open>Inl\<close>, beside the ledger as it
  stood when it was raised.
\<close>

record simulation_outcome =
  so_response :: execution_response
  so_match_result :: "match_result option"
  so_fee_quote :: "fee_quote option"

definition passthrough_response :: "order_result_status \<Rightarrow> string \<Rightarrow> simulation_outcome" where
  "passthrough_response status reason =
     \<lparr>so_response = plain_response status reason, so_match_result = None, so_fee_quote = None\<rparr>"

definition decimal_or_zero :: "decimal option \<Rightarrow> decimal" where
  "decimal_or_zero v = or_default v 0"

subsection \<open>Fees, level by level\<close>

record fee_totals =
  ft_usdc :: decimal
  ft_shares :: decimal
  ft_has_share_fee :: bool
  ft_rate :: int

fun aggregate_fee_loop ::
  "string \<Rightarrow> int option \<Rightarrow> bool option \<Rightarrow> price_source \<Rightarrow> fee_totals \<Rightarrow> consumed_level list \<Rightarrow> fee_totals result" where
  "aggregate_fee_loop side rate enabled src t [] = Inr t"
| "aggregate_fee_loop side rate enabled src t (c # cs) =
     bind_result (calculate_trade_fee (cl_price c) (cl_shares c) side rate enabled ''taker'' (Some src)) (\<lambda>q.
       aggregate_fee_loop side rate enabled src
         \<lparr>ft_usdc = dadd (ft_usdc t) (fq_fee_usdc q),
          ft_shares = (case fq_fee_shares q of None \<Rightarrow> ft_shares t | Some s \<Rightarrow> dadd (ft_shares t) s),
          ft_has_share_fee = (ft_has_share_fee t \<or> fq_fee_shares q \<noteq> None),
          ft_rate = fq_fee_rate_bps q\<rparr> cs)"

definition aggregate_fees ::
  "match_result \<Rightarrow> trade_side \<Rightarrow> int option \<Rightarrow> bool option \<Rightarrow> price_source \<Rightarrow> fee_quote result" where
  "aggregate_fees m sd rate enabled src =
     bind_result (aggregate_fee_loop (if sd = Side_Buy then ''buy'' else ''sell'') rate enabled src
         \<lparr>ft_usdc = 0, ft_shares = 0, ft_has_share_fee = False, ft_rate = 0\<rparr> (mr_consumed_levels m)) (\<lambda>t.
       Inr \<lparr>fq_price = or_default (mr_avg_price m) 0, fq_size_shares = mr_filled_shares m,
            fq_fee_rate_bps = ft_rate t, fq_fee_usdc = ft_usdc t,
            fq_fee_shares = (if ft_has_share_fee t then Some (ft_shares t) else None),
            fq_charged_in = (if sd = Side_Buy then In_Shares else In_Usdc), fq_side = sd,
            fq_liquidity_role = Taker, fq_price_source = Some src\<rparr>)"

definition market_fees_enabled :: "market option \<Rightarrow> bool option" where
  "market_fees_enabled market = (case market of None \<Rightarrow> None | Some m \<Rightarrow> mk_fees_enabled m)"

subsection \<open>The two sides\<close>

definition fill_response ::
  "order_result_status \<Rightarrow> string \<Rightarrow> string option \<Rightarrow> decimal \<Rightarrow> decimal \<Rightarrow> decimal \<Rightarrow> string \<Rightarrow> execution_response" where
  "fill_response status order_id trade_id matched remaining spent reason =
     (plain_response status reason)\<lparr>rp_order_id := Some order_id, rp_trade_id := trade_id,
        rp_matched_shares := Some matched, rp_remaining_shares := Some remaining,
        rp_spent_usdc := Some spent\<rparr>"

definition simulate_buy ::
  "execution_request \<Rightarrow> int \<Rightarrow> market option \<Rightarrow> book option \<Rightarrow> paper_ledger
   \<Rightarrow> paper_ledger \<times> simulation_outcome result" where
  "simulate_buy request now market orderbook ledger =
     (let amount = decimal_or_zero (er_amount_usdc request);
          trace = er_trace_id request
      in if amount \<le> 0 then (ledger, Inr (passthrough_response REJECTED ''paper_buy_zero_amount''))
         else let m = match_taker_buy orderbook amount (er_price request)
              in if \<not> is_filled m
                 then (ledger, Inr \<lparr>so_response = fill_response NO_FILL (''paper-buy-nofill-'' @ trace) None 0 0 0
                                     ''paper_buy_no_liquidity'',
                                   so_match_result = Some m, so_fee_quote = None\<rparr>)
                 else case aggregate_fees m Side_Buy (resolve_taker_fee_rate_bps market)
                             (market_fees_enabled market) From_Best_Ask of
                        Inl e \<Rightarrow> (ledger, Inl e)
                      | Inr q \<Rightarrow>
                          let ledger' = apply_buy_fill ledger now (er_token_id request) (mr_gross_notional_usdc m)
                                (mr_filled_shares m) (fq_fee_usdc q) (or_default (fq_fee_shares q) 0);
                              status = (if is_full_fill m then FULL_FILL else PARTIAL_FILL)
                          in (ledger', Inr \<lparr>so_response = fill_response status (''paper-buy-'' @ trace)
                                (Some (''paper-trade-'' @ trace)) (mr_filled_shares m) 0 (mr_gross_notional_usdc m)
                                (if status = FULL_FILL then ''paper_buy_full_fill'' else ''paper_buy_partial_fill''),
                              so_match_result = Some m, so_fee_quote = Some q\<rparr>))"

definition simulate_sell ::
  "execution_request \<Rightarrow> int \<Rightarrow> market option \<Rightarrow> book option \<Rightarrow> paper_ledger
   \<Rightarrow> paper_ledger \<times> simulation_outcome result" where
  "simulate_sell request now market orderbook ledger =
     (let shares = decimal_or_zero (er_size_shares request);
          trace = er_trace_id request
      in if shares \<le> 0 then (ledger, Inr (passthrough_response REJECTED ''paper_sell_zero_size''))
         else let m = match_taker_sell orderbook shares (er_price request)
              in if \<not> is_filled m
                 then (ledger, Inr \<lparr>so_response =
                         (if er_order_type request = Some GTC
                          then fill_response LIVE (''paper-sell-live-'' @ trace) None 0 shares 0
                                 ''paper_sell_live_awaiting_bid''
                          else fill_response NO_FILL (''paper-sell-nofill-'' @ trace) None 0 shares 0
                                 ''paper_sell_no_liquidity''),
                       so_match_result = Some m, so_fee_quote = None\<rparr>)
                 else case aggregate_fees m Side_Sell (resolve_taker_fee_rate_bps market)
                             (market_fees_enabled market) From_Best_Bid of
                        Inl e \<Rightarrow> (ledger, Inl e)
                      | Inr q \<Rightarrow>
                          case apply_sell_fill ledger now (er_token_id request) (mr_gross_notional_usdc m)
                                 (mr_filled_shares m) (fq_fee_usdc q) of
                            (ledger', Inl e) \<Rightarrow> (ledger', Inl e)
                          | (ledger', Inr _) \<Rightarrow>
                              let status = (if is_full_fill m then FULL_FILL else PARTIAL_FILL)
                              in (ledger', Inr \<lparr>so_response = fill_response status (''paper-sell-'' @ trace)
                                    (Some (''paper-sell-trade-'' @ trace)) (mr_filled_shares m)
                                    (mr_unfilled_size_shares m) (mr_gross_notional_usdc m)
                                    (if status = FULL_FILL then ''paper_sell_full_fill'' else ''paper_sell_partial_fill''),
                                  so_match_result = Some m, so_fee_quote = Some q\<rparr>))"

definition simulate_fill ::
  "execution_request \<Rightarrow> int \<Rightarrow> market option \<Rightarrow> book option \<Rightarrow> paper_ledger
   \<Rightarrow> paper_ledger \<times> simulation_outcome result" where
  "simulate_fill request now market orderbook ledger =
     (if er_action request \<noteq> ''submit''
      then (ledger, Inr (passthrough_response UNKNOWN_TIMEOUT
              (''paper_simulate_unsupported_action_'' @ er_action request)))
      else case er_side request of
             Some BUY \<Rightarrow> simulate_buy request now market orderbook ledger
           | Some SELL \<Rightarrow> simulate_sell request now market orderbook ledger
           | None \<Rightarrow> (ledger, Inr (passthrough_response LIVE ''paper_simulate_replace_no_side_treat_as_resting'')))"

subsection \<open>The order client\<close>

text \<open>
  The lookups of markets and order books and the signing client are handed in by the caller;
  they are parameters here, the signing client an optional one that may raise.
\<close>

record paper_client =
  pc_requests :: "(string \<times> execution_request) list"
  pc_simulations :: "(string \<times> simulation_outcome) list"
  pc_ledger :: paper_ledger

definition new_paper_client :: "paper_ledger option \<Rightarrow> paper_client" where
  "new_paper_client ledger =
     \<lparr>pc_requests = [], pc_simulations = [], pc_ledger = or_default ledger new_ledger\<rparr>"

definition signing_source :: "'s option \<Rightarrow> string" where
  "signing_source sign = (case sign of None \<Rightarrow> ''paper_fallback'' | Some _ \<Rightarrow> ''real_trading_client'')"

definition log_request :: "paper_client \<Rightarrow> string \<Rightarrow> execution_request \<Rightarrow> paper_client" where
  "log_request c kind r = c\<lparr>pc_requests := pc_requests c @ [(kind, r)]\<rparr>"

definition sign_order ::
  "(execution_request \<Rightarrow> execution_response result) option \<Rightarrow> paper_client \<Rightarrow> execution_request
   \<Rightarrow> paper_client \<times> execution_response result" where
  "sign_order sign c r =
     (log_request c ''sign'' r,
      case sign of
        Some f \<Rightarrow> f r
      | None \<Rightarrow> Inr ((plain_response LIVE ''paper_signed_without_live_trading_client'')
                       \<lparr>rp_status := Some (Text_Status ''signed'')\<rparr>))"

definition run_simulation ::
  "(string \<Rightarrow> market option) \<Rightarrow> (string \<Rightarrow> book option) \<Rightarrow> paper_client \<Rightarrow> int \<Rightarrow> string \<Rightarrow> execution_request
   \<Rightarrow> paper_client \<times> execution_response result" where
  "run_simulation market_lookup orderbook_lookup c now trace r =
     (case simulate_fill r now (market_lookup (er_token_id r)) (orderbook_lookup (er_token_id r)) (pc_ledger c) of
        (ledger, Inl e) \<Rightarrow> (c\<lparr>pc_ledger := ledger\<rparr>, Inl e)
      | (ledger, Inr outcome) \<Rightarrow>
          (c\<lparr>pc_ledger := ledger, pc_simulations := pc_simulations c @ [(trace, outcome)]\<rparr>,
           Inr (so_response outcome)))"

definition submit_order ::
  "(string \<Rightarrow> market option) \<Rightarrow> (string \<Rightarrow> book option) \<Rightarrow> paper_client \<Rightarrow> int \<Rightarrow> execution_request
   \<Rightarrow> paper_client \<times> execution_response result" where
  "submit_order market_lookup orderbook_lookup c now r =
     run_simulation market_lookup orderbook_lookup (log_request c ''submit'' r) now (er_trace_id r) r"

definition cancel_order :: "paper_client \<Rightarrow> execution_request \<Rightarrow> paper_client \<times> execution_response" where
  "cancel_order c r =
     (log_request c ''cancel'' r, (plain_response CANCELLED ''paper_cancelled'')\<lparr>rp_order_id := er_order_id r\<rparr>)"

definition replace_as_submit :: "execution_request \<Rightarrow> execution_request" where
  "replace_as_submit r = r\<lparr>er_action := ''submit'', er_price := or_else (er_new_price r) (er_price r),
     er_new_price := None\<rparr>"

definition replace_order ::
  "(string \<Rightarrow> market option) \<Rightarrow> (string \<Rightarrow> book option) \<Rightarrow> paper_client \<Rightarrow> int \<Rightarrow> execution_request
   \<Rightarrow> paper_client \<times> execution_response result" where
  "replace_order market_lookup orderbook_lookup c now r =
     run_simulation market_lookup orderbook_lookup (log_request c ''replace'' r) now (er_trace_id r)
       (replace_as_submit r)"

subsection \<open>What a submission does\<close>

lemma simulate_buy_cases:
  assumes "simulate_buy r now mk ob l = (l', Inr out)"
  obtains (unfilled) "l' = l" "or_default (rp_spent_usdc (so_response out)) 0 = 0"
      "or_default (rp_matched_shares (so_response out)) 0 = 0" "so_fee_quote out = None"
      "rp_status (so_response out) \<in> {Some (Result_Status REJECTED), Some (Result_Status NO_FILL)}"
  | (filled) m q where "m = match_taker_buy ob (decimal_or_zero (er_amount_usdc r)) (er_price r)" "is_filled m"
      "0 < decimal_or_zero (er_amount_usdc r)"
      "l' = apply_buy_fill l now (er_token_id r) (mr_gross_notional_usdc m) (mr_filled_shares m)
              (fq_fee_usdc q) (or_default (fq_fee_shares q) 0)"
      "rp_spent_usdc (so_response out) = Some (mr_gross_notional_usdc m)"
      "rp_matched_shares (so_response out) = Some (mr_filled_shares m)"
      "so_fee_quote out = Some q"
      "rp_status (so_response out) = Some (Result_Status (if is_full_fill m then FULL_FILL else PARTIAL_FILL))"
proof -
  let ?m = "match_taker_buy ob (decimal_or_zero (er_amount_usdc r)) (er_price r)"
  consider (zero) "decimal_or_zero (er_amount_usdc r) \<le> 0"
    | (none) "0 < decimal_or_zero (er_amount_usdc r)" "\<not> is_filled ?m"
    | (some) "0 < decimal_or_zero (er_amount_usdc r)" "is_filled ?m" by linarith
  then show thesis
  proof cases
    case zero
    then show thesis using assms unfilled
      by (auto simp: simulate_buy_def Let_def passthrough_response_def plain_response_def)
  next
    case none
    then show thesis using assms unfilled
      by (auto simp: simulate_buy_def Let_def fill_response_def plain_response_def)
  next
    case some
    then have "\<exists>q. l' = apply_buy_fill l now (er_token_id r) (mr_gross_notional_usdc ?m) (mr_filled_shares ?m)
              (fq_fee_usdc q) (or_default (fq_fee_shares q) 0)
        \<and> rp_spent_usdc (so_response out) = Some (mr_gross_notional_usdc ?m)
        \<and> rp_matched_shares (so_response out) = Some (mr_filled_shares ?m)
        \<and> so_fee_quote out = Some q
        \<and> rp_status (so_response out) = Some (Result_Status (if is_full_fill ?m then FULL_FILL else PARTIAL_FILL))"
      using assms
      by (auto simp: simulate_buy_def Let_def fill_response_def plain_response_def split: sum.splits)
    then show thesis using filled [OF refl] some by blast
  qed
qed

lemma simulate_sell_cases:
  assumes "simulate_sell r now mk ob l = (l', Inr out)"
  obtains (unfilled) "l' = l" "\<not> is_filled (match_taker_sell ob (decimal_or_zero (er_size_shares r)) (er_price r))
        \<or> decimal_or_zero (er_size_shares r) \<le> 0"
  | (filled) m and q :: fee_quote where "m = match_taker_sell ob (decimal_or_zero (er_size_shares r)) (er_price r)" "is_filled m"
      "0 < decimal_or_zero (er_size_shares r)"
      "apply_sell_fill l now (er_token_id r) (mr_gross_notional_usdc m) (mr_filled_shares m) (fq_fee_usdc q)
        = (l', Inr ())"
      "rp_matched_shares (so_response out) = Some (mr_filled_shares m)"
      "rp_status (so_response out) = Some (Result_Status (if is_full_fill m then FULL_FILL else PARTIAL_FILL))"
proof -
  let ?m = "match_taker_sell ob (decimal_or_zero (er_size_shares r)) (er_price r)"
  consider (zero) "decimal_or_zero (er_size_shares r) \<le> 0"
    | (none) "0 < decimal_or_zero (er_size_shares r)" "\<not> is_filled ?m"
    | (some) "0 < decimal_or_zero (er_size_shares r)" "is_filled ?m" by linarith
  then show thesis
  proof cases
    case zero
    then show thesis using assms unfilled by (auto simp: simulate_sell_def Let_def)
  next
    case none
    then show thesis using assms unfilled by (auto simp: simulate_sell_def Let_def)
  next
    case some
    let ?fees = "aggregate_fees ?m Side_Sell (resolve_taker_fee_rate_bps mk) (market_fees_enabled mk) From_Best_Bid"
    obtain q :: fee_quote where q: "?fees = Inr q"
      using assms some by (cases ?fees) (auto simp: simulate_sell_def Let_def)
    let ?app = "apply_sell_fill l now (er_token_id r) (mr_gross_notional_usdc ?m) (mr_filled_shares ?m) (fq_fee_usdc q)"
    obtain l2 x where app: "?app = (l2, x)" by (cases ?app)
    have "x = Inr () \<and> l2 = l'"
      using assms some q app by (cases x) (auto simp: simulate_sell_def Let_def)
    then show thesis
      using assms some q app filled [OF refl, of q]
      by (auto simp: simulate_sell_def Let_def fill_response_def plain_response_def)
  qed
qed

text \<open>
  A paper submission changes the ledger only when it reports a fill: every other answer
  (rejected, unfilled, resting, unsupported action) leaves the ledger as it was.
\<close>

lemma paper_unfilled_keeps_ledger:
  assumes "simulate_fill r now mk ob l = (l', Inr out)"
  shows "rp_status (so_response out) \<in> {Some (Result_Status FULL_FILL), Some (Result_Status PARTIAL_FILL)}
    \<or> l' = l"
proof (cases "er_action r = ''submit''")
  case False
  then show ?thesis using assms by (simp add: simulate_fill_def)
next
  case True
  consider "er_side r = None" | "simulate_buy r now mk ob l = (l', Inr out)"
    | "simulate_sell r now mk ob l = (l', Inr out)"
    using assms True by (auto simp: simulate_fill_def split: option.splits order_side.splits)
  then show ?thesis
  proof cases
    case 1
    then show ?thesis using assms True by (simp add: simulate_fill_def)
  next
    case 2
    then show ?thesis by (cases rule: simulate_buy_cases) auto
  next
    case 3
    then show ?thesis by (cases rule: simulate_sell_cases) auto
  qed
qed

text \<open>
  The response to a paper buy and the ledger agree: the cash falls by exactly the dollars
  reported as spent, the position of the token grows by the matched shares less the fee taken
  in shares, no other token changes, and the dollars spent stay within the amount of the
  order, up to the rounding of the match.
\<close>

lemma paper_buy_settles:
  assumes "simulate_fill r now mk (Some b) l = (l', Inr out)"
    and "er_action r = ''submit''" "er_side r = Some BUY" "dround (lg_available_usdc l) = lg_available_usdc l"
  shows "lg_available_usdc l' = dsub (lg_available_usdc l) (or_default (rp_spent_usdc (so_response out)) 0)
    \<and> (let fee_shares = (case so_fee_quote out of None \<Rightarrow> 0 | Some q \<Rightarrow> or_default (fq_fee_shares q) 0);
           net = dsub (or_default (rp_matched_shares (so_response out)) 0) fee_shares
       in position_for l' t = (if t = er_token_id r \<and> 0 < net
            then dadd (position_for l t) net else position_for l t))
    \<and> or_default (rp_spent_usdc (so_response out)) 0
        \<le> max 0 (decimal_or_zero (er_amount_usdc r)) * (1 + dec_rel) ^ (length (ob_asks b) + 2)"
proof -
  have buy: "simulate_buy r now mk (Some b) l = (l', Inr out)" using assms(1-3) by (simp add: simulate_fill_def)
  let ?a = "decimal_or_zero (er_amount_usdc r)"
  have z: "dsub x 0 = x" if "dround x = x" for x using that by (simp add: dsub_def)
  show ?thesis
    using buy
  proof (cases rule: simulate_buy_cases)
    case unfilled
    have "0 \<le> max 0 ?a * (1 + dec_rel) ^ (length (ob_asks b) + 2)" by (simp add: less_imp_le)
    then show ?thesis using unfilled assms(4) by (simp add: z)
  next
    case (filled m q)
    have a: "0 \<le> ?a" using filled(3) by simp
    have "0 \<le> mr_unfilled_amount_usdc (match_taker_buy (Some b) ?a (er_price r))"
      by (auto simp: match_taker_buy_def Let_def)
    then have "mr_gross_notional_usdc m \<le> ?a * (1 + dec_rel) ^ (length (ob_asks b) + 2)"
      using match_buy_conserves [OF a, of b "er_price r"] unfolding filled(1) by linarith
    moreover have "max 0 ?a = ?a" using a by simp
    ultimately show ?thesis
      using filled(4-7) by (simp add: buy_fill_effects)
  qed
qed

definition demo_request :: "order_side \<Rightarrow> order_type \<Rightarrow> decimal \<Rightarrow> execution_request" where
  "demo_request sd ty n = \<lparr>er_action = ''submit'', er_trace_id = ''t'', er_idempotency_key = ''k'',
     er_condition_id = ''c'', er_token_id = ''tok'', er_market_slug = None, er_side = Some sd,
     er_order_type = Some ty, er_price = None, er_amount_usdc = Some n, er_size_shares = Some n,
     er_order_id = None, er_new_price = None, er_post_only = False, er_reason = ''r''\<rparr>"

text \<open>
  A paper sell of a token that is not held is reported as a full fill, although the
  ledger ignores it: whenever the bids can take the order, the answer is FULL_FILL with all
  shares matched, and neither the cash nor any position changes.
\<close>

lemma paper_sell_unheld:
  assumes "simulate_fill r now mk (Some b) l = (l', Inr out)"
    and "er_action r = ''submit''" "er_side r = Some SELL" "er_size_shares r = Some n"
    and "0 < n" "n * 10 ^ 6 \<le> 10 ^ 28" "on_grid 6 n" "\<forall>lv \<in> set (ob_bids b). on_grid 6 (lv_size lv)"
    and "n \<le> sum_list (map lv_size (eligible_bids b (er_price r)))"
    and "position_for l (er_token_id r) = 0"
  shows "rp_status (so_response out) = Some (Result_Status FULL_FILL)
    \<and> rp_matched_shares (so_response out) = Some n \<and> l' = l"
proof -
  have sell: "simulate_sell r now mk (Some b) l = (l', Inr out)" using assms(1-3) by (simp add: simulate_fill_def)
  have n: "decimal_or_zero (er_size_shares r) = n" using assms(4) by (simp add: decimal_or_zero_def)
  have m: "mr_filled_shares (match_taker_sell (Some b) n (er_price r)) = n"
      "mr_unfilled_size_shares (match_taker_sell (Some b) n (er_price r)) = 0"
    using match_sell_exact [of n 6 b "er_price r"] assms(5-9) by (simp_all add: min_absorb1)
  have u: "mr_unfilled_amount_usdc (match_taker_sell (Some b) n (er_price r)) = 0"
    by (simp add: match_taker_sell_def Let_def)
  show ?thesis
    using sell
  proof (cases rule: simulate_sell_cases)
    case unfilled
    then show ?thesis using m(1) n assms(5) by (simp add: is_filled_def)
  next
    case (filled m' q)
    have "l' = l" using filled(4) assms(10) by (simp add: apply_sell_fill_def)
    moreover have "is_full_fill m'" "mr_filled_shares m' = n"
      using filled(1) n m u assms(5) by (simp_all add: is_full_fill_def is_filled_def)
    ultimately show ?thesis using filled(5,6) by simp
  qed
qed

definition deep_book :: book where
  "deep_book = match_book\<lparr>ob_asks := [lv (3/10) 1000]\<rparr>"

text \<open>
  A buy that one deep ask could fill completely is reported as partial: at 30 cents a
  dollar buys 3.333 shares, whose price rounds to 28 nines, and the remainder of \<open>1E-28\<close>
  dollars keeps the order from counting as filled. Three dollars leave no remainder.
\<close>

lemma paper_buy_residue:
  "mr_unfilled_amount_usdc (match_taker_buy (Some deep_book) 1 None) = 1 / 10 ^ 28
   \<and> is_full_fill (match_taker_buy (Some deep_book) 3 None)
   \<and> (case snd (simulate_fill (demo_request BUY FAK 1) 6 None (Some deep_book) demo_ledger) of
        Inl e \<Rightarrow> False | Inr out \<Rightarrow> rp_status (so_response out) = Some (Result_Status PARTIAL_FILL))"
proof (intro conjI)
  show "mr_unfilled_amount_usdc (match_taker_buy (Some deep_book) 1 None) = 1 / 10 ^ 28" by code_simp
  show "is_full_fill (match_taker_buy (Some deep_book) 3 None)" by code_simp
  show "case snd (simulate_fill (demo_request BUY FAK 1) 6 None (Some deep_book) demo_ledger) of
        Inl e \<Rightarrow> False | Inr out \<Rightarrow> rp_status (so_response out) = Some (Result_Status PARTIAL_FILL)"
    by code_simp
qed

text \<open>
  Replacing an order is submitting it again at its new price: the answer, the ledger and
  the recorded simulation are those of the submission, and only the kind of the logged
  request differs.
\<close>

lemma replace_is_submit:
  "snd (replace_order ml ol c now r) = snd (submit_order ml ol c now (replace_as_submit r))
   \<and> pc_ledger (fst (replace_order ml ol c now r)) = pc_ledger (fst (submit_order ml ol c now (replace_as_submit r)))
   \<and> pc_simulations (fst (replace_order ml ol c now r))
       = pc_simulations (fst (submit_order ml ol c now (replace_as_submit r)))
   \<and> pc_requests (fst (replace_order ml ol c now r)) = pc_requests c @ [(''replace'', r)]"
proof -
  have t: "er_trace_id (replace_as_submit r) = er_trace_id r" by (simp add: replace_as_submit_def)
  let ?q = "replace_as_submit r"
  obtain l x where sim: "simulate_fill ?q now (ml (er_token_id ?q)) (ol (er_token_id ?q)) (pc_ledger c) = (l, x)"
    by (cases "simulate_fill ?q now (ml (er_token_id ?q)) (ol (er_token_id ?q)) (pc_ledger c)")
  show ?thesis
    by (cases x) (simp_all add: replace_order_def submit_order_def run_simulation_def log_request_def t sim)
qed

end
