(* ===== verification/Order_Executor.thy ===== *)
theory Order_Executor
  imports Order_Result Paper_Fill
begin

text \<open>
  \<open>infra/polymarket/order_executor.py\<close>: the only component that submits, cancels and replaces
  orders. Its state is the idempotency index, the completed results (oldest first), the tasks in
  flight and the conditions whose last submit timed out, with the time their window closes.

  The order client is an interface: a record of two functions over a client state, which answer,
  time out or raise. A coroutine that runs to its next completion is one function on the executor
  state; how the calls interleave is the relation \<open>executor_reachable\<close>. The text form of a
  decimal is the argument \<open>dstr\<close>. The latency gauges, the logging and the payload of the
  published events beyond their type, key, reason, order and status are left out.
\<close>

subsection \<open>Requests\<close>

definition request_idempotency_key ::
  "(decimal \<Rightarrow> string) \<Rightarrow> execution_request \<Rightarrow> string option \<Rightarrow> string" where
  "request_idempotency_key dstr r idempotency_key =
     (if idempotency_key \<noteq> None \<and> idempotency_key \<noteq> Some [] then the idempotency_key
      else join_with '':''
        [er_action r, er_trace_id r, er_condition_id r, er_token_id r,
         opt_text side_value (er_side r), opt_text order_type_value (er_order_type r),
         opt_text dstr (er_price r), opt_text dstr (er_amount_usdc r), opt_text dstr (er_size_shares r),
         opt_text id (er_order_id r), opt_text dstr (er_new_price r), bool_digit (er_post_only r)])"

definition with_key :: "(decimal \<Rightarrow> string) \<Rightarrow> execution_request \<Rightarrow> string option \<Rightarrow> execution_request" where
  "with_key dstr r idempotency_key = r\<lparr>er_idempotency_key := request_idempotency_key dstr r idempotency_key\<rparr>"

definition build_submit_request :: "(decimal \<Rightarrow> string) \<Rightarrow> order_intent \<Rightarrow> execution_request" where
  "build_submit_request dstr i = with_key dstr
     ((new_request ''submit'' (intent_trace_id i) [] (intent_condition_id i) (intent_token_id i))
        \<lparr>er_market_slug := intent_market_slug i, er_side := Some (intent_side i),
         er_order_type := Some (intent_order_type i), er_price := Some (intent_price i),
         er_amount_usdc := intent_amount_usdc i, er_size_shares := intent_size_shares i,
         er_post_only := intent_post_only i\<rparr>) (intent_idempotency_key i)"

definition build_cancel_request :: "(decimal \<Rightarrow> string) \<Rightarrow> cancel_intent \<Rightarrow> execution_request" where
  "build_cancel_request dstr i = with_key dstr
     ((new_request ''cancel'' (ci_trace_id i) [] (ci_condition_id i) (ci_token_id i))
        \<lparr>er_market_slug := ci_market_slug i, er_order_id := Some (ci_order_id i),
         er_reason := ci_reason i\<rparr>) (ci_idempotency_key i)"

text \<open>The key of a replacement is built without the side, which is added afterwards.\<close>

definition build_replace_request :: "(decimal \<Rightarrow> string) \<Rightarrow> replace_intent \<Rightarrow> execution_request" where
  "build_replace_request dstr i = (with_key dstr
     ((new_request ''replace'' (ri_trace_id i) [] (ri_condition_id i) (ri_token_id i))
        \<lparr>er_market_slug := ri_market_slug i, er_order_id := Some (ri_order_id i),
         er_new_price := Some (ri_new_price i), er_size_shares := Some (ri_size_shares i),
         er_reason := ri_reason i\<rparr>) (ri_idempotency_key i))\<lparr>er_side := ri_side i\<rparr>"

subsection \<open>The state\<close>

record idempotency_entry =
  ie_signature :: string
  ie_result :: "order_result option"

record execution_task =
  tk_request :: execution_request
  tk_intent :: managed_intent
  tk_queued_at :: int

record executor =
  ex_index :: "(string, idempotency_entry) dict"
  ex_completed :: "(string, order_result) dict"
  ex_inflight :: "(string, execution_task) dict"
  ex_pending_timeouts :: "(string, int) dict"
  ex_max_cached :: nat

definition new_executor :: "nat \<Rightarrow> executor" where
  "new_executor cap =
     \<lparr>ex_index = [], ex_completed = [], ex_inflight = [], ex_pending_timeouts = [], ex_max_cached = cap\<rparr>"

text \<open>Two seconds, in microseconds.\<close>

definition pending_timeout_window :: int where
  "pending_timeout_window = 2000000"

definition is_pending_timeout :: "executor \<Rightarrow> int \<Rightarrow> string \<Rightarrow> bool" where
  "is_pending_timeout st now cid \<longleftrightarrow> cid \<noteq> [] \<and>
     (case dict_get (ex_pending_timeouts st) cid of None \<Rightarrow> False | Some deadline \<Rightarrow> now < deadline)"

definition mark_pending_timeout :: "executor \<Rightarrow> int \<Rightarrow> string \<Rightarrow> executor" where
  "mark_pending_timeout st now cid =
     (if cid = [] then st
      else st\<lparr>ex_pending_timeouts := dict_set (ex_pending_timeouts st) cid (now + pending_timeout_window)\<rparr>)"

text \<open>The sleeping task wakes up and removes its own condition.\<close>

definition clear_pending_timeout :: "executor \<Rightarrow> int \<Rightarrow> string \<Rightarrow> executor" where
  "clear_pending_timeout st now cid =
     (if is_pending_timeout st now cid then st
      else st\<lparr>ex_pending_timeouts := dict_pop (ex_pending_timeouts st) cid\<rparr>)"

subsection \<open>Results the executor makes up\<close>

definition request_result ::
  "execution_request \<Rightarrow> managed_intent \<Rightarrow> order_result_status \<Rightarrow> string \<Rightarrow> bool \<Rightarrow> int option \<Rightarrow> int \<Rightarrow> order_result" where
  "request_result r intent status reason retryable queued now =
     (new_result (er_trace_id r) (er_condition_id r) (er_token_id r) status)
       \<lparr>rs_market_slug := er_market_slug r, rs_intent := Some intent, rs_side := er_side r,
        rs_order_type := er_order_type r, rs_price := request_price r,
        rs_requested_amount_usdc := er_amount_usdc r, rs_requested_size_shares := er_size_shares r,
        rs_reason := reason, rs_retryable := retryable, rs_queued_at := queued, rs_ack_at := Some now\<rparr>"

definition conflict_result :: "execution_request \<Rightarrow> managed_intent \<Rightarrow> int \<Rightarrow> order_result" where
  "conflict_result r intent now = request_result r intent FAILED ''idempotency_key_conflict'' False (Some now) now"

definition timeout_result ::
  "executor \<Rightarrow> execution_request \<Rightarrow> managed_intent \<Rightarrow> int \<Rightarrow> string \<Rightarrow> int \<Rightarrow> executor \<times> order_result" where
  "timeout_result st r intent started_at reason now =
     (if er_action r = ''submit'' then mark_pending_timeout st now (er_condition_id r) else st,
      request_result r intent UNKNOWN_TIMEOUT
        (if reason = [] then er_action r @ ''_timeout'' else reason) True (Some started_at) now)"

definition pending_timeout_skip_result :: "order_intent \<Rightarrow> int \<Rightarrow> order_result" where
  "pending_timeout_skip_result i now =
     (new_result (intent_trace_id i) (intent_condition_id i) (intent_token_id i) REJECTED)
       \<lparr>rs_market_slug := intent_market_slug i, rs_intent := Some (Tradable i),
        rs_side := Some (intent_side i), rs_order_type := Some (intent_order_type i),
        rs_price := Some (intent_price i), rs_requested_amount_usdc := intent_amount_usdc i,
        rs_requested_size_shares := intent_size_shares i,
        rs_reason := ''pending_timeout_confirmation'', rs_retryable := True,
        rs_queued_at := Some now, rs_ack_at := Some now\<rparr>"

subsection \<open>Published events\<close>

record execution_event =
  xe_event_type :: string
  xe_idempotency_key :: string
  xe_reason :: string
  xe_order_id :: "string option"
  xe_status :: "string option"

definition lifecycle_event ::
  "string \<Rightarrow> execution_request \<Rightarrow> string \<Rightarrow> order_result option \<Rightarrow> string option \<Rightarrow> execution_event" where
  "lifecycle_event event_type r reason result order_id =
     \<lparr>xe_event_type = event_type, xe_idempotency_key = er_idempotency_key r @ '':'' @ event_type,
      xe_reason = reason,
      xe_order_id = str_or order_id (case result of None \<Rightarrow> None | Some x \<Rightarrow> rs_order_id x),
      xe_status = map_option (\<lambda>x. result_status_value (rs_status x)) result\<rparr>"

definition result_event :: "string \<Rightarrow> execution_request \<Rightarrow> order_result \<Rightarrow> execution_event" where
  "result_event event_type r x = lifecycle_event event_type r (rs_reason x) (Some x) None"

definition final_event_type :: "string \<Rightarrow> order_result_status \<Rightarrow> string" where
  "final_event_type action status =
     (if status \<in> {REJECTED, FAILED, UNKNOWN_TIMEOUT} then ''order_rejected''
      else if action = ''cancel'' then ''order_cancelled''
      else if action = ''replace'' then ''replace_order_submitted''
      else ''order_submitted'')"

definition adapter_method_for_action :: "string \<Rightarrow> string" where
  "adapter_method_for_action action =
     (if action = ''cancel'' then ''cancel_order'' else if action = ''replace'' then ''replace_order''
      else ''submit_order'')"

definition response_reason :: "adapter_answer \<Rightarrow> string \<Rightarrow> string" where
  "response_reason answer fallback =
     (case answer of
        Typed_Response r \<Rightarrow> if rp_reason r = [] then fallback else rp_reason r
      | Typed_Result r \<Rightarrow> or_default (as_text (Some (rs_reason r))) fallback
      | Opaque_Answer reason \<Rightarrow> or_default (as_text reason) fallback)"

subsection \<open>One operation, from signing to the result\<close>

datatype adapter_outcome = Answered adapter_answer | Timed_Out | Raised string

type_synonym 'c adapter = "string \<Rightarrow> 'c \<Rightarrow> execution_request \<Rightarrow> 'c \<times> adapter_outcome"

definition failure_result ::
  "execution_request \<Rightarrow> managed_intent \<Rightarrow> string \<Rightarrow> int \<Rightarrow> int \<Rightarrow> order_result \<times> execution_event list" where
  "failure_result r intent reason queued now =
     (let x = request_result r intent FAILED reason False (Some queued) now
      in (x, [result_event ''order_rejected'' r x, result_event ''order_state_updated'' r x]))"

definition call_adapter ::
  "'c adapter option \<Rightarrow> string \<Rightarrow> 'c \<Rightarrow> execution_request \<Rightarrow> 'c \<times> adapter_outcome" where
  "call_adapter client name c r =
     (case client of None \<Rightarrow> (c, Raised ''missing execution client'') | Some f \<Rightarrow> f name c r)"

definition opening_event :: "execution_request \<Rightarrow> execution_event list" where
  "opening_event r =
     (if er_action r = ''submit'' then [lifecycle_event ''order_created'' r (er_reason r) None None]
      else if er_action r = ''cancel'' \<or> er_action r = ''replace''
      then [lifecycle_event ''order_cancel_requested'' r (er_reason r) None (er_order_id r)]
      else [])"

definition sign_step ::
  "'c adapter option \<Rightarrow> 'c \<Rightarrow> execution_request \<Rightarrow> 'c \<times> adapter_outcome" where
  "sign_step client c r =
     (case client of None \<Rightarrow> (c, Answered (Opaque_Answer (Some ''signed'')))
      | Some f \<Rightarrow> f ''sign_order'' c r)"

text \<open>What the executor makes of the outcome of the last call: state, result and final events.\<close>

definition settle ::
  "executor \<Rightarrow> execution_task \<Rightarrow> int \<Rightarrow> adapter_outcome \<Rightarrow> executor \<times> order_result \<times> execution_event list" where
  "settle st task now outcome =
     (let r = tk_request task; intent = tk_intent task; queued = tk_queued_at task
      in case outcome of
           Timed_Out \<Rightarrow>
             (case timeout_result st r intent queued [] now of
                (st', x) \<Rightarrow> (st', x, [result_event ''order_state_updated'' r x]))
         | Raised e \<Rightarrow> (st, failure_result r intent e queued now)
         | Answered a \<Rightarrow>
             (let x = build_order_result r intent (normalize_execution_response a (er_action r) intent)
                        (Some queued) (Some now)
              in (st, x, [result_event (final_event_type (er_action r) (rs_status x)) r x,
                          result_event ''order_state_updated'' r x])))"

definition run_operation ::
  "'c adapter option \<Rightarrow> executor \<Rightarrow> 'c \<Rightarrow> execution_task \<Rightarrow> int
   \<Rightarrow> executor \<times> 'c \<times> order_result \<times> execution_event list" where
  "run_operation client st c task now =
     (let r = tk_request task
      in case sign_step client c r of
           (c', Answered signed) \<Rightarrow>
             (case call_adapter client (adapter_method_for_action (er_action r)) c' r of
                (c'', outcome) \<Rightarrow>
                  (case settle st task now outcome of
                     (st', x, evs) \<Rightarrow>
                       (st', c'', x, opening_event r
                          @ [lifecycle_event ''order_signed'' r (response_reason signed ''signed'') None None]
                          @ evs)))
         | (c', failed) \<Rightarrow>
             (case settle st task now failed of
                (st', x, evs) \<Rightarrow> (st', c', x, opening_event r @ evs)))"

subsection \<open>The result cache\<close>

fun trim_completed_cache ::
  "nat \<Rightarrow> (string, order_result) dict \<Rightarrow> (string, idempotency_entry) dict
   \<Rightarrow> (string, order_result) dict \<times> (string, idempotency_entry) dict \<times> string list" where
  "trim_completed_cache cap [] index = ([], index, [])"
| "trim_completed_cache cap ((k, r) # rest) index =
     (if cap < length ((k, r) # rest)
      then (case trim_completed_cache cap rest (dict_pop index k) of (rest', index', evicted) \<Rightarrow>
              (rest', index', k # evicted))
      else ((k, r) # rest, index, []))"

text \<open>The completion callback of a task; the evicted keys are the ones it warns about.\<close>

definition store_task_result :: "executor \<Rightarrow> string \<Rightarrow> order_result \<Rightarrow> executor \<times> string list" where
  "store_task_result st k result =
     (case dict_get (ex_index st) k of
        None \<Rightarrow> (st, [])
      | Some entry \<Rightarrow>
          (case trim_completed_cache (ex_max_cached st) (dict_pop (ex_completed st) k @ [(k, result)])
                  (dict_set (ex_index st) k (entry\<lparr>ie_result := Some result\<rparr>)) of
             (rest', index', evicted) \<Rightarrow>
               (st\<lparr>ex_index := index', ex_completed := rest', ex_inflight := dict_pop (ex_inflight st) k\<rparr>,
                evicted)))"

text \<open>The task of a key runs to its end, and its result is stored.\<close>

definition finish_task ::
  "'c adapter option \<Rightarrow> executor \<Rightarrow> 'c \<Rightarrow> string \<Rightarrow> execution_task \<Rightarrow> int
   \<Rightarrow> executor \<times> 'c \<times> order_result \<times> execution_event list \<times> string list" where
  "finish_task client st c k task now =
     (case run_operation client st c task now of
        (st', c', x, evs) \<Rightarrow>
          (case store_task_result st' k x of (st'', evicted) \<Rightarrow> (st'', c', x, evs, evicted)))"

subsection \<open>Executing a request\<close>

datatype begin_outcome = Conflict order_result | Remembered order_result | Joined | Started

definition begin_execute ::
  "(decimal \<Rightarrow> string) \<Rightarrow> executor \<Rightarrow> execution_request \<Rightarrow> managed_intent \<Rightarrow> int \<Rightarrow> executor \<times> begin_outcome" where
  "begin_execute dstr st r intent now =
     (let k = er_idempotency_key r; signature = request_signature dstr r
      in case dict_get (ex_index st) k of
           Some entry \<Rightarrow>
             (st, if ie_signature entry \<noteq> signature then Conflict (conflict_result r intent now)
                  else case ie_result entry of Some x \<Rightarrow> Remembered x | None \<Rightarrow> Joined)
         | None \<Rightarrow>
             (st\<lparr>ex_index := dict_set (ex_index st) k \<lparr>ie_signature = signature, ie_result = None\<rparr>,
                 ex_inflight := dict_set (ex_inflight st) k
                   \<lparr>tk_request = r, tk_intent = intent, tk_queued_at = now\<rparr>\<rparr>, Started))"

text \<open>A waiter sees the task end in time, or gives up while the shielded task runs on.\<close>

datatype waiting = In_Time | Too_Late

definition await_task ::
  "'c adapter option \<Rightarrow> executor \<Rightarrow> 'c \<Rightarrow> execution_request \<Rightarrow> managed_intent \<Rightarrow> int \<Rightarrow> waiting \<Rightarrow> int
   \<Rightarrow> executor \<times> 'c \<times> order_result \<times> execution_event list" where
  "await_task client st c r intent started_at w now =
     (case (w, dict_get (ex_inflight st) (er_idempotency_key r)) of
        (In_Time, Some task) \<Rightarrow>
          (case finish_task client st c (er_idempotency_key r) task now of
             (st', c', x, evs, evicted) \<Rightarrow> (st', c', x, evs))
      | _ \<Rightarrow>
          (case timeout_result st r intent started_at [] now of
             (st', x) \<Rightarrow> (st', c, x, [result_event ''order_state_updated'' r x])))"

definition execute ::
  "(decimal \<Rightarrow> string) \<Rightarrow> 'c adapter option \<Rightarrow> executor \<Rightarrow> 'c \<Rightarrow> execution_request \<Rightarrow> managed_intent
   \<Rightarrow> int \<Rightarrow> waiting \<Rightarrow> int \<Rightarrow> executor \<times> 'c \<times> order_result \<times> execution_event list" where
  "execute dstr client st c r intent started_at w now =
     (case begin_execute dstr st r intent started_at of
        (st', Conflict x) \<Rightarrow> (st', c, x, [])
      | (st', Remembered x) \<Rightarrow> (st', c, x, [])
      | (st', _) \<Rightarrow> await_task client st' c r intent started_at w now)"

text \<open>The lock of the index is not free within its timeout: nothing was started.\<close>

definition execute_without_lock ::
  "executor \<Rightarrow> execution_request \<Rightarrow> managed_intent \<Rightarrow> int \<Rightarrow> int \<Rightarrow> executor \<times> order_result \<times> execution_event list" where
  "execute_without_lock st r intent started_at now =
     (case timeout_result st r intent started_at ''critical_lock_timeout'' now of
        (st', x) \<Rightarrow> (st', x, [result_event ''order_state_updated'' r x]))"

subsection \<open>The three operations\<close>

definition executor_submit ::
  "(decimal \<Rightarrow> string) \<Rightarrow> 'c adapter option \<Rightarrow> executor \<Rightarrow> 'c \<Rightarrow> order_intent \<Rightarrow> int \<Rightarrow> waiting \<Rightarrow> int
   \<Rightarrow> executor \<times> 'c \<times> order_result \<times> execution_event list" where
  "executor_submit dstr client st c i started_at w now =
     (if is_pending_timeout st started_at (intent_condition_id i)
      then (st, c, pending_timeout_skip_result i started_at, [])
      else execute dstr client st c (build_submit_request dstr i) (Tradable i) started_at w now)"

definition executor_cancel ::
  "(decimal \<Rightarrow> string) \<Rightarrow> 'c adapter option \<Rightarrow> executor \<Rightarrow> 'c \<Rightarrow> cancel_intent \<Rightarrow> int \<Rightarrow> waiting \<Rightarrow> int
   \<Rightarrow> executor \<times> 'c \<times> order_result \<times> execution_event list" where
  "executor_cancel dstr client st c i started_at w now =
     execute dstr client st c (build_cancel_request dstr i) (Cancelling i) started_at w now"

definition retry_replacement :: "order_result \<Rightarrow> bool" where
  "retry_replacement x \<longleftrightarrow> rs_status x = REJECTED \<and> py_in ''not enough balance'' (py_lower (rs_reason x))"

definition executor_replace ::
  "(decimal \<Rightarrow> string) \<Rightarrow> 'c adapter option \<Rightarrow> executor \<Rightarrow> 'c \<Rightarrow> replace_intent
   \<Rightarrow> int \<Rightarrow> waiting \<Rightarrow> int \<Rightarrow> int \<Rightarrow> waiting \<Rightarrow> int
   \<Rightarrow> executor \<times> 'c \<times> order_result \<times> execution_event list" where
  "executor_replace dstr client st c i started_at w now started_again w' now' =
     (let r = build_replace_request dstr i
      in case execute dstr client st c r (Replacing i) started_at w now of
           (st', c', x, evs) \<Rightarrow>
             if retry_replacement x
             then (case execute dstr client st' c' r (Replacing i) started_again w' now' of
                     (st'', c'', y, evs') \<Rightarrow> (st'', c'', y, evs @ evs'))
             else (st', c', x, evs))"

subsection \<open>The client for tests\<close>

text \<open>\<open>InMemoryPolymarketOrderClient\<close> without handlers; its state is the list of requests it saw.\<close>

definition fake_response :: "order_result_status \<Rightarrow> execution_request \<Rightarrow> string \<Rightarrow> adapter_outcome" where
  "fake_response status r reason = Answered (Typed_Response
     ((plain_response status reason)\<lparr>rp_order_id := Some (''fake-'' @ er_idempotency_key r)\<rparr>))"

definition memory_submit :: "execution_request \<Rightarrow> adapter_outcome" where
  "memory_submit r =
     (if er_action r = ''submit'' \<and> er_side r = Some BUY
      then if er_order_type r = Some FAK then fake_response NO_FILL r ''simulated_fak_no_fill''
           else fake_response LIVE r ''simulated_live_buy''
      else if er_action r = ''submit'' \<and> er_side r = Some SELL then fake_response LIVE r ''simulated_live_sell''
      else fake_response LIVE r ''simulated_live'')"

definition memory_client :: "(string \<times> execution_request) list adapter" where
  "memory_client name c r =
     (if name = ''sign_order''
      then (c @ [(''sign'', r)], Answered (Typed_Response (plain_response LIVE ''signed'')))
      else if name = ''cancel_order''
      then (c @ [(''cancel'', r)], Answered (Typed_Response
             ((plain_response CANCELLED ''cancelled'')\<lparr>rp_order_id := er_order_id r\<rparr>)))
      else if name = ''replace_order'' then (c @ [(''replace'', r)], fake_response LIVE r ''replaced'')
      else (c @ [(''submit'', r)], memory_submit r))"

subsection \<open>The cache, in closed form\<close>

lemma dict_get_fold_pop:
  "dict_get (fold (\<lambda>k d. dict_pop d k) ks d) k' = (if k' \<in> set ks then None else dict_get d k')"
  by (induction ks arbitrary: d) (auto simp: dict_get_pop)

lemma dict_ok_fold_pop: "dict_ok d \<Longrightarrow> dict_ok (fold (\<lambda>k d. dict_pop d k) ks d)"
  by (induction ks arbitrary: d) (auto simp: pd.ok_pop)

lemma dict_get_drop:
  assumes "dict_ok d"
  shows "dict_get (drop n d) k = (if k \<in> fst ` set (take n d) then None else dict_get d k)"
proof -
  have d: "distinct (map fst (take n d) @ map fst (drop n d))"
    using assms by (simp add: dict_ok_def flip: map_append)
  have "dict_get d k = (dict_get (drop n d) ++ dict_get (take n d)) k \<or> True" by simp
  have g: "dict_get d k = (case dict_get (take n d) k of None \<Rightarrow> dict_get (drop n d) k | Some v \<Rightarrow> Some v)"
    by (metis append_take_drop_id dict_get_def map_add_def map_of_append)
  show ?thesis
  proof (cases "k \<in> fst ` set (take n d)")
    case True
    then have "k \<notin> fst ` set (drop n d)" using d by auto
    then show ?thesis using True by (simp add: dict_get_def map_of_eq_None_iff)
  next
    case False
    then have "dict_get (take n d) k = None" by (simp add: dict_get_def map_of_eq_None_iff)
    then show ?thesis using False g by simp
  qed
qed

lemma trim_completed_cache_eq:
  "trim_completed_cache cap entries index =
     (drop (length entries - cap) entries,
      fold (\<lambda>k d. dict_pop d k) (map fst (take (length entries - cap) entries)) index,
      map fst (take (length entries - cap) entries))"
  by (induction cap entries index rule: trim_completed_cache.induct) (auto simp: Suc_diff_le)

definition settled_cache :: "executor \<Rightarrow> string \<Rightarrow> order_result \<Rightarrow> (string, order_result) dict" where
  "settled_cache st k x = dict_pop (ex_completed st) k @ [(k, x)]"

lemma settled_cache_ok: "dict_ok (ex_completed st) \<Longrightarrow> dict_ok (settled_cache st k x)"
  by (auto simp: dict_ok_def settled_cache_def dict_pop_def distinct_map_filter)

lemma settled_cache_get:
  "dict_get (settled_cache st k x) k' = (if k' = k then Some x else dict_get (ex_completed st) k')"
  by (auto simp: settled_cache_def dict_get_def dict_pop_def map_of_filter_key map_add_def split: option.splits)

lemma store_task_result_facts:
  assumes "dict_get (ex_index st) k = Some entry" "store_task_result st k x = (st', evicted)"
  defines "n \<equiv> length (settled_cache st k x) - ex_max_cached st"
  shows "ex_completed st' = drop n (settled_cache st k x)"
    and "evicted = map fst (take n (settled_cache st k x))"
    and "dict_get (ex_index st') k' = (if k' \<in> set evicted then None
           else if k' = k then Some (entry\<lparr>ie_result := Some x\<rparr>) else dict_get (ex_index st) k')"
    and "dict_ok (ex_index st) \<Longrightarrow> dict_ok (ex_index st')"
    and "ex_inflight st' = dict_pop (ex_inflight st) k"
    and "ex_max_cached st' = ex_max_cached st" "ex_pending_timeouts st' = ex_pending_timeouts st"
  using assms(1,2)
  by (auto simp: store_task_result_def trim_completed_cache_eq settled_cache_def n_def dict_get_fold_pop
      dict_get_set pd.ok_put intro!: dict_ok_fold_pop)

text \<open>With room for one result, a finished task is never the one that is evicted.\<close>

lemma settled_key_kept:
  assumes "0 < ex_max_cached st"
  shows "k \<notin> set (map fst (take (length (settled_cache st k x) - ex_max_cached st) (settled_cache st k x)))"
proof -
  let ?p = "dict_pop (ex_completed st) k"
  have "length (settled_cache st k x) - ex_max_cached st \<le> length ?p"
    using assms by (simp add: settled_cache_def)
  then have "take (length (settled_cache st k x) - ex_max_cached st) (settled_cache st k x)
      = take (length (settled_cache st k x) - ex_max_cached st) ?p"
    by (simp add: settled_cache_def)
  moreover have "k \<notin> fst ` set ?p" by (simp add: dict_pop_keys)
  ultimately show ?thesis using set_take_subset [of _ ?p] by fastforce
qed

subsection \<open>Runs of the executor\<close>

datatype executor_label = Started_Key string | Evicted_Key string

text \<open>
  Every interleaving of the calls: a request is looked up under the lock, a task in flight
  ends, a waiter gives up (or never got the lock), the window of a condition closes. The trail
  records the operations started and the keys evicted.
\<close>

inductive executor_reachable ::
  "(decimal \<Rightarrow> string) \<Rightarrow> 'c adapter option \<Rightarrow> nat \<Rightarrow> 'c \<Rightarrow> executor \<Rightarrow> 'c \<Rightarrow> executor_label list \<Rightarrow> bool"
  for dstr :: "decimal \<Rightarrow> string" and client :: "'c adapter option" and cap :: nat and c0 :: 'c where
  ex_init: "executor_reachable dstr client cap c0 (new_executor cap) c0 []"
| ex_begin: "executor_reachable dstr client cap c0 st c trail \<Longrightarrow> begin_execute dstr st r intent now = (st', out) \<Longrightarrow>
    executor_reachable dstr client cap c0 st' c
      (trail @ (if out = Started then [Started_Key (er_idempotency_key r)] else []))"
| ex_finish: "executor_reachable dstr client cap c0 st c trail \<Longrightarrow> dict_get (ex_inflight st) k = Some task \<Longrightarrow>
    finish_task client st c k task now = (st', c', x, evs, evicted) \<Longrightarrow>
    executor_reachable dstr client cap c0 st' c' (trail @ map Evicted_Key evicted)"
| ex_give_up: "executor_reachable dstr client cap c0 st c trail \<Longrightarrow>
    executor_reachable dstr client cap c0 (fst (timeout_result st r intent t0 reason now)) c trail"
| ex_clear: "executor_reachable dstr client cap c0 st c trail \<Longrightarrow>
    executor_reachable dstr client cap c0 (clear_pending_timeout st now cid) c trail"

text \<open>The fields the index is about; the pending windows are outside.\<close>

definition same_index :: "executor \<Rightarrow> executor \<Rightarrow> bool" where
  "same_index st st' \<longleftrightarrow> ex_index st' = ex_index st \<and> ex_completed st' = ex_completed st
     \<and> ex_inflight st' = ex_inflight st \<and> ex_max_cached st' = ex_max_cached st"

lemma same_index_refl [simp]: "same_index st st"
  by (simp add: same_index_def)

lemma same_index_timeout: "same_index st (fst (timeout_result st r intent t0 reason now))"
  by (simp add: same_index_def timeout_result_def mark_pending_timeout_def)

lemma same_index_clear: "same_index st (clear_pending_timeout st now cid)"
  by (simp add: same_index_def clear_pending_timeout_def)

lemma same_index_settle: "settle st task now outcome = (st', x, evs) \<Longrightarrow> same_index st st'"
  using same_index_timeout [of st "tk_request task" "tk_intent task" "tk_queued_at task" "[]" now]
  by (auto simp: settle_def Let_def split: adapter_outcome.splits prod.splits)

lemma same_index_run: "run_operation client st c task now = (st', c', x, evs) \<Longrightarrow> same_index st st'"
  by (auto simp: run_operation_def Let_def split: prod.splits adapter_outcome.splits dest!: same_index_settle)

text \<open>What the three dictionaries hold for one key.\<close>

fun key_consistent ::
  "(decimal \<Rightarrow> string) \<Rightarrow> idempotency_entry option \<Rightarrow> order_result option \<Rightarrow> execution_task option \<Rightarrow> bool" where
  "key_consistent dstr None x t \<longleftrightarrow> x = None \<and> t = None"
| "key_consistent dstr (Some e) x t \<longleftrightarrow>
     (case ie_result e of
        Some y \<Rightarrow> x = Some y \<and> t = None
      | None \<Rightarrow> x = None \<and> (case t of None \<Rightarrow> False
          | Some task \<Rightarrow> ie_signature e = request_signature dstr (tk_request task)))"

definition executor_ok :: "(decimal \<Rightarrow> string) \<Rightarrow> executor \<Rightarrow> bool" where
  "executor_ok dstr st \<longleftrightarrow>
     dict_ok (ex_index st) \<and> dict_ok (ex_completed st)
   \<and> keyed (\<lambda>t. er_idempotency_key (tk_request t)) (ex_inflight st)
   \<and> length (ex_completed st) \<le> ex_max_cached st
   \<and> (\<forall>k. key_consistent dstr (dict_get (ex_index st) k) (dict_get (ex_completed st) k)
            (dict_get (ex_inflight st) k))"

lemma executor_ok_same: "same_index st st' \<Longrightarrow> executor_ok dstr st' = executor_ok dstr st"
  by (simp add: same_index_def executor_ok_def)

lemma executor_ok_new: "executor_ok dstr (new_executor cap)"
  by (simp add: executor_ok_def new_executor_def)

lemma executor_ok_key:
  "executor_ok dstr st \<Longrightarrow>
    key_consistent dstr (dict_get (ex_index st) k) (dict_get (ex_completed st) k) (dict_get (ex_inflight st) k)"
  by (simp add: executor_ok_def)

lemma executor_ok_begin:
  assumes "executor_ok dstr st" "begin_execute dstr st r intent now = (st', out)"
  shows "executor_ok dstr st'"
  using assms executor_ok_key [OF assms(1), of "er_idempotency_key r"]
  by (cases "dict_get (ex_index st) (er_idempotency_key r)")
    (auto simp: begin_execute_def Let_def executor_ok_def dict_get_set pd.ok_put intro!: keyed_set)

lemma executor_ok_store:
  assumes ok: "executor_ok dstr st" and task: "dict_get (ex_inflight st) k = Some task"
    and s: "store_task_result st k x = (st', evicted)"
  shows "executor_ok dstr st'"
proof -
  obtain e where e: "dict_get (ex_index st) k = Some e" "ie_result e = None"
    using executor_ok_key [OF ok, of k] task
    by (cases "dict_get (ex_index st) k") (auto split: option.splits)
  note f = store_task_result_facts [OF e(1) s]
  let ?d = "settled_cache st k x" and ?n = "length (settled_cache st k x) - ex_max_cached st"
  have d: "dict_ok ?d" using ok by (simp add: executor_ok_def settled_cache_ok)
  have ev: "set evicted = fst ` set (take ?n ?d)" using f(2) by simp
  have dr: "dict_ok (drop ?n ?d)" using d by (simp add: dict_ok_def drop_map [symmetric])
  have get: "dict_get (ex_completed st') k' = (if k' \<in> set evicted then None
      else if k' = k then Some x else dict_get (ex_completed st) k')" for k'
    unfolding f(1) by (simp add: dict_get_drop [OF d] ev settled_cache_get)
  have sub: "k' = k \<or> dict_get (ex_completed st) k' \<noteq> None" if "k' \<in> set evicted" for k'
  proof -
    have "k' \<in> fst ` set ?d" using that ev by (auto dest: in_set_takeD)
    then have "dict_get ?d k' \<noteq> None" by (simp add: dict_get_def map_of_eq_None_iff)
    then show ?thesis by (simp add: settled_cache_get split: if_splits)
  qed
  have key: "key_consistent dstr (dict_get (ex_index st') k') (dict_get (ex_completed st') k')
      (dict_get (ex_inflight st') k')" for k'
  proof (cases "k' = k")
    case True
    then show ?thesis by (simp add: f(3,5) get dict_get_pop)
  next
    case False
    show ?thesis
    proof (cases "k' \<in> set evicted")
      case True
      then have "dict_get (ex_inflight st) k' = None"
        using executor_ok_key [OF ok, of k'] sub [OF True] False
        by (cases "dict_get (ex_index st) k'") (simp_all split: option.splits)
      then show ?thesis using True False by (simp add: f(3,5) get dict_get_pop)
    next
      case out: False
      then show ?thesis using executor_ok_key [OF ok, of k'] False by (simp add: f(3,5) get dict_get_pop)
    qed
  qed
  have "ex_inflight st' = dict_pop (ex_inflight st) k" "length (ex_completed st') \<le> ex_max_cached st'"
    by (simp_all add: f)
  then show ?thesis
    using ok dr key f(1,4) unfolding executor_ok_def by (simp add: keyed_pop)
qed

lemma executor_ok_finish:
  assumes "executor_ok dstr st" "dict_get (ex_inflight st) k = Some task"
    "finish_task client st c k task now = (st', c', x, evs, evicted)"
  shows "executor_ok dstr st'"
proof -
  obtain st1 evs1 where run: "run_operation client st c task now = (st1, c', x, evs)"
    and s: "store_task_result st1 k x = (st', evicted)"
    using assms(3) by (auto simp: finish_task_def split: prod.splits)
  have same: "same_index st st1" by (rule same_index_run [OF run])
  show ?thesis
    using executor_ok_store [OF _ _ s] assms(1,2) executor_ok_same [OF same] same
    by (simp add: same_index_def)
qed

lemma executor_reachable_ok:
  "executor_reachable dstr client cap c0 st c trail \<Longrightarrow> executor_ok dstr st \<and> ex_max_cached st = cap"
proof (induction rule: executor_reachable.induct)
  case ex_init
  have "ex_max_cached (new_executor cap) = cap" by (simp add: new_executor_def)
  then show ?case using executor_ok_new by simp
next
  case (ex_begin st c trail r intent now st' out)
  then have "ex_max_cached st' = ex_max_cached st"
    by (auto simp: begin_execute_def Let_def split: option.splits)
  then show ?case using ex_begin executor_ok_begin [OF _ ex_begin.hyps(2)] by simp
next
  case (ex_finish st c trail k task now st' c' x evs evicted)
  obtain st1 where run: "run_operation client st c task now = (st1, c', x, evs)"
    and s: "store_task_result st1 k x = (st', evicted)"
    using ex_finish.hyps(3) by (auto simp: finish_task_def split: prod.splits)
  have "ex_max_cached st' = ex_max_cached st1"
    using s by (auto simp: store_task_result_def split: option.splits prod.splits)
  then show ?case
    using ex_finish executor_ok_finish [OF _ ex_finish.hyps(2,3)] same_index_run [OF run] by (simp add: same_index_def)
next
  case (ex_give_up st c trail r intent t0 reason now)
  then show ?case
    using same_index_timeout [of st r intent t0 reason now]
      executor_ok_same [OF same_index_timeout [of st r intent t0 reason now]]
    by (simp add: same_index_def)
next
  case (ex_clear st c trail now cid)
  then show ?case
    using same_index_clear [of st now cid] executor_ok_same [OF same_index_clear [of st now cid]]
    by (simp add: same_index_def)
qed

subsection \<open>At most one run per remembered key\<close>

lemma count_labels [simp]:
  "count_list (map Evicted_Key ks) (Started_Key k) = 0"
  "distinct ks \<Longrightarrow> count_list (map Evicted_Key ks) (Evicted_Key k) = (if k \<in> set ks then 1 else 0)"
  by (induction ks) auto

lemma finish_index:
  assumes ok: "executor_ok dstr st" and t: "dict_get (ex_inflight st) k = Some task"
    and fin: "finish_task client st c k task now = (st', c', x, evs, evicted)"
  shows "distinct evicted"
    and "dict_get (ex_index st') k' = None \<longleftrightarrow> k' \<in> set evicted \<or> dict_get (ex_index st) k' = None"
    and "k' \<in> set evicted \<Longrightarrow> dict_get (ex_index st) k' \<noteq> None"
proof -
  obtain st1 where run: "run_operation client st c task now = (st1, c', x, evs)"
    and s: "store_task_result st1 k x = (st', evicted)"
    using fin by (auto simp: finish_task_def split: prod.splits)
  have same: "ex_index st1 = ex_index st" "ex_completed st1 = ex_completed st"
    using same_index_run [OF run] by (simp_all add: same_index_def)
  obtain e where e: "dict_get (ex_index st1) k = Some e"
    using executor_ok_key [OF ok, of k] t same by (cases "dict_get (ex_index st) k") simp_all
  note f = store_task_result_facts [OF e s]
  have "dict_ok (settled_cache st1 k x)" using ok same by (simp add: settled_cache_ok executor_ok_def)
  then show "distinct evicted" unfolding f(2) by (simp add: dict_ok_def distinct_take flip: take_map)
  show "dict_get (ex_index st') k' = None \<longleftrightarrow> k' \<in> set evicted \<or> dict_get (ex_index st) k' = None"
    using e by (simp add: f(3) same)
  assume "k' \<in> set evicted"
  then have "k' \<in> fst ` set (settled_cache st1 k x)" using f(2) by (auto dest: in_set_takeD)
  then have "dict_get (settled_cache st1 k x) k' \<noteq> None" by (simp add: dict_get_def map_of_eq_None_iff)
  then show "dict_get (ex_index st) k' \<noteq> None"
    using executor_ok_key [OF ok, of k'] e same
    by (cases "dict_get (ex_index st) k'") (simp_all add: settled_cache_get split: if_splits)
qed

text \<open>
  C4: An order is executed at most once while its key is remembered: in every interleaving of
  the calls, the number of operations started under a key exceeds the number of times the key
  was evicted from the full cache by exactly one while the index knows the key, and equals it
  otherwise.
\<close>

theorem executor_runs_once:
  assumes "executor_reachable dstr client cap c0 st c trail"
  shows "count_list trail (Started_Key k) =
    count_list trail (Evicted_Key k) + (if dict_get (ex_index st) k = None then 0 else 1)"
  using assms
proof (induction rule: executor_reachable.induct)
  case ex_init
  then show ?case by (simp add: new_executor_def)
next
  case (ex_begin st c trail r intent now st' out)
  then show ?case
    by (cases "dict_get (ex_index st) (er_idempotency_key r)")
      (auto simp: begin_execute_def Let_def dict_get_set split: option.splits if_splits)
next
  case (ex_finish st c trail k' task now st' c' x evs evicted)
  have ok: "executor_ok dstr st" using executor_reachable_ok [OF ex_finish.hyps(1)] by simp
  note f = finish_index [OF ok ex_finish.hyps(2,3)]
  show ?case using ex_finish.IH f(1) f(2,3) [of k] by auto
next
  case (ex_give_up st c trail r intent t0 reason now)
  then show ?case using same_index_timeout [of st r intent t0 reason now] by (simp add: same_index_def)
next
  case (ex_clear st c trail now cid)
  then show ?case using same_index_clear [of st now cid] by (simp add: same_index_def)
qed

text \<open>
  The index does not grow without bound: its keys are exactly the completed results, never
  more than the cap, together with the tasks in flight, and no key is both.
\<close>

lemma executor_index_bounded:
  assumes "executor_reachable dstr client cap c0 st c trail"
  shows "length (ex_completed st) \<le> cap
    \<and> length (ex_index st) = length (ex_completed st) + length (ex_inflight st)
    \<and> fst ` set (ex_index st) = fst ` set (ex_completed st) \<union> fst ` set (ex_inflight st)
    \<and> fst ` set (ex_completed st) \<inter> fst ` set (ex_inflight st) = {}"
proof -
  note ok = executor_reachable_ok [OF assms]
  have mem: "k \<in> fst ` set d \<longleftrightarrow> dict_get d k \<noteq> None" for k and d :: "(string \<times> 'v) list"
    by (simp add: dict_get_def map_of_eq_None_iff)
  have k: "(k \<in> fst ` set (ex_index st) \<longleftrightarrow> k \<in> fst ` set (ex_completed st) \<or> k \<in> fst ` set (ex_inflight st))
      \<and> \<not> (k \<in> fst ` set (ex_completed st) \<and> k \<in> fst ` set (ex_inflight st))" for k
    using executor_ok_key [of dstr st k] ok unfolding mem
    by (cases "dict_get (ex_index st) k") (auto split: option.splits)
  have un: "fst ` set (ex_index st) = fst ` set (ex_completed st) \<union> fst ` set (ex_inflight st)"
    and dis: "fst ` set (ex_completed st) \<inter> fst ` set (ex_inflight st) = {}" using k by blast+
  have len: "length d = card (fst ` set d)" if "dict_ok d" for d :: "(string \<times> 'v) list"
    using that distinct_card [of "map fst d"] by (simp add: dict_ok_def)
  have "card (fst ` set (ex_index st)) = card (fst ` set (ex_completed st)) + card (fst ` set (ex_inflight st))"
    unfolding un by (rule card_Un_disjoint) (simp_all add: dis)
  then have "length (ex_index st) = length (ex_completed st) + length (ex_inflight st)"
    using ok keyed_ok [of "\<lambda>t. er_idempotency_key (tk_request t)" "ex_inflight st"]
    by (simp add: len executor_ok_def)
  then show ?thesis using ok un dis by (simp add: executor_ok_def)
qed

subsection \<open>Retries\<close>

lemma execute_remembers:
  assumes ok: "executor_ok dstr st" and cap: "0 < ex_max_cached st"
    and ex: "execute dstr client st c r intent t0 In_Time t1 = (st', c', x, evs)"
    and fresh: "\<And>e. dict_get (ex_index st) (er_idempotency_key r) = Some e \<Longrightarrow> ie_signature e = request_signature dstr r"
  shows "\<exists>e. dict_get (ex_index st') (er_idempotency_key r) = Some e
    \<and> ie_signature e = request_signature dstr r \<and> ie_result e = Some x"
proof -
  let ?k = "er_idempotency_key r" and ?sig = "request_signature dstr r"
  obtain st1 out where b: "begin_execute dstr st r intent t0 = (st1, out)" by fastforce
  note ok1 = executor_ok_begin [OF ok b]
  obtain e where e: "dict_get (ex_index st1) ?k = Some e" "ie_signature e = ?sig"
    "out = (case ie_result e of Some y \<Rightarrow> Remembered y | None \<Rightarrow> if dict_get (ex_index st) ?k = None then Started else Joined)"
    "ex_max_cached st1 = ex_max_cached st"
    using b fresh by (cases "dict_get (ex_index st) ?k") (auto simp: begin_execute_def Let_def dict_get_set)
  show ?thesis
  proof (cases "ie_result e")
    case (Some y)
    then show ?thesis using ex b e by (simp add: execute_def)
  next
    case None
    then obtain task where task: "dict_get (ex_inflight st1) ?k = Some task"
      using executor_ok_key [OF ok1, of ?k] e(1) by (auto split: option.splits)
    have aw: "await_task client st1 c r intent t0 In_Time t1 = (st', c', x, evs)"
      using ex b e(3) None by (auto simp: execute_def split: if_splits)
    obtain st2 where run: "run_operation client st1 c task t1 = (st2, c', x, evs)"
      and s: "fst (store_task_result st2 ?k x) = st'"
      using aw task by (auto simp: await_task_def finish_task_def split: prod.splits)
    have same: "ex_index st2 = ex_index st1" "ex_max_cached st2 = ex_max_cached st"
      using same_index_run [OF run] e(4) by (simp_all add: same_index_def)
    obtain evicted where s': "store_task_result st2 ?k x = (st', evicted)" using s by (metis prod.collapse)
    have "dict_get (ex_index st2) ?k = Some e" using e(1) same by simp
    note f = store_task_result_facts [OF this s']
    have "?k \<notin> set evicted" using settled_key_kept [of st2 ?k x] cap same f(2) by simp
    then show ?thesis using f(3) [of ?k] e(2) by simp
  qed
qed

lemma execute_remembered:
  assumes "dict_get (ex_index st) (er_idempotency_key r) = Some e" "ie_signature e = request_signature dstr r"
    "ie_result e = Some x"
  shows "execute dstr client st c r intent t0 w t1 = (st, c, x, [])"
  using assms by (simp add: execute_def begin_execute_def Let_def)

text \<open>
  C10: Retrying is idempotent: once a request was answered in time, the same request is answered
  again with the very same result, without any call to the client and without any event, as
  long as its key is not evicted; and a different request under the same key is refused.
\<close>

theorem execute_idempotent:
  assumes "executor_reachable dstr client cap c0 st c trail" "0 < cap"
    and "execute dstr client st c r intent t0 In_Time t1 = (st', c', x, evs)"
    and "dict_get (ex_index st) (er_idempotency_key r) = None"
    and "er_idempotency_key r' = er_idempotency_key r"
  shows "execute dstr client st' c' r' intent' t2 w t3 =
    (st', c', if request_signature dstr r' = request_signature dstr r then x
              else conflict_result r' intent' t2, [])"
proof -
  have "executor_ok dstr st" "0 < ex_max_cached st" using executor_reachable_ok [OF assms(1)] assms(2) by simp_all
  then obtain e where e: "dict_get (ex_index st') (er_idempotency_key r) = Some e"
    "ie_signature e = request_signature dstr r" "ie_result e = Some x"
    using execute_remembers [OF _ _ assms(3)] assms(4) by auto
  then show ?thesis using assms(5) by (simp add: execute_def begin_execute_def Let_def)
qed

text \<open>A request that came back as REJECTED is remembered as such.\<close>

lemma await_late:
  "await_task client st c r intent t0 Too_Late t1 = (st', c', x, evs) \<Longrightarrow> rs_status x = UNKNOWN_TIMEOUT"
  by (auto simp: await_task_def timeout_result_def request_result_def new_result_def split: prod.splits option.splits)

lemma execute_rejected:
  assumes ok: "executor_ok dstr st" "0 < ex_max_cached st"
    and ex: "execute dstr client st c r intent t0 w t1 = (st', c', x, evs)" and rej: "rs_status x = REJECTED"
  shows "\<exists>e. dict_get (ex_index st') (er_idempotency_key r) = Some e
    \<and> ie_signature e = request_signature dstr r \<and> ie_result e = Some x"
proof -
  have sig: "ie_signature e = request_signature dstr r"
    if "dict_get (ex_index st) (er_idempotency_key r) = Some e" for e
  proof (rule ccontr)
    assume "ie_signature e \<noteq> request_signature dstr r"
    then have "x = conflict_result r intent t0" using ex that by (auto simp: execute_def begin_execute_def Let_def)
    then show False using rej by (simp add: conflict_result_def request_result_def new_result_def)
  qed
  show ?thesis
  proof (cases w)
    case In_Time
    then show ?thesis using execute_remembers [OF ok ex [unfolded In_Time] sig] by blast
  next
    case Too_Late
    obtain st1 out where b: "begin_execute dstr st r intent t0 = (st1, out)" by fastforce
    show ?thesis
      using ex b await_late [of client st1 c r intent t0 t1 st' c' x evs] rej sig Too_Late
      by (cases "dict_get (ex_index st) (er_idempotency_key r)")
        (auto simp: execute_def begin_execute_def Let_def split: option.splits)
  qed
qed

text \<open>
  C29: The retry of a replacement that was rejected for lack of balance never reaches the
  exchange: the second execution finds the rejected result under its own key, so a replacement
  is exactly one execution, whatever the first answer and however long the pause.
\<close>

theorem replace_never_retries:
  assumes "executor_reachable dstr client cap c0 st c trail" "0 < cap"
  shows "executor_replace dstr client st c i t0 w t1 t2 w' t3 =
    execute dstr client st c (build_replace_request dstr i) (Replacing i) t0 w t1"
proof -
  let ?r = "build_replace_request dstr i"
  have ok: "executor_ok dstr st" "0 < ex_max_cached st"
    using executor_reachable_ok [OF assms(1)] assms(2) by simp_all
  obtain st' c' x evs where ex: "execute dstr client st c ?r (Replacing i) t0 w t1 = (st', c', x, evs)"
    by (metis prod_cases4)
  show ?thesis
  proof (cases "retry_replacement x")
    case True
    then obtain e where e: "dict_get (ex_index st') (er_idempotency_key ?r) = Some e"
      "ie_signature e = request_signature dstr ?r" "ie_result e = Some x"
      using execute_rejected [OF ok ex] by (auto simp: retry_replacement_def)
    show ?thesis by (simp add: executor_replace_def Let_def ex True execute_remembered [OF e])
  qed (simp add: executor_replace_def Let_def ex)
qed

subsection \<open>The window after a timeout\<close>

text \<open>How the calls of an operation end, whatever they answer.\<close>

definition operation_outcome :: "'c adapter option \<Rightarrow> 'c \<Rightarrow> execution_request \<Rightarrow> adapter_outcome" where
  "operation_outcome client c r =
     (case sign_step client c r of
        (c', Answered signed) \<Rightarrow> snd (call_adapter client (adapter_method_for_action (er_action r)) c' r)
      | (c', failed) \<Rightarrow> failed)"

lemma run_timed_out:
  assumes "run_operation client st c task now = (st', c', x, evs)"
    and "operation_outcome client c (tk_request task) = Timed_Out"
  shows "(st', x) = timeout_result st (tk_request task) (tk_intent task) (tk_queued_at task) [] now"
  using assms
  by (auto simp: run_operation_def operation_outcome_def Let_def settle_def
      split: prod.splits adapter_outcome.splits)

lemma store_keeps_pending: "ex_pending_timeouts (fst (store_task_result st k x)) = ex_pending_timeouts st"
  by (simp add: store_task_result_def split: option.split prod.split)

lemma pending_after_timeout:
  assumes "timeout_result st r intent t0 reason t1 = (st1, x)" "er_action r = ''submit''"
    and "ex_pending_timeouts st' = ex_pending_timeouts st1"
  shows "is_pending_timeout st' t cid \<longleftrightarrow>
    (if cid = er_condition_id r then cid \<noteq> [] \<and> t < t1 + pending_timeout_window else is_pending_timeout st t cid)"
  using assms
  by (cases "er_condition_id r = []")
    (auto simp: timeout_result_def mark_pending_timeout_def is_pending_timeout_def dict_get_set)

lemma submit_request_fields:
  "er_action (build_submit_request dstr i) = ''submit''"
  "er_condition_id (build_submit_request dstr i) = intent_condition_id i"
  by (simp_all add: build_submit_request_def with_key_def new_request_def)

text \<open>
  A submit that times out, at the exchange or because its waiter gave up, is reported as
  UNKNOWN_TIMEOUT and retryable, and opens a window in which every further submit for the
  condition is refused without a call to the client or a change of state; other conditions are
  not touched. When the waiter gave up the shielded task runs on, and its own timeout opens the
  window again: see \<open>timeout_blocks_condition\<close>.
\<close>

lemma timed_out_submit:
  assumes sub: "executor_submit dstr client st c i t0 w t1 = (st', c', x, evs)"
    and open_: "\<not> is_pending_timeout st t0 (intent_condition_id i)" "intent_condition_id i \<noteq> []"
    and fresh: "dict_get (ex_index st) (er_idempotency_key (build_submit_request dstr i)) = None"
    and timed: "w = Too_Late \<or> operation_outcome client c (build_submit_request dstr i) = Timed_Out"
  shows "rs_status x = UNKNOWN_TIMEOUT \<and> rs_retryable x
    \<and> (intent_condition_id j = intent_condition_id i \<and> t2 < t1 + 2000000 \<longrightarrow>
         executor_submit dstr client st' c' j t2 w' t3 = (st', c', pending_timeout_skip_result j t2, []))
    \<and> (cid \<noteq> intent_condition_id i \<longrightarrow> is_pending_timeout st' t cid = is_pending_timeout st t cid)
    \<and> (t1 + 2000000 \<le> t \<longrightarrow> \<not> is_pending_timeout st' t (intent_condition_id i))"
proof -
  let ?r = "build_submit_request dstr i"
  define st1 where "st1 = fst (begin_execute dstr st ?r (Tradable i) t0)"
  have b: "begin_execute dstr st ?r (Tradable i) t0 = (st1, Started)"
    and pend: "ex_pending_timeouts st1 = ex_pending_timeouts st"
    and task: "dict_get (ex_inflight st1) (er_idempotency_key ?r)
      = Some \<lparr>tk_request = ?r, tk_intent = Tradable i, tk_queued_at = t0\<rparr>"
    using fresh by (simp_all add: begin_execute_def Let_def dict_get_set st1_def)
  have aw: "await_task client st1 c ?r (Tradable i) t0 w t1 = (st', c', x, evs)"
    using sub open_(1) b by (simp add: executor_submit_def execute_def)
  obtain st2 where tr: "timeout_result st1 ?r (Tradable i) t0 [] t1 = (st2, x)"
    and keep: "ex_pending_timeouts st' = ex_pending_timeouts st2"
  proof (cases w)
    case Too_Late
    then show thesis using aw that [of st'] by (auto simp: await_task_def split: prod.splits option.splits)
  next
    case In_Time
    obtain st2 where run: "run_operation client st1 c
        \<lparr>tk_request = ?r, tk_intent = Tradable i, tk_queued_at = t0\<rparr> t1 = (st2, c', x, evs)"
      and st': "fst (store_task_result st2 (er_idempotency_key ?r) x) = st'"
      using aw task In_Time by (auto simp: await_task_def finish_task_def split: prod.splits)
    show thesis
      using that [of st2] run_timed_out [OF run] timed In_Time store_keeps_pending st' by auto
  qed
  note p = pending_after_timeout [OF tr submit_request_fields(1) keep, unfolded submit_request_fields]
  have other: "is_pending_timeout st1 t cid = is_pending_timeout st t cid"
    using pend by (simp add: is_pending_timeout_def)
  have "rs_status x = UNKNOWN_TIMEOUT" "rs_retryable x"
    using tr by (auto simp: timeout_result_def request_result_def new_result_def)
  then show ?thesis
    using p open_(2) other by (simp add: executor_submit_def pending_timeout_window_def)
qed

text \<open>
  The runs of the executor with their clock, which never goes back: the same steps as those of
  \<open>executor_reachable\<close>, with a list of the submits that timed out, the last one first. A task
  that times out is noted when it ends, a waiter when it gives up.
\<close>

definition submit_timeout :: "execution_request \<Rightarrow> int \<Rightarrow> (string \<times> int) list" where
  "submit_timeout r now = (if er_action r = ''submit'' then [(er_condition_id r, now)] else [])"

inductive executor_timed ::
  "(decimal \<Rightarrow> string) \<Rightarrow> 'c adapter option \<Rightarrow> nat \<Rightarrow> 'c \<Rightarrow> int \<Rightarrow> executor \<Rightarrow> 'c \<Rightarrow> (string \<times> int) list \<Rightarrow> bool"
  for dstr :: "decimal \<Rightarrow> string" and client :: "'c adapter option" and cap :: nat and c0 :: 'c where
  et_init: "executor_timed dstr client cap c0 now (new_executor cap) c0 []"
| et_begin: "executor_timed dstr client cap c0 t st c marks \<Longrightarrow> t \<le> now \<Longrightarrow>
    begin_execute dstr st r intent now = (st', out) \<Longrightarrow> executor_timed dstr client cap c0 now st' c marks"
| et_finish: "executor_timed dstr client cap c0 t st c marks \<Longrightarrow> t \<le> now \<Longrightarrow>
    dict_get (ex_inflight st) k = Some task \<Longrightarrow> finish_task client st c k task now = (st', c', x, evs, evicted) \<Longrightarrow>
    executor_timed dstr client cap c0 now st' c'
      ((if operation_outcome client c (tk_request task) = Timed_Out then submit_timeout (tk_request task) now else []) @ marks)"
| et_give_up: "executor_timed dstr client cap c0 t st c marks \<Longrightarrow> t \<le> now \<Longrightarrow>
    executor_timed dstr client cap c0 now (fst (timeout_result st r intent t0 reason now)) c (submit_timeout r now @ marks)"
| et_clear: "executor_timed dstr client cap c0 t st c marks \<Longrightarrow> t \<le> now \<Longrightarrow>
    executor_timed dstr client cap c0 now (clear_pending_timeout st now cid) c marks"

lemma timed_reachable: "executor_timed dstr client cap c0 now st c marks \<Longrightarrow> \<exists>trail. executor_reachable dstr client cap c0 st c trail"
  by (induction rule: executor_timed.induct) (blast intro: executor_reachable.intros)+

text \<open>The condition is blocked: its last submit that timed out did so less than two seconds ago.\<close>

definition recently_timed_out :: "(string \<times> int) list \<Rightarrow> int \<Rightarrow> string \<Rightarrow> bool" where
  "recently_timed_out marks t cid \<longleftrightarrow> cid \<noteq> [] \<and> (case map_of marks cid of None \<Rightarrow> False | Some s \<Rightarrow> t < s + 2000000)"

lemma run_not_timed_out:
  assumes "run_operation client st c task now = (st', c', x, evs)"
    and "operation_outcome client c (tk_request task) \<noteq> Timed_Out"
  shows "ex_pending_timeouts st' = ex_pending_timeouts st"
  using assms
  by (auto simp: run_operation_def operation_outcome_def Let_def settle_def
      split: prod.splits adapter_outcome.splits)

lemma pending_timeout_result:
  "is_pending_timeout (fst (timeout_result st r intent t0 reason now)) t cid \<longleftrightarrow>
    (if er_action r = ''submit'' \<and> cid = er_condition_id r then cid \<noteq> [] \<and> t < now + 2000000
     else is_pending_timeout st t cid)"
  by (auto simp: timeout_result_def mark_pending_timeout_def is_pending_timeout_def dict_get_set
      pending_timeout_window_def)

lemma pending_same: "ex_pending_timeouts st' = ex_pending_timeouts st \<Longrightarrow> is_pending_timeout st' t cid = is_pending_timeout st t cid"
  by (simp add: is_pending_timeout_def)

lemma begin_pending:
  assumes "begin_execute dstr st r intent now = (st', out)"
  shows "ex_pending_timeouts st' = ex_pending_timeouts st"
  using assms by (cases "dict_get (ex_index st) (er_idempotency_key r)") (auto simp: begin_execute_def Let_def)

lemma finish_pending:
  assumes "finish_task client st c k task now = (st', c', x, evs, evicted)"
  shows "is_pending_timeout st' t cid \<longleftrightarrow>
    (if operation_outcome client c (tk_request task) = Timed_Out \<and> er_action (tk_request task) = ''submit''
        \<and> cid = er_condition_id (tk_request task)
     then cid \<noteq> [] \<and> t < now + 2000000 else is_pending_timeout st t cid)"
proof -
  obtain st1 where run: "run_operation client st c task now = (st1, c', x, evs)"
    and st': "fst (store_task_result st1 k x) = st'"
    using assms by (auto simp: finish_task_def split: prod.splits)
  have same: "is_pending_timeout st' t cid = is_pending_timeout st1 t cid"
    using store_keeps_pending [of st1 k x] st' by (intro pending_same) simp
  show ?thesis
  proof (cases "operation_outcome client c (tk_request task) = Timed_Out")
    case True
    then have "st1 = fst (timeout_result st (tk_request task) (tk_intent task) (tk_queued_at task) [] now)"
      using run_timed_out [OF run] by (metis fst_conv)
    then show ?thesis using True same pending_timeout_result by simp
  next
    case False
    then show ?thesis using same pending_same [OF run_not_timed_out [OF run False]] by simp
  qed
qed

lemma recently_logged:
  "recently_timed_out (submit_timeout r now @ marks) t cid \<longleftrightarrow>
    (if er_action r = ''submit'' \<and> cid = er_condition_id r then cid \<noteq> [] \<and> t < now + 2000000
     else recently_timed_out marks t cid)"
  by (simp add: recently_timed_out_def submit_timeout_def)

lemma pending_iff_recent:
  "executor_timed dstr client cap c0 now st c marks \<Longrightarrow> now \<le> t \<Longrightarrow>
     is_pending_timeout st t cid = recently_timed_out marks t cid"
proof (induction rule: executor_timed.induct)
  case (et_init now)
  then show ?case by (simp add: is_pending_timeout_def recently_timed_out_def new_executor_def)
next
  case (et_begin t0 st c marks now r intent st' out)
  then show ?case using pending_same [OF begin_pending [OF et_begin(3)]] by simp
next
  case (et_finish t0 st c marks now k task st' c' x evs evicted)
  then have "is_pending_timeout st t cid = recently_timed_out marks t cid" by simp
  then show ?case
    using finish_pending [OF et_finish(4), of t cid] by (simp add: recently_logged)
next
  case (et_give_up t0 st c marks now r intent started reason)
  then show ?case using pending_timeout_result recently_logged by simp
next
  case (et_clear t0 st c marks now cid')
  then show ?case
    by (auto simp: clear_pending_timeout_def is_pending_timeout_def dict_get_pop split: option.splits)
qed

text \<open>
  C14: In every interleaving of the executor, a submit is refused, without a call to the client
  or a change of state, exactly when the last submit of its condition that timed out did so less
  than two seconds ago; otherwise it is executed. A submit can time out twice, when its waiter gives
  up and again when the shielded task does: the two seconds count from the later one. A
  request without a condition is never refused.
\<close>

theorem timeout_blocks_condition:
  assumes "executor_timed dstr client cap c0 now st c marks" "now \<le> t"
  shows "executor_submit dstr client st c j t w t' =
    (if recently_timed_out marks t (intent_condition_id j)
     then (st, c, pending_timeout_skip_result j t, [])
     else execute dstr client st c (build_submit_request dstr j) (Tradable j) t w t')"
  using pending_iff_recent [OF assms] by (simp add: executor_submit_def)

subsection \<open>The events of an operation\<close>

lemma settle_events:
  assumes "settle st task now outcome = (st', x, evs)"
  obtains "map xe_event_type evs = [''order_state_updated'']" "rs_status x = UNKNOWN_TIMEOUT" "outcome = Timed_Out"
      "evs = [result_event ''order_state_updated'' (tk_request task) x]"
  | ty where "evs = [result_event ty (tk_request task) x, result_event ''order_state_updated'' (tk_request task) x]"
      "ty = final_event_type (er_action (tk_request task)) (rs_status x)"
  using assms
  by (auto simp: settle_def Let_def timeout_result_def failure_result_def request_result_def new_result_def
      final_event_type_def result_event_def lifecycle_event_def split: adapter_outcome.splits)

lemma run_operation_cases:
  assumes "run_operation client st c task now = (st', c', x, evs)"
  obtains (unsigned) outcome post where "evs = opening_event (tk_request task) @ post"
      "settle st task now outcome = (st', x, post)" "\<And>a. outcome \<noteq> Answered a"
  | (signed) why outcome post where "evs = opening_event (tk_request task)
        @ lifecycle_event ''order_signed'' (tk_request task) why None None # post"
      "settle st task now outcome = (st', x, post)"
proof (cases "sign_step client c (tk_request task)")
  case (Pair c1 out)
  show thesis
  proof (cases out)
    case (Answered signed)
    then show thesis using assms Pair signed
      by (auto simp: run_operation_def Let_def split: prod.splits)
  next
    case Timed_Out
    then show thesis using assms Pair unsigned [of _ Timed_Out]
      by (auto simp: run_operation_def Let_def split: prod.splits)
  next
    case (Raised e)
    then show thesis using assms Pair unsigned [of _ "Raised e"]
      by (auto simp: run_operation_def Let_def split: prod.splits)
  qed
qed

lemma result_event_type [simp]: "xe_event_type (result_event ty r x) = ty"
  by (simp add: result_event_def lifecycle_event_def)

text \<open>
  The audit trail of an operation: it always ends with the state of the result; a result
  that was refused or failed is announced as rejected before that, and any other answer only
  after the order was signed, under the name of its action; no two events of one operation
  share an idempotency key.
\<close>

lemma operation_trail:
  assumes "run_operation client st c task now = (st', c', x, evs)"
    and "er_action (tk_request task) \<in> {''submit'', ''cancel'', ''replace''}"
  shows "last evs = result_event ''order_state_updated'' (tk_request task) x
    \<and> distinct (map xe_idempotency_key evs)
    \<and> (rs_status x \<in> {REJECTED, FAILED} \<longrightarrow> ''order_rejected'' \<in> set (map xe_event_type evs))
    \<and> (rs_status x \<notin> {REJECTED, FAILED, UNKNOWN_TIMEOUT} \<longrightarrow>
         map xe_event_type evs =
           [if er_action (tk_request task) = ''submit'' then ''order_created'' else ''order_cancel_requested'',
            ''order_signed'', final_event_type (er_action (tk_request task)) (rs_status x),
            ''order_state_updated''])"
proof -
  let ?r = "tk_request task"
  have op: "\<exists>e. opening_event ?r = [e] \<and> xe_idempotency_key e = er_idempotency_key ?r @ '':'' @ xe_event_type e
      \<and> xe_event_type e = (if er_action ?r = ''submit'' then ''order_created'' else ''order_cancel_requested'')"
    using assms(2) by (auto simp: opening_event_def lifecycle_event_def)
  have fin: "final_event_type a s \<in> {''order_rejected'', ''order_cancelled'', ''replace_order_submitted'', ''order_submitted''}"
    "s \<in> {REJECTED, FAILED} \<Longrightarrow> final_event_type a s = ''order_rejected''" for a s
    by (auto simp: final_event_type_def)
  have settled: "last post = result_event ''order_state_updated'' ?r x
      \<and> (post = [result_event ''order_state_updated'' ?r x] \<and> rs_status x = UNKNOWN_TIMEOUT
         \<or> post = [result_event (final_event_type (er_action ?r) (rs_status x)) ?r x,
                   result_event ''order_state_updated'' ?r x])"
    if "settle st task now outcome = (st', x, post)" for outcome post
    using that by (cases rule: settle_events) auto
  have failed: "rs_status x \<in> {FAILED, UNKNOWN_TIMEOUT}"
    if "settle st task now outcome = (st', x, post)" "\<And>a. outcome \<noteq> Answered a" for outcome post
    using that by (cases outcome) (auto simp: settle_def Let_def failure_result_def request_result_def
        new_result_def timeout_result_def)
  show ?thesis
    using assms(1)
  proof (cases rule: run_operation_cases)
    case (unsigned outcome post)
    show ?thesis
      using op settled [OF unsigned(2)] failed [OF unsigned(2,3)] fin(1) [of "er_action ?r" "rs_status x"]
        fin(2) [of "rs_status x" "er_action ?r"] unfolding unsigned(1)
      by (auto simp: lifecycle_event_def result_event_def split: if_splits)
  next
    case (signed why outcome post)
    show ?thesis
      using op settled [OF signed(2)] fin(1) [of "er_action ?r" "rs_status x"]
        fin(2) [of "rs_status x" "er_action ?r"] unfolding signed(1)
      by (auto simp: lifecycle_event_def result_event_def split: if_splits)
  qed
qed

subsection \<open>Examples\<close>

definition demo_text :: "decimal \<Rightarrow> string" where
  "demo_text d = (if d = 1/2 then ''0.5'' else ''10'')"

definition demo_intent :: "string \<Rightarrow> order_intent" where
  "demo_intent trace = BuyIntent (buy_order trace ''c'' ''tok'' (1/2) 10)"

definition demo_submit :: "string \<Rightarrow> execution_request" where
  "demo_submit trace = build_submit_request demo_text (demo_intent trace)"

definition demo_begun :: "nat \<Rightarrow> executor" where
  "demo_begun cap = fst (begin_execute demo_text (new_executor cap) (demo_submit ''t'') (Tradable (demo_intent ''t'')) 0)"

definition demo_task :: execution_task where
  "demo_task = \<lparr>tk_request = demo_submit ''t'', tk_intent = Tradable (demo_intent ''t''), tk_queued_at = 0\<rparr>"

definition demo_finish :: "nat \<Rightarrow> executor \<times> (string \<times> execution_request) list \<times> order_result \<times> execution_event list \<times> string list" where
  "demo_finish cap = finish_task (Some memory_client) (demo_begun cap) []
     (er_idempotency_key (demo_submit ''t'')) demo_task 1"

lemma demo_begin:
  "begin_execute demo_text (new_executor cap) (demo_submit ''t'') (Tradable (demo_intent ''t'')) 0
    = (demo_begun cap, Started)"
  "dict_get (ex_inflight (demo_begun cap)) (er_idempotency_key (demo_submit ''t'')) = Some demo_task"
  by (simp_all add: demo_begun_def begin_execute_def new_executor_def Let_def demo_task_def dict_get_set)

lemma demo_reachable:
  "executor_reachable demo_text (Some memory_client) cap [] (demo_begun cap) []
     [Started_Key (er_idempotency_key (demo_submit ''t''))]"
  using ex_begin [OF ex_init demo_begin(1)] by simp

lemma demo_finished:
  "executor_reachable demo_text (Some memory_client) cap [] (fst (demo_finish cap)) (fst (snd (demo_finish cap)))
     (Started_Key (er_idempotency_key (demo_submit ''t'')) # map Evicted_Key (snd (snd (snd (snd (demo_finish cap))))))"
proof -
  obtain st c x evs ev where f: "demo_finish cap = (st, c, x, evs, ev)" by (metis prod_cases5)
  show ?thesis
    using ex_finish [OF demo_reachable demo_begin(2) f [unfolded demo_finish_def]] by (simp add: f)
qed

theorem executor_runs_once_witness:
  "(let k = er_idempotency_key (demo_submit ''t'');
        trail = Started_Key k # map Evicted_Key (snd (snd (snd (snd (demo_finish 0)))))
    in count_list trail (Started_Key k) = 1 \<and> count_list trail (Evicted_Key k) = 1)"
proof -
  let ?k = "er_idempotency_key (demo_submit ''t'')"
  have "dict_get (ex_index (fst (demo_finish 0))) ?k = None" by code_simp
  then show ?thesis using executor_runs_once [OF demo_finished [of 0], of ?k] by (simp add: Let_def)
qed

definition demo_execute :: "executor \<times> (string \<times> execution_request) list \<times> order_result \<times> execution_event list" where
  "demo_execute = execute demo_text (Some memory_client) (new_executor 2) [] (demo_submit ''t'')
     (Tradable (demo_intent ''t'')) 0 In_Time 1"

theorem execute_idempotent_witness:
  "rs_status (fst (snd (snd demo_execute))) = NO_FILL
   \<and> execute demo_text (Some memory_client) (fst demo_execute) (fst (snd demo_execute)) (demo_submit ''t'')
      (Tradable (demo_intent ''t'')) 7 In_Time 8
    = (fst demo_execute, fst (snd demo_execute), fst (snd (snd demo_execute)), [])"
proof -
  obtain st c x evs where e: "demo_execute = (st, c, x, evs)" by (metis prod_cases4)
  have n: "dict_get (ex_index (new_executor 2)) (er_idempotency_key (demo_submit ''t'')) = None"
    by (simp add: new_executor_def)
  have "rs_status (fst (snd (snd demo_execute))) = NO_FILL" by code_simp
  then show ?thesis
    using execute_idempotent [OF ex_init _ e [unfolded demo_execute_def] n refl, of "Tradable (demo_intent ''t'')" 7 In_Time 8]
    by (simp add: e)
qed

definition poor_client :: "nat adapter" where
  "poor_client name n r = (n + 1, if name = ''replace_order''
     then Answered (Typed_Response (plain_response REJECTED ''Not enough balance / allowance''))
     else Answered (Opaque_Answer None))"

definition demo_replace :: replace_intent where
  "demo_replace = \<lparr>ri_trace_id = ''t'', ri_condition_id = ''c'', ri_token_id = ''tok'', ri_order_id = ''o'',
     ri_new_price = 1/2, ri_size_shares = 10, ri_market_slug = None, ri_idempotency_key = None,
     ri_reason = ''reprice'', ri_side = Some SELL\<rparr>"

theorem replace_never_retries_witness:
  "let out = executor_replace demo_text (Some poor_client) (new_executor 2) 0 demo_replace 0 In_Time 1 2 In_Time 3
   in fst (snd out) = 2 \<and> retry_replacement (fst (snd (snd out)))"
proof -
  have e: "let out = execute demo_text (Some poor_client) (new_executor 2) 0
      (build_replace_request demo_text demo_replace) (Replacing demo_replace) 0 In_Time 1
    in fst (snd out) = 2 \<and> retry_replacement (fst (snd (snd out)))" by code_simp
  have s: "executor_replace demo_text (Some poor_client) (new_executor 2) 0 demo_replace 0 In_Time 1 2 In_Time 3
      = execute demo_text (Some poor_client) (new_executor 2) 0
          (build_replace_request demo_text demo_replace) (Replacing demo_replace) 0 In_Time 1"
    by (rule replace_never_retries [OF ex_init]) simp
  show ?thesis using e unfolding s .
qed

definition silent_client :: "nat adapter" where
  "silent_client name n r =
     (n + 1, if name = ''sign_order'' then Answered (Opaque_Answer None) else Timed_Out)"

text \<open>
  The waiter gives up after one second, the shielded task times out half a second later: the
  condition is blocked for two seconds from then, not from the report.
\<close>

definition silent_given_up :: executor where
  "silent_given_up = fst (timeout_result (demo_begun 2) (demo_submit ''t'') (Tradable (demo_intent ''t'')) 0 [] 1000000)"

definition demo_silent :: "executor \<times> nat \<times> order_result \<times> execution_event list \<times> string list" where
  "demo_silent = finish_task (Some silent_client) silent_given_up 0 (er_idempotency_key (demo_submit ''t'')) demo_task 1500000"

lemma demo_silent_timed:
  "executor_timed demo_text (Some silent_client) 2 0 1500000 (fst demo_silent) (fst (snd demo_silent))
     [(''c'', 1500000), (''c'', 1000000)]"
proof -
  have v: "operation_outcome (Some silent_client) 0 (tk_request demo_task) = Timed_Out"
    "submit_timeout (tk_request demo_task) 1500000 = [(''c'', 1500000)]"
    "submit_timeout (demo_submit ''t'') 1000000 = [(''c'', 1000000)]"
    "dict_get (ex_inflight silent_given_up) (er_idempotency_key (demo_submit ''t'')) = Some demo_task"
    by code_simp+
  have b: "executor_timed demo_text (Some silent_client) 2 0 0 (demo_begun 2) 0 []"
    by (rule et_begin [OF et_init order_refl demo_begin(1)])
  have g: "executor_timed demo_text (Some silent_client) 2 0 1000000 silent_given_up 0 [(''c'', 1000000)]"
    using et_give_up [OF b, of 1000000 "demo_submit ''t''"] by (simp add: silent_given_up_def v(3))
  obtain st c x evs ev where e: "demo_silent = (st, c, x, evs, ev)" by (metis prod_cases5)
  from et_finish [OF g _ v(4) e [unfolded demo_silent_def]] show ?thesis by (simp add: v(1,2) e)
qed

theorem timeout_blocks_condition_witness:
  "executor_submit demo_text (Some silent_client) (fst demo_silent) (fst (snd demo_silent)) (demo_intent ''u'')
       3499999 In_Time 3500000
     = (fst demo_silent, fst (snd demo_silent), pending_timeout_skip_result (demo_intent ''u'') 3499999, [])
   \<and> executor_submit demo_text (Some silent_client) (fst demo_silent) (fst (snd demo_silent)) (demo_intent ''u'')
       3500000 In_Time 3600000
     = execute demo_text (Some silent_client) (fst demo_silent) (fst (snd demo_silent))
         (build_submit_request demo_text (demo_intent ''u'')) (Tradable (demo_intent ''u'')) 3500000 In_Time 3600000"
proof -
  have c: "intent_condition_id (demo_intent ''u'') = ''c''" by code_simp
  show ?thesis
    using timeout_blocks_condition [OF demo_silent_timed, of 3499999 "demo_intent ''u''" In_Time 3500000]
      timeout_blocks_condition [OF demo_silent_timed, of 3500000 "demo_intent ''u''" In_Time 3600000]
    by (simp add: c recently_timed_out_def)
qed

end
