(* ===== verification/Executor_Clients.thy ===== *)
theory Executor_Clients
  imports Order_Executor
begin

text \<open>
  What the executor keeps of its client. The locale \<open>guarded_client\<close> states the contract (a
  property of the client state that signing and the method of the request's action keep) and carries it through every interleaving
  of the executor; the paper client of \<open>app/paper/client.py\<close> is its instance, with the
  invariant of the paper ledger. The markets, the books and the clock that the \<open>n\<close>-th request
  of the paper client sees are the argument \<open>world\<close>.
\<close>

locale guarded_client =
  fixes adapter :: "'c adapter" and good :: "'c \<Rightarrow> bool"
  assumes call_keeps: "good c \<Longrightarrow> name = ''sign_order'' \<or> name = adapter_method_for_action (er_action r)
     \<Longrightarrow> good (fst (adapter name c r))"
begin

lemma operation_keeps:
  assumes "good c" "run_operation (Some adapter) st c task now = (st', c', x, evs)"
  shows "good c'"
proof -
  let ?r = "tk_request task"
  obtain c1 o1 where s: "sign_step (Some adapter) c ?r = (c1, o1)" by fastforce
  have c1: "good c1" using s call_keeps [OF assms(1), of "''sign_order''" ?r] by (simp add: sign_step_def)
  show ?thesis
  proof (cases o1)
    case (Answered signed)
    obtain c2 o2 where a: "adapter (adapter_method_for_action (er_action ?r)) c1 ?r = (c2, o2)" by fastforce
    then have "good c2" using call_keeps [OF c1, of "adapter_method_for_action (er_action ?r)" ?r] by simp
    moreover have "c2 = c'"
      using assms(2) s a Answered by (auto simp: run_operation_def call_adapter_def Let_def split: prod.splits)
    ultimately show ?thesis by simp
  qed (use assms(2) s c1 in \<open>auto simp: run_operation_def Let_def split: prod.splits\<close>)
qed

lemma reachable_keeps:
  "executor_reachable dstr (Some adapter) cap c0 st c trail \<Longrightarrow> good c0 \<Longrightarrow> good c"
proof (induction rule: executor_reachable.induct)
  case (ex_finish st c trail k task now st' c' x evs evicted)
  then obtain st1 evs1 where "run_operation (Some adapter) st c task now = (st1, c', x, evs1)"
    by (auto simp: finish_task_def split: prod.splits)
  then show ?case using operation_keeps ex_finish by blast
qed auto

lemma execute_keeps:
  assumes "good c" "execute dstr (Some adapter) st c r intent t0 w t1 = (st', c', x, evs)"
  shows "good c'"
proof -
  obtain st1 out where b: "begin_execute dstr st r intent t0 = (st1, out)" by fastforce
  have aw: "good c'" if "await_task (Some adapter) st1 c r intent t0 w t1 = (st', c', x, evs)"
  proof (cases "w = In_Time \<and> dict_get (ex_inflight st1) (er_idempotency_key r) \<noteq> None")
    case True
    then obtain task where task: "dict_get (ex_inflight st1) (er_idempotency_key r) = Some task" by blast
    obtain st2 c2 y evs2 where run: "run_operation (Some adapter) st1 c task t1 = (st2, c2, y, evs2)"
      by (metis prod_cases4)
    have "c2 = c' \<and> y = x \<and> evs2 = evs"
      using that True task run by (auto simp: await_task_def finish_task_def split: prod.splits)
    with run have "run_operation (Some adapter) st1 c task t1 = (st2, c', x, evs)" by simp
    then show ?thesis using operation_keeps [OF assms(1)] by blast
  next
    case False
    then show ?thesis using that assms(1)
      by (cases w) (auto simp: await_task_def split: prod.splits option.splits)
  qed
  show ?thesis using assms b aw by (cases out) (simp_all add: execute_def)
qed

end

subsection \<open>The paper client behind the executor\<close>

text \<open>\<open>str(exc)\<close> for the exceptions of the model.\<close>

fun error_text :: "py_error \<Rightarrow> string" where
  "error_text (ValueError s) = s"
| "error_text (KeyError s) = CHR 0x27 # s @ [CHR 0x27]"
| "error_text InvalidOperation = ''[<class 'decimal.InvalidOperation'>]''"
| "error_text DivisionByZero = ''[<class 'decimal.DivisionByZero'>]''"
| "error_text (LibraryError s) = s"

definition answer_of :: "'c \<times> execution_response result \<Rightarrow> 'c \<times> adapter_outcome" where
  "answer_of p = (fst p, case snd p of Inl e \<Rightarrow> Raised (error_text e) | Inr x \<Rightarrow> Answered (Typed_Response x))"

type_synonym paper_world = "nat \<Rightarrow> (string \<Rightarrow> market option) \<times> (string \<Rightarrow> book option) \<times> int"

definition paper_adapter ::
  "paper_world \<Rightarrow> (execution_request \<Rightarrow> execution_response result) option \<Rightarrow> paper_client adapter" where
  "paper_adapter world sign name c r =
     (case world (length (pc_requests c)) of (markets, books, now) \<Rightarrow>
        if name = ''sign_order'' then answer_of (sign_order sign c r)
        else if name = ''cancel_order'' then answer_of (apsnd Inr (cancel_order c r))
        else if name = ''replace_order'' then answer_of (replace_order markets books c now r)
        else answer_of (submit_order markets books c now r))"

text \<open>A match that filled something also moved some cash.\<close>

definition cash_for_shares :: "match_state \<Rightarrow> bool" where
  "cash_for_shares st \<longleftrightarrow> (ms_filled st = 0 \<and> ms_cash st = 0) \<or> (0 < ms_filled st \<and> 0 < ms_cash st)"

lemma cash_consume:
  assumes "cash_for_shares st" "0 < s" "0 < lv_price l"
  shows "cash_for_shares (consume_level st l s used)"
proof -
  have "0 < dmul s (lv_price l)" using assms by (intro dmul_pos)
  then show ?thesis using assms by (auto simp: cash_for_shares_def consume_level_def Let_def dadd_pos')
qed

lemma buy_loop_cash: "cash_for_shares st \<Longrightarrow> cash_for_shares (match_buy_loop limit st ls)"
proof (induction limit st ls rule: match_buy_loop.induct)
  case (1 limit st)
  then show ?case by (simp add: match_buy_loop.simps)
next
  case (2 limit st l ls)
  let ?s = "min (lv_size l) (ddiv (ms_remaining st) (lv_price l))"
  show ?case
  proof (cases "above_limit limit l \<or> ?s \<le> 0")
    case True
    then show ?thesis using 2 by (auto simp: match_buy_loop.simps(2) Let_def)
  next
    case False
    show ?thesis
    proof (cases "lv_price l \<le> 0 \<or> lv_size l \<le> 0")
      case True
      then show ?thesis using 2(1,3) False by (simp add: match_buy_loop.simps(2))
    next
      case pos: False
      define st' where "st' = consume_level st l ?s (dmul ?s (lv_price l))"
      have st': "cash_for_shares st'" unfolding st'_def by (rule cash_consume [OF 2(3)]) (use False pos in auto)
      then have "cash_for_shares (st'\<lparr>ms_remaining := 0\<rparr>)" by (simp add: cash_for_shares_def)
      moreover have "\<not> ms_remaining st' \<le> 0 \<Longrightarrow> cash_for_shares (match_buy_loop limit st' ls)"
        using 2(2) [OF _ pos refl _ st'_def _ st'] False by blast
      ultimately show ?thesis
        using False pos by (simp add: match_buy_loop.simps(2) Let_def flip: st'_def)
    qed
  qed
qed

lemma match_buy_cash: "is_filled (match_taker_buy ob a p) \<Longrightarrow> 0 < mr_gross_notional_usdc (match_taker_buy ob a p)"
  using buy_loop_cash [of "match_start a" p "sort_key lv_price (ob_asks (the ob))"]
  by (cases ob) (auto simp: match_taker_buy_def is_filled_def cash_for_shares_def match_start_def Let_def)

lemma ledger_ok_simulate_buy:
  assumes "ledger_ok l" shows "ledger_ok (fst (simulate_buy r now mk ob l))"
  using assms match_buy_cash [of ob "decimal_or_zero (er_amount_usdc r)" "er_price r"]
  by (auto simp: simulate_buy_def Let_def split: sum.split intro!: ledger_ok_buy)

lemma ledger_ok_simulate_sell:
  assumes "ledger_ok l" shows "ledger_ok (fst (simulate_sell r now mk ob l))"
proof -
  have s: "ledger_ok l'" if "apply_sell_fill l now tok g n f = (l', x)" for tok g n f l' x
    using ledger_ok_sell [OF assms, of now tok g n f] that by simp
  show ?thesis using assms s by (auto simp: simulate_sell_def Let_def split: sum.split prod.split)
qed

lemma ledger_ok_simulate: "ledger_ok l \<Longrightarrow> ledger_ok (fst (simulate_fill r now mk ob l))"
  by (auto simp: simulate_fill_def ledger_ok_simulate_buy ledger_ok_simulate_sell
      split: option.split order_side.split)

lemma ledger_ok_run:
  assumes "ledger_ok (pc_ledger c)" shows "ledger_ok (pc_ledger (fst (run_simulation markets books c now trace r)))"
  using ledger_ok_simulate [OF assms, of r now "markets (er_token_id r)" "books (er_token_id r)"]
  by (auto simp: run_simulation_def split: prod.split sum.split)

interpretation paper_guard: guarded_client "paper_adapter world sign" "\<lambda>c. ledger_ok (pc_ledger c)"
  for world sign
  by unfold_locales
    (auto simp: paper_adapter_def answer_of_def sign_order_def cancel_order_def submit_order_def
      replace_order_def log_request_def split: prod.split intro!: ledger_ok_run)

text \<open>
  C32: The books of the paper exchange stay sound behind the executor: whatever requests arrive,
  in whatever interleaving, with whatever timeouts, repeated keys, markets and order books, the
  ledger keeps its invariant (every position and cost is positive, a token without position has
  no cost and no statistics, the histories are bounded).
\<close>

theorem paper_ledger_behind_executor:
  assumes "executor_reachable dstr (Some (paper_adapter world sign)) cap c0 st c trail"
    and "ledger_ok (pc_ledger c0)"
  shows "ledger_ok (pc_ledger c)"
  using assms by (rule paper_guard.reachable_keeps)

definition demo_world :: paper_world where
  "demo_world n = (\<lambda>tok. None, \<lambda>tok. Some match_book, int n)"

definition paper_demo_finish ::
  "executor \<times> paper_client \<times> order_result \<times> execution_event list \<times> string list" where
  "paper_demo_finish = finish_task (Some (paper_adapter demo_world None)) (demo_begun 2) (new_paper_client (Some demo_ledger))
     (er_idempotency_key (demo_submit ''t'')) demo_task 1"

theorem paper_ledger_behind_executor_witness:
  "ledger_ok (pc_ledger (fst (snd paper_demo_finish)))
   \<and> length (pc_requests (fst (snd paper_demo_finish))) = 2
   \<and> rs_status (fst (snd (snd paper_demo_finish))) = NO_FILL"
proof -
  let ?c = "new_paper_client (Some demo_ledger)"
  obtain st c x evs ev where f: "paper_demo_finish = (st, c, x, evs, ev)" by (metis prod_cases5)
  have "executor_reachable demo_text (Some (paper_adapter demo_world None)) 2 ?c (demo_begun 2) ?c
     ([] @ (if Started = Started then [Started_Key (er_idempotency_key (demo_submit ''t''))] else []))"
    by (rule ex_begin [OF ex_init demo_begin(1)])
  note r = ex_finish [OF this demo_begin(2) f [unfolded paper_demo_finish_def]]
  have "ledger_ok (pc_ledger ?c)"
    "length (pc_requests (fst (snd paper_demo_finish))) = 2"
    "rs_status (fst (snd (snd paper_demo_finish))) = NO_FILL" by code_simp+
  then show ?thesis using paper_ledger_behind_executor [OF r] by (simp add: f)
qed

end
