(* ===== verification/Order_Gateway.thy ===== *)
theory Order_Gateway
  imports Risk Executor_Clients
begin

text \<open>
  \<open>pipeline/execution/order_gateway.py\<close>: the mandatory risk gate in front of the executor. The
  executor is an interface over a state of its own: three operations that return a result or
  raise. Published are at most one risk rejection, for the audit, and one notice on the
  lifecycle bus; tags, event identifiers and the text form of the amounts are left out.
\<close>

record 's order_executor =
  xp_submit :: "'s \<Rightarrow> order_intent \<Rightarrow> 's \<times> (string + order_result)"
  xp_cancel :: "'s \<Rightarrow> cancel_intent \<Rightarrow> 's \<times> (string + order_result)"
  xp_replace :: "'s \<Rightarrow> replace_intent \<Rightarrow> 's \<times> (string + order_result)"

record 's gateway =
  gw_executor :: "'s order_executor option"
  gw_has_lifecycle_bus :: bool
  gw_has_event_bus :: bool

datatype lifecycle_kind = LC_SUBMITTED | LC_FILLED | LC_REJECTED | LC_CANCELLED

record lifecycle_notice =
  ln_event :: lifecycle_kind
  ln_trace_id :: string
  ln_condition_id :: string
  ln_token_id :: string
  ln_market_slug :: "string option"
  ln_operation :: string
  ln_result :: order_result

record risk_rejection =
  rr_trace_id :: string
  rr_market_slug :: "string option"
  rr_condition_id :: string
  rr_token_id :: string
  rr_reason :: string
  rr_failed_field :: "string option"
  rr_checks :: "(string \<times> bool \<times> string \<times> string option \<times> string \<times> bool) list"
  rr_side :: "order_side option"
  rr_operation :: string

record gateway_review =
  gr_intent :: managed_intent
  gr_operation :: string
  gr_risk_decision :: "risk_decision option"
  gr_submitted :: bool
  gr_order_result :: order_result
  gr_submission_error :: "string option"

definition review_ok :: "gateway_review \<Rightarrow> bool" where
  "review_ok v = (case gr_risk_decision v of Some d \<Rightarrow> rd_passed d | None \<Rightarrow> gr_submitted v)"

text \<open>The fields every intent has.\<close>

fun managed_trace_id :: "managed_intent \<Rightarrow> string" where
  "managed_trace_id (Tradable i) = intent_trace_id i"
| "managed_trace_id (Cancelling c) = ci_trace_id c"
| "managed_trace_id (Replacing r) = ri_trace_id r"

fun managed_condition_id :: "managed_intent \<Rightarrow> string" where
  "managed_condition_id (Tradable i) = intent_condition_id i"
| "managed_condition_id (Cancelling c) = ci_condition_id c"
| "managed_condition_id (Replacing r) = ri_condition_id r"

fun managed_token_id :: "managed_intent \<Rightarrow> string" where
  "managed_token_id (Tradable i) = intent_token_id i"
| "managed_token_id (Cancelling c) = ci_token_id c"
| "managed_token_id (Replacing r) = ri_token_id r"

fun managed_market_slug :: "managed_intent \<Rightarrow> string option" where
  "managed_market_slug (Tradable i) = intent_market_slug i"
| "managed_market_slug (Cancelling c) = ci_market_slug c"
| "managed_market_slug (Replacing r) = ri_market_slug r"

definition synthetic_order_result ::
  "managed_intent \<Rightarrow> order_result_status \<Rightarrow> string \<Rightarrow> bool \<Rightarrow> order_result" where
  "synthetic_order_result intent status reason retryable =
     (let base = (new_result (managed_trace_id intent) (managed_condition_id intent) (managed_token_id intent) status)
            \<lparr>rs_intent := Some intent, rs_market_slug := managed_market_slug intent, rs_reason := reason,
             rs_retryable := retryable\<rparr>
      in case intent of
           Tradable i \<Rightarrow> base\<lparr>rs_side := Some (intent_side i), rs_order_type := Some (intent_order_type i),
             rs_price := Some (intent_price i), rs_requested_amount_usdc := intent_amount_usdc i,
             rs_requested_size_shares := intent_size_shares i, rs_notional_usdc := intent_notional_usdc i\<rparr>
         | _ \<Rightarrow> base)"

subsection \<open>Publishing\<close>

definition lifecycle_kind_of ::
  "string \<Rightarrow> risk_decision option \<Rightarrow> order_result_status \<Rightarrow> lifecycle_kind option" where
  "lifecycle_kind_of operation decision status =
     (if operation = ''cancel'' \<or> operation = ''replace''
      then if status \<in> {CANCELLED, FULL_FILL, PARTIAL_FILL} then Some LC_CANCELLED
           else if status \<in> {REJECTED, FAILED} then Some LC_REJECTED
           else None
      else if (case decision of None \<Rightarrow> False | Some d \<Rightarrow> \<not> rd_passed d) then Some LC_REJECTED
      else if status \<in> {FULL_FILL, PARTIAL_FILL} then Some LC_FILLED
      else if status = LIVE then Some LC_SUBMITTED
      else if status = CANCELLED then Some LC_CANCELLED
      else if status \<in> {REJECTED, FAILED} then Some LC_REJECTED
      else None)"

definition publish_lifecycle ::
  "'s gateway \<Rightarrow> managed_intent \<Rightarrow> string \<Rightarrow> risk_decision option \<Rightarrow> order_result \<Rightarrow> lifecycle_notice option" where
  "publish_lifecycle gw intent operation decision r =
     (if \<not> gw_has_lifecycle_bus gw then None
      else map_option (\<lambda>k. \<lparr>ln_event = k, ln_trace_id = managed_trace_id intent,
             ln_condition_id = managed_condition_id intent, ln_token_id = managed_token_id intent,
             ln_market_slug = managed_market_slug intent, ln_operation = operation, ln_result = r\<rparr>)
           (lifecycle_kind_of operation decision (rs_status r)))"

definition publish_risk_rejection ::
  "'s gateway \<Rightarrow> order_intent \<Rightarrow> risk_decision \<Rightarrow> string \<Rightarrow> risk_rejection option" where
  "publish_risk_rejection gw i d operation =
     (if \<not> gw_has_event_bus gw then None
      else Some \<lparr>rr_trace_id = intent_trace_id i, rr_market_slug = intent_market_slug i,
        rr_condition_id = intent_condition_id i, rr_token_id = intent_token_id i,
        rr_reason = (if rd_reason d = [] then ''risk_rejected'' else rd_reason d),
        rr_failed_field = rd_failed_field d,
        rr_checks = map (\<lambda>c. (rc_name c, rc_passed c, rc_reason c, rc_field c, rc_suggested_action c,
                              rc_retryable c)) (rd_checks d),
        rr_side = Some (intent_side i), rr_operation = operation\<rparr>)"

subsection \<open>Execution\<close>

definition executed ::
  "managed_intent \<Rightarrow> 's \<times> (string + order_result) \<Rightarrow> 's \<times> order_result \<times> bool \<times> string option" where
  "executed intent p =
     (case p of
        (s', Inr r) \<Rightarrow> (s', r, True, None)
      | (s', Inl e) \<Rightarrow> (s', synthetic_order_result intent FAILED e True, True, Some e))"

definition executor_unavailable ::
  "'s \<Rightarrow> managed_intent \<Rightarrow> 's \<times> order_result \<times> bool \<times> string option" where
  "executor_unavailable s intent =
     (s, synthetic_order_result intent FAILED ''executor_unavailable'' True, False, None)"

definition execute_trade_intent ::
  "'s gateway \<Rightarrow> 's \<Rightarrow> order_intent \<Rightarrow> 's \<times> order_result \<times> bool \<times> string option" where
  "execute_trade_intent gw s i =
     (case gw_executor gw of
        None \<Rightarrow> executor_unavailable s (Tradable i)
      | Some x \<Rightarrow> executed (Tradable i) (xp_submit x s i))"

text \<open>Cancels and replacements.\<close>

type_synonym control = "cancel_intent + replace_intent"

fun managed_control :: "control \<Rightarrow> managed_intent" where
  "managed_control (Inl c) = Cancelling c"
| "managed_control (Inr r) = Replacing r"

definition execute_control_intent ::
  "'s gateway \<Rightarrow> 's \<Rightarrow> control \<Rightarrow> 's \<times> order_result \<times> bool \<times> string option" where
  "execute_control_intent gw s intent =
     (case gw_executor gw of
        None \<Rightarrow> executor_unavailable s (managed_control intent)
      | Some x \<Rightarrow> executed (managed_control intent)
          (case intent of Inl c \<Rightarrow> xp_cancel x s c | Inr r \<Rightarrow> xp_replace x s r))"

text \<open>An exception of the risk manager leaves the review; nothing was executed or published.\<close>

definition review_intent ::
  "'s gateway \<Rightarrow> 's \<Rightarrow> order_intent \<Rightarrow> risk_args \<Rightarrow> string
   \<Rightarrow> 's \<times> (gateway_review \<times> risk_rejection option \<times> lifecycle_notice option) result" where
  "review_intent gw s i args operation =
     (case check_order_intent i args of
        Inl e \<Rightarrow> (s, Inl e)
      | Inr d \<Rightarrow>
          (case (if rd_passed d then execute_trade_intent gw s i
                 else (s, synthetic_order_result (Tradable i) REJECTED (rd_reason d) (rd_retryable d), False, None)) of
             (s', r, submitted, err) \<Rightarrow>
               (s', Inr (\<lparr>gr_intent = Tradable i, gr_operation = operation, gr_risk_decision = Some d,
                          gr_submitted = submitted, gr_order_result = r, gr_submission_error = err\<rparr>,
                         if rd_passed d then None else publish_risk_rejection gw i d operation,
                         publish_lifecycle gw (Tradable i) operation (Some d) r))))"

definition control_intent ::
  "'s gateway \<Rightarrow> 's \<Rightarrow> control \<Rightarrow> string \<Rightarrow> 's \<times> gateway_review \<times> lifecycle_notice option" where
  "control_intent gw s intent operation =
     (case execute_control_intent gw s intent of
        (s', r, submitted, err) \<Rightarrow>
          (s', \<lparr>gr_intent = managed_control intent, gr_operation = operation, gr_risk_decision = None,
                gr_submitted = submitted, gr_order_result = r, gr_submission_error = err\<rparr>,
           publish_lifecycle gw (managed_control intent) operation None r))"

definition gateway_buy ::
  "'s gateway \<Rightarrow> 's \<Rightarrow> buy_intent \<Rightarrow> risk_args
   \<Rightarrow> 's \<times> (gateway_review \<times> risk_rejection option \<times> lifecycle_notice option) result" where
  "gateway_buy gw s b args = review_intent gw s (BuyIntent b) args ''buy''"

definition gateway_sell ::
  "'s gateway \<Rightarrow> 's \<Rightarrow> sell_intent \<Rightarrow> risk_args
   \<Rightarrow> 's \<times> (gateway_review \<times> risk_rejection option \<times> lifecycle_notice option) result" where
  "gateway_sell gw s x args = review_intent gw s (SellIntent x) args ''sell''"

definition gateway_cancel :: "'s gateway \<Rightarrow> 's \<Rightarrow> cancel_intent \<Rightarrow> 's \<times> gateway_review \<times> lifecycle_notice option" where
  "gateway_cancel gw s c = control_intent gw s (Inl c) ''cancel''"

definition gateway_replace :: "'s gateway \<Rightarrow> 's \<Rightarrow> replace_intent \<Rightarrow> 's \<times> gateway_review \<times> lifecycle_notice option" where
  "gateway_replace gw s r = control_intent gw s (Inr r) ''replace''"

subsection \<open>Sequences of calls\<close>

datatype gateway_call = Review order_intent risk_args string | Control control string

fun gateway_step :: "'s gateway \<Rightarrow> 's \<Rightarrow> gateway_call \<Rightarrow> 's" where
  "gateway_step gw s (Review i args operation) = fst (review_intent gw s i args operation)"
| "gateway_step gw s (Control intent operation) = fst (control_intent gw s intent operation)"

definition risk_passes :: "order_intent \<Rightarrow> risk_args \<Rightarrow> bool" where
  "risk_passes i args = (case check_order_intent i args of Inl e \<Rightarrow> False | Inr d \<Rightarrow> rd_passed d)"

lemma risk_passes_iff:
  "risk_passes i args \<longleftrightarrow>
     market_admits i (ra_market args) (ra_position args) (ra_flags args)
     \<and> (intent_side i = SELL \<or> buy_affordable i args \<and> (intent_order_type i = FAK \<or> intent_post_only i))"
  using check_order_intent_passed_iff [of i args] by (auto simp: risk_passes_def split: sum.splits)

text \<open>
  The contract between the gateway and an executor: cancels and replacements keep a property of
  the executor's state, and a submit keeps it for the intents that may be submitted.
\<close>

locale guarded_executor =
  fixes ex :: "'s order_executor" and good :: "'s \<Rightarrow> bool" and admitted :: "order_intent \<Rightarrow> bool"
  assumes submit_keeps: "good s \<Longrightarrow> admitted i \<Longrightarrow> good (fst (xp_submit ex s i))"
    and cancel_keeps: "good s \<Longrightarrow> good (fst (xp_cancel ex s c))"
    and replace_keeps: "good s \<Longrightarrow> good (fst (xp_replace ex s r))"
begin

lemma fst_executed: "fst (executed intent p) = fst p"
  by (simp add: executed_def split: prod.split sum.split)

lemma review_keeps:
  assumes "gw_executor gw = Some ex" "good s" "risk_passes i args \<Longrightarrow> admitted i"
  shows "good (fst (review_intent gw s i args operation))"
proof (cases "check_order_intent i args")
  case (Inr d)
  show ?thesis
  proof (cases "rd_passed d")
    case True
    then have "admitted i" using assms(3) Inr by (simp add: risk_passes_def)
    then have "good (fst (execute_trade_intent gw s i))"
      using assms(1,2) by (simp add: execute_trade_intent_def fst_executed submit_keeps)
    then show ?thesis using True Inr by (auto simp: review_intent_def split: prod.split)
  qed (simp add: review_intent_def Inr assms(2))
qed (simp add: review_intent_def assms(2))

lemma control_keeps:
  assumes "gw_executor gw = Some ex" "good s"
  shows "good (fst (control_intent gw s intent operation))"
proof -
  have "good (fst (execute_control_intent gw s intent))"
    using assms by (auto simp: execute_control_intent_def fst_executed cancel_keeps replace_keeps split: sum.split)
  then show ?thesis by (auto simp: control_intent_def split: prod.split)
qed

lemma run_keeps:
  assumes "gw_executor gw = Some ex"
  shows "good s \<Longrightarrow> \<forall>i args operation. Review i args operation \<in> set calls \<longrightarrow> risk_passes i args \<longrightarrow> admitted i
    \<Longrightarrow> good (foldl (gateway_step gw) s calls)"
proof (induction calls arbitrary: s)
  case (Cons call calls)
  have "good (gateway_step gw s call)"
  proof (cases call)
    case (Review i args operation)
    then show ?thesis using review_keeps [OF assms Cons.prems(1), of i args operation] Cons.prems(2) by simp
  qed (simp add: control_keeps [OF assms Cons.prems(1)])
  then show ?case using Cons.IH [of "gateway_step gw s call"] Cons.prems(2) by auto
qed simp

end

subsection \<open>A refused review\<close>

text \<open>
  C20: A refusal is final, quiet and visible: when the risk gate refuses an intent, the executor
  is not called and its state is untouched; the review carries a REJECTED result with the reason
  of the decision; the audit gets one rejection event whose last check is the failing one; and
  the lifecycle bus gets exactly a rejection.
\<close>

theorem gateway_refuses:
  assumes "review_intent gw s i args operation = (s', Inr (v, rejection, notice))" "\<not> review_ok v"
  shows "s' = s \<and> \<not> gr_submitted v \<and> rs_status (gr_order_result v) = REJECTED
    \<and> (\<exists>d. gr_risk_decision v = Some d \<and> \<not> rd_passed d
         \<and> rs_reason (gr_order_result v) = rd_reason d
         \<and> (gw_has_event_bus gw \<longrightarrow> (\<exists>x. rejection = Some x \<and> rr_failed_field x = rd_failed_field d
              \<and> rr_checks x \<noteq> [] \<and> \<not> fst (snd (last (rr_checks x))))))
    \<and> (gw_has_lifecycle_bus gw \<longrightarrow> (\<exists>n. notice = Some n \<and> ln_event n = LC_REJECTED))"
proof -
  obtain d where d: "check_order_intent i args = Inr d" "gr_risk_decision v = Some d" "\<not> rd_passed d"
    using assms by (auto simp: review_intent_def review_ok_def split: sum.splits prod.splits if_splits)
  have "audited_stop d" using check_order_intent_audit [OF d(1)] d(3) by simp
  then have c: "rd_checks d \<noteq> []" "\<not> rc_passed (last (rd_checks d))" by (auto simp: audited_stop_def)
  show ?thesis
    using assms(1) d c
    by (auto simp: review_intent_def synthetic_order_result_def new_result_def Let_def publish_risk_rejection_def
        publish_lifecycle_def lifecycle_kind_of_def last_map)
qed

theorem gateway_refuses_witness:
  "(case review_intent \<lparr>gw_executor = None, gw_has_lifecycle_bus = True, gw_has_event_bus = True\<rparr> (5 :: nat) demo_buy
      (demo_risk_args\<lparr>ra_balance_usdc := Some 9\<rparr>) ''buy'' of
      (s', Inl e) \<Rightarrow> False
    | (s', Inr (v, rejection, notice)) \<Rightarrow> s' = 5 \<and> rs_status (gr_order_result v) = REJECTED
        \<and> rs_reason (gr_order_result v) = ''balance_insufficient'' \<and> rejection \<noteq> None \<and> notice \<noteq> None)"
proof -
  let ?gw = "\<lparr>gw_executor = None, gw_has_lifecycle_bus = True, gw_has_event_bus = True\<rparr> :: nat gateway"
  let ?p = "review_intent ?gw 5 demo_buy (demo_risk_args\<lparr>ra_balance_usdc := Some 9\<rparr>) ''buy''"
  have v: "case snd ?p of Inl e \<Rightarrow> False
    | Inr (v, _) \<Rightarrow> \<not> review_ok v \<and> rs_reason (gr_order_result v) = ''balance_insufficient''" by code_simp
  then obtain s' v rejection notice where p: "?p = (s', Inr (v, rejection, notice))"
    by (cases ?p; cases "snd ?p") auto
  show ?thesis using gateway_refuses [OF p] v by (auto simp: p)
qed

end
