(* ===== verification/Order_Path.thy ===== *)
theory Order_Path
  imports Order_Gateway
begin

text \<open>
  The order path as the program wires it for paper trading: the gateway in front of the
  executor in front of the paper client. The gateway's contract \<open>guarded_executor\<close> is
  interpreted on that executor, with the ledger's invariant and with the claim that the client
  only ever sees submits that passed the risk gate. The argument \<open>timing\<close> gives the times of
  the \<open>n\<close>-th call and whether its waiters see the end of the task.
\<close>

record call_timing =
  ct_started_at :: int
  ct_waiting :: waiting
  ct_now :: int
  ct_started_again :: int
  ct_waiting_again :: waiting
  ct_now_again :: int

type_synonym 'c executor_state = "executor \<times> 'c \<times> nat"

definition polymarket_executor ::
  "(decimal \<Rightarrow> string) \<Rightarrow> 'c adapter \<Rightarrow> (nat \<Rightarrow> call_timing) \<Rightarrow> 'c executor_state order_executor" where
  "polymarket_executor dstr adapter timing =
     \<lparr>xp_submit = (\<lambda>(st, c, n) i.
        case executor_submit dstr (Some adapter) st c i (ct_started_at (timing n)) (ct_waiting (timing n)) (ct_now (timing n)) of
          (st', c', x, evs) \<Rightarrow> ((st', c', Suc n), Inr x)),
      xp_cancel = (\<lambda>(st, c, n) i.
        case executor_cancel dstr (Some adapter) st c i (ct_started_at (timing n)) (ct_waiting (timing n)) (ct_now (timing n)) of
          (st', c', x, evs) \<Rightarrow> ((st', c', Suc n), Inr x)),
      xp_replace = (\<lambda>(st, c, n) i.
        case executor_replace dstr (Some adapter) st c i (ct_started_at (timing n)) (ct_waiting (timing n)) (ct_now (timing n))
            (ct_started_again (timing n)) (ct_waiting_again (timing n)) (ct_now_again (timing n)) of
          (st', c', x, evs) \<Rightarrow> ((st', c', Suc n), Inr x))\<rparr>"

subsection \<open>One execution\<close>

text \<open>
  What an execution can do: nothing, begin a task, end a task in flight or one it began, open
  a window. A property that survives these survives the execution.
\<close>

lemma execute_cases:
  assumes "execute dstr client st c r intent t0 w t1 = (st', c', x, evs)"
  obtains (same) "st' = st" "c' = c"
  | (late) st1 out where "begin_execute dstr st r intent t0 = (st1, out)" "same_index st1 st'" "c' = c"
  | (run) st1 out task evicted where "begin_execute dstr st r intent t0 = (st1, out)"
      "dict_get (ex_inflight st1) (er_idempotency_key r) = Some task"
      "finish_task client st1 c (er_idempotency_key r) task t1 = (st', c', x, evs, evicted)"
proof -
  obtain st1 out where b: "begin_execute dstr st r intent t0 = (st1, out)" by fastforce
  show thesis
  proof (cases "\<exists>y. out = Conflict y \<or> out = Remembered y")
    case True
    then have "st1 = st"
      using b by (auto simp: begin_execute_def Let_def split: option.splits)
    then show thesis using assms b True same by (auto simp: execute_def)
  next
    case False
    then have aw: "await_task client st1 c r intent t0 w t1 = (st', c', x, evs)"
      using assms b by (cases out) (simp_all add: execute_def)
    have late': "fst (timeout_result st1 r intent t0 [] t1) = st' \<and> c' = c"
      if "w = Too_Late \<or> dict_get (ex_inflight st1) (er_idempotency_key r) = None"
      using aw that by (cases w) (auto simp: await_task_def split: prod.splits option.splits)
    show thesis
    proof (cases "w = Too_Late \<or> dict_get (ex_inflight st1) (er_idempotency_key r) = None")
      case True
      then have st': "st' = fst (timeout_result st1 r intent t0 [] t1)" and c': "c' = c"
        using late' by simp_all
      have "same_index st1 st'" unfolding st' by (rule same_index_timeout)
      with b show thesis using c' by (rule late)
    next
      case False
      then obtain task where task: "dict_get (ex_inflight st1) (er_idempotency_key r) = Some task" "w = In_Time"
        by (cases w) auto
      obtain st2 c2 y evs2 evicted where f:
        "finish_task client st1 c (er_idempotency_key r) task t1 = (st2, c2, y, evs2, evicted)"
        by (metis prod_cases5)
      then show thesis using run [OF b task(1)] aw task by (auto simp: await_task_def)
    qed
  qed
qed

lemma execute_ok:
  assumes "executor_ok dstr st" "execute dstr client st c r intent t0 w t1 = (st', c', x, evs)"
  shows "executor_ok dstr st'"
  using assms(2)
proof (cases rule: execute_cases)
  case (late st1 out)
  then show ?thesis using executor_ok_begin [OF assms(1) late(1)] executor_ok_same by blast
next
  case (run st1 out task evicted)
  then show ?thesis using executor_ok_finish [OF executor_ok_begin [OF assms(1) run(1)] run(2,3)] by simp
qed (simp add: assms(1))

subsection \<open>Which requests reach the client\<close>

definition request_from :: "execution_request set \<Rightarrow> execution_request \<Rightarrow> bool" where
  "request_from A r \<longleftrightarrow>
     er_action r \<in> {''submit'', ''cancel'', ''replace''} \<and> (er_action r = ''submit'' \<longrightarrow> r \<in> A)"

definition only_from :: "execution_request set \<Rightarrow> executor \<Rightarrow> paper_client \<Rightarrow> bool" where
  "only_from A st c \<longleftrightarrow>
     (\<forall>r. (''submit'', r) \<in> set (pc_requests c) \<longrightarrow> r \<in> A)
   \<and> (\<forall>k t. dict_get (ex_inflight st) k = Some t \<longrightarrow> request_from A (tk_request t))"

lemma paper_adapter_log:
  "pc_requests (fst (paper_adapter world sign name c r)) = pc_requests c @
     [(if name = ''sign_order'' then ''sign'' else if name = ''cancel_order'' then ''cancel''
       else if name = ''replace_order'' then ''replace'' else ''submit'', r)]"
  by (simp add: paper_adapter_def answer_of_def sign_order_def cancel_order_def submit_order_def
      replace_order_def run_simulation_def log_request_def split: prod.split sum.split)

lemma run_log:
  assumes "run_operation (Some (paper_adapter world sign)) st c task now = (st', c', x, evs)"
    and "er_action (tk_request task) \<in> {''submit'', ''cancel'', ''replace''}"
    and "(''submit'', q) \<in> set (pc_requests c')"
  shows "(''submit'', q) \<in> set (pc_requests c) \<or> q = tk_request task \<and> er_action q = ''submit''"
proof -
  let ?f = "paper_adapter world sign" and ?r = "tk_request task"
  obtain c1 o1 where s: "?f ''sign_order'' c ?r = (c1, o1)" by fastforce
  have l1: "pc_requests c1 = pc_requests c @ [(''sign'', ?r)]"
    using paper_adapter_log [of world sign "''sign_order''" c ?r] s by simp
  obtain c2 o2 where a: "?f (adapter_method_for_action (er_action ?r)) c1 ?r = (c2, o2)" by fastforce
  have l2: "pc_requests c2 = pc_requests c1 @ [(er_action ?r, ?r)]"
    using paper_adapter_log [of world sign "adapter_method_for_action (er_action ?r)" c1 ?r] a assms(2)
    by (auto simp: adapter_method_for_action_def)
  have "c' = c1 \<or> c' = c2"
    using assms(1) s a
    by (auto simp: run_operation_def sign_step_def call_adapter_def Let_def split: prod.splits adapter_outcome.splits)
  then show ?thesis using assms(3) l1 l2 by auto
qed

lemma only_from_execute:
  assumes inv: "only_from A st c"
    and ex: "execute dstr (Some (paper_adapter world sign)) st c r intent t0 w t1 = (st', c', x, evs)"
    and r: "request_from A r"
  shows "only_from A st' c'"
proof -
  have begun: "only_from A st1 c" if "begin_execute dstr st r intent t0 = (st1, out)" for st1 out
    using that inv r by (auto simp: begin_execute_def Let_def only_from_def dict_get_set
        split: option.splits if_splits)
  show ?thesis
    using ex
  proof (cases rule: execute_cases)
    case same
    then show ?thesis using inv by simp
  next
    case (late st1 out)
    then show ?thesis using begun [OF late(1)] by (simp add: only_from_def same_index_def)
  next
    case (run st1 out task evicted)
    note inv1 = begun [OF run(1)]
    obtain st2 where op: "run_operation (Some (paper_adapter world sign)) st1 c task t1 = (st2, c', x, evs)"
      and s: "store_task_result st2 (er_idempotency_key r) x = (st', evicted)"
      using run(3) by (auto simp: finish_task_def split: prod.splits)
    have a: "er_action (tk_request task) \<in> {''submit'', ''cancel'', ''replace''}"
      "er_action (tk_request task) = ''submit'' \<Longrightarrow> tk_request task \<in> A"
      using inv1 run(2) unfolding only_from_def request_from_def by blast+
    have "dict_get (ex_inflight st') k = Some t \<Longrightarrow> dict_get (ex_inflight st1) k = Some t" for k t
      using s same_index_run [OF op]
      by (auto simp: store_task_result_def same_index_def dict_get_pop split: option.splits prod.splits if_splits)
    then show ?thesis
      using inv1 run_log [OF op a(1)] a(2) unfolding only_from_def by metis
  qed
qed

subsection \<open>The gateway's contract on this path\<close>

definition good_path :: "(decimal \<Rightarrow> string) \<Rightarrow> execution_request set \<Rightarrow> paper_client executor_state \<Rightarrow> bool" where
  "good_path dstr A s \<longleftrightarrow> (case s of (st, c, n) \<Rightarrow>
     executor_ok dstr st \<and> ledger_ok (pc_ledger c) \<and> only_from A st c)"

lemma good_execute:
  assumes "good_path dstr A (st, c, n)" "request_from A r"
    and "execute dstr (Some (paper_adapter world sign)) st c r intent t0 w t1 = (st', c', x, evs)"
  shows "good_path dstr A (st', c', n')"
  using assms(1) execute_ok [OF _ assms(3)] paper_guard.execute_keeps [OF _ assms(3)]
    only_from_execute [OF _ assms(3,2)]
  by (simp add: good_path_def)

lemma control_requests:
  "request_from A (build_cancel_request dstr i)" "request_from A (build_replace_request dstr j)"
  by (simp_all add: request_from_def build_cancel_request_def build_replace_request_def with_key_def new_request_def)

lemma good_replace:
  assumes "good_path dstr A (st, c, n)"
    and "executor_replace dstr (Some (paper_adapter world sign)) st c i t0 w t1 t2 w' t3 = (st', c', x, evs)"
  shows "good_path dstr A (st', c', n')"
proof -
  let ?r = "build_replace_request dstr i"
  obtain st1 c1 x1 evs1 where e:
    "execute dstr (Some (paper_adapter world sign)) st c ?r (Replacing i) t0 w t1 = (st1, c1, x1, evs1)"
    by (metis prod_cases4)
  have g: "good_path dstr A (st1, c1, m)" for m by (rule good_execute [OF assms(1) control_requests(2) e])
  show ?thesis
  proof (cases "retry_replacement x1")
    case True
    then obtain evs2 where
      "execute dstr (Some (paper_adapter world sign)) st1 c1 ?r (Replacing i) t2 w' t3 = (st', c', x, evs2)"
      using assms(2) e by (auto simp: executor_replace_def Let_def split: prod.splits)
    then show ?thesis by (rule good_execute [OF g control_requests(2)])
  next
    case False
    then show ?thesis using assms(2) e g by (simp add: executor_replace_def Let_def)
  qed
qed

interpretation paper_path: guarded_executor "polymarket_executor dstr (paper_adapter world sign) timing"
    "good_path dstr A" "\<lambda>i. build_submit_request dstr i \<in> A"
  for dstr world sign timing A
proof unfold_locales
  let ?x = "polymarket_executor dstr (paper_adapter world sign) timing"
  fix s :: "paper_client executor_state"
  assume g: "good_path dstr A s"
  obtain st c n where s: "s = (st, c, n)" by (cases s)
  show "good_path dstr A (fst (xp_submit ?x s i))" if "build_submit_request dstr i \<in> A" for i
  proof -
    have "request_from A (build_submit_request dstr i)"
      using that by (simp add: request_from_def submit_request_fields)
    then show ?thesis
      using g good_execute [of dstr A st c n] unfolding s
      by (auto simp: polymarket_executor_def executor_submit_def good_path_def split: prod.split)
  qed
  show "good_path dstr A (fst (xp_cancel ?x s i))" for i
    using good_execute [OF g [unfolded s] control_requests(1)] unfolding s
    by (auto simp: polymarket_executor_def executor_cancel_def split: prod.split)
  show "good_path dstr A (fst (xp_replace ?x s i))" for i
    using good_replace [OF g [unfolded s]] unfolding s
    by (auto simp: polymarket_executor_def split: prod.split)
qed

lemma good_path_new:
  assumes "ledger_ok l"
  shows "good_path dstr A (new_executor cap, new_paper_client (Some l), 0)"
proof -
  have "only_from A (new_executor cap) (new_paper_client (Some l))"
    by (simp add: only_from_def new_paper_client_def new_executor_def)
  then show ?thesis using assms executor_ok_new by (simp add: good_path_def new_paper_client_def)
qed

text \<open>
  C1: No order reaches the exchange around the risk gate. After any sequence of reviews, cancels
  and replacements, whatever their timing, every submit the paper client has seen is the
  request of an intent whose review passed; in particular it was admitted by its market, and a
  buy was covered by bankroll, balance and allowance and was fill-and-kill or post-only.
\<close>

theorem exchange_sees_admitted_orders:
  assumes "gw_executor gw = Some (polymarket_executor dstr (paper_adapter world sign) timing)"
    and "foldl (gateway_step gw) (new_executor cap, new_paper_client (Some l), 0) calls = (st, c, n)"
    and "ledger_ok l" "(''submit'', r) \<in> set (pc_requests c)"
  shows "\<exists>i args operation. Review i args operation \<in> set calls \<and> r = build_submit_request dstr i
    \<and> market_admits i (ra_market args) (ra_position args) (ra_flags args)
    \<and> (er_side r = Some BUY \<longrightarrow> buy_affordable i args \<and> (intent_order_type i = FAK \<or> intent_post_only i))"
proof -
  define A where "A = {build_submit_request dstr i |i. \<exists>args operation. Review i args operation \<in> set calls \<and> risk_passes i args}"
  have "good_path dstr A (st, c, n)"
    using paper_path.run_keeps [OF assms(1) good_path_new [OF assms(3)], of calls A cap] assms(2)
    by (auto simp: A_def)
  then have "r \<in> A" using assms(4) by (simp add: good_path_def only_from_def)
  then obtain i args operation where i: "Review i args operation \<in> set calls" "risk_passes i args"
    "r = build_submit_request dstr i" by (auto simp: A_def)
  have "er_side r = Some (intent_side i)"
    by (simp add: i(3) build_submit_request_def with_key_def new_request_def)
  then have "er_side r = Some BUY \<longrightarrow> buy_affordable i args \<and> (intent_order_type i = FAK \<or> intent_post_only i)"
    "market_admits i (ra_market args) (ra_position args) (ra_flags args)"
    using i risk_passes_iff [of i args] by auto
  then show ?thesis using i by blast
qed

text \<open>
  The whole order path keeps the books: after any sequence of gateway calls the executor's
  index is consistent and bounded by its cap, and the paper ledger satisfies its invariant.
\<close>

lemma order_path_sound:
  assumes "gw_executor gw = Some (polymarket_executor dstr (paper_adapter world sign) timing)"
    and "foldl (gateway_step gw) (new_executor cap, new_paper_client (Some l), 0) calls = (st, c, n)"
    and "ledger_ok l"
  shows "executor_ok dstr st \<and> ledger_ok (pc_ledger c)"
proof -
  have "good_path dstr UNIV (st, c, n)"
    using paper_path.run_keeps [OF assms(1) good_path_new [OF assms(3)], of calls UNIV cap] assms(2) by simp
  then show ?thesis by (simp add: good_path_def)
qed

definition demo_timing :: "nat \<Rightarrow> call_timing" where
  "demo_timing n = \<lparr>ct_started_at = int n, ct_waiting = In_Time, ct_now = int n + 1,
     ct_started_again = int n + 2, ct_waiting_again = In_Time, ct_now_again = int n + 3\<rparr>"

definition demo_gateway :: "paper_client executor_state gateway" where
  "demo_gateway = \<lparr>gw_executor = Some (polymarket_executor demo_text (paper_adapter demo_world None) demo_timing),
     gw_has_lifecycle_bus = True, gw_has_event_bus = True\<rparr>"

definition demo_calls :: "gateway_call list" where
  "demo_calls = [Review demo_buy demo_risk_args ''buy'',
     Review demo_buy (demo_risk_args\<lparr>ra_bankroll_usdc := Some 29\<rparr>) ''buy'']"

definition demo_path :: "paper_client executor_state" where
  "demo_path = foldl (gateway_step demo_gateway) (new_executor 2, new_paper_client (Some demo_ledger), 0) demo_calls"

theorem exchange_sees_admitted_orders_witness:
  "(''submit'', build_submit_request demo_text demo_buy) \<in> set (pc_requests (fst (snd demo_path)))
   \<and> length (pc_requests (fst (snd demo_path))) = 2
   \<and> (\<exists>i args operation. Review i args operation \<in> set demo_calls \<and> buy_affordable i args)"
proof -
  obtain st c n where p: "demo_path = (st, c, n)" by (cases demo_path)
  have l: "ledger_ok demo_ledger"
    "map fst (pc_requests (fst (snd demo_path))) = [''sign'', ''submit'']"
    "map snd (pc_requests (fst (snd demo_path)))
      = [build_submit_request demo_text demo_buy, build_submit_request demo_text demo_buy]"
    by code_simp+
  obtain q1 q2 where q: "pc_requests c = [q1, q2]" using l(2) by (auto simp: p map_eq_Cons_conv)
  have m: "(''submit'', build_submit_request demo_text demo_buy) \<in> set (pc_requests c)"
    using l(2,3) q by (cases q1; cases q2) (auto simp: p)
  have g: "gw_executor demo_gateway = Some (polymarket_executor demo_text (paper_adapter demo_world None) demo_timing)"
    by (simp add: demo_gateway_def)
  have b: "er_side (build_submit_request demo_text demo_buy) = Some BUY" by code_simp
  show ?thesis
    using exchange_sees_admitted_orders [OF g p [unfolded demo_path_def] l(1) m] b m q by (auto simp: p)
qed

end
