(* ===== verification/Py_Value.thy ===== *)
theory Py_Value
  imports Decimal_Arith
begin

text \<open>
  Untyped Python values: what a decoded JSON message holds, and the standard library's
  conversions the adapters apply to them (\<open>str\<close>, \<open>bool\<close>, \<open>int\<close>, \<open>Decimal\<close>, \<open>dict.get\<close>).

  A float is its \<open>repr\<close> and a \<open>Decimal\<close> its text, since the code converts both through
  \<open>str\<close>. Text is ASCII. The special numerals (NaN, Infinity) are not values of the model:
  the parser refuses them, where Python builds a non-finite number. \<open>int\<close> of a float
  truncates the number its \<open>repr\<close> denotes, which is the float's own value below 2^53.
\<close>

datatype py_value =
    PNone
  | PBool bool
  | PInt int
  | PFloat string
  | PDecimal string
  | PStr string
  | PList "py_value list"
  | PDict "(string \<times> py_value) list"

type_synonym message = "(string, py_value) dict"

subsection \<open>Digits\<close>

definition is_digit :: "char \<Rightarrow> bool" where
  "is_digit c \<longleftrightarrow> 48 \<le> (of_char c :: nat) \<and> (of_char c :: nat) \<le> 57"

definition all_digits :: "string \<Rightarrow> bool" where
  "all_digits s \<longleftrightarrow> s \<noteq> [] \<and> list_all is_digit s"

definition digit_value :: "char \<Rightarrow> int" where
  "digit_value c = of_char c - 48"

definition digits_int :: "string \<Rightarrow> int" where
  "digits_int s = foldl (\<lambda>acc c. 10 * acc + digit_value c) 0 s"

definition digit_char :: "int \<Rightarrow> char" where
  "digit_char n = char_of (48 + n)"

text \<open>The decimal digits of a number, most significant first.\<close>

function nat_text :: "int \<Rightarrow> string" where
  "nat_text n = (if n < 10 then [digit_char n] else nat_text (n div 10) @ [digit_char (n mod 10)])"
  by auto
termination by (relation "measure nat") auto

declare nat_text.simps [simp del]

definition int_text :: "int \<Rightarrow> string" where
  "int_text i = (if i < 0 then CHR ''-'' # nat_text (- i) else nat_text i)"

subsection \<open>Numerals\<close>

text \<open>\<open>int(text)\<close>: blanks around, one sign, and digits with single underscores between them.\<close>

fun digits_value :: "int \<Rightarrow> string \<Rightarrow> int option" where
  "digits_value acc [] = Some acc"
| "digits_value acc (c # cs) =
     (if is_digit c then digits_value (10 * acc + digit_value c) cs
      else if c = CHR ''_'' then
        (case cs of
           [] \<Rightarrow> None
         | d # ds \<Rightarrow> if is_digit d then digits_value (10 * acc + digit_value d) ds else None)
      else None)"

definition nat_of_text :: "string \<Rightarrow> int option" where
  "nat_of_text s = (case s of [] \<Rightarrow> None | c # cs \<Rightarrow> if is_digit c then digits_value 0 s else None)"

definition int_of_text :: "string \<Rightarrow> int result" where
  "int_of_text s =
     (let t = py_strip s;
          parsed = (case t of
              [] \<Rightarrow> None
            | c # cs \<Rightarrow>
                if c = CHR ''-'' then map_option uminus (nat_of_text cs)
                else if c = CHR ''+'' then nat_of_text cs
                else nat_of_text t)
      in case parsed of Some n \<Rightarrow> Inr n | None \<Rightarrow> Inl (ValueError ''invalid literal for int()''))"

text \<open>
  \<open>Decimal(text)\<close>: blanks around and underscores anywhere are dropped, then a sign, digits
  with at most one point, and an exponent. The constructor keeps every digit.
\<close>

definition read_sign :: "string \<Rightarrow> int \<times> string" where
  "read_sign t = (case t of
       [] \<Rightarrow> (1, [])
     | c # r \<Rightarrow> if c = CHR ''-'' then (-1, r) else if c = CHR ''+'' then (1, r) else (1, t))"

definition read_exponent :: "string \<Rightarrow> int option" where
  "read_exponent t = (case t of
       [] \<Rightarrow> Some 0
     | c # r \<Rightarrow>
         if c = CHR ''e'' \<or> c = CHR ''E''
         then (case read_sign r of (sg, ds) \<Rightarrow>
                 if all_digits ds then Some (sg * digits_int ds) else None)
         else None)"

definition read_fraction :: "string \<Rightarrow> string \<times> string" where
  "read_fraction t = (case t of
       [] \<Rightarrow> ([], [])
     | c # r \<Rightarrow> if c = CHR ''.'' then (takeWhile is_digit r, dropWhile is_digit r) else ([], t))"

definition parse_decimal :: "string \<Rightarrow> decimal result" where
  "parse_decimal s =
     (case read_sign (filter (\<lambda>c. c \<noteq> CHR ''_'') (py_strip s)) of (sg, body) \<Rightarrow>
        let whole = takeWhile is_digit body
        in case read_fraction (dropWhile is_digit body) of (fdigits, rest) \<Rightarrow>
             (case read_exponent rest of
                None \<Rightarrow> Inl InvalidOperation
              | Some e \<Rightarrow>
                  if whole @ fdigits = [] then Inl InvalidOperation
                  else Inr (of_int (sg * digits_int (whole @ fdigits))
                            * pow10 (e - int (length fdigits)))))"

subsection \<open>Text of a value\<close>

definition joined :: "string \<Rightarrow> string list \<Rightarrow> string" where
  "joined sep xs = (case xs of [] \<Rightarrow> [] | y # ys \<Rightarrow> y @ concat (map (\<lambda>z. sep @ z) ys))"

text \<open>The \<open>repr\<close> of a string; control characters other than tab and line ends stay as they are.\<close>

definition repr_char :: "char \<Rightarrow> char \<Rightarrow> string" where
  "repr_char q c =
     (if c = q \<or> c = CHR 0x5C then [CHR 0x5C, c]
      else if c = CHR 0x0A then [CHR 0x5C, CHR ''n'']
      else if c = CHR 0x0D then [CHR 0x5C, CHR ''r'']
      else if c = CHR 0x09 then [CHR 0x5C, CHR ''t'']
      else [c])"

definition repr_str :: "string \<Rightarrow> string" where
  "repr_str s =
     (let q = (if CHR 0x27 \<in> set s \<and> CHR 0x22 \<notin> set s then CHR 0x22 else CHR 0x27)
      in [q] @ concat (map (repr_char q) s) @ [q])"

fun py_repr :: "py_value \<Rightarrow> string" where
  "py_repr PNone = ''None''"
| "py_repr (PBool b) = (if b then ''True'' else ''False'')"
| "py_repr (PInt i) = int_text i"
| "py_repr (PFloat r) = r"
| "py_repr (PDecimal t) = ''Decimal('' @ repr_str t @ '')''"
| "py_repr (PStr s) = repr_str s"
| "py_repr (PList xs) = ''['' @ joined '', '' (map py_repr xs) @ '']''"
| "py_repr (PDict kvs) =
     ''{'' @ joined '', '' (map (\<lambda>(k, v). repr_str k @ '': '' @ py_repr v) kvs) @ ''}''"

fun py_str :: "py_value \<Rightarrow> string" where
  "py_str (PStr s) = s"
| "py_str (PDecimal t) = t"
| "py_str v = py_repr v"

text \<open>The truth value of a value: an empty text or container, zero and \<open>None\<close> are false.\<close>

definition numeral_zero :: "string \<Rightarrow> bool" where
  "numeral_zero t = (case parse_decimal t of Inr x \<Rightarrow> x = 0 | Inl _ \<Rightarrow> False)"

fun py_truthy :: "py_value \<Rightarrow> bool" where
  "py_truthy PNone = False"
| "py_truthy (PBool b) = b"
| "py_truthy (PInt i) = (i \<noteq> 0)"
| "py_truthy (PFloat r) = (\<not> numeral_zero r)"
| "py_truthy (PDecimal t) = (\<not> numeral_zero t)"
| "py_truthy (PStr s) = (s \<noteq> [])"
| "py_truthy (PList xs) = (xs \<noteq> [])"
| "py_truthy (PDict kvs) = (kvs \<noteq> [])"

definition py_or :: "py_value \<Rightarrow> py_value \<Rightarrow> py_value" where
  "py_or a b = (if py_truthy a then a else b)"

text \<open>\<open>int(value)\<close>; a \<open>TypeError\<close> of the conversion is a \<open>ValueError\<close> of the model.\<close>

definition truncated :: "rat \<Rightarrow> int" where
  "truncated x = (if x < 0 then - \<lfloor>- x\<rfloor> else \<lfloor>x\<rfloor>)"

fun py_int :: "py_value \<Rightarrow> int result" where
  "py_int (PBool b) = Inr (if b then 1 else 0)"
| "py_int (PInt i) = Inr i"
| "py_int (PFloat r) = (case parse_decimal r of
     Inr x \<Rightarrow> Inr (truncated x) | Inl _ \<Rightarrow> Inl (ValueError ''cannot convert float to integer''))"
| "py_int (PDecimal t) = (case parse_decimal t of
     Inr x \<Rightarrow> Inr (truncated x) | Inl _ \<Rightarrow> Inl (ValueError ''cannot convert to integer''))"
| "py_int (PStr s) = int_of_text s"
| "py_int _ = Inl (ValueError ''int() argument'')"

subsection \<open>Messages\<close>

text \<open>\<open>message.get(key)\<close>: an absent key and a stored \<open>None\<close> look alike.\<close>

definition mget :: "message \<Rightarrow> string \<Rightarrow> py_value" where
  "mget m k = dict_get_or m k PNone"

definition mhas :: "message \<Rightarrow> string \<Rightarrow> bool" where
  "mhas m k \<longleftrightarrow> dict_get m k \<noteq> None"

fun is_mapping :: "py_value \<Rightarrow> bool" where
  "is_mapping (PDict _) = True"
| "is_mapping _ = False"

text \<open>\<open>isinstance(value, (list, tuple)) and all(isinstance(item, Mapping) ...)\<close>\<close>

definition mappings_of :: "py_value list \<Rightarrow> message list" where
  "mappings_of xs = [m. PDict m \<leftarrow> xs]"

text \<open>The stripped text of a value; blanks are no text.\<close>

definition text_value :: "py_value \<Rightarrow> string option" where
  "text_value v = (if v = PNone then None
     else let text = py_strip (py_str v) in if text = [] then None else Some text)"

subsection \<open>Reading back what was printed\<close>

lemma digit_char_value: "0 \<le> n \<Longrightarrow> n < 10 \<Longrightarrow> of_char (digit_char n) = 48 + n"
  by (simp add: digit_char_def of_char_of)

lemma digit_char_digit: "0 \<le> n \<Longrightarrow> n < 10 \<Longrightarrow> is_digit (digit_char n)"
proof -
  assume n: "0 \<le> n" "n < 10"
  have "int (of_char (digit_char n)) = of_char (digit_char n)" by (rule of_nat_of_char)
  then show ?thesis using n by (simp add: is_digit_def digit_char_value)
qed

lemma nat_text_digits: "0 \<le> n \<Longrightarrow> all_digits (nat_text n)"
proof (induction n rule: nat_text.induct)
  case (1 n)
  show ?case
  proof (cases "n < 10")
    case True
    with 1 show ?thesis by (simp add: nat_text.simps [of n] all_digits_def digit_char_digit)
  next
    case False
    with 1 show ?thesis by (simp add: nat_text.simps [of n] all_digits_def digit_char_digit)
  qed
qed

lemma digits_int_snoc: "digits_int (s @ [c]) = 10 * digits_int s + digit_value c"
  by (simp add: digits_int_def)

lemma digits_int_text [simp]: "0 \<le> n \<Longrightarrow> digits_int (nat_text n) = n"
proof (induction n rule: nat_text.induct)
  case (1 n)
  show ?case
  proof (cases "n < 10")
    case True
    with 1 show ?thesis
      by (simp add: nat_text.simps [of n] digits_int_def digit_value_def digit_char_value)
  next
    case False
    with 1 show ?thesis
      by (simp add: nat_text.simps [of n] digits_int_snoc digit_value_def digit_char_value)
  qed
qed

lemma digits_value_all:
  "list_all is_digit s \<Longrightarrow> digits_value acc s = Some (foldl (\<lambda>a c. 10 * a + digit_value c) acc s)"
  by (induction s arbitrary: acc) auto

lemma nat_of_text_digits: "all_digits s \<Longrightarrow> nat_of_text s = Some (digits_int s)"
  using digits_value_all [of s 0]
  by (cases s) (auto simp: all_digits_def nat_of_text_def digits_int_def)

lemma is_digit_plain: "is_digit c \<Longrightarrow> \<not> py_space c \<and> c \<notin> {CHR ''-'', CHR ''+'', CHR ''_'', CHR ''.''}"
  by (auto simp: is_digit_def py_space_def)

text \<open>A text whose first and last characters are not blank is not changed by stripping.\<close>

lemma py_strip_plain:
  assumes "s = [] \<or> \<not> py_space (hd s) \<and> \<not> py_space (List.last s)"
  shows "py_strip s = s"
proof (cases "s = []")
  case False
  then have "dropWhile py_space s = s" using assms by (cases s) auto
  moreover have "dropWhile py_space (rev s) = rev s"
    using assms False by (cases "rev s") (auto simp: last_rev hd_rev simp flip: hd_rev)
  ultimately show ?thesis by (simp add: py_strip_def)
qed (simp add: py_strip_def)

lemma int_text_ends: "int_text i \<noteq> [] \<and> \<not> py_space (hd (int_text i)) \<and> \<not> py_space (List.last (int_text i))"
proof -
  have h: "s \<noteq> [] \<and> \<not> py_space (hd s) \<and> \<not> py_space (List.last s)" if "all_digits s" for s
    using that is_digit_plain hd_in_set [of s] last_in_set [of s]
    by (auto simp: all_digits_def list_all_iff)
  have "\<not> py_space CHR ''-''" by (simp add: py_space_def)
  then show ?thesis
    using h [OF nat_text_digits [of i]] h [OF nat_text_digits [of "- i"]] by (auto simp: int_text_def)
qed

lemmas py_strip_int_text [simp] = py_strip_plain [OF disjI2, OF conjunct2, OF int_text_ends]

lemma int_of_text_int_text: "int_of_text (int_text i) = Inr i"
proof (cases "i < 0")
  case True
  then show ?thesis
    using nat_of_text_digits [OF nat_text_digits, of "- i"]
    by (simp add: int_of_text_def) (simp add: int_text_def)
next
  case False
  then have d: "all_digits (nat_text i)" by (simp add: nat_text_digits)
  then obtain c cs where s: "nat_text i = c # cs" and c: "is_digit c"
    by (cases "nat_text i") (auto simp: all_digits_def)
  show ?thesis
    using False s is_digit_plain [OF c] nat_of_text_digits [OF d] digits_int_text [of i]
    by (simp add: int_of_text_def) (simp add: int_text_def)
qed

lemma filter_digits: "all_digits s \<Longrightarrow> filter (\<lambda>c. c \<noteq> CHR ''_'') s = s"
  using is_digit_plain by (auto simp: all_digits_def list_all_iff filter_id_conv)

lemma read_sign_digits: "all_digits s \<Longrightarrow> read_sign s = (1, s)"
  using is_digit_plain by (cases s) (auto simp: all_digits_def read_sign_def)

lemma takeWhile_digits: "all_digits s \<Longrightarrow> takeWhile is_digit s = s \<and> dropWhile is_digit s = []"
  by (auto simp: all_digits_def list_all_iff takeWhile_eq_all_conv dropWhile_eq_Nil_conv)

lemma parse_decimal_int_text: "parse_decimal (int_text i) = Inr (of_int i)"
proof -
  have body: "parse_decimal (int_text i) = Inr (of_int (sg * digits_int s))"
    if "read_sign (filter (\<lambda>c. c \<noteq> CHR ''_'') (int_text i)) = (sg, s)" and d: "all_digits s" for sg s
  proof -
    have "s \<noteq> []" using d by (simp add: all_digits_def)
    then show ?thesis
      by (simp add: parse_decimal_def that(1) takeWhile_digits [OF d, THEN conjunct1]
          takeWhile_digits [OF d, THEN conjunct2] read_fraction_def read_exponent_def pow10_def)
  qed
  show ?thesis
  proof (cases "i < 0")
    case True
    then have d: "all_digits (nat_text (- i))" by (simp add: nat_text_digits)
    from True have "read_sign (filter (\<lambda>c. c \<noteq> CHR ''_'') (int_text i)) = (-1, nat_text (- i))"
      by (simp add: int_text_def filter_digits [OF d] read_sign_def)
    from body [OF this d] True show ?thesis by simp
  next
    case False
    then have d: "all_digits (nat_text i)" by (simp add: nat_text_digits)
    from False have "read_sign (filter (\<lambda>c. c \<noteq> CHR ''_'') (int_text i)) = (1, nat_text i)"
      by (simp add: int_text_def filter_digits [OF d] read_sign_digits [OF d])
    from body [OF this d] False show ?thesis by simp
  qed
qed

lemma py_str_PInt [simp]: "py_str (PInt i) = int_text i"
  by simp

end
