(* ===== verification/Py_Time.thy ===== *)
theory Py_Time
  imports Py_Value
begin

text \<open>
  Points in time of a message: \<open>datetime_value\<close> of the WebSocket adapters. A time is its
  number of microseconds since 1970-01-01 UTC. Of \<open>datetime.fromisoformat\<close> the extended
  format is modelled (date, one separator, hours and minutes, optional seconds, fraction
  and offset); its basic and week formats are read as no time. A timestamp is scaled
  exactly before it is rounded to microseconds, where the code goes through a float.
\<close>

definition leap_year :: "int \<Rightarrow> bool" where
  "leap_year y \<longleftrightarrow> y mod 4 = 0 \<and> (y mod 100 \<noteq> 0 \<or> y mod 400 = 0)"

definition month_lengths :: "int \<Rightarrow> int list" where
  "month_lengths y = [31, if leap_year y then 29 else 28, 31, 30, 31, 30, 31, 31, 30, 31, 30, 31]"

text \<open>Days since 1970-01-01 of a date of the proleptic Gregorian calendar.\<close>

definition days_of_date :: "int \<Rightarrow> nat \<Rightarrow> int \<Rightarrow> int" where
  "days_of_date y m d =
     365 * (y - 1) + (y - 1) div 4 - (y - 1) div 100 + (y - 1) div 400
     + sum_list (take (m - 1) (month_lengths y)) + d - 719163"

definition valid_date :: "int \<Rightarrow> nat \<Rightarrow> int \<Rightarrow> bool" where
  "valid_date y m d \<longleftrightarrow>
     1 \<le> y \<and> 1 \<le> m \<and> m \<le> 12 \<and> 1 \<le> d \<and> (if 1 \<le> m \<and> m \<le> 12 then d \<le> month_lengths y ! (m - 1) else False)"

subsection \<open>ISO 8601 text\<close>

fun read_digits :: "nat \<Rightarrow> string \<Rightarrow> (int \<times> string) option" where
  "read_digits n s =
     (if n \<le> length s \<and> list_all is_digit (take n s) then Some (digits_int (take n s), drop n s) else None)"

definition read_char :: "char \<Rightarrow> string \<Rightarrow> string option" where
  "read_char c s = (case s of [] \<Rightarrow> None | d # r \<Rightarrow> if d = c then Some r else None)"

definition read_date :: "string \<Rightarrow> (int \<times> string) option" where
  "read_date s =
     Option.bind (read_digits 4 s) (\<lambda>(y, s1).
     Option.bind (read_char CHR ''-'' s1) (\<lambda>s2.
     Option.bind (read_digits 2 s2) (\<lambda>(m, s3).
     Option.bind (read_char CHR ''-'' s3) (\<lambda>s4.
     Option.bind (read_digits 2 s4) (\<lambda>(d, s5).
       if valid_date y (nat m) d then Some (days_of_date y (nat m) d, s5) else None)))))"

text \<open>\<open>HH:MM[:SS[.ffffff]]\<close>, in microseconds; digits of the fraction past the sixth are cut.\<close>

definition read_micros :: "string \<Rightarrow> (int \<times> string) option" where
  "read_micros s = (case s of
       [] \<Rightarrow> Some (0, [])
     | c # r \<Rightarrow>
         if c = CHR ''.'' \<or> c = CHR '',''
         then (let ds = takeWhile is_digit r
               in if ds = [] then None
                  else Some (digits_int (take 6 (ds @ ''000000'')), dropWhile is_digit r))
         else Some (0, s))"

definition read_seconds :: "string \<Rightarrow> (int \<times> string) option" where
  "read_seconds s = (case read_char CHR '':'' s of
       None \<Rightarrow> Some (0, s)
     | Some r \<Rightarrow>
         Option.bind (read_digits 2 r) (\<lambda>(sec, s1).
         Option.bind (read_micros s1) (\<lambda>(us, s2).
           if sec < 60 then Some (sec * 1000000 + us, s2) else None)))"

definition read_clock :: "string \<Rightarrow> (int \<times> string) option" where
  "read_clock s =
     Option.bind (read_digits 2 s) (\<lambda>(h, s1).
     Option.bind (read_char CHR '':'' s1) (\<lambda>s2.
     Option.bind (read_digits 2 s2) (\<lambda>(m, s3).
     Option.bind (read_seconds s3) (\<lambda>(us, s4).
       if h < 24 \<and> m < 60 then Some ((h * 60 + m) * 60000000 + us, s4) else None))))"

definition read_offset :: "string \<Rightarrow> int option" where
  "read_offset s = (case s of
       [] \<Rightarrow> Some 0
     | c # r \<Rightarrow>
         if c = CHR ''+'' \<or> c = CHR ''-''
         then (case read_clock r of
                 Some (us, []) \<Rightarrow> Some (if c = CHR ''-'' then - us else us)
               | _ \<Rightarrow> None)
         else None)"

definition parse_iso :: "string \<Rightarrow> int option" where
  "parse_iso s =
     Option.bind (read_date s) (\<lambda>(days, s1). case s1 of
         [] \<Rightarrow> Some (days * 86400000000)
       | _ # s2 \<Rightarrow>
           Option.bind (read_clock s2) (\<lambda>(us, s3).
           Option.bind (read_offset s3) (\<lambda>off. Some (days * 86400000000 + us - off))))"

text \<open>\<open>text.replace("Z", "+00:00")\<close>\<close>

definition replace_z :: "string \<Rightarrow> string" where
  "replace_z s = concat (map (\<lambda>c. if c = CHR ''Z'' then ''+00:00'' else [c]) s)"

subsection \<open>Timestamps\<close>

definition timestamp_limit :: decimal where "timestamp_limit = 10000000000"

definition from_timestamp :: "decimal \<Rightarrow> int result" where
  "from_timestamp x =
     (let us = round_half_even ((if x > timestamp_limit then x / 1000 else x) * 10 ^ 6)
      in if - 62135596800000000 \<le> us \<and> us < 253402300800000000 then Inr us
         else Inl (ValueError ''year is out of range''))"

definition datetime_value :: "py_value \<Rightarrow> int option result" where
  "datetime_value v =
     (if v = PNone then Inr None
      else let text = py_strip (py_str v)
           in if text = [] then Inr None
              else case parse_decimal text of
                  Inr x \<Rightarrow> bind_result (from_timestamp x) (\<lambda>us. Inr (Some us))
                | Inl _ \<Rightarrow> Inr (parse_iso (replace_z text)))"

end
