(* ===== verification/Market_Adapter.thy ===== *)
theory Market_Adapter
  imports Py_Time Orderbook Market_Model
begin

text \<open>
  \<open>infra/polymarket/market_ws_adapter.py\<close>: how the fields of a market message are read.
  A numeral that is no number raises \<open>InvalidOperation\<close> through \<open>decimal_value\<close>; the fee
  readers catch it. The price pickers choose the best bid and ask among the real levels.
\<close>

definition decimal_value :: "py_value \<Rightarrow> decimal option result" where
  "decimal_value v =
     (if v = PNone then Inr None
      else let text = py_strip (py_str v)
           in if text = [] then Inr None
              else bind_result (parse_decimal text) (\<lambda>x. Inr (Some x)))"

definition first_value :: "message \<Rightarrow> string list \<Rightarrow> py_value" where
  "first_value m ks = (case find (\<lambda>k. mget m k \<noteq> PNone) ks of None \<Rightarrow> PNone | Some k \<Rightarrow> mget m k)"

fun nested_mapping :: "message \<Rightarrow> string list \<Rightarrow> message option" where
  "nested_mapping m [] = None"
| "nested_mapping m (k # ks) = (case mget m k of PDict d \<Rightarrow> Some d | _ \<Rightarrow> nested_mapping m ks)"

definition bool_value :: "py_value \<Rightarrow> bool option" where
  "bool_value v = (case v of
       PNone \<Rightarrow> None
     | PBool b \<Rightarrow> Some b
     | _ \<Rightarrow>
         (let text = py_lower (py_strip (py_str v))
          in if text \<in> {''true'', ''1'', ''yes'', ''y'', ''on''} then Some True
             else if text \<in> {''false'', ''0'', ''no'', ''n'', ''off''} then Some False
             else None))"

text \<open>The number of a fee field: \<open>None\<close> for no value, a bool, blanks and text that is no number.\<close>

definition fee_number :: "py_value \<Rightarrow> decimal option" where
  "fee_number v = (case v of
       PNone \<Rightarrow> None
     | PBool b \<Rightarrow> None
     | _ \<Rightarrow>
         (let text = py_strip (py_str v)
          in if text = [] then None
             else case parse_decimal text of Inl _ \<Rightarrow> None | Inr x \<Rightarrow> Some x))"

definition bps_value :: "py_value \<Rightarrow> int option" where
  "bps_value v = (case fee_number v of
       None \<Rightarrow> None
     | Some x \<Rightarrow>
         if x = of_int (round_half_even x) then Some (round_half_even x)
         else if dabs x < 1 then Some (round_half_even (dmul x 10000))
         else Some (round_half_even x))"

definition FEE_RATE_DENOMINATOR :: decimal where "FEE_RATE_DENOMINATOR = 1000"

definition fee_rate_units :: "py_value \<Rightarrow> int option" where
  "fee_rate_units v = (case fee_number v of
       None \<Rightarrow> None
     | Some x \<Rightarrow>
         if x < 0 then None
         else if x < 1 then Some (round_half_even (dmul x FEE_RATE_DENOMINATOR))
         else if x = of_int (round_half_even x) then Some (round_half_even x)
         else Some (round_half_even (dmul x FEE_RATE_DENOMINATOR)))"

subsection \<open>Fields of a message\<close>

definition opt_str :: "py_value \<Rightarrow> string option" where
  "opt_str v = (if v = PNone then None else Some (py_str v))"

definition extract_token_id :: "message \<Rightarrow> string option" where
  "extract_token_id m = opt_str (first_value m
     [''token_id'', ''tokenId'', ''asset_id'', ''assetId'', ''market_token_id'', ''winning_asset_id''])"

definition extract_sequence :: "message \<Rightarrow> int option" where
  "extract_sequence m =
     (let v = first_value m [''sequence'', ''seq'', ''version'']
      in if v = PNone then None else case py_int v of Inr i \<Rightarrow> Some i | Inl _ \<Rightarrow> None)"

definition message_type :: "message \<Rightarrow> string" where
  "message_type m =
     (case opt_str (first_value m
        [''event_type'', ''message_type'', ''channel_event'', ''event'', ''type'', ''action'']) of
        None \<Rightarrow> [] | Some s \<Rightarrow> py_lower (py_strip s))"

text \<open>The texts of a list field, blanks and known ones dropped.\<close>

fun add_candidates :: "string list \<Rightarrow> py_value list \<Rightarrow> string list" where
  "add_candidates acc [] = acc"
| "add_candidates acc (v # vs) =
     (let text = py_strip (py_str v)
      in add_candidates (if text \<noteq> [] \<and> text \<notin> set acc then acc @ [text] else acc) vs)"

definition list_items :: "py_value \<Rightarrow> py_value list" where
  "list_items v = (case v of PList xs \<Rightarrow> xs | _ \<Rightarrow> [])"

definition extract_token_candidates :: "message \<Rightarrow> string list" where
  "extract_token_candidates m =
     (let direct = (case extract_token_id m of None \<Rightarrow> [] | Some t \<Rightarrow> [t])
      in add_candidates (add_candidates direct (list_items (mget m ''assets_ids'')))
           (list_items (mget m ''clob_token_ids'')))"

subsection \<open>Levels\<close>

text \<open>One item of a level list: a mapping with price and size, or a pair; others are skipped.\<close>

definition level_fields :: "py_value \<Rightarrow> (py_value \<times> py_value) option" where
  "level_fields v = (case v of
       PDict d \<Rightarrow> Some (first_value d [''price'', ''p''],
                        first_value d [''size'', ''quantity'', ''qty'', ''amount''])
     | PList (x # y # _) \<Rightarrow> Some (x, y)
     | _ \<Rightarrow> None)"

fun parse_level_items :: "py_value list \<Rightarrow> price_level list result" where
  "parse_level_items [] = Inr []"
| "parse_level_items (v # vs) = (case level_fields v of
       None \<Rightarrow> parse_level_items vs
     | Some (pv, sv) \<Rightarrow>
         bind_result (decimal_value pv) (\<lambda>price.
         bind_result (decimal_value sv) (\<lambda>sz.
         bind_result (parse_level_items vs) (\<lambda>ls.
           Inr (case (price, sz) of (Some p, Some s) \<Rightarrow> lv p s # ls | _ \<Rightarrow> ls)))))"

definition parse_levels :: "py_value \<Rightarrow> price_level list result" where
  "parse_levels v = parse_level_items (list_items v)"

definition max_of :: "decimal list \<Rightarrow> decimal option" where
  "max_of xs = (case xs of [] \<Rightarrow> None | y # ys \<Rightarrow> Some (fold max ys y))"

definition min_of :: "decimal list \<Rightarrow> decimal option" where
  "min_of xs = (case xs of [] \<Rightarrow> None | y # ys \<Rightarrow> Some (fold min ys y))"

definition best_price :: "price_level list \<Rightarrow> decimal option" where
  "best_price ls =
     (let real_prices = filter (\<lambda>p. p < 99/100) (map lv_price ls)
      in if real_prices = [] then max_of (map lv_price ls) else max_of real_prices)"

definition worst_ask :: "price_level list \<Rightarrow> decimal option" where
  "worst_ask ls =
     (let real_prices = filter (\<lambda>p. p > 1/100) (map lv_price ls)
      in if real_prices = [] then min_of (map lv_price ls) else min_of real_prices)"

subsection \<open>What the readers guarantee\<close>

lemma fold_max_props:
  "y \<le> fold max ys (y :: decimal) \<and> (\<forall>z \<in> set ys. z \<le> fold max ys y) \<and> fold max ys y \<in> insert y (set ys)"
  by (induction ys arbitrary: y) (auto simp: max_def dest: order_trans, metis order_trans linear)

lemma fold_min_props:
  "fold min ys (y :: decimal) \<le> y \<and> (\<forall>z \<in> set ys. fold min ys y \<le> z) \<and> fold min ys y \<in> insert y (set ys)"
  by (induction ys arbitrary: y) (auto simp: min_def dest: order_trans, metis order_trans linear)

lemma max_of_Some: "max_of xs = Some m \<longleftrightarrow> m \<in> set xs \<and> (\<forall>x \<in> set xs. x \<le> m)"
proof (cases xs)
  case (Cons y ys)
  then show ?thesis using fold_max_props [of y ys]
    by (auto simp: max_of_def intro: antisym)
qed (simp add: max_of_def)

lemma min_of_Some: "min_of xs = Some m \<longleftrightarrow> m \<in> set xs \<and> (\<forall>x \<in> set xs. m \<le> x)"
proof (cases xs)
  case (Cons y ys)
  then show ?thesis using fold_min_props [of ys y]
    by (auto simp: min_of_def intro: antisym)
qed (simp add: min_of_def)

lemma max_of_None [simp]: "max_of xs = None \<longleftrightarrow> xs = []"
  by (simp add: max_of_def split: list.splits)

lemma min_of_None [simp]: "min_of xs = None \<longleftrightarrow> xs = []"
  by (simp add: min_of_def split: list.splits)

text \<open>
  The best bid is the price of a level: the greatest below 0.99, or the greatest of all
  when every bid is at the ceiling.
\<close>

lemma best_price_iff:
  "best_price ls = Some p \<longleftrightarrow>
     p \<in> lv_price ` set ls \<and>
     (if p < 99/100 then \<forall>l \<in> set ls. lv_price l < 99/100 \<longrightarrow> lv_price l \<le> p
      else \<forall>l \<in> set ls. 99/100 \<le> lv_price l \<and> lv_price l \<le> p)"
proof (cases "\<forall>l \<in> set ls. 99/100 \<le> lv_price l")
  case True
  then have "filter (\<lambda>p. p < 99/100) (map lv_price ls) = []" by (auto simp: filter_empty_conv not_less)
  then show ?thesis using True by (auto simp: best_price_def max_of_Some)
next
  case False
  then have "filter (\<lambda>p. p < 99/100) (map lv_price ls) \<noteq> []" by (auto simp: filter_empty_conv not_less not_le)
  then have "best_price ls = max_of (filter (\<lambda>p. p < 99/100) (map lv_price ls))"
    unfolding best_price_def Let_def by (simp only: if_False)
  then show ?thesis using False by (auto simp: max_of_Some)
qed

lemma worst_ask_iff:
  "worst_ask ls = Some p \<longleftrightarrow>
     p \<in> lv_price ` set ls \<and>
     (if 1/100 < p then \<forall>l \<in> set ls. 1/100 < lv_price l \<longrightarrow> p \<le> lv_price l
      else \<forall>l \<in> set ls. lv_price l \<le> 1/100 \<and> p \<le> lv_price l)"
proof (cases "\<forall>l \<in> set ls. lv_price l \<le> 1/100")
  case True
  then have "filter (\<lambda>p. p > 1/100) (map lv_price ls) = []" by (auto simp: filter_empty_conv not_less)
  then show ?thesis using True by (auto simp: worst_ask_def min_of_Some)
next
  case False
  then have "filter (\<lambda>p. p > 1/100) (map lv_price ls) \<noteq> []" by (auto simp: filter_empty_conv not_less not_le)
  then have "worst_ask ls = min_of (filter (\<lambda>p. p > 1/100) (map lv_price ls))"
    unfolding worst_ask_def Let_def by (simp only: if_False)
  then show ?thesis using False by (auto simp: min_of_Some)
qed

lemma best_price_None [simp]: "best_price ls = None \<longleftrightarrow> ls = []"
  by (auto simp: best_price_def Let_def simp del: filter_map)

lemma worst_ask_None [simp]: "worst_ask ls = None \<longleftrightarrow> ls = []"
  by (auto simp: worst_ask_def Let_def simp del: filter_map)

lemma add_candidates_distinct: "distinct acc \<Longrightarrow> distinct (add_candidates acc vs)"
  by (induction vs arbitrary: acc) (auto simp: Let_def)

lemma extract_token_candidates_distinct: "distinct (extract_token_candidates m)"
  by (auto simp: extract_token_candidates_def Let_def split: option.splits intro!: add_candidates_distinct)

text \<open>Every parsed level comes from an item that has a number for its price and its size.\<close>

lemma parse_level_items_source:
  "parse_level_items vs = Inr ls \<Longrightarrow> l \<in> set ls \<Longrightarrow>
     \<exists>v \<in> set vs. \<exists>pv sv. level_fields v = Some (pv, sv) \<and>
       decimal_value pv = Inr (Some (lv_price l)) \<and> decimal_value sv = Inr (Some (lv_size l))"
proof (induction vs arbitrary: ls)
  case (Cons v vs)
  show ?case
  proof (cases "level_fields v")
    case None
    then show ?thesis using Cons by auto
  next
    case (Some f)
    obtain pv sv where f: "f = (pv, sv)" by (cases f)
    obtain p s ls' where r: "decimal_value pv = Inr p" "decimal_value sv = Inr s"
      "parse_level_items vs = Inr ls'" "ls = (case (p, s) of (Some p, Some s) \<Rightarrow> lv p s # ls' | _ \<Rightarrow> ls')"
      using Cons.prems(1) Some f by auto
    then show ?thesis using Cons.IH [OF r(3)] Cons.prems(2) Some f
      by (cases p; cases s) auto
  qed
qed simp

text \<open>An integer field reads back as itself, as text or as a number.\<close>

lemma decimal_value_int:
  "decimal_value (PInt i) = Inr (Some (of_int i))"
  "decimal_value (PStr (int_text i)) = Inr (Some (of_int i))"
  using int_text_ends [of i] by (simp_all add: decimal_value_def parse_decimal_int_text)

end
