(* ===== verification/Book_Projector.thy ===== *)
theory Book_Projector
  imports Market_Adapter
begin

text \<open>
  \<open>pipeline/ingest/orderbook_ws/book_projector.py\<close>: the state kept per token and how a
  book, a price change, a REST snapshot and the other messages change its order book. The
  clock (\<open>utc_now\<close>) is an argument. Text that is no number raises \<open>InvalidOperation\<close>
  before the state is touched.
\<close>

text \<open>\<open>MarketWsResultSummary\<close> of the worker, which the state of a token remembers.\<close>

record ws_result =
  wr_token_id :: string
  wr_market_slug :: "string option"
  wr_condition_id :: "string option"
  wr_source :: string
  wr_reason :: string
  wr_event_types :: "string list"
  wr_last_sequence :: "int option"
  wr_resolved :: bool
  wr_needs_rest_snapshot :: bool
  wr_best_bid :: "decimal option"
  wr_best_ask :: "decimal option"
  wr_ask_depth :: decimal
  wr_created_at :: int

record book_state =
  bs_snapshot :: book
  bs_last_sequence :: "int option"
  bs_needs_rest_snapshot :: bool
  bs_resolved :: bool
  bs_subscribed_at :: "int option"
  bs_last_message_at :: "int option"
  bs_last_rest_snapshot_at :: "int option"
  bs_last_error :: "string option"
  bs_last_result :: "ws_result option"

definition empty_snapshot :: "string \<Rightarrow> market option \<Rightarrow> int \<Rightarrow> book" where
  "empty_snapshot tid mk now =
     \<lparr>ob_token_id = tid, ob_best_bid = None, ob_best_ask = None, ob_bids = [], ob_asks = [],
      ob_received_at = now, ob_market_slug = map_option mk_market_slug mk,
      ob_condition_id = map_option mk_condition_id mk, ob_best_bid_size = None,
      ob_best_ask_size = None, ob_last_trade_price = None,
      ob_tick_size = map_option mk_tick_size mk\<rparr>"

definition initial_state :: "string \<Rightarrow> market option \<Rightarrow> int \<Rightarrow> book_state" where
  "initial_state tid mk now =
     \<lparr>bs_snapshot = empty_snapshot tid mk now, bs_last_sequence = None,
      bs_needs_rest_snapshot = False, bs_resolved = False, bs_subscribed_at = None,
      bs_last_message_at = None, bs_last_rest_snapshot_at = None, bs_last_error = None,
      bs_last_result = None\<rparr>"

subsection \<open>Levels\<close>

definition upsert_level :: "price_level list \<Rightarrow> decimal \<Rightarrow> decimal \<Rightarrow> price_level list" where
  "upsert_level ls p s =
     (if list_ex (\<lambda>l. lv_price l = p) ls
      then map (\<lambda>l. if lv_price l = p then lv p s else l) ls
      else ls @ [lv p s])"

definition size_for_price :: "price_level list \<Rightarrow> decimal option \<Rightarrow> decimal option" where
  "size_for_price ls price = (case price of
       None \<Rightarrow> None
     | Some p \<Rightarrow> map_option lv_size (find (\<lambda>l. lv_price l = p) ls))"

subsection \<open>A whole book\<close>

definition opt_value :: "string option \<Rightarrow> py_value" where
  "opt_value s = (case s of None \<Rightarrow> PNone | Some t \<Rightarrow> PStr t)"

text \<open>\<open>str(value or (previous.field if previous else "")) or None\<close>\<close>

definition text_or_previous :: "py_value \<Rightarrow> book option \<Rightarrow> (book \<Rightarrow> string option) \<Rightarrow> string option" where
  "text_or_previous v previous field =
     (let s = py_str (py_or v (case previous of None \<Rightarrow> PStr [] | Some b \<Rightarrow> opt_value (field b)))
      in if s = [] then None else Some s)"

definition book_payload :: "message \<Rightarrow> message" where
  "book_payload m =
     (case first_value m [''book'', ''orderbook'', ''snapshot'', ''rest_snapshot''] of
        PDict d \<Rightarrow> d | _ \<Rightarrow> m)"

definition snapshot_from_message :: "string \<Rightarrow> message \<Rightarrow> book option \<Rightarrow> int \<Rightarrow> book result" where
  "snapshot_from_message tid m previous now =
     (let payload = book_payload m; field = (\<lambda>ks. decimal_value (first_value payload ks)) in
      bind_result (parse_levels (first_value payload [''bids'', ''yes_bids''])) (\<lambda>bids.
      bind_result (parse_levels (first_value payload [''asks'', ''no_asks''])) (\<lambda>asks.
      bind_result (field [''best_bid'', ''bestBid'']) (\<lambda>given_bid.
      bind_result (field [''best_ask'', ''bestAsk'']) (\<lambda>given_ask.
      bind_result (field [''best_bid_size'', ''bestBidSize'']) (\<lambda>bid_size.
      bind_result (field [''best_ask_size'', ''bestAskSize'']) (\<lambda>ask_size.
      bind_result (field [''tick_size'', ''tickSize'']) (\<lambda>tick.
      bind_result (field [''last_trade_price'', ''lastTradePrice'']) (\<lambda>ltp.
        let best_bid = dec_or given_bid (best_price bids);
            best_ask = dec_or given_ask (worst_ask asks)
        in Inr \<lparr>ob_token_id = tid, ob_best_bid = best_bid, ob_best_ask = best_ask,
             ob_bids = bids, ob_asks = asks, ob_received_at = now,
             ob_market_slug = text_or_previous
               (first_value payload [''market_slug'', ''marketSlug'', ''slug'']) previous ob_market_slug,
             ob_condition_id = text_or_previous
               (first_value payload [''condition_id'', ''conditionId'', ''market'']) previous ob_condition_id,
             ob_best_bid_size = or_else bid_size (size_for_price bids best_bid),
             ob_best_ask_size = or_else ask_size (size_for_price asks best_ask),
             ob_last_trade_price = dec_or ltp (Option.bind previous ob_last_trade_price),
             ob_tick_size = dec_or tick (Option.bind previous ob_tick_size)\<rparr>)))))))))"

definition snapshot_from_mapping ::
  "string \<Rightarrow> message \<Rightarrow> market option \<Rightarrow> book option \<Rightarrow> int \<Rightarrow> book result" where
  "snapshot_from_mapping tid m mk previous now =
     snapshot_from_message tid m
       (if previous = None \<and> mk \<noteq> None then Some (empty_snapshot tid mk now) else previous) now"

definition apply_book_message :: "string \<Rightarrow> book_state \<Rightarrow> message \<Rightarrow> int \<Rightarrow> book_state result" where
  "apply_book_message tid st m now =
     bind_result (snapshot_from_message tid m (Some (bs_snapshot st)) now) (\<lambda>b.
       Inr (st\<lparr>bs_snapshot := b, bs_needs_rest_snapshot := False\<rparr>))"

text \<open>A REST snapshot is a book the client built, or a raw mapping.\<close>

datatype rest_snapshot = Rest_Book book | Rest_Mapping message

definition rest_state ::
  "string \<Rightarrow> rest_snapshot \<Rightarrow> market option \<Rightarrow> book_state option \<Rightarrow> int \<Rightarrow> book_state result" where
  "rest_state tid snap mk current now =
     bind_result
       (case snap of
          Rest_Book b \<Rightarrow> Inr b
        | Rest_Mapping m \<Rightarrow> snapshot_from_mapping tid m mk (map_option bs_snapshot current) now)
       (\<lambda>b. Inr \<lparr>bs_snapshot = b,
           bs_last_sequence = (case snap of Rest_Book _ \<Rightarrow> None | Rest_Mapping m \<Rightarrow> extract_sequence m),
           bs_needs_rest_snapshot = False,
           bs_resolved = (case current of None \<Rightarrow> False | Some st \<Rightarrow> bs_resolved st),
           bs_subscribed_at = Option.bind current bs_subscribed_at,
           bs_last_message_at = Some now, bs_last_rest_snapshot_at = Some now,
           bs_last_error = Option.bind current bs_last_error, bs_last_result = None\<rparr>)"

subsection \<open>A price change\<close>

record price_fields =
  pf_best_bid :: "decimal option"
  pf_best_ask :: "decimal option"
  pf_best_bid_size :: "decimal option"
  pf_best_ask_size :: "decimal option"
  pf_side :: string
  pf_price :: "decimal option"
  pf_size :: "decimal option"

definition read_price_fields :: "message \<Rightarrow> price_fields result" where
  "read_price_fields m =
     (let field = (\<lambda>ks. decimal_value (first_value m ks)) in
      bind_result (field [''best_bid'', ''bestBid'', ''bid'']) (\<lambda>bb.
      bind_result (field [''best_ask'', ''bestAsk'', ''ask'']) (\<lambda>ba.
      bind_result (field [''best_bid_size'', ''bestBidSize'']) (\<lambda>bbs.
      bind_result (field [''best_ask_size'', ''bestAskSize'']) (\<lambda>bas.
      bind_result (field [''price'', ''new_price'', ''p'']) (\<lambda>p.
      bind_result (field [''size'', ''new_size'', ''quantity'', ''qty'']) (\<lambda>s.
        Inr \<lparr>pf_best_bid = bb, pf_best_ask = ba, pf_best_bid_size = bbs, pf_best_ask_size = bas,
             pf_side = py_lower (py_str (py_or
               (first_value m [''side'', ''book_side'', ''direction'']) (PStr []))),
             pf_price = p, pf_size = s\<rparr>)))))))"

definition bid_side :: "string \<Rightarrow> bool" where
  "bid_side s \<longleftrightarrow> s \<in> {''bid'', ''buy'', ''yes''}"

text \<open>The change of a level first replaces the level, then fills in the touched side's best.\<close>

definition touch_level :: "book \<Rightarrow> price_fields \<Rightarrow> price_fields \<times> price_level list \<times> price_level list" where
  "touch_level b f = (case (pf_price f, pf_size f) of
       (Some p, Some s) \<Rightarrow>
         if bid_side (pf_side f)
         then (let bids = upsert_level (ob_bids b) p s;
                   bb = dec_or (pf_best_bid f) (best_price bids)
               in (f\<lparr>pf_best_bid := bb,
                     pf_best_bid_size := dec_or (pf_best_bid_size f) (size_for_price bids bb)\<rparr>,
                   bids, ob_asks b))
         else (let asks = upsert_level (ob_asks b) p s;
                   ba = dec_or (pf_best_ask f) (worst_ask asks)
               in (f\<lparr>pf_best_ask := ba,
                     pf_best_ask_size := dec_or (pf_best_ask_size f) (size_for_price asks ba)\<rparr>,
                   ob_bids b, asks))
     | _ \<Rightarrow> (f, ob_bids b, ob_asks b))"

definition apply_price_fields :: "book \<Rightarrow> price_fields \<Rightarrow> int \<Rightarrow> book" where
  "apply_price_fields b f now = (case touch_level b f of (g, bids, asks) \<Rightarrow>
     b\<lparr>ob_best_bid := or_else (pf_best_bid g) (ob_best_bid b),
       ob_best_ask := or_else (pf_best_ask g) (ob_best_ask b),
       ob_best_bid_size := or_else (pf_best_bid_size g) (ob_best_bid_size b),
       ob_best_ask_size := or_else (pf_best_ask_size g) (ob_best_ask_size b),
       ob_bids := bids, ob_asks := asks, ob_received_at := now\<rparr>)"

definition apply_price_message :: "book_state \<Rightarrow> message \<Rightarrow> int \<Rightarrow> book_state result" where
  "apply_price_message st m now =
     bind_result (read_price_fields m) (\<lambda>f.
       Inr (st\<lparr>bs_snapshot := apply_price_fields (bs_snapshot st) f now\<rparr>))"

subsection \<open>The other messages\<close>

definition apply_tick_size_change :: "book_state \<Rightarrow> decimal option \<Rightarrow> int \<Rightarrow> book_state" where
  "apply_tick_size_change st tick now =
     st\<lparr>bs_snapshot := (bs_snapshot st)\<lparr>ob_tick_size := dec_or tick (ob_tick_size (bs_snapshot st)),
                                      ob_received_at := now\<rparr>\<rparr>"

definition apply_last_trade_price :: "book_state \<Rightarrow> decimal \<Rightarrow> int \<Rightarrow> book_state" where
  "apply_last_trade_price st p now =
     st\<lparr>bs_snapshot := (bs_snapshot st)\<lparr>ob_last_trade_price := Some p, ob_received_at := now\<rparr>\<rparr>"

definition touch :: "book_state \<Rightarrow> int \<Rightarrow> book_state" where
  "touch st now = st\<lparr>bs_snapshot := (bs_snapshot st)\<lparr>ob_received_at := now\<rparr>\<rparr>"

definition sequence_gap_detected :: "book_state \<Rightarrow> int option \<Rightarrow> bool" where
  "sequence_gap_detected st seq = (case (seq, bs_last_sequence st) of
       (Some n, Some k) \<Rightarrow> n > k + 1 | _ \<Rightarrow> False)"

subsection \<open>A side of the book as a map from prices to sizes\<close>

definition level_map :: "price_level list \<Rightarrow> decimal \<Rightarrow> decimal option" where
  "level_map ls p = size_for_price ls (Some p)"

definition levels_ok :: "price_level list \<Rightarrow> bool" where
  "levels_ok ls \<longleftrightarrow> distinct (map lv_price ls)"

text \<open>The contract of a price-keyed store of sizes, and its interpretation on level lists.\<close>

locale price_store =
  fixes put :: "'s \<Rightarrow> decimal \<Rightarrow> decimal \<Rightarrow> 's"
    and look :: "'s \<Rightarrow> decimal \<Rightarrow> decimal option"
    and prices :: "'s \<Rightarrow> decimal set"
    and ok :: "'s \<Rightarrow> bool"
  assumes look_put: "look (put st p s) = (look st)(p \<mapsto> s)"
    and prices_look: "prices st = dom (look st)"
    and ok_put: "ok st \<Longrightarrow> ok (put st p s)"
begin

lemma prices_put: "prices (put st p s) = insert p (prices st)"
  by (simp add: prices_look look_put)

lemma put_put_look: "look (put (put st p s) p s') = look (put st p s')"
  by (simp add: look_put)

text \<open>A run of updates leaves every price with its last size.\<close>

lemma look_run:
  "look (fold (\<lambda>(p, s) st. put st p s) us st) = look st ++ map_of (rev us)"
  by (induction us arbitrary: st) (auto simp: look_put)

lemma ok_run: "ok st \<Longrightarrow> ok (fold (\<lambda>(p, s) st. put st p s) us st)"
  by (induction us arbitrary: st) (auto simp: ok_put)

end

lemma level_map_Cons:
  "level_map (l # ls) p = (if lv_price l = p then Some (lv_size l) else level_map ls p)"
  by (simp add: level_map_def size_for_price_def)

lemma level_map_Nil [simp]: "level_map [] p = None"
  by (simp add: level_map_def size_for_price_def)

lemma dom_level_map: "dom (level_map ls) = lv_price ` set ls"
  by (induction ls) (auto simp: dom_def level_map_Cons split: if_splits)

lemma upsert_prices:
  "map lv_price (upsert_level ls p s) =
     (if p \<in> lv_price ` set ls then map lv_price ls else map lv_price ls @ [p])"
  by (auto simp: upsert_level_def list_ex_iff)

interpretation levels: price_store upsert_level level_map "\<lambda>ls. lv_price ` set ls" levels_ok
proof unfold_locales
  have changed: "level_map (map (\<lambda>l. if lv_price l = p then lv p s else l) ls) q =
      (if q = p then if p \<in> lv_price ` set ls then Some s else None else level_map ls q)" for ls p s q
    by (induction ls) (auto simp: level_map_Cons)
  have appended: "level_map (ls @ [lv p s]) q = (if q \<in> lv_price ` set ls then level_map ls q
      else if q = p then Some s else None)" for ls p s q
    by (induction ls) (auto simp: level_map_Cons)
  have outside: "q \<notin> lv_price ` set ls \<Longrightarrow> level_map ls q = None" for ls q
    using dom_level_map [of ls] by blast
  show "level_map (upsert_level ls p s) = (level_map ls)(p \<mapsto> s)" for ls p s
  proof (rule ext)
    fix q
    show "level_map (upsert_level ls p s) q = ((level_map ls)(p \<mapsto> s)) q"
      using outside [of q ls] by (auto simp: upsert_level_def list_ex_iff changed appended)
  qed
  show "lv_price ` set ls = dom (level_map ls)" for ls by (rule dom_level_map [symmetric])
  show "levels_ok ls \<Longrightarrow> levels_ok (upsert_level ls p s)" for ls p s
    by (auto simp: levels_ok_def upsert_prices)
qed

definition book_levels_ok :: "book \<Rightarrow> bool" where
  "book_levels_ok b \<longleftrightarrow> levels_ok (ob_bids b) \<and> levels_ok (ob_asks b)"

lemma apply_price_fields_levels_ok:
  "book_levels_ok b \<Longrightarrow> book_levels_ok (apply_price_fields b f now)"
  by (auto simp: book_levels_ok_def apply_price_fields_def touch_level_def Let_def levels.ok_put
      split: option.splits prod.splits)

lemma apply_price_fields_token [simp]: "ob_token_id (apply_price_fields b f now) = ob_token_id b"
  by (simp add: apply_price_fields_def split: prod.splits)

lemma snapshot_from_message_token:
  "snapshot_from_message tid m prev now = Inr b \<Longrightarrow> ob_token_id b = tid"
  by (auto simp: snapshot_from_message_def Let_def)

lemma touch_level_bid:
  "pf_price f = Some p \<Longrightarrow> pf_size f = Some s \<Longrightarrow> bid_side (pf_side f) \<Longrightarrow>
     ob_bids (apply_price_fields b f now) = upsert_level (ob_bids b) p s
     \<and> ob_asks (apply_price_fields b f now) = ob_asks b"
  by (simp add: apply_price_fields_def touch_level_def Let_def)

lemma touch_level_ask:
  "pf_price f = Some p \<Longrightarrow> pf_size f = Some s \<Longrightarrow> \<not> bid_side (pf_side f) \<Longrightarrow>
     ob_asks (apply_price_fields b f now) = upsert_level (ob_asks b) p s
     \<and> ob_bids (apply_price_fields b f now) = ob_bids b"
  by (simp add: apply_price_fields_def touch_level_def Let_def)

lemma best_price_upsert: "best_price (upsert_level ls p s) \<noteq> None" "worst_ask (upsert_level ls p s) \<noteq> None"
  by (auto simp: upsert_level_def list_ex_iff)

text \<open>The best bid after a bid change without a best bid of its own is the best of the new levels.\<close>

lemma price_change_best_bid:
  assumes "pf_price f = Some p" "pf_size f = Some s" "bid_side (pf_side f)" "dec_truthy (pf_best_bid f) = None"
  shows "ob_best_bid (apply_price_fields b f now) = best_price (upsert_level (ob_bids b) p s)"
  using assms by (simp add: apply_price_fields_def touch_level_def Let_def dec_or_def
      or_else_absorb [OF best_price_upsert(1)])

lemma price_change_best_ask:
  assumes "pf_price f = Some p" "pf_size f = Some s" "\<not> bid_side (pf_side f)" "dec_truthy (pf_best_ask f) = None"
  shows "ob_best_ask (apply_price_fields b f now) = worst_ask (upsert_level (ob_asks b) p s)"
  using assms by (simp add: apply_price_fields_def touch_level_def Let_def dec_or_def
      or_else_absorb [OF best_price_upsert(2)])

subsection \<open>Claims\<close>

definition side_of :: "string \<Rightarrow> book \<Rightarrow> price_level list" where
  "side_of s b = (if bid_side s then ob_bids b else ob_asks b)"

definition other_side :: "string \<Rightarrow> book \<Rightarrow> price_level list" where
  "other_side s b = (if bid_side s then ob_asks b else ob_bids b)"

definition demo_change :: message where
  "demo_change = [(''event_type'', PStr ''price_change''), (''price'', PStr ''0.55''),
     (''size'', PStr ''0''), (''side'', PStr ''BUY'')]"

definition demo_fields :: price_fields where
  "demo_fields = \<lparr>pf_best_bid = None, pf_best_ask = None, pf_best_bid_size = None,
     pf_best_ask_size = None, pf_side = ''buy'', pf_price = Some (55/100), pf_size = Some 0\<rparr>"

definition demo_state :: book_state where
  "demo_state = (let st = initial_state ''t1'' None 0 in
     st\<lparr>bs_snapshot := (bs_snapshot st)\<lparr>ob_bids := [lv (50/100) 7, lv (55/100) 3]\<rparr>\<rparr>)"

lemma demo_fields_read: "read_price_fields demo_change = Inr demo_fields"
  by code_simp

text \<open>
  C23: A price change that names a price and a size is an update of one side of the book seen
  as a map from prices to sizes: that price gets that size, every other price of the side
  and the whole other side keep theirs, and distinct prices stay distinct.
\<close>

theorem price_change_updates_map:
  assumes "read_price_fields m = Inr f" "pf_price f = Some p" "pf_size f = Some s"
    and "apply_price_message st m now = Inr st'"
  shows "level_map (side_of (pf_side f) (bs_snapshot st')) =
           (level_map (side_of (pf_side f) (bs_snapshot st)))(p \<mapsto> s)
       \<and> other_side (pf_side f) (bs_snapshot st') = other_side (pf_side f) (bs_snapshot st)
       \<and> (book_levels_ok (bs_snapshot st) \<longrightarrow> book_levels_ok (bs_snapshot st'))"
proof -
  have st': "bs_snapshot st' = apply_price_fields (bs_snapshot st) f now"
    using assms(1,4) by (auto simp: apply_price_message_def)
  show ?thesis
    using touch_level_bid [OF assms(2,3), of "bs_snapshot st" now]
      touch_level_ask [OF assms(2,3), of "bs_snapshot st" now]
      apply_price_fields_levels_ok [of "bs_snapshot st" f now]
    by (auto simp: st' side_of_def other_side_def levels.look_put)
qed

theorem price_change_updates_map_witness:
  "level_map (ob_bids (apply_price_fields (bs_snapshot demo_state) demo_fields 5)) =
     (level_map [lv (50/100) 7, lv (55/100) 3])(55/100 \<mapsto> 0)"
proof -
  have "apply_price_message demo_state demo_change 5 =
      Inr (demo_state\<lparr>bs_snapshot := apply_price_fields (bs_snapshot demo_state) demo_fields 5\<rparr>)"
    by (simp add: apply_price_message_def demo_fields_read)
  from price_change_updates_map [OF demo_fields_read _ _ this, of "55/100" 0]
  show ?thesis
    by (simp add: demo_fields_def demo_state_def initial_state_def side_of_def bid_side_def Let_def)
qed

text \<open>
  A level whose size drops to zero is kept: after a bid change with size zero at the best
  price and no best bid in the message, the best bid of the book is still that price,
  with size zero.
\<close>

lemma emptied_level_stays_best:
  assumes "read_price_fields m = Inr f" "bid_side (pf_side f)" "pf_price f = Some p" "pf_size f = Some 0"
    and "pf_best_bid f = None" "pf_best_bid_size f = None"
    and "best_price (ob_bids (bs_snapshot st)) = Some p"
    and "apply_price_message st m now = Inr st'"
  shows "ob_best_bid (bs_snapshot st') = Some p \<and> ob_best_bid_size (bs_snapshot st') = Some 0"
proof -
  let ?b = "bs_snapshot st" and ?ls = "upsert_level (ob_bids (bs_snapshot st)) p 0"
  have st': "bs_snapshot st' = apply_price_fields ?b f now"
    using assms(1,8) by (auto simp: apply_price_message_def)
  have "p \<in> lv_price ` set (ob_bids ?b)" using assms(7) by (simp add: best_price_iff)
  then have "map lv_price ?ls = map lv_price (ob_bids ?b)" by (simp add: upsert_prices)
  then have best: "best_price ?ls = Some p" using assms(7) by (simp only: best_price_def)
  have "size_for_price ?ls (Some p) = Some 0"
    using levels.look_put [of "ob_bids ?b" p 0] by (simp flip: level_map_def)
  with best show ?thesis using assms(2-6)
    by (simp add: st' apply_price_fields_def touch_level_def Let_def dec_or_def dec_truthy_def)
qed

end
