(* ===== verification/Market_Registry.thy ===== *)
theory Market_Registry
  imports Market_Model
begin

text \<open>
  \<open>runtime/registry.py\<close>: the registry of markets with its indexes by token, slug and event
  slug, the companion state of every market, and the callbacks on first appearance and on
  removal. Every operation takes a fresh copy of the maps and publishes it at once, so an
  operation is one function of the state. A write whose lock is not acquired in time is
  skipped (\<open>acquired\<close>). The callbacks live in other components: a call is recorded in
  \<open>rg_calls\<close>; an exception of one is caught by the code and changes nothing here.
\<close>

record companion =
  cp_already_paused_audit :: bool
  cp_last_reconcile_applied_at :: int
  cp_last_reconcile_diff_at :: int
  cp_last_audit_state_hash :: "string option"
  cp_last_audit_emit_at :: int
  cp_last_filter_reason :: "string option"
  cp_last_filter_emit_at :: int
  cp_terminal_pause_emitted :: bool
  cp_last_gap_recorded_minute :: "int option"

definition new_companion :: companion where
  "new_companion = \<lparr>cp_already_paused_audit = False, cp_last_reconcile_applied_at = 0,
     cp_last_reconcile_diff_at = 0, cp_last_audit_state_hash = None, cp_last_audit_emit_at = 0,
     cp_last_filter_reason = None, cp_last_filter_emit_at = 0, cp_terminal_pause_emitted = False,
     cp_last_gap_recorded_minute = None\<rparr>"

datatype registry_call = Added_Call string market | Prune_Call string string "string list"

record registry =
  rg_markets :: "(string, market) dict"
  rg_by_token :: "(string, string) dict"
  rg_by_slug :: "(string, string) dict"
  rg_by_event_slug :: "(string, string) dict"
  rg_companions :: "(string, companion) dict"
  rg_first_tracked :: "(string, int) dict"
  rg_prune_callbacks :: "string list"
  rg_added_callbacks :: "string list"
  rg_snapshot :: "market list"
  rg_calls :: "registry_call list"

definition new_registry :: registry where
  "new_registry = \<lparr>rg_markets = [], rg_by_token = [], rg_by_slug = [], rg_by_event_slug = [],
     rg_companions = [], rg_first_tracked = [], rg_prune_callbacks = [], rg_added_callbacks = [],
     rg_snapshot = [], rg_calls = []\<rparr>"

definition register_prune_callback :: "registry \<Rightarrow> string \<Rightarrow> registry" where
  "register_prune_callback g cb = g\<lparr>rg_prune_callbacks := rg_prune_callbacks g @ [cb]\<rparr>"

definition register_added_callback :: "registry \<Rightarrow> string \<Rightarrow> registry" where
  "register_added_callback g cb = g\<lparr>rg_added_callbacks := rg_added_callbacks g @ [cb]\<rparr>"

subsection \<open>Lookups\<close>

definition first_tracked_at :: "registry \<Rightarrow> string \<Rightarrow> int option" where
  "first_tracked_at g cid = dict_get (rg_first_tracked g) cid"

definition companion_of :: "registry \<Rightarrow> string \<Rightarrow> companion option" where
  "companion_of g cid = dict_get (rg_companions g) cid"

definition get_by_condition_id :: "registry \<Rightarrow> string \<Rightarrow> market option" where
  "get_by_condition_id g cid = dict_get (rg_markets g) cid"

definition get_by_token_id :: "registry \<Rightarrow> string \<Rightarrow> market option" where
  "get_by_token_id g tid =
     (case dict_get (rg_by_token g) tid of None \<Rightarrow> None | Some cid \<Rightarrow> dict_get (rg_markets g) cid)"

definition get_by_slug :: "registry \<Rightarrow> string \<Rightarrow> market option" where
  "get_by_slug g slug =
     (case or_else (dict_get (rg_by_slug g) slug) (dict_get (rg_by_event_slug g) slug) of
        None \<Rightarrow> None | Some cid \<Rightarrow> dict_get (rg_markets g) cid)"

text \<open>The lookups of the published snapshot scan its markets.\<close>

definition snapshot_by_condition_id :: "market list \<Rightarrow> string \<Rightarrow> market option" where
  "snapshot_by_condition_id ms cid = find (\<lambda>m. mk_condition_id m = cid) ms"

definition snapshot_by_token_id :: "market list \<Rightarrow> string \<Rightarrow> market option" where
  "snapshot_by_token_id ms tid = find (\<lambda>m. tid \<in> set (token_ids m)) ms"

definition snapshot_by_slug :: "market list \<Rightarrow> string \<Rightarrow> market option" where
  "snapshot_by_slug ms slug =
     find (\<lambda>m. mk_market_slug m = slug \<or> mk_event_slug m = Some slug) ms"

subsection \<open>Indexes\<close>

definition detach_key :: "string \<Rightarrow> string \<Rightarrow> (string, string) dict \<Rightarrow> (string, string) dict" where
  "detach_key cid k idx = (if dict_get idx k = Some cid then dict_pop idx k else idx)"

definition attach_key :: "string \<Rightarrow> string \<Rightarrow> (string, string) dict \<Rightarrow> (string, string) dict" where
  "attach_key cid k idx = dict_set idx k cid"

text \<open>\<open>index.setdefault(key, condition_id)\<close>\<close>

definition default_key :: "string \<Rightarrow> string \<Rightarrow> (string, string) dict \<Rightarrow> (string, string) dict" where
  "default_key cid k idx = (if dict_get idx k = None then dict_set idx k cid else idx)"

definition event_keys :: "market \<Rightarrow> string list" where
  "event_keys m = (case mk_event_slug m of None \<Rightarrow> [] | Some s \<Rightarrow> if s = [] then [] else [s])"

definition slug_keys :: "market \<Rightarrow> string list" where
  "slug_keys m = [mk_market_slug m]"

definition detach_indexes :: "market \<Rightarrow> registry \<Rightarrow> registry" where
  "detach_indexes m g = g\<lparr>
     rg_by_token := fold (detach_key (mk_condition_id m)) (token_ids m) (rg_by_token g),
     rg_by_slug := fold (detach_key (mk_condition_id m)) (slug_keys m) (rg_by_slug g),
     rg_by_event_slug := fold (detach_key (mk_condition_id m)) (event_keys m) (rg_by_event_slug g)\<rparr>"

definition attach_indexes :: "market \<Rightarrow> registry \<Rightarrow> registry" where
  "attach_indexes m g = g\<lparr>
     rg_by_token := fold (attach_key (mk_condition_id m)) (token_ids m) (rg_by_token g),
     rg_by_slug := fold (attach_key (mk_condition_id m)) (slug_keys m) (rg_by_slug g),
     rg_by_event_slug := fold (default_key (mk_condition_id m)) (event_keys m) (rg_by_event_slug g)\<rparr>"

definition publish_state :: "registry \<Rightarrow> registry" where
  "publish_state g = g\<lparr>rg_snapshot := dict_values (rg_markets g)\<rparr>"

subsection \<open>Writes\<close>

definition upsert_locked :: "registry \<Rightarrow> market \<Rightarrow> int \<Rightarrow> registry" where
  "upsert_locked g m now =
     (let cid = mk_condition_id m;
          g1 = (case dict_get (rg_markets g) cid of None \<Rightarrow> g | Some prev \<Rightarrow> detach_indexes prev g);
          g2 = attach_indexes m (g1\<lparr>rg_markets := dict_set (rg_markets g1) cid m\<rparr>);
          is_new = (dict_get (rg_companions g2) cid = None);
          g3 = (if is_new then g2\<lparr>rg_companions := dict_set (rg_companions g2) cid new_companion,
                                 rg_first_tracked := dict_set (rg_first_tracked g2) cid now\<rparr>
                else g2);
          g4 = publish_state g3
      in if is_new
         then g4\<lparr>rg_calls := rg_calls g4 @ map (\<lambda>cb. Added_Call cb m) (rg_added_callbacks g4)\<rparr>
         else g4)"

definition update_market_locked ::
  "registry \<Rightarrow> string \<Rightarrow> (market \<Rightarrow> market) \<Rightarrow> registry \<times> market option" where
  "update_market_locked g cid upd =
     (case dict_get (rg_markets g) cid of
        None \<Rightarrow> (g, None)
      | Some current \<Rightarrow>
          (let m = upd current; g1 = detach_indexes current g;
               g2 = attach_indexes m (g1\<lparr>rg_markets := dict_set (rg_markets g1) cid m\<rparr>)
           in (publish_state g2, Some m)))"

definition remove_market_locked :: "registry \<Rightarrow> string \<Rightarrow> registry \<times> market option" where
  "remove_market_locked g cid =
     (case dict_get (rg_markets g) cid of
        None \<Rightarrow> (g, None)
      | Some current \<Rightarrow>
          (let g1 = detach_indexes current g;
               g2 = publish_state (g1\<lparr>rg_markets := dict_pop (rg_markets g1) cid,
                      rg_companions := dict_pop (rg_companions g1) cid,
                      rg_first_tracked := dict_pop (rg_first_tracked g1) cid\<rparr>)
           in (g2\<lparr>rg_calls := rg_calls g2 @
                   map (\<lambda>cb. Prune_Call cb cid (token_ids current)) (rg_prune_callbacks g2)\<rparr>,
               Some current)))"

definition with_condition_lock ::
  "bool \<Rightarrow> registry \<Rightarrow> (registry \<Rightarrow> registry \<times> market option) \<Rightarrow> registry \<times> market option" where
  "with_condition_lock acquired g action = (if acquired then action g else (g, None))"

definition upsert :: "bool \<Rightarrow> registry \<Rightarrow> market \<Rightarrow> int \<Rightarrow> registry" where
  "upsert acquired g m now =
     fst (with_condition_lock acquired g (\<lambda>g. (upsert_locked g m now, Some m)))"

definition reconcile :: "bool \<Rightarrow> registry \<Rightarrow> market \<Rightarrow> int \<Rightarrow> registry \<times> market option" where
  "reconcile acquired g m now =
     with_condition_lock acquired g (\<lambda>g. (upsert_locked g m now, Some m))"

definition remove_market :: "bool \<Rightarrow> registry \<Rightarrow> string \<Rightarrow> registry \<times> market option" where
  "remove_market acquired g cid = with_condition_lock acquired g (\<lambda>g. remove_market_locked g cid)"

definition update_market ::
  "bool \<Rightarrow> registry \<Rightarrow> string \<Rightarrow> (market \<Rightarrow> market) \<Rightarrow> registry \<times> market option" where
  "update_market acquired g cid upd =
     with_condition_lock acquired g (\<lambda>g. update_market_locked g cid upd)"

definition set_trading_status ::
  "bool \<Rightarrow> registry \<Rightarrow> string \<Rightarrow> trading_status \<Rightarrow> string option \<Rightarrow> registry \<times> market option" where
  "set_trading_status acquired g cid ts reason =
     update_market acquired g cid (\<lambda>m. with_trading_status m ts reason)"

definition change_tick_size :: "bool \<Rightarrow> registry \<Rightarrow> string \<Rightarrow> decimal \<Rightarrow> registry \<times> market option" where
  "change_tick_size acquired g cid tick = update_market acquired g cid (\<lambda>m. with_tick_size m tick)"

definition change_min_order_size ::
  "bool \<Rightarrow> registry \<Rightarrow> string \<Rightarrow> decimal \<Rightarrow> registry \<times> market option" where
  "change_min_order_size acquired g cid sz =
     update_market acquired g cid (\<lambda>m. with_min_order_size m sz)"

definition update_fee_schedule ::
  "bool \<Rightarrow> registry \<Rightarrow> string \<Rightarrow> bool option \<Rightarrow> int option \<Rightarrow> int option \<Rightarrow> registry \<times> market option" where
  "update_fee_schedule acquired g cid enabled maker taker =
     update_market acquired g cid (\<lambda>m. with_fee_schedule m enabled maker taker)"

definition update_fee_rate ::
  "bool \<Rightarrow> registry \<Rightarrow> string \<Rightarrow> int option \<Rightarrow> int option \<Rightarrow> registry \<times> market option" where
  "update_fee_rate acquired g cid rate updated =
     update_market acquired g cid (\<lambda>m. with_fee_rate m rate updated)"

definition mark_resolved :: "bool \<Rightarrow> registry \<Rightarrow> string \<Rightarrow> registry \<times> market option" where
  "mark_resolved acquired g cid = set_trading_status acquired g cid TS_RESOLVED None"

definition mark_closed :: "bool \<Rightarrow> registry \<Rightarrow> string \<Rightarrow> registry \<times> market option" where
  "mark_closed acquired g cid = set_trading_status acquired g cid TS_CLOSED None"

definition disable_orderbook :: "bool \<Rightarrow> registry \<Rightarrow> string \<Rightarrow> string \<Rightarrow> registry \<times> market option" where
  "disable_orderbook acquired g cid reason = set_trading_status acquired g cid TS_PAUSED (Some reason)"

definition pause_registered :: "bool \<Rightarrow> registry \<Rightarrow> string \<Rightarrow> string \<Rightarrow> registry \<times> market option" where
  "pause_registered acquired g cid reason = set_trading_status acquired g cid TS_PAUSED (Some reason)"

definition resume_registered :: "bool \<Rightarrow> registry \<Rightarrow> string \<Rightarrow> registry \<times> market option" where
  "resume_registered acquired g cid =
     (case get_by_condition_id g cid of
        None \<Rightarrow> (g, None)
      | Some m \<Rightarrow>
          if mk_trading_status m \<notin> {TS_PAUSED, TS_CANDIDATE} then (g, Some m)
          else set_trading_status acquired g cid TS_ELIGIBLE None)"

definition reject_market :: "bool \<Rightarrow> registry \<Rightarrow> string \<Rightarrow> string \<Rightarrow> registry \<times> market option" where
  "reject_market acquired g cid reason = set_trading_status acquired g cid TS_REJECTED (Some reason)"

subsection \<open>Runs\<close>

datatype registry_op =
    Reg_Prune_Callback string
  | Reg_Added_Callback string
  | Upsert bool market int
  | Remove bool string
  | Set_Status bool string trading_status "string option"
  | Change_Tick bool string decimal
  | Change_Min_Size bool string decimal
  | Fee_Schedule bool string "bool option" "int option" "int option"
  | Fee_Rate bool string "int option" "int option"
  | Resume bool string

fun registry_step :: "registry \<Rightarrow> registry_op \<Rightarrow> registry" where
  "registry_step g (Reg_Prune_Callback cb) = register_prune_callback g cb"
| "registry_step g (Reg_Added_Callback cb) = register_added_callback g cb"
| "registry_step g (Upsert a m now) = upsert a g m now"
| "registry_step g (Remove a cid) = fst (remove_market a g cid)"
| "registry_step g (Set_Status a cid ts r) = fst (set_trading_status a g cid ts r)"
| "registry_step g (Change_Tick a cid t) = fst (change_tick_size a g cid t)"
| "registry_step g (Change_Min_Size a cid s) = fst (change_min_order_size a g cid s)"
| "registry_step g (Fee_Schedule a cid e mk tk) = fst (update_fee_schedule a g cid e mk tk)"
| "registry_step g (Fee_Rate a cid r u) = fst (update_fee_rate a g cid r u)"
| "registry_step g (Resume a cid) = fst (resume_registered a g cid)"

inductive registry_reachable :: "registry \<Rightarrow> bool" where
  registry_init: "registry_reachable new_registry"
| registry_next: "registry_reachable g \<Longrightarrow> registry_reachable (registry_step g op)"

inductive_cases registry_stepE: "registry_reachable g"

subsection \<open>Index lemmas\<close>

lemma detach_keys_get:
  "dict_get (fold (detach_key cid) ks idx) k =
     (if k \<in> set ks \<and> dict_get idx k = Some cid then None else dict_get idx k)"
  by (induction ks arbitrary: idx) (auto simp: detach_key_def dict_get_pop)

lemma detach_keys_ok: "dict_ok idx \<Longrightarrow> dict_ok (fold (detach_key cid) ks idx)"
  by (induction ks arbitrary: idx) (auto simp: detach_key_def pd.ok_pop)

lemma attach_keys_get:
  "dict_get (fold (attach_key cid) ks idx) k = (if k \<in> set ks then Some cid else dict_get idx k)"
  by (induction ks arbitrary: idx) (auto simp: attach_key_def dict_get_set)

definition idx_sound :: "(market \<Rightarrow> string list) \<Rightarrow> (string, market) dict \<Rightarrow> (string, string) dict \<Rightarrow> bool" where
  "idx_sound keys ms idx \<longleftrightarrow> dict_ok idx \<and>
     (\<forall>k cid. dict_get idx k = Some cid \<longrightarrow> (\<exists>m. dict_get ms cid = Some m \<and> k \<in> set (keys m)))"

definition idx_complete :: "(market \<Rightarrow> string list) \<Rightarrow> (string, market) dict \<Rightarrow> (string, string) dict \<Rightarrow> bool" where
  "idx_complete keys ms idx \<longleftrightarrow>
     (\<forall>cid m. dict_get ms cid = Some m \<longrightarrow> (\<forall>k \<in> set (keys m). dict_get idx k = Some cid))"

text \<open>
  The contract of an index of the registry: attaching a key may only enter that key under
  that market. The overwriting token and slug indexes and the first-come event index all
  satisfy it.
\<close>

locale market_index =
  fixes keys :: "market \<Rightarrow> string list"
    and attach :: "string \<Rightarrow> string \<Rightarrow> (string, string) dict \<Rightarrow> (string, string) dict"
  assumes attach_ok: "dict_ok idx \<Longrightarrow> dict_ok (attach cid k idx)"
    and attach_get: "dict_get (attach cid k idx) k' = Some c \<Longrightarrow> k' = k \<and> c = cid \<or> dict_get idx k' = Some c"
begin

lemma attach_all_ok: "dict_ok idx \<Longrightarrow> dict_ok (fold (attach cid) ks idx)"
  by (induction ks arbitrary: idx) (auto simp: attach_ok)

lemma attach_all_get:
  "dict_get (fold (attach cid) ks idx) k = Some c \<Longrightarrow> k \<in> set ks \<and> c = cid \<or> dict_get idx k = Some c"
  by (induction ks arbitrary: idx) (auto dest: attach_get)

text \<open>Detaching the old market of an id leaves no entry of that id.\<close>

lemma detach_free:
  assumes "idx_sound keys ms idx" "dict_get ms cid = Some prev"
    and "dict_get (fold (detach_key cid) (keys prev) idx) k = Some c"
  shows "c \<noteq> cid \<and> dict_get idx k = Some c"
  using assms by (fastforce simp: detach_keys_get idx_sound_def split: if_splits)

lemma sound_put:
  assumes s: "idx_sound keys ms idx"
    and idx1: "idx1 = (case dict_get ms cid of None \<Rightarrow> idx | Some prev \<Rightarrow> fold (detach_key cid) (keys prev) idx)"
  shows "idx_sound keys (dict_set ms cid m) (fold (attach cid) (keys m) idx1)"
proof -
  have ok: "dict_ok idx1" using s by (auto simp: idx1 idx_sound_def detach_keys_ok split: option.split)
  have free: "c \<noteq> cid \<and> dict_get idx k = Some c" if "dict_get idx1 k = Some c" for k c
  proof (cases "dict_get ms cid")
    case None
    with that have "dict_get idx k = Some c" by (simp add: idx1)
    then have "dict_get ms c \<noteq> None" using s by (auto simp: idx_sound_def)
    then show ?thesis using None \<open>dict_get idx k = Some c\<close> by auto
  next
    case (Some prev)
    then show ?thesis using that detach_free [OF s Some] by (simp add: idx1)
  qed
  show ?thesis
    unfolding idx_sound_def
  proof (intro conjI allI impI)
    show "dict_ok (fold (attach cid) (keys m) idx1)" by (rule attach_all_ok [OF ok])
    fix k c assume "dict_get (fold (attach cid) (keys m) idx1) k = Some c"
    then show "\<exists>m'. dict_get (dict_set ms cid m) c = Some m' \<and> k \<in> set (keys m')"
      using attach_all_get free s unfolding idx_sound_def dict_get_set by fastforce
  qed
qed

lemma sound_pop:
  assumes s: "idx_sound keys ms idx" and "dict_get ms cid = Some prev"
  shows "idx_sound keys (dict_pop ms cid) (fold (detach_key cid) (keys prev) idx)"
  using s detach_free [OF assms] unfolding idx_sound_def dict_get_pop
  by (auto simp: detach_keys_ok)

text \<open>A lookup through a sound index finds a registered market that carries the key.\<close>

lemma sound_lookup:
  assumes "idx_sound keys ms idx" "dict_get idx k = Some cid"
  shows "\<exists>m. dict_get ms cid = Some m \<and> k \<in> set (keys m)"
  using assms by (simp add: idx_sound_def)

end

interpretation token_index: market_index token_ids attach_key
  by unfold_locales (auto simp: attach_key_def pd.ok_put dict_get_set split: if_splits)

interpretation slug_index: market_index slug_keys attach_key
  by unfold_locales (auto simp: attach_key_def pd.ok_put dict_get_set split: if_splits)

interpretation event_index: market_index event_keys default_key
  by unfold_locales (auto simp: default_key_def pd.ok_put dict_get_set split: if_splits)

subsection \<open>The invariant of the registry\<close>

definition registry_ok :: "registry \<Rightarrow> bool" where
  "registry_ok g \<longleftrightarrow> keyed mk_condition_id (rg_markets g)
     \<and> idx_sound token_ids (rg_markets g) (rg_by_token g)
     \<and> idx_sound slug_keys (rg_markets g) (rg_by_slug g)
     \<and> idx_sound event_keys (rg_markets g) (rg_by_event_slug g)
     \<and> dict_keys (rg_companions g) = dict_keys (rg_markets g)
     \<and> dict_keys (rg_first_tracked g) = dict_keys (rg_markets g)
     \<and> rg_snapshot g = dict_values (rg_markets g)"

lemma same_keys_get: "dict_keys d = dict_keys d' \<Longrightarrow> dict_get d k = None \<longleftrightarrow> dict_get d' k = None"
  by (simp add: dict_keys_def dict_get_def map_of_eq_None_iff flip: set_map)

lemma dict_keys_set:
  "dict_keys (dict_set d k v) = (if dict_get d k = None then dict_keys d @ [k] else dict_keys d)"
proof (cases "dict_get d k")
  case None
  then show ?thesis by (simp add: dict_set_fresh dict_keys_def)
next
  case (Some w)
  then have "k \<in> set (map fst d)" by (force simp: dict_get_def dest: map_of_SomeD)
  then show ?thesis using Some by (simp add: dict_keys_def dict_set_def update_keys)
qed

lemma dict_keys_pop: "dict_keys (dict_pop d k) = filter (\<lambda>x. x \<noteq> k) (dict_keys d)"
  by (simp add: dict_keys_def dict_pop_def filter_map comp_def)

lemma put_market_ok:
  assumes ok: "registry_ok g" and m: "mk_condition_id m = cid"
    and g1: "g1 = (case dict_get (rg_markets g) cid of None \<Rightarrow> g | Some prev \<Rightarrow> detach_indexes prev g)"
    and g2: "g2 = attach_indexes m (g1\<lparr>rg_markets := dict_set (rg_markets g1) cid m\<rparr>)"
  shows "rg_markets g2 = dict_set (rg_markets g) cid m"
    and "keyed mk_condition_id (rg_markets g2)"
    and "idx_sound token_ids (rg_markets g2) (rg_by_token g2)"
    and "idx_sound slug_keys (rg_markets g2) (rg_by_slug g2)"
    and "idx_sound event_keys (rg_markets g2) (rg_by_event_slug g2)"
proof -
  have k: "keyed mk_condition_id (rg_markets g)" using ok by (simp add: registry_ok_def)
  show ms: "rg_markets g2 = dict_set (rg_markets g) cid m"
    by (simp add: g2 g1 attach_indexes_def detach_indexes_def split: option.split)
  show "keyed mk_condition_id (rg_markets g2)" using k m by (auto simp: ms)
  have prev: "mk_condition_id p = cid" if "dict_get (rg_markets g) cid = Some p" for p
    using keyed_get [OF k that] .
  show "idx_sound token_ids (rg_markets g2) (rg_by_token g2)"
    unfolding ms using token_index.sound_put [OF _ refl, of "rg_markets g" "rg_by_token g" cid m] ok m prev
    by (auto simp: g2 g1 attach_indexes_def detach_indexes_def registry_ok_def split: option.splits)
  show "idx_sound slug_keys (rg_markets g2) (rg_by_slug g2)"
    unfolding ms using slug_index.sound_put [OF _ refl, of "rg_markets g" "rg_by_slug g" cid m] ok m prev
    by (auto simp: g2 g1 attach_indexes_def detach_indexes_def registry_ok_def split: option.splits)
  show "idx_sound event_keys (rg_markets g2) (rg_by_event_slug g2)"
    unfolding ms using event_index.sound_put [OF _ refl, of "rg_markets g" "rg_by_event_slug g" cid m] ok m prev
    by (auto simp: g2 g1 attach_indexes_def detach_indexes_def registry_ok_def split: option.splits)
qed

lemma index_frame [simp]:
  "rg_companions (attach_indexes m g) = rg_companions g"
  "rg_companions (detach_indexes m g) = rg_companions g"
  "rg_first_tracked (attach_indexes m g) = rg_first_tracked g"
  "rg_first_tracked (detach_indexes m g) = rg_first_tracked g"
  "rg_markets (detach_indexes m g) = rg_markets g"
  "rg_markets (attach_indexes m g) = rg_markets g"
  by (simp_all add: attach_indexes_def detach_indexes_def)

lemma upsert_locked_ok:
  assumes ok: "registry_ok g"
  shows "registry_ok (upsert_locked g m now)"
proof -
  let ?cid = "mk_condition_id m"
  define g1 where "g1 = (case dict_get (rg_markets g) ?cid of None \<Rightarrow> g | Some prev \<Rightarrow> detach_indexes prev g)"
  define g2 where "g2 = attach_indexes m (g1\<lparr>rg_markets := dict_set (rg_markets g1) ?cid m\<rparr>)"
  note p = put_market_ok [OF ok refl g1_def g2_def]
  have c: "rg_companions g2 = rg_companions g" "rg_first_tracked g2 = rg_first_tracked g"
    by (simp_all add: g2_def g1_def split: option.split)
  have e: "dict_keys (rg_companions g) = dict_keys (rg_markets g)"
    "dict_keys (rg_first_tracked g) = dict_keys (rg_markets g)"
    using ok by (simp_all add: registry_ok_def)
  note same = same_keys_get [OF e(1), of ?cid] same_keys_get [OF e(2), of ?cid]
  have keys: "dict_keys (dict_set (rg_companions g) ?cid new_companion) = dict_keys (rg_markets g2)"
    "dict_keys (dict_set (rg_first_tracked g) ?cid now) = dict_keys (rg_markets g2)"
    using same e by (simp_all add: p(1) dict_keys_set)
  have old: "dict_keys (rg_markets g2) = dict_keys (rg_markets g)" if "dict_get (rg_companions g) ?cid \<noteq> None"
    using same that by (simp add: p(1) dict_keys_set)
  show ?thesis
    using p(2-5) keys old e
    by (auto simp: upsert_locked_def Let_def publish_state_def registry_ok_def c simp flip: g1_def g2_def)
qed

lemma update_market_locked_ok:
  assumes ok: "registry_ok g" and upd: "\<And>m. mk_condition_id (upd m) = mk_condition_id m"
  shows "registry_ok (fst (update_market_locked g cid upd))"
proof (cases "dict_get (rg_markets g) cid")
  case (Some cur)
  then have cid: "mk_condition_id (upd cur) = cid"
    using keyed_get [of mk_condition_id "rg_markets g" cid cur] ok upd by (simp add: registry_ok_def)
  define g1 where "g1 = (case dict_get (rg_markets g) cid of None \<Rightarrow> g | Some prev \<Rightarrow> detach_indexes prev g)"
  define g2 where "g2 = attach_indexes (upd cur) (g1\<lparr>rg_markets := dict_set (rg_markets g1) cid (upd cur)\<rparr>)"
  note p = put_market_ok [OF ok cid g1_def g2_def]
  have c: "rg_companions g2 = rg_companions g" "rg_first_tracked g2 = rg_first_tracked g"
    by (simp_all add: g2_def g1_def split: option.split)
  have "fst (update_market_locked g cid upd) = publish_state g2"
    using Some by (simp add: update_market_locked_def g2_def g1_def Let_def)
  then show ?thesis
    using p ok Some by (auto simp: publish_state_def registry_ok_def c dict_keys_set)
qed (use ok in \<open>simp add: update_market_locked_def\<close>)

lemma remove_market_locked_ok:
  assumes ok: "registry_ok g"
  shows "registry_ok (fst (remove_market_locked g cid))"
proof (cases "dict_get (rg_markets g) cid")
  case (Some cur)
  have cid: "mk_condition_id cur = cid"
    using keyed_get [of mk_condition_id "rg_markets g" cid cur] ok Some by (simp add: registry_ok_def)
  have "keyed mk_condition_id (dict_pop (rg_markets g) cid)" using ok by (auto simp: registry_ok_def)
  then show ?thesis
    using Some ok cid token_index.sound_pop [OF _ Some, of "rg_by_token g"]
      slug_index.sound_pop [OF _ Some, of "rg_by_slug g"]
      event_index.sound_pop [OF _ Some, of "rg_by_event_slug g"]
    by (simp add: remove_market_locked_def Let_def publish_state_def detach_indexes_def registry_ok_def
        dict_keys_pop)
qed (use ok in \<open>simp add: remove_market_locked_def\<close>)

lemma update_market_ok:
  "registry_ok g \<Longrightarrow> (\<And>m. mk_condition_id (upd m) = mk_condition_id m) \<Longrightarrow>
     registry_ok (fst (update_market acq g cid upd))"
  by (simp add: update_market_def with_condition_lock_def update_market_locked_ok)

lemma with_fields [simp]:
  "mk_condition_id (with_trading_status m ts r) = mk_condition_id m"
  "mk_condition_id (with_tick_size m t) = mk_condition_id m"
  "mk_condition_id (with_min_order_size m s) = mk_condition_id m"
  "mk_condition_id (with_fee_schedule m e mk tk) = mk_condition_id m"
  "mk_condition_id (with_fee_rate m fr u) = mk_condition_id m"
  "mk_outcomes (with_trading_status m ts r) = mk_outcomes m"
  "mk_outcomes (with_tick_size m t) = mk_outcomes m"
  "mk_outcomes (with_min_order_size m s) = mk_outcomes m"
  "mk_outcomes (with_fee_schedule m e mk tk) = mk_outcomes m"
  "mk_outcomes (with_fee_rate m fr u) = mk_outcomes m"
  by (simp_all add: with_trading_status_def with_tick_size_def with_min_order_size_def
      with_fee_schedule_def with_fee_rate_def Let_def)

lemmas status_writes = set_trading_status_def change_tick_size_def change_min_order_size_def
  update_fee_schedule_def update_fee_rate_def

lemma callbacks_ok:
  "registry_ok g \<Longrightarrow> registry_ok (register_prune_callback g cb)"
  "registry_ok g \<Longrightarrow> registry_ok (register_added_callback g cb)"
  by (simp_all add: register_prune_callback_def register_added_callback_def registry_ok_def)

lemma registry_step_ok: "registry_ok g \<Longrightarrow> registry_ok (registry_step g op)"
proof (cases op)
  case (Upsert a m now)
  then show "registry_ok g \<Longrightarrow> ?thesis"
    by (simp add: upsert_def with_condition_lock_def upsert_locked_ok)
next
  case (Remove a cid)
  then show "registry_ok g \<Longrightarrow> ?thesis"
    by (simp add: remove_market_def with_condition_lock_def remove_market_locked_ok)
next
  case (Resume a cid)
  then show "registry_ok g \<Longrightarrow> ?thesis"
    by (simp add: resume_registered_def status_writes update_market_ok split: option.split)
qed (simp_all add: status_writes update_market_ok callbacks_ok)

lemma new_registry_ok: "registry_ok new_registry"
  by (simp add: registry_ok_def new_registry_def idx_sound_def dict_keys_def dict_values_def)

lemma registry_reachable_ok: "registry_reachable g \<Longrightarrow> registry_ok g"
  by (induction rule: registry_reachable.induct) (simp_all add: new_registry_ok registry_step_ok)

subsection \<open>Markets with tokens of their own\<close>

definition exclusive_market :: "registry \<Rightarrow> market \<Rightarrow> bool" where
  "exclusive_market g m \<longleftrightarrow> list_all (\<lambda>m'. mk_condition_id m' = mk_condition_id m
     \<or> list_all (\<lambda>k. k \<notin> set (token_ids m')) (token_ids m)) (dict_values (rg_markets g))"

fun exclusive_op :: "registry \<Rightarrow> registry_op \<Rightarrow> bool" where
  "exclusive_op g (Upsert a m now) = exclusive_market g m"
| "exclusive_op g _ = True"

inductive registry_exclusive :: "registry \<Rightarrow> bool" where
  exclusive_init: "registry_exclusive new_registry"
| exclusive_next: "registry_exclusive g \<Longrightarrow> exclusive_op g op \<Longrightarrow> registry_exclusive (registry_step g op)"

definition tokens_complete :: "registry \<Rightarrow> bool" where
  "tokens_complete g \<longleftrightarrow> idx_complete token_ids (rg_markets g) (rg_by_token g)"

lemma complete_put:
  assumes "idx_complete keys ms idx"
    and "idx1 = (case dict_get ms cid of None \<Rightarrow> idx | Some prev \<Rightarrow> fold (detach_key cid) (keys prev) idx)"
    and "\<And>c m' k. dict_get ms c = Some m' \<Longrightarrow> c \<noteq> cid \<Longrightarrow> k \<in> set (keys m') \<Longrightarrow> k \<notin> set (keys m)"
  shows "idx_complete keys (dict_set ms cid m) (fold (attach_key cid) (keys m) idx1)"
  using assms(1,3) unfolding assms(2) idx_complete_def dict_get_set
  by (auto simp: attach_keys_get detach_keys_get split: option.splits)

lemma complete_pop:
  "idx_complete keys ms idx \<Longrightarrow> dict_get ms cid = Some prev \<Longrightarrow>
     idx_complete keys (dict_pop ms cid) (fold (detach_key cid) (keys prev) idx)"
  unfolding idx_complete_def dict_get_pop by (auto simp: detach_keys_get)

lemma exclusive_disjoint:
  assumes "registry_ok g" "exclusive_market g m" "dict_get (rg_markets g) c = Some m'" "c \<noteq> mk_condition_id m"
    and "k \<in> set (token_ids m')"
  shows "k \<notin> set (token_ids m)"
proof -
  have k: "keyed mk_condition_id (rg_markets g)" using assms(1) by (simp add: registry_ok_def)
  then have "mk_condition_id m' = c" using assms(3) by (rule keyed_get)
  moreover then have "m' \<in> set (dict_values (rg_markets g))" using keyed_values [OF k] assms(3) by simp
  ultimately show ?thesis using assms(2,4,5) by (auto simp: exclusive_market_def list_all_iff)
qed

lemma upsert_locked_complete:
  assumes ok: "registry_ok g" and c: "tokens_complete g" and x: "exclusive_market g m"
  shows "tokens_complete (upsert_locked g m now)"
proof -
  have k: "mk_condition_id p = cid" if "dict_get (rg_markets g) cid = Some p" for p cid
    using ok that by (auto simp: registry_ok_def dest: keyed_get)
  have "idx_complete token_ids (dict_set (rg_markets g) (mk_condition_id m) m)
      (fold (attach_key (mk_condition_id m)) (token_ids m) (case dict_get (rg_markets g) (mk_condition_id m) of
         None \<Rightarrow> rg_by_token g | Some prev \<Rightarrow> fold (detach_key (mk_condition_id m)) (token_ids prev) (rg_by_token g)))"
    by (rule complete_put [OF c [unfolded tokens_complete_def] refl]) (rule exclusive_disjoint [OF ok x])
  then show ?thesis
  proof (cases "dict_get (rg_markets g) (mk_condition_id m)")
    case None
    with \<open>idx_complete _ _ _\<close> show ?thesis
      by (simp add: tokens_complete_def upsert_locked_def Let_def publish_state_def attach_indexes_def)
  next
    case (Some prev)
    with \<open>idx_complete _ _ _\<close> k [OF Some] show ?thesis
      by (simp add: tokens_complete_def upsert_locked_def Let_def publish_state_def
          attach_indexes_def detach_indexes_def)
  qed
qed

lemma update_market_complete:
  assumes ok: "registry_ok g" and c: "tokens_complete g"
    and upd: "\<And>m. mk_condition_id (upd m) = mk_condition_id m" "\<And>m. mk_outcomes (upd m) = mk_outcomes m"
  shows "tokens_complete (fst (update_market acq g cid upd))"
proof (cases "dict_get (rg_markets g) cid")
  case (Some cur)
  then have cid: "mk_condition_id cur = cid"
    using ok by (auto simp: registry_ok_def dest: keyed_get)
  have same: "token_ids (upd cur) = token_ids cur" by (simp add: token_ids_def upd(2))
  have "k \<notin> set (token_ids (upd cur))"
    if "dict_get (rg_markets g) c = Some m'" "c \<noteq> cid" "k \<in> set (token_ids m')" for c m' k
  proof
    assume "k \<in> set (token_ids (upd cur))"
    then have "dict_get (rg_by_token g) k = Some cid" "dict_get (rg_by_token g) k = Some c"
      using c Some that unfolding tokens_complete_def idx_complete_def same by blast+
    then show False using that(2) by simp
  qed
  then have "idx_complete token_ids (dict_set (rg_markets g) cid (upd cur))
      (fold (attach_key cid) (token_ids (upd cur)) (case dict_get (rg_markets g) cid of
         None \<Rightarrow> rg_by_token g | Some prev \<Rightarrow> fold (detach_key cid) (token_ids prev) (rg_by_token g)))"
    by (rule complete_put [OF c [unfolded tokens_complete_def] refl])
  then show ?thesis using Some cid upd c
    by (simp add: tokens_complete_def update_market_def with_condition_lock_def update_market_locked_def
        Let_def publish_state_def attach_indexes_def detach_indexes_def)
qed (use c in \<open>simp add: update_market_def with_condition_lock_def update_market_locked_def\<close>)

lemma remove_market_complete:
  assumes "registry_ok g" "tokens_complete g"
  shows "tokens_complete (fst (remove_market acq g cid))"
proof (cases "dict_get (rg_markets g) cid")
  case (Some cur)
  then have "mk_condition_id cur = cid" using assms(1) by (auto simp: registry_ok_def dest: keyed_get)
  then show ?thesis using assms(2) complete_pop [OF _ Some, of token_ids "rg_by_token g"] Some
    by (simp add: tokens_complete_def remove_market_def with_condition_lock_def remove_market_locked_def
        Let_def publish_state_def detach_indexes_def)
qed (use assms in \<open>simp add: remove_market_def with_condition_lock_def remove_market_locked_def\<close>)

lemma registry_step_complete:
  "registry_ok g \<Longrightarrow> tokens_complete g \<Longrightarrow> exclusive_op g op \<Longrightarrow> tokens_complete (registry_step g op)"
  by (cases op) (auto simp: upsert_def with_condition_lock_def upsert_locked_complete
      remove_market_complete status_writes update_market_complete resume_registered_def
      register_prune_callback_def register_added_callback_def tokens_complete_def split: option.splits
      intro!: update_market_complete [unfolded tokens_complete_def]
        upsert_locked_complete [unfolded tokens_complete_def]
        remove_market_complete [unfolded tokens_complete_def])

lemma registry_exclusive_ok: "registry_exclusive g \<Longrightarrow> registry_ok g \<and> tokens_complete g"
proof (induction rule: registry_exclusive.induct)
  case exclusive_init
  have "tokens_complete new_registry" by (simp add: tokens_complete_def idx_complete_def new_registry_def)
  then show ?case by (simp add: new_registry_ok)
qed (simp add: registry_step_ok registry_step_complete)

lemma find_unique:
  assumes "x \<in> set xs" "P x" "\<And>y. y \<in> set xs \<Longrightarrow> P y \<Longrightarrow> y = x"
  shows "find P xs = Some x"
proof -
  obtain y where y: "find P xs = Some y" using assms(1,2) by (cases "find P xs") (auto simp: find_None_iff)
  with assms(3) [of y] show ?thesis by (auto dest: find_SomeD)
qed

lemma token_lookup_agrees:
  assumes ok: "registry_ok g" and c: "tokens_complete g"
  shows "get_by_token_id g tid = snapshot_by_token_id (rg_snapshot g) tid"
proof -
  have k: "keyed mk_condition_id (rg_markets g)" and s: "idx_sound token_ids (rg_markets g) (rg_by_token g)"
    and sn: "rg_snapshot g = dict_values (rg_markets g)"
    using ok by (simp_all add: registry_ok_def)
  have unique: "dict_get (rg_by_token g) tid = Some (mk_condition_id y)"
    if "y \<in> set (dict_values (rg_markets g))" "tid \<in> set (token_ids y)" for y
    using that c keyed_values [OF k] by (auto simp: tokens_complete_def idx_complete_def)
  show ?thesis
  proof (cases "dict_get (rg_by_token g) tid")
    case None
    with unique have "find (\<lambda>m. tid \<in> set (token_ids m)) (rg_snapshot g) = None"
      by (auto simp: find_None_iff sn)
    then show ?thesis using None by (simp add: get_by_token_id_def snapshot_by_token_id_def)
  next
    case (Some cid)
    then obtain m where m: "dict_get (rg_markets g) cid = Some m" "tid \<in> set (token_ids m)"
      using token_index.sound_lookup [OF s] by blast
    then have mem: "m \<in> set (dict_values (rg_markets g))"
      using keyed_values [OF k] keyed_get [OF k] by auto
    have same: "y = m" if "y \<in> set (rg_snapshot g)" "tid \<in> set (token_ids y)" for y
    proof -
      have "mk_condition_id y = cid" using unique [of y] that Some by (simp add: sn)
      then show ?thesis using that(1) m(1) keyed_values [OF k] by (auto simp: sn)
    qed
    have "find (\<lambda>m. tid \<in> set (token_ids m)) (rg_snapshot g) = Some m"
    proof (rule find_unique)
      show "m \<in> set (rg_snapshot g)" using mem by (simp only: sn)
    qed (fact m(2) same)+
    then show ?thesis using Some m by (simp add: get_by_token_id_def snapshot_by_token_id_def)
  qed
qed

subsection \<open>Claims\<close>

definition demo_market :: "string \<Rightarrow> string \<Rightarrow> string \<Rightarrow> string \<Rightarrow> market" where
  "demo_market cid slug tok event =
     (new_market cid slug [\<lparr>mo_token_id = tok, mo_outcome = ''Yes''\<rparr>])\<lparr>mk_event_slug := Some event\<rparr>"

definition demo_registry :: registry where
  "demo_registry = registry_step (registry_step new_registry
     (Upsert True (demo_market ''c1'' ''s1'' ''t1'' ''game'') 5))
     (Upsert True (demo_market ''c2'' ''s2'' ''t2'' ''game'') 6)"

lemma demo_registry_exclusive: "registry_exclusive demo_registry"
  unfolding demo_registry_def
  by (rule exclusive_next, rule exclusive_next, rule exclusive_init) code_simp+

lemma exclusive_reachable: "registry_exclusive g \<Longrightarrow> registry_reachable g"
  by (induction rule: registry_exclusive.induct) (auto intro: registry_reachable.intros)

text \<open>
  C16: In every reachable registry a lookup by token or by slug finds only a registered market
  that carries that token, slug or event slug; a market has companion state and a first
  tracking time exactly while it is registered; and the published snapshot holds exactly
  the registered markets.
\<close>

theorem registry_lookups_sound:
  assumes "registry_reachable g"
  shows "(get_by_token_id g tid = Some m \<longrightarrow>
            tid \<in> set (token_ids m) \<and> get_by_condition_id g (mk_condition_id m) = Some m)
       \<and> (get_by_slug g slug = Some m \<longrightarrow> (mk_market_slug m = slug \<or> mk_event_slug m = Some slug)
            \<and> get_by_condition_id g (mk_condition_id m) = Some m)
       \<and> (companion_of g cid = None) = (get_by_condition_id g cid = None)
       \<and> (first_tracked_at g cid = None) = (get_by_condition_id g cid = None)
       \<and> snapshot_by_condition_id (rg_snapshot g) cid = get_by_condition_id g cid"
proof -
  have ok: "registry_ok g" using assms by (rule registry_reachable_ok)
  have k: "keyed mk_condition_id (rg_markets g)" using ok by (simp add: registry_ok_def)
  have id: "dict_get (rg_markets g) (mk_condition_id x) = Some x" if "dict_get (rg_markets g) c = Some x" for c x
    using keyed_get [OF k that] that by simp
  have e: "mk_event_slug x = Some s" if "s \<in> set (event_keys x)" for s x
    using that by (auto simp: event_keys_def split: option.splits if_splits)
  have s: "\<exists>x. dict_get (rg_markets g) c = Some x \<and> (mk_market_slug x = slug \<or> mk_event_slug x = Some slug)"
    if "or_else (dict_get (rg_by_slug g) slug) (dict_get (rg_by_event_slug g) slug) = Some c" for c
    using that ok e slug_index.sound_lookup [of "rg_markets g" "rg_by_slug g" slug c]
      event_index.sound_lookup [of "rg_markets g" "rg_by_event_slug g" slug c]
    by (cases "dict_get (rg_by_slug g) slug") (auto simp: registry_ok_def slug_keys_def)
  show ?thesis
    using ok id s token_index.sound_lookup [of "rg_markets g" "rg_by_token g" tid]
      same_keys_get [of "rg_companions g" "rg_markets g" cid]
      same_keys_get [of "rg_first_tracked g" "rg_markets g" cid]
    by (auto simp: registry_ok_def get_by_token_id_def get_by_slug_def get_by_condition_id_def
        companion_of_def first_tracked_at_def snapshot_by_condition_id_def keyed_find
        dest!: s split: option.splits)
qed

theorem registry_lookups_sound_witness:
  "registry_reachable demo_registry \<and>
     (companion_of demo_registry ''c2'' = None) = (get_by_condition_id demo_registry ''c2'' = None)"
  using registry_lookups_sound [OF exclusive_reachable [OF demo_registry_exclusive], where cid = "''c2''"]
    exclusive_reachable [OF demo_registry_exclusive]
  by simp

text \<open>
  C39: While no two markets share a token, the lock-free lookup by token agrees with scanning
  the published snapshot, after any sequence of operations and skipped writes.
\<close>

theorem token_index_agrees:
  assumes "registry_exclusive g"
  shows "get_by_token_id g tid = snapshot_by_token_id (rg_snapshot g) tid"
  using registry_exclusive_ok [OF assms] token_lookup_agrees by blast

theorem token_index_agrees_witness:
  "get_by_token_id demo_registry ''t2'' = snapshot_by_token_id (rg_snapshot demo_registry) ''t2''"
  by (rule token_index_agrees [OF demo_registry_exclusive])

text \<open>
  The event index forgets an event too early: when two markets of one event are registered
  and the one the index points to is removed, looking the event slug up finds nothing,
  although the other market is still registered and the snapshot finds it.
\<close>

lemma event_slug_forgotten:
  assumes "registry_reachable g" "get_by_condition_id g c1 = Some m1" "get_by_condition_id g c2 = Some m2"
    and "c1 \<noteq> c2" "mk_event_slug m1 = Some e" "mk_event_slug m2 = Some e" "e \<noteq> []"
    and "dict_get (rg_by_event_slug g) e = Some c1" "dict_get (rg_by_slug g) e = None"
  shows "get_by_slug (fst (remove_market True g c1)) e = None
       \<and> get_by_condition_id (fst (remove_market True g c1)) c2 = Some m2
       \<and> snapshot_by_slug (rg_snapshot (fst (remove_market True g c1))) e \<noteq> None"
proof -
  let ?g = "fst (remove_market True g c1)"
  have ok: "registry_ok g" using assms(1) by (rule registry_reachable_ok)
  then have k: "keyed mk_condition_id (rg_markets g)" by (simp add: registry_ok_def)
  have id: "mk_condition_id m1 = c1" using keyed_get [OF k] assms(2) by (simp add: get_by_condition_id_def)
  have ok': "registry_ok ?g"
    using ok by (simp add: remove_market_def with_condition_lock_def remove_market_locked_ok)
  have m2: "get_by_condition_id ?g c2 = Some m2"
    using assms(2,3,4) by (simp add: get_by_condition_id_def remove_market_def with_condition_lock_def
        remove_market_locked_def Let_def publish_state_def dict_get_pop)
  have k': "keyed mk_condition_id (rg_markets ?g)" using ok' by (simp add: registry_ok_def)
  have "m2 \<in> set (rg_snapshot ?g)"
    using ok' keyed_values [OF k', of m2] keyed_get [OF k', of c2 m2] m2
    by (simp add: registry_ok_def get_by_condition_id_def)
  then have "snapshot_by_slug (rg_snapshot ?g) e \<noteq> None"
    using assms(6) by (auto simp: snapshot_by_slug_def find_None_iff)
  moreover have "get_by_slug ?g e = None"
    using assms id by (simp add: get_by_slug_def get_by_condition_id_def remove_market_def
        with_condition_lock_def remove_market_locked_def Let_def publish_state_def
        detach_indexes_def detach_keys_get event_keys_def detach_key_def dict_get_pop)
  ultimately show ?thesis using m2 by simp
qed

end
