(* ===== verification/Market_Updater.thy ===== *)
theory Market_Updater
  imports Market_Registry Market_Adapter
begin

text \<open>
  \<open>pipeline/ingest/orderbook_ws/market_updater.py\<close>: how a message changes the fees of a
  market, in the registry and among the tracked markets. Both operations return the
  registry, the tracked markets and the updated market, or no market when nothing changed.
  The payload builder, a formatter, is left out.
\<close>

type_synonym tracked_markets = "(string, market) dict"

definition fee_rate_bps_from_message :: "message \<Rightarrow> int option" where
  "fee_rate_bps_from_message m = bps_value (first_value m [''fee_rate_bps'', ''feeRateBps''])"

record fee_update =
  fu_fees_enabled :: "bool option"
  fu_maker_base_fee_bps :: "int option"
  fu_taker_base_fee_bps :: "int option"

definition read_fee_update :: "message \<Rightarrow> fee_update" where
  "read_fee_update m =
     (let sched = nested_mapping m [''fee_schedule'', ''feeSchedule''];
          enabled = bool_value (first_value m [''fees_enabled'', ''feesEnabled''])
      in \<lparr>fu_fees_enabled = or_else enabled (Option.bind sched
            (\<lambda>d. bool_value (first_value d [''enabled'', ''feesEnabled'']))),
          fu_maker_base_fee_bps = bps_value (first_value m
            [''maker_base_fee_bps'', ''makerBaseFee'', ''maker_base_fee'']),
          fu_taker_base_fee_bps = or_else
            (Option.bind sched (\<lambda>d. fee_rate_units (first_value d [''rate'', ''base_fee'', ''baseFee''])))
            (bps_value (first_value m [''taker_base_fee_bps'', ''takerBaseFee'', ''taker_base_fee'']))\<rparr>)"

text \<open>The registry's answer replaces the local copy; a skipped or refused write keeps the copy.\<close>

definition write_back ::
  "registry option \<Rightarrow> (registry \<Rightarrow> registry \<times> market option) \<Rightarrow> market \<Rightarrow> registry option \<times> market" where
  "write_back reg write m = (case reg of
       None \<Rightarrow> (None, m)
     | Some g \<Rightarrow> (case write g of (g', refreshed) \<Rightarrow> (Some g', or_default refreshed m)))"

definition apply_fee_schedule ::
  "bool \<Rightarrow> registry option \<Rightarrow> tracked_markets \<Rightarrow> string \<Rightarrow> market \<Rightarrow> message
     \<Rightarrow> registry option \<times> tracked_markets \<times> market option" where
  "apply_fee_schedule acquired reg tracked tid mk m =
     (let u = read_fee_update m;
          updated = with_fee_schedule mk (fu_fees_enabled u) (fu_maker_base_fee_bps u)
            (fu_taker_base_fee_bps u)
      in if updated = mk then (reg, tracked, None)
         else case write_back reg
             (\<lambda>g. update_fee_schedule acquired g (mk_condition_id mk) (mk_fees_enabled updated)
                (mk_maker_base_fee_bps updated) (mk_taker_base_fee_bps updated)) updated of
           (reg', final) \<Rightarrow> (reg', dict_set tracked tid final, Some final))"

definition apply_fee_rate ::
  "bool \<Rightarrow> registry option \<Rightarrow> tracked_markets \<Rightarrow> string \<Rightarrow> market \<Rightarrow> int \<Rightarrow> int
     \<Rightarrow> registry option \<times> tracked_markets \<times> market option" where
  "apply_fee_rate acquired reg tracked tid mk rate updated_at =
     (if mk_fee_rate_bps mk \<noteq> None \<or> mk_taker_base_fee_bps mk \<noteq> None then (reg, tracked, None)
      else if mk_fee_rate_bps mk = Some rate \<and> mk_fee_rate_updated_at mk \<noteq> None then (reg, tracked, None)
      else let updated = with_fee_rate mk (Some rate) (Some updated_at)
        in if updated = mk then (reg, tracked, None)
           else case write_back reg
               (\<lambda>g. update_fee_rate acquired g (mk_condition_id mk) (Some rate) (Some updated_at)) updated of
             (reg', final) \<Rightarrow> (reg', dict_set tracked tid final, Some final))"

subsection \<open>Lemmas\<close>

lemma write_back_ok:
  assumes "write_back reg w m = (reg', m')" "\<And>g. reg = Some g \<Longrightarrow> registry_ok g"
    and "\<And>g. registry_ok g \<Longrightarrow> registry_ok (fst (w g))"
  shows "(reg' = None \<longleftrightarrow> reg = None) \<and> (\<forall>g. reg' = Some g \<longrightarrow> registry_ok g)"
proof (cases reg)
  case (Some g)
  then show ?thesis using assms(1) assms(2) [of g] assms(3) [of g]
    by (auto simp: write_back_def split: prod.splits)
qed (use assms(1) in \<open>simp add: write_back_def\<close>)

lemma fee_writes_ok:
  "registry_ok g \<Longrightarrow> registry_ok (fst (update_fee_schedule a g cid e mk tk))"
  "registry_ok g \<Longrightarrow> registry_ok (fst (update_fee_rate a g cid r u))"
  "registry_ok g \<Longrightarrow> registry_ok (fst (change_tick_size a g cid t))"
  "registry_ok g \<Longrightarrow> registry_ok (fst (set_trading_status a g cid ts rr))"
  by (simp_all add: status_writes update_market_ok)

text \<open>
  A change of the schedule without a taker fee still writes the market's own taker base fee
  to the registry, where it counts as a new fee: a rate fetched since is dropped.
\<close>

lemma apply_fee_schedule_rate:
  assumes "get_by_condition_id g (mk_condition_id mk) = Some mk"
    and "mk_taker_base_fee_bps mk = Some base" "fu_taker_base_fee_bps (read_fee_update m) = None"
    and "apply_fee_schedule True (Some g) tracked tid mk m = (Some g', tracked', Some mk')"
  shows "mk_fee_rate_bps mk' = Some base \<and> mk_fee_rate_updated_at mk' = None
       \<and> get_by_condition_id g' (mk_condition_id mk) = Some mk'"
  using assms by (auto simp: apply_fee_schedule_def Let_def write_back_def update_fee_schedule_def
      update_market_def with_condition_lock_def update_market_locked_def get_by_condition_id_def
      publish_state_def with_fee_schedule_def dict_get_set split: if_splits prod.splits)

end
