(* ===== verification/Tracking_Policy.thy ===== *)
theory Tracking_Policy
  imports Account Market_Model
begin

text \<open>
  \<open>app/market_tracking_policy.py\<close>: whether a market is still worth tracking, and whether
  the account is exposed to it. Times are microseconds; every time carries its zone, so the
  code's conversions to UTC are the identity.
\<close>

definition hours :: "int \<Rightarrow> int" where "hours n = n * 3600000000"
definition minutes :: "int \<Rightarrow> int" where "minutes n = n * 60000000"

definition END_DATE_GRACE :: int where "END_DATE_GRACE = hours 6"
definition TRADE_WINDOW_PAST :: int where "TRADE_WINDOW_PAST = hours 6"
definition TRADE_WINDOW_FUTURE :: int where "TRADE_WINDOW_FUTURE = minutes 30"

definition market_outside_trade_window :: "market \<Rightarrow> int \<Rightarrow> bool" where
  "market_outside_trade_window m now = (case mk_game_start_time m of
       None \<Rightarrow> False
     | Some start \<Rightarrow> start > now + TRADE_WINDOW_FUTURE \<or> start < now - TRADE_WINDOW_PAST)"

definition TERMINAL_LIVE_STATE_PAUSE_REASONS :: "string list" where
  "TERMINAL_LIVE_STATE_PAUSE_REASONS =
     [''sports_live_state_cancelled'', ''sports_live_state_ended'', ''sports_live_state_retired'']"

definition market_end_date_elapsed :: "market \<Rightarrow> int \<Rightarrow> bool" where
  "market_end_date_elapsed m now = (case mk_end_date m of
       None \<Rightarrow> False | Some e \<Rightarrow> e + END_DATE_GRACE \<le> now)"

definition position_exposed :: "position \<Rightarrow> bool" where
  "position_exposed p \<longleftrightarrow> \<not> settled_zero_value p \<and>
     (po_shares p > 0 \<or> po_open_buy_shares p > 0 \<or> po_open_sell_shares p > 0 \<or> po_pending_buy_shares p > 0)"

definition token_exposed :: "account \<Rightarrow> string \<Rightarrow> string \<Rightarrow> bool" where
  "token_exposed a cid tid \<longleftrightarrow>
     (case get_position a cid tid of None \<Rightarrow> False | Some p \<Rightarrow> position_exposed p)
     \<or> open_orders_for_market a cid tid \<noteq> []"

definition market_has_exposure :: "account \<Rightarrow> market \<Rightarrow> bool" where
  "market_has_exposure a m \<longleftrightarrow> list_ex (token_exposed a (mk_condition_id m)) (token_ids m)"

definition inactive_market_reason :: "account \<Rightarrow> market \<Rightarrow> int \<Rightarrow> string option" where
  "inactive_market_reason a m now =
     (if mk_trading_status m = TS_CLOSED then Some ''market_closed''
      else if mk_trading_status m = TS_RESOLVED then Some ''market_resolved''
      else if mk_trading_status m = TS_PAUSED \<and> str_or (mk_reject_reason m) None \<noteq> None
      then mk_reject_reason m
      else if market_end_date_elapsed m now then Some ''market_end_date_elapsed''
      else case pause_for_market a (mk_condition_id m) of
          None \<Rightarrow> None
        | Some p \<Rightarrow>
            if mp_reason p \<in> set TERMINAL_LIVE_STATE_PAUSE_REASONS then Some (mp_reason p) else None)"

definition market_unsubscribe_prune_reason :: "account option \<Rightarrow> market \<Rightarrow> int \<Rightarrow> string option" where
  "market_unsubscribe_prune_reason a m now = (case a of
       None \<Rightarrow> None
     | Some acc \<Rightarrow> if market_has_exposure acc m then None else inactive_market_reason acc m now)"

text \<open>No exposure: no open order on any token, and only empty or worthless settled positions.\<close>

lemma market_unexposed_iff:
  "\<not> market_has_exposure a m \<longleftrightarrow>
     (\<forall>t \<in> set (token_ids m). open_orders_for_market a (mk_condition_id m) t = []
        \<and> (\<forall>p. get_position a (mk_condition_id m) t = Some p \<longrightarrow> \<not> position_exposed p))"
  by (auto simp: market_has_exposure_def list_ex_iff token_exposed_def split: option.splits)

lemma prune_reason_no_exposure:
  "market_unsubscribe_prune_reason a m now = Some r \<Longrightarrow>
     \<exists>acc. a = Some acc \<and> \<not> market_has_exposure acc m"
  by (auto simp: market_unsubscribe_prune_reason_def split: option.splits if_splits)

end
