(* ===== verification/Event_Bus.thy ===== *)
theory Event_Bus
  imports Py_Value "HOL-Library.Multiset"
begin

text \<open>
  \<open>runtime/event_bus.py\<close>: three bounded lanes, merging of pending trading events by key, and
  retention of low-priority events that do not fit. The event loop runs one coroutine at a
  time, so the code between two awaits is one step. The only await inside \<open>publish\<close> is the
  \<open>put\<close> on a full trading queue: there the publisher joins \<open>eb_waiting\<close> and goes on later, after
  any number of other steps. \<open>id(event)\<close> is a field of the event. The sink is a function that
  says whether the call returned or raised; what it was given is logged in \<open>eb_mirrored\<close>.
\<close>

record bus_event =
  ev_merge_key :: "string option"
  ev_dedupe_key :: "string option"
  ev_idempotency_key :: "string option"
  ev_event_id :: "string option"
  ev_trace_id :: "string option"
  ev_object_id :: string
  ev_payload :: string

datatype queue_lane = TRADING | MAINTENANCE | PERSISTENCE

fun lane_value :: "queue_lane \<Rightarrow> nat" where
  "lane_value TRADING = 0"
| "lane_value MAINTENANCE = 2"
| "lane_value PERSISTENCE = 3"

text \<open>The lanes are an \<open>IntEnum\<close>: they are ordered by their value.\<close>

instantiation queue_lane :: linorder
begin

definition less_eq_queue_lane :: "queue_lane \<Rightarrow> queue_lane \<Rightarrow> bool" where
  "less_eq_queue_lane a b \<longleftrightarrow> lane_value a \<le> lane_value b"

definition less_queue_lane :: "queue_lane \<Rightarrow> queue_lane \<Rightarrow> bool" where
  "less_queue_lane a b \<longleftrightarrow> lane_value a < lane_value b"

instance
proof
  fix a b :: queue_lane
  show "a \<le> b \<Longrightarrow> b \<le> a \<Longrightarrow> a = b"
    by (cases a; cases b) (simp_all add: less_eq_queue_lane_def)
qed (auto simp: less_eq_queue_lane_def less_queue_lane_def)

end

subsection \<open>Priorities\<close>

datatype outbox_priority = P0 | P1 | P2 | P3

fun outbox_priority_value :: "outbox_priority \<Rightarrow> string" where
  "outbox_priority_value P0 = ''p0''"
| "outbox_priority_value P1 = ''p1''"
| "outbox_priority_value P2 = ''p2''"
| "outbox_priority_value P3 = ''p3''"

datatype priority_arg = Enum_Priority outbox_priority | Int_Priority int | Text_Priority string

definition text_priority :: "string \<Rightarrow> int result" where
  "text_priority s =
     (let text = py_upper (py_strip s)
      in case text of
          c # rest \<Rightarrow> if c = CHR ''P'' \<and> all_digits rest then int_of_text rest else int_of_text text
        | [] \<Rightarrow> int_of_text text)"

definition lane_of_int :: "int \<Rightarrow> queue_lane" where
  "lane_of_int n = (if n \<le> 1 then TRADING else if n = 2 then MAINTENANCE else PERSISTENCE)"

definition normalize_priority :: "priority_arg \<Rightarrow> queue_lane result" where
  "normalize_priority p =
     (case p of
        Enum_Priority q \<Rightarrow>
          Inr (if q = P0 \<or> q = P1 then TRADING else if q = P2 then MAINTENANCE else PERSISTENCE)
      | Text_Priority s \<Rightarrow> bind_result (text_priority s) (\<lambda>n. Inr (lane_of_int n))
      | Int_Priority n \<Rightarrow> Inr (lane_of_int n))"

definition normalize_outbox_priority :: "priority_arg \<Rightarrow> int result" where
  "normalize_outbox_priority p =
     (case p of
        Enum_Priority q \<Rightarrow> text_priority (outbox_priority_value q)
      | Text_Priority s \<Rightarrow> text_priority s
      | Int_Priority n \<Rightarrow> Inr n)"

subsection \<open>Keys\<close>

text \<open>An attribute is used when it is present and not empty.\<close>

definition first_key :: "string option list \<Rightarrow> string option" where
  "first_key ks = foldr str_or ks None"

definition event_identity :: "bus_event \<Rightarrow> string" where
  "event_identity e =
     or_default (first_key [ev_merge_key e, ev_dedupe_key e, ev_idempotency_key e,
       ev_event_id e, ev_trace_id e]) (''event:'' @ ev_object_id e)"

definition trading_event_key :: "bus_event \<Rightarrow> string" where
  "trading_event_key e =
     or_default (first_key [ev_merge_key e, ev_event_id e]) (''event:'' @ ev_object_id e)"

subsection \<open>State\<close>

type_synonym retained_event = "string \<times> bus_event"

record event_bus =
  eb_trading_capacity :: nat
  eb_maintenance_capacity :: nat
  eb_persistence_capacity :: nat
  eb_retained_capacity :: nat
  eb_sequence :: nat
  eb_trading_queue :: "(nat \<times> string) list"
  eb_maintenance_queue :: "(nat \<times> bus_event) list"
  eb_persistence_queue :: "(nat \<times> bus_event) list"
  eb_trading_pending :: "(string, bus_event) dict"
  eb_maintenance_retained :: "retained_event list"
  eb_persistence_retained :: "retained_event list"
  eb_low_priority_paused :: bool
  eb_wake :: bool
  eb_sink :: "(int \<Rightarrow> bus_event \<Rightarrow> bool) option"
  eb_listeners :: "string list"
  eb_mirror_failure_count :: nat
  eb_waiting :: "(nat \<times> int \<times> bus_event) list"
  eb_mirrored :: "(int \<times> bus_event) list"
  eb_broadcasts :: "bus_event list"

text \<open>\<open>a or b\<close> on capacities: a missing or zero capacity takes the default.\<close>

definition cap_or :: "nat option \<Rightarrow> nat \<Rightarrow> nat" where
  "cap_or a d = (case a of Some n \<Rightarrow> if n = 0 then d else n | None \<Rightarrow> d)"

definition new_bus ::
  "nat option \<Rightarrow> nat option \<Rightarrow> nat option \<Rightarrow> nat option \<Rightarrow> nat option \<Rightarrow> event_bus" where
  "new_bus max_size trading maintenance persistence retained =
     (let pick = (\<lambda>c. case max_size of None \<Rightarrow> c | Some m \<Rightarrow> Some (cap_or c m));
          t = cap_or (pick trading) 1000; m = cap_or (pick maintenance) 1000;
          p = cap_or (pick persistence) 5000
      in \<lparr>eb_trading_capacity = t, eb_maintenance_capacity = m, eb_persistence_capacity = p,
          eb_retained_capacity = cap_or retained (max t (max m p)), eb_sequence = 0,
          eb_trading_queue = [], eb_maintenance_queue = [], eb_persistence_queue = [],
          eb_trading_pending = [], eb_maintenance_retained = [], eb_persistence_retained = [],
          eb_low_priority_paused = False, eb_wake = False, eb_sink = None, eb_listeners = [],
          eb_mirror_failure_count = 0, eb_waiting = [], eb_mirrored = [], eb_broadcasts = []\<rparr>)"

subsection \<open>Side channels\<close>

definition bind_persistence_sink :: "event_bus \<Rightarrow> (int \<Rightarrow> bus_event \<Rightarrow> bool) option \<Rightarrow> event_bus" where
  "bind_persistence_sink s sink = s\<lparr>eb_sink := sink\<rparr>"

definition add_broadcast_listener :: "event_bus \<Rightarrow> string \<Rightarrow> event_bus" where
  "add_broadcast_listener s l = s\<lparr>eb_listeners := List.insert l (eb_listeners s)\<rparr>"

definition remove_broadcast_listener :: "event_bus \<Rightarrow> string \<Rightarrow> event_bus" where
  "remove_broadcast_listener s l = s\<lparr>eb_listeners := removeAll l (eb_listeners s)\<rparr>"

definition mirror_to_outbox :: "event_bus \<Rightarrow> int \<Rightarrow> bus_event \<Rightarrow> event_bus" where
  "mirror_to_outbox s priority e =
     (case eb_sink s of
        None \<Rightarrow> s
      | Some sink \<Rightarrow>
          if sink priority e then s\<lparr>eb_mirrored := eb_mirrored s @ [(priority, e)]\<rparr>
          else s\<lparr>eb_mirror_failure_count := eb_mirror_failure_count s + 1\<rparr>)"

text \<open>Listeners only read; an exception of one of them is swallowed.\<close>

definition broadcast :: "event_bus \<Rightarrow> bus_event \<Rightarrow> event_bus" where
  "broadcast s e = (if eb_listeners s = [] then s
     else s\<lparr>eb_broadcasts := eb_broadcasts s @ [e]\<rparr>)"

definition tell :: "event_bus \<Rightarrow> int \<Rightarrow> bus_event \<Rightarrow> event_bus" where
  "tell s priority e = broadcast (mirror_to_outbox s priority e) e"

definition set_wake :: "event_bus \<Rightarrow> event_bus" where
  "set_wake s = s\<lparr>eb_wake := True\<rparr>"

subsection \<open>Retention\<close>

fun replace_retained :: "string \<Rightarrow> bus_event \<Rightarrow> retained_event list \<Rightarrow> retained_event list option" where
  "replace_retained k e [] = None"
| "replace_retained k e ((k', x) # rs) =
     (if k' = k then Some ((k, e) # rs) else map_option (\<lambda>q. (k', x) # q) (replace_retained k e rs))"

definition retain_in :: "nat \<Rightarrow> retained_event list \<Rightarrow> bus_event \<Rightarrow> retained_event list" where
  "retain_in cap retained e =
     (let key = event_identity e
      in case replace_retained key e retained of
          Some q \<Rightarrow> q
        | None \<Rightarrow> (if cap \<le> length retained then tl retained else retained) @ [(key, e)])"

definition retain :: "event_bus \<Rightarrow> queue_lane \<Rightarrow> bus_event \<Rightarrow> event_bus" where
  "retain s lane e =
     (case lane of
        MAINTENANCE \<Rightarrow> s\<lparr>eb_maintenance_retained :=
          retain_in (eb_retained_capacity s) (eb_maintenance_retained s) e\<rparr>
      | PERSISTENCE \<Rightarrow> s\<lparr>eb_persistence_retained :=
          retain_in (eb_retained_capacity s) (eb_persistence_retained s) e\<rparr>
      | TRADING \<Rightarrow> s)"

text \<open>\<open>while retained and not queue.full()\<close>: move from the front, numbering as it goes.\<close>

fun flush_lane ::
  "nat \<Rightarrow> nat \<Rightarrow> (nat \<times> bus_event) list \<Rightarrow> retained_event list
   \<Rightarrow> nat \<times> (nat \<times> bus_event) list \<times> retained_event list" where
  "flush_lane cap n q [] = (n, q, [])"
| "flush_lane cap n q (r # rs) =
     (if cap \<le> length q then (n, q, r # rs)
      else flush_lane cap (Suc n) (q @ [(n, snd r)]) rs)"

definition flush_retained :: "event_bus \<Rightarrow> event_bus" where
  "flush_retained s =
     (if eb_low_priority_paused s then s
      else (case flush_lane (eb_maintenance_capacity s) (eb_sequence s) (eb_maintenance_queue s)
              (eb_maintenance_retained s) of (n1, mq, mr) \<Rightarrow>
           (case flush_lane (eb_persistence_capacity s) n1 (eb_persistence_queue s)
              (eb_persistence_retained s) of (n2, pq, pr) \<Rightarrow>
            s\<lparr>eb_sequence := n2, eb_maintenance_queue := mq, eb_maintenance_retained := mr,
              eb_persistence_queue := pq, eb_persistence_retained := pr,
              eb_wake := eb_wake s \<or> n2 \<noteq> eb_sequence s\<rparr>)))"

subsection \<open>Publishing\<close>

definition merge_trading :: "event_bus \<Rightarrow> int \<Rightarrow> bus_event \<Rightarrow> event_bus" where
  "merge_trading s priority e =
     set_wake (tell (s\<lparr>eb_trading_pending := dict_set (eb_trading_pending s) (trading_event_key e) e\<rparr>)
       priority e)"

definition trading_full :: "event_bus \<Rightarrow> bool" where
  "trading_full s \<longleftrightarrow> eb_trading_capacity s \<le> length (eb_trading_queue s)"

definition enqueue_trading :: "event_bus \<Rightarrow> nat \<Rightarrow> int \<Rightarrow> bus_event \<Rightarrow> event_bus" where
  "enqueue_trading s n priority e =
     merge_trading (s\<lparr>eb_trading_queue := eb_trading_queue s @ [(n, trading_event_key e)]\<rparr>) priority e"

definition publish_low :: "event_bus \<Rightarrow> queue_lane \<Rightarrow> int \<Rightarrow> bus_event \<Rightarrow> event_bus" where
  "publish_low s lane priority e =
     (if eb_low_priority_paused s then set_wake (tell (retain s lane e) priority e)
      else (let s1 = s\<lparr>eb_sequence := eb_sequence s + 1\<rparr>;
                s2 = (if lane = MAINTENANCE
                      then (if eb_maintenance_capacity s \<le> length (eb_maintenance_queue s)
                            then retain s1 lane e
                            else s1\<lparr>eb_maintenance_queue := eb_maintenance_queue s @ [(eb_sequence s, e)]\<rparr>)
                      else (if eb_persistence_capacity s \<le> length (eb_persistence_queue s)
                            then retain s1 lane e
                            else s1\<lparr>eb_persistence_queue := eb_persistence_queue s @ [(eb_sequence s, e)]\<rparr>))
            in set_wake (tell s2 priority e)))"

text \<open>
  Both ways to publish share their branches; they differ only on a full trading queue, where
  \<open>publish_nowait\<close> just tells the outbox and \<open>publish\<close> waits.
\<close>

definition publish_with ::
  "bool \<Rightarrow> event_bus \<Rightarrow> priority_arg \<Rightarrow> bus_event \<Rightarrow> event_bus result" where
  "publish_with waits s priority e =
     bind_result (normalize_outbox_priority priority) (\<lambda>op.
     bind_result (normalize_priority priority) (\<lambda>lane.
       Inr (if lane = PERSISTENCE \<and> eb_sink s \<noteq> None then tell s op e
         else if lane = TRADING then
           (if dict_get (eb_trading_pending s) (trading_event_key e) \<noteq> None then merge_trading s op e
            else (let s1 = s\<lparr>eb_sequence := eb_sequence s + 1\<rparr>
                  in if \<not> trading_full s then enqueue_trading s1 (eb_sequence s) op e
                     else if waits then s1\<lparr>eb_waiting := eb_waiting s @ [(eb_sequence s, op, e)]\<rparr>
                     else tell s1 op e))
         else publish_low s lane op e)))"

definition publish_nowait :: "event_bus \<Rightarrow> priority_arg \<Rightarrow> bus_event \<Rightarrow> event_bus result" where
  "publish_nowait s priority e = publish_with False s priority e"

definition publish :: "event_bus \<Rightarrow> priority_arg \<Rightarrow> bus_event \<Rightarrow> event_bus result" where
  "publish s priority e = publish_with True s priority e"

text \<open>A waiting publisher goes on once the trading queue has room.\<close>

definition publish_resume :: "event_bus \<Rightarrow> nat \<Rightarrow> event_bus" where
  "publish_resume s i =
     (if i < length (eb_waiting s) \<and> \<not> trading_full s
      then (case eb_waiting s ! i of (n, priority, e) \<Rightarrow>
        enqueue_trading (s\<lparr>eb_waiting := take i (eb_waiting s) @ drop (Suc i) (eb_waiting s)\<rparr>) n priority e)
      else s)"

subsection \<open>Consuming\<close>

text \<open>Take tickets until one still has a pending event.\<close>

fun pop_trading_loop ::
  "(nat \<times> string) list \<Rightarrow> (string, bus_event) dict
   \<Rightarrow> (nat \<times> string) list \<times> (string, bus_event) dict \<times> bus_event option" where
  "pop_trading_loop [] pending = ([], pending, None)"
| "pop_trading_loop ((n, key) # q) pending =
     (case dict_get pending key of
        None \<Rightarrow> pop_trading_loop q pending
      | Some e \<Rightarrow> (q, dict_pop pending key, Some e))"

definition pop_trading_event_nowait :: "event_bus \<Rightarrow> event_bus \<times> bus_event option" where
  "pop_trading_event_nowait s =
     (case pop_trading_loop (eb_trading_queue s) (eb_trading_pending s) of
        (q, pending, r) \<Rightarrow> (s\<lparr>eb_trading_queue := q, eb_trading_pending := pending\<rparr>, r))"

definition pop_next_ready :: "event_bus \<Rightarrow> event_bus \<times> bus_event option" where
  "pop_next_ready s =
     (case pop_trading_event_nowait s of
        (s1, Some e) \<Rightarrow> (s1, Some e)
      | (s1, None) \<Rightarrow>
          (case eb_maintenance_queue s1 of
             x # q \<Rightarrow> (s1\<lparr>eb_maintenance_queue := q\<rparr>, Some (snd x))
           | [] \<Rightarrow>
               (case eb_persistence_queue s1 of
                  x # q \<Rightarrow> (s1\<lparr>eb_persistence_queue := q\<rparr>, Some (snd x))
                | [] \<Rightarrow> (s1, None))))"

text \<open>One turn of \<open>next_event\<close>: without an event the flag is cleared and the caller waits.\<close>

definition next_event :: "event_bus \<Rightarrow> event_bus \<times> bus_event option" where
  "next_event s =
     (case pop_next_ready (flush_retained s) of
        (s1, Some e) \<Rightarrow> (s1, Some e)
      | (s1, None) \<Rightarrow> (s1\<lparr>eb_wake := False\<rparr>, None))"

definition next_trading_event :: "event_bus \<Rightarrow> event_bus \<times> bus_event option" where
  "next_trading_event s =
     (case pop_trading_event_nowait s of
        (s1, Some e) \<Rightarrow> (flush_retained s1, Some e)
      | (s1, None) \<Rightarrow> (s1, None))"

definition next_maintenance_event :: "event_bus \<Rightarrow> event_bus \<times> bus_event option" where
  "next_maintenance_event s =
     (case eb_maintenance_queue s of
        [] \<Rightarrow> (s, None)
      | x # q \<Rightarrow> (flush_retained (s\<lparr>eb_maintenance_queue := q\<rparr>), Some (snd x)))"

definition next_persistence_event :: "event_bus \<Rightarrow> event_bus \<times> bus_event option" where
  "next_persistence_event s =
     (case eb_persistence_queue s of
        [] \<Rightarrow> (s, None)
      | x # q \<Rightarrow> (flush_retained (s\<lparr>eb_persistence_queue := q\<rparr>), Some (snd x)))"

definition pause_low_priority :: "event_bus \<Rightarrow> event_bus" where
  "pause_low_priority s = s\<lparr>eb_low_priority_paused := True\<rparr>"

definition resume_low_priority :: "event_bus \<Rightarrow> event_bus" where
  "resume_low_priority s = set_wake (flush_retained (s\<lparr>eb_low_priority_paused := False\<rparr>))"

definition trading_queue_depth :: "event_bus \<Rightarrow> nat" where
  "trading_queue_depth s = length (eb_trading_pending s)"

text \<open>The drift warning of \<open>publish\<close>: more pending keys than one and a half capacities.\<close>

definition pending_drift :: "event_bus \<Rightarrow> bool" where
  "pending_drift s \<longleftrightarrow> length (eb_trading_pending s) > (3 * eb_trading_capacity s) div 2"

subsection \<open>Runs\<close>

datatype bus_op =
    Publish priority_arg bus_event
  | PublishNowait priority_arg bus_event
  | Resume_Publisher nat
  | NextEvent
  | NextTrading
  | NextMaintenance
  | NextPersistence
  | PauseLow
  | ResumeLow
  | BindSink "(int \<Rightarrow> bus_event \<Rightarrow> bool) option"
  | AddListener string
  | RemoveListener string

text \<open>One step with the event it hands out; a priority that does not parse changes nothing.\<close>

fun bus_step :: "event_bus \<Rightarrow> bus_op \<Rightarrow> event_bus \<times> bus_event option" where
  "bus_step s (Publish p e) = (case publish s p e of Inr s' \<Rightarrow> (s', None) | Inl x \<Rightarrow> (s, None))"
| "bus_step s (PublishNowait p e) =
     (case publish_nowait s p e of Inr s' \<Rightarrow> (s', None) | Inl x \<Rightarrow> (s, None))"
| "bus_step s (Resume_Publisher i) = (publish_resume s i, None)"
| "bus_step s NextEvent = next_event s"
| "bus_step s NextTrading = next_trading_event s"
| "bus_step s NextMaintenance = next_maintenance_event s"
| "bus_step s NextPersistence = next_persistence_event s"
| "bus_step s PauseLow = (pause_low_priority s, None)"
| "bus_step s ResumeLow = (resume_low_priority s, None)"
| "bus_step s (BindSink f) = (bind_persistence_sink s f, None)"
| "bus_step s (AddListener l) = (add_broadcast_listener s l, None)"
| "bus_step s (RemoveListener l) = (remove_broadcast_listener s l, None)"

inductive bus_reachable :: "event_bus \<Rightarrow> bool" where
  bus_new: "bus_reachable (new_bus x t m p r)"
| bus_next: "bus_reachable s \<Longrightarrow> bus_reachable (fst (bus_step s op))"

subsection \<open>The trading lane\<close>

text \<open>
  Every pending trading event has a ticket in the queue; queues and retained lists keep to
  their capacities.
\<close>

definition trading_ok :: "event_bus \<Rightarrow> bool" where
  "trading_ok s \<longleftrightarrow> dict_ok (eb_trading_pending s)
     \<and> fst ` set (eb_trading_pending s) \<subseteq> snd ` set (eb_trading_queue s)
     \<and> length (eb_trading_queue s) \<le> eb_trading_capacity s"

definition low_ok :: "event_bus \<Rightarrow> bool" where
  "low_ok s \<longleftrightarrow> 0 < eb_retained_capacity s
     \<and> length (eb_maintenance_queue s) \<le> eb_maintenance_capacity s
     \<and> length (eb_persistence_queue s) \<le> eb_persistence_capacity s
     \<and> length (eb_maintenance_retained s) \<le> eb_retained_capacity s
     \<and> length (eb_persistence_retained s) \<le> eb_retained_capacity s"

lemma tell_simps [simp]:
  "eb_trading_queue (tell s p e) = eb_trading_queue s"
  "eb_trading_pending (tell s p e) = eb_trading_pending s"
  "eb_trading_capacity (tell s p e) = eb_trading_capacity s"
  "eb_maintenance_queue (tell s p e) = eb_maintenance_queue s"
  "eb_maintenance_capacity (tell s p e) = eb_maintenance_capacity s"
  "eb_maintenance_retained (tell s p e) = eb_maintenance_retained s"
  "eb_persistence_queue (tell s p e) = eb_persistence_queue s"
  "eb_persistence_capacity (tell s p e) = eb_persistence_capacity s"
  "eb_persistence_retained (tell s p e) = eb_persistence_retained s"
  "eb_retained_capacity (tell s p e) = eb_retained_capacity s"
  "eb_waiting (tell s p e) = eb_waiting s"
  "eb_low_priority_paused (tell s p e) = eb_low_priority_paused s"
  by (simp_all add: tell_def broadcast_def mirror_to_outbox_def split: option.split)

lemma retain_trading [simp]:
  "eb_trading_queue (retain s l e) = eb_trading_queue s"
  "eb_trading_pending (retain s l e) = eb_trading_pending s"
  "eb_trading_capacity (retain s l e) = eb_trading_capacity s"
  by (simp_all add: retain_def split: queue_lane.split)

lemma publish_low_trading [simp]:
  "eb_trading_queue (publish_low s l p e) = eb_trading_queue s"
  "eb_trading_pending (publish_low s l p e) = eb_trading_pending s"
  "eb_trading_capacity (publish_low s l p e) = eb_trading_capacity s"
  by (simp_all add: publish_low_def set_wake_def Let_def)

lemma flush_trading [simp]:
  "eb_trading_queue (flush_retained s) = eb_trading_queue s"
  "eb_trading_pending (flush_retained s) = eb_trading_pending s"
  "eb_trading_capacity (flush_retained s) = eb_trading_capacity s"
  by (simp_all add: flush_retained_def split: prod.split)

lemma trading_ok_fields:
  "eb_trading_queue s' = eb_trading_queue s \<Longrightarrow> eb_trading_pending s' = eb_trading_pending s \<Longrightarrow>
     eb_trading_capacity s' = eb_trading_capacity s \<Longrightarrow> trading_ok s' = trading_ok s"
  by (simp add: trading_ok_def)

lemma merge_trading_ok:
  "trading_ok s \<Longrightarrow> trading_event_key e \<in> snd ` set (eb_trading_queue s) \<Longrightarrow> trading_ok (merge_trading s p e)"
  by (simp add: trading_ok_def merge_trading_def set_wake_def pd.ok_put dict_set_keys)

lemma enqueue_trading_ok: "trading_ok s \<Longrightarrow> \<not> trading_full s \<Longrightarrow> trading_ok (enqueue_trading s n p e)"
  unfolding enqueue_trading_def by (rule merge_trading_ok) (auto simp: trading_ok_def trading_full_def)

lemma dict_get_mem: "dict_get d k \<noteq> None \<Longrightarrow> k \<in> fst ` set d"
  by (auto simp: dict_get_def dest!: map_of_SomeD intro: rev_image_eqI)

lemma dict_get_None_key: "dict_get d k = None \<longleftrightarrow> k \<notin> fst ` set d"
  by (simp add: dict_get_def map_of_eq_None_iff)

lemma publish_with_form:
  assumes "publish_with w s p e = Inr s'"
  shows "\<exists>x l. normalize_priority p = Inr l \<and> s' =
       (if l = PERSISTENCE \<and> eb_sink s \<noteq> None then tell s x e
         else if l = TRADING then
           (if dict_get (eb_trading_pending s) (trading_event_key e) \<noteq> None then merge_trading s x e
            else (let s1 = s\<lparr>eb_sequence := eb_sequence s + 1\<rparr>
                  in if \<not> trading_full s then enqueue_trading s1 (eb_sequence s) x e
                     else if w then s1\<lparr>eb_waiting := eb_waiting s @ [(eb_sequence s, x, e)]\<rparr>
                     else tell s1 x e))
         else publish_low s l x e)"
  using assms unfolding publish_with_def bind_result_Inr by blast

lemma publish_with_cases:
  assumes "publish_with w s p e = Inr s'"
  obtains (merged) x where "normalize_priority p = Inr TRADING"
      "dict_get (eb_trading_pending s) (trading_event_key e) \<noteq> None" "s' = merge_trading s x e"
  | (queued) x where "normalize_priority p = Inr TRADING" "\<not> trading_full s"
      "dict_get (eb_trading_pending s) (trading_event_key e) = None"
      "s' = enqueue_trading (s\<lparr>eb_sequence := eb_sequence s + 1\<rparr>) (eb_sequence s) x e"
  | (other) "eb_trading_queue s' = eb_trading_queue s" "eb_trading_pending s' = eb_trading_pending s"
      "eb_trading_capacity s' = eb_trading_capacity s"
      "normalize_priority p = Inr TRADING \<Longrightarrow> trading_full s
        \<and> dict_get (eb_trading_pending s) (trading_event_key e) = None"
proof -
  obtain x l where n: "normalize_priority p = Inr l" and s': "s' =
       (if l = PERSISTENCE \<and> eb_sink s \<noteq> None then tell s x e
         else if l = TRADING then
           (if dict_get (eb_trading_pending s) (trading_event_key e) \<noteq> None then merge_trading s x e
            else (let s1 = s\<lparr>eb_sequence := eb_sequence s + 1\<rparr>
                  in if \<not> trading_full s then enqueue_trading s1 (eb_sequence s) x e
                     else if w then s1\<lparr>eb_waiting := eb_waiting s @ [(eb_sequence s, x, e)]\<rparr>
                     else tell s1 x e))
         else publish_low s l x e)"
    using publish_with_form [OF assms] by blast
  show thesis
  proof (cases "l = TRADING")
    case False
    with s' have "s' = tell s x e \<or> s' = publish_low s l x e" by (auto split: if_splits)
    with False n show thesis by (intro other) auto
  next
    case True
    show thesis
    proof (cases "dict_get (eb_trading_pending s) (trading_event_key e)")
      case None
      show thesis
      proof (cases "trading_full s")
        case True
        with None s' \<open>l = TRADING\<close> n show thesis by (intro other) (auto simp: Let_def)
      next
        case False
        with None s' \<open>l = TRADING\<close> n show thesis by (intro queued) (auto simp: Let_def)
      qed
    next
      case (Some y)
      with s' \<open>l = TRADING\<close> n show thesis by (intro merged) auto
    qed
  qed
qed

lemma publish_with_trading_ok:
  assumes "trading_ok s" "publish_with w s p e = Inr s'"
  shows "trading_ok s'"
  using assms(2)
proof (cases rule: publish_with_cases)
  case (merged x)
  have "fst ` set (eb_trading_pending s) \<subseteq> snd ` set (eb_trading_queue s)"
    using assms(1) by (simp add: trading_ok_def)
  with dict_get_mem [OF merged(2)] have "trading_event_key e \<in> snd ` set (eb_trading_queue s)" by blast
  with assms(1) show ?thesis unfolding merged(3) by (rule merge_trading_ok)
next
  case (queued x)
  have "trading_ok (s\<lparr>eb_sequence := eb_sequence s + 1\<rparr>)"
    "\<not> trading_full (s\<lparr>eb_sequence := eb_sequence s + 1\<rparr>)"
    using assms(1) queued by (simp_all add: trading_ok_def trading_full_def)
  then show ?thesis using queued by (simp add: enqueue_trading_ok)
next
  case other
  then show ?thesis using assms(1) trading_ok_fields by blast
qed

lemma pop_trading_loop_sound:
  assumes "dict_ok pending" "fst ` set pending \<subseteq> snd ` set q"
    and "pop_trading_loop q pending = (q', pending', r)"
  shows "dict_ok pending' \<and> fst ` set pending' \<subseteq> snd ` set q' \<and> length q' \<le> length q
    \<and> (case r of
         None \<Rightarrow> pending = [] \<and> pending' = []
       | Some e \<Rightarrow> \<exists>k. dict_get pending k = Some e \<and> pending' = dict_pop pending k)"
  using assms
proof (induction q pending rule: pop_trading_loop.induct)
  case (1 pending)
  then show ?case by auto
next
  case (2 n key q pending)
  show ?case
  proof (cases "dict_get pending key")
    case None
    then have "fst ` set pending \<subseteq> snd ` set q"
      using "2.prems"(2) dict_get_None_key [of pending key] by auto
    with 2 None show ?thesis by (auto simp: le_SucI split: option.splits)
  next
    case (Some e)
    then have r: "q' = q" "pending' = dict_pop pending key" "r = Some e" using "2.prems"(3) by simp_all
    have "fst ` set (dict_pop pending key) \<subseteq> snd ` set q"
      unfolding dict_pop_keys using "2.prems"(2) by auto
    then show ?thesis unfolding r using Some "2.prems"(1) by (auto simp: pd.ok_pop)
  qed
qed

lemma pop_trading_sound:
  assumes "trading_ok s" "pop_trading_event_nowait s = (s', r)"
  shows "trading_ok s' \<and> (case r of
         None \<Rightarrow> eb_trading_pending s = [] \<and> eb_trading_pending s' = []
       | Some e \<Rightarrow> \<exists>k. dict_get (eb_trading_pending s) k = Some e
           \<and> eb_trading_pending s' = dict_pop (eb_trading_pending s) k)
     \<and> (\<exists>q p. s' = s\<lparr>eb_trading_queue := q, eb_trading_pending := p\<rparr>)"
proof -
  obtain q p where l: "pop_trading_loop (eb_trading_queue s) (eb_trading_pending s) = (q, p, r)"
    and s': "s' = s\<lparr>eb_trading_queue := q, eb_trading_pending := p\<rparr>"
    using assms(2) by (auto simp: pop_trading_event_nowait_def split: prod.splits)
  show ?thesis
    using assms(1) pop_trading_loop_sound [OF _ _ l] unfolding s' trading_ok_def
    by (cases r) auto
qed

lemma pop_next_ready_trading:
  assumes "trading_ok s" "pop_next_ready s = (s', r)"
  shows "trading_ok s'"
proof -
  obtain s1 r1 where p: "pop_trading_event_nowait s = (s1, r1)" by fastforce
  have "eb_trading_queue s' = eb_trading_queue s1 \<and> eb_trading_pending s' = eb_trading_pending s1
      \<and> eb_trading_capacity s' = eb_trading_capacity s1"
    using assms(2) p by (auto simp: pop_next_ready_def split: option.splits list.splits)
  then show ?thesis using pop_trading_sound [OF assms(1) p] trading_ok_fields [of s' s1] by simp
qed

lemma bus_step_trading_ok:
  assumes "trading_ok s" shows "trading_ok (fst (bus_step s op))"
proof -
  have fl: "trading_ok (flush_retained x) = trading_ok x" for x by (rule trading_ok_fields) simp_all
  have w: "trading_ok (x\<lparr>eb_wake := b\<rparr>) = trading_ok x" for x b by (rule trading_ok_fields) simp_all
  show ?thesis
  proof (cases op)
    case (Publish p e)
    then show ?thesis using assms publish_with_trading_ok [OF assms]
      by (auto simp: publish_def split: sum.split)
  next
    case (PublishNowait p e)
    then show ?thesis using assms publish_with_trading_ok [OF assms]
      by (auto simp: publish_nowait_def split: sum.split)
  next
    case (Resume_Publisher i)
    have "trading_ok (s\<lparr>eb_waiting := x\<rparr>)" "trading_full (s\<lparr>eb_waiting := x\<rparr>) = trading_full s" for x
      using assms by (simp_all add: trading_ok_def trading_full_def)
    then show ?thesis using Resume_Publisher assms
      by (auto simp: publish_resume_def enqueue_trading_ok split: prod.split)
  next
    case NextEvent
    obtain s1 r where p: "pop_next_ready (flush_retained s) = (s1, r)" by fastforce
    then have "trading_ok s1" using pop_next_ready_trading assms fl by blast
    then show ?thesis using NextEvent p w by (simp add: next_event_def split: option.split)
  next
    case NextTrading
    obtain s1 r where p: "pop_trading_event_nowait s = (s1, r)" by fastforce
    then have "trading_ok s1" using pop_trading_sound [OF assms] by blast
    then show ?thesis using NextTrading p fl by (simp add: next_trading_event_def split: option.split)
  qed (use assms in \<open>simp_all add: fl trading_ok_def next_maintenance_event_def next_persistence_event_def
      pause_low_priority_def resume_low_priority_def set_wake_def bind_persistence_sink_def
      add_broadcast_listener_def remove_broadcast_listener_def split: list.split\<close>)
qed

lemma cap_or_pos: "0 < d \<Longrightarrow> 0 < cap_or a d"
  by (auto simp: cap_or_def split: option.split)

lemma bus_reachable_trading: "bus_reachable s \<Longrightarrow> trading_ok s"
proof (induction rule: bus_reachable.induct)
  case (bus_new x t m p r)
  show ?case by (simp add: new_bus_def Let_def trading_ok_def)
qed (rule bus_step_trading_ok)

subsection \<open>The low-priority lanes\<close>

lemma replace_retained_length: "replace_retained k e rs = Some q \<Longrightarrow> length q = length rs"
  by (induction k e rs arbitrary: q rule: replace_retained.induct) (auto split: if_splits)

lemma retain_in_length: "0 < cap \<Longrightarrow> length rs \<le> cap \<Longrightarrow> length (retain_in cap rs e) \<le> cap"
  by (auto simp: retain_in_def Let_def dest: replace_retained_length split: option.split)

lemma flush_lane_order:
  "flush_lane cap n q rs = (n', q', rs') \<Longrightarrow>
     map snd q' @ map snd rs' = map snd q @ map snd rs \<and> n \<le> n'
     \<and> (length q \<le> cap \<longrightarrow> length q' \<le> cap) \<and> length rs' \<le> length rs
     \<and> (rs' = [] \<or> cap \<le> length q')"
proof (induction cap n q rs rule: flush_lane.induct)
  case (2 cap n q r rs)
  then show ?case by (cases "cap \<le> length q") auto
qed auto

lemma flush_retained_lanes:
  assumes "s' = flush_retained s"
  shows "map snd (eb_maintenance_queue s') @ map snd (eb_maintenance_retained s') =
       map snd (eb_maintenance_queue s) @ map snd (eb_maintenance_retained s)"
    "map snd (eb_persistence_queue s') @ map snd (eb_persistence_retained s') =
       map snd (eb_persistence_queue s) @ map snd (eb_persistence_retained s)"
    "low_ok s \<Longrightarrow> low_ok s'"
    "\<not> eb_low_priority_paused s \<Longrightarrow>
       eb_maintenance_retained s' = [] \<or> eb_maintenance_capacity s \<le> length (eb_maintenance_queue s')"
proof -
  obtain n1 mq mr where m: "flush_lane (eb_maintenance_capacity s) (eb_sequence s) (eb_maintenance_queue s)
      (eb_maintenance_retained s) = (n1, mq, mr)" by (metis prod_cases3)
  obtain n2 pq pr where p: "flush_lane (eb_persistence_capacity s) n1 (eb_persistence_queue s)
      (eb_persistence_retained s) = (n2, pq, pr)" by (metis prod_cases3)
  note o = flush_lane_order [OF m] flush_lane_order [OF p]
  show "map snd (eb_maintenance_queue s') @ map snd (eb_maintenance_retained s') =
       map snd (eb_maintenance_queue s) @ map snd (eb_maintenance_retained s)"
    "map snd (eb_persistence_queue s') @ map snd (eb_persistence_retained s') =
       map snd (eb_persistence_queue s) @ map snd (eb_persistence_retained s)"
    "low_ok s \<Longrightarrow> low_ok s'"
    "\<not> eb_low_priority_paused s \<Longrightarrow>
       eb_maintenance_retained s' = [] \<or> eb_maintenance_capacity s \<le> length (eb_maintenance_queue s')"
    using o by (auto simp: assms flush_retained_def m p low_ok_def)
qed

lemma low_ok_fields:
  "eb_maintenance_queue s' = eb_maintenance_queue s \<Longrightarrow> eb_persistence_queue s' = eb_persistence_queue s \<Longrightarrow>
   eb_maintenance_retained s' = eb_maintenance_retained s \<Longrightarrow>
   eb_persistence_retained s' = eb_persistence_retained s \<Longrightarrow>
   eb_maintenance_capacity s' = eb_maintenance_capacity s \<Longrightarrow>
   eb_persistence_capacity s' = eb_persistence_capacity s \<Longrightarrow>
   eb_retained_capacity s' = eb_retained_capacity s \<Longrightarrow> low_ok s' = low_ok s"
  by (simp add: low_ok_def)

lemma tell_low_ok [simp]: "low_ok (tell s p e) = low_ok s"
  by (rule low_ok_fields) simp_all

lemma retain_low_ok: "low_ok s \<Longrightarrow> low_ok (retain s l e)"
  by (cases l) (simp_all add: retain_def low_ok_def retain_in_length)

lemma publish_low_ok: "low_ok s \<Longrightarrow> low_ok (publish_low s l p e)"
proof -
  assume s: "low_ok s"
  have w: "low_ok (set_wake x) = low_ok x" for x unfolding set_wake_def by (rule low_ok_fields) simp_all
  have q: "low_ok (s\<lparr>eb_sequence := n\<rparr>)" for n using s by (simp add: low_ok_def)
  show ?thesis
    using s retain_low_ok [OF s] retain_low_ok [OF q]
    by (auto simp: publish_low_def Let_def w) (auto simp: low_ok_def)
qed

lemma merge_trading_low_ok [simp]: "low_ok (merge_trading s p e) = low_ok s"
  by (rule low_ok_fields) (simp_all add: merge_trading_def set_wake_def)

lemma publish_with_low_ok:
  assumes "low_ok s" "publish_with w s p e = Inr s'"
  shows "low_ok s'"
proof -
  have q: "low_ok (s\<lparr>eb_sequence := n\<rparr>)" "low_ok (s\<lparr>eb_sequence := n, eb_waiting := y\<rparr>)"
      "low_ok (s\<lparr>eb_sequence := n, eb_trading_queue := z\<rparr>)" for n y z
    using assms(1) by (simp_all add: low_ok_def)
  show ?thesis
    using publish_with_form [OF assms(2)] assms(1) q publish_low_ok [OF assms(1)]
    by (elim exE conjE) (simp add: enqueue_trading_def Let_def split del: if_split split: if_split)
qed

lemma pop_trading_fields:
  "pop_trading_event_nowait s = (s', r) \<Longrightarrow> \<exists>q p. s' = s\<lparr>eb_trading_queue := q, eb_trading_pending := p\<rparr>"
  by (auto simp: pop_trading_event_nowait_def split: prod.splits)

lemma pop_trading_low_ok: "pop_trading_event_nowait s = (s', r) \<Longrightarrow> low_ok s' = low_ok s"
  using pop_trading_fields [of s s' r] by (auto simp: low_ok_def)

lemma bus_step_low_ok:
  assumes "low_ok s" shows "low_ok (fst (bus_step s op))"
proof -
  have fl: "low_ok x \<Longrightarrow> low_ok (flush_retained x)" for x using flush_retained_lanes(3) by blast
  have w: "low_ok (x\<lparr>eb_wake := b\<rparr>) = low_ok x" for x b by (rule low_ok_fields) simp_all
  have ld: "low_ok x \<Longrightarrow> eb_maintenance_queue x = y # q \<Longrightarrow> low_ok (x\<lparr>eb_maintenance_queue := q\<rparr>)"
    "low_ok x \<Longrightarrow> eb_persistence_queue x = y # q \<Longrightarrow> low_ok (x\<lparr>eb_persistence_queue := q\<rparr>)" for x y q
    by (simp_all add: low_ok_def)
  show ?thesis
  proof (cases op)
    case (Publish p e)
    then show ?thesis using assms publish_with_low_ok [OF assms]
      by (auto simp: publish_def split: sum.split)
  next
    case (PublishNowait p e)
    then show ?thesis using assms publish_with_low_ok [OF assms]
      by (auto simp: publish_nowait_def split: sum.split)
  next
    case (Resume_Publisher i)
    have "low_ok (s\<lparr>eb_waiting := x, eb_trading_queue := y\<rparr>)" for x y
      using assms by (simp add: low_ok_def)
    then show ?thesis using Resume_Publisher assms
      by (auto simp: publish_resume_def enqueue_trading_def split: prod.split)
  next
    case NextEvent
    obtain s1 r1 where p: "pop_trading_event_nowait (flush_retained s) = (s1, r1)" by fastforce
    then have "low_ok s1" using pop_trading_low_ok fl [OF assms] by blast
    then show ?thesis using NextEvent p ld [of s1] w
      by (auto simp: next_event_def pop_next_ready_def split: option.split list.split)
  next
    case NextTrading
    obtain s1 r where p: "pop_trading_event_nowait s = (s1, r)" by fastforce
    then have "low_ok s1" using pop_trading_low_ok assms by blast
    then show ?thesis using NextTrading p fl by (simp add: next_trading_event_def split: option.split)
  next
    case ResumeLow
    have "low_ok (s\<lparr>eb_low_priority_paused := False\<rparr>)" using assms by (simp add: low_ok_def)
    then show ?thesis using ResumeLow w fl by (simp add: resume_low_priority_def set_wake_def)
  qed (use assms ld [OF assms] fl in \<open>auto simp: next_maintenance_event_def next_persistence_event_def
      pause_low_priority_def bind_persistence_sink_def add_broadcast_listener_def
      remove_broadcast_listener_def low_ok_def split: list.split\<close>)
qed

lemma bus_reachable_low: "bus_reachable s \<Longrightarrow> low_ok s"
proof (induction rule: bus_reachable.induct)
  case (bus_new x t m p r)
  have "0 < cap_or r (max a (max b c))" if "0 < a" for a b c using that by (intro cap_or_pos) simp
  then show ?case using cap_or_pos [of 1000] by (simp add: new_bus_def Let_def low_ok_def)
qed (rule bus_step_low_ok)

subsection \<open>Draining the trading lane\<close>

fun take_trading :: "nat \<Rightarrow> event_bus \<Rightarrow> event_bus \<times> bus_event list" where
  "take_trading 0 s = (s, [])"
| "take_trading (Suc n) s =
     (case next_trading_event s of
        (s1, None) \<Rightarrow> (s1, [])
      | (s1, Some e) \<Rightarrow> (case take_trading n s1 of (s2, es) \<Rightarrow> (s2, e # es)))"

lemma mset_values_pop:
  "dict_ok d \<Longrightarrow> dict_get d k = Some v \<Longrightarrow>
     mset (dict_values d) = add_mset v (mset (dict_values (dict_pop d k)))"
proof (induction d)
  case (Cons p d)
  obtain k' v' where p: "p = (k', v')" by (cases p)
  have ok: "dict_ok d" "k' \<notin> fst ` set d" using Cons.prems(1) by (simp_all add: p dict_ok_def)
  show ?case
  proof (cases "k' = k")
    case True
    then have "dict_pop d k = d" using ok(2) dict_get_None_key dict_pop_fresh by metis
    then show ?thesis using True Cons.prems(2)
      by (simp add: p dict_values_def dict_get_def dict_pop_def)
  next
    case False
    then have "dict_get d k = Some v" using Cons.prems(2) by (simp add: p dict_get_def)
    then show ?thesis using Cons.IH ok False
      by (simp add: p dict_values_def dict_pop_def add_mset_commute)
  qed
qed (simp add: dict_get_def)

lemma next_trading_sound:
  assumes "trading_ok s" "next_trading_event s = (s', r)"
  shows "trading_ok s' \<and> (case r of
      None \<Rightarrow> eb_trading_pending s = []
    | Some e \<Rightarrow> mset (dict_values (eb_trading_pending s))
        = add_mset e (mset (dict_values (eb_trading_pending s'))))"
proof -
  obtain s1 r1 where p: "pop_trading_event_nowait s = (s1, r1)" by fastforce
  have d: "dict_ok (eb_trading_pending s)" using assms(1) by (simp add: trading_ok_def)
  have s': "r = r1" "eb_trading_pending s' = eb_trading_pending s1" "trading_ok s' = trading_ok s1"
    using assms(2) p trading_ok_fields [of "flush_retained s1" s1]
    by (auto simp: next_trading_event_def split: option.splits)
  show ?thesis
    using pop_trading_sound [OF assms(1) p] s' mset_values_pop [OF d] by (cases r1) auto
qed

lemma take_trading_all:
  "trading_ok s \<Longrightarrow> length (eb_trading_pending s) = n \<Longrightarrow> take_trading n s = (s', es) \<Longrightarrow>
     mset es = mset (dict_values (eb_trading_pending s)) \<and> eb_trading_pending s' = []"
proof (induction n arbitrary: s s' es)
  case 0
  then show ?case by (simp add: dict_values_def)
next
  case (Suc n)
  obtain s1 r where n: "next_trading_event s = (s1, r)" by fastforce
  note snd = next_trading_sound [OF Suc.prems(1) n]
  have "r \<noteq> None" using snd Suc.prems(2) by (cases r) auto
  then obtain e where r: "r = Some e" by blast
  have m: "mset (dict_values (eb_trading_pending s)) = add_mset e (mset (dict_values (eb_trading_pending s1)))"
    using snd r by simp
  then have "length (dict_values (eb_trading_pending s)) = Suc (length (dict_values (eb_trading_pending s1)))"
    by (metis size_mset size_add_mset)
  then have len: "length (eb_trading_pending s1) = n" using Suc.prems(2) by (simp add: dict_values_def)
  obtain s2 es2 where t: "take_trading n s1 = (s2, es2)" by fastforce
  have "mset es2 = mset (dict_values (eb_trading_pending s1)) \<and> eb_trading_pending s2 = []"
    using Suc.IH [OF conjunct1 [OF snd] len t] .
  then show ?case using Suc.prems(3) n r t m by auto
qed

lemma pending_le_queue:
  assumes "trading_ok s"
  shows "length (eb_trading_pending s) \<le> length (eb_trading_queue s)"
proof -
  have "length (eb_trading_pending s) = card (fst ` set (eb_trading_pending s))"
    using assms distinct_card [of "map fst (eb_trading_pending s)"] by (simp add: trading_ok_def dict_ok_def)
  also have "\<dots> \<le> card (snd ` set (eb_trading_queue s))"
    using assms by (intro card_mono) (simp_all add: trading_ok_def)
  also have "\<dots> \<le> length (eb_trading_queue s)"
    using card_length [of "map snd (eb_trading_queue s)"] by simp
  finally show ?thesis .
qed

subsection \<open>Properties\<close>

definition demo_bus_event :: "string \<Rightarrow> string \<Rightarrow> bus_event" where
  "demo_bus_event key payload = \<lparr>ev_merge_key = Some key, ev_dedupe_key = None,
     ev_idempotency_key = None, ev_event_id = Some payload, ev_trace_id = None,
     ev_object_id = ''1'', ev_payload = payload\<rparr>"

definition demo_bus :: event_bus where
  "demo_bus = foldl (\<lambda>s op. fst (bus_step s op)) (new_bus (Some 2) None None None None)
     [Publish (Enum_Priority P2) (demo_bus_event ''low'' ''0''),
      Publish (Enum_Priority P0) (demo_bus_event ''book:t1'' ''1''),
      Publish (Text_Priority '' p1 '') (demo_bus_event ''book:t2'' ''2''),
      Publish (Int_Priority 0) (demo_bus_event ''book:t1'' ''3'')]"

lemma demo_bus_reachable: "bus_reachable demo_bus"
  unfolding demo_bus_def foldl_Cons foldl_Nil by (intro bus_next bus_new)

text \<open>
  The bus is bounded and loses no trading event. In every reachable state, with any number of
  publishers waiting and merging in between, every pending trading event has a ticket in the
  queue, every queue and every retained list keeps to its capacity, and the number of pending
  trading events never exceeds the trading capacity, so the drift warning never fires.
\<close>

lemma bus_bounded:
  assumes "bus_reachable s"
  shows "fst ` set (eb_trading_pending s) \<subseteq> snd ` set (eb_trading_queue s)
    \<and> length (eb_trading_queue s) \<le> eb_trading_capacity s
    \<and> length (eb_trading_pending s) \<le> eb_trading_capacity s \<and> \<not> pending_drift s
    \<and> length (eb_maintenance_queue s) \<le> eb_maintenance_capacity s
    \<and> length (eb_persistence_queue s) \<le> eb_persistence_capacity s
    \<and> length (eb_maintenance_retained s) \<le> eb_retained_capacity s
    \<and> length (eb_persistence_retained s) \<le> eb_retained_capacity s"
proof -
  have "length (eb_trading_pending s) \<le> eb_trading_capacity s"
    using pending_le_queue [OF bus_reachable_trading [OF assms]] bus_reachable_trading [OF assms]
    by (simp add: trading_ok_def)
  then show ?thesis
    using bus_reachable_trading [OF assms] bus_reachable_low [OF assms]
    by (simp add: trading_ok_def low_ok_def pending_drift_def)
qed

text \<open>
  C38: Every pending trading event is delivered exactly once: taking as many trading events as
  are pending hands out precisely the latest event of every key, each once, and leaves nothing
  pending.
\<close>

theorem bus_delivers_pending:
  assumes "bus_reachable s" "take_trading (length (eb_trading_pending s)) s = (s', es)"
  shows "mset es = mset (dict_values (eb_trading_pending s)) \<and> eb_trading_pending s' = []"
  using take_trading_all [OF bus_reachable_trading [OF assms(1)] refl assms(2)] .

theorem bus_delivers_pending_witness:
  "mset (snd (take_trading 2 demo_bus)) =
     {#demo_bus_event ''book:t1'' ''3'', demo_bus_event ''book:t2'' ''2''#}"
proof -
  have d: "dict_values (eb_trading_pending demo_bus) =
      [demo_bus_event ''book:t1'' ''3'', demo_bus_event ''book:t2'' ''2'']"
    "length (eb_trading_pending demo_bus) = 2" by code_simp+
  obtain s' es where t: "take_trading 2 demo_bus = (s', es)" by fastforce
  have "mset es = mset (dict_values (eb_trading_pending demo_bus))"
    using bus_delivers_pending [OF demo_bus_reachable, of s' es] t d(2) by simp
  then show ?thesis by (simp add: t d(1))
qed

text \<open>
  Trading events go first. When a trading event is pending, the next event is a pending
  trading event and no low-priority event leaves its lane; a low-priority event is handed out
  only when nothing is pending for trading, maintenance before persistence; and the consumer
  waits only when all three lanes are empty.
\<close>

lemma bus_trading_first:
  assumes "bus_reachable s" "next_event s = (s', r)"
  shows "if eb_trading_pending s \<noteq> []
    then (\<exists>k e. r = Some e \<and> dict_get (eb_trading_pending s) k = Some e
        \<and> eb_trading_pending s' = dict_pop (eb_trading_pending s) k)
      \<and> eb_maintenance_queue s' = eb_maintenance_queue (flush_retained s)
      \<and> eb_persistence_queue s' = eb_persistence_queue (flush_retained s)
    else (case eb_maintenance_queue (flush_retained s) of
        x # q \<Rightarrow> r = Some (snd x) \<and> eb_maintenance_queue s' = q
      | [] \<Rightarrow> (case eb_persistence_queue (flush_retained s) of
          x # q \<Rightarrow> r = Some (snd x) \<and> eb_persistence_queue s' = q
        | [] \<Rightarrow> r = None))"
proof -
  let ?f = "flush_retained s"
  have ok: "trading_ok ?f"
    using bus_reachable_trading [OF assms(1)] trading_ok_fields [of ?f s] by simp
  obtain s1 r1 where p: "pop_trading_event_nowait ?f = (s1, r1)" by fastforce
  have low: "eb_maintenance_queue s1 = eb_maintenance_queue ?f" "eb_persistence_queue s1 = eb_persistence_queue ?f"
    using pop_trading_fields [OF p] by auto
  note snd = pop_trading_sound [OF ok p]
  show ?thesis
  proof (cases r1)
    case (Some e)
    then have n: "s' = s1" "r = Some e" using assms(2) p by (simp_all add: next_event_def pop_next_ready_def)
    obtain k where k: "dict_get (eb_trading_pending s) k = Some e"
      "eb_trading_pending s1 = dict_pop (eb_trading_pending s) k"
      using snd Some by auto
    then have "eb_trading_pending s \<noteq> []" by auto
    then show ?thesis using n k low by auto
  next
    case None
    then have "eb_trading_pending s = []" using snd by simp
    then show ?thesis
      using assms(2) p None low
      by (auto simp: next_event_def pop_next_ready_def split: list.splits)
  qed
qed

text \<open>
  Publishing a trading event makes it the pending event of its key, at the cost of no ticket
  when the key is pending and of one ticket otherwise, and touches no other key; only when the
  queue is full and the key is not pending does the state of the lane stay as it is (the
  publisher waits, or without waiting the event goes to the outbox alone).
\<close>

lemma publish_trading_latest:
  assumes "publish_with w s p e = Inr s'" "normalize_priority p = Inr TRADING"
  shows "if dict_get (eb_trading_pending s) (trading_event_key e) = None \<and> trading_full s
    then eb_trading_pending s' = eb_trading_pending s \<and> eb_trading_queue s' = eb_trading_queue s
    else (\<forall>k. dict_get (eb_trading_pending s') k =
          (if k = trading_event_key e then Some e else dict_get (eb_trading_pending s) k))
      \<and> length (eb_trading_queue s') = length (eb_trading_queue s)
          + (if dict_get (eb_trading_pending s) (trading_event_key e) = None then 1 else 0)"
  using assms(1)
proof (cases rule: publish_with_cases)
  case (merged x)
  then show ?thesis by (auto simp: merge_trading_def set_wake_def dict_get_set)
next
  case (queued x)
  then show ?thesis by (auto simp: enqueue_trading_def merge_trading_def set_wake_def dict_get_set)
next
  case other
  then show ?thesis using assms(2) by simp
qed

text \<open>
  Low-priority events keep their order through retention: moving retained events back into
  the queues neither loses, duplicates nor reorders any of them, never overfills a queue, does
  nothing while low priority is paused, and otherwise stops only when the lane is empty or full.
\<close>

lemma flush_keeps_order:
  "map snd (eb_maintenance_queue (flush_retained s)) @ map snd (eb_maintenance_retained (flush_retained s)) =
     map snd (eb_maintenance_queue s) @ map snd (eb_maintenance_retained s)
   \<and> map snd (eb_persistence_queue (flush_retained s)) @ map snd (eb_persistence_retained (flush_retained s)) =
     map snd (eb_persistence_queue s) @ map snd (eb_persistence_retained s)
   \<and> (if eb_low_priority_paused s then flush_retained s = s
      else eb_maintenance_retained (flush_retained s) = []
        \<or> eb_maintenance_capacity s \<le> length (eb_maintenance_queue (flush_retained s)))"
  using flush_retained_lanes [of "flush_retained s" s, OF refl]
  by (simp add: flush_retained_def)

end
