(* ===== verification/Market_Ingest.thy ===== *)
theory Market_Ingest
  imports Book_Projector Market_Updater Tracking_Policy Orderbook_Delta Event_Bus
begin

text \<open>
  \<open>pipeline/ingest/orderbook_ws/worker.py\<close>: the worker that turns market messages into book
  states, registry updates and events. The clock, the REST snapshot loader, the account
  provider and the outcome of the registry's lock come from the environment of a call. A
  call runs to its end: other tasks that the event loop may run while it awaits the loader
  or the bus are left out, and so are the performance counters. Published events, and the
  snapshots handed to the history buffer and to the derived publisher, are logs of the
  worker. Event ids and the text form of the payload are left out.
\<close>

record ws_event =
  we_type :: string
  we_token_id :: "string option"
  we_market_slug :: "string option"
  we_condition_id :: "string option"
  we_reason :: string
  we_created_at :: int
  we_merge_key :: string
  we_source :: string
  we_snapshot :: "book option"
  we_market :: "market option"
  we_needs_rest_snapshot :: bool

record ws_worker =
  mw_states :: "(string, book_state) dict"
  mw_tracked :: "(string, market) dict"
  mw_registry :: "registry option"
  mw_delta :: "delta_store option"
  mw_history :: "book list"
  mw_recent_results :: "ws_result list"
  mw_last_message_at :: "int option"
  mw_last_rest_snapshot_at :: "int option"
  mw_last_error :: "string option"
  mw_connected :: bool
  mw_published :: "(outbox_priority \<times> ws_event) list"

record ws_env =
  env_now :: int
  env_loader :: "(string \<Rightarrow> rest_snapshot result) option"
  env_account :: "account option"
  env_acquired :: bool

definition new_ws_worker :: "registry option \<Rightarrow> delta_store option \<Rightarrow> ws_worker" where
  "new_ws_worker reg dl =
     \<lparr>mw_states = [], mw_tracked = [], mw_registry = reg, mw_delta = dl, mw_history = [],
      mw_recent_results = [], mw_last_message_at = None, mw_last_rest_snapshot_at = None,
      mw_last_error = None, mw_connected = False, mw_published = []\<rparr>"

text \<open>A call returns the worker and either the exception or the events.\<close>

type_synonym ws_step = "ws_worker \<times> ws_event list result"

definition put_state :: "ws_worker \<Rightarrow> string \<Rightarrow> book_state \<Rightarrow> ws_worker" where
  "put_state w tid st = w\<lparr>mw_states := dict_set (mw_states w) tid st\<rparr>"

text \<open>A change of a state that exists.\<close>

definition map_state :: "ws_worker \<Rightarrow> string \<Rightarrow> (book_state \<Rightarrow> book_state) \<Rightarrow> ws_worker" where
  "map_state w tid f = (case dict_get (mw_states w) tid of None \<Rightarrow> w | Some st \<Rightarrow> put_state w tid (f st))"

subsection \<open>Tracking\<close>

definition track_market :: "ws_worker \<Rightarrow> ws_env \<Rightarrow> market \<Rightarrow> ws_worker" where
  "track_market w env m =
     (let w1 = w\<lparr>mw_tracked := fold (\<lambda>tid d. dict_set d tid m) (token_ids m) (mw_tracked w),
                 mw_registry := map_option (\<lambda>g. upsert (env_acquired env) g m (env_now env)) (mw_registry w)\<rparr>
      in fold (\<lambda>tid w. if dict_get (mw_states w) tid \<noteq> None then w
                       else put_state w tid (initial_state tid (Some m) (env_now env))) (token_ids m) w1)"

definition normalized_token_ids :: "string list \<Rightarrow> string list" where
  "normalized_token_ids ids = filter (\<lambda>s. s \<noteq> []) (map py_strip ids)"

definition untrack_market :: "ws_worker \<Rightarrow> string list \<Rightarrow> ws_worker" where
  "untrack_market w ids =
     (let ns = normalized_token_ids ids
      in if ns = [] then w
         else let gone = (case find (\<lambda>t. dict_get (mw_tracked w) t \<noteq> None) ns of
                  None \<Rightarrow> ns
                | Some t \<Rightarrow> (case dict_get (mw_tracked w) t of None \<Rightarrow> ns | Some m \<Rightarrow> token_ids m))
              in w\<lparr>mw_tracked := fold (\<lambda>t d. dict_pop d t) gone (mw_tracked w),
                   mw_states := fold (\<lambda>t d. dict_pop d t) gone (mw_states w)\<rparr>)"

definition mark_subscribed :: "ws_worker \<Rightarrow> int \<Rightarrow> string \<Rightarrow> ws_worker" where
  "mark_subscribed w now tid =
     map_state w tid (\<lambda>st. if bs_subscribed_at st = None then st\<lparr>bs_subscribed_at := Some now\<rparr> else st)"

definition build_subscription_request :: "ws_worker \<Rightarrow> ws_env \<Rightarrow> string list \<Rightarrow> ws_worker \<times> string list" where
  "build_subscription_request w env ids =
     (let ns = normalized_token_ids ids
      in (fold (\<lambda>t w. mark_subscribed w (env_now env) t) ns w, ns))"

definition record_error :: "ws_worker \<Rightarrow> string \<Rightarrow> string option \<Rightarrow> ws_worker" where
  "record_error w reason tid =
     (let w1 = w\<lparr>mw_last_error := Some reason\<rparr>
      in case tid of None \<Rightarrow> w1
         | Some t \<Rightarrow> map_state w1 t (\<lambda>st. st\<lparr>bs_last_error := Some reason\<rparr>))"

definition clear_error :: "ws_worker \<Rightarrow> ws_worker" where
  "clear_error w = w\<lparr>mw_last_error := None\<rparr>"

definition set_connection_state :: "ws_worker \<Rightarrow> bool \<Rightarrow> ws_worker" where
  "set_connection_state w c = w\<lparr>mw_connected := c\<rparr>"

definition worker_snapshot :: "ws_worker \<Rightarrow> string \<Rightarrow> book option" where
  "worker_snapshot w tid = map_option bs_snapshot (dict_get (mw_states w) tid)"

definition buyable_depth :: "ws_worker \<Rightarrow> string \<Rightarrow> decimal option \<Rightarrow> decimal" where
  "buyable_depth w tid limit = (case dict_get (mw_states w) tid of
     None \<Rightarrow> 0 | Some st \<Rightarrow> buyable_ask_depth (bs_snapshot st) limit)"

subsection \<open>Resolving the token and the market of a message\<close>

definition registry_has_token :: "ws_worker \<Rightarrow> string \<Rightarrow> bool" where
  "registry_has_token w tid = (case mw_registry w of None \<Rightarrow> False | Some g \<Rightarrow> get_by_token_id g tid \<noteq> None)"

definition resolve_token_id :: "ws_worker \<Rightarrow> message \<Rightarrow> string option" where
  "resolve_token_id w m =
     (case extract_token_candidates m of
        [] \<Rightarrow> None
      | c # cs \<Rightarrow> Some (or_default (find (\<lambda>t. dict_get (mw_tracked w) t \<noteq> None
            \<or> dict_get (mw_states w) t \<noteq> None \<or> registry_has_token w t) (c # cs)) c))"

definition registry_market :: "registry \<Rightarrow> message \<Rightarrow> string \<Rightarrow> market option" where
  "registry_market g m tid =
     (let cid = first_value m [''condition_id'', ''conditionId'', ''market''];
          slug = first_value m [''market_slug'', ''marketSlug'', ''slug'']
      in or_else (if py_truthy cid then get_by_condition_id g (py_str cid) else None)
           (or_else (get_by_token_id g tid)
              (if py_truthy slug then get_by_slug g (py_str slug) else None)))"

definition resolve_market :: "ws_worker \<Rightarrow> message \<Rightarrow> string \<Rightarrow> ws_worker \<times> market option" where
  "resolve_market w m tid =
     (case dict_get (mw_tracked w) tid of
        Some mk \<Rightarrow> (w, Some mk)
      | None \<Rightarrow>
          (case mw_registry w of
             None \<Rightarrow> (w, None)
           | Some g \<Rightarrow>
               (case registry_market g m tid of
                  None \<Rightarrow> (w, None)
                | Some mk \<Rightarrow> (w\<lparr>mw_tracked := dict_set (mw_tracked w) tid mk\<rparr>, Some mk))))"

definition ensure_state :: "ws_worker \<Rightarrow> int \<Rightarrow> string \<Rightarrow> market option \<Rightarrow> ws_worker \<times> book_state" where
  "ensure_state w now tid mk =
     (case dict_get (mw_states w) tid of
        Some st \<Rightarrow> (w, st)
      | None \<Rightarrow> (let st = initial_state tid mk now in (put_state w tid st, st)))"

subsection \<open>Publishing\<close>

definition ws_publish :: "ws_worker \<Rightarrow> outbox_priority \<Rightarrow> ws_event \<Rightarrow> ws_worker" where
  "ws_publish w p e = w\<lparr>mw_published := mw_published w @ [(p, e)]\<rparr>"

definition snapshot_event :: "string \<Rightarrow> book_state \<Rightarrow> string \<Rightarrow> string \<Rightarrow> ws_event" where
  "snapshot_event tid st source reason =
     (let b = bs_snapshot st in
      \<lparr>we_type = ''orderbook_snapshot_updated'', we_token_id = Some tid,
       we_market_slug = ob_market_slug b, we_condition_id = ob_condition_id b, we_reason = reason,
       we_created_at = ob_received_at b, we_merge_key = ''orderbook_snapshot_updated|'' @ tid,
       we_source = source, we_snapshot = Some b, we_market = None,
       we_needs_rest_snapshot = bs_needs_rest_snapshot st\<rparr>)"

definition market_event :: "market \<Rightarrow> string \<Rightarrow> string \<Rightarrow> int \<Rightarrow> ws_event" where
  "market_event mk source reason now =
     \<lparr>we_type = ''market_updated'', we_token_id = None, we_market_slug = Some (mk_market_slug mk),
      we_condition_id = Some (mk_condition_id mk), we_reason = reason, we_created_at = now,
      we_merge_key = ''market_updated|'' @ mk_condition_id mk, we_source = source,
      we_snapshot = None, we_market = Some mk, we_needs_rest_snapshot = False\<rparr>"

definition resolved_event :: "string \<Rightarrow> book_state \<Rightarrow> string \<Rightarrow> message \<Rightarrow> ws_event" where
  "resolved_event tid st source m =
     (let b = bs_snapshot st in
      \<lparr>we_type = ''market_resolved_or_disabled'', we_token_id = Some tid,
       we_market_slug = ob_market_slug b, we_condition_id = ob_condition_id b,
       we_reason = py_str (py_or (first_value m [''reason'', ''status'']) (PStr ''market_resolved'')),
       we_created_at = ob_received_at b, we_merge_key = ''market_resolved_or_disabled|'' @ tid,
       we_source = source, we_snapshot = Some b, we_market = None, we_needs_rest_snapshot = False\<rparr>)"

definition result_of :: "string \<Rightarrow> book_state \<Rightarrow> string \<Rightarrow> string \<Rightarrow> string list \<Rightarrow> int \<Rightarrow> ws_result" where
  "result_of tid st source reason types now =
     (let b = bs_snapshot st in
      \<lparr>wr_token_id = tid, wr_market_slug = ob_market_slug b, wr_condition_id = ob_condition_id b,
       wr_source = source, wr_reason = reason, wr_event_types = types,
       wr_last_sequence = bs_last_sequence st, wr_resolved = bs_resolved st,
       wr_needs_rest_snapshot = bs_needs_rest_snapshot st, wr_best_bid = ob_best_bid b,
       wr_best_ask = ob_best_ask b, wr_ask_depth = buyable_ask_depth b None, wr_created_at = now\<rparr>)"

definition record_result ::
  "ws_worker \<Rightarrow> int \<Rightarrow> string \<Rightarrow> book_state \<Rightarrow> string \<Rightarrow> string \<Rightarrow> string list \<Rightarrow> ws_worker" where
  "record_result w now tid st source reason types =
     (let r = result_of tid st source reason types now; t = ob_received_at (bs_snapshot st);
          rest = reason \<in> {''rest_snapshot'', ''reconcile_rest''};
          st1 = st\<lparr>bs_last_message_at := Some t, bs_last_result := Some r\<rparr>;
          st2 = (if rest then st1\<lparr>bs_last_rest_snapshot_at := Some t\<rparr> else st1);
          w1 = put_state w tid st2
      in w1\<lparr>mw_last_rest_snapshot_at := (if rest then Some t else mw_last_rest_snapshot_at w1),
            mw_last_message_at := Some t,
            mw_recent_results := keep_last 8 (mw_recent_results w1 @ [r])\<rparr>)"

text \<open>
  The state \<open>st\<close> is the one stored under the token. A failing observation of the sample
  store propagates; the book has already changed.
\<close>

definition emit_snapshot_update ::
  "ws_worker \<Rightarrow> ws_env \<Rightarrow> string \<Rightarrow> book_state \<Rightarrow> string \<Rightarrow> string \<Rightarrow> ws_step" where
  "emit_snapshot_update w env tid st source reason =
     (case (case mw_delta w of None \<Rightarrow> Inr None
            | Some dl \<Rightarrow> bind_result (observe dl (bs_snapshot st)) (\<lambda>d. Inr (Some d))) of
        Inl e \<Rightarrow> (w, Inl e)
      | Inr dl \<Rightarrow>
          (let ev = snapshot_event tid st source reason;
               w1 = w\<lparr>mw_delta := dl, mw_history := mw_history w @ [bs_snapshot st]\<rparr>;
               w2 = ws_publish w1 P1 ev
           in (record_result w2 (env_now env) tid st source reason [we_type ev], Inr [ev])))"

subsection \<open>One handler per message\<close>

definition after_events :: "ws_event list \<Rightarrow> ws_step \<Rightarrow> ws_step" where
  "after_events evs s = (case s of (w, r) \<Rightarrow> (w, bind_result r (\<lambda>more. Inr (evs @ more))))"

text \<open>Store a changed state and announce it.\<close>

definition update_and_emit ::
  "ws_worker \<Rightarrow> ws_env \<Rightarrow> string \<Rightarrow> book_state \<Rightarrow> string \<Rightarrow> string \<Rightarrow> ws_step" where
  "update_and_emit w env tid st source reason =
     emit_snapshot_update (put_state w tid st) env tid st source reason"

definition handle_book :: "ws_worker \<Rightarrow> ws_env \<Rightarrow> string \<Rightarrow> book_state \<Rightarrow> message \<Rightarrow> string \<Rightarrow> ws_step" where
  "handle_book w env tid st m source =
     (case apply_book_message tid st m (env_now env) of
        Inl e \<Rightarrow> (w, Inl e)
      | Inr st' \<Rightarrow> update_and_emit w env tid st' source ''book'')"

definition handle_price :: "ws_worker \<Rightarrow> ws_env \<Rightarrow> string \<Rightarrow> book_state \<Rightarrow> message \<Rightarrow> string \<Rightarrow> ws_step" where
  "handle_price w env tid st m source =
     (case apply_price_message st m (env_now env) of
        Inl e \<Rightarrow> (w, Inl e)
      | Inr st' \<Rightarrow> update_and_emit w env tid st' source ''price_change'')"

definition write_tick_size :: "ws_worker \<Rightarrow> ws_env \<Rightarrow> string \<Rightarrow> market option \<Rightarrow> decimal option \<Rightarrow> ws_worker" where
  "write_tick_size w env tid mk tick = (case (tick, mk, mw_registry w) of
       (Some t, Some k, Some g) \<Rightarrow>
         w\<lparr>mw_registry := Some (fst (change_tick_size (env_acquired env) g (mk_condition_id k) t)),
           mw_tracked := dict_set (mw_tracked w) tid (with_tick_size k t)\<rparr>
     | _ \<Rightarrow> w)"

definition handle_tick ::
  "ws_worker \<Rightarrow> ws_env \<Rightarrow> string \<Rightarrow> book_state \<Rightarrow> market option \<Rightarrow> message \<Rightarrow> string \<Rightarrow> ws_step" where
  "handle_tick w env tid st mk m source =
     (case decimal_value (first_value m [''tick_size'', ''tickSize'', ''new_tick_size'']) of
        Inl e \<Rightarrow> (w, Inl e)
      | Inr tick \<Rightarrow>
          update_and_emit (write_tick_size w env tid mk tick) env tid
            (apply_tick_size_change st tick (env_now env)) source ''tick_size_change'')"

text \<open>A market that a fee message changed is announced before the book.\<close>

definition announce_market ::
  "ws_worker \<Rightarrow> ws_env \<Rightarrow> registry option \<times> tracked_markets \<times> market option \<Rightarrow> string \<Rightarrow> string
     \<Rightarrow> ws_worker \<times> ws_event list" where
  "announce_market w env u source reason = (case u of (reg, tracked, changed) \<Rightarrow>
     let w1 = w\<lparr>mw_registry := reg, mw_tracked := tracked\<rparr>
     in case changed of
          None \<Rightarrow> (w1, [])
        | Some mk \<Rightarrow> (let ev = market_event mk source reason (env_now env) in (ws_publish w1 P2 ev, [ev])))"

definition handle_last_trade ::
  "ws_worker \<Rightarrow> ws_env \<Rightarrow> string \<Rightarrow> book_state \<Rightarrow> market option \<Rightarrow> message \<Rightarrow> string \<Rightarrow> ws_step" where
  "handle_last_trade w env tid st mk m source =
     (case decimal_value (first_value m [''last_trade_price'', ''lastTradePrice'', ''price'']) of
        Inl e \<Rightarrow> (w, Inl e)
      | Inr None \<Rightarrow> (w, Inr [])
      | Inr (Some p) \<Rightarrow>
          (case datetime_value (first_value m [''timestamp'', ''updated_at'', ''updatedAt'']) of
             Inl e \<Rightarrow> (w, Inl e)
           | Inr ts \<Rightarrow>
               (case (case (mk, fee_rate_bps_from_message m) of
                   (Some k, Some rate) \<Rightarrow>
                     announce_market w env (apply_fee_rate (env_acquired env) (mw_registry w)
                       (mw_tracked w) tid k rate (or_default ts (env_now env))) source ''last_trade_price''
                 | _ \<Rightarrow> (w, [])) of
                  (w1, evs) \<Rightarrow>
                    after_events evs (update_and_emit w1 env tid
                      (apply_last_trade_price st p (env_now env)) source ''last_trade_price''))))"

definition maybe_prune_on_resolved :: "ws_worker \<Rightarrow> ws_env \<Rightarrow> market \<Rightarrow> ws_worker" where
  "maybe_prune_on_resolved w env mk = (case (mw_registry w, env_account env) of
       (Some g, Some acc) \<Rightarrow>
         if market_has_exposure acc mk then w
         else w\<lparr>mw_registry := Some (fst (remove_market (env_acquired env) g (mk_condition_id mk)))\<rparr>
     | _ \<Rightarrow> w)"

definition resolve_state :: "int \<Rightarrow> book_state \<Rightarrow> book_state" where
  "resolve_state now st = touch (st\<lparr>bs_resolved := True\<rparr>) now"

definition resolve_tokens :: "ws_worker \<Rightarrow> int \<Rightarrow> market \<Rightarrow> ws_worker" where
  "resolve_tokens w now mk =
     fold (\<lambda>t w. map_state (w\<lparr>mw_tracked := dict_set (mw_tracked w) t mk\<rparr>) t (resolve_state now))
       (token_ids mk) w"

definition resolve_registered :: "ws_worker \<Rightarrow> ws_env \<Rightarrow> market \<Rightarrow> ws_worker" where
  "resolve_registered w env mk = (case mw_registry w of
       None \<Rightarrow> w
     | Some g \<Rightarrow>
         (case mark_resolved (env_acquired env) g (mk_condition_id mk) of
            (g', resolved) \<Rightarrow>
              (let w1 = w\<lparr>mw_registry := Some g'\<rparr>;
                   w2 = (case resolved of None \<Rightarrow> w1 | Some r \<Rightarrow> resolve_tokens w1 (env_now env) r)
               in maybe_prune_on_resolved w2 env (or_default resolved mk))))"

definition handle_resolved :: "ws_worker \<Rightarrow> ws_env \<Rightarrow> string \<Rightarrow> book_state \<Rightarrow> message \<Rightarrow> string \<Rightarrow> ws_step" where
  "handle_resolved w env tid st m source =
     (let st' = resolve_state (env_now env) st; w1 = put_state w tid st';
          w2 = (case dict_get (mw_tracked w1) tid of None \<Rightarrow> w1 | Some mk \<Rightarrow> resolve_registered w1 env mk);
          ev = resolved_event tid st' source m
      in (ws_publish w2 P0 ev, Inr [ev]))"

definition handle_metadata ::
  "ws_worker \<Rightarrow> ws_env \<Rightarrow> string \<Rightarrow> book_state \<Rightarrow> market option \<Rightarrow> message \<Rightarrow> string \<Rightarrow> ws_step" where
  "handle_metadata w env tid st mk m source =
     (case (case mk of
              None \<Rightarrow> (w, [])
            | Some k \<Rightarrow>
                (case apply_fee_schedule (env_acquired env) (mw_registry w) (mw_tracked w) tid k m of
                   (reg, tracked, None) \<Rightarrow>
                     (w\<lparr>mw_registry := map_option (\<lambda>g. upsert (env_acquired env) g k (env_now env)) reg,
                        mw_tracked := tracked\<rparr>, [])
                 | u \<Rightarrow> announce_market w env u source ''new_market'')) of
        (w1, evs) \<Rightarrow>
          after_events evs (update_and_emit w1 env tid (touch st (env_now env)) source ''new_market''))"

definition apply_rest_snapshot :: "ws_worker \<Rightarrow> ws_env \<Rightarrow> string \<Rightarrow> rest_snapshot \<Rightarrow> string \<Rightarrow> ws_step" where
  "apply_rest_snapshot w env tid snap source =
     (let w1 = w\<lparr>mw_last_rest_snapshot_at := Some (env_now env)\<rparr> in
      case (case dict_get (mw_tracked w1) tid of
              Some mk \<Rightarrow> (w1, Some mk) | None \<Rightarrow> resolve_market w1 [] tid) of
        (w2, mk) \<Rightarrow>
          (case rest_state tid snap mk (dict_get (mw_states w2) tid) (env_now env) of
             Inl e \<Rightarrow> (w2, Inl e)
           | Inr st \<Rightarrow> update_and_emit w2 env tid st source ''rest_snapshot''))"

subsection \<open>Messages\<close>

definition book_types :: "string list" where
  "book_types = [''book'', ''orderbook'', ''snapshot'', ''rest_snapshot'']"

definition price_types :: "string list" where
  "price_types = [''price_change'', ''best_bid_ask'', ''best_bidask'', ''best_bid_and_ask'']"

text \<open>The handler of a message type; control messages have none.\<close>

definition dispatch ::
  "ws_worker \<Rightarrow> ws_env \<Rightarrow> string \<Rightarrow> book_state \<Rightarrow> market option \<Rightarrow> message \<Rightarrow> string \<Rightarrow> ws_step option" where
  "dispatch w env tid st mk m source =
     (let ty = message_type m
      in if ty \<in> set book_types then Some (handle_book w env tid st m source)
         else if ty \<in> set price_types then Some (handle_price w env tid st m source)
         else if ty = ''tick_size_change'' then Some (handle_tick w env tid st mk m source)
         else if ty = ''last_trade_price'' then Some (handle_last_trade w env tid st mk m source)
         else if ty = ''market_resolved'' then Some (handle_resolved w env tid st m source)
         else if ty = ''new_market'' then Some (handle_metadata w env tid st mk m source)
         else None)"

text \<open>\<open>state.last_sequence = sequence if sequence is not None else state.last_sequence\<close>\<close>

definition note_sequence :: "string \<Rightarrow> int option \<Rightarrow> ws_step \<Rightarrow> ws_step" where
  "note_sequence tid seq s = (case s of
       (w, Inl e) \<Rightarrow> (w, Inl e)
     | (w, Inr evs) \<Rightarrow>
         (map_state w tid (\<lambda>st. st\<lparr>bs_last_sequence := or_else seq (bs_last_sequence st)\<rparr>), Inr evs))"

definition handle_gap :: "ws_worker \<Rightarrow> ws_env \<Rightarrow> string \<Rightarrow> book_state \<Rightarrow> string \<Rightarrow> ws_step" where
  "handle_gap w env tid st source =
     (let w1 = put_state w tid (st\<lparr>bs_needs_rest_snapshot := True\<rparr>)
      in case env_loader env of
           None \<Rightarrow> (record_error w1 ''rest_snapshot_loader_unavailable'' (Some tid), Inr [])
         | Some load \<Rightarrow>
             (case load tid of
                Inl e \<Rightarrow> (w1, Inl e)
              | Inr snap \<Rightarrow> apply_rest_snapshot w1 env tid snap source))"

text \<open>The part of \<open>handle_message\<close> after the token is known.\<close>

definition handle_token :: "ws_worker \<Rightarrow> ws_env \<Rightarrow> string \<Rightarrow> message \<Rightarrow> string \<Rightarrow> ws_step" where
  "handle_token w env tid m source =
     (case resolve_market w m tid of (w1, mk) \<Rightarrow>
      case ensure_state w1 (env_now env) tid mk of (w2, st0) \<Rightarrow>
        let st = st0\<lparr>bs_last_error := None\<rparr>;
            w3 = (put_state w2 tid st)\<lparr>mw_last_error := None\<rparr>;
            seq = extract_sequence m
        in if bs_resolved st \<and> message_type m \<noteq> ''market_resolved'' then (w3, Inr [])
           else if sequence_gap_detected st seq then handle_gap w3 env tid st source
           else if bs_needs_rest_snapshot st \<and> message_type m \<notin> set book_types then (w3, Inr [])
           else case dispatch w3 env tid st mk m source of
               None \<Rightarrow> (w3, Inr [])
             | Some s \<Rightarrow> note_sequence tid seq s)"

definition handle_single :: "ws_worker \<Rightarrow> ws_env \<Rightarrow> message \<Rightarrow> string \<Rightarrow> ws_step" where
  "handle_single w env m source =
     (case resolve_token_id w m of
        None \<Rightarrow> (w, Inr [])
      | Some tid \<Rightarrow> handle_token w env tid m source)"

text \<open>
  A batch of price changes is expanded: every item that is a mapping overrides the fields of
  the batch, and the result is handled as a message of its own, which may be a batch again.
  The number of lists in a message bounds the nesting.
\<close>

fun list_nodes :: "py_value \<Rightarrow> nat" where
  "list_nodes (PList xs) = Suc (sum_list (map list_nodes xs))"
| "list_nodes (PDict kvs) = sum_list (map (\<lambda>(k, v). list_nodes v) kvs)"
| "list_nodes _ = 0"

definition message_nodes :: "message \<Rightarrow> nat" where
  "message_nodes m = sum_list (map (\<lambda>(k, v). list_nodes v) m)"

definition dict_update :: "message \<Rightarrow> message \<Rightarrow> message" where
  "dict_update m kvs = fold (\<lambda>(k, v) d. dict_set d k v) kvs m"

definition expand_change :: "message \<Rightarrow> message \<Rightarrow> message" where
  "expand_change base item = dict_set (dict_update base item) ''event_type'' (PStr ''price_change'')"

definition change_items :: "message \<Rightarrow> py_value list option" where
  "change_items m =
     (if message_type m = ''price_change''
      then (case mget m ''price_changes'' of PList xs \<Rightarrow> Some xs | _ \<Rightarrow> None) else None)"

lemma message_nodes_set: "message_nodes (dict_set m k v) \<le> message_nodes m + list_nodes v"
  by (induction m) (auto simp: message_nodes_def dict_set_def)

lemma message_nodes_update: "message_nodes (dict_update m kvs) \<le> message_nodes m + message_nodes kvs"
proof (induction kvs arbitrary: m)
  case (Cons p kvs)
  obtain k v where "p = (k, v)" by (cases p)
  then show ?case using Cons [of "dict_set m k v"] message_nodes_set [of m k v]
    by (simp add: dict_update_def message_nodes_def)
qed (simp add: dict_update_def)

lemma expand_change_nodes:
  "message_nodes (expand_change base item) \<le> message_nodes base + message_nodes item"
  using message_nodes_set [of "dict_update base item" "''event_type''" "PStr ''price_change''"]
    message_nodes_update [of base item]
  by (simp add: expand_change_def)

lemma message_nodes_pop:
  "dict_get m k = Some v \<Longrightarrow> message_nodes (dict_pop m k) + list_nodes v \<le> message_nodes m"
proof (induction m)
  case (Cons p m)
  have "message_nodes (dict_pop m k) \<le> message_nodes m"
    by (induction m) (auto simp: message_nodes_def dict_pop_def)
  then show ?case using Cons
    by (cases p) (auto simp: message_nodes_def dict_pop_def dict_get_def split: if_splits)
qed (simp add: dict_get_def)

lemma change_items_nodes:
  "change_items m = Some xs \<Longrightarrow>
     message_nodes (dict_pop m ''price_changes'') + sum_list (map list_nodes xs) < message_nodes m"
  using message_nodes_pop [of m "''price_changes''"]
  by (cases "dict_get m ''price_changes''")
     (auto simp: change_items_def mget_def dict_get_or_def split: if_splits py_value.splits)

function (sequential) handle_message :: "ws_worker \<Rightarrow> ws_env \<Rightarrow> string \<Rightarrow> message \<Rightarrow> ws_step"
  and handle_changes :: "ws_worker \<Rightarrow> ws_env \<Rightarrow> string \<Rightarrow> message \<Rightarrow> py_value list \<Rightarrow> ws_step"
where
  "handle_message w env source m =
     (let w1 = w\<lparr>mw_last_message_at := Some (env_now env)\<rparr> in
      case change_items m of
        Some items \<Rightarrow> handle_changes w1 env source (dict_pop m ''price_changes'') items
      | None \<Rightarrow> handle_single w1 env m source)"
| "handle_changes w env source base [] = (w, Inr [])"
| "handle_changes w env source base (PDict d # items) =
     (case handle_message w env source (expand_change base d) of
        (w1, Inl e) \<Rightarrow> (w1, Inl e)
      | (w1, Inr evs) \<Rightarrow> after_events evs (handle_changes w1 env source base items))"
| "handle_changes w env source base (v # items) = handle_changes w env source base items"
  by pat_completeness auto

termination
proof (relation "measures [case_sum (\<lambda>(w, env, source, m). message_nodes m)
    (\<lambda>(w, env, source, base, items). message_nodes base + sum_list (map list_nodes items)),
    case_sum (\<lambda>_. 0) (\<lambda>(w, env, source, base, items). Suc (length items))]", goal_cases)
  case (2 w env source m w1 items)
  then show ?case using change_items_nodes by auto
next
  case (3 w env source base d items)
  then show ?case using expand_change_nodes [of base d] by (auto simp: message_nodes_def le_imp_less_or_eq)
qed (auto simp: less_Suc_eq_le)

subsection \<open>Relations that every message respects\<close>

lemma expand_change_type: "message_type (expand_change base d) = ''price_change''"
proof -
  have "dict_get_or (dict_set (dict_update base d) ''event_type'' (PStr ''price_change'')) ''event_type'' PNone
      = PStr ''price_change''" by simp
  then have "first_value (expand_change base d)
      (''event_type'' # ks) = PStr ''price_change''" for ks
    by (simp add: first_value_def mget_def expand_change_def)
  moreover have "py_lower (py_strip ''price_change'') = ''price_change''" by code_simp
  ultimately show ?thesis by (simp add: message_type_def opt_str_def)
qed

text \<open>
  A reflexive and transitive relation on workers that holds across one plain message of certain
  types, price changes among them, holds across a message of such a type with any nesting of
  batches, also when an exception stops a batch.
\<close>

locale worker_relation =
  fixes env :: ws_env and source :: string and types :: "string \<Rightarrow> bool"
    and R :: "ws_worker \<Rightarrow> ws_worker \<Rightarrow> bool"
  assumes refl: "R w w"
    and trans: "R w w1 \<Longrightarrow> R w1 w2 \<Longrightarrow> R w w2"
    and seen: "R w (w\<lparr>mw_last_message_at := Some (env_now env)\<rparr>)"
    and single: "types (message_type m) \<Longrightarrow> R w (fst (handle_single w env m source))"
    and changes: "types ''price_change''"
begin

lemma handle_message_related:
  shows "e = env \<Longrightarrow> s = source \<Longrightarrow> types (message_type m) \<Longrightarrow> R w (fst (handle_message w e s m))"
    and "e = env \<Longrightarrow> s = source \<Longrightarrow> R w (fst (handle_changes w e s base items))"
proof (induction w e s m and w e s base items rule: handle_message_handle_changes.induct)
  case (1 w e s m)
  let ?w = "w\<lparr>mw_last_message_at := Some (env_now e)\<rparr>"
  have "R ?w (fst (handle_message w e s m))"
  proof (cases "change_items m")
    case None
    then show ?thesis using single [of m ?w] 1 by (simp add: Let_def)
  next
    case (Some items)
    then show ?thesis using 1 by (simp add: Let_def)
  qed
  moreover have "R w ?w" using 1 seen by simp
  ultimately show ?case by (rule trans [rotated])
next
  case (3 w e s base d items)
  obtain w1 r where h: "handle_message w e s (expand_change base d) = (w1, r)" by (cases "handle_message w e s (expand_change base d)")
  have first: "R w w1" using 3 h changes by (simp add: expand_change_type)
  show ?case
  proof (cases r)
    case (Inl x)
    then show ?thesis using h first by simp
  next
    case (Inr evs)
    then have "R w1 (fst (handle_changes w1 e s base items))" using 3 h by simp
    then show ?thesis using h Inr first trans by (auto simp: after_events_def split: prod.split)
  qed
qed (simp_all add: refl)

end

subsection \<open>What a message does to the other tokens\<close>

lemma put_state_get [simp]:
  "dict_get (mw_states (put_state w t st)) t' = (if t' = t then Some st else dict_get (mw_states w) t')"
  by (simp add: put_state_def dict_get_set)

lemma map_state_get [simp]:
  "dict_get (mw_states (map_state w t f)) t' =
     (if t' = t then map_option f (dict_get (mw_states w) t) else dict_get (mw_states w) t')"
  by (simp add: map_state_def split: option.split)

lemma states_frame [simp]:
  "mw_states (ws_publish w p e) = mw_states w"
  "mw_states (fst (resolve_market w m t)) = mw_states w"
  "mw_states (write_tick_size w env t mk tick) = mw_states w"
  "mw_states (fst (announce_market w env u s r)) = mw_states w"
  "mw_states (maybe_prune_on_resolved w env mk0) = mw_states w"
  by (simp_all add: ws_publish_def resolve_market_def write_tick_size_def announce_market_def
      maybe_prune_on_resolved_def Let_def split: option.split prod.split)

text \<open>The state of the touched token after an announcement: only bookkeeping fields differ.\<close>

definition same_book :: "book_state \<Rightarrow> book_state \<Rightarrow> bool" where
  "same_book st st' \<longleftrightarrow> bs_snapshot st' = bs_snapshot st \<and> bs_resolved st' = bs_resolved st
     \<and> bs_needs_rest_snapshot st' = bs_needs_rest_snapshot st \<and> bs_last_sequence st' = bs_last_sequence st"

lemma record_result_states:
  "\<exists>st'. mw_states (record_result w now t st source reason types) = dict_set (mw_states w) t st' \<and> same_book st st'"
  by (auto simp: record_result_def Let_def put_state_def same_book_def)

lemma update_and_emit_states:
  "\<exists>st'. dict_get (mw_states (fst (update_and_emit w env t st source reason))) = (dict_get (mw_states w))(t \<mapsto> st')
     \<and> same_book st st'"
proof (cases "case mw_delta w of None \<Rightarrow> Inr None
            | Some dl \<Rightarrow> bind_result (observe dl (bs_snapshot st)) (\<lambda>d. Inr (Some d))")
  case (Inl e)
  then show ?thesis
    by (intro exI [of _ st])
       (auto simp: update_and_emit_def emit_snapshot_update_def put_state_def same_book_def dict_get_set fun_eq_iff)
next
  case (Inr dl)
  let ?w1 = "ws_publish ((put_state w t st)\<lparr>mw_delta := dl, mw_history := mw_history w @ [bs_snapshot st]\<rparr>)
      P1 (snapshot_event t st source reason)"
  obtain st' where s: "mw_states (record_result ?w1 (env_now env) t st source reason
       [we_type (snapshot_event t st source reason)]) = dict_set (mw_states ?w1) t st'" "same_book st st'"
    using record_result_states by blast
  have "fst (update_and_emit w env t st source reason) = record_result ?w1 (env_now env) t st source reason
       [we_type (snapshot_event t st source reason)]"
    using Inr by (simp add: update_and_emit_def emit_snapshot_update_def put_state_def Let_def)
  then show ?thesis using s
    by (intro exI [of _ st']) (auto simp: fun_eq_iff dict_get_set put_state_def)
qed

lemma after_events_fst [simp]: "fst (after_events evs s) = fst s"
  by (simp add: after_events_def split: prod.split)

lemma note_sequence_get:
  "dict_get (mw_states (fst (note_sequence t seq s))) t' =
     (if t' = t \<and> \<not> isl (snd s)
      then map_option (\<lambda>st. st\<lparr>bs_last_sequence := or_else seq (bs_last_sequence st)\<rparr>) (dict_get (mw_states (fst s)) t)
      else dict_get (mw_states (fst s)) t')"
  by (cases s; cases "snd s") (auto simp: note_sequence_def)

lemma resolve_tokens_get:
  "dict_get (mw_states (resolve_tokens w now mk)) t =
     (if t \<in> set (token_ids mk) then map_option (resolve_state now) (dict_get (mw_states w) t)
      else dict_get (mw_states w) t)"
proof -
  have idem: "resolve_state now (resolve_state now st) = resolve_state now st" for st
    by (simp add: resolve_state_def touch_def)
  have "dict_get (mw_states (fold (\<lambda>t w. map_state (w\<lparr>mw_tracked := dict_set (mw_tracked w) t mk\<rparr>) t
            (resolve_state now)) ts w)) t =
      (if t \<in> set ts then map_option (resolve_state now) (dict_get (mw_states w) t)
       else dict_get (mw_states w) t)" for ts
    by (induction ts arbitrary: w) (auto simp: option.map_comp comp_def idem)
  then show ?thesis by (simp add: resolve_tokens_def)
qed

lemma resolve_registered_get:
  "dict_get (mw_states (resolve_registered w env mk)) t \<in>
     {dict_get (mw_states w) t, map_option (resolve_state (env_now env)) (dict_get (mw_states w) t)}"
  by (auto simp: resolve_registered_def Let_def resolve_tokens_get split: option.split prod.split)

text \<open>Another token keeps its state, but for the resolution of a shared market.\<close>

lemma update_and_emit_other: "t \<noteq> tid \<Longrightarrow>
    dict_get (mw_states (fst (update_and_emit w env tid st source reason))) t = dict_get (mw_states w) t"
  using update_and_emit_states [of w env tid st source reason] by auto

lemma handle_book_other: "t \<noteq> tid \<Longrightarrow>
    dict_get (mw_states (fst (handle_book w env tid st m source))) t = dict_get (mw_states w) t"
  by (auto simp: handle_book_def update_and_emit_other split: sum.split)

lemma handle_price_other: "t \<noteq> tid \<Longrightarrow>
    dict_get (mw_states (fst (handle_price w env tid st m source))) t = dict_get (mw_states w) t"
  by (auto simp: handle_price_def update_and_emit_other split: sum.split)

lemma handle_tick_other: "t \<noteq> tid \<Longrightarrow>
    dict_get (mw_states (fst (handle_tick w env tid st mk m source))) t = dict_get (mw_states w) t"
  by (auto simp: handle_tick_def update_and_emit_other split: sum.split)

lemma handle_last_trade_other: "t \<noteq> tid \<Longrightarrow>
    dict_get (mw_states (fst (handle_last_trade w env tid st mk m source))) t = dict_get (mw_states w) t"
proof -
  assume t: "t \<noteq> tid"
  have "mw_states (fst (case (mk, fee_rate_bps_from_message m) of
      (Some k, Some rate) \<Rightarrow> announce_market w env (u k rate) source ''last_trade_price''
    | _ \<Rightarrow> (w, []))) = mw_states w" for u
    by (simp split: option.split)
  then show ?thesis using t
    by (simp add: handle_last_trade_def case_prod_beta update_and_emit_other split: sum.split option.split)
qed

lemma handle_metadata_other: "t \<noteq> tid \<Longrightarrow>
    dict_get (mw_states (fst (handle_metadata w env tid st mk m source))) t = dict_get (mw_states w) t"
proof -
  assume "t \<noteq> tid"
  moreover have "mw_states (fst (case mk of None \<Rightarrow> (w, []) | Some k \<Rightarrow>
      (case apply_fee_schedule (env_acquired env) (mw_registry w) (mw_tracked w) tid k m of
         (reg, tracked, None) \<Rightarrow> (w\<lparr>mw_registry := map_option (\<lambda>g. upsert (env_acquired env) g k (env_now env)) reg,
                        mw_tracked := tracked\<rparr>, [])
       | u \<Rightarrow> announce_market w env u source ''new_market''))) = mw_states w"
    by (auto split: option.split prod.split)
  ultimately show ?thesis
    by (simp add: handle_metadata_def update_and_emit_other case_prod_beta)
qed

lemma handle_resolved_get:
  "t \<noteq> tid \<Longrightarrow> dict_get (mw_states (fst (handle_resolved w env tid st m source))) t \<in>
     {dict_get (mw_states w) t, map_option (resolve_state (env_now env)) (dict_get (mw_states w) t)}"
  "dict_get (mw_states (fst (handle_resolved w env tid st m source))) tid = Some (resolve_state (env_now env) st)"
  using resolve_registered_get [of "put_state w tid (resolve_state (env_now env) st)" env _ t]
    resolve_registered_get [of "put_state w tid (resolve_state (env_now env) st)" env _ tid]
  by (auto simp: handle_resolved_def Let_def resolve_state_def touch_def split: option.split)

lemma dispatch_other:
  "dispatch w env tid st mk m source = Some s \<Longrightarrow> t \<noteq> tid \<Longrightarrow> dict_get (mw_states (fst s)) t \<in>
     {dict_get (mw_states w) t, map_option (resolve_state (env_now env)) (dict_get (mw_states w) t)}"
  using handle_resolved_get(1) [of t tid w env st m source]
  by (auto simp: dispatch_def Let_def handle_book_other handle_price_other handle_tick_other
      handle_last_trade_other handle_metadata_other split: if_splits)

lemma dispatch_resolved:
  "message_type m = ''market_resolved'' \<Longrightarrow>
     dispatch w env tid st mk m source = Some (handle_resolved w env tid st m source)"
  by (simp add: dispatch_def Let_def book_types_def price_types_def)

text \<open>The books that a REST load for a token may put in place.\<close>

definition rest_books :: "ws_env \<Rightarrow> string \<Rightarrow> book set" where
  "rest_books env t = {bs_snapshot st | load snap mk cur st. env_loader env = Some load \<and> load t = Inr snap
     \<and> rest_state t snap mk cur (env_now env) = Inr st}"

lemma apply_rest_snapshot_get:
  assumes "dict_get (mw_states w) tid = Some st"
  shows "t \<noteq> tid \<Longrightarrow> dict_get (mw_states (fst (apply_rest_snapshot w env tid snap source))) t = dict_get (mw_states w) t"
    and "\<exists>st'. dict_get (mw_states (fst (apply_rest_snapshot w env tid snap source))) tid = Some st'
           \<and> bs_resolved st' = bs_resolved st
           \<and> (st' = st \<or> (\<exists>mk cur st1. rest_state tid snap mk cur (env_now env) = Inr st1
                 \<and> bs_snapshot st' = bs_snapshot st1))"
proof -
  let ?w1 = "w\<lparr>mw_last_rest_snapshot_at := Some (env_now env)\<rparr>"
  obtain w2 mk where p: "(case dict_get (mw_tracked ?w1) tid of Some mk \<Rightarrow> (?w1, Some mk)
      | None \<Rightarrow> resolve_market ?w1 [] tid) = (w2, mk)" by fastforce
  have s: "mw_states w2 = mw_states w"
  proof (cases "dict_get (mw_tracked ?w1) tid")
    case None
    then have "w2 = fst (resolve_market ?w1 [] tid)" using p by simp
    then show ?thesis by (simp only: states_frame) simp
  next
    case (Some k)
    then have "w2 = ?w1" using p by simp
    then show ?thesis by simp
  qed
  note d = apply_rest_snapshot_def [of w env tid snap source, unfolded Let_def p prod.case]
  show "t \<noteq> tid \<Longrightarrow> dict_get (mw_states (fst (apply_rest_snapshot w env tid snap source))) t = dict_get (mw_states w) t"
    by (auto simp: d s update_and_emit_other split: sum.split)
  show "\<exists>st'. dict_get (mw_states (fst (apply_rest_snapshot w env tid snap source))) tid = Some st'
      \<and> bs_resolved st' = bs_resolved st
      \<and> (st' = st \<or> (\<exists>mk cur st1. rest_state tid snap mk cur (env_now env) = Inr st1
            \<and> bs_snapshot st' = bs_snapshot st1))"
  proof (cases "rest_state tid snap mk (dict_get (mw_states w2) tid) (env_now env)")
    case (Inl e)
    then show ?thesis using assms by (simp add: d s)
  next
    case (Inr st1)
    then have "bs_resolved st1 = bs_resolved st" using assms by (auto simp: rest_state_def s)
    moreover obtain st' where "dict_get (mw_states (fst (apply_rest_snapshot w env tid snap source))) tid = Some st'"
        "same_book st1 st'"
      using Inr update_and_emit_states [of w2 env tid st1 source "''rest_snapshot''"] by (auto simp: d)
    ultimately show ?thesis using Inr unfolding same_book_def by (intro exI [of _ st']) metis
  qed
qed

lemma handle_gap_get:
  "t \<noteq> tid \<Longrightarrow> dict_get (mw_states (fst (handle_gap w env tid st source))) t = dict_get (mw_states w) t"
  "\<exists>st'. dict_get (mw_states (fst (handle_gap w env tid st source))) tid = Some st'
      \<and> bs_resolved st' = bs_resolved st
      \<and> (bs_snapshot st' = bs_snapshot st \<and> bs_needs_rest_snapshot st' \<or> bs_snapshot st' \<in> rest_books env tid)"
proof -
  let ?st = "st\<lparr>bs_needs_rest_snapshot := True\<rparr>" and ?w = "put_state w tid (st\<lparr>bs_needs_rest_snapshot := True\<rparr>)"
  show "t \<noteq> tid \<Longrightarrow> dict_get (mw_states (fst (handle_gap w env tid st source))) t = dict_get (mw_states w) t"
    by (simp add: handle_gap_def Let_def record_error_def apply_rest_snapshot_get(1) [of ?w tid ?st]
        split: option.split sum.split)
  show "\<exists>st'. dict_get (mw_states (fst (handle_gap w env tid st source))) tid = Some st'
      \<and> bs_resolved st' = bs_resolved st
      \<and> (bs_snapshot st' = bs_snapshot st \<and> bs_needs_rest_snapshot st' \<or> bs_snapshot st' \<in> rest_books env tid)"
  proof (cases "\<exists>load snap. env_loader env = Some load \<and> load tid = Inr snap")
    case True
    then obtain load snap where l: "env_loader env = Some load" "load tid = Inr snap" by blast
    obtain st' where st': "dict_get (mw_states (fst (apply_rest_snapshot ?w env tid snap source))) tid = Some st'"
        "bs_resolved st' = bs_resolved ?st"
        "st' = ?st \<or> (\<exists>mk cur st1. rest_state tid snap mk cur (env_now env) = Inr st1 \<and> bs_snapshot st' = bs_snapshot st1)"
      using apply_rest_snapshot_get(2) [of ?w tid ?st env snap source] by auto
    then have "bs_snapshot st' = bs_snapshot st \<and> bs_needs_rest_snapshot st' \<or> bs_snapshot st' \<in> rest_books env tid"
      using l unfolding rest_books_def by auto
    then show ?thesis using st'(1,2) l by (simp add: handle_gap_def Let_def)
  next
    case False
    then show ?thesis
      by (cases "env_loader env"; cases "the (env_loader env) tid")
        (simp_all add: handle_gap_def Let_def record_error_def)
  qed
qed

subsection \<open>Resolution is final\<close>

text \<open>A resolved token stays resolved, with its book up to the time stamp or one of the given books.\<close>

definition frozen :: "book set \<Rightarrow> book_state option \<Rightarrow> book_state option \<Rightarrow> bool" where
  "frozen books a b \<longleftrightarrow> (\<forall>st. a = Some st \<and> bs_resolved st \<longrightarrow> (\<exists>st'. b = Some st' \<and> bs_resolved st'
     \<and> (\<exists>k \<in> insert (bs_snapshot st) books. \<exists>t. bs_snapshot st' = k\<lparr>ob_received_at := t\<rparr>)))"

definition frozen_tokens :: "(string \<Rightarrow> book set) \<Rightarrow> ws_worker \<Rightarrow> ws_worker \<Rightarrow> bool" where
  "frozen_tokens books w w' \<longleftrightarrow> (\<forall>t. frozen (books t) (dict_get (mw_states w) t) (dict_get (mw_states w') t))"

lemma book_same_time: "\<exists>t. b = b\<lparr>ob_received_at := t\<rparr>" for b :: book
  by (rule exI [of _ "ob_received_at b"]) simp

lemma frozen_refl: "frozen books a a"
  by (auto simp: frozen_def book_same_time)

lemma frozen_trans:
  assumes "frozen A a b" "frozen B b c"
  shows "frozen (A \<union> B) a c"
  unfolding frozen_def
proof (intro allI impI)
  fix st
  assume "a = Some st \<and> bs_resolved st"
  with assms(1) obtain st1 k1 u1 where 1: "b = Some st1" "bs_resolved st1" "k1 \<in> insert (bs_snapshot st) A"
      "bs_snapshot st1 = k1\<lparr>ob_received_at := u1\<rparr>"
    unfolding frozen_def by blast
  with assms(2) obtain st2 k2 u2 where 2: "c = Some st2" "bs_resolved st2" "k2 \<in> insert (bs_snapshot st1) B"
      "bs_snapshot st2 = k2\<lparr>ob_received_at := u2\<rparr>"
    unfolding frozen_def by blast
  have "\<exists>k \<in> insert (bs_snapshot st) (A \<union> B). \<exists>t. bs_snapshot st2 = k\<lparr>ob_received_at := t\<rparr>"
  proof (cases "k2 \<in> B")
    case False
    then have "bs_snapshot st2 = k1\<lparr>ob_received_at := u2\<rparr>" using 1(4) 2(3,4) by simp
    then show ?thesis using 1(3) by blast
  qed (use 2(4) in blast)
  then show "\<exists>st'. c = Some st' \<and> bs_resolved st'
      \<and> (\<exists>k \<in> insert (bs_snapshot st) (A \<union> B). \<exists>t. bs_snapshot st' = k\<lparr>ob_received_at := t\<rparr>)"
    using 2(1,2) by blast
qed

lemma frozen_mono: "frozen A a b \<Longrightarrow> A \<subseteq> B \<Longrightarrow> frozen B a b"
  using frozen_trans [OF _ frozen_refl, of A a b B] by (simp add: Un_absorb1)

lemma frozen_resolve: "frozen books a (map_option (resolve_state now) a)"
  by (auto simp: frozen_def resolve_state_def touch_def)

lemma frozen_either: "b \<in> {a, map_option (resolve_state now) a} \<Longrightarrow> frozen books a b"
  using frozen_refl frozen_resolve by auto

lemma frozen_unresolved: "\<not> bs_resolved st \<Longrightarrow> frozen books (Some st) b"
  by (simp add: frozen_def)

lemma frozen_None [simp]: "frozen books None b"
  by (simp add: frozen_def)

text \<open>
  Only a message about a resolution gets as far as the sequence check of a resolved token, and
  so only it can have a REST book loaded.
\<close>

definition resolution_books :: "ws_env \<Rightarrow> message \<Rightarrow> string \<Rightarrow> book set" where
  "resolution_books env m t = (if message_type m = ''market_resolved'' then rest_books env t else {})"

lemma handle_token_frozen:
  "frozen_tokens (resolution_books env m) w (fst (handle_token w env tid m source))"
proof -
  let ?B = "resolution_books env m"
  obtain w1 mk where r: "resolve_market w m tid = (w1, mk)" by (cases "resolve_market w m tid")
  then have s1: "mw_states w1 = mw_states w" using states_frame(2) [of w m tid] by simp
  obtain w2 st0 where e: "ensure_state w1 (env_now env) tid mk = (w2, st0)"
    by (cases "ensure_state w1 (env_now env) tid mk")
  define st where "st = st0\<lparr>bs_last_error := None\<rparr>"
  define w3 where "w3 = (put_state w2 tid st)\<lparr>mw_last_error := None\<rparr>"
  have other3: "dict_get (mw_states w3) t = dict_get (mw_states w) t" if "t \<noteq> tid" for t
    using e that s1 by (auto simp: w3_def ensure_state_def Let_def split: option.splits)
  have at3: "dict_get (mw_states w3) tid = Some st" by (simp add: w3_def)
  have start: "frozen {} (dict_get (mw_states w) t) (dict_get (mw_states w3) t)" for t
  proof (cases "t = tid")
    case True
    have "frozen {} (dict_get (mw_states w) tid) (Some st)"
      using e s1 by (auto simp: ensure_state_def Let_def st_def frozen_def initial_state_def book_same_time
          split: option.splits)
    with True at3 show ?thesis by simp
  qed (simp add: other3 frozen_refl)
  have go: "frozen_tokens ?B w w'"
    if "\<And>t. frozen (?B t) (dict_get (mw_states w3) t) (dict_get (mw_states w') t)" for w'
    using frozen_trans [OF start that] unfolding frozen_tokens_def by simp
  have gap: "frozen (?B t) (dict_get (mw_states w3) t) (dict_get (mw_states (fst (handle_gap w3 env tid st source))) t)"
    if ty: "bs_resolved st \<Longrightarrow> message_type m = ''market_resolved''" for t
  proof (cases "t = tid")
    case True
    obtain st' where st': "dict_get (mw_states (fst (handle_gap w3 env tid st source))) tid = Some st'"
        "bs_resolved st' = bs_resolved st" "bs_snapshot st' = bs_snapshot st \<or> bs_snapshot st' \<in> rest_books env tid"
      using handle_gap_get(2) [of w3 env tid st source] by blast
    show ?thesis
    proof (cases "bs_resolved st")
      case R: True
      then have "bs_snapshot st' \<in> insert (bs_snapshot st) (?B tid)"
        using st'(3) ty by (auto simp: resolution_books_def)
      then show ?thesis using True at3 st'(1,2) book_same_time [of "bs_snapshot st'"]
        unfolding frozen_def by auto
    qed (simp add: True at3 frozen_unresolved)
  qed (simp add: handle_gap_get(1) frozen_refl)
  have disp: "frozen (?B t) (dict_get (mw_states w3) t) (dict_get (mw_states (fst (note_sequence tid seq s))) t)"
    if d: "dispatch w3 env tid st mk m source = Some s" and ty: "bs_resolved st \<Longrightarrow> message_type m = ''market_resolved''"
    for s seq t
  proof (cases "t = tid")
    case True
    show ?thesis
    proof (cases "bs_resolved st")
      case R: True
      then have "s = handle_resolved w3 env tid st m source" using d ty dispatch_resolved by simp
      then show ?thesis using True at3
        by (auto simp: note_sequence_get handle_resolved_get(2) frozen_def resolve_state_def touch_def)
    qed (use True at3 in \<open>simp add: frozen_unresolved\<close>)
  next
    case False
    then have "dict_get (mw_states (fst s)) t \<in> {dict_get (mw_states w3) t,
        map_option (resolve_state (env_now env)) (dict_get (mw_states w3) t)}"
      using dispatch_other [OF d, of t] by simp
    then show ?thesis using False frozen_either by (auto simp: note_sequence_get)
  qed
  have h: "handle_token w env tid m source =
      (if bs_resolved st \<and> message_type m \<noteq> ''market_resolved'' then (w3, Inr [])
       else if sequence_gap_detected st (extract_sequence m) then handle_gap w3 env tid st source
       else if bs_needs_rest_snapshot st \<and> message_type m \<notin> set book_types then (w3, Inr [])
       else case dispatch w3 env tid st mk m source of None \<Rightarrow> (w3, Inr [])
         | Some s \<Rightarrow> note_sequence tid (extract_sequence m) s)"
    unfolding handle_token_def r prod.case e Let_def st_def [symmetric] w3_def [symmetric] by (rule HOL.refl)
  show ?thesis
    unfolding h by (rule go) (auto simp: frozen_refl gap disp split: option.split)
qed

lemma handle_single_frozen: "frozen_tokens (resolution_books env m) w (fst (handle_single w env m source))"
  using handle_token_frozen by (auto simp: handle_single_def frozen_tokens_def frozen_refl split: option.split)

lemma frozen_tokens_trans:
  "frozen_tokens A w w1 \<Longrightarrow> frozen_tokens B w1 w2 \<Longrightarrow> frozen_tokens (\<lambda>t. A t \<union> B t) w w2"
  using frozen_trans unfolding frozen_tokens_def by blast

interpretation freezing: worker_relation env source "\<lambda>ty. ty \<noteq> ''market_resolved''" "frozen_tokens (\<lambda>t. {})"
  for env source
proof unfold_locales
  show "frozen_tokens (\<lambda>t. {}) w w2" if "frozen_tokens (\<lambda>t. {}) w w1" "frozen_tokens (\<lambda>t. {}) w1 w2" for w w1 w2
    using frozen_tokens_trans [OF that] by simp
  show "frozen_tokens (\<lambda>t. {}) w (fst (handle_single w env m source))" if "message_type m \<noteq> ''market_resolved''" for m w
    using handle_single_frozen [of env m w source] that by (simp add: resolution_books_def frozen_tokens_def)
qed (simp_all add: frozen_tokens_def frozen_refl)

interpretation loading: worker_relation env source "\<lambda>ty. True" "frozen_tokens (rest_books env)" for env source
proof unfold_locales
  show "frozen_tokens (rest_books env) w w2"
    if "frozen_tokens (rest_books env) w w1" "frozen_tokens (rest_books env) w1 w2" for w w1 w2
    using frozen_tokens_trans [OF that] by simp
  show "frozen_tokens (rest_books env) w (fst (handle_single w env m source))" for m w
    using handle_single_frozen [of env m w source]
    by (auto simp: frozen_tokens_def resolution_books_def elim: frozen_mono split: if_splits)
qed (simp_all add: frozen_tokens_def frozen_refl)

lemma handle_message_frozen: "frozen_tokens (resolution_books env m) w (fst (handle_message w env source m))"
proof (cases "message_type m = ''market_resolved''")
  case True
  then have "resolution_books env m = rest_books env" by (simp add: resolution_books_def fun_eq_iff)
  then show ?thesis using loading.handle_message_related(1) [OF HOL.refl HOL.refl TrueI] by simp
next
  case False
  then have "resolution_books env m = (\<lambda>t. {})" by (simp add: resolution_books_def fun_eq_iff)
  then show ?thesis using freezing.handle_message_related(1) [OF HOL.refl HOL.refl False] by simp
qed

subsection \<open>The invariant of the worker\<close>

definition states_typed :: "ws_worker \<Rightarrow> bool" where
  "states_typed w \<longleftrightarrow> (\<forall>t st. dict_get (mw_states w) t = Some st \<longrightarrow> ob_token_id (bs_snapshot st) = t)"

definition parts_reachable :: "ws_worker \<Rightarrow> bool" where
  "parts_reachable w \<longleftrightarrow> (\<forall>g. mw_registry w = Some g \<longrightarrow> registry_reachable g)
     \<and> (\<forall>dl. mw_delta w = Some dl \<longrightarrow> delta_reachable dl)"

definition ws_ok :: "ws_worker \<Rightarrow> bool" where
  "ws_ok w \<longleftrightarrow> states_typed w \<and> parts_reachable w \<and> length (mw_recent_results w) \<le> 8"

text \<open>The REST client answers with the book of the token it was asked for.\<close>

definition loader_ok :: "ws_env \<Rightarrow> bool" where
  "loader_ok env \<longleftrightarrow> (\<forall>l t b. env_loader env = Some l \<longrightarrow> l t = Inr (Rest_Book b) \<longrightarrow> ob_token_id b = t)"

lemma reachable_writes:
  "registry_reachable g \<Longrightarrow> registry_reachable (upsert a g m now)"
  "registry_reachable g \<Longrightarrow> registry_reachable (fst (remove_market a g cid))"
  "registry_reachable g \<Longrightarrow> registry_reachable (fst (mark_resolved a g cid))"
  "registry_reachable g \<Longrightarrow> registry_reachable (fst (change_tick_size a g cid t))"
  "registry_reachable g \<Longrightarrow> registry_reachable (fst (update_fee_schedule a g cid e mk tk))"
  "registry_reachable g \<Longrightarrow> registry_reachable (fst (update_fee_rate a g cid r u))"
  using registry_next [of g "Upsert a m now"] registry_next [of g "Remove a cid"]
    registry_next [of g "Set_Status a cid TS_RESOLVED None"] registry_next [of g "Change_Tick a cid t"]
    registry_next [of g "Fee_Schedule a cid e mk tk"] registry_next [of g "Fee_Rate a cid r u"]
  by (simp_all add: mark_resolved_def)

lemma ws_ok_put: "ws_ok w \<Longrightarrow> ob_token_id (bs_snapshot st) = t \<Longrightarrow> ws_ok (put_state w t st)"
  by (simp add: ws_ok_def states_typed_def parts_reachable_def) (simp add: put_state_def)

lemma ws_ok_map: "ws_ok w \<Longrightarrow> (\<And>st. ob_token_id (bs_snapshot (f st)) = ob_token_id (bs_snapshot st)) \<Longrightarrow>
     ws_ok (map_state w t f)"
proof (cases "dict_get (mw_states w) t")
  case (Some st)
  assume w: "ws_ok w" and f: "\<And>st. ob_token_id (bs_snapshot (f st)) = ob_token_id (bs_snapshot st)"
  then have "ob_token_id (bs_snapshot (f st)) = t" using Some by (simp add: ws_ok_def states_typed_def)
  with ws_ok_put [OF w this] Some show ?thesis by (simp add: map_state_def)
qed (simp add: map_state_def)

lemma ws_ok_fields [simp]:
  "ws_ok (w\<lparr>mw_tracked := x\<rparr>) = ws_ok w"
  "ws_ok (w\<lparr>mw_last_error := e\<rparr>) = ws_ok w"
  "ws_ok (w\<lparr>mw_last_message_at := l\<rparr>) = ws_ok w"
  "ws_ok (w\<lparr>mw_last_rest_snapshot_at := l\<rparr>) = ws_ok w"
  "ws_ok (ws_publish w p ev) = ws_ok w"
  by (simp_all add: ws_ok_def states_typed_def parts_reachable_def ws_publish_def)

lemma ws_ok_registry:
  "ws_ok w \<Longrightarrow> (\<And>g. reg = Some g \<Longrightarrow> registry_reachable g) \<Longrightarrow> ws_ok (w\<lparr>mw_registry := reg\<rparr>)"
  by (simp add: ws_ok_def states_typed_def parts_reachable_def)

lemma ws_ok_registry_Some: "ws_ok w \<Longrightarrow> registry_reachable g \<Longrightarrow> ws_ok (w\<lparr>mw_registry := Some g\<rparr>)"
  by (rule ws_ok_registry) auto

lemma ws_ok_reg: "ws_ok w \<Longrightarrow> mw_registry w = Some g \<Longrightarrow> registry_reachable g"
  by (simp add: ws_ok_def parts_reachable_def)

lemma record_result_ok:
  "ws_ok w \<Longrightarrow> ob_token_id (bs_snapshot st) = t \<Longrightarrow> ws_ok (record_result w now t st source reason types)"
proof -
  assume w: "ws_ok w" and st: "ob_token_id (bs_snapshot st) = t"
  let ?st = "\<lambda>r. (if r then st\<lparr>bs_last_message_at := Some (ob_received_at (bs_snapshot st)),
    bs_last_result := Some (result_of t st source reason types now),
    bs_last_rest_snapshot_at := Some (ob_received_at (bs_snapshot st))\<rparr>
    else st\<lparr>bs_last_message_at := Some (ob_received_at (bs_snapshot st)),
    bs_last_result := Some (result_of t st source reason types now)\<rparr>)"
  have "ws_ok (put_state w t (?st r))" for r using w st by (intro ws_ok_put) auto
  then show ?thesis
    using length_keep_last [of 8]
    by (auto simp: record_result_def Let_def ws_ok_def states_typed_def parts_reachable_def put_state_def)
qed

lemma update_and_emit_ok:
  assumes w: "ws_ok w" and st: "ob_token_id (bs_snapshot st) = t"
  shows "ws_ok (fst (update_and_emit w env t st source reason))"
proof (cases "case mw_delta w of None \<Rightarrow> Inr None
            | Some dl \<Rightarrow> bind_result (observe dl (bs_snapshot st)) (\<lambda>d. Inr (Some d))")
  case (Inl e)
  then show ?thesis using ws_ok_put [OF assms]
    by (simp add: update_and_emit_def emit_snapshot_update_def put_state_def)
next
  case (Inr dl)
  have "delta_reachable d" if "dl = Some d" for d
    using Inr that w by (auto simp: ws_ok_def parts_reachable_def intro: delta_observe split: option.splits)
  then have "ws_ok ((put_state w t st)\<lparr>mw_delta := dl, mw_history := mw_history w @ [bs_snapshot st]\<rparr>)"
    using ws_ok_put [OF assms] by (simp add: ws_ok_def states_typed_def parts_reachable_def)
  then show ?thesis using Inr st
    by (simp add: update_and_emit_def emit_snapshot_update_def Let_def record_result_ok put_state_def)
qed

lemma apply_fee_reachable:
  assumes "\<And>g. reg = Some g \<Longrightarrow> registry_reachable g"
  shows "apply_fee_schedule a reg tr tid k m = (reg', u) \<Longrightarrow> reg' = Some g \<Longrightarrow> registry_reachable g"
    and "apply_fee_rate a reg tr tid k r now = (reg', u) \<Longrightarrow> reg' = Some g \<Longrightarrow> registry_reachable g"
  using assms reachable_writes
  by (auto simp: apply_fee_schedule_def apply_fee_rate_def write_back_def Let_def
      split: if_splits option.splits prod.splits) (metis fst_conv)+

lemma announce_ok:
  "ws_ok w \<Longrightarrow> (\<And>g. fst u = Some g \<Longrightarrow> registry_reachable g) \<Longrightarrow> ws_ok (fst (announce_market w env u source reason))"
proof -
  assume w: "ws_ok w" and g: "\<And>g. fst u = Some g \<Longrightarrow> registry_reachable g"
  obtain reg tracked changed where u: "u = (reg, tracked, changed)" by (cases u)
  have "ws_ok (w\<lparr>mw_registry := reg, mw_tracked := tracked\<rparr>)"
    using ws_ok_registry [OF w, of reg] g by (simp add: u)
  then show ?thesis by (simp add: announce_market_def u Let_def split: option.split)
qed

lemma book_tokens [simp]:
  "ob_token_id (bs_snapshot (touch st now)) = ob_token_id (bs_snapshot st)"
  "ob_token_id (bs_snapshot (resolve_state now st)) = ob_token_id (bs_snapshot st)"
  "ob_token_id (bs_snapshot (apply_last_trade_price st p now)) = ob_token_id (bs_snapshot st)"
  "ob_token_id (bs_snapshot (apply_tick_size_change st tick now)) = ob_token_id (bs_snapshot st)"
  "ob_token_id (bs_snapshot (initial_state t mk now)) = t"
  by (simp_all add: touch_def resolve_state_def apply_last_trade_price_def apply_tick_size_change_def
      initial_state_def empty_snapshot_def)

lemma handle_book_ok:
  "ws_ok w \<Longrightarrow> ob_token_id (bs_snapshot st) = tid \<Longrightarrow> ws_ok (fst (handle_book w env tid st m source))"
  by (auto simp: handle_book_def apply_book_message_def update_and_emit_ok snapshot_from_message_token
      split: sum.split)

lemma handle_price_ok:
  "ws_ok w \<Longrightarrow> ob_token_id (bs_snapshot st) = tid \<Longrightarrow> ws_ok (fst (handle_price w env tid st m source))"
  by (auto simp: handle_price_def apply_price_message_def update_and_emit_ok split: sum.split)

lemma write_tick_size_ok: "ws_ok w \<Longrightarrow> ws_ok (write_tick_size w env tid mk tick)"
  by (auto simp: write_tick_size_def split: option.split
      intro: ws_ok_registry_Some reachable_writes(4) ws_ok_reg)

lemma handle_tick_ok:
  "ws_ok w \<Longrightarrow> ob_token_id (bs_snapshot st) = tid \<Longrightarrow> ws_ok (fst (handle_tick w env tid st mk m source))"
  by (auto simp: handle_tick_def update_and_emit_ok write_tick_size_ok split: sum.split)

lemma handle_last_trade_ok:
  assumes w: "ws_ok w" and st: "ob_token_id (bs_snapshot st) = tid"
  shows "ws_ok (fst (handle_last_trade w env tid st mk m source))"
proof -
  have "ws_ok (fst (announce_market w env (apply_fee_rate a (mw_registry w) (mw_tracked w) tid k r now) source reason))"
    for a k r now reason
  proof (rule announce_ok [OF w])
    show "registry_reachable g" if "fst (apply_fee_rate a (mw_registry w) (mw_tracked w) tid k r now) = Some g" for g
      using apply_fee_reachable(2) [OF ws_ok_reg [OF w]] that by (metis prod.collapse)
  qed
  then have "ws_ok (fst (case (mk, fee_rate_bps_from_message m) of
      (Some k, Some rate) \<Rightarrow> announce_market w env (apply_fee_rate (env_acquired env) (mw_registry w)
                       (mw_tracked w) tid k rate (or_default ts (env_now env))) source ''last_trade_price''
    | _ \<Rightarrow> (w, [])))" for ts
    using w by (simp split: option.split)
  then show ?thesis using w st
    by (simp add: handle_last_trade_def case_prod_beta update_and_emit_ok split: sum.split option.split)
qed

lemma handle_metadata_ok:
  assumes w: "ws_ok w" and st: "ob_token_id (bs_snapshot st) = tid"
  shows "ws_ok (fst (handle_metadata w env tid st mk m source))"
proof -
  have reach: "registry_reachable g" if "apply_fee_schedule a (mw_registry w) (mw_tracked w) tid k m = (Some g, u)" for a k u g
    using apply_fee_reachable(1) [OF ws_ok_reg [OF w] that] by simp
  have "ws_ok (fst (case mk of None \<Rightarrow> (w, []) | Some k \<Rightarrow>
      (case apply_fee_schedule (env_acquired env) (mw_registry w) (mw_tracked w) tid k m of
         (reg, tracked, None) \<Rightarrow> (w\<lparr>mw_registry := map_option (\<lambda>g. upsert (env_acquired env) g k (env_now env)) reg,
                        mw_tracked := tracked\<rparr>, [])
       | u \<Rightarrow> announce_market w env u source ''new_market'')))"
    using w reach reachable_writes(1)
    by (auto split: option.split prod.split intro!: announce_ok ws_ok_registry)
  then show ?thesis using st by (simp add: handle_metadata_def update_and_emit_ok case_prod_beta)
qed

lemma maybe_prune_ok: "ws_ok w \<Longrightarrow> ws_ok (maybe_prune_on_resolved w env mk)"
  by (auto simp: maybe_prune_on_resolved_def split: option.split
      intro: ws_ok_registry_Some reachable_writes(2) ws_ok_reg)

lemma resolve_tokens_ok: "ws_ok w \<Longrightarrow> ws_ok (resolve_tokens w now mk)"
proof -
  have "ws_ok w \<Longrightarrow> ws_ok (fold (\<lambda>t w. map_state (w\<lparr>mw_tracked := dict_set (mw_tracked w) t mk\<rparr>) t
      (resolve_state now)) ts w)" for ts
  proof (induction ts arbitrary: w)
    case (Cons t ts)
    have "ws_ok (map_state w' t (resolve_state now))" if "ws_ok w'" for w'
      using that by (simp add: ws_ok_map)
    then show ?case using Cons by simp
  qed simp
  then show "ws_ok w \<Longrightarrow> ws_ok (resolve_tokens w now mk)" by (simp add: resolve_tokens_def)
qed

lemma resolve_registered_ok: "ws_ok w \<Longrightarrow> ws_ok (resolve_registered w env mk)"
proof (cases "mw_registry w")
  case (Some g)
  assume w: "ws_ok w"
  obtain g' r where m: "mark_resolved (env_acquired env) g (mk_condition_id mk) = (g', r)"
    by (cases "mark_resolved (env_acquired env) g (mk_condition_id mk)")
  have "registry_reachable g'"
    using reachable_writes(3) [OF ws_ok_reg [OF w Some], of "env_acquired env" "mk_condition_id mk"] m by simp
  then have "ws_ok (w\<lparr>mw_registry := Some g'\<rparr>)" using w by (auto intro: ws_ok_registry)
  then show ?thesis
    using Some m by (auto simp: resolve_registered_def Let_def maybe_prune_ok resolve_tokens_ok split: option.split)
qed (simp add: resolve_registered_def)

lemma handle_resolved_ok:
  "ws_ok w \<Longrightarrow> ob_token_id (bs_snapshot st) = tid \<Longrightarrow> ws_ok (fst (handle_resolved w env tid st m source))"
  by (auto simp: handle_resolved_def Let_def ws_ok_put resolve_registered_ok split: option.split)

lemma dispatch_ok:
  "ws_ok w \<Longrightarrow> ob_token_id (bs_snapshot st) = tid \<Longrightarrow> dispatch w env tid st mk m source = Some s \<Longrightarrow> ws_ok (fst s)"
  by (auto simp: dispatch_def Let_def handle_book_ok handle_price_ok handle_tick_ok handle_last_trade_ok
      handle_metadata_ok handle_resolved_ok split: if_splits)

lemma resolve_market_ok: "ws_ok w \<Longrightarrow> ws_ok (fst (resolve_market w m tid))"
  by (auto simp: resolve_market_def split: option.split)

lemma apply_rest_snapshot_ok:
  assumes "ws_ok w" and b: "\<And>b. snap = Rest_Book b \<Longrightarrow> ob_token_id b = tid"
  shows "ws_ok (fst (apply_rest_snapshot w env tid snap source))"
proof -
  let ?w1 = "w\<lparr>mw_last_rest_snapshot_at := Some (env_now env)\<rparr>"
  have w1: "ws_ok ?w1" using assms by simp
  obtain w2 mk where p: "(case dict_get (mw_tracked ?w1) tid of Some mk \<Rightarrow> (?w1, Some mk)
      | None \<Rightarrow> resolve_market ?w1 [] tid) = (w2, mk)" by fastforce
  have w2: "ws_ok w2"
    using p w1 resolve_market_ok [OF w1, of "[]" tid] by (cases "dict_get (mw_tracked ?w1) tid") auto
  note d = apply_rest_snapshot_def [of w env tid snap source, unfolded Let_def p prod.case]
  show ?thesis
  proof (cases "rest_state tid snap mk (dict_get (mw_states w2) tid) (env_now env)")
    case (Inl e)
    then show ?thesis using w2 by (simp add: d)
  next
    case (Inr st)
    have "ob_token_id (bs_snapshot st) = tid"
      using Inr b by (cases snap) (auto simp: rest_state_def snapshot_from_mapping_def snapshot_from_message_token)
    then show ?thesis using Inr w2 by (simp add: d update_and_emit_ok)
  qed
qed

lemma handle_gap_ok:
  assumes "loader_ok env" "ws_ok w" "ob_token_id (bs_snapshot st) = tid"
  shows "ws_ok (fst (handle_gap w env tid st source))"
  using assms
  by (auto simp: handle_gap_def Let_def record_error_def loader_ok_def split: option.split sum.split
      intro!: ws_ok_map ws_ok_put apply_rest_snapshot_ok)

lemma handle_token_ok:
  assumes l: "loader_ok env" and w: "ws_ok w"
  shows "ws_ok (fst (handle_token w env tid m source))"
proof -
  obtain w1 mk where r: "resolve_market w m tid = (w1, mk)" by (cases "resolve_market w m tid")
  then have w1: "ws_ok w1" using resolve_market_ok [OF w, of m tid] by simp
  obtain w2 st0 where e: "ensure_state w1 (env_now env) tid mk = (w2, st0)"
    by (cases "ensure_state w1 (env_now env) tid mk")
  have w2: "ws_ok w2" "ob_token_id (bs_snapshot st0) = tid"
    using e w1 by (auto simp: ensure_state_def Let_def ws_ok_put split: option.splits)
      (auto simp: ws_ok_def states_typed_def)
  define st where "st = st0\<lparr>bs_last_error := None\<rparr>"
  define w3 where "w3 = (put_state w2 tid st)\<lparr>mw_last_error := None\<rparr>"
  have w3: "ws_ok w3" "ob_token_id (bs_snapshot st) = tid"
    using w2 by (simp_all add: w3_def st_def ws_ok_put)
  have "ws_ok (fst (note_sequence tid seq s))" if "ws_ok (fst s)" for seq s
    using that by (cases s) (auto simp: note_sequence_def split: sum.split intro: ws_ok_map)
  then show ?thesis
    using w3 dispatch_ok [OF w3] handle_gap_ok [OF l w3]
    unfolding handle_token_def r prod.case e Let_def st_def [symmetric] w3_def [symmetric]
    by (auto split: option.split)
qed

interpretation typing: worker_relation env source "\<lambda>ty. True" "\<lambda>w w'. loader_ok env \<longrightarrow> ws_ok w \<longrightarrow> ws_ok w'" for env source
  by unfold_locales (auto simp: handle_single_def handle_token_ok split: option.split)

subsection \<open>What is returned is what was published\<close>

definition says :: "ws_worker \<Rightarrow> ws_step \<Rightarrow> bool" where
  "says w s \<longleftrightarrow> (\<exists>ps. mw_published (fst s) = mw_published w @ ps \<and> (\<forall>evs. snd s = Inr evs \<longrightarrow> map snd ps = evs))"

lemma says_quiet: "mw_published w' = mw_published w \<Longrightarrow> r = Inr [] \<or> isl r \<Longrightarrow> says w (w', r)"
  by (auto simp: says_def)

lemma says_same [simp]: "says w (w, Inl e)" "says w (w, Inr [])"
  by (simp_all add: says_def)

lemma says_after:
  "mw_published w1 = mw_published w @ ps \<Longrightarrow> map snd ps = evs \<Longrightarrow> says w1 s \<Longrightarrow> says w (after_events evs s)"
  unfolding says_def after_events_def by (cases s) fastforce

lemma says_weaken: "says w1 s \<Longrightarrow> mw_published w1 = mw_published w \<Longrightarrow> says w s"
  by (simp add: says_def)

lemma published_frame [simp]:
  "mw_published (put_state w t st) = mw_published w"
  "mw_published (fst (resolve_market w m t)) = mw_published w"
  "mw_published (write_tick_size w env t mk tick) = mw_published w"
  "mw_published (maybe_prune_on_resolved w env k) = mw_published w"
  "mw_published (record_result w now t st s r ty) = mw_published w"
  "mw_published (map_state w t f) = mw_published w"
  by (simp_all add: put_state_def resolve_market_def write_tick_size_def maybe_prune_on_resolved_def
      record_result_def map_state_def Let_def split: option.split)

lemma resolve_published [simp]: "mw_published (resolve_registered w env mk) = mw_published w"
proof -
  have "mw_published (fold (\<lambda>t w. map_state (w\<lparr>mw_tracked := dict_set (mw_tracked w) t mk\<rparr>) t
      (resolve_state now)) ts w) = mw_published w" for ts now mk w
    by (induction ts arbitrary: w) simp_all
  then show ?thesis
    by (simp add: resolve_registered_def Let_def resolve_tokens_def split: option.split prod.split)
qed

lemma update_and_emit_says: "says w (update_and_emit w env t st source reason)"
proof (cases "case mw_delta w of None \<Rightarrow> Inr None
            | Some dl \<Rightarrow> bind_result (observe dl (bs_snapshot st)) (\<lambda>d. Inr (Some d))")
  case (Inl e)
  then show ?thesis
    by (auto simp: update_and_emit_def emit_snapshot_update_def put_state_def says_def)
next
  case (Inr dl)
  then show ?thesis
    by (auto simp: update_and_emit_def emit_snapshot_update_def Let_def says_def put_state_def ws_publish_def)
qed

lemma announce_says:
  "announce_market w env u source reason = (w1, evs) \<Longrightarrow> \<exists>ps. mw_published w1 = mw_published w @ ps \<and> map snd ps = evs"
  by (cases u) (auto simp: announce_market_def Let_def ws_publish_def split: option.splits)

lemma announced_says [simp]:
  "says w (after_events (snd (announce_market w env u source r))
     (update_and_emit (fst (announce_market w env u source r)) env tid st source' reason))"
proof -
  obtain w1 evs where a: "announce_market w env u source r = (w1, evs)"
    by (cases "announce_market w env u source r")
  show ?thesis using announce_says [OF a] says_after [OF _ _ update_and_emit_says] by (auto simp: a)
qed

lemma unannounced_says [simp]: "says w (after_events [] (update_and_emit w env tid st source reason))"
  by (rule says_after [OF _ _ update_and_emit_says]) simp_all

lemma handle_last_trade_says: "says w (handle_last_trade w env tid st mk m source)"
  by (auto simp: handle_last_trade_def case_prod_beta split: sum.split option.split)

lemma handle_metadata_says: "says w (handle_metadata w env tid st mk m source)"
proof -
  define p where "p = (case mk of None \<Rightarrow> (w, []) | Some k \<Rightarrow>
      (case apply_fee_schedule (env_acquired env) (mw_registry w) (mw_tracked w) tid k m of
         (reg, tracked, None) \<Rightarrow> (w\<lparr>mw_registry := map_option (\<lambda>g. upsert (env_acquired env) g k (env_now env)) reg,
                        mw_tracked := tracked\<rparr>, [])
       | u \<Rightarrow> announce_market w env u source ''new_market''))"
  have "\<exists>ps. mw_published (fst p) = mw_published w @ ps \<and> map snd ps = snd p"
    unfolding p_def using announce_says [of w env _ source "''new_market''"]
    by (fastforce split: option.split prod.split)
  then show ?thesis using says_after update_and_emit_says
    by (simp add: handle_metadata_def case_prod_beta flip: p_def) blast
qed

lemma handle_resolved_says: "says w (handle_resolved w env tid st m source)"
  by (auto simp: handle_resolved_def Let_def says_def ws_publish_def split: option.split)

lemma dispatch_says: "dispatch w env tid st mk m source = Some s \<Longrightarrow> says w s"
  by (auto simp: dispatch_def Let_def handle_last_trade_says handle_metadata_says handle_resolved_says
      handle_book_def handle_price_def handle_tick_def update_and_emit_says
      says_weaken [OF update_and_emit_says] split: if_splits sum.split intro: says_quiet)

lemma apply_rest_snapshot_says: "says w (apply_rest_snapshot w env tid snap source)"
proof -
  let ?w1 = "w\<lparr>mw_last_rest_snapshot_at := Some (env_now env)\<rparr>"
  obtain w2 mk where p: "(case dict_get (mw_tracked ?w1) tid of Some mk \<Rightarrow> (?w1, Some mk)
      | None \<Rightarrow> resolve_market ?w1 [] tid) = (w2, mk)" by fastforce
  have "mw_published w2 = mw_published w"
  proof (cases "dict_get (mw_tracked ?w1) tid")
    case None
    then have "w2 = fst (resolve_market ?w1 [] tid)" using p by simp
    then show ?thesis by (simp only: published_frame) simp
  next
    case (Some k)
    then have "w2 = ?w1" using p by simp
    then show ?thesis by simp
  qed
  then show ?thesis
    unfolding apply_rest_snapshot_def Let_def p prod.case
    by (auto intro: says_quiet says_weaken [OF update_and_emit_says] split: sum.split)
qed

lemma handle_gap_says: "says w (handle_gap w env tid st source)"
  by (auto simp: handle_gap_def Let_def record_error_def
      intro: says_quiet says_weaken [OF apply_rest_snapshot_says] split: option.split sum.split)

lemma handle_token_says: "says w (handle_token w env tid m source)"
proof -
  obtain w1 mk where r: "resolve_market w m tid = (w1, mk)" by (cases "resolve_market w m tid")
  then have w1: "mw_published w1 = mw_published w" using published_frame(2) [of w m tid] by simp
  obtain w2 st0 where e: "ensure_state w1 (env_now env) tid mk = (w2, st0)"
    by (cases "ensure_state w1 (env_now env) tid mk")
  have w2: "mw_published w2 = mw_published w"
    using e w1 by (auto simp: ensure_state_def Let_def split: option.splits)
  define st where "st = st0\<lparr>bs_last_error := None\<rparr>"
  define w3 where "w3 = (put_state w2 tid st)\<lparr>mw_last_error := None\<rparr>"
  have w3: "mw_published w3 = mw_published w" using w2 by (simp add: w3_def)
  have "says w3 s \<Longrightarrow> says w3 (note_sequence tid seq s)" for seq s
    by (cases s) (auto simp: note_sequence_def says_def split: sum.split)
  then have "says w3 (note_sequence tid seq s)" if "dispatch w3 env tid st mk m source = Some s" for seq s
    using dispatch_says [OF that] by blast
  then have "says w3 (handle_token w env tid m source)"
    unfolding handle_token_def r prod.case e Let_def st_def [symmetric] w3_def [symmetric]
    by (auto intro: says_quiet handle_gap_says split: option.split)
  then show ?thesis using w3 says_weaken by blast
qed

lemma handle_message_says:
  shows "says w (handle_message w env source m)"
    and "says w (handle_changes w env source base items)"
proof (induction w env source m and w env source base items rule: handle_message_handle_changes.induct)
  case (1 w env source m)
  then have "says (w\<lparr>mw_last_message_at := Some (env_now env)\<rparr>) (handle_message w env source m)"
    by (auto simp: Let_def handle_single_def handle_token_says intro: says_quiet split: option.split)
  then show ?case by (rule says_weaken) simp
next
  case (3 w env source base d items)
  obtain w1 r where h: "handle_message w env source (expand_change base d) = (w1, r)"
    by (cases "handle_message w env source (expand_change base d)")
  show ?case
  proof (cases r)
    case (Inl x)
    then show ?thesis using 3(1) h by (simp add: says_def)
  next
    case (Inr evs)
    then obtain ps where "mw_published w1 = mw_published w @ ps" "map snd ps = evs"
      using 3(1) h by (auto simp: says_def)
    from says_after [OF this 3(2) [OF h [symmetric] Inr]] show ?thesis using h Inr by simp
  qed
qed (auto intro: says_quiet)

end
