(* ===== verification/Market_Stream.thy ===== *)
theory Market_Stream
  imports Market_Ingest
begin

text \<open>
  Sequences of calls to the market WebSocket worker of \<open>Market_Ingest\<close>, and what holds
  along them: the typing of its states, the finality of a resolution, the quarantine of a
  book after a sequence gap, and the messages that the sequence check lets through or drops.
\<close>

datatype ws_op =
    Track market
  | Untrack "string list"
  | Subscribe "string list"
  | Message message string
  | Rest string rest_snapshot string
  | Record_Error string "string option"
  | Clear_Error
  | Set_Connection bool

fun ws_step_op :: "ws_worker \<Rightarrow> ws_env \<Rightarrow> ws_op \<Rightarrow> ws_worker" where
  "ws_step_op w env (Track m) = track_market w env m"
| "ws_step_op w env (Untrack ids) = untrack_market w ids"
| "ws_step_op w env (Subscribe ids) = fst (build_subscription_request w env ids)"
| "ws_step_op w env (Message m source) = fst (handle_message w env source m)"
| "ws_step_op w env (Rest tid snap source) = fst (apply_rest_snapshot w env tid snap source)"
| "ws_step_op w env (Record_Error r t) = record_error w r t"
| "ws_step_op w env Clear_Error = clear_error w"
| "ws_step_op w env (Set_Connection c) = set_connection_state w c"

text \<open>The REST books that a caller hands over are those of the token it names.\<close>

fun ws_op_ok :: "ws_op \<Rightarrow> bool" where
  "ws_op_ok (Rest tid (Rest_Book b) source) = (ob_token_id b = tid)"
| "ws_op_ok _ = True"

inductive ws_reachable :: "ws_worker \<Rightarrow> bool" where
  ws_init: "(\<And>g. reg = Some g \<Longrightarrow> registry_reachable g) \<Longrightarrow> (\<And>d. dl = Some d \<Longrightarrow> delta_reachable d) \<Longrightarrow>
     ws_reachable (new_ws_worker reg dl)"
| ws_next: "ws_reachable w \<Longrightarrow> loader_ok env \<Longrightarrow> ws_op_ok op \<Longrightarrow> ws_reachable (ws_step_op w env op)"

inductive_cases ws_stepE: "ws_reachable w"

lemma track_market_ok: "ws_ok w \<Longrightarrow> ws_ok (track_market w env m)"
proof -
  assume w: "ws_ok w"
  define w1 where "w1 = w\<lparr>mw_tracked := fold (\<lambda>tid d. dict_set d tid m) (token_ids m) (mw_tracked w),
      mw_registry := map_option (\<lambda>g. upsert (env_acquired env) g m (env_now env)) (mw_registry w)\<rparr>"
  have "ws_ok (w\<lparr>mw_registry := map_option (\<lambda>g. upsert (env_acquired env) g m (env_now env)) (mw_registry w)\<rparr>)"
    using ws_ok_reg [OF w] reachable_writes(1) by (intro ws_ok_registry [OF w]) auto
  then have w1: "ws_ok w1" by (simp add: w1_def ws_ok_def states_typed_def parts_reachable_def)
  have "ws_ok w1 \<Longrightarrow> ws_ok (fold (\<lambda>tid w. if dict_get (mw_states w) tid \<noteq> None then w
      else put_state w tid (initial_state tid (Some m) (env_now env))) ts w1)" for ts w1
    by (induction ts arbitrary: w1) (simp_all add: ws_ok_put)
  from this [OF w1] show ?thesis by (simp add: track_market_def Let_def w1_def)
qed

lemma untrack_market_ok: "ws_ok w \<Longrightarrow> ws_ok (untrack_market w ids)"
proof -
  have gone: "dict_get (fold (\<lambda>t d. dict_pop d t) ts d) t = (if t \<in> set ts then None else dict_get d t)"
    for ts t and d :: "(string, book_state) dict"
    by (induction ts arbitrary: d) (auto simp: dict_get_pop)
  show "ws_ok w \<Longrightarrow> ?thesis"
    by (auto simp: untrack_market_def Let_def ws_ok_def states_typed_def parts_reachable_def gone split: if_splits)
qed

lemma subscription_ok: "ws_ok w \<Longrightarrow> ws_ok (fst (build_subscription_request w env ids))"
proof -
  have "ws_ok w \<Longrightarrow> ws_ok (fold (\<lambda>t w. mark_subscribed w now t) ts w)" for ts now
    by (induction ts arbitrary: w) (simp_all add: mark_subscribed_def ws_ok_map)
  then show "ws_ok w \<Longrightarrow> ?thesis" by (simp add: build_subscription_request_def Let_def)
qed

lemma ws_step_op_ok: "ws_ok w \<Longrightarrow> loader_ok env \<Longrightarrow> ws_op_ok op \<Longrightarrow> ws_ok (ws_step_op w env op)"
proof (cases op)
  case (Message m source)
  then show "ws_ok w \<Longrightarrow> loader_ok env \<Longrightarrow> ?thesis"
    using typing.handle_message_related(1) [OF refl refl TrueI, of env w source m] by simp
next
  case (Rest tid snap source)
  then show "ws_ok w \<Longrightarrow> ws_op_ok op \<Longrightarrow> ?thesis" by (auto intro!: apply_rest_snapshot_ok)
next
  case (Record_Error r t)
  then show "ws_ok w \<Longrightarrow> ?thesis"
    by (auto simp: record_error_def Let_def split: option.split intro!: ws_ok_map)
qed (auto simp: track_market_ok untrack_market_ok subscription_ok clear_error_def set_connection_state_def,
     simp add: ws_ok_def states_typed_def parts_reachable_def)

lemma ws_reachable_ok: "ws_reachable w \<Longrightarrow> ws_ok w"
proof (induction rule: ws_reachable.induct)
  case (ws_init reg dl)
  then show ?case by (simp add: new_ws_worker_def ws_ok_def states_typed_def parts_reachable_def)
qed (simp add: ws_step_op_ok)

subsection \<open>Quarantine\<close>

text \<open>
  A token that waits for a snapshot keeps its book, up to the time stamp, and keeps waiting,
  unless a book could be loaded for it.
\<close>

definition waiting :: "bool \<Rightarrow> book_state option \<Rightarrow> book_state option \<Rightarrow> bool" where
  "waiting loaded a b \<longleftrightarrow> loaded \<or> (\<forall>st. a = Some st \<and> bs_needs_rest_snapshot st \<longrightarrow> (\<exists>st'. b = Some st'
     \<and> bs_needs_rest_snapshot st' \<and> (\<exists>t. bs_snapshot st' = (bs_snapshot st)\<lparr>ob_received_at := t\<rparr>)))"

definition waiting_tokens :: "ws_env \<Rightarrow> ws_worker \<Rightarrow> ws_worker \<Rightarrow> bool" where
  "waiting_tokens env w w' \<longleftrightarrow>
     (\<forall>t. waiting (rest_books env t \<noteq> {}) (dict_get (mw_states w) t) (dict_get (mw_states w') t))"

lemma waiting_refl: "waiting l a a"
  by (auto simp: waiting_def book_same_time)

lemma waiting_trans: "waiting k a b \<Longrightarrow> waiting l b c \<Longrightarrow> waiting (k \<or> l) a c"
  by (fastforce simp: waiting_def)

lemma waiting_either: "b \<in> {a, map_option (resolve_state now) a} \<Longrightarrow> waiting l a b"
  by (auto simp: waiting_def resolve_state_def touch_def book_same_time)

lemma handle_token_waiting:
  assumes ty: "message_type m \<notin> set book_types"
  shows "waiting (rest_books env t \<noteq> {}) (dict_get (mw_states w) t)
      (dict_get (mw_states (fst (handle_token w env tid m source))) t)"
proof -
  let ?L = "rest_books env t \<noteq> {}"
  obtain w1 mk where r: "resolve_market w m tid = (w1, mk)" by (cases "resolve_market w m tid")
  then have s1: "mw_states w1 = mw_states w" using states_frame(2) [of w m tid] by simp
  obtain w2 st0 where e: "ensure_state w1 (env_now env) tid mk = (w2, st0)"
    by (cases "ensure_state w1 (env_now env) tid mk")
  define st where "st = st0\<lparr>bs_last_error := None\<rparr>"
  define w3 where "w3 = (put_state w2 tid st)\<lparr>mw_last_error := None\<rparr>"
  have at3: "dict_get (mw_states w3) tid = Some st" by (simp add: w3_def)
  have start: "waiting False (dict_get (mw_states w) t) (dict_get (mw_states w3) t)"
    using e s1 by (auto simp: w3_def st_def ensure_state_def Let_def waiting_def book_same_time split: option.splits)
  have h: "handle_token w env tid m source =
      (if bs_resolved st \<and> message_type m \<noteq> ''market_resolved'' then (w3, Inr [])
       else if sequence_gap_detected st (extract_sequence m) then handle_gap w3 env tid st source
       else if bs_needs_rest_snapshot st \<and> message_type m \<notin> set book_types then (w3, Inr [])
       else case dispatch w3 env tid st mk m source of None \<Rightarrow> (w3, Inr [])
         | Some s \<Rightarrow> note_sequence tid (extract_sequence m) s)"
    unfolding handle_token_def r prod.case e Let_def st_def [symmetric] w3_def [symmetric] by (rule refl)
  have "waiting ?L (dict_get (mw_states w3) t) (dict_get (mw_states (fst (handle_token w env tid m source))) t)"
  proof (cases "t = tid")
    case True
    then show ?thesis
      using handle_gap_get(2) [of w3 env tid st source] ty at3 unfolding h
      by (cases "bs_needs_rest_snapshot st") (auto simp: waiting_def book_same_time)
  next
    case False
    have "waiting ?L (dict_get (mw_states w3) t) (dict_get (mw_states (fst (note_sequence tid seq s))) t)"
      if "dispatch w3 env tid st mk m source = Some s" for seq s
      using waiting_either dispatch_other [OF that False] False by (auto simp: note_sequence_get)
    then show ?thesis
      using handle_gap_get(1) [OF False, of w3 env st source] unfolding h
      by (auto simp: waiting_refl split: option.split)
  qed
  with start show ?thesis using waiting_trans by fastforce
qed

interpretation quarantine: worker_relation env source "\<lambda>ty. ty \<notin> set book_types" "waiting_tokens env"
  for env source
proof unfold_locales
  show "waiting_tokens env w w2" if "waiting_tokens env w w1" "waiting_tokens env w1 w2" for w w1 w2
    using that waiting_trans unfolding waiting_tokens_def by fastforce
  show "waiting_tokens env w (fst (handle_single w env m source))" if "message_type m \<notin> set book_types" for m w
    using handle_token_waiting [OF that]
    by (auto simp: waiting_tokens_def handle_single_def waiting_refl split: option.split)
qed (simp_all add: waiting_tokens_def waiting_refl book_types_def)

definition run_messages :: "(ws_env \<times> string \<times> message) list \<Rightarrow> ws_worker \<Rightarrow> ws_worker" where
  "run_messages ms w = fold (\<lambda>(env, source, m) w. fst (handle_message w env source m)) ms w"

lemma run_messages_Cons [simp]:
  "run_messages ((env, source, m) # ms) w = run_messages ms (fst (handle_message w env source m))"
  by (simp add: run_messages_def)

lemma run_messages_Nil [simp]: "run_messages [] w = w"
  by (simp add: run_messages_def)

lemma run_messages_waiting:
  "\<forall>(env, source, m) \<in> set ms. message_type m \<notin> set book_types \<Longrightarrow>
     waiting (\<exists>(env, source, m) \<in> set ms. rest_books env t \<noteq> {})
       (dict_get (mw_states w) t) (dict_get (mw_states (run_messages ms w)) t)"
proof (induction ms arbitrary: w)
  case (Cons x ms)
  obtain env source m where x: "x = (env, source, m)" by (cases x)
  have "waiting_tokens env w (fst (handle_message w env source m))"
    using Cons.prems x by (intro quarantine.handle_message_related(1) [OF refl refl]) auto
  then have "waiting (rest_books env t \<noteq> {}) (dict_get (mw_states w) t)
      (dict_get (mw_states (fst (handle_message w env source m))) t)"
    by (simp add: waiting_tokens_def)
  from waiting_trans [OF this Cons.IH] Cons.prems x show ?case by simp
qed (simp add: waiting_refl)

subsection \<open>Runs over a resolved token\<close>

text \<open>The books loaded while messages about a resolution are handled.\<close>

definition run_books :: "(ws_env \<times> string \<times> message) list \<Rightarrow> string \<Rightarrow> book set" where
  "run_books ms t = (\<Union>(env, source, m) \<in> set ms. resolution_books env m t)"

lemma run_messages_frozen: "frozen_tokens (run_books ms) w (run_messages ms w)"
proof (induction ms arbitrary: w)
  case (Cons x ms)
  obtain env source m where x: "x = (env, source, m)" by (cases x)
  from frozen_tokens_trans [OF handle_message_frozen [of env m w source] Cons.IH]
  show ?case by (simp add: x run_books_def)
qed (simp add: frozen_tokens_def frozen_refl)

subsection \<open>A plain message to a known token\<close>

lemma plain_message:
  fixes env :: ws_env and source :: string
  assumes "change_items m = None" "resolve_token_id w m = Some tid"
    and "dict_get (mw_states w) tid = Some st" "dict_get (mw_tracked w) tid = Some mk"
  defines "w3 \<equiv> (put_state (w\<lparr>mw_last_message_at := Some (env_now env)\<rparr>) tid
      (st\<lparr>bs_last_error := None\<rparr>))\<lparr>mw_last_error := None\<rparr>"
  shows "handle_message w env source m =
    (if bs_resolved st \<and> message_type m \<noteq> ''market_resolved'' then (w3, Inr [])
     else if sequence_gap_detected st (extract_sequence m)
     then handle_gap w3 env tid (st\<lparr>bs_last_error := None\<rparr>) source
     else if bs_needs_rest_snapshot st \<and> message_type m \<notin> set book_types then (w3, Inr [])
     else case dispatch w3 env tid (st\<lparr>bs_last_error := None\<rparr>) (Some mk) m source of
         None \<Rightarrow> (w3, Inr []) | Some s \<Rightarrow> note_sequence tid (extract_sequence m) s)"
proof -
  let ?w = "w\<lparr>mw_last_message_at := Some (env_now env)\<rparr>"
  have rt: "resolve_token_id ?w m = Some tid"
    using assms(2) by (cases "extract_token_candidates m") (simp_all add: resolve_token_id_def registry_has_token_def)
  have rm: "resolve_market ?w m tid = (?w, Some mk)"
    using assms(4) by (simp add: resolve_market_def)
  have es: "ensure_state ?w (env_now env) tid (Some mk) = (?w, st)"
    using assms(3) by (simp add: ensure_state_def)
  have "handle_message w env source m = handle_single ?w env m source"
    using assms(1) by (simp add: Let_def)
  also have "\<dots> = handle_token ?w env tid m source"
    by (simp add: handle_single_def rt)
  also have "\<dots> = (if bs_resolved st \<and> message_type m \<noteq> ''market_resolved'' then (w3, Inr [])
     else if sequence_gap_detected st (extract_sequence m)
     then handle_gap w3 env tid (st\<lparr>bs_last_error := None\<rparr>) source
     else if bs_needs_rest_snapshot st \<and> message_type m \<notin> set book_types then (w3, Inr [])
     else case dispatch w3 env tid (st\<lparr>bs_last_error := None\<rparr>) (Some mk) m source of
         None \<Rightarrow> (w3, Inr []) | Some s \<Rightarrow> note_sequence tid (extract_sequence m) s)"
    unfolding w3_def by (simp add: handle_token_def rm es sequence_gap_detected_def Let_def)
  finally show ?thesis .
qed


subsection \<open>Claims\<close>

definition demo_env :: ws_env where
  "demo_env = \<lparr>env_now = 50, env_loader = None, env_account = None, env_acquired = True\<rparr>"

definition demo_book_message :: message where
  "demo_book_message = [(''event_type'', PStr ''book''), (''asset_id'', PStr ''t1''),
     (''sequence'', PInt 7), (''bids'', PList [PDict [(''price'', PStr ''0.50''), (''size'', PStr ''7'')],
       PDict [(''price'', PStr ''0.55''), (''size'', PStr ''3'')]]),
     (''asks'', PList [PDict [(''price'', PStr ''0.60''), (''size'', PStr ''4'')]])]"

definition demo_worker :: ws_worker where
  "demo_worker = ws_step_op (ws_step_op (new_ws_worker (Some new_registry) None) demo_env
     (Track (demo_market ''c1'' ''s1'' ''t1'' ''game''))) demo_env (Message demo_book_message ''ws'')"

definition demo_message :: "string \<Rightarrow> int \<Rightarrow> message" where
  "demo_message ty seq = [(''event_type'', PStr ty), (''asset_id'', PStr ''t1''), (''sequence'', PInt seq),
     (''price'', PStr ''0.55''), (''size'', PStr ''0''), (''side'', PStr ''BUY'')]"

lemma demo_loader_ok: "loader_ok demo_env"
  by (simp add: loader_ok_def demo_env_def)

lemma demo_worker_reachable: "ws_reachable demo_worker"
  unfolding demo_worker_def
  by (intro ws_next ws_init demo_loader_ok) (auto intro: registry_init)

lemma demo_worker_state:
  "map_option bs_last_sequence (dict_get (mw_states demo_worker) ''t1'') = Some (Some 7)"
  "map_option bs_resolved (dict_get (mw_states demo_worker) ''t1'') = Some False"
  "map_option bs_needs_rest_snapshot (dict_get (mw_states demo_worker) ''t1'') = Some False"
  "map_option mk_condition_id (dict_get (mw_tracked demo_worker) ''t1'') = Some ''c1''"
  "worker_snapshot demo_worker ''t1'' \<noteq> None"
  "map_option ob_best_bid (worker_snapshot demo_worker ''t1'') = Some (Some (55/100))"
  by code_simp+

text \<open>
  C27: Whatever is tracked, untracked, subscribed, received or loaded, every state of the worker
  is the book of the token it is filed under, the registry and the sample store behind the
  worker keep their invariants, and at most eight results are remembered.
\<close>

theorem worker_states_typed:
  assumes "ws_reachable w"
  shows "(dict_get (mw_states w) t = Some st \<longrightarrow> ob_token_id (bs_snapshot st) = t)
       \<and> (mw_registry w = Some g \<longrightarrow> registry_ok g)
       \<and> (mw_delta w = Some dl \<longrightarrow> delta_ok dl)
       \<and> length (mw_recent_results w) \<le> 8"
  using ws_reachable_ok [OF assms] registry_reachable_ok delta_reachable_ok
  by (auto simp: ws_ok_def states_typed_def parts_reachable_def)

theorem worker_states_typed_witness:
  "ws_reachable demo_worker \<and> length (mw_recent_results demo_worker) \<le> 8"
  using worker_states_typed [OF demo_worker_reachable] demo_worker_reachable by simp

text \<open>
  C9: A resolved token stays resolved, whatever run of messages follows: of any type and
  nesting, for this token or another, ending or failing, with any REST loader behind the
  worker. Its book changes in nothing but the time stamp, with one exception: a message
  \<open>market_resolved\<close> passes the check for resolved tokens, and when its number leaves a gap the
  REST book is loaded, which then replaces the book. So the book at the end is the book at the start,
  or one that the loader behind a \<open>market_resolved\<close> of the run delivered.
\<close>

theorem resolved_is_final:
  assumes "dict_get (mw_states w) t = Some st" "bs_resolved st"
  shows "\<exists>st' b u. dict_get (mw_states (run_messages ms w)) t = Some st' \<and> bs_resolved st'
     \<and> bs_snapshot st' = b\<lparr>ob_received_at := u\<rparr>
     \<and> (b = bs_snapshot st
        \<or> (\<exists>(env, source, m) \<in> set ms. message_type m = ''market_resolved'' \<and> b \<in> rest_books env t))"
proof -
  from run_messages_frozen [of ms w] assms obtain st' b u where
    "dict_get (mw_states (run_messages ms w)) t = Some st'" "bs_resolved st'"
    "b \<in> insert (bs_snapshot st) (run_books ms t)" "bs_snapshot st' = b\<lparr>ob_received_at := u\<rparr>"
    unfolding frozen_tokens_def frozen_def by blast
  moreover from this(3) have "b = bs_snapshot st
      \<or> (\<exists>(env, source, m) \<in> set ms. message_type m = ''market_resolved'' \<and> b \<in> rest_books env t)"
    by (fastforce simp: run_books_def resolution_books_def split: if_splits)
  ultimately show ?thesis by blast
qed

definition demo_resolved :: ws_worker where
  "demo_resolved = ws_step_op demo_worker demo_env (Message (demo_message ''market_resolved'' 8) ''ws'')"

definition demo_loader :: "string \<Rightarrow> rest_snapshot result" where
  "demo_loader t = Inr (Rest_Mapping [(''asset_id'', PStr t),
     (''bids'', PList [PDict [(''price'', PStr ''0.40''), (''size'', PStr ''2'')]]), (''asks'', PList [])])"

text \<open>
  A price change that leaves a gap is ignored after the resolution; a repeated resolution that
  leaves a gap has the REST book put in place of the last one.
\<close>

definition demo_loading_env :: ws_env where
  "demo_loading_env = demo_env\<lparr>env_loader := Some demo_loader\<rparr>"

theorem resolved_is_final_witness:
  "map_option bs_resolved (dict_get (mw_states (run_messages
     [(demo_loading_env, ''ws'', demo_message ''price_change'' 12)] demo_resolved)) ''t1'') = Some True
   \<and> map_option (ob_best_bid \<circ> bs_snapshot) (dict_get (mw_states (run_messages
     [(demo_loading_env, ''ws'', demo_message ''price_change'' 12)] demo_resolved)) ''t1'') = Some (Some (55/100))"
proof -
  have d: "map_option bs_resolved (dict_get (mw_states demo_resolved) ''t1'') = Some True"
    "map_option (ob_best_bid \<circ> bs_snapshot) (dict_get (mw_states demo_resolved) ''t1'') = Some (Some (55/100))"
    by code_simp+
  then obtain st where st: "dict_get (mw_states demo_resolved) ''t1'' = Some st" "bs_resolved st" by auto
  have "message_type (demo_message ''price_change'' 12) \<noteq> ''market_resolved''" by code_simp
  with resolved_is_final [OF st, of "[(demo_loading_env, ''ws'', demo_message ''price_change'' 12)]"] d st
  show ?thesis by auto
qed

lemma resolved_book_replaced:
  "map_option (ob_best_bid \<circ> bs_snapshot) (dict_get (mw_states (run_messages
     [(demo_loading_env, ''ws'', demo_message ''market_resolved'' 12)] demo_resolved)) ''t1'') = Some (Some (40/100))"
  by code_simp

text \<open>
  C17: While a token waits for a snapshot, any run of messages that are not whole books, batches
  included and whatever they say, leaves its book as it is up to the time stamp and the token
  waiting, unless the REST loader behind one of the messages delivers a book for the token. A
  loader that is missing, that fails or whose answer cannot be read delivers none.
\<close>

theorem gap_quarantine:
  assumes "dict_get (mw_states w) t = Some st" "bs_needs_rest_snapshot st"
    and "\<forall>(env, source, m) \<in> set ms. message_type m \<notin> set book_types"
  shows "(\<exists>st' u. dict_get (mw_states (run_messages ms w)) t = Some st' \<and> bs_needs_rest_snapshot st'
        \<and> bs_snapshot st' = (bs_snapshot st)\<lparr>ob_received_at := u\<rparr>)
     \<or> (\<exists>(env, source, m) \<in> set ms. rest_books env t \<noteq> {})"
  using run_messages_waiting [OF assms(3), of t w] assms(1,2) unfolding waiting_def by blast

definition demo_gapped :: ws_worker where
  "demo_gapped = fst (handle_message demo_worker demo_env ''ws'' (demo_message ''price_change'' 12))"

definition failing_env :: ws_env where
  "failing_env = demo_env\<lparr>env_loader := Some (\<lambda>t. Inl (LibraryError ''rest_snapshot_failed''))\<rparr>"

lemma failing_delivers_nothing [simp]: "rest_books failing_env t = {}"
  by (simp add: rest_books_def failing_env_def)

theorem gap_quarantine_witness:
  "map_option bs_needs_rest_snapshot (dict_get (mw_states (run_messages
     [(failing_env, ''ws'', demo_message ''price_change'' 30), (failing_env, ''ws'', demo_message ''tick_size_change'' 31)]
     demo_gapped)) ''t1'') = Some True"
proof -
  have "map_option bs_needs_rest_snapshot (dict_get (mw_states demo_gapped) ''t1'') = Some True" by code_simp
  then obtain st where st: "dict_get (mw_states demo_gapped) ''t1'' = Some st" "bs_needs_rest_snapshot st" by auto
  have ty: "message_type (demo_message ''price_change'' 30) \<notin> set book_types"
    "message_type (demo_message ''tick_size_change'' 31) \<notin> set book_types" by code_simp+
  then have "\<forall>(env, source, m) \<in> set [(failing_env, ''ws'', demo_message ''price_change'' 30),
      (failing_env, ''ws'', demo_message ''tick_size_change'' 31)]. message_type m \<notin> set book_types"
    by simp
  from gap_quarantine [OF st this] show ?thesis by auto
qed

definition resolution_events :: "ws_worker \<Rightarrow> ws_event list" where
  "resolution_events w = filter (\<lambda>e. we_type e = ''market_resolved_or_disabled'') (map snd (mw_published w))"

lemma update_and_emit_registry:
  "mw_registry (fst (update_and_emit w env t st source reason)) = mw_registry w
   \<and> resolution_events (fst (update_and_emit w env t st source reason)) = resolution_events w"
  by (auto simp: update_and_emit_def emit_snapshot_update_def Let_def put_state_def record_result_def
      ws_publish_def resolution_events_def snapshot_event_def split: option.split sum.split)

lemma handle_gap_registry:
  assumes "dict_get (mw_tracked w) tid = Some mk"
  shows "mw_registry (fst (handle_gap w env tid st source)) = mw_registry w
    \<and> resolution_events (fst (handle_gap w env tid st source)) = resolution_events w"
  using assms update_and_emit_registry
  by (auto simp: handle_gap_def Let_def record_error_def apply_rest_snapshot_def map_state_def put_state_def
      resolution_events_def split: option.split sum.split)

text \<open>
  A message whose sequence number leaves a gap is dropped even when it is the resolution of
  the market: the token is not marked resolved, the registry is untouched and nothing is
  published as resolved, with or without a loader.
\<close>

lemma gap_drops_message:
  assumes "change_items m = None" "resolve_token_id w m = Some tid"
    and "dict_get (mw_states w) tid = Some st" "dict_get (mw_tracked w) tid = Some mk"
    and "\<not> bs_resolved st" "sequence_gap_detected st (extract_sequence m)"
  shows "(\<exists>st'. dict_get (mw_states (fst (handle_message w env source m))) tid = Some st' \<and> \<not> bs_resolved st')
       \<and> mw_registry (fst (handle_message w env source m)) = mw_registry w
       \<and> resolution_events (fst (handle_message w env source m)) = resolution_events w"
proof -
  let ?w3 = "(put_state (w\<lparr>mw_last_message_at := Some (env_now env)\<rparr>) tid
      (st\<lparr>bs_last_error := None\<rparr>))\<lparr>mw_last_error := None\<rparr>"
  have h: "handle_message w env source m = handle_gap ?w3 env tid (st\<lparr>bs_last_error := None\<rparr>) source"
    unfolding plain_message [OF assms(1-4)] using assms(5,6) by simp
  have "dict_get (mw_tracked ?w3) tid = Some mk" using assms(4) by (simp add: put_state_def)
  from handle_gap_registry [OF this, of env "st\<lparr>bs_last_error := None\<rparr>" source]
    handle_gap_get(2) [of ?w3 env tid "st\<lparr>bs_last_error := None\<rparr>" source] assms(5)
  show ?thesis unfolding h by (auto simp: put_state_def resolution_events_def)
qed

text \<open>
  The sequence check looks forward only: a price change with a number at or below the last
  one is applied like a fresh one, and the last number moves back to it.
\<close>

lemma stale_sequence_applied:
  assumes "change_items m = None" "resolve_token_id w m = Some tid" "message_type m = ''price_change''"
    and "dict_get (mw_states w) tid = Some st" "dict_get (mw_tracked w) tid = Some mk"
    and "\<not> bs_resolved st" "\<not> bs_needs_rest_snapshot st" "mw_delta w = None"
    and "bs_last_sequence st = Some k" "extract_sequence m = Some n" "n \<le> k"
    and "read_price_fields m = Inr f"
  shows "\<exists>st'. dict_get (mw_states (fst (handle_message w env source m))) tid = Some st'
     \<and> bs_snapshot st' = apply_price_fields (bs_snapshot st) f (env_now env)
     \<and> bs_last_sequence st' = Some n"
proof -
  let ?st = "st\<lparr>bs_last_error := None\<rparr>"
  let ?w3 = "(put_state (w\<lparr>mw_last_message_at := Some (env_now env)\<rparr>) tid ?st)\<lparr>mw_last_error := None\<rparr>"
  let ?st2 = "?st\<lparr>bs_snapshot := apply_price_fields (bs_snapshot st) f (env_now env)\<rparr>"
  let ?s = "update_and_emit ?w3 env tid ?st2 source ''price_change''"
  have "dispatch ?w3 env tid ?st (Some mk) m source = Some ?s"
    using assms(3,12) by (simp add: dispatch_def Let_def book_types_def price_types_def handle_price_def
        apply_price_message_def)
  then have h: "handle_message w env source m = note_sequence tid (Some n) ?s"
    unfolding plain_message [OF assms(1,2,4,5)] using assms(3,6-11)
    by (simp add: sequence_gap_detected_def)
  obtain st' where st': "dict_get (mw_states (fst ?s)) tid = Some st'" "same_book ?st2 st'"
    using update_and_emit_states [of ?w3 env tid ?st2 source "''price_change''"] by auto
  have "\<not> isl (snd ?s)"
    using assms(8) by (simp add: update_and_emit_def emit_snapshot_update_def put_state_def Let_def)
  then show ?thesis using st' unfolding h
    by (simp add: note_sequence_get same_book_def)
qed

text \<open>
  The events a message returns are exactly the events it published on the bus, in that
  order; a failing message has published a prefix of its work and withdraws nothing.
\<close>

lemma ingest_publishes_returned:
  "\<exists>ps. mw_published (fst (handle_message w env source m)) = mw_published w @ ps
     \<and> snd (handle_message w env source m) \<in> {Inr (map snd ps)} \<union> range Inl"
  using handle_message_says(1) [of w env source m]
  by (cases "snd (handle_message w env source m)") (auto simp: says_def)

end
