(* ===== verification/Account_State.thy ===== *)
theory Account_State
  imports Account
begin

text \<open>
  \<open>runtime/account_state.py\<close>: the copy-on-write store of the account. The write lock makes
  every public method one atomic step, so a run of the store is a sequence of operations.
  The clock of \<open>mark_reconciled\<close> is an argument; the warning that \<open>update_balances\<close> logs has
  no effect on the state. Dictionaries are insertion-ordered association lists, and the
  ordered dictionary of fills evicts from the front.
\<close>

definition ALLOWANCE_CAP_USDC :: decimal where "ALLOWANCE_CAP_USDC = 1000000000000000000"

definition FILLS_CAP :: nat where "FILLS_CAP = 10000"

record account_store =
  st_positions :: "(string \<times> string, position) dict"
  st_open_orders :: "(string, order) dict"
  st_fills :: "(string, fill) dict"
  st_balance_usdc :: decimal
  st_allowance_usdc :: decimal
  st_user_ws_connected :: bool
  st_allow_new_entries :: bool
  st_market_pauses :: "(string, market_pause) dict"
  st_last_reconcile_at :: "int option"
  st_snapshot :: account

definition init_store :: account_store where
  "init_store = \<lparr>st_positions = [], st_open_orders = [], st_fills = [], st_balance_usdc = 0,
     st_allowance_usdc = 0, st_user_ws_connected = False, st_allow_new_entries = False,
     st_market_pauses = [], st_last_reconcile_at = None, st_snapshot = new_account\<rparr>"

definition publish_snapshot :: "account_store \<Rightarrow> account_store" where
  "publish_snapshot s = s\<lparr>st_snapshot := \<lparr>
     ac_balance_usdc = st_balance_usdc s, ac_allowance_usdc = st_allowance_usdc s,
     ac_positions = dict_values (st_positions s), ac_open_orders = dict_values (st_open_orders s),
     ac_fills = dict_values (st_fills s), ac_user_ws_connected = st_user_ws_connected s,
     ac_allow_new_entries = st_allow_new_entries s,
     ac_market_pauses = dict_values (st_market_pauses s),
     ac_last_reconcile_at = st_last_reconcile_at s\<rparr>\<rparr>"

definition entry_gate_can_open :: "account_store \<Rightarrow> bool" where
  "entry_gate_can_open s \<longleftrightarrow> st_user_ws_connected s \<and> st_last_reconcile_at s \<noteq> None"

subsection \<open>Merging the sparse and the authoritative view of a position\<close>

definition merge_position_authority_fields :: "position option \<Rightarrow> position \<Rightarrow> position" where
  "merge_position_authority_fields previous incoming =
     (case previous of
        None \<Rightarrow> incoming
      | Some prev \<Rightarrow> incoming\<lparr>
          po_market_slug := str_or (po_market_slug incoming) (po_market_slug prev),
          po_avg_price := or_else (po_avg_price incoming) (po_avg_price prev),
          po_initial_value := or_else (po_initial_value incoming) (po_initial_value prev),
          po_current_value := or_else (po_current_value incoming) (po_current_value prev),
          po_cash_pnl := or_else (po_cash_pnl incoming) (po_cash_pnl prev),
          po_percent_pnl := or_else (po_percent_pnl incoming) (po_percent_pnl prev),
          po_realized_pnl := or_else (po_realized_pnl incoming) (po_realized_pnl prev),
          po_percent_realized_pnl :=
            or_else (po_percent_realized_pnl incoming) (po_percent_realized_pnl prev),
          po_cur_price := or_else (po_cur_price incoming) (po_cur_price prev),
          po_redeemable := or_else (po_redeemable incoming) (po_redeemable prev),
          po_opened_at := or_else (po_opened_at incoming) (po_opened_at prev)\<rparr>)"

definition position_key :: "position \<Rightarrow> string \<times> string" where
  "position_key p = (po_condition_id p, po_token_id p)"

definition order_key :: "order \<Rightarrow> string" where
  "order_key r = or_default (str_or (or_order_id r) (str_or (or_idempotency_key r) None))
     (or_condition_id r @ '':'' @ or_token_id r @ '':'' @ side_value (or_side r) @ '':''
      @ order_status_value (or_status r))"

subsection \<open>Operations\<close>

text \<open>Evicting the fills of a pruned market does not publish a new snapshot.\<close>

definition evict_market :: "account_store \<Rightarrow> string \<Rightarrow> account_store" where
  "evict_market s cid =
     (let stale = map fst (filter (\<lambda>(fid, f). fl_condition_id f = Some cid) (st_fills s))
      in s\<lparr>st_fills := fold (\<lambda>fid d. dict_pop d fid) stale (st_fills s)\<rparr>)"

definition update_balances :: "account_store \<Rightarrow> decimal option \<Rightarrow> decimal option \<Rightarrow> account_store" where
  "update_balances s balance allowance =
     (let s1 = (case balance of None \<Rightarrow> s | Some b \<Rightarrow> s\<lparr>st_balance_usdc := b\<rparr>);
          s2 = (case allowance of None \<Rightarrow> s1
                | Some a \<Rightarrow> s1\<lparr>st_allowance_usdc :=
                    (if a > ALLOWANCE_CAP_USDC then min a ALLOWANCE_CAP_USDC else a)\<rparr>)
      in publish_snapshot s2)"

definition upsert_position :: "account_store \<Rightarrow> position \<Rightarrow> account_store" where
  "upsert_position s p =
     publish_snapshot (s\<lparr>st_positions := dict_set (st_positions s) (position_key p)
       (merge_position_authority_fields (dict_get (st_positions s) (position_key p)) p)\<rparr>)"

definition replace_positions :: "account_store \<Rightarrow> position list \<Rightarrow> account_store" where
  "replace_positions s ps =
     publish_snapshot (s\<lparr>st_positions :=
       fold (\<lambda>p d. dict_set d (position_key p)
         (merge_position_authority_fields (dict_get (st_positions s) (position_key p)) p)) ps []\<rparr>)"

definition upsert_order :: "account_store \<Rightarrow> order \<Rightarrow> account_store" where
  "upsert_order s r =
     publish_snapshot (s\<lparr>st_open_orders := dict_set (st_open_orders s) (order_key r) r\<rparr>)"

definition remove_order :: "account_store \<Rightarrow> string \<Rightarrow> account_store" where
  "remove_order s order_id =
     publish_snapshot (s\<lparr>st_open_orders := dict_pop (st_open_orders s) order_id\<rparr>)"

definition replace_open_orders :: "account_store \<Rightarrow> order list \<Rightarrow> account_store" where
  "replace_open_orders s rs =
     publish_snapshot (s\<lparr>st_open_orders := fold (\<lambda>r d. dict_set d (order_key r) r) rs []\<rparr>)"

definition record_fill :: "account_store \<Rightarrow> fill \<Rightarrow> account_store" where
  "record_fill s f =
     publish_snapshot (s\<lparr>st_fills :=
       trim_front FILLS_CAP (dict_pop (st_fills s) (fl_event_id f) @ [(fl_event_id f, f)])\<rparr>)"

definition replace_fills :: "account_store \<Rightarrow> fill list \<Rightarrow> account_store" where
  "replace_fills s fs =
     publish_snapshot (s\<lparr>st_fills :=
       trim_front FILLS_CAP (fold (\<lambda>f d. dict_set d (fl_event_id f) f) fs [])\<rparr>)"

definition mark_user_ws_connected :: "account_store \<Rightarrow> bool \<Rightarrow> account_store" where
  "mark_user_ws_connected s conn =
     (let s1 = s\<lparr>st_user_ws_connected := conn\<rparr>
      in publish_snapshot (if \<not> conn
           then s1\<lparr>st_last_reconcile_at := None, st_allow_new_entries := False\<rparr>
           else s1\<lparr>st_allow_new_entries := entry_gate_can_open s1\<rparr>))"

definition set_allow_new_entries :: "account_store \<Rightarrow> bool \<Rightarrow> account_store" where
  "set_allow_new_entries s allowed =
     publish_snapshot (s\<lparr>st_allow_new_entries := allowed \<and> entry_gate_can_open s\<rparr>)"

definition pause_market ::
  "account_store \<Rightarrow> string \<Rightarrow> string \<Rightarrow> string option \<Rightarrow> bool option \<Rightarrow> account_store result" where
  "pause_market s cid reason source recoverable =
     bind_result (build_pause cid reason source recoverable) (\<lambda>p.
       Inr (publish_snapshot (s\<lparr>st_market_pauses := dict_set (st_market_pauses s) cid p\<rparr>)))"

definition resume_market :: "account_store \<Rightarrow> string \<Rightarrow> account_store" where
  "resume_market s cid =
     publish_snapshot (s\<lparr>st_market_pauses := dict_pop (st_market_pauses s) cid\<rparr>)"

definition mark_reconciled :: "account_store \<Rightarrow> int \<Rightarrow> int option \<Rightarrow> account_store" where
  "mark_reconciled s now reconciled_at =
     (let s1 = s\<lparr>st_last_reconcile_at := Some (or_default reconciled_at now)\<rparr>
      in publish_snapshot (s1\<lparr>st_allow_new_entries := entry_gate_can_open s1\<rparr>))"

subsection \<open>Runs\<close>

datatype account_op =
    EvictMarket string
  | UpdateBalances "decimal option" "decimal option"
  | UpsertPosition position
  | ReplacePositions "position list"
  | UpsertOrder order
  | RemoveOrder string
  | ReplaceOpenOrders "order list"
  | RecordFill fill
  | ReplaceFills "fill list"
  | MarkUserWs bool
  | SetAllowNewEntries bool
  | PauseMarket string string "string option" "bool option"
  | ResumeMarket string
  | MarkReconciled int "int option"

text \<open>One operation; a raised exception leaves the store as it is.\<close>

fun store_step :: "account_store \<Rightarrow> account_op \<Rightarrow> account_store" where
  "store_step s (EvictMarket cid) = evict_market s cid"
| "store_step s (UpdateBalances b a) = update_balances s b a"
| "store_step s (UpsertPosition p) = upsert_position s p"
| "store_step s (ReplacePositions ps) = replace_positions s ps"
| "store_step s (UpsertOrder r) = upsert_order s r"
| "store_step s (RemoveOrder i) = remove_order s i"
| "store_step s (ReplaceOpenOrders rs) = replace_open_orders s rs"
| "store_step s (RecordFill f) = record_fill s f"
| "store_step s (ReplaceFills fs) = replace_fills s fs"
| "store_step s (MarkUserWs c) = mark_user_ws_connected s c"
| "store_step s (SetAllowNewEntries a) = set_allow_new_entries s a"
| "store_step s (PauseMarket cid r src rec) =
     (case pause_market s cid r src rec of Inr s' \<Rightarrow> s' | Inl e \<Rightarrow> s)"
| "store_step s (ResumeMarket cid) = resume_market s cid"
| "store_step s (MarkReconciled now ts) = mark_reconciled s now ts"

inductive store_reachable :: "account_store \<Rightarrow> bool" where
  store_init: "store_reachable init_store"
| store_next: "store_reachable s \<Longrightarrow> store_reachable (store_step s op)"

inductive_cases store_stepE: "store_reachable s"

subsection \<open>The invariant of the store\<close>

definition store_ok :: "account_store \<Rightarrow> bool" where
  "store_ok s \<longleftrightarrow> keyed position_key (st_positions s) \<and> keyed order_key (st_open_orders s)
     \<and> keyed fl_event_id (st_fills s) \<and> keyed mp_condition_id (st_market_pauses s)
     \<and> length (st_fills s) \<le> FILLS_CAP \<and> st_allowance_usdc s \<le> ALLOWANCE_CAP_USDC
     \<and> (st_allow_new_entries s \<longrightarrow> entry_gate_can_open s)"

text \<open>The published snapshot is current, but for fills evicted since it was published.\<close>

definition snapshot_ok :: "account_store \<Rightarrow> bool" where
  "snapshot_ok s \<longleftrightarrow>
     st_snapshot s = (st_snapshot (publish_snapshot s))\<lparr>ac_fills := ac_fills (st_snapshot s)\<rparr>
     \<and> set (dict_values (st_fills s)) \<subseteq> set (ac_fills (st_snapshot s))"

lemma publish_simps [simp]:
  "st_positions (publish_snapshot s) = st_positions s"
  "st_open_orders (publish_snapshot s) = st_open_orders s"
  "st_fills (publish_snapshot s) = st_fills s"
  "st_balance_usdc (publish_snapshot s) = st_balance_usdc s"
  "st_allowance_usdc (publish_snapshot s) = st_allowance_usdc s"
  "st_user_ws_connected (publish_snapshot s) = st_user_ws_connected s"
  "st_allow_new_entries (publish_snapshot s) = st_allow_new_entries s"
  "st_market_pauses (publish_snapshot s) = st_market_pauses s"
  "st_last_reconcile_at (publish_snapshot s) = st_last_reconcile_at s"
  by (simp_all add: publish_snapshot_def)

lemma publish_ok [simp]: "store_ok (publish_snapshot s) = store_ok s"
  by (simp add: store_ok_def entry_gate_can_open_def)

lemma publish_snapshot_ok [simp]: "snapshot_ok (publish_snapshot s)"
  by (simp add: snapshot_ok_def publish_snapshot_def)

lemma merge_key [simp]: "position_key (merge_position_authority_fields prev p) = position_key p"
  by (simp add: merge_position_authority_fields_def position_key_def split: option.splits)

lemma build_pause_condition: "build_pause cid r src rec = Inr p \<Longrightarrow> mp_condition_id p = cid"
  by (auto simp: build_pause_def)

lemma evict_fills_subset: "set (fold (\<lambda>k d. dict_pop d k) ks d) \<subseteq> set d"
  by (induction ks arbitrary: d) (force simp: dict_pop_def)+

lemma length_fold_pop: "length (fold (\<lambda>k d. dict_pop d k) ks d) \<le> length d"
proof (induction ks arbitrary: d)
  case (Cons k ks)
  then show ?case using order.trans [OF Cons length_dict_pop_le] by simp
qed simp

lemma store_step_ok: "store_ok s \<Longrightarrow> store_ok (store_step s op)"
proof (cases op)
  case (EvictMarket cid)
  assume "store_ok s"
  then show ?thesis
    using EvictMarket order.trans [OF length_fold_pop, of "st_fills s" FILLS_CAP]
    by (auto simp: evict_market_def Let_def store_ok_def entry_gate_can_open_def intro: keyed_fold_pop)
next
  case (UpdateBalances b a)
  assume "store_ok s"
  then show ?thesis using UpdateBalances
    by (simp add: update_balances_def Let_def store_ok_def entry_gate_can_open_def
        split: option.splits)
next
  case (ReplacePositions ps)
  assume "store_ok s"
  then show ?thesis using ReplacePositions
    by (auto simp: replace_positions_def store_ok_def entry_gate_can_open_def intro: keyed_fold_set)
next
  case (ReplaceOpenOrders rs)
  assume "store_ok s"
  then show ?thesis using ReplaceOpenOrders
    by (auto simp: replace_open_orders_def store_ok_def entry_gate_can_open_def intro: keyed_fold_set)
next
  case (ReplaceFills fs)
  assume "store_ok s"
  then show ?thesis using ReplaceFills
    by (auto simp: replace_fills_def store_ok_def entry_gate_can_open_def length_trim_front
        intro!: keyed_fold_set keyed_trim)
next
  case (PauseMarket cid r src rec)
  assume "store_ok s"
  then show ?thesis using PauseMarket
    by (auto simp: pause_market_def store_ok_def entry_gate_can_open_def
        intro!: keyed_set build_pause_condition split: sum.splits)
qed (auto simp: upsert_position_def upsert_order_def remove_order_def record_fill_def
    mark_user_ws_connected_def set_allow_new_entries_def resume_market_def mark_reconciled_def
    Let_def store_ok_def entry_gate_can_open_def length_trim_front
    intro: keyed_trim keyed_move_to_end)

lemma store_step_snapshot: "snapshot_ok s \<Longrightarrow> snapshot_ok (store_step s op)"
proof (cases op)
  case (EvictMarket cid)
  assume "snapshot_ok s"
  then show ?thesis using EvictMarket
      evict_fills_subset [of "map fst (filter (\<lambda>(fid, f). fl_condition_id f = Some cid) (st_fills s))" "st_fills s"]
    by (auto simp: evict_market_def Let_def snapshot_ok_def publish_snapshot_def dict_values_def)
next
  case (PauseMarket cid r src rec)
  assume "snapshot_ok s"
  then show ?thesis using PauseMarket by (auto simp: pause_market_def split: sum.splits)
qed (simp_all add: update_balances_def upsert_position_def replace_positions_def upsert_order_def
    remove_order_def replace_open_orders_def record_fill_def replace_fills_def
    mark_user_ws_connected_def set_allow_new_entries_def resume_market_def mark_reconciled_def Let_def)

lemma store_invariant:
  assumes "store_reachable s" shows "store_ok s" "snapshot_ok s"
proof -
  have "store_ok s \<and> snapshot_ok s" using assms
  proof (induction rule: store_reachable.induct)
    case store_init
    show ?case
      by (simp add: store_ok_def snapshot_ok_def publish_snapshot_def init_store_def new_account_def
          ALLOWANCE_CAP_USDC_def dict_values_def)
  next
    case (store_next s op)
    then show ?case by (simp add: store_step_ok store_step_snapshot)
  qed
  then show "store_ok s" "snapshot_ok s" by simp_all
qed

subsection \<open>Lookups in the published snapshot\<close>

lemma snapshot_fields:
  assumes "snapshot_ok s"
  shows "ac_positions (st_snapshot s) = dict_values (st_positions s)"
    "ac_allow_new_entries (st_snapshot s) = st_allow_new_entries s"
    "ac_user_ws_connected (st_snapshot s) = st_user_ws_connected s"
    "ac_last_reconcile_at (st_snapshot s) = st_last_reconcile_at s"
    "ac_open_orders (st_snapshot s) = dict_values (st_open_orders s)"
    "ac_market_pauses (st_snapshot s) = dict_values (st_market_pauses s)"
proof -
  have e: "st_snapshot s = (st_snapshot (publish_snapshot s))\<lparr>ac_fills := ac_fills (st_snapshot s)\<rparr>"
    using assms by (simp add: snapshot_ok_def)
  show "ac_positions (st_snapshot s) = dict_values (st_positions s)"
    by (subst e) (simp add: publish_snapshot_def)
  show "ac_open_orders (st_snapshot s) = dict_values (st_open_orders s)"
    by (subst e) (simp add: publish_snapshot_def)
  show "ac_market_pauses (st_snapshot s) = dict_values (st_market_pauses s)"
    by (subst e) (simp add: publish_snapshot_def)
  show "ac_allow_new_entries (st_snapshot s) = st_allow_new_entries s"
    by (subst e) (simp add: publish_snapshot_def)
  show "ac_user_ws_connected (st_snapshot s) = st_user_ws_connected s"
    by (subst e) (simp add: publish_snapshot_def)
  show "ac_last_reconcile_at (st_snapshot s) = st_last_reconcile_at s"
    by (subst e) (simp add: publish_snapshot_def)
qed

lemma get_position_store:
  assumes "keyed position_key (st_positions s)" "ac_positions (st_snapshot s) = dict_values (st_positions s)"
  shows "get_position (st_snapshot s) cid tok = dict_get (st_positions s) (cid, tok)"
proof -
  have "(\<lambda>p. po_condition_id p = cid \<and> po_token_id p = tok) = (\<lambda>p. position_key p = (cid, tok))"
    by (auto simp: position_key_def)
  then show ?thesis
    unfolding get_position_def assms(2) using keyed_find [OF assms(1), of "(cid, tok)"] by simp
qed

lemma upsert_position_get:
  assumes "store_reachable s"
  shows "get_position (st_snapshot (upsert_position s p)) cid tok =
    (if (cid, tok) = position_key p
     then Some (merge_position_authority_fields (get_position (st_snapshot s) cid tok) p)
     else get_position (st_snapshot s) cid tok)"
proof -
  note i = store_invariant [OF assms]
  have k: "keyed position_key (st_positions s)" using i(1) by (simp add: store_ok_def)
  have k': "keyed position_key (st_positions (upsert_position s p))"
    using k by (auto simp: upsert_position_def)
  have v: "ac_positions (st_snapshot (upsert_position s p)) = dict_values (st_positions (upsert_position s p))"
    by (simp add: upsert_position_def publish_snapshot_def)
  show ?thesis
    unfolding get_position_store [OF k' v] get_position_store [OF k snapshot_fields(1) [OF i(2)]]
    by (simp add: upsert_position_def pd.get_put)
qed

lemma closed_until_reconciled:
  "\<not> st_allow_new_entries s \<and> st_last_reconcile_at s = None \<Longrightarrow> (\<forall>now ts. op \<noteq> MarkReconciled now ts) \<Longrightarrow>
     \<not> st_allow_new_entries (store_step s op) \<and> st_last_reconcile_at (store_step s op) = None"
  by (cases op)
    (auto simp: evict_market_def update_balances_def upsert_position_def replace_positions_def
      upsert_order_def remove_order_def replace_open_orders_def record_fill_def replace_fills_def
      mark_user_ws_connected_def set_allow_new_entries_def pause_market_def resume_market_def
      mark_reconciled_def Let_def entry_gate_can_open_def split: option.splits sum.splits)

lemma closed_run:
  "\<not> st_allow_new_entries s \<and> st_last_reconcile_at s = None \<Longrightarrow> \<forall>op \<in> set ops. \<forall>now ts. op \<noteq> MarkReconciled now ts \<Longrightarrow>
     \<not> st_allow_new_entries (foldl store_step s ops)"
proof (induction ops arbitrary: s)
  case (Cons op ops)
  then show ?case using closed_until_reconciled [OF Cons.prems(1), of op] by simp
qed simp

lemma reachable_run: "store_reachable s \<Longrightarrow> store_reachable (foldl store_step s ops)"
  by (induction ops arbitrary: s) (simp_all add: store_next)

subsection \<open>Properties\<close>

text \<open>
  C36: The entry gate is safe in every reachable state: the published snapshot allows new
  entries only while the user stream is connected and a reconciliation has succeeded, and
  after a disconnect no sequence of operations opens it again before the next successful
  reconciliation.
\<close>

theorem entry_gate_safe:
  assumes "store_reachable s"
  shows "(ac_allow_new_entries (st_snapshot s) \<longrightarrow>
      ac_user_ws_connected (st_snapshot s) \<and> ac_last_reconcile_at (st_snapshot s) \<noteq> None)
    \<and> (\<forall>ops. (\<forall>op \<in> set ops. \<forall>now ts. op \<noteq> MarkReconciled now ts) \<longrightarrow>
        \<not> st_allow_new_entries (foldl store_step (mark_user_ws_connected s False) ops))"
proof -
  note i = store_invariant [OF assms]
  note f = snapshot_fields [OF i(2)]
  have "\<not> st_allow_new_entries (mark_user_ws_connected s False)
      \<and> st_last_reconcile_at (mark_user_ws_connected s False) = None"
    by (simp add: mark_user_ws_connected_def Let_def)
  then show ?thesis
    using i(1) closed_run unfolding f store_ok_def entry_gate_can_open_def by blast
qed

definition demo_ops :: "account_op list" where
  "demo_ops = [MarkUserWs True, MarkReconciled 7 None, UpdateBalances (Some 100) None]"

theorem entry_gate_safe_witness:
  "ac_allow_new_entries (st_snapshot (foldl store_step init_store demo_ops))
   \<and> ac_last_reconcile_at (st_snapshot (foldl store_step init_store demo_ops)) \<noteq> None
   \<and> \<not> st_allow_new_entries (foldl store_step
        (mark_user_ws_connected (foldl store_step init_store demo_ops) False)
        [MarkUserWs True, SetAllowNewEntries True])"
proof -
  have a: "ac_allow_new_entries (st_snapshot (foldl store_step init_store demo_ops))" by code_simp
  have "\<forall>op \<in> set [MarkUserWs True, SetAllowNewEntries True]. \<forall>now ts. op \<noteq> MarkReconciled now ts"
    by simp
  then show ?thesis
    using a entry_gate_safe [OF reachable_run [OF store_init], of demo_ops] by blast
qed

text \<open>
  Reading what was written. After a position is stored, the snapshot returns for its
  market and token the merge of the previous and the incoming position, and every other
  position unchanged.
\<close>

lemma upsert_position_lookup:
  assumes "store_reachable s"
  shows "get_position (st_snapshot (store_step s (UpsertPosition p))) cid tok =
    (if (cid, tok) = (po_condition_id p, po_token_id p)
     then Some (merge_position_authority_fields (get_position (st_snapshot s) cid tok) p)
     else get_position (st_snapshot s) cid tok)"
  using upsert_position_get [OF assms] by (simp add: position_key_def)

text \<open>
  The store stays bounded and consistent in every reachable state: at most ten thousand
  fills, an allowance of at most 1e18 dollars, one position per market and token, one pause
  per market, one order per order key, and one fill per event.
\<close>

lemma store_bounded:
  assumes "store_reachable s"
  shows "length (st_fills s) \<le> FILLS_CAP \<and> st_allowance_usdc s \<le> ALLOWANCE_CAP_USDC
    \<and> distinct (map position_key (dict_values (st_positions s)))
    \<and> distinct (map mp_condition_id (dict_values (st_market_pauses s)))
    \<and> distinct (map order_key (dict_values (st_open_orders s)))
    \<and> distinct (map fl_event_id (dict_values (st_fills s)))"
  using store_invariant(1) [OF assms] by (simp add: store_ok_def keyed_distinct_values)

text \<open>
  A sparse update never erases an authoritative field: after merging, a valuation field
  is missing only when both views miss it, merging is idempotent, shares, cost and open
  orders are always those of the incoming view, and an incoming opening time replaces the
  previous one.
\<close>

lemma merge_keeps_authority:
  "(po_current_value (merge_position_authority_fields (Some prev) inc) = None \<longleftrightarrow>
      po_current_value inc = None \<and> po_current_value prev = None)
   \<and> (po_redeemable (merge_position_authority_fields (Some prev) inc) = None \<longleftrightarrow>
      po_redeemable inc = None \<and> po_redeemable prev = None)
   \<and> merge_position_authority_fields (Some prev) (merge_position_authority_fields (Some prev) inc)
      = merge_position_authority_fields (Some prev) inc
   \<and> po_shares (merge_position_authority_fields (Some prev) inc) = po_shares inc
   \<and> po_cost_usdc (merge_position_authority_fields (Some prev) inc) = po_cost_usdc inc
   \<and> po_opened_at (merge_position_authority_fields (Some prev) inc)
      = (case po_opened_at inc of Some t \<Rightarrow> Some t | None \<Rightarrow> po_opened_at prev)"
proof -
  have o: "or_else (or_else x y) y = or_else x y" "or_else x y = None \<longleftrightarrow> x = None \<and> y = None"
    for x y :: "'b option" by (simp_all add: or_else_def split: option.split)
  have s: "str_or (str_or x y) y = str_or x y" for x y by (simp add: str_or_def split: option.split)
  have t: "or_else x y = (case x of Some t \<Rightarrow> Some t | None \<Rightarrow> y)" for x y :: "int option"
    by (cases x) simp_all
  have i: "merge_position_authority_fields (Some prev) (merge_position_authority_fields (Some prev) inc)
      = merge_position_authority_fields (Some prev) inc"
    by (simp add: merge_position_authority_fields_def o(1) s)
  show ?thesis unfolding i by (simp add: merge_position_authority_fields_def o(2) t)
qed

text \<open>
  Evicting a market removes exactly its fills from the store and nothing else, but the
  published snapshot keeps showing them until the next operation publishes.
\<close>

lemma evict_market_fills:
  assumes "store_reachable s"
  shows "st_snapshot (evict_market s cid) = st_snapshot s
    \<and> (dict_get (st_fills (evict_market s cid)) fid =
        (case dict_get (st_fills s) fid of
           Some f \<Rightarrow> if fl_condition_id f = Some cid then None else Some f
         | None \<Rightarrow> None))
    \<and> st_positions (evict_market s cid) = st_positions s
    \<and> st_open_orders (evict_market s cid) = st_open_orders s"
proof -
  have ok: "dict_ok (st_fills s)"
    using store_invariant(1) [OF assms] by (auto simp: store_ok_def intro: keyed_ok)
  have pops: "dict_ok d \<Longrightarrow> dict_get (fold (\<lambda>k d. dict_pop d k) ks d) k =
      (if k \<in> set ks then None else dict_get d k)" for ks k and d :: "(string, fill) dict"
    by (induction ks arbitrary: d) (auto simp: pd.get_pop pd.ok_pop)
  have mem: "fid \<in> set (map fst (filter (\<lambda>(fid, f). fl_condition_id f = Some cid) (st_fills s))) \<longleftrightarrow>
      (\<exists>f. dict_get (st_fills s) fid = Some f \<and> fl_condition_id f = Some cid)"
    using pd.entries_get [OF ok, of fid] by force
  show ?thesis
    unfolding evict_market_def Let_def
    by (simp add: pops [OF ok] mem del: set_map) (auto split: option.splits)
qed

definition demo_fill :: fill where
  "demo_fill = \<lparr>fl_trace_id = ''t'', fl_event_type = ''fill'', fl_event_id = ''e1'',
     fl_market_slug = None, fl_condition_id = Some ''c'', fl_token_id = Some ''tok'',
     fl_reason = '''', fl_created_at = 1, fl_order_id = None, fl_trade_id = None,
     fl_side = Some ''BUY'', fl_price = Some (1/2), fl_size = Some 2, fl_notional_usdc = Some 1,
     fl_status = ''confirmed'', fl_confirmed_at = None\<rparr>"

end
