(* ===== verification/User_Adapter.thy ===== *)
theory User_Adapter
  imports Market_Adapter Account_State
begin

text \<open>
  \<open>infra/polymarket/user_ws_adapter.py\<close>: how orders, positions and fills are read from a
  message of the user channel, and how a fill changes a position. \<open>first_value\<close> and
  \<open>datetime_value\<close> are those of the market adapter, whose code is the same. Ids that a
  message lacks are fresh: \<open>ids i (2 * j)\<close> and \<open>ids i (2 * j + 1)\<close> are the trace id and the event
  id made up for leg \<open>j\<close> of item \<open>i\<close>. The clock is an argument.
\<close>

definition user_decimal :: "py_value \<Rightarrow> decimal option \<Rightarrow> decimal option result" where
  "user_decimal v d =
     (if v = PNone then Inr d
      else let text = py_strip (py_str v)
           in if text = [] then Inr d else bind_result (parse_decimal text) (\<lambda>x. Inr (Some x)))"

definition normalized_status :: "py_value \<Rightarrow> string" where
  "normalized_status v = (case text_value v of None \<Rightarrow> [] | Some t \<Rightarrow> py_lower t)"

definition normalize_order_status :: "py_value \<Rightarrow> order_status" where
  "normalize_order_status v =
     (let text = normalized_status v in
      if text \<in> {''created'', ''new''} then OS_CREATED
      else if text \<in> {''signed'', ''signing''} then OS_SIGNED
      else if text \<in> {''submitted'', ''open''} then OS_SUBMITTED
      else if text \<in> {''cancel_requested'', ''cancel-requested''} then OS_CANCEL_REQUESTED
      else if text \<in> {''matched'', ''match''} then OS_MATCHED
      else if text \<in> {''partially_filled'', ''partial_fill'', ''partial-filled''} then OS_PARTIALLY_FILLED
      else if text \<in> {''no_fill'', ''no-fill'', ''unfilled''} then OS_NO_FILL
      else if text \<in> {''live'', ''resting'', ''open_live''} then OS_LIVE
      else if text \<in> {''cancelled'', ''canceled''} then OS_CANCELLED
      else if text \<in> {''rejected'', ''reject''} then OS_REJECTED
      else if text \<in> {''failed'', ''error''} then OS_FAILED
      else OS_CREATED)"

definition normalize_order_type :: "py_value \<Rightarrow> order_type \<Rightarrow> order_type" where
  "normalize_order_type v d =
     (let text = normalized_status v
      in if text = ''fak'' then FAK else if text = ''gtc'' then GTC else d)"

text \<open>\<open>decimal_value(value, default=0) or 0\<close>\<close>

definition user_decimal_or_zero :: "py_value \<Rightarrow> decimal result" where
  "user_decimal_or_zero v = bind_result (user_decimal v (Some 0)) (\<lambda>x. Inr (or_default x 0))"

definition normalize_user_order_status :: "message \<Rightarrow> order_status result" where
  "normalize_user_order_status m =
     (case text_value (first_value m [''status'', ''order_status'', ''orderStatus'']) of
        Some t \<Rightarrow> Inr (normalize_order_status (PStr t))
      | None \<Rightarrow>
          (let event_kind = normalized_status (first_value m [''type'', ''action'']) in
           bind_result (user_decimal_or_zero (first_value m [''filled_shares'', ''size_matched'', ''matched_amount''])) (\<lambda>matched.
           bind_result (user_decimal (first_value m [''size_shares'', ''size'', ''original_size'', ''quantity'']) None) (\<lambda>original.
             Inr (if event_kind \<in> {''cancellation'', ''cancel'', ''cancelled'', ''canceled''} then OS_CANCELLED
                  else if (case original of None \<Rightarrow> False | Some s \<Rightarrow> s > 0 \<and> matched \<ge> s) then OS_MATCHED
                  else if matched > 0 then OS_PARTIALLY_FILLED
                  else if event_kind \<in> {''placement'', ''update''} then OS_LIVE
                  else OS_CREATED)))))"

definition user_message_type :: "message \<Rightarrow> string" where
  "user_message_type m = normalized_status (first_value m
     [''event_type'', ''message_type'', ''channel_event'', ''type'', ''action''])"

definition user_condition_id :: "message \<Rightarrow> string option" where
  "user_condition_id m = text_value (first_value m [''condition_id'', ''conditionId'', ''condition'', ''market''])"

definition user_token_id :: "message \<Rightarrow> string option" where
  "user_token_id m = text_value (first_value m
     [''token_id'', ''tokenId'', ''asset_id'', ''assetId'', ''market_token_id''])"

definition user_market_slug :: "message \<Rightarrow> string option" where
  "user_market_slug m = text_value (first_value m [''market_slug'', ''marketSlug'', ''slug''])"

definition user_trace_id :: "message \<Rightarrow> string \<Rightarrow> string" where
  "user_trace_id m fresh = or_default (text_value (first_value m [''trace_id'', ''traceId''])) fresh"

definition user_event_id :: "message \<Rightarrow> string \<Rightarrow> string" where
  "user_event_id m fresh = or_default (text_value (first_value m [''event_id'', ''eventId'', ''id''])) fresh"

fun coalesce_decimal :: "py_value list \<Rightarrow> decimal \<Rightarrow> decimal result" where
  "coalesce_decimal [] d = Inr d"
| "coalesce_decimal (v # vs) d =
     bind_result (user_decimal v None) (\<lambda>x. case x of Some y \<Rightarrow> Inr y | None \<Rightarrow> coalesce_decimal vs d)"

text \<open>A list of mappings, and only such a list (the empty list counts).\<close>

definition mapping_sequence :: "py_value \<Rightarrow> message list option" where
  "mapping_sequence v = (case v of
       PList xs \<Rightarrow> if list_all is_mapping xs then Some (mappings_of xs) else None
     | _ \<Rightarrow> None)"

definition is_snapshot_message :: "message \<Rightarrow> bool" where
  "is_snapshot_message m \<longleftrightarrow>
     user_message_type m \<in> {''snapshot'', ''sync'', ''initial_snapshot'', ''full_snapshot'', ''state''}"

text \<open>Ids of the items of one message.\<close>

type_synonym id_source = "nat \<Rightarrow> nat \<Rightarrow> string"

subsection \<open>Orders\<close>

definition mapping_of :: "py_value \<Rightarrow> message option" where
  "mapping_of v = (case v of PDict d \<Rightarrow> Some d | _ \<Rightarrow> None)"

definition order_candidates :: "message \<Rightarrow> message list" where
  "order_candidates p =
     or_default (or_else (mapping_sequence (mget p ''orders''))
       (or_else (mapping_sequence (mget p ''open_orders''))
          (map_option (\<lambda>d. [d]) (mapping_of (mget p ''order''))))) [p]"

definition order_side_of :: "message \<Rightarrow> order_side" where
  "order_side_of m =
     (let side_text = normalized_status (mget m ''side'') in
      if side_text = ''buy'' then BUY
      else if side_text = ''sell'' then SELL
      else if mget m ''amount_usdc'' \<noteq> PNone \<or> mget m ''amount'' \<noteq> PNone then BUY
      else SELL)"

definition order_of :: "message \<Rightarrow> string \<Rightarrow> string \<Rightarrow> string \<Rightarrow> order result" where
  "order_of m cid tid fresh =
     bind_result (user_decimal_or_zero (mget m ''price'')) (\<lambda>price.
     bind_result (user_decimal (py_or (mget m ''amount_usdc'') (mget m ''amount'')) None) (\<lambda>amount.
     bind_result (user_decimal (py_or (py_or (mget m ''size_shares'') (mget m ''size''))
       (mget m ''original_size'')) None) (\<lambda>sz.
     bind_result (user_decimal_or_zero (py_or (py_or (mget m ''filled_shares'') (mget m ''size_matched''))
       (mget m ''matched_amount''))) (\<lambda>filled.
     bind_result (user_decimal (mget m ''notional_usdc'') None) (\<lambda>notional.
     bind_result (user_decimal (py_or (mget m ''remaining_shares'') (mget m ''remaining_size'')) None) (\<lambda>remaining.
     bind_result (normalize_user_order_status m) (\<lambda>status.
     bind_result (datetime_value (py_or (mget m ''created_at'') (mget m ''timestamp''))) (\<lambda>created.
     bind_result (datetime_value (py_or (py_or (mget m ''updated_at'') (mget m ''last_update''))
       (mget m ''timestamp''))) (\<lambda>updated.
       Inr \<lparr>or_condition_id = cid, or_token_id = tid, or_side = order_side_of m,
         or_order_type = normalize_order_type (mget m ''order_type'') GTC, or_price = price,
         or_trace_id = user_trace_id m fresh, or_market_slug = user_market_slug m,
         or_amount_usdc = amount, or_size_shares = sz, or_filled_shares = filled,
         or_remaining_shares = or_else remaining (map_option (\<lambda>s. max 0 (dsub s filled)) sz),
         or_notional_usdc = or_else notional (map_option (dmul price) sz),
         or_order_id = text_value (py_or (mget m ''order_id'') (mget m ''id'')),
         or_trade_id = text_value (mget m ''trade_id''), or_status = status,
         or_idempotency_key = text_value (mget m ''idempotency_key''),
         or_reason = or_default (text_value (mget m ''reason'')) [],
         or_post_only = py_truthy (mget m ''post_only''),
         or_created_at = created, or_updated_at = updated\<rparr>)))))))))"

text \<open>Items without a market or a token are skipped; the first failing item fails the message.\<close>

fun read_items :: "(nat \<Rightarrow> message \<Rightarrow> 'a list result) \<Rightarrow> nat \<Rightarrow> message list \<Rightarrow> 'a list result" where
  "read_items f i [] = Inr []"
| "read_items f i (m # ms) =
     bind_result (f i m) (\<lambda>xs. bind_result (read_items f (Suc i) ms) (\<lambda>ys. Inr (xs @ ys)))"

definition order_item :: "id_source \<Rightarrow> nat \<Rightarrow> message \<Rightarrow> order list result" where
  "order_item ids i m = (case (user_condition_id m, user_token_id m) of
       (Some cid, Some tid) \<Rightarrow> bind_result (order_of m cid tid (ids i 0)) (\<lambda>r. Inr [r])
     | _ \<Rightarrow> Inr [])"

definition iter_order_snapshots :: "id_source \<Rightarrow> message \<Rightarrow> order list result" where
  "iter_order_snapshots ids p = read_items (order_item ids) 0 (order_candidates p)"

subsection \<open>Positions\<close>

definition position_candidates :: "message \<Rightarrow> message list" where
  "position_candidates p =
     or_default (or_else (mapping_sequence (mget p ''positions''))
       (or_else (map_option (\<lambda>d. [d]) (mapping_of (mget p ''position'')))
       (or_else (map_option (\<lambda>d. [d]) (mapping_of (mget p ''holdings'')))
          (case mget p ''holdings'' of PList xs \<Rightarrow> Some (mappings_of xs) | _ \<Rightarrow> None)))) [p]"

definition position_of :: "message \<Rightarrow> string \<Rightarrow> string \<Rightarrow> position result" where
  "position_of m cid tid =
     bind_result (coalesce_decimal [mget m ''shares'', mget m ''position_shares''] 0) (\<lambda>shares.
     bind_result (coalesce_decimal [mget m ''cost_usdc'', mget m ''cost'', mget m ''avg_cost_usdc''] 0) (\<lambda>cost.
     bind_result (coalesce_decimal [mget m ''open_buy_shares''] 0) (\<lambda>open_buy.
     bind_result (coalesce_decimal [mget m ''open_sell_shares''] 0) (\<lambda>open_sell.
     bind_result (coalesce_decimal [mget m ''pending_buy_shares''] 0) (\<lambda>pending.
     bind_result (coalesce_decimal [mget m ''confirmed_shares''] 0) (\<lambda>confirmed.
     bind_result (datetime_value (py_or (mget m ''updated_at'') (mget m ''timestamp''))) (\<lambda>updated.
       Inr ((new_position cid tid shares cost)
         \<lparr>po_market_slug := user_market_slug m, po_open_buy_shares := open_buy,
          po_open_sell_shares := open_sell, po_pending_buy_shares := pending,
          po_confirmed_shares := confirmed,
          po_last_order_id := text_value (mget m ''last_order_id''),
          po_last_trade_id := text_value (mget m ''last_trade_id''),
          po_confirmation_status :=
            (let s = normalized_status (mget m ''confirmation_status'') in if s = [] then ''unknown'' else s),
          po_updated_at := updated\<rparr>))))))))"

definition position_item :: "nat \<Rightarrow> message \<Rightarrow> position list result" where
  "position_item i m = (case (user_condition_id m, user_token_id m) of
       (Some cid, Some tid) \<Rightarrow> bind_result (position_of m cid tid) (\<lambda>p. Inr [p])
     | _ \<Rightarrow> Inr [])"

definition iter_position_snapshots :: "message \<Rightarrow> position list result" where
  "iter_position_snapshots p = read_items position_item 0 (position_candidates p)"

subsection \<open>Fills\<close>

definition fill_status :: "message \<Rightarrow> string" where
  "fill_status m =
     (let s = normalized_status (mget m ''status''); s' = normalized_status (mget m ''trade_status'') in
      if s \<noteq> [] then s else if s' \<noteq> [] then s'
      else if py_truthy (mget m ''confirmed'') then ''confirmed'' else ''matched'')"

definition fill_confirmed_at :: "message \<Rightarrow> int option result" where
  "fill_confirmed_at m = datetime_value (py_or (py_or (py_or (mget m ''confirmed_at'') (mget m ''matchtime''))
     (mget m ''last_update'')) (mget m ''timestamp''))"

definition opposite_side :: "string \<Rightarrow> string" where
  "opposite_side s = (if s = ''buy'' then ''sell'' else if s = ''sell'' then ''buy'' else [])"

definition maker_orders :: "message \<Rightarrow> message list option" where
  "maker_orders m = mapping_sequence (first_value m [''maker_orders'', ''makerOrders''])"

definition is_maker_trade_message :: "message \<Rightarrow> bool" where
  "is_maker_trade_message m \<longleftrightarrow>
     normalized_status (first_value m [''trader_side'', ''traderSide'']) = ''maker'' \<and> maker_orders m \<noteq> None"

text \<open>A zero notional is the price times the size.\<close>

definition notional_or_product :: "decimal \<Rightarrow> decimal \<Rightarrow> decimal \<Rightarrow> decimal" where
  "notional_or_product notional price sz = (if notional = 0 then dmul price sz else notional)"

definition fill_event_type :: string where "fill_event_type = ''trade_confirmed''"

definition top_level_fill_snapshot :: "id_source \<Rightarrow> int \<Rightarrow> nat \<Rightarrow> message \<Rightarrow> fill list result" where
  "top_level_fill_snapshot ids now i m = (case (user_condition_id m, user_token_id m) of
       (Some cid, Some tid) \<Rightarrow>
         bind_result (coalesce_decimal [mget m ''size'', mget m ''filled_size'', mget m ''quantity'',
           mget m ''matched_amount''] 0) (\<lambda>sz.
         bind_result (coalesce_decimal [mget m ''price'', mget m ''avg_price''] 0) (\<lambda>price.
         bind_result (coalesce_decimal [mget m ''notional_usdc'', mget m ''amount''] 0) (\<lambda>notional.
         bind_result (datetime_value (py_or (mget m ''created_at'') (mget m ''timestamp''))) (\<lambda>created.
         bind_result (fill_confirmed_at m) (\<lambda>confirmed.
           Inr [\<lparr>fl_trace_id = user_trace_id m (ids i 0), fl_event_type = fill_event_type,
             fl_event_id = user_event_id m (ids i 1), fl_market_slug = user_market_slug m,
             fl_condition_id = Some cid, fl_token_id = Some tid,
             fl_reason = or_default (text_value (mget m ''reason'')) (fill_status m),
             fl_created_at = or_default created now,
             fl_order_id = text_value (py_or (mget m ''order_id'') (mget m ''taker_order_id'')),
             fl_trade_id = text_value (py_or (py_or (mget m ''trade_id'') (mget m ''matched_trade_id''))
               (mget m ''id'')),
             fl_side = Some (normalized_status (mget m ''side'')), fl_price = Some price,
             fl_size = Some sz, fl_notional_usdc = Some (notional_or_product notional price sz),
             fl_status = fill_status m, fl_confirmed_at = confirmed\<rparr>])))))
     | _ \<Rightarrow> Inr [])"

definition maker_side :: "message \<Rightarrow> message \<Rightarrow> string" where
  "maker_side m leg =
     (let s = normalized_status (first_value leg [''side'', ''order_side'', ''orderSide''])
      in if s = [] then opposite_side (normalized_status (mget m ''side'')) else s)"

definition maker_fill :: "id_source \<Rightarrow> int \<Rightarrow> nat \<Rightarrow> message \<Rightarrow> nat \<Rightarrow> message \<Rightarrow> fill list result" where
  "maker_fill ids now i m j leg =
     (case (str_or (user_condition_id leg) (user_condition_id m), str_or (user_token_id leg) (user_token_id m)) of
        (Some cid, Some tid) \<Rightarrow>
         bind_result (coalesce_decimal [mget leg ''matched_amount'', mget leg ''matched_size'',
           mget leg ''filled_size'', mget leg ''size'', mget leg ''quantity''] 0) (\<lambda>sz.
         bind_result (coalesce_decimal [mget leg ''price'', mget m ''price'', mget m ''avg_price''] 0) (\<lambda>price.
         bind_result (coalesce_decimal [mget leg ''notional_usdc'', mget leg ''amount''] 0) (\<lambda>notional.
         bind_result (datetime_value (py_or (py_or (first_value leg [''created_at'', ''timestamp''])
           (mget m ''created_at'')) (mget m ''timestamp''))) (\<lambda>created.
         bind_result (fill_confirmed_at m) (\<lambda>confirmed.
           Inr [\<lparr>fl_trace_id = or_default (text_value (first_value leg [''trace_id'', ''traceId'']))
               (user_trace_id m (ids i (2 * j))),
             fl_event_type = fill_event_type,
             fl_event_id = user_event_id m (ids i (2 * j + 1)),
             fl_market_slug = str_or (user_market_slug leg) (user_market_slug m),
             fl_condition_id = Some cid, fl_token_id = Some tid,
             fl_reason = or_default (text_value (mget leg ''reason'')) (fill_status m),
             fl_created_at = or_default created now,
             fl_order_id = text_value (first_value leg [''order_id'', ''orderId'', ''id'']),
             fl_trade_id = text_value (first_value m [''trade_id'', ''matched_trade_id'', ''id'']),
             fl_side = Some (maker_side m leg), fl_price = Some price, fl_size = Some sz,
             fl_notional_usdc = Some (notional_or_product notional price sz),
             fl_status = fill_status m, fl_confirmed_at = confirmed\<rparr>])))))
      | _ \<Rightarrow> Inr [])"

definition maker_fill_snapshots :: "id_source \<Rightarrow> int \<Rightarrow> nat \<Rightarrow> message \<Rightarrow> fill list result" where
  "maker_fill_snapshots ids now i m = (case maker_orders m of
       None \<Rightarrow> Inr [] | Some legs \<Rightarrow> read_items (maker_fill ids now i m) 0 legs)"

definition fill_candidates :: "message \<Rightarrow> message list" where
  "fill_candidates p =
     or_default (or_else (mapping_sequence (mget p ''fills''))
       (or_else (mapping_sequence (mget p ''trades''))
       (or_else (map_option (\<lambda>d. [d]) (mapping_of (mget p ''fill'')))
          (map_option (\<lambda>d. [d]) (mapping_of (mget p ''trade'')))))) [p]"

definition fill_item :: "id_source \<Rightarrow> int \<Rightarrow> nat \<Rightarrow> message \<Rightarrow> fill list result" where
  "fill_item ids now i m =
     (if is_maker_trade_message m then maker_fill_snapshots ids now i m
      else top_level_fill_snapshot ids now i m)"

definition iter_fill_snapshots :: "id_source \<Rightarrow> int \<Rightarrow> message \<Rightarrow> fill list result" where
  "iter_fill_snapshots ids now p = read_items (fill_item ids now) 0 (fill_candidates p)"

subsection \<open>What a fill means\<close>

definition fill_text :: "string option \<Rightarrow> string" where
  "fill_text s = normalized_status (case s of None \<Rightarrow> PNone | Some t \<Rightarrow> PStr t)"

definition fill_order_status :: "string \<Rightarrow> order_status" where
  "fill_order_status s =
     (if s \<in> {''partial'', ''partially_filled'', ''partial_fill''} then OS_PARTIALLY_FILLED
      else if s \<in> {''confirmed'', ''mined''} then OS_MATCHED
      else if s = ''failed'' then OS_FAILED
      else OS_MATCHED)"

definition order_from_fill :: "fill \<Rightarrow> order" where
  "order_from_fill f =
     (let sd = (if fill_text (fl_side f) = ''buy'' then BUY else SELL) in
      (new_order (or_default (fl_condition_id f) []) (or_default (fl_token_id f) []) sd
         (if sd = BUY then FAK else GTC) (or_default (fl_price f) 0))
      \<lparr>or_trace_id := fl_trace_id f, or_market_slug := fl_market_slug f,
       or_amount_usdc := (if sd = BUY then fl_notional_usdc f else None),
       or_size_shares := (if sd = SELL then fl_size f else None),
       or_notional_usdc := fl_notional_usdc f, or_order_id := fl_order_id f,
       or_trade_id := fl_trade_id f, or_status := fill_order_status (fl_status f),
       or_reason := fl_reason f\<rparr>)"

definition fill_time :: "fill \<Rightarrow> int" where
  "fill_time f = or_default (fl_confirmed_at f) (fl_created_at f)"

definition position_for_fill :: "position option \<Rightarrow> fill \<Rightarrow> position option" where
  "position_for_fill p f = (case p of
       Some q \<Rightarrow> Some q
     | None \<Rightarrow> (case (fl_condition_id f, fl_token_id f) of
         (Some cid, Some tid) \<Rightarrow>
           Some ((new_position cid tid 0 0)\<lparr>po_market_slug := fl_market_slug f,
             po_updated_at := Some (fill_time f)\<rparr>)
       | _ \<Rightarrow> None))"

definition is_confirmed :: "fill \<Rightarrow> bool" where
  "is_confirmed f \<longleftrightarrow> fill_text (Some (fl_status f)) \<in> {''confirmed'', ''mined''}"

definition noted_fill :: "position \<Rightarrow> fill \<Rightarrow> position" where
  "noted_fill p f = p\<lparr>
     po_confirmation_status := (let s = fill_text (Some (fl_status f))
       in if s = [] then po_confirmation_status p else s),
     po_last_order_id := str_or (fl_order_id f) (po_last_order_id p),
     po_last_trade_id := str_or (fl_trade_id f) (po_last_trade_id p),
     po_updated_at := Some (fill_time f)\<rparr>"

definition bought_fill :: "position \<Rightarrow> fill \<Rightarrow> decimal \<Rightarrow> position" where
  "bought_fill p f sz = (noted_fill p f)\<lparr>
     po_shares := dadd (po_shares p) sz,
     po_cost_usdc := dadd (po_cost_usdc p) (or_default (fl_notional_usdc f) 0),
     po_pending_buy_shares := (if is_confirmed f then max 0 (dsub (po_pending_buy_shares p) sz)
       else dadd (po_pending_buy_shares p) sz),
     po_confirmed_shares := (if is_confirmed f then dadd (po_confirmed_shares p) sz else po_confirmed_shares p),
     po_opened_at := or_else (po_opened_at p) (Some (fill_time f))\<rparr>"

definition sold_fill :: "position \<Rightarrow> fill \<Rightarrow> decimal \<Rightarrow> position" where
  "sold_fill p f sz = (noted_fill p f)\<lparr>
     po_shares := max 0 (dsub (po_shares p) sz),
     po_open_sell_shares := max 0 (dsub (po_open_sell_shares p) sz),
     po_confirmed_shares := (if is_confirmed f then max 0 (dsub (po_confirmed_shares p) sz)
       else po_confirmed_shares p)\<rparr>"

definition apply_fill_to_position :: "position option \<Rightarrow> fill \<Rightarrow> position option" where
  "apply_fill_to_position p f = (case fl_size f of
       None \<Rightarrow> p
     | Some sz \<Rightarrow>
         (case position_for_fill p f of
            None \<Rightarrow> None
          | Some q \<Rightarrow>
              if fill_text (fl_side f) = ''buy'' then Some (bought_fill q f sz)
              else if fill_text (fl_side f) = ''sell'' then Some (sold_fill q f sz)
              else Some q))"

subsection \<open>Lemmas\<close>

text \<open>No fill of a non-negative size takes a share count below zero.\<close>

definition position_nonneg :: "position \<Rightarrow> bool" where
  "position_nonneg p \<longleftrightarrow> 0 \<le> po_shares p \<and> 0 \<le> po_cost_usdc p \<and> 0 \<le> po_open_buy_shares p
     \<and> 0 \<le> po_open_sell_shares p \<and> 0 \<le> po_pending_buy_shares p \<and> 0 \<le> po_confirmed_shares p"

definition fill_nonneg :: "fill \<Rightarrow> bool" where
  "fill_nonneg f \<longleftrightarrow> (case fl_size f of None \<Rightarrow> True | Some s \<Rightarrow> 0 \<le> s)
     \<and> (case fl_notional_usdc f of None \<Rightarrow> True | Some n \<Rightarrow> 0 \<le> n)"

lemma noted_fill_frame [simp]:
  "po_shares (noted_fill p f) = po_shares p" "po_cost_usdc (noted_fill p f) = po_cost_usdc p"
  "po_open_buy_shares (noted_fill p f) = po_open_buy_shares p"
  "po_open_sell_shares (noted_fill p f) = po_open_sell_shares p"
  "po_pending_buy_shares (noted_fill p f) = po_pending_buy_shares p"
  "po_confirmed_shares (noted_fill p f) = po_confirmed_shares p"
  "po_condition_id (noted_fill p f) = po_condition_id p" "po_token_id (noted_fill p f) = po_token_id p"
  by (simp_all add: noted_fill_def)

lemma position_for_fill_nonneg:
  "(\<And>q. p = Some q \<Longrightarrow> position_nonneg q) \<Longrightarrow> position_for_fill p f = Some q \<Longrightarrow> position_nonneg q"
  by (auto simp: position_for_fill_def position_nonneg_def new_position_def split: option.splits)

lemma apply_fill_nonneg:
  assumes "\<And>q. p = Some q \<Longrightarrow> position_nonneg q" "fill_nonneg f" "apply_fill_to_position p f = Some q'"
  shows "position_nonneg q'"
proof (cases "fl_size f")
  case None
  then show ?thesis using assms by (simp add: apply_fill_to_position_def)
next
  case (Some sz)
  then obtain q where q: "position_for_fill p f = Some q"
    using assms(3) by (auto simp: apply_fill_to_position_def split: option.splits)
  have "position_nonneg q" using position_for_fill_nonneg [OF assms(1) q] .
  moreover have "0 \<le> sz" "0 \<le> or_default (fl_notional_usdc f) 0"
    using assms(2) Some by (auto simp: fill_nonneg_def split: option.splits)
  ultimately show ?thesis using assms(3) Some q
    by (auto simp: apply_fill_to_position_def bought_fill_def sold_fill_def position_nonneg_def split: if_splits)
qed

lemma apply_fill_key:
  assumes "\<And>q. p = Some q \<Longrightarrow> fl_condition_id f = Some (po_condition_id q) \<and> fl_token_id f = Some (po_token_id q)"
    and "apply_fill_to_position p f = Some q'" "fl_size f \<noteq> None"
  shows "fl_condition_id f = Some (po_condition_id q') \<and> fl_token_id f = Some (po_token_id q')"
  using assms by (auto simp: apply_fill_to_position_def position_for_fill_def bought_fill_def sold_fill_def
      new_position_def split: option.splits if_splits)

end
