(* ===== verification/User_Stream.thy ===== *)
theory User_Stream
  imports User_Adapter Event_Bus
begin

text \<open>
  \<open>pipeline/feedback/user_ws/projection.py\<close> and \<open>worker.py\<close>: how a message of the user
  channel changes the account store, which events it publishes, and the connection state.
  A handler first reads its whole message, so a value that is no number raises before the
  handler changes the store; handlers that ran before it in the same message keep their
  effect. The clock and the made-up ids come from the environment of a call. The events
  carry values where the code carries their text.
\<close>

record user_event =
  ue_type :: string
  ue_trace_id :: string
  ue_condition_id :: "string option"
  ue_token_id :: "string option"
  ue_market_slug :: "string option"
  ue_reason :: string
  ue_created_at :: int
  ue_orders :: "order list"
  ue_positions :: "position list"
  ue_fills :: "fill list"
  ue_snapshot :: account

record user_env =
  uv_now :: int
  uv_ids :: id_source
  uv_trace :: string

type_synonym store_events = "account_store \<times> user_event list"

definition build_event ::
  "user_env \<Rightarrow> string \<Rightarrow> string \<Rightarrow> string option \<Rightarrow> string option \<Rightarrow> string option \<Rightarrow> string \<Rightarrow> account \<Rightarrow> user_event" where
  "build_event env ty trace cid tid slug reason snap =
     \<lparr>ue_type = ty, ue_trace_id = trace, ue_condition_id = cid, ue_token_id = tid,
      ue_market_slug = slug, ue_reason = reason, ue_created_at = uv_now env, ue_orders = [],
      ue_positions = [], ue_fills = [], ue_snapshot = snap\<rparr>"

definition order_identity :: "order \<Rightarrow> string" where
  "order_identity r = or_default (str_or (or_order_id r) (str_or (or_idempotency_key r) None))
     (or_condition_id r @ '':'' @ or_token_id r @ '':'' @ side_value (or_side r) @ '':''
      @ order_type_value (or_order_type r))"

definition closing_status :: "order_status \<Rightarrow> bool" where
  "closing_status st \<longleftrightarrow> st \<in> {OS_CANCELLED, OS_REJECTED, OS_FAILED, OS_NO_FILL}"

text \<open>Store an order, or remove it once it can no longer trade.\<close>

definition project_order :: "account_store \<Rightarrow> order \<Rightarrow> account_store" where
  "project_order s r = (if closing_status (or_status r) then remove_order s (order_identity r)
     else upsert_order s r)"

subsection \<open>The handlers\<close>

definition handle_balance :: "account_store \<Rightarrow> user_env \<Rightarrow> message \<Rightarrow> string \<Rightarrow> store_events result" where
  "handle_balance s env p trace =
     (let before = st_snapshot s in
      bind_result (coalesce_decimal
        [first_value p [''balance_usdc'', ''available_balance_usdc'', ''usdc_balance'', ''balance''],
         first_value p [''available_usdc'', ''available_balance'', ''available'']] (ac_balance_usdc before)) (\<lambda>balance.
      bind_result (coalesce_decimal
        [first_value p [''allowance_usdc'', ''allowance''],
         first_value p [''approved_usdc'', ''approval_usdc'']] (ac_allowance_usdc before)) (\<lambda>allowance.
        let s' = update_balances s (Some balance) (Some allowance)
        in Inr (s', [build_event env ''balance_updated'' trace (user_condition_id p) (user_token_id p)
             (user_market_slug p) ''balance_update'' (st_snapshot s')]))))"

definition handle_position :: "account_store \<Rightarrow> user_env \<Rightarrow> message \<Rightarrow> string \<Rightarrow> store_events result" where
  "handle_position s env p trace =
     bind_result (iter_position_snapshots p) (\<lambda>ps.
       if ps = [] then Inr (s, [])
       else let s' = (if is_snapshot_message p then replace_positions s ps
                      else fold (\<lambda>q s. upsert_position s q) ps s)
         in Inr (s', [(build_event env ''position_updated'' trace (user_condition_id p) (user_token_id p)
              (user_market_slug p) ''position_update'' (st_snapshot s'))\<lparr>ue_positions := ps\<rparr>]))"

fun project_orders :: "account_store \<Rightarrow> user_env \<Rightarrow> string \<Rightarrow> order list \<Rightarrow> store_events" where
  "project_orders s env trace [] = (s, [])"
| "project_orders s env trace (r # rs) =
     (let s1 = project_order s r;
          ev = (build_event env ''order_state_updated'' trace (Some (or_condition_id r)) (Some (or_token_id r))
            (or_market_slug r) (if or_reason r = [] then ''order_update'' else or_reason r)
            (st_snapshot s1))\<lparr>ue_orders := [r]\<rparr>
      in case project_orders s1 env trace rs of (s2, evs) \<Rightarrow> (s2, ev # evs))"

definition handle_order :: "account_store \<Rightarrow> user_env \<Rightarrow> message \<Rightarrow> string \<Rightarrow> store_events result" where
  "handle_order s env p trace =
     bind_result (iter_order_snapshots (uv_ids env) p) (\<lambda>rs. Inr (project_orders s env trace rs))"

text \<open>The position of a fill, read from the snapshot published after the fill was recorded.\<close>

definition filled_position :: "account_store \<Rightarrow> fill \<Rightarrow> position option" where
  "filled_position s f = apply_fill_to_position
     (get_position (st_snapshot s) (or_default (fl_condition_id f) []) (or_default (fl_token_id f) [])) f"

definition fill_event :: "user_env \<Rightarrow> string \<Rightarrow> fill \<Rightarrow> string \<Rightarrow> string \<Rightarrow> account_store \<Rightarrow> user_event" where
  "fill_event env trace f ty reason s =
     (build_event env ty trace (fl_condition_id f) (fl_token_id f) (fl_market_slug f)
        (if fl_reason f = [] then reason else fl_reason f) (st_snapshot s))\<lparr>ue_fills := [f]\<rparr>"

definition project_fill :: "account_store \<Rightarrow> user_env \<Rightarrow> string \<Rightarrow> fill \<Rightarrow> store_events" where
  "project_fill s env trace f =
     (let s1 = record_fill s f;
          pos = filled_position s1 f;
          s2 = (case pos of None \<Rightarrow> s1 | Some p \<Rightarrow> upsert_position s1 p);
          r = order_from_fill f;
          s3 = (if fl_order_id f = None then s2 else project_order s2 r);
          order_evs = (if fl_order_id f = None then []
            else [(fill_event env trace f ''order_state_updated'' ''trade_update'' s3)\<lparr>ue_orders := [r]\<rparr>]);
          placed = (case pos of None \<Rightarrow> [] | Some p \<Rightarrow> [p])
      in (s3, order_evs
           @ [(fill_event env trace f ''fill_recorded'' (fl_status f) s3)\<lparr>ue_positions := placed\<rparr>]
           @ map (\<lambda>p. (fill_event env trace f ''position_updated'' ''position_after_fill'' s3)\<lparr>ue_positions := [p]\<rparr>)
               placed))"

fun project_fills :: "account_store \<Rightarrow> user_env \<Rightarrow> string \<Rightarrow> fill list \<Rightarrow> store_events" where
  "project_fills s env trace [] = (s, [])"
| "project_fills s env trace (f # fs) =
     (case project_fill s env trace f of (s1, evs) \<Rightarrow>
      case project_fills s1 env trace fs of (s2, evs2) \<Rightarrow> (s2, evs @ evs2))"

definition handle_fill :: "account_store \<Rightarrow> user_env \<Rightarrow> message \<Rightarrow> string \<Rightarrow> store_events result" where
  "handle_fill s env p trace =
     bind_result (iter_fill_snapshots (uv_ids env) (uv_now env) p) (\<lambda>fs. Inr (project_fills s env trace fs))"

subsection \<open>The worker\<close>

record user_summary =
  us_trace_id :: string
  us_message_type :: string
  us_event_count :: nat
  us_connected :: bool
  us_allow_new_entries :: bool
  us_condition_id :: "string option"
  us_token_id :: "string option"
  us_market_slug :: "string option"
  us_reason :: string
  us_balance_usdc :: decimal
  us_allowance_usdc :: decimal
  us_open_order_count :: nat
  us_position_count :: nat
  us_fill_count :: nat
  us_last_reconcile_at :: "int option"

record user_worker =
  uw_store :: account_store
  uw_subscribed :: "(string, int) dict"
  uw_last_message_at :: "int option"
  uw_last_connected_at :: "int option"
  uw_last_disconnected_at :: "int option"
  uw_last_error :: "string option"
  uw_last_result :: "user_summary option"
  uw_recent_results :: "user_summary list"
  uw_published :: "user_event list"

definition new_user_worker :: "account_store \<Rightarrow> user_worker" where
  "new_user_worker s = \<lparr>uw_store = s, uw_subscribed = [], uw_last_message_at = None,
     uw_last_connected_at = None, uw_last_disconnected_at = None, uw_last_error = None,
     uw_last_result = None, uw_recent_results = [], uw_published = []\<rparr>"

definition user_evict_market :: "user_worker \<Rightarrow> string \<Rightarrow> user_worker" where
  "user_evict_market w cid = w\<lparr>uw_subscribed := dict_pop (uw_subscribed w) cid\<rparr>"

definition user_subscription_request :: "user_worker \<Rightarrow> int \<Rightarrow> string list \<Rightarrow> user_worker \<times> string list" where
  "user_subscription_request w now cids =
     (let ns = filter (\<lambda>s. s \<noteq> []) (map py_strip cids)
      in (w\<lparr>uw_subscribed := fold (\<lambda>c d. dict_set d c now) ns (uw_subscribed w)\<rparr>, ns))"

definition user_record_error :: "user_worker \<Rightarrow> string \<Rightarrow> user_worker" where
  "user_record_error w reason = w\<lparr>uw_last_error := Some reason\<rparr>"

definition summary_of ::
  "string \<Rightarrow> string \<Rightarrow> account \<Rightarrow> user_event list \<Rightarrow> string \<Rightarrow> bool \<Rightarrow> user_summary" where
  "summary_of trace ty snap evs reason conn =
     \<lparr>us_trace_id = trace, us_message_type = ty, us_event_count = length evs, us_connected = conn,
      us_allow_new_entries = ac_allow_new_entries snap,
      us_condition_id = (case evs of [] \<Rightarrow> None | e # _ \<Rightarrow> ue_condition_id e),
      us_token_id = (case evs of [] \<Rightarrow> None | e # _ \<Rightarrow> ue_token_id e),
      us_market_slug = (case evs of [] \<Rightarrow> None | e # _ \<Rightarrow> ue_market_slug e),
      us_reason = reason, us_balance_usdc = ac_balance_usdc snap,
      us_allowance_usdc = ac_allowance_usdc snap,
      us_open_order_count = length (ac_open_orders snap),
      us_position_count = length (ac_positions snap), us_fill_count = length (ac_fills snap),
      us_last_reconcile_at = ac_last_reconcile_at snap\<rparr>"

definition emit_result ::
  "user_worker \<Rightarrow> string \<Rightarrow> string \<Rightarrow> user_event list \<Rightarrow> string \<Rightarrow> bool option \<Rightarrow> user_worker" where
  "emit_result w trace ty evs reason conn =
     (let snap = st_snapshot (uw_store w);
          summary = summary_of trace ty snap evs reason (or_default conn (ac_user_ws_connected snap))
      in w\<lparr>uw_published := uw_published w @ evs, uw_last_result := Some summary,
           uw_recent_results := keep_last 8 (uw_recent_results w @ [summary])\<rparr>)"

definition record_connection_state :: "user_worker \<Rightarrow> int \<Rightarrow> bool \<Rightarrow> user_worker" where
  "record_connection_state w now c =
     (if c then w\<lparr>uw_last_connected_at := Some now\<rparr> else w\<lparr>uw_last_disconnected_at := Some now\<rparr>)"

definition switch_connection :: "user_worker \<Rightarrow> int \<Rightarrow> bool \<Rightarrow> user_worker" where
  "switch_connection w now c =
     record_connection_state (w\<lparr>uw_store := mark_user_ws_connected (uw_store w) c\<rparr>) now c"

definition has_balance_fields :: "message \<Rightarrow> bool" where
  "has_balance_fields p \<longleftrightarrow> list_ex (mhas p) [''balance_usdc'', ''available_balance_usdc'', ''usdc_balance'',
     ''balance'', ''allowance_usdc'', ''allowance'']"

definition has_position_fields :: "message \<Rightarrow> bool" where
  "has_position_fields p \<longleftrightarrow> list_ex (mhas p) [''position'', ''positions'', ''holdings'']"

definition has_order_fields :: "message \<Rightarrow> bool" where
  "has_order_fields p \<longleftrightarrow> list_ex (mhas p) [''order'', ''orders'', ''open_orders'']"

definition has_fill_fields :: "message \<Rightarrow> bool" where
  "has_fill_fields p \<longleftrightarrow> list_ex (mhas p) [''trade'', ''trades'', ''fill'', ''fills'']"

text \<open>One stage of a message: the handler runs when its condition holds and nothing failed before.\<close>

type_synonym user_step = "account_store \<times> user_event list result"

definition stage ::
  "bool \<Rightarrow> (account_store \<Rightarrow> user_env \<Rightarrow> message \<Rightarrow> string \<Rightarrow> store_events result) \<Rightarrow> user_env \<Rightarrow> message \<Rightarrow> string
     \<Rightarrow> user_step \<Rightarrow> user_step" where
  "stage run handler env p trace acc = (case acc of
       (s, Inl e) \<Rightarrow> (s, Inl e)
     | (s, Inr evs) \<Rightarrow>
         if \<not> run then (s, Inr evs)
         else (case handler s env p trace of
                 Inl e \<Rightarrow> (s, Inl e) | Inr (s', evs2) \<Rightarrow> (s', Inr (evs @ evs2))))"

definition run_stages :: "account_store \<Rightarrow> user_env \<Rightarrow> message \<Rightarrow> string \<Rightarrow> user_step" where
  "run_stages s env p trace =
     (let ty = user_message_type p in
      stage (has_fill_fields p \<or> ty \<in> {''trade'', ''fill'', ''fills''}) handle_fill env p trace
       (stage (has_order_fields p \<or> ty \<in> {''order'', ''orders''}) handle_order env p trace
         (stage (has_position_fields p \<or> ty \<in> {''position'', ''positions''}) handle_position env p trace
           (stage (has_balance_fields p \<or> ty = ''balance'') handle_balance env p trace (s, Inr [])))))"

definition process_message :: "user_worker \<Rightarrow> user_env \<Rightarrow> message \<Rightarrow> user_worker \<times> user_event list result" where
  "process_message w env p =
     (let w0 = w\<lparr>uw_last_message_at := Some (uv_now env), uw_last_error := None\<rparr>;
          ty = user_message_type p; trace = user_trace_id p (uv_trace env)
      in if ty \<in> {''connected'', ''reconnected'', ''connection_open'', ''ws_connected''}
         then (emit_result (switch_connection w0 (uv_now env) True) trace ty [] ''connected'' (Some True), Inr [])
         else if ty \<in> {''disconnected'', ''disconnect'', ''connection_closed'', ''ws_disconnected''}
         then (emit_result (switch_connection w0 (uv_now env) False) trace ty [] ''disconnected'' (Some False), Inr [])
         else case run_stages (uw_store w0) env p trace of
             (s, Inl e) \<Rightarrow> (w0\<lparr>uw_store := s\<rparr>, Inl e)
           | (s, Inr evs) \<Rightarrow>
               (emit_result (w0\<lparr>uw_store := s\<rparr>) trace (if ty = [] then ''snapshot'' else ty) evs
                  ''message_processed'' None, Inr evs))"

definition user_set_connection_state ::
  "user_worker \<Rightarrow> user_env \<Rightarrow> bool \<Rightarrow> string option \<Rightarrow> string option \<Rightarrow> user_worker" where
  "user_set_connection_state w env c trace reason =
     (let w0 = w\<lparr>uw_last_message_at := Some (uv_now env)\<rparr>;
          w1 = (if c then w0\<lparr>uw_last_error := None\<rparr> else w0)
      in emit_result (switch_connection w1 (uv_now env) c) (or_default (str_or trace None) (uv_trace env))
           ''connection_state'' [] (or_default (str_or reason None) ''connection_state'') (Some c))"

subsection \<open>Every handler is a run of store operations\<close>












lemma emit_result_store [simp]: "uw_store (emit_result w trace ty evs reason conn) = uw_store w"
  by (simp add: emit_result_def Let_def)

lemma switch_connection_store [simp]:
  "uw_store (switch_connection w now c) = mark_user_ws_connected (uw_store w) c"
  by (simp add: switch_connection_def record_connection_state_def)


subsection \<open>Positions after fills\<close>

lemma get_position_published:
  "keyed position_key (st_positions s) \<Longrightarrow>
     get_position (st_snapshot (publish_snapshot s)) cid tid = dict_get (st_positions s) (cid, tid)"
  using keyed_find [of position_key "st_positions s" "(cid, tid)"]
  by (simp add: publish_snapshot_def get_position_def position_key_def)

lemma record_fill_positions:
  "keyed position_key (st_positions s) \<Longrightarrow>
     get_position (st_snapshot (record_fill s f)) cid tid = dict_get (st_positions s) (cid, tid)"
  by (simp add: record_fill_def get_position_published)

lemma project_order_positions [simp]: "st_positions (project_order s r) = st_positions s"
  by (simp add: project_order_def remove_order_def upsert_order_def)

lemma project_order_fills [simp]: "st_fills (project_order s r) = st_fills s"
  by (simp add: project_order_def remove_order_def upsert_order_def)

lemma record_fill_frame [simp]: "st_positions (record_fill s f) = st_positions s"
  by (simp add: record_fill_def)

lemma upsert_position_frame [simp]: "st_fills (upsert_position s p) = st_fills s"
  by (simp add: upsert_position_def)

definition placed_position :: "account_store \<Rightarrow> fill \<Rightarrow> position option" where
  "placed_position s f = apply_fill_to_position
     (dict_get (st_positions s) (or_default (fl_condition_id f) [], or_default (fl_token_id f) [])) f"

lemma project_fill_store:
  assumes "keyed position_key (st_positions s)"
  shows "st_positions (fst (project_fill s env trace f)) =
      (case placed_position s f of None \<Rightarrow> st_positions s
       | Some p \<Rightarrow> dict_set (st_positions s) (position_key p)
           (merge_position_authority_fields (dict_get (st_positions s) (position_key p)) p))"
    and "st_fills (fst (project_fill s env trace f)) = st_fills (record_fill s f)"
  using record_fill_positions [OF assms, of f]
  by (auto simp: project_fill_def Let_def filled_position_def placed_position_def upsert_position_def
      split: option.split)

lemma merge_frame [simp]:
  "po_condition_id (merge_position_authority_fields a p) = po_condition_id p"
  "po_token_id (merge_position_authority_fields a p) = po_token_id p"
  "po_shares (merge_position_authority_fields a p) = po_shares p"
  "position_nonneg (merge_position_authority_fields a p) = position_nonneg p"
  by (auto simp: merge_position_authority_fields_def position_nonneg_def split: option.split)

lemma project_fill_keyed:
  "keyed position_key (st_positions s) \<Longrightarrow> keyed position_key (st_positions (fst (project_fill s env trace f)))"
  using project_fill_store(1) [of s env trace f]
  by (auto simp: position_key_def split: option.split)

text \<open>A buy adds its size to the shares of its token, whatever its status.\<close>

definition shares_of :: "account_store \<Rightarrow> string \<Rightarrow> string \<Rightarrow> decimal" where
  "shares_of s cid tid = (case dict_get (st_positions s) (cid, tid) of None \<Rightarrow> 0 | Some p \<Rightarrow> po_shares p)"

lemma buy_fill_shares:
  assumes k: "keyed position_key (st_positions s)"
    and f: "fl_condition_id f = Some cid" "fl_token_id f = Some tid" "fl_size f = Some sz"
      "fill_text (fl_side f) = ''buy''"
  shows "shares_of (fst (project_fill s env trace f)) cid tid = dadd (shares_of s cid tid) sz"
proof -
  obtain q where q: "position_for_fill (dict_get (st_positions s) (cid, tid)) f = Some q"
    using f by (cases "dict_get (st_positions s) (cid, tid)") (auto simp: position_for_fill_def)
  have qk: "position_key q = (cid, tid)" and qs: "po_shares q = shares_of s cid tid"
    using q f k by (auto simp: position_for_fill_def shares_of_def position_key_def new_position_def
        dest: keyed_get split: option.splits)
  have "placed_position s f = Some (bought_fill q f sz)"
    using q f by (simp add: placed_position_def apply_fill_to_position_def)
  moreover have "position_key (bought_fill q f sz) = (cid, tid)"
    using qk by (simp add: position_key_def bought_fill_def)
  ultimately show ?thesis
    using project_fill_store(1) [OF k, of env trace f] qs
    by (simp add: shares_of_def dict_get_set bought_fill_def)
qed

lemma trim_snoc: "0 < cap \<Longrightarrow> trim_front cap (xs @ [x]) = trim_front (cap - 1) xs @ [x]"
  by (cases "length xs < cap") (auto simp: trim_front_drop Suc_diff_le not_less)

text \<open>Recording a fill under a known event id replaces the record.\<close>

lemma record_fill_again:
  assumes "st_fills s' = st_fills (record_fill s f)" "fl_event_id g = fl_event_id f"
  shows "\<exists>old. st_fills (record_fill s f) = old @ [(fl_event_id f, f)]
     \<and> st_fills (record_fill s' g) = old @ [(fl_event_id f, g)]"
proof -
  let ?e = "fl_event_id f"
  let ?old = "trim_front (FILLS_CAP - 1) (dict_pop (st_fills s) ?e)"
  have cap: "0 < FILLS_CAP" by (simp add: FILLS_CAP_def)
  have first: "st_fills (record_fill s f) = ?old @ [(?e, f)]"
    by (simp add: record_fill_def trim_snoc [OF cap])
  have "dict_pop (drop n (dict_pop d ?e)) ?e = drop n (dict_pop d ?e)" for n and d :: "(string, fill) dict"
    by (auto simp: dict_pop_def filter_id_conv dest: in_set_dropD)
  then have "dict_pop ?old ?e = ?old" by (simp add: trim_front_drop)
  moreover have "trim_front (FILLS_CAP - 1) ?old = ?old" by (simp add: trim_front_drop)
  ultimately have "st_fills (record_fill s' g) = ?old @ [(?e, g)]"
    by (simp add: record_fill_def assms first dict_pop_append trim_snoc [OF cap])
       (simp add: dict_pop_def trim_snoc [OF cap, simplified])
  with first show ?thesis by blast
qed

subsection \<open>Claims\<close>

definition user_run :: "user_worker \<Rightarrow> (user_env \<times> message) list \<Rightarrow> user_worker" where
  "user_run w ms = foldl (\<lambda>w (env, m). fst (process_message w env m)) w ms"

definition demo_user_env :: user_env where
  "demo_user_env = \<lparr>uv_now = 9, uv_ids = (\<lambda>i j. ''id''), uv_trace = ''tr''\<rparr>"

definition demo_trade :: "string \<Rightarrow> message" where
  "demo_trade status = [(''event_type'', PStr ''trade''), (''id'', PStr ''tr1''), (''market'', PStr ''c1''),
     (''asset_id'', PStr ''t1''), (''side'', PStr ''BUY''), (''size'', PStr ''10''),
     (''price'', PStr ''0.5''), (''status'', PStr status)]"

definition demo_user_fill :: "string \<Rightarrow> fill" where
  "demo_user_fill status = (case iter_fill_snapshots (\<lambda>i j. ''id'') 9 (demo_trade status) of
     Inr (f # _) \<Rightarrow> f | _ \<Rightarrow> undefined)"

lemma demo_fill_facts:
  "fl_condition_id (demo_user_fill ''MATCHED'') = Some ''c1''" "fl_token_id (demo_user_fill ''MATCHED'') = Some ''t1''"
  "fl_size (demo_user_fill ''MATCHED'') = Some 10" "fill_text (fl_side (demo_user_fill ''MATCHED'')) = ''buy''"
  "fl_condition_id (demo_user_fill ''CONFIRMED'') = Some ''c1''" "fl_token_id (demo_user_fill ''CONFIRMED'') = Some ''t1''"
  "fl_size (demo_user_fill ''CONFIRMED'') = Some 10" "fill_text (fl_side (demo_user_fill ''CONFIRMED'')) = ''buy''"
  "fl_event_id (demo_user_fill ''CONFIRMED'') = fl_event_id (demo_user_fill ''MATCHED'')"
  by code_simp+

text \<open>
  C31: A trade that is reported again under its own id, as it moves from matched to mined to
  confirmed, is counted again: every report adds its size to the shares of the token, while
  the fill log, keyed by the event id, still shows one trade.
\<close>

theorem repeated_trade_counts_again:
  assumes "store_reachable s"
    and "fl_condition_id f = Some cid" "fl_token_id f = Some tid" "fl_size f = Some sz" "fill_text (fl_side f) = ''buy''"
    and "fl_condition_id g = Some cid" "fl_token_id g = Some tid" "fl_size g = Some sz'" "fill_text (fl_side g) = ''buy''"
    and "fl_event_id g = fl_event_id f"
  shows "let s1 = fst (project_fill s env tr f); s2 = fst (project_fill s1 env tr g) in
     shares_of s2 cid tid = dadd (dadd (shares_of s cid tid) sz) sz'
     \<and> length (st_fills s2) = length (st_fills s1) \<and> map fst (st_fills s2) = map fst (st_fills s1)"
proof -
  have k: "keyed position_key (st_positions s)" using store_invariant(1) [OF assms(1)] by (simp add: store_ok_def)
  let ?s1 = "fst (project_fill s env tr f)"
  have k1: "keyed position_key (st_positions ?s1)" by (rule project_fill_keyed [OF k])
  obtain old where "st_fills ?s1 = old @ [(fl_event_id f, f)]"
    "st_fills (fst (project_fill ?s1 env tr g)) = old @ [(fl_event_id f, g)]"
    using record_fill_again [where s' = "?s1" and s = s and f = f and g = g, OF project_fill_store(2) [OF k]] assms(10)
      project_fill_store(2) [OF k, of env tr f] project_fill_store(2) [OF k1, of env tr g] by auto
  then show ?thesis
    using buy_fill_shares [OF k assms(2-5), of env tr] buy_fill_shares [OF k1 assms(6-9), of env tr]
    by (simp add: Let_def)
qed

theorem repeated_trade_counts_again_witness:
  "shares_of (fst (project_fill (fst (project_fill init_store demo_user_env ''tr'' (demo_user_fill ''MATCHED'')))
     demo_user_env ''tr'' (demo_user_fill ''CONFIRMED''))) ''c1'' ''t1'' = 20"
proof -
  have "dadd (dadd (shares_of init_store ''c1'' ''t1'') 10) 10 = 20" by code_simp
  then show ?thesis
    using repeated_trade_counts_again [OF store_init demo_fill_facts, of demo_user_env "''tr''"]
    by (simp add: Let_def)
qed

text \<open>
  A trade reported as failed still counts: its order is taken off the book, but its size is
  added to the shares of the token.
\<close>

lemma failed_trade_counts:
  assumes "store_reachable s" "fl_status f = ''failed''" "fl_order_id f = Some oid" "oid \<noteq> []"
    and "fl_condition_id f = Some cid" "fl_token_id f = Some tid" "fl_size f = Some sz" "fill_text (fl_side f) = ''buy''"
  shows "shares_of (fst (project_fill s env tr f)) cid tid = dadd (shares_of s cid tid) sz
       \<and> dict_get (st_open_orders (fst (project_fill s env tr f))) oid = None"
proof -
  have k: "keyed position_key (st_positions s)" using store_invariant(1) [OF assms(1)] by (simp add: store_ok_def)
  have "or_status (order_from_fill f) = OS_FAILED" "order_identity (order_from_fill f) = oid"
    using assms(2,3,4) by (simp_all add: order_from_fill_def Let_def fill_order_status_def new_order_def
        order_identity_def str_or_def)
  then have "dict_get (st_open_orders (fst (project_fill s env tr f))) oid = None"
    using assms(3) by (simp add: project_fill_def Let_def project_order_def closing_status_def remove_order_def
        dict_get_pop)
  then show ?thesis using buy_fill_shares [OF k assms(5-8)] by simp
qed

definition demo_failed_fill :: fill where
  "demo_failed_fill = (demo_user_fill ''FAILED'')\<lparr>fl_order_id := Some ''o1''\<rparr>"

subsection \<open>Signs\<close>

definition positions_nonneg :: "account_store \<Rightarrow> bool" where
  "positions_nonneg s \<longleftrightarrow> dict_all position_nonneg (st_positions s)"

lemma project_fill_nonneg:
  assumes k: "keyed position_key (st_positions s)" and p: "positions_nonneg s" and f: "fill_nonneg f"
  shows "positions_nonneg (fst (project_fill s env tr f))"
proof -
  have "position_nonneg q" if "placed_position s f = Some q" for q
    using that apply_fill_nonneg [OF _ f] p dict_all_get
    unfolding placed_position_def positions_nonneg_def by metis
  then show ?thesis
    using p project_fill_store(1) [OF k, of env tr f] unfolding positions_nonneg_def
    by (auto split: option.split)
qed

text \<open>
  C28: Fills of non-negative sizes keep every share count and cost of every position
  non-negative, oversold tokens and partial fills included.
\<close>

theorem fills_keep_positions_nonneg:
  assumes "store_reachable s" "positions_nonneg s" "list_all fill_nonneg fs"
    and "dict_get (st_positions (fst (project_fills s env tr fs))) key = Some p"
  shows "0 \<le> po_shares p \<and> 0 \<le> po_cost_usdc p \<and> 0 \<le> po_open_buy_shares p \<and> 0 \<le> po_open_sell_shares p
       \<and> 0 \<le> po_pending_buy_shares p \<and> 0 \<le> po_confirmed_shares p"
proof -
  have k: "keyed position_key (st_positions s)" using store_invariant(1) [OF assms(1)] by (simp add: store_ok_def)
  have "positions_nonneg (fst (project_fills s env tr fs))" using k assms(2,3)
  proof (induction fs arbitrary: s)
    case (Cons f fs)
    obtain s1 evs where 1: "project_fill s env tr f = (s1, evs)" by (cases "project_fill s env tr f")
    have "keyed position_key (st_positions s1)" "positions_nonneg s1"
      using project_fill_keyed [OF Cons.prems(1), of env tr f]
        project_fill_nonneg [OF Cons.prems(1,2), of f env tr] Cons.prems(3) 1 by simp_all
    from Cons.IH [OF this] Cons.prems(3) show ?case
      by (cases "project_fills s1 env tr fs") (simp add: 1)
  qed simp
  then have "position_nonneg p" using assms(4) dict_all_get by (auto simp: positions_nonneg_def)
  then show ?thesis by (simp add: position_nonneg_def)
qed

theorem fills_keep_positions_nonneg_witness:
  "\<exists>p. dict_get (st_positions (fst (project_fills init_store demo_user_env ''tr'' [demo_failed_fill]))) (''c1'', ''t1'') = Some p
     \<and> 0 \<le> po_shares p"
proof -
  have n: "positions_nonneg init_store" by (simp add: positions_nonneg_def init_store_def)
  have f: "list_all fill_nonneg [demo_failed_fill]" by code_simp
  have "dict_get (st_positions (fst (project_fills init_store demo_user_env ''tr'' [demo_failed_fill]))) (''c1'', ''t1'') \<noteq> None"
    by code_simp
  then obtain p where p: "dict_get (st_positions (fst (project_fills init_store demo_user_env ''tr'' [demo_failed_fill])))
      (''c1'', ''t1'') = Some p" by auto
  from fills_keep_positions_nonneg [OF store_init n f p] p show ?thesis by auto
qed

subsection \<open>The entry gate along a run\<close>

text \<open>Entries are closed and no reconciliation has happened since the connection was lost.\<close>

definition entries_closed :: "account_store \<Rightarrow> bool" where
  "entries_closed s \<longleftrightarrow> \<not> st_allow_new_entries s \<and> st_last_reconcile_at s = None
     \<and> \<not> ac_allow_new_entries (st_snapshot s)"

lemma publish_closed:
  "\<not> st_allow_new_entries s \<Longrightarrow> st_last_reconcile_at s = None \<Longrightarrow> entries_closed (publish_snapshot s)"
  by (simp add: entries_closed_def publish_snapshot_def)

lemma closed_store_ops:
  "entries_closed s \<Longrightarrow> entries_closed (update_balances s b a)"
  "entries_closed s \<Longrightarrow> entries_closed (upsert_position s p)"
  "entries_closed s \<Longrightarrow> entries_closed (replace_positions s ps)"
  "entries_closed s \<Longrightarrow> entries_closed (upsert_order s r)"
  "entries_closed s \<Longrightarrow> entries_closed (remove_order s i)"
  "entries_closed s \<Longrightarrow> entries_closed (record_fill s f)"
  "entries_closed s \<Longrightarrow> entries_closed (mark_user_ws_connected s c)"
  "entries_closed (mark_user_ws_connected s' False)"
  by (auto simp: update_balances_def upsert_position_def replace_positions_def upsert_order_def
      remove_order_def record_fill_def mark_user_ws_connected_def Let_def entry_gate_can_open_def
      intro!: publish_closed split: option.split) (auto simp: entries_closed_def)

lemma closed_orders: "entries_closed s \<Longrightarrow> entries_closed (fst (project_orders s env tr rs))"
proof (induction rs arbitrary: s)
  case (Cons r rs)
  have "entries_closed (project_order s r)"
    using Cons.prems by (simp add: project_order_def closed_store_ops)
  from Cons.IH [OF this] show ?case
    by (cases "project_orders (project_order s r) env tr rs") (simp add: Let_def)
qed simp

lemma closed_fills: "entries_closed s \<Longrightarrow> entries_closed (fst (project_fills s env tr fs))"
proof (induction fs arbitrary: s)
  case (Cons f fs)
  obtain s1 evs where 1: "project_fill s env tr f = (s1, evs)" by (cases "project_fill s env tr f")
  have "entries_closed s1"
    using Cons.prems 1 by (auto simp: project_fill_def Let_def project_order_def closed_store_ops split: option.splits)
  from Cons.IH [OF this] show ?case by (cases "project_fills s1 env tr fs") (simp add: 1)
qed simp

lemma closed_positions: "entries_closed s \<Longrightarrow> entries_closed (fold (\<lambda>q s. upsert_position s q) ps s)"
  by (induction ps arbitrary: s) (simp_all add: closed_store_ops)

lemma closed_handlers:
  "entries_closed s \<Longrightarrow> handle_balance s env p tr = Inr (s', evs) \<Longrightarrow> entries_closed s'"
  "entries_closed s \<Longrightarrow> handle_position s env p tr = Inr (s', evs) \<Longrightarrow> entries_closed s'"
  "entries_closed s \<Longrightarrow> handle_order s env p tr = Inr (s', evs) \<Longrightarrow> entries_closed s'"
  "entries_closed s \<Longrightarrow> handle_fill s env p tr = Inr (s', evs) \<Longrightarrow> entries_closed s'"
  using closed_orders [of s env tr] closed_fills [of s env tr]
  by (auto simp: handle_balance_def handle_position_def handle_order_def handle_fill_def Let_def
      closed_store_ops closed_positions split: if_splits) (metis fst_conv)+

lemma closed_stage:
  assumes "\<And>s s' evs. entries_closed s \<Longrightarrow> handler s env p tr = Inr (s', evs) \<Longrightarrow> entries_closed s'"
    and "entries_closed (fst acc)"
  shows "entries_closed (fst (stage run handler env p tr acc))"
  using assms by (cases acc) (auto simp: stage_def split: sum.split)

lemma closed_each_stage:
  "entries_closed (fst acc) \<Longrightarrow> entries_closed (fst (stage run handle_balance env p tr acc))"
  "entries_closed (fst acc) \<Longrightarrow> entries_closed (fst (stage run handle_position env p tr acc))"
  "entries_closed (fst acc) \<Longrightarrow> entries_closed (fst (stage run handle_order env p tr acc))"
  "entries_closed (fst acc) \<Longrightarrow> entries_closed (fst (stage run handle_fill env p tr acc))"
  by (erule closed_stage [rotated], erule closed_handlers, assumption)+

lemma closed_stages: "entries_closed s \<Longrightarrow> entries_closed (fst (run_stages s env p tr))"
  by (simp add: run_stages_def Let_def closed_each_stage)

lemma closed_process: "entries_closed (uw_store w) \<Longrightarrow> entries_closed (uw_store (fst (process_message w env p)))"
  using closed_stages [of "uw_store w" env p "user_trace_id p (uv_trace env)"]
  by (cases "run_stages (uw_store w) env p (user_trace_id p (uv_trace env))")
     (auto simp: process_message_def Let_def closed_store_ops split: sum.split)

lemma entries_closed_run: "entries_closed (uw_store w) \<Longrightarrow> entries_closed (uw_store (user_run w ms))"
  unfolding user_run_def
  by (induction ms arbitrary: w) (auto simp: closed_process split: prod.split)

definition disconnect_types :: "string list" where
  "disconnect_types = [''disconnected'', ''disconnect'', ''connection_closed'', ''ws_disconnected'']"

lemma disconnect_closes:
  "user_message_type p \<in> set disconnect_types \<Longrightarrow> entries_closed (uw_store (fst (process_message w env p)))"
  by (auto simp: process_message_def Let_def disconnect_types_def closed_store_ops)

text \<open>
  C22: After the user channel reports a disconnect no run of further user messages, a reconnect
  among them, opens new entries again: that takes a reconciliation.
\<close>

theorem disconnect_blocks_entries:
  assumes "user_message_type p \<in> set disconnect_types"
  shows "\<not> ac_allow_new_entries (st_snapshot (uw_store (user_run (fst (process_message w env p)) ms)))"
  using entries_closed_run [OF disconnect_closes [OF assms], where ms = ms] by (simp add: entries_closed_def)

theorem disconnect_blocks_entries_witness:
  "\<not> ac_allow_new_entries (st_snapshot (uw_store (user_run
     (fst (process_message (new_user_worker init_store) demo_user_env [(''type'', PStr ''disconnected'')]))
     [(demo_user_env, [(''type'', PStr ''connected'')])])))"
proof -
  have "user_message_type [(''type'', PStr ''disconnected'')] \<in> set disconnect_types" by code_simp
  then show ?thesis by (rule disconnect_blocks_entries)
qed

subsection \<open>Runs and events\<close>




subsection \<open>What is announced\<close>










text \<open>The connection of the account, and a handler that announces what it did and leaves it alone.\<close>

lemma connection_kept [simp]:
  "st_user_ws_connected (update_balances s b a) = st_user_ws_connected s"
  "st_user_ws_connected (upsert_position s p) = st_user_ws_connected s"
  "st_user_ws_connected (replace_positions s ps) = st_user_ws_connected s"
  "st_user_ws_connected (record_fill s f) = st_user_ws_connected s"
  "st_user_ws_connected (project_order s r) = st_user_ws_connected s"
  "st_user_ws_connected (mark_user_ws_connected s c) = c"
  by (simp_all add: update_balances_def upsert_position_def replace_positions_def record_fill_def
      project_order_def upsert_order_def remove_order_def mark_user_ws_connected_def Let_def split: option.split)

















text \<open>
  A trade message announces every fill it carries exactly once and in its order.
\<close>

lemma fills_announced_once:
  assumes "handle_fill s env p tr = Inr (s', evs)" "iter_fill_snapshots (uv_ids env) (uv_now env) p = Inr fs"
  shows "concat (map ue_fills (filter (\<lambda>e. ue_type e = ''fill_recorded'') evs)) = fs"
proof -
  have one: "snd (project_fill s env tr f) = evs1 \<Longrightarrow>
      concat (map ue_fills (filter (\<lambda>e. ue_type e = ''fill_recorded'') evs1)) = [f]" for s f evs1
    by (cases "fl_order_id f")
       (auto simp: project_fill_def Let_def fill_event_def build_event_def split: option.splits)
  have "concat (map ue_fills (filter (\<lambda>e. ue_type e = ''fill_recorded'') (snd (project_fills s env tr fs)))) = fs"
  proof (induction fs arbitrary: s)
    case (Cons f fs)
    obtain s1 evs1 s2 evs2 where p: "project_fill s env tr f = (s1, evs1)" "project_fills s1 env tr fs = (s2, evs2)"
      by (metis surj_pair)
    then show ?case using one [of s f evs1] Cons [of s1] by simp
  qed simp
  then show ?thesis using assms by (auto simp: handle_fill_def)
qed

end
