(* ===== verification/Response_Mapper.thy ===== *)
theory Response_Mapper
  imports Order_Result Market_Adapter
begin

text \<open>
  \<open>infra/polymarket/execution_response_mapper.py\<close> and \<open>order_signing.py\<close>: the order the
  exchange client is asked to sign, and what its JSON answer says about the order. Making and
  taking amounts are integers in millionths. The signing library is a parameter: which order
  types it offers, and its floats. Also the branch of \<open>normalize_execution_response\<close>
  (\<open>order_result_builder.py\<close>) for an answer that is a raw mapping.
\<close>

subsection \<open>Order types and signing\<close>

definition order_type_text :: "order_type option \<Rightarrow> string" where
  "order_type_text t = (case t of None \<Rightarrow> order_type_value GTC | Some t \<Rightarrow> order_type_value t)"

definition is_market_order_type :: "order_type option \<Rightarrow> bool" where
  "is_market_order_type t \<longleftrightarrow> py_upper (order_type_text t) \<in> {''FAK'', ''FOK''}"

definition is_limit_order_type :: "order_type option \<Rightarrow> bool" where
  "is_limit_order_type t \<longleftrightarrow> py_upper (order_type_text t) \<in> {''GTC'', ''GTD''}"

text \<open>The call of the client: a market order of an amount, or a limit order of a size.\<close>

datatype 'f signing_call =
    Create_Market_Order string 'f string 'f string
  | Create_Order string 'f 'f string

definition sign_buy :: "(decimal \<Rightarrow> 'f) \<Rightarrow> execution_request \<Rightarrow> 'f signing_call result" where
  "sign_buy flt r = (case er_amount_usdc r of
       None \<Rightarrow> Inl (ValueError ''BUY order requires amount_usdc'')
     | Some amount \<Rightarrow>
         if is_market_order_type (er_order_type r)
         then Inr (Create_Market_Order (er_token_id r) (flt amount) (side_value BUY)
                (flt (or_default (er_price r) 0)) (py_upper (order_type_text (er_order_type r))))
         else if \<not> is_limit_order_type (er_order_type r)
         then Inl (ValueError ''unsupported BUY order type'')
         else case er_price r of
             None \<Rightarrow> Inl (ValueError ''BUY limit order requires price'')
           | Some p \<Rightarrow>
               if p \<le> 0 then Inl (ValueError ''BUY limit order requires price'')
               else Inr (Create_Order (er_token_id r) (flt p) (flt (ddiv amount p)) (side_value BUY)))"

definition sign_sell :: "(decimal \<Rightarrow> 'f) \<Rightarrow> execution_request \<Rightarrow> 'f signing_call result" where
  "sign_sell flt r = (case (er_price r, er_size_shares r) of
       (Some p, Some sz) \<Rightarrow>
         if is_market_order_type (er_order_type r)
         then Inr (Create_Market_Order (er_token_id r) (flt sz) (side_value SELL) (flt p)
                (py_upper (order_type_text (er_order_type r))))
         else if \<not> is_limit_order_type (er_order_type r)
         then Inl (ValueError ''unsupported SELL order type'')
         else Inr (Create_Order (er_token_id r) (flt p) (flt sz) (side_value SELL))
     | _ \<Rightarrow> Inl (ValueError ''SELL order requires price and size_shares''))"

definition build_signed_order ::
  "(decimal \<Rightarrow> 'f) \<Rightarrow> (string \<Rightarrow> bool) \<Rightarrow> execution_request \<Rightarrow> 'f signing_call result" where
  "build_signed_order flt offers r =
     (if \<not> offers (py_upper (order_type_text (er_order_type r)))
      then Inl (ValueError ''order type not supported by clob client'')
      else case er_side r of
          Some BUY \<Rightarrow> sign_buy flt r
        | Some SELL \<Rightarrow> sign_sell flt r
        | None \<Rightarrow> Inl (ValueError ''unsupported order side for signing''))"

subsection \<open>Fields of an answer\<close>

definition FIXED_6_UNITS :: decimal where "FIXED_6_UNITS = 1000000"

definition fixed_6_decimal :: "py_value \<Rightarrow> decimal option result" where
  "fixed_6_decimal v =
     bind_result (decimal_value v) (\<lambda>x. Inr (map_option (\<lambda>a. ddiv a FIXED_6_UNITS) x))"

text \<open>\<open>response.get(k1) or response.get(k2) or ...\<close>\<close>

fun get_or :: "message \<Rightarrow> string list \<Rightarrow> py_value" where
  "get_or m [] = PNone"
| "get_or m [k] = mget m k"
| "get_or m (k # ks) = py_or (mget m k) (get_or m ks)"

definition answer_reason :: "message \<Rightarrow> string" where
  "answer_reason m = or_default (text_value (get_or m [''reason'', ''errorMsg'', ''error_msg'', ''error''])) []"

definition response_order_id :: "message \<Rightarrow> string option" where
  "response_order_id m = text_value (get_or m [''order_id'', ''orderID'', ''orderId'', ''id''])"

definition response_trade_id :: "message \<Rightarrow> string option" where
  "response_trade_id m =
     or_else (text_value (get_or m [''trade_id'', ''tradeID'', ''tradeId'']))
       (case get_or m [''tradeIDs'', ''trade_ids''] of PList (v # _) \<Rightarrow> text_value v | _ \<Rightarrow> None)"

definition raw_status :: "message \<Rightarrow> string" where
  "raw_status m = py_lower (or_default (text_value (mget m ''status'')) [])"

definition resting_statuses :: "string list" where
  "resting_statuses = [''live'', ''delayed'', ''unmatched'']"

subsection \<open>Amounts\<close>

definition requested_shares :: "execution_request \<Rightarrow> decimal option" where
  "requested_shares r = (case er_side r of
       Some BUY \<Rightarrow>
         (case (er_amount_usdc r, er_price r) of
            (Some a, Some p) \<Rightarrow> if p \<le> 0 then None else Some (ddiv a p) | _ \<Rightarrow> None)
     | Some SELL \<Rightarrow> er_size_shares r
     | None \<Rightarrow> None)"

definition remaining_shares_after_match :: "execution_request \<Rightarrow> decimal option \<Rightarrow> decimal option" where
  "remaining_shares_after_match r matched = (case matched of
       None \<Rightarrow> None
     | Some m \<Rightarrow>
         if is_market_order_type (er_order_type r) then Some 0
         else map_option (\<lambda>q. max (dsub q m) 0) (requested_shares r))"

record answer_amounts =
  aa_matched :: "decimal option"
  aa_remaining :: "decimal option"
  aa_spent :: "decimal option"
  aa_notional :: "decimal option"

text \<open>\<open>shares\<close> and \<open>dollars\<close> are the taking and making amounts of a buy, the making and taking of a sell.\<close>

definition side_amounts ::
  "execution_request \<Rightarrow> string \<Rightarrow> decimal option \<Rightarrow> decimal option \<Rightarrow> answer_amounts" where
  "side_amounts r status shares dollars =
     (if status = ''matched''
      then \<lparr>aa_matched = shares, aa_remaining = remaining_shares_after_match r shares,
            aa_spent = dollars, aa_notional = dollars\<rparr>
      else \<lparr>aa_matched = None, aa_remaining = (if status \<in> set resting_statuses then shares else None),
            aa_spent = None, aa_notional = dollars\<rparr>)"

definition response_amounts :: "message \<Rightarrow> execution_request \<Rightarrow> answer_amounts result" where
  "response_amounts m r =
     bind_result (fixed_6_decimal (get_or m [''makingAmount'', ''making_amount''])) (\<lambda>making.
     bind_result (fixed_6_decimal (get_or m [''takingAmount'', ''taking_amount''])) (\<lambda>taking.
       Inr (case er_side r of
              Some BUY \<Rightarrow> side_amounts r (raw_status m) taking making
            | Some SELL \<Rightarrow> side_amounts r (raw_status m) making taking
            | None \<Rightarrow> \<lparr>aa_matched = None, aa_remaining = None, aa_spent = None, aa_notional = None\<rparr>)))"

subsection \<open>Status\<close>

definition no_fill_phrases :: "string list" where
  "no_fill_phrases =
     [''no orders found to match with fak order'', ''couldn'' @ [CHR 0x27] @ ''t be fully filled'',
      ''could not be fully filled'', ''fok orders are fully filled or killed'',
      ''fok orders are filled or killed'']"

definition is_no_fill_response :: "string \<Rightarrow> execution_request \<Rightarrow> bool" where
  "is_no_fill_response reason r \<longleftrightarrow>
     is_market_order_type (er_order_type r) \<and> list_ex (\<lambda>p. py_in p reason) no_fill_phrases"

definition reaches_request :: "execution_request \<Rightarrow> decimal option \<Rightarrow> bool" where
  "reaches_request r matched = (case (matched, requested_shares r) of
       (Some m, Some q) \<Rightarrow> if q \<le> 0 then True else m \<ge> dsub q (1/1000000)
     | _ \<Rightarrow> True)"

definition execution_status :: "message \<Rightarrow> execution_request \<Rightarrow> decimal option \<Rightarrow> response_status option" where
  "execution_status m r matched =
     (let reason = py_lower (answer_reason m) in
      if is_no_fill_response reason r then Some (Result_Status NO_FILL)
      else if mget m ''success'' = PBool False \<or> raw_status m = ''rejected'' \<or> reason \<noteq> []
      then Some (Result_Status REJECTED)
      else if raw_status m = ''matched''
      then Some (Result_Status (if reaches_request r matched then FULL_FILL else PARTIAL_FILL))
      else if raw_status m \<in> set resting_statuses then Some (Result_Status LIVE)
      else map_option Text_Status (text_value (mget m ''status'')))"

subsection \<open>The response\<close>

definition map_submit_response :: "message \<Rightarrow> execution_request \<Rightarrow> execution_response result" where
  "map_submit_response m r =
     bind_result (response_amounts m r) (\<lambda>am.
     bind_result (decimal_value (get_or m [''matched_shares'', ''filled_shares''])) (\<lambda>matched.
     bind_result (decimal_value (mget m ''remaining_shares'')) (\<lambda>remaining.
     bind_result (decimal_value (get_or m [''spent_usdc'', ''amount_usdc''])) (\<lambda>spent.
     bind_result (decimal_value (mget m ''notional_usdc'')) (\<lambda>notional.
       Inr \<lparr>rp_status = execution_status m r (aa_matched am), rp_order_id = response_order_id m,
            rp_trade_id = response_trade_id m, rp_matched_shares = dec_or matched (aa_matched am),
            rp_remaining_shares = dec_or remaining (aa_remaining am),
            rp_spent_usdc = dec_or spent (aa_spent am), rp_notional_usdc = dec_or notional (aa_notional am),
            rp_reason = (if answer_reason m = [] then ''submitted'' else answer_reason m),
            rp_retryable = False\<rparr>)))))"

text \<open>An answer that is a raw mapping; its status is text, whatever it was.\<close>

definition normalize_mapping :: "message \<Rightarrow> execution_response result" where
  "normalize_mapping m =
     bind_result (decimal_value (get_or m [''matched_shares'', ''filled_shares''])) (\<lambda>matched.
     bind_result (decimal_value (mget m ''remaining_shares'')) (\<lambda>remaining.
     bind_result (decimal_value (get_or m [''spent_usdc'', ''amount_usdc''])) (\<lambda>spent.
     bind_result (decimal_value (mget m ''notional_usdc'')) (\<lambda>notional.
       Inr \<lparr>rp_status = map_option (\<lambda>s. Text_Status s)
              (if mget m ''status'' = PNone then None else Some (py_str (mget m ''status''))),
            rp_order_id = text_value (mget m ''order_id''), rp_trade_id = text_value (mget m ''trade_id''),
            rp_matched_shares = matched, rp_remaining_shares = remaining, rp_spent_usdc = spent,
            rp_notional_usdc = notional, rp_reason = or_default (text_value (mget m ''reason'')) [],
            rp_retryable = py_truthy (mget m ''retryable'')\<rparr>))))"

subsection \<open>What a matched answer becomes\<close>

text \<open>An answer of the exchange without an error and without amounts under the library's own names.\<close>

definition own_amount_keys :: "string list" where
  "own_amount_keys = [''matched_shares'', ''filled_shares'', ''remaining_shares'', ''spent_usdc'',
     ''amount_usdc'', ''notional_usdc'']"

definition clean_answer :: "message \<Rightarrow> bool" where
  "clean_answer m \<longleftrightarrow> answer_reason m = [] \<and> mget m ''success'' \<noteq> PBool False
     \<and> list_all (\<lambda>k. mget m k = PNone) own_amount_keys"

lemma py_or_None [simp]: "py_or PNone v = v"
  by (simp add: py_or_def)

lemma clean_answer_amounts:
  "clean_answer m \<Longrightarrow> get_or m [''matched_shares'', ''filled_shares''] = PNone
     \<and> get_or m [''spent_usdc'', ''amount_usdc''] = PNone
     \<and> mget m ''remaining_shares'' = PNone \<and> mget m ''notional_usdc'' = PNone"
  by (simp add: clean_answer_def own_amount_keys_def)

lemma decimal_value_None [simp]: "decimal_value PNone = Inr None"
  by (simp add: decimal_value_def)

lemma dec_or_None [simp]: "dec_or None x = x"
  by (simp add: dec_or_def dec_truthy_def)

lemma py_in_Nil: "part \<noteq> [] \<Longrightarrow> \<not> py_in part []"
  by simp

lemma no_fill_needs_reason: "\<not> is_no_fill_response [] r"
  by (simp add: is_no_fill_response_def no_fill_phrases_def)

lemma clean_status:
  assumes "clean_answer m"
  shows "execution_status m r matched =
    (if raw_status m = ''rejected'' then Some (Result_Status REJECTED)
     else if raw_status m = ''matched''
     then Some (Result_Status (if reaches_request r matched then FULL_FILL else PARTIAL_FILL))
     else if raw_status m \<in> set resting_statuses then Some (Result_Status LIVE)
     else map_option Text_Status (text_value (mget m ''status'')))"
  using assms by (simp add: execution_status_def Let_def clean_answer_def py_lower_def no_fill_needs_reason)

lemma clean_mapped:
  assumes c: "clean_answer m" and a: "response_amounts m r = Inr am"
  shows "map_submit_response m r = Inr \<lparr>rp_status = execution_status m r (aa_matched am),
     rp_order_id = response_order_id m, rp_trade_id = response_trade_id m,
     rp_matched_shares = aa_matched am, rp_remaining_shares = aa_remaining am,
     rp_spent_usdc = aa_spent am, rp_notional_usdc = aa_notional am,
     rp_reason = ''submitted'', rp_retryable = False\<rparr>"
  using clean_answer_amounts [OF c] c by (simp add: map_submit_response_def a clean_answer_def)

text \<open>Numbers that a filled response reports are kept.\<close>

lemma reported_numbers_kept:
  assumes "rp_matched_shares resp = Some s" "rp_spent_usdc resp = Some d" "rp_notional_usdc resp = Some d"
    and "s \<noteq> 0" "d \<noteq> 0" and "is_fill_status st"
  shows "fn_matched (result_numbers (Tradable i) st p resp) = s
    \<and> fn_spent (result_numbers (Tradable i) st p resp) = d
    \<and> fn_notional (result_numbers (Tradable i) st p resp) = d"
  using assms by (cases i)
    (auto simp: result_numbers_def Let_def cancelled_numbers_def buy_numbers_def sell_numbers_def is_fill_status_def)

text \<open>
  C15: A matched answer is booked as what it says. Whatever the order and its intent, a matched answer
  with positive making and taking amounts yields a result whose dollars and shares are those
  amounts in millionths (dollars made and shares taken for a buy, shares made and dollars
  taken for a sell); its status is a full fill exactly when the shares reach the requested
  ones up to one millionth, and a partial fill otherwise.
\<close>

theorem matched_answer_booked:
  assumes c: "clean_answer m" and st: "raw_status m = ''matched''"
    and making: "fixed_6_decimal (get_or m [''makingAmount'', ''making_amount'']) = Inr (Some making)"
    and taking: "fixed_6_decimal (get_or m [''takingAmount'', ''taking_amount'']) = Inr (Some taking)"
    and pos: "0 < making" "0 < taking"
    and side: "er_side r = Some side"
  shows "\<exists>resp. map_submit_response m r = Inr resp \<and>
    (let res = build_order_result r (Tradable i) resp queued ack;
         shares = (if side = BUY then taking else making)
     in rs_matched_shares res = shares
      \<and> rs_spent_usdc res = (if side = BUY then making else taking)
      \<and> rs_notional_usdc res = rs_spent_usdc res
      \<and> rs_status res = (if (\<forall>q. requested_shares r = Some q \<longrightarrow> 0 < q \<longrightarrow> dsub q (1/1000000) \<le> shares)
                          then FULL_FILL else PARTIAL_FILL))"
proof -
  let ?shares = "if side = BUY then taking else making"
  let ?dollars = "if side = BUY then making else taking"
  have am: "response_amounts m r = Inr (side_amounts r ''matched'' (Some ?shares) (Some ?dollars))"
    using making taking side st by (cases side) (simp_all add: response_amounts_def)
  have full: "reaches_request r (Some ?shares) \<longleftrightarrow>
      (\<forall>q. requested_shares r = Some q \<longrightarrow> 0 < q \<longrightarrow> dsub q (1/1000000) \<le> ?shares)"
    by (auto simp: reaches_request_def split: option.splits)
  let ?st = "if reaches_request r (Some ?shares) then FULL_FILL else PARTIAL_FILL"
  have status: "execution_status m r (Some ?shares) = Some (Result_Status ?st)"
    using clean_status [OF c] st by simp
  obtain resp where resp: "map_submit_response m r = Inr resp" "rp_status resp = Some (Result_Status ?st)"
    "rp_matched_shares resp = Some ?shares" "rp_spent_usdc resp = Some ?dollars"
    "rp_notional_usdc resp = Some ?dollars"
    using clean_mapped [OF c am] status by (simp add: side_amounts_def)
  have nz: "?shares \<noteq> 0" "?dollars \<noteq> 0" using pos by auto
  have res: "rs_status (build_order_result r (Tradable i) resp queued ack) = ?st"
    by (simp add: build_order_result_def Let_def coerce_status_def resp)
  have num: "fn_matched (result_numbers (Tradable i) ?st (request_price r) resp) = ?shares
    \<and> fn_spent (result_numbers (Tradable i) ?st (request_price r) resp) = ?dollars
    \<and> fn_notional (result_numbers (Tradable i) ?st (request_price r) resp) = ?dollars"
    by (rule reported_numbers_kept [OF resp(3-5) nz]) (simp add: is_fill_status_def)
  have "coerce_status (rp_status resp) (er_action r) (Some (Tradable i)) = ?st"
    by (simp add: coerce_status_def resp)
  then have "rs_matched_shares (build_order_result r (Tradable i) resp queued ack) = ?shares
    \<and> rs_spent_usdc (build_order_result r (Tradable i) resp queued ack) = ?dollars
    \<and> rs_notional_usdc (build_order_result r (Tradable i) resp queued ack) = ?dollars"
    using num by (simp add: build_order_result_def Let_def)
  then show ?thesis
    using resp(1) res full by (intro exI [of _ resp]) (simp add: Let_def)
qed

definition demo_answer :: message where
  "demo_answer = [(''success'', PBool True), (''orderID'', PStr ''o1''), (''status'', PStr ''MATCHED''),
     (''makingAmount'', PStr ''4500000''), (''takingAmount'', PStr ''9000000'')]"

definition demo_limit_buy :: execution_request where
  "demo_limit_buy = (new_request ''submit'' ''tr'' ''k'' ''c'' ''tok'')\<lparr>er_side := Some BUY,
     er_order_type := Some GTC, er_price := Some (1/2), er_amount_usdc := Some 5\<rparr>"

theorem matched_answer_booked_witness:
  "\<exists>resp. map_submit_response demo_answer demo_limit_buy = Inr resp
     \<and> rs_matched_shares (build_order_result demo_limit_buy
          (Tradable (BuyIntent (buy_order ''tr'' ''c'' ''tok'' (1/2) 5))) resp None None) = 9
     \<and> rs_status (build_order_result demo_limit_buy
          (Tradable (BuyIntent (buy_order ''tr'' ''c'' ''tok'' (1/2) 5))) resp None None) = PARTIAL_FILL"
proof -
  have f: "clean_answer demo_answer" "raw_status demo_answer = ''matched''"
    "fixed_6_decimal (get_or demo_answer [''makingAmount'', ''making_amount'']) = Inr (Some (9/2))"
    "fixed_6_decimal (get_or demo_answer [''takingAmount'', ''taking_amount'']) = Inr (Some 9)"
    by code_simp+
  have g: "er_side demo_limit_buy = Some BUY" "requested_shares demo_limit_buy = Some 10"
    "\<not> dsub 10 (1/1000000) \<le> 9"
    by code_simp+
  from matched_answer_booked [OF f _ _ g(1), of "BuyIntent (buy_order ''tr'' ''c'' ''tok'' (1/2) 5)" None None] g(2,3)
  show ?thesis by (auto simp: Let_def)
qed

end
