(* ===== verification/Exchange_Client.thy ===== *)
theory Exchange_Client
  imports Response_Mapper Executor_Clients Py_Value
begin

text \<open>
  \<open>infra/polymarket/auth.py\<close>: the production order client. It signs a request when the executor
  asks for it and keeps the signed order under the signature of the request, posts it when the
  request is submitted, cancels and replaces orders, and derives API credentials on first use.
  The SDK is a parameter (record \<open>sdk\<close>) over a state of the exchange: what it signs, how the
  exchange answers a post or a cancellation, which credentials it derives; it may raise, with
  an \<open>error_msg\<close> or without. Each method runs under the executor's thread as one step.
  \<open>xc_posted\<close> logs which signed order was posted for which request. Loading the SDK, the L2
  headers and the settings are left out.
\<close>

subsection \<open>The SDK and the state of the client\<close>

record api_creds =
  cr_key :: string
  cr_secret :: string
  cr_passphrase :: string

text \<open>A call of the SDK answers a value, or raises with the text of the exception and its \<open>error_msg\<close>.\<close>

datatype sdk_answer = Sdk_Answer py_value | Sdk_Raised string py_value

record ('f, 's, 'x) sdk =
  sdk_float :: "decimal \<Rightarrow> 'f"
  sdk_offers :: "string \<Rightarrow> bool"
  sdk_create :: "'f signing_call \<Rightarrow> 's result"
  sdk_post :: "'x \<Rightarrow> 's \<Rightarrow> string \<Rightarrow> bool \<Rightarrow> 'x \<times> sdk_answer"
  sdk_cancel :: "'x \<Rightarrow> string \<Rightarrow> 'x \<times> sdk_answer"
  sdk_derive :: "'x \<Rightarrow> 'x \<times> api_creds result"

record ('s, 'x) exchange_client =
  xc_signed :: "(string, 's) dict"
  xc_creds :: "api_creds option"
  xc_remote :: 'x
  xc_posted :: "(execution_request \<times> 's) list"

definition new_exchange_client :: "api_creds option \<Rightarrow> 'x \<Rightarrow> ('s, 'x) exchange_client" where
  "new_exchange_client creds x = \<lparr>xc_signed = [], xc_creds = creds, xc_remote = x, xc_posted = []\<rparr>"

text \<open>\<open>_ensure_client(require_l2=True)\<close>\<close>

definition ensure_l2 :: "('f, 's, 'x) sdk \<Rightarrow> ('s, 'x) exchange_client \<Rightarrow> ('s, 'x) exchange_client \<times> unit result" where
  "ensure_l2 sdk c = (case xc_creds c of
       Some _ \<Rightarrow> (c, Inr ())
     | None \<Rightarrow>
         (case sdk_derive sdk (xc_remote c) of
            (x, Inl e) \<Rightarrow> (c\<lparr>xc_remote := x\<rparr>, Inl e)
          | (x, Inr creds) \<Rightarrow> (c\<lparr>xc_remote := x, xc_creds := Some creds\<rparr>, Inr ())))"

subsection \<open>Answers of the exchange\<close>

text \<open>Set \<open>order_id\<close> to the text of a value that is not \<open>None\<close>.\<close>

definition note_text :: "string \<Rightarrow> py_value \<Rightarrow> message \<Rightarrow> message" where
  "note_text k v m = (if v = PNone then m else dict_set m k (PStr (py_str v)))"

definition normalize_api_exception :: "string \<Rightarrow> py_value \<Rightarrow> message result" where
  "normalize_api_exception exc error_msg =
     (if error_msg = PNone then Inl (LibraryError exc)
      else let base = [(''success'', PBool False), (''status'', PStr ''rejected'')];
               m = (case error_msg of
                   PDict d \<Rightarrow>
                     (let n = fold (\<lambda>(k, v) n. dict_set n k v) d base
                      in if \<not> mhas n ''error'' \<and> mhas n ''reason''
                         then dict_set n ''error'' (mget n ''reason'') else n)
                 | v \<Rightarrow> dict_set base ''error'' (PStr (py_str v)))
           in Inr (note_text ''order_id'' (get_or m [''orderID'', ''order_id'', ''id'']) m))"

definition trade_id_value :: "message \<Rightarrow> py_value" where
  "trade_id_value m =
     (let v = get_or m [''trade_id'', ''tradeID'', ''tradeId'']
      in if v \<noteq> PNone then v
         else case get_or m [''tradeIDs'', ''trade_ids''] of PList (t # _) \<Rightarrow> t | _ \<Rightarrow> PNone)"

definition normalize_status :: "message \<Rightarrow> message" where
  "normalize_status m =
     (let reason = answer_reason m in
      if mget m ''success'' = PBool False \<or> reason \<noteq> []
      then (let n = dict_set m ''status'' (PStr ''rejected'')
            in if reason = [] then n else dict_set n ''reason'' (PStr reason))
      else if \<not> mhas m ''status''
        \<and> (mget m ''canceled'' = PBool True \<or> mget m ''cancelled'' = PBool True)
      then dict_set m ''status'' (PStr ''cancelled'')
      else m)"

definition normalize_answer :: "py_value \<Rightarrow> message" where
  "normalize_answer v =
     (let m = (case v of PDict d \<Rightarrow> d | _ \<Rightarrow> [(''raw_response'', v)]);
          m1 = note_text ''order_id'' (get_or m [''order_id'', ''orderID'', ''orderId'', ''id'']) m;
          m2 = note_text ''trade_id'' (trade_id_value m1) m1
      in normalize_status m2)"

subsection \<open>The trading client\<close>

definition create_signed_order :: "('f, 's, 'x) sdk \<Rightarrow> execution_request \<Rightarrow> 's result" where
  "create_signed_order sdk r =
     bind_result (build_signed_order (sdk_float sdk) (sdk_offers sdk) r) (sdk_create sdk)"

definition posted_type :: "execution_request \<Rightarrow> string" where
  "posted_type r = (case er_order_type r of None \<Rightarrow> ''GTC'' | Some t \<Rightarrow> order_type_value t)"

definition post_signed_order ::
  "('f, 's, 'x) sdk \<Rightarrow> ('s, 'x) exchange_client \<Rightarrow> execution_request \<Rightarrow> 's
     \<Rightarrow> ('s, 'x) exchange_client \<times> message result" where
  "post_signed_order sdk c r s =
     (case ensure_l2 sdk c of
        (c1, Inl e) \<Rightarrow> (c1, Inl e)
      | (c1, Inr _) \<Rightarrow>
          (let ty = py_upper (posted_type r)
           in if \<not> sdk_offers sdk ty then (c1, Inl (LibraryError ''order type''))
              else case sdk_post sdk (xc_remote c1) s ty (er_post_only r) of
                  (x, answer) \<Rightarrow>
                    (c1\<lparr>xc_remote := x, xc_posted := xc_posted c1 @ [(r, s)]\<rparr>,
                     (case answer of
                        Sdk_Answer v \<Rightarrow> Inr (normalize_answer v)
                      | Sdk_Raised e v \<Rightarrow>
                          bind_result (normalize_api_exception e v) (\<lambda>m. Inr (normalize_answer (PDict m)))))))"

definition default_field :: "string \<Rightarrow> string \<Rightarrow> message \<Rightarrow> message" where
  "default_field k v m = (if mhas m k then m else dict_set m k (PStr v))"

definition trading_cancel ::
  "('f, 's, 'x) sdk \<Rightarrow> ('s, 'x) exchange_client \<Rightarrow> string \<Rightarrow> ('s, 'x) exchange_client \<times> message result" where
  "trading_cancel sdk c oid =
     (case ensure_l2 sdk c of
        (c1, Inl e) \<Rightarrow> (c1, Inl e)
      | (c1, Inr _) \<Rightarrow>
          (case sdk_cancel sdk (xc_remote c1) oid of
             (x, Sdk_Raised e v) \<Rightarrow> (c1\<lparr>xc_remote := x\<rparr>, Inl (LibraryError e))
           | (x, Sdk_Answer v) \<Rightarrow>
               (c1\<lparr>xc_remote := x\<rparr>,
                Inr (default_field ''status'' ''cancelled''
                       (default_field ''order_id'' oid (normalize_answer v))))))"

subsection \<open>The execution client\<close>

definition text_response :: "string \<Rightarrow> string \<Rightarrow> execution_response" where
  "text_response status reason =
     (plain_response LIVE reason)\<lparr>rp_status := Some (Text_Status status)\<rparr>"

definition replacement_request :: "execution_request \<Rightarrow> execution_request" where
  "replacement_request r =
     (new_request ''submit'' (er_trace_id r) (er_idempotency_key r) (er_condition_id r) (er_token_id r))
       \<lparr>er_market_slug := er_market_slug r, er_side := Some SELL, er_order_type := Some GTC,
        er_price := er_new_price r, er_size_shares := er_size_shares r,
        er_post_only := er_post_only r, er_reason := er_reason r\<rparr>"

text \<open>The order a request asks for.\<close>

definition order_request :: "execution_request \<Rightarrow> execution_request" where
  "order_request r = (if er_action r = ''replace'' then replacement_request r else r)"

definition exchange_sign ::
  "('f, 's, 'x) sdk \<Rightarrow> (decimal \<Rightarrow> string) \<Rightarrow> ('s, 'x) exchange_client \<Rightarrow> execution_request
     \<Rightarrow> ('s, 'x) exchange_client \<times> execution_response result" where
  "exchange_sign sdk dstr c r =
     (if er_action r = ''submit'' \<or> er_action r = ''replace''
      then (case create_signed_order sdk (order_request r) of
              Inl e \<Rightarrow> (c, Inl e)
            | Inr s \<Rightarrow> (c\<lparr>xc_signed := dict_set (xc_signed c) (request_signature dstr r) s\<rparr>,
                        Inr (text_response ''signed'' ''signed'')))
      else (case ensure_l2 sdk c of
              (c1, Inl e) \<Rightarrow> (c1, Inl e)
            | (c1, Inr _) \<Rightarrow> (c1, Inr (text_response ''signed'' ''signed''))))"

text \<open>The signed order of a request, taken out of the store, or a fresh one.\<close>

definition take_signed ::
  "('f, 's, 'x) sdk \<Rightarrow> (decimal \<Rightarrow> string) \<Rightarrow> ('s, 'x) exchange_client \<Rightarrow> execution_request
     \<Rightarrow> execution_request \<Rightarrow> ('s, 'x) exchange_client \<times> 's result" where
  "take_signed sdk dstr c r fresh =
     (let k = request_signature dstr r
      in (c\<lparr>xc_signed := dict_pop (xc_signed c) k\<rparr>,
          case dict_get (xc_signed c) k of Some s \<Rightarrow> Inr s | None \<Rightarrow> create_signed_order sdk fresh))"

definition exchange_submit ::
  "('f, 's, 'x) sdk \<Rightarrow> (decimal \<Rightarrow> string) \<Rightarrow> ('s, 'x) exchange_client \<Rightarrow> execution_request
     \<Rightarrow> ('s, 'x) exchange_client \<times> execution_response result" where
  "exchange_submit sdk dstr c r =
     (case take_signed sdk dstr c r r of
        (c1, Inl e) \<Rightarrow> (c1, Inl e)
      | (c1, Inr s) \<Rightarrow>
          (case post_signed_order sdk c1 r s of
             (c2, answer) \<Rightarrow> (c2, bind_result answer (\<lambda>m. map_submit_response m r))))"

definition exchange_cancel ::
  "('f, 's, 'x) sdk \<Rightarrow> ('s, 'x) exchange_client \<Rightarrow> execution_request
     \<Rightarrow> ('s, 'x) exchange_client \<times> execution_response result" where
  "exchange_cancel sdk c r =
     (case str_or (er_order_id r) None of
        None \<Rightarrow> (c, Inl (ValueError ''cancel_order requires order_id''))
      | Some oid \<Rightarrow>
          (case trading_cancel sdk c oid of
             (c1, answer) \<Rightarrow> (c1, bind_result answer (\<lambda>m.
               Inr ((text_response (or_default (text_value (mget m ''status'')) ''cancelled'')
                       (or_default (text_value (mget m ''reason'')) ''cancelled''))
                     \<lparr>rp_order_id := Some (or_default (text_value (mget m ''order_id'')) oid)\<rparr>)))))"

text \<open>What a replacement reports: the reason of the cancellation stands in for a missing one.\<close>

definition replacement_response :: "message \<Rightarrow> message \<Rightarrow> execution_response" where
  "replacement_response cancelled m =
     (let reason = (if \<not> mhas m ''reason'' \<and> mhas cancelled ''reason'' then mget cancelled ''reason''
                    else mget m ''reason'')
      in (text_response (or_default (text_value (mget m ''status'')) ''live'')
            (or_default (text_value reason) ''replaced''))
          \<lparr>rp_order_id := text_value (mget m ''order_id''), rp_trade_id := text_value (mget m ''trade_id'')\<rparr>)"

definition exchange_replace ::
  "('f, 's, 'x) sdk \<Rightarrow> (decimal \<Rightarrow> string) \<Rightarrow> ('s, 'x) exchange_client \<Rightarrow> execution_request
     \<Rightarrow> ('s, 'x) exchange_client \<times> execution_response result" where
  "exchange_replace sdk dstr c r =
     (case str_or (er_order_id r) None of
        None \<Rightarrow> (c, Inl (ValueError ''replace_order requires order_id''))
      | Some oid \<Rightarrow>
          (case trading_cancel sdk c oid of
             (c1, Inl e) \<Rightarrow> (c1, Inl e)
           | (c1, Inr cancelled) \<Rightarrow>
               (case take_signed sdk dstr c1 r (replacement_request r) of
                  (c2, Inl e) \<Rightarrow> (c2, Inl e)
                | (c2, Inr s) \<Rightarrow>
                    (case post_signed_order sdk c2 r s of
                       (c3, answer) \<Rightarrow>
                         (c3, bind_result answer (\<lambda>m. Inr (replacement_response cancelled m)))))))"

definition exchange_adapter ::
  "('f, 's, 'x) sdk \<Rightarrow> (decimal \<Rightarrow> string) \<Rightarrow> ('s, 'x) exchange_client adapter" where
  "exchange_adapter sdk dstr name c r =
     (if name = ''sign_order'' then answer_of (exchange_sign sdk dstr c r)
      else if name = ''cancel_order'' then answer_of (exchange_cancel sdk c r)
      else if name = ''replace_order'' then answer_of (exchange_replace sdk dstr c r)
      else answer_of (exchange_submit sdk dstr c r))"

subsection \<open>A signature determines the order\<close>

definition signature_fields :: "(decimal \<Rightarrow> string) \<Rightarrow> execution_request \<Rightarrow> string list" where
  "signature_fields dstr r =
     [er_action r, er_trace_id r, er_idempotency_key r, er_condition_id r, er_token_id r,
      opt_text id (er_market_slug r), opt_text side_value (er_side r),
      opt_text order_type_value (er_order_type r), opt_text dstr (er_price r),
      opt_text dstr (er_amount_usdc r), opt_text dstr (er_size_shares r),
      opt_text id (er_order_id r), opt_text dstr (er_new_price r), bool_digit (er_post_only r)]"

text \<open>No field of the request holds the separator.\<close>

definition plain_request :: "(decimal \<Rightarrow> string) \<Rightarrow> execution_request \<Rightarrow> bool" where
  "plain_request dstr r \<longleftrightarrow> list_all (\<lambda>f. CHR ''|'' \<notin> set f) (signature_fields dstr r)"

text \<open>Decimals print differently, and never as nothing.\<close>

definition decimal_text :: "(decimal \<Rightarrow> string) \<Rightarrow> bool" where
  "decimal_text dstr \<longleftrightarrow> inj dstr \<and> (\<forall>x. dstr x \<noteq> [])"

lemma join_Cons: "join_with [c] (x # y # r) = x @ c # join_with [c] (y # r)"
  by (simp add: join_with_def)

lemma join_single [simp]: "join_with [c] [x] = x"
  by (simp add: join_with_def)

lemma join_count:
  "xs \<noteq> [] \<Longrightarrow> count_list (join_with [c] xs) c = length xs - 1 + sum_list (map (\<lambda>x. count_list x c) xs)"
proof (induction xs)
  case (Cons x xs)
  then show ?case by (cases xs) (simp_all add: join_Cons del: count_list_0_iff)
qed simp

lemma split_at:
  assumes "x @ c # a = y @ c # b" "c \<notin> set x" "c \<notin> set y"
  shows "x = y \<and> a = b"
proof -
  have "takeWhile (\<lambda>d. d \<noteq> c) (x @ c # a) = x" "takeWhile (\<lambda>d. d \<noteq> c) (y @ c # b) = y"
    using assms(2,3) by (auto simp: takeWhile_append2 takeWhile_tail)
  with assms(1) show ?thesis by auto
qed

lemma join_inject:
  "list_all (\<lambda>f. c \<notin> set f) xs \<Longrightarrow> list_all (\<lambda>f. c \<notin> set f) ys \<Longrightarrow> length xs = length ys
     \<Longrightarrow> join_with [c] xs = join_with [c] ys \<Longrightarrow> xs = ys"
proof (induction xs arbitrary: ys)
  case (Cons x xs)
  then obtain y ys' where ys: "ys = y # ys'" "length xs = length ys'" by (cases ys) auto
  show ?case
  proof (cases xs)
    case Nil
    then show ?thesis using Cons.prems ys by simp
  next
    case (Cons x2 xs2)
    then obtain y2 ys2 where y2: "ys' = y2 # ys2" using ys by (cases ys') auto
    have "x @ c # join_with [c] xs = y @ c # join_with [c] ys'"
      using Cons.prems(4) ys Cons y2 by (simp add: join_Cons)
    then have "x = y \<and> join_with [c] xs = join_with [c] ys'"
      by (rule split_at) (use Cons.prems ys in auto)
    then show ?thesis using Cons.IH [of ys'] Cons.prems ys by simp
  qed
qed simp

lemma signature_join: "request_signature dstr r = join_with ''|'' (signature_fields dstr r)"
  by (simp add: request_signature_def signature_fields_def)

lemma fields_length [simp]: "length (signature_fields dstr r) = 14"
  by (simp add: signature_fields_def)

text \<open>A plain request shares its signature only with requests of the same fields.\<close>

lemma signature_fields_equal:
  assumes p: "plain_request dstr r" and s: "request_signature dstr q = request_signature dstr r"
  shows "signature_fields dstr q = signature_fields dstr r"
proof (rule join_inject [where c = "CHR ''|''"])
  have ne: "signature_fields dstr x \<noteq> []" for x by (simp add: signature_fields_def)
  have "\<forall>f \<in> set (signature_fields dstr r). count_list f (CHR ''|'') = 0"
    using p by (simp add: plain_request_def list_all_iff)
  then have "map (\<lambda>f. count_list f (CHR ''|'')) (signature_fields dstr r) = map (\<lambda>f. 0) (signature_fields dstr r)"
    by (intro map_cong) auto
  then have "sum_list (map (\<lambda>f. count_list f (CHR ''|'')) (signature_fields dstr r)) = 0" by simp
  moreover have "count_list (request_signature dstr q) (CHR ''|'') = count_list (request_signature dstr r) (CHR ''|'')"
    using s by simp
  ultimately have "sum_list (map (\<lambda>f. count_list f (CHR ''|'')) (signature_fields dstr q)) = 0"
    unfolding signature_join join_count [OF ne] by simp
  then show "list_all (\<lambda>f. CHR ''|'' \<notin> set f) (signature_fields dstr q)"
    by (simp add: list_all_iff sum_list_eq_0_iff count_list_0_iff)
qed (use assms in \<open>simp_all add: plain_request_def flip: signature_join\<close>)

lemma opt_text_inject:
  assumes "inj f" "\<And>x. f x \<noteq> []" "opt_text f a = opt_text f b"
  shows "a = b"
proof -
  have "[] \<noteq> f x" for x using assms(2) [of x] by auto
  then show ?thesis using assms by (cases a; cases b) (auto simp: opt_text_def dest: injD)
qed

lemma inj_values: "inj side_value" "inj order_type_value" "side_value s \<noteq> []" "order_type_value t \<noteq> []"
proof -
  show "inj side_value"
  proof (rule injI)
    fix x y assume "side_value x = side_value y"
    then show "x = y" by (cases x; cases y) simp_all
  qed
  show "inj order_type_value"
  proof (rule injI)
    fix x y assume "order_type_value x = order_type_value y"
    then show "x = y" by (cases x; cases y) simp_all
  qed
  show "side_value s \<noteq> []" by (cases s) simp_all
  show "order_type_value t \<noteq> []" by (cases t) simp_all
qed

lemma build_signed_order_fields:
  assumes "er_token_id q = er_token_id r" "er_side q = er_side r" "er_order_type q = er_order_type r"
    "er_price q = er_price r" "er_amount_usdc q = er_amount_usdc r" "er_size_shares q = er_size_shares r"
  shows "build_signed_order flt offers q = build_signed_order flt offers r"
proof -
  have "sign_buy flt q = sign_buy flt r" "sign_sell flt q = sign_sell flt r"
    unfolding sign_buy_def sign_sell_def assms by (rule refl)+
  then show ?thesis unfolding build_signed_order_def assms by (simp only:)
qed

lemma same_order:
  fixes sdk :: "('f, 's, 'x) sdk"
  assumes "decimal_text dstr" "plain_request dstr r" "request_signature dstr q = request_signature dstr r"
  shows "create_signed_order sdk (order_request q) = create_signed_order sdk (order_request r)"
proof -
  have f: "signature_fields dstr q = signature_fields dstr r" by (rule signature_fields_equal [OF assms(2,3)])
  have d: "opt_text dstr a = opt_text dstr b \<Longrightarrow> a = b" for a b
    using assms(1) by (intro opt_text_inject) (auto simp: decimal_text_def)
  have "er_action q = er_action r" "er_token_id q = er_token_id r" "er_side q = er_side r"
    "er_order_type q = er_order_type r" "er_price q = er_price r" "er_amount_usdc q = er_amount_usdc r"
    "er_size_shares q = er_size_shares r" "er_new_price q = er_new_price r"
    using f opt_text_inject [OF inj_values(1,3)] opt_text_inject [OF inj_values(2,4)]
    by (auto simp: signature_fields_def dest: d)
  then have "build_signed_order flt offers (order_request q) = build_signed_order flt offers (order_request r)"
    for flt :: "decimal \<Rightarrow> 'f" and offers
    by (intro build_signed_order_fields)
       (simp_all add: order_request_def replacement_request_def new_request_def)
  then show ?thesis by (simp add: create_signed_order_def)
qed

subsection \<open>What is posted was signed for the request\<close>

definition signed_for ::
  "('f, 's, 'x) sdk \<Rightarrow> (decimal \<Rightarrow> string) \<Rightarrow> string \<Rightarrow> 's \<Rightarrow> bool" where
  "signed_for sdk dstr k s \<longleftrightarrow>
     (\<exists>q. request_signature dstr q = k \<and> create_signed_order sdk (order_request q) = Inr s)"

definition orders_signed :: "('f, 's, 'x) sdk \<Rightarrow> (decimal \<Rightarrow> string) \<Rightarrow> ('s, 'x) exchange_client \<Rightarrow> bool" where
  "orders_signed sdk dstr c \<longleftrightarrow>
     (\<forall>k s. dict_get (xc_signed c) k = Some s \<longrightarrow> signed_for sdk dstr k s)
     \<and> (\<forall>(r, s) \<in> set (xc_posted c). signed_for sdk dstr (request_signature dstr r) s)"

lemma ensure_l2_frame:
  "ensure_l2 sdk c = (c1, x) \<Longrightarrow> xc_signed c1 = xc_signed c \<and> xc_posted c1 = xc_posted c"
  by (auto simp: ensure_l2_def split: option.splits prod.splits sum.splits)

lemma trading_cancel_frame:
  "trading_cancel sdk c oid = (c1, x) \<Longrightarrow> xc_signed c1 = xc_signed c \<and> xc_posted c1 = xc_posted c"
  by (auto simp: trading_cancel_def dest: ensure_l2_frame split: prod.splits sum.splits sdk_answer.splits)

lemma orders_signed_frame:
  "xc_signed c1 = xc_signed c \<Longrightarrow> xc_posted c1 = xc_posted c \<Longrightarrow>
     orders_signed sdk dstr c1 = orders_signed sdk dstr c"
  by (simp add: orders_signed_def)

lemma post_keeps:
  assumes c: "orders_signed sdk dstr c" and s: "signed_for sdk dstr (request_signature dstr r) s"
    and p: "post_signed_order sdk c r s = (c1, x)"
  shows "orders_signed sdk dstr c1"
proof -
  obtain c2 y where e: "ensure_l2 sdk c = (c2, y)" by fastforce
  then have c2: "orders_signed sdk dstr c2" using ensure_l2_frame orders_signed_frame c by metis
  obtain x' a where post: "sdk_post sdk (xc_remote c2) s (py_upper (posted_type r)) (er_post_only r) = (x', a)"
    by fastforce
  have "c1 = c2 \<or> c1 = c2\<lparr>xc_remote := x', xc_posted := xc_posted c2 @ [(r, s)]\<rparr>"
    using p by (cases y) (auto simp: post_signed_order_def e Let_def post split: if_splits)
  then show ?thesis using c2 s by (auto simp: orders_signed_def)
qed

lemma take_signed_keeps:
  assumes "orders_signed sdk dstr c" "take_signed sdk dstr c r (order_request r) = (c1, x)"
  shows "orders_signed sdk dstr c1 \<and> (\<forall>s. x = Inr s \<longrightarrow> signed_for sdk dstr (request_signature dstr r) s)"
  using assms
  by (auto simp: take_signed_def Let_def orders_signed_def dict_get_pop signed_for_def
      split: option.splits if_splits)

lemma exchange_sign_keeps:
  assumes "orders_signed sdk dstr c"
  shows "orders_signed sdk dstr (fst (exchange_sign sdk dstr c r))"
proof (cases "er_action r = ''submit'' \<or> er_action r = ''replace''")
  case True
  then show ?thesis using assms
    by (cases "create_signed_order sdk (order_request r)")
       (auto simp: exchange_sign_def orders_signed_def dict_get_set signed_for_def)
next
  case False
  obtain c1 x where e: "ensure_l2 sdk c = (c1, x)" by fastforce
  then have "orders_signed sdk dstr c1" using ensure_l2_frame orders_signed_frame assms by metis
  then show ?thesis using False by (cases x) (simp_all add: exchange_sign_def e)
qed

lemma exchange_submit_keeps:
  assumes "orders_signed sdk dstr c" "er_action r \<noteq> ''replace''"
  shows "orders_signed sdk dstr (fst (exchange_submit sdk dstr c r))"
proof -
  obtain c1 x where t: "take_signed sdk dstr c r r = (c1, x)" by fastforce
  have k: "orders_signed sdk dstr c1 \<and> (\<forall>s. x = Inr s \<longrightarrow> signed_for sdk dstr (request_signature dstr r) s)"
    using take_signed_keeps [OF assms(1), of r c1 x] t assms(2) by (simp add: order_request_def)
  show ?thesis
  proof (cases x)
    case (Inr s)
    obtain c2 y where p: "post_signed_order sdk c1 r s = (c2, y)" by fastforce
    have "orders_signed sdk dstr c2" by (rule post_keeps [OF _ _ p]) (use k Inr in simp_all)
    then show ?thesis by (simp add: exchange_submit_def t Inr p)
  qed (use k in \<open>simp add: exchange_submit_def t\<close>)
qed

lemma exchange_cancel_keeps:
  assumes "orders_signed sdk dstr c"
  shows "orders_signed sdk dstr (fst (exchange_cancel sdk c r))"
proof (cases "str_or (er_order_id r) None")
  case (Some oid)
  obtain c1 x where e: "trading_cancel sdk c oid = (c1, x)" by fastforce
  then have "orders_signed sdk dstr c1" using trading_cancel_frame orders_signed_frame assms by metis
  then show ?thesis by (simp add: exchange_cancel_def Some e)
qed (use assms in \<open>simp add: exchange_cancel_def\<close>)

lemma exchange_replace_keeps:
  assumes c: "orders_signed sdk dstr c" and a: "er_action r = ''replace''"
  shows "orders_signed sdk dstr (fst (exchange_replace sdk dstr c r))"
proof (cases "str_or (er_order_id r) None")
  case None
  then show ?thesis using c by (simp add: exchange_replace_def)
next
  case (Some oid)
  obtain c1 x where tc: "trading_cancel sdk c oid = (c1, x)" by fastforce
  have c1: "orders_signed sdk dstr c1" using trading_cancel_frame [OF tc] c orders_signed_frame by metis
  show ?thesis
  proof (cases x)
    case (Inl e)
    then show ?thesis using c1 by (simp add: exchange_replace_def Some tc)
  next
    case (Inr cancelled)
    obtain c2 y where t: "take_signed sdk dstr c1 r (replacement_request r) = (c2, y)" by fastforce
    have k: "orders_signed sdk dstr c2 \<and> (\<forall>s. y = Inr s \<longrightarrow> signed_for sdk dstr (request_signature dstr r) s)"
      using take_signed_keeps [OF c1, of r c2 y] t a by (simp add: order_request_def)
    show ?thesis
    proof (cases y)
      case (Inl e)
      then show ?thesis using k by (simp add: exchange_replace_def Some tc Inr t)
    next
      case y: (Inr s)
      obtain c3 z where p: "post_signed_order sdk c2 r s = (c3, z)" by fastforce
      have "orders_signed sdk dstr c3" by (rule post_keeps [OF _ _ p]) (use k y in simp_all)
      then show ?thesis by (simp add: exchange_replace_def Some tc Inr t y p)
    qed
  qed
qed

interpretation exchange_guard: guarded_client "exchange_adapter sdk dstr" "orders_signed sdk dstr"
proof (unfold_locales, goal_cases)
  case (1 c name r)
  show ?case
  proof (cases "name = ''sign_order''")
    case True
    then show ?thesis using exchange_sign_keeps [OF 1(1), of r] by (simp add: exchange_adapter_def answer_of_def)
  next
    case False
    then have "name = adapter_method_for_action (er_action r)" using 1(2) by blast
    then show ?thesis
      using exchange_submit_keeps [OF 1(1), of r] exchange_cancel_keeps [OF 1(1), of r]
        exchange_replace_keeps [OF 1(1), of r]
      by (auto simp: exchange_adapter_def answer_of_def adapter_method_for_action_def)
  qed
qed

lemma new_client_signed: "orders_signed sdk dstr (new_exchange_client creds x)"
  by (simp add: orders_signed_def new_exchange_client_def)

text \<open>
  C7: Every order the executor has the exchange client post was signed for the very request it is
  posted for. In every interleaving of the executor's calls, the signed order that was posted
  for a request is what the SDK signs for that request's token, side, price and size (for a
  replacement, of the replacing sell), also when it was signed earlier and waited in the
  store: no two plain requests for different orders share a signature.
\<close>

theorem posted_order_matches_request:
  assumes "executor_reachable dstr (Some (exchange_adapter sdk dstr)) cap (new_exchange_client creds x) st c trail"
    and "(r, s) \<in> set (xc_posted c)" and "decimal_text dstr" and "plain_request dstr r"
  shows "create_signed_order sdk (order_request r) = Inr s"
proof -
  have "orders_signed sdk dstr c" by (rule exchange_guard.reachable_keeps [OF assms(1) new_client_signed])
  then obtain q where q: "request_signature dstr q = request_signature dstr r"
    "create_signed_order sdk (order_request q) = Inr s"
    using assms(2) by (auto simp: orders_signed_def signed_for_def)
  show ?thesis using same_order [OF assms(3,4) q(1), of sdk] q(2) by simp
qed

text \<open>A text form of decimals that tells them apart, and a run that submits one order.\<close>

definition rat_text :: "decimal \<Rightarrow> string" where
  "rat_text x = (case quotient_of x of (n, d) \<Rightarrow> int_text n @ CHR ''/'' # int_text d)"

lemma int_text_no_slash: "CHR ''/'' \<notin> set (int_text i)"
proof -
  have "\<not> is_digit (CHR ''/'')" by code_simp
  then have n: "CHR ''/'' \<notin> set s" if "all_digits s" for s
    using that by (auto simp: all_digits_def list_all_iff)
  show ?thesis using n [OF nat_text_digits [of i]] n [OF nat_text_digits [of "- i"]]
    by (auto simp: int_text_def)
qed

lemma int_text_inject: "int_text i = int_text j \<Longrightarrow> i = j"
  by (metis int_of_text_int_text sum.inject(2))

lemma rat_text_decimals: "decimal_text rat_text"
  unfolding decimal_text_def
proof (intro conjI allI injI)
  fix x y assume e: "rat_text x = rat_text y"
  obtain n d n' d' where q: "quotient_of x = (n, d)" "quotient_of y = (n', d')" by fastforce
  have "int_text n = int_text n' \<and> int_text d = int_text d'"
    by (rule split_at [OF _ int_text_no_slash int_text_no_slash]) (use e q in \<open>simp add: rat_text_def\<close>)
  then have "quotient_of x = quotient_of y" using q int_text_inject by metis
  then show "x = y" by (rule quotient_of_inject)
next
  fix x show "rat_text x \<noteq> []" by (simp add: rat_text_def split: prod.splits)
qed

definition demo_sdk :: "(decimal, decimal signing_call, int) sdk" where
  "demo_sdk = \<lparr>sdk_float = (\<lambda>x. x), sdk_offers = (\<lambda>t. True), sdk_create = Inr,
     sdk_post = (\<lambda>n s ty po. (n + 1, Sdk_Answer (PDict [(''orderID'', PStr ''o2''), (''status'', PStr ''matched'')]))),
     sdk_cancel = (\<lambda>n oid. (n, Sdk_Answer (PDict [(''canceled'', PList []),
        (''not_canceled'', PDict [(oid, PStr ''order already matched'')])]))),
     sdk_derive = (\<lambda>n. (n, Inr \<lparr>cr_key = ''k'', cr_secret = ''s'', cr_passphrase = ''p''\<rparr>))\<rparr>"

definition demo_exchange_begun :: executor where
  "demo_exchange_begun = fst (begin_execute rat_text (new_executor 2) demo_limit_buy
     (Tradable (BuyIntent (buy_order ''tr'' ''c'' ''tok'' (1/2) 5))) 0)"

definition demo_exchange_task :: execution_task where
  "demo_exchange_task = \<lparr>tk_request = demo_limit_buy,
     tk_intent = Tradable (BuyIntent (buy_order ''tr'' ''c'' ''tok'' (1/2) 5)), tk_queued_at = 0\<rparr>"

definition demo_exchange_run ::
  "executor \<times> (decimal signing_call, int) exchange_client \<times> order_result \<times> execution_event list \<times> string list" where
  "demo_exchange_run = finish_task (Some (exchange_adapter demo_sdk rat_text)) demo_exchange_begun
     (new_exchange_client None 0) ''k'' demo_exchange_task 1"

lemma demo_exchange_reachable:
  "executor_reachable rat_text (Some (exchange_adapter demo_sdk rat_text)) 2 (new_exchange_client None 0)
     (fst demo_exchange_run) (fst (snd demo_exchange_run))
     ([Started_Key ''k''] @ map Evicted_Key (snd (snd (snd (snd demo_exchange_run)))))"
proof -
  have b: "begin_execute rat_text (new_executor 2) demo_limit_buy
      (Tradable (BuyIntent (buy_order ''tr'' ''c'' ''tok'' (1/2) 5))) 0 = (demo_exchange_begun, Started)"
    and g: "dict_get (ex_inflight demo_exchange_begun) ''k'' = Some demo_exchange_task"
    and k: "er_idempotency_key demo_limit_buy = ''k''"
    by (simp_all add: demo_exchange_begun_def begin_execute_def new_executor_def Let_def demo_exchange_task_def
        dict_get_set demo_limit_buy_def new_request_def)
  have r: "executor_reachable rat_text (Some (exchange_adapter demo_sdk rat_text)) 2 (new_exchange_client None 0)
      demo_exchange_begun (new_exchange_client None 0) [Started_Key ''k'']"
    using ex_begin [OF ex_init b] k by simp
  obtain st c x evs ev where f: "demo_exchange_run = (st, c, x, evs, ev)" by (metis prod_cases5)
  show ?thesis using ex_finish [OF r g f [unfolded demo_exchange_run_def]] by (simp add: f)
qed

theorem posted_order_matches_request_witness:
  "create_signed_order demo_sdk demo_limit_buy = Inr (Create_Order ''tok'' (1/2) 10 ''BUY'')"
proof -
  have "(demo_limit_buy, Create_Order ''tok'' (1/2) 10 ''BUY'') \<in> set (xc_posted (fst (snd demo_exchange_run)))"
    "plain_request rat_text demo_limit_buy" "order_request demo_limit_buy = demo_limit_buy"
    by code_simp+
  then show ?thesis
    using posted_order_matches_request [OF demo_exchange_reachable _ rat_text_decimals] by metis
qed

subsection \<open>What the exchange says and the result does not\<close>

lemma mget_set [simp]: "mget (dict_set m k v) k' = (if k' = k then v else mget m k')"
  by (simp add: mget_def dict_get_or_def dict_get_set)

lemma mhas_set [simp]: "mhas (dict_set m k v) k' \<longleftrightarrow> k' = k \<or> mhas m k'"
  by (simp add: mhas_def dict_get_set)

lemma note_text_other: "k' \<noteq> k \<Longrightarrow> mget (note_text k v m) k' = mget m k' \<and> mhas (note_text k v m) k' = mhas m k'"
  by (simp add: note_text_def)

text \<open>
  C30: A cancellation the exchange refused is reported as done. Whatever else an answer without
  \<open>success: false\<close>, error text and status says (the exchange lists refused orders under
  \<open>not_canceled\<close>), the executor's result of the cancellation has status CANCELLED.
\<close>

theorem refused_cancel_reported:
  assumes "er_action r = ''cancel''" "er_order_id r = Some oid" "oid \<noteq> []"
    and "ensure_l2 sdk c = (c1, Inr ())" "sdk_cancel sdk (xc_remote c1) oid = (x, Sdk_Answer (PDict d))"
    and d: "answer_reason d = []" "mget d ''success'' \<noteq> PBool False" "\<not> mhas d ''status''"
  shows "\<exists>resp. exchange_cancel sdk c r = (c1\<lparr>xc_remote := x\<rparr>, Inr resp)
     \<and> rs_status (build_order_result r (Cancelling i) resp queued ack) = CANCELLED"
proof -
  define m1 where "m1 = note_text ''order_id'' (get_or d [''order_id'', ''orderID'', ''orderId'', ''id'']) d"
  define m2 where "m2 = note_text ''trade_id'' (trade_id_value m1) m1"
  have keep: "mget m2 k = mget d k \<and> mhas m2 k = mhas d k" if "k \<noteq> ''order_id''" "k \<noteq> ''trade_id''" for k
    using note_text_other that unfolding m1_def m2_def by metis
  have reason: "answer_reason m2 = []" using d(1) by (simp add: answer_reason_def keep)
  have n: "normalize_answer (PDict d) = normalize_status m2"
    by (simp add: normalize_answer_def Let_def m1_def m2_def)
  have ns: "\<not> mhas m2 ''status''" "mget m2 ''success'' \<noteq> PBool False"
    using d(2,3) keep [of "''status''"] keep [of "''success''"] by simp_all
  have "normalize_status m2 = m2 \<or> normalize_status m2 = dict_set m2 ''status'' (PStr ''cancelled'')"
    by (simp add: normalize_status_def reason ns)
  then have s: "mget (default_field ''status'' ''cancelled'' (default_field ''order_id'' oid (normalize_answer (PDict d))))
      ''status'' = PStr ''cancelled''"
    by (elim disjE) (simp_all add: n default_field_def ns)
  have t: "trading_cancel sdk c oid = (c1\<lparr>xc_remote := x\<rparr>, Inr (default_field ''status'' ''cancelled''
      (default_field ''order_id'' oid (normalize_answer (PDict d)))))"
    using assms(4,5) by (simp add: trading_cancel_def)
  have o: "str_or (er_order_id r) None = Some oid" using assms(2,3) by (cases oid) simp_all
  have tv: "text_value (PStr ''cancelled'') = Some ''cancelled''" by code_simp
  have cs: "coerce_status (Some (Text_Status ''cancelled'')) a i = CANCELLED" for a i
  proof -
    have "map_of status_names (normal_status_text ''cancelled'') = Some CANCELLED" by code_simp
    then show ?thesis by (simp add: coerce_status_def)
  qed
  show ?thesis
    by (simp add: exchange_cancel_def o t s tv build_order_result_def Let_def text_response_def cs)
qed

definition demo_cancel_request :: execution_request where
  "demo_cancel_request = (new_request ''cancel'' ''tr'' ''k2'' ''c'' ''tok'')\<lparr>er_order_id := Some ''o9''\<rparr>"

definition demo_cancel_intent :: cancel_intent where
  "demo_cancel_intent = \<lparr>ci_trace_id = ''tr'', ci_condition_id = ''c'', ci_token_id = ''tok'',
     ci_order_id = ''o9'', ci_market_slug = None, ci_idempotency_key = None, ci_reason = []\<rparr>"

definition demo_creds :: api_creds where
  "demo_creds = \<lparr>cr_key = ''k'', cr_secret = ''s'', cr_passphrase = ''p''\<rparr>"

theorem refused_cancel_reported_witness:
  "\<exists>resp. snd (exchange_cancel demo_sdk (new_exchange_client (Some demo_creds) 0) demo_cancel_request) = Inr resp
     \<and> rs_status (build_order_result demo_cancel_request (Cancelling demo_cancel_intent) resp None None) = CANCELLED"
proof -
  let ?d = "[(''canceled'', PList []), (''not_canceled'', PDict [(''o9'', PStr ''order already matched'')])]"
  have f: "er_action demo_cancel_request = ''cancel''" "er_order_id demo_cancel_request = Some ''o9''"
    "''o9'' \<noteq> []" by (simp_all add: demo_cancel_request_def new_request_def)
  have e: "ensure_l2 demo_sdk (new_exchange_client (Some demo_creds) 0) = (new_exchange_client (Some demo_creds) 0, Inr ())"
    by (simp add: ensure_l2_def new_exchange_client_def)
  have s: "sdk_cancel demo_sdk (xc_remote (new_exchange_client (Some demo_creds) 0)) ''o9''
      = (0, Sdk_Answer (PDict ?d))"
    by (simp add: demo_sdk_def new_exchange_client_def)
  have d: "answer_reason ?d = []" "mget ?d ''success'' \<noteq> PBool False" "\<not> mhas ?d ''status''"
    by code_simp+
  from refused_cancel_reported [OF f e s d, where i = demo_cancel_intent and queued = None and ack = None]
  show ?thesis by auto
qed

text \<open>
  A replacement that trades at once is reported as resting: the client reads only status and
  ids of the answer, the status text \<open>matched\<close> is no status of the builder, and the default of
  the action is LIVE with nothing matched, whatever amounts the answer gives.
\<close>

lemma replacement_fill_lost:
  assumes "er_action r = ''replace''" "er_order_id r = Some oid" "oid \<noteq> []"
    and "trading_cancel sdk c oid = (c1, Inr cancelled)"
    and "take_signed sdk dstr c1 r (replacement_request r) = (c2, Inr s)"
    and "post_signed_order sdk c2 r s = (c3, Inr m)" and "text_value (mget m ''status'') = Some ''matched''"
  shows "\<exists>resp. exchange_replace sdk dstr c r = (c3, Inr resp)
     \<and> rs_status (build_order_result r (Replacing i) resp queued ack) = LIVE
     \<and> rs_matched_shares (build_order_result r (Replacing i) resp queued ack) = 0"
proof -
  have o: "str_or (er_order_id r) None = Some oid" using assms(2,3) by (cases oid) simp_all
  have "map_of status_names (normal_status_text ''matched'') = None" by code_simp
  then have cs: "coerce_status (Some (Text_Status ''matched'')) ''replace'' j = LIVE" for j
    by (simp add: coerce_status_def default_status_for_action_def)
  have "exchange_replace sdk dstr c r = (c3, Inr (replacement_response cancelled m))"
    using assms o by (simp add: exchange_replace_def)
  moreover have "rp_status (replacement_response cancelled m) = Some (Text_Status ''matched'')"
    "rp_matched_shares (replacement_response cancelled m) = None"
    using assms(7) by (simp_all add: replacement_response_def Let_def text_response_def plain_response_def)
  ultimately show ?thesis
    by (simp add: build_order_result_def Let_def assms(1) cs result_numbers_def cancelled_numbers_def)
qed

end
