(* ===== verification/Decisions.thy ===== *)
theory Decisions
  imports Allocation Market_Model Orderbook Py_Value
begin

text \<open>
  \<open>domain/decisions.py\<close>, \<open>app/intent_builder.py\<close> and the helpers of
  \<open>workflow/trading/helpers.py\<close>: what the strategy decides, the context it decides in, and the
  order intent a decision becomes. Metadata is a decoded mapping. The display summary and the
  tags of a decision, which only the user interface reads, are left out, and so are the fields
  of the context no modelled operation reads.
\<close>

subsection \<open>Decisions\<close>

datatype trade_action = TA_SKIP | TA_BUY | TA_SELL | TA_CANCEL | TA_REPLACE

datatype decision_kind = DK_ENTRY | DK_EXIT | DK_FOLLOW_UP | DK_RECOVERY

record trading_decision =
  td_action :: trade_action
  td_reason :: string
  td_token_id :: "string option"
  td_price :: "decimal option"
  td_amount_usdc :: "decimal option"
  td_size_shares :: "decimal option"
  td_order_id :: "string option"
  td_order_type :: "order_type option"
  td_post_only :: bool
  td_market_slug :: "string option"
  td_decision_kind :: "decision_kind option"
  td_metadata :: message

definition plain_decision :: "trade_action \<Rightarrow> string \<Rightarrow> trading_decision" where
  "plain_decision a reason =
     \<lparr>td_action = a, td_reason = reason, td_token_id = None, td_price = None, td_amount_usdc = None,
      td_size_shares = None, td_order_id = None, td_order_type = None, td_post_only = False,
      td_market_slug = None, td_decision_kind = None, td_metadata = []\<rparr>"

definition decide_skip :: "string \<Rightarrow> trading_decision" where
  "decide_skip reason = plain_decision TA_SKIP reason"

definition decide_buy ::
  "string \<Rightarrow> string option \<Rightarrow> decimal \<Rightarrow> decimal \<Rightarrow> order_type option \<Rightarrow> bool \<Rightarrow> string option
   \<Rightarrow> message \<Rightarrow> trading_decision" where
  "decide_buy reason tok price amount ty post_only slug md =
     (plain_decision TA_BUY reason)\<lparr>td_token_id := tok, td_price := Some price,
        td_amount_usdc := Some amount, td_order_type := ty, td_post_only := post_only,
        td_market_slug := slug, td_metadata := md\<rparr>"

definition decide_sell ::
  "string \<Rightarrow> string option \<Rightarrow> decimal \<Rightarrow> decimal \<Rightarrow> order_type option \<Rightarrow> bool \<Rightarrow> string option
   \<Rightarrow> message \<Rightarrow> trading_decision" where
  "decide_sell reason tok price sz ty post_only slug md =
     (plain_decision TA_SELL reason)\<lparr>td_token_id := tok, td_price := Some price,
        td_size_shares := Some sz, td_order_type := ty, td_post_only := post_only,
        td_market_slug := slug, td_metadata := md\<rparr>"

definition decide_cancel ::
  "string \<Rightarrow> string option \<Rightarrow> string \<Rightarrow> string option \<Rightarrow> message \<Rightarrow> trading_decision" where
  "decide_cancel reason tok order_id slug md =
     (plain_decision TA_CANCEL reason)\<lparr>td_token_id := tok, td_order_id := Some order_id,
        td_market_slug := slug, td_metadata := md\<rparr>"

definition decide_replace ::
  "string \<Rightarrow> string option \<Rightarrow> string \<Rightarrow> decimal \<Rightarrow> decimal \<Rightarrow> string option \<Rightarrow> message
   \<Rightarrow> trading_decision" where
  "decide_replace reason tok order_id price sz slug md =
     (plain_decision TA_REPLACE reason)\<lparr>td_token_id := tok, td_order_id := Some order_id,
        td_price := Some price, td_size_shares := Some sz, td_market_slug := slug, td_metadata := md\<rparr>"

record quant_decision =
  qd_actions :: "trading_decision list"
  qd_reason :: string
  qd_pause_trading :: bool
  qd_pause_reason :: string

definition no_actions :: "string \<Rightarrow> quant_decision" where
  "no_actions reason = \<lparr>qd_actions = [], qd_reason = reason, qd_pause_trading = False, qd_pause_reason = []\<rparr>"

definition has_actions :: "quant_decision \<Rightarrow> bool" where
  "has_actions d \<longleftrightarrow> qd_actions d \<noteq> [] \<or> qd_pause_trading d"

record entry_sizing =
  es_plan :: allocation_plan
  es_allocation :: "allocation option"
  es_reason :: string

subsection \<open>The context of a decision\<close>

record token_view =
  tv_token_id :: string
  tv_outcome :: string
  tv_orderbook :: "book option"
  tv_position :: "position option"
  tv_open_orders :: "order list"

record entry_candidate =
  ec_market :: market
  ec_token_id :: string
  ec_orderbook :: book
  ec_position :: "position option"
  ec_open_orders :: "order list"
  ec_idempotency_key :: "string option"

record decision_context =
  dx_trace_id :: string
  dx_market :: "market option"
  dx_token_id :: "string option"
  dx_orderbook :: "book option"
  dx_market_token_views :: "token_view list"
  dx_account_snapshot :: "account option"
  dx_position :: "position option"
  dx_open_orders :: "order list"
  dx_entry_candidates :: "entry_candidate list"
  dx_now :: "int option"
  dx_portfolio_budget_usdc :: "decimal option"
  dx_available_usdc :: "decimal option"
  dx_bankroll_usdc :: "decimal option"
  dx_kelly_fraction :: "decimal option"
  dx_kelly_max_position_fraction :: "decimal option"
  dx_kelly_min_edge :: "decimal option"
  dx_kelly_min_stake_usdc :: "decimal option"
  dx_kelly_allow_round_up :: "bool option"
  dx_kelly_round_up_max_overbet_ratio :: "decimal option"
  dx_allocation_plan :: "allocation_plan option"
  dx_allocation :: "allocation option"
  dx_amount_usdc :: "decimal option"
  dx_quant_trigger_kind :: string
  dx_metadata :: message

definition new_context :: "string \<Rightarrow> decision_context" where
  "new_context trace =
     \<lparr>dx_trace_id = trace, dx_market = None, dx_token_id = None, dx_orderbook = None,
      dx_market_token_views = [], dx_account_snapshot = None, dx_position = None, dx_open_orders = [],
      dx_entry_candidates = [], dx_now = None, dx_portfolio_budget_usdc = None,
      dx_available_usdc = None, dx_bankroll_usdc = None, dx_kelly_fraction = None,
      dx_kelly_max_position_fraction = None, dx_kelly_min_edge = None,
      dx_kelly_min_stake_usdc = None, dx_kelly_allow_round_up = None,
      dx_kelly_round_up_max_overbet_ratio = None, dx_allocation_plan = None, dx_allocation = None,
      dx_amount_usdc = None, dx_quant_trigger_kind = [], dx_metadata = []\<rparr>"

subsection \<open>Helpers of the strategy\<close>

definition TICK_SIZE_FALLBACK :: decimal where "TICK_SIZE_FALLBACK = 1/100"

definition resolve_tick_size :: "book option \<Rightarrow> market option \<Rightarrow> decimal" where
  "resolve_tick_size b m =
     (case (case b of None \<Rightarrow> None | Some b \<Rightarrow> ob_tick_size b) of
        Some t \<Rightarrow> if t > 0 then t else
          (case m of Some m \<Rightarrow> if mk_tick_size m > 0 then mk_tick_size m else TICK_SIZE_FALLBACK
           | None \<Rightarrow> TICK_SIZE_FALLBACK)
      | None \<Rightarrow>
          (case m of Some m \<Rightarrow> if mk_tick_size m > 0 then mk_tick_size m else TICK_SIZE_FALLBACK
           | None \<Rightarrow> TICK_SIZE_FALLBACK))"

definition bid_plus_tick_fallback_ask :: "book option \<Rightarrow> decimal option \<Rightarrow> decimal option" where
  "bid_plus_tick_fallback_ask b tick =
     (case (b, tick) of
        (Some b, Some t) \<Rightarrow>
          if t \<le> 0 then None
          else (case ob_best_bid b of
              None \<Rightarrow> None
            | Some bid \<Rightarrow>
                if bid \<le> 0 then None
                else (let ask = dadd bid t in if ask \<le> 0 \<or> ask \<ge> 1 then None else Some ask))
      | _ \<Rightarrow> None)"

definition enrich_decision :: "decision_kind \<Rightarrow> trading_decision \<Rightarrow> trading_decision" where
  "enrich_decision default_kind d =
     d\<lparr>td_decision_kind := Some (or_default (td_decision_kind d) default_kind)\<rparr>"

text \<open>\<open>_metadata_decimal\<close>: the first key that is present decides, also when it is no number.\<close>

fun metadata_decimal :: "message \<Rightarrow> string list \<Rightarrow> decimal option" where
  "metadata_decimal md [] = None"
| "metadata_decimal md (k # ks) =
     (if mget md k = PNone then metadata_decimal md ks
      else case parse_decimal (py_str (mget md k)) of Inl e \<Rightarrow> None | Inr x \<Rightarrow> Some x)"

subsection \<open>From a decision to an intent\<close>

definition decision_to_managed_intent ::
  "string \<Rightarrow> string \<Rightarrow> string option \<Rightarrow> string option \<Rightarrow> trading_decision \<Rightarrow> managed_intent option" where
  "decision_to_managed_intent trace cid slug default_tok d =
     (case str_or (td_token_id d) default_tok of
        None \<Rightarrow> None
      | Some tok \<Rightarrow>
          let slug = str_or (td_market_slug d) slug in
          (case td_action d of
             TA_BUY \<Rightarrow>
               (case (td_price d, td_amount_usdc d) of
                  (Some p, Some a) \<Rightarrow>
                    if a \<le> 0 then None
                    else Some (Tradable (BuyIntent
                      \<lparr>bi_trace_id = trace, bi_condition_id = cid, bi_token_id = tok, bi_price = p,
                       bi_amount_usdc = a, bi_market_slug = slug,
                       bi_order_type = or_default (td_order_type d) FAK, bi_idempotency_key = None,
                       bi_post_only = td_post_only d,
                       bi_allow_open_exit_overlap =
                         py_truthy (mget (td_metadata d) ''allow_open_exit_overlap'')\<rparr>))
                | _ \<Rightarrow> None)
           | TA_SELL \<Rightarrow>
               (case (td_price d, td_size_shares d) of
                  (Some p, Some sz) \<Rightarrow>
                    if sz \<le> 0 then None
                    else Some (Tradable (SellIntent
                      \<lparr>si_trace_id = trace, si_condition_id = cid, si_token_id = tok, si_price = p,
                       si_size_shares = sz, si_market_slug = slug,
                       si_order_type = or_default (td_order_type d) GTC, si_idempotency_key = None,
                       si_post_only = td_post_only d\<rparr>))
                | _ \<Rightarrow> None)
           | TA_CANCEL \<Rightarrow>
               (case str_or (td_order_id d) None of
                  None \<Rightarrow> None
                | Some oid \<Rightarrow> Some (Cancelling
                    \<lparr>ci_trace_id = trace, ci_condition_id = cid, ci_token_id = tok, ci_order_id = oid,
                     ci_market_slug = slug, ci_idempotency_key = None, ci_reason = td_reason d\<rparr>))
           | TA_REPLACE \<Rightarrow>
               (case (str_or (td_order_id d) None, td_price d, td_size_shares d) of
                  (Some oid, Some p, Some sz) \<Rightarrow>
                    if sz \<le> 0 then None
                    else Some (Replacing
                      \<lparr>ri_trace_id = trace, ri_condition_id = cid, ri_token_id = tok, ri_order_id = oid,
                       ri_new_price = p, ri_size_shares = sz, ri_market_slug = slug,
                       ri_idempotency_key = None, ri_reason = td_reason d, ri_side = None\<rparr>)
                | _ \<Rightarrow> None)
           | TA_SKIP \<Rightarrow> None))"

definition decision_to_trade_intent ::
  "string \<Rightarrow> market \<Rightarrow> string option \<Rightarrow> trading_decision \<Rightarrow> order_intent option" where
  "decision_to_trade_intent trace m default_tok d =
     (case decision_to_managed_intent trace (mk_condition_id m) (Some (mk_market_slug m)) default_tok d of
        Some (Tradable i) \<Rightarrow> Some i
      | _ \<Rightarrow> None)"

end
