(* ===== verification/Kelly.thy ===== *)
theory Kelly
  imports Fees
begin

text \<open>
  \<open>domain/kelly.py\<close>: the Kelly position size with its fee deduction, caps and
  round-up to the market minimum, the reverse (exit) signal and the stake adjustments.
  The keyword arguments of \<open>kelly_stake\<close> are the record \<open>kelly_args\<close>.
\<close>

datatype kelly_side = BUY_YES | BUY_NO

record kelly_result =
  ks_stake_usdc :: decimal
  ks_f_star :: decimal
  ks_edge :: decimal
  ks_edge_gross :: decimal
  ks_fee_per_share_usdc :: decimal
  ks_fair_value_p :: decimal
  ks_price_c :: decimal
  ks_side :: kelly_side
  ks_effective_kelly_fraction :: decimal
  ks_effective_min_stake_usdc :: decimal
  ks_capped_by :: "string option"
  ks_is_round_up_overbet :: bool
  ks_reject_reason :: "string option"

record kelly_args =
  ka_bankroll_usdc :: decimal
  ka_price_c :: decimal
  ka_fair_value_p :: decimal
  ka_side :: kelly_side
  ka_kelly_fraction :: decimal
  ka_prob_confidence :: decimal
  ka_max_position_fraction :: decimal
  ka_min_edge :: decimal
  ka_min_stake_usdc :: decimal
  ka_market_min_order_size_shares :: "decimal option"
  ka_fee_rate_bps :: int
  ka_fees_enabled :: bool
  ka_liquidity_usdc :: "decimal option"
  ka_allow_round_up_to_market_min :: bool
  ka_round_up_max_overbet_ratio :: decimal
  ka_market_tick_size :: "decimal option"

subsection \<open>Parts of the sizing\<close>

definition PRICE_MIN :: decimal where "PRICE_MIN = 1/100"
definition PRICE_MAX :: decimal where "PRICE_MAX = 99/100"
definition DEFAULT_PRICE_FLOOR :: decimal where "DEFAULT_PRICE_FLOOR = 1/10000"

definition effective_min_stake :: "decimal \<Rightarrow> decimal option \<Rightarrow> decimal \<Rightarrow> decimal" where
  "effective_min_stake min_stake_usdc market_min price_c =
     (case market_min of
        None \<Rightarrow> min_stake_usdc
      | Some mm \<Rightarrow>
          if mm > 0 \<and> price_c > 0 \<and> dmul mm price_c > min_stake_usdc then dmul mm price_c
          else min_stake_usdc)"

definition fee_per_share_usdc :: "decimal \<Rightarrow> int \<Rightarrow> bool \<Rightarrow> decimal" where
  "fee_per_share_usdc price_c fee_rate_bps fees_enabled =
     (if \<not> fees_enabled \<or> fee_rate_bps \<le> 0 then 0
      else if price_c \<le> 0 \<or> price_c \<ge> 1 then 0
      else dmul (dmul (ddiv (of_int fee_rate_bps) 1000) price_c) (dsub 1 price_c))"

definition effective_position_cap_usdc :: "decimal \<Rightarrow> decimal \<Rightarrow> decimal \<Rightarrow> decimal" where
  "effective_position_cap_usdc bankroll_usdc max_position_fraction overbet_ratio =
     (let base_cap = dmul bankroll_usdc max_position_fraction
      in if overbet_ratio > 1 then dmul base_cap overbet_ratio else base_cap)"

definition kelly_price_bounds :: "decimal option \<Rightarrow> decimal \<times> decimal" where
  "kelly_price_bounds tick =
     (case tick of
        None \<Rightarrow> (PRICE_MIN, PRICE_MAX)
      | Some t \<Rightarrow> if t > 0 then (max t DEFAULT_PRICE_FLOOR, dsub 1 t) else (PRICE_MIN, PRICE_MAX))"

text \<open>The early rejections, in the order of the code.\<close>

definition kelly_precheck :: "kelly_args \<Rightarrow> string option" where
  "kelly_precheck a =
     (let (price_min, price_max) = kelly_price_bounds (ka_market_tick_size a)
      in if ka_bankroll_usdc a \<le> 0 then Some ''bankroll_non_positive''
         else if ka_price_c a < price_min \<or> ka_price_c a > price_max
           then Some ''price_out_of_range''
         else if ka_fair_value_p a < 0 \<or> ka_fair_value_p a > 1
           then Some ''fair_value_out_of_range''
         else if ka_prob_confidence a < 0 \<or> ka_prob_confidence a > 1
           then Some ''prob_confidence_out_of_range''
         else None)"

definition reject_with_zero_metrics ::
  "decimal \<Rightarrow> decimal \<Rightarrow> kelly_side \<Rightarrow> decimal \<Rightarrow> decimal \<Rightarrow> string \<Rightarrow> kelly_result" where
  "reject_with_zero_metrics price_c fair_value_p side kappa min_stake reason =
     \<lparr>ks_stake_usdc = 0, ks_f_star = 0, ks_edge = 0, ks_edge_gross = 0,
      ks_fee_per_share_usdc = 0, ks_fair_value_p = fair_value_p, ks_price_c = price_c,
      ks_side = side, ks_effective_kelly_fraction = kappa,
      ks_effective_min_stake_usdc = min_stake, ks_capped_by = None,
      ks_is_round_up_overbet = False, ks_reject_reason = Some reason\<rparr>"

text \<open>\<open>liquidity_usdc is not None and liquidity_usdc >= 0\<close>.\<close>

definition usable_liquidity :: "decimal option \<Rightarrow> decimal option" where
  "usable_liquidity l = (case l of None \<Rightarrow> None | Some x \<Rightarrow> if x \<ge> 0 then Some x else None)"

text \<open>The stake after both caps, with the cap that last applied.\<close>

definition capped_stake ::
  "decimal \<Rightarrow> decimal \<Rightarrow> decimal option \<Rightarrow> decimal \<times> string option" where
  "capped_stake raw_stake position_cap liquidity =
     (let (stake, capped_by) =
            (if raw_stake > position_cap then (position_cap, Some ''max_position_fraction'')
             else (raw_stake, None))
      in case usable_liquidity liquidity of
           None \<Rightarrow> (stake, capped_by)
         | Some l \<Rightarrow> if stake > l then (l, Some ''liquidity'') else (stake, capped_by))"

definition round_up_ceiling :: "decimal \<Rightarrow> decimal \<Rightarrow> decimal option \<Rightarrow> decimal" where
  "round_up_ceiling position_cap ratio liquidity =
     (case usable_liquidity liquidity of
        None \<Rightarrow> dmul position_cap ratio
      | Some l \<Rightarrow> min (dmul position_cap ratio) l)"

text \<open>The sizing proper: everything after the early rejections.\<close>

definition kelly_size :: "kelly_args \<Rightarrow> kelly_result" where
  "kelly_size a =
     (let kappa = dmul (ka_kelly_fraction a) (ka_prob_confidence a);
          min_stake = effective_min_stake (ka_min_stake_usdc a)
            (ka_market_min_order_size_shares a) (ka_price_c a);
          edge_gross = dsub (ka_fair_value_p a) (ka_price_c a);
          denom = dsub 1 (ka_price_c a);
          fee = fee_per_share_usdc (ka_price_c a) (ka_fee_rate_bps a) (ka_fees_enabled a);
          edge_net = dsub edge_gross fee;
          result = (\<lambda>stake f_star capped overbet reason.
            \<lparr>ks_stake_usdc = stake, ks_f_star = f_star, ks_edge = edge_net,
             ks_edge_gross = edge_gross, ks_fee_per_share_usdc = fee,
             ks_fair_value_p = ka_fair_value_p a, ks_price_c = ka_price_c a,
             ks_side = ka_side a, ks_effective_kelly_fraction = kappa,
             ks_effective_min_stake_usdc = min_stake, ks_capped_by = capped,
             ks_is_round_up_overbet = overbet, ks_reject_reason = reason\<rparr>)
      in if denom \<le> 0 then result 0 0 None False (Some ''price_out_of_range'')
         else
           (let f_star = ddiv edge_net denom
            in if edge_net < ka_min_edge a \<or> f_star \<le> 0
               then result 0 f_star None False (Some ''edge_below_min'')
               else
                 (let raw_stake = dmul (dmul (ka_bankroll_usdc a) kappa) f_star;
                      position_cap = effective_position_cap_usdc (ka_bankroll_usdc a)
                        (ka_max_position_fraction a) 1;
                      (stake, capped_by) = capped_stake raw_stake position_cap (ka_liquidity_usdc a)
                  in if stake < min_stake then
                       if \<not> ka_allow_round_up_to_market_min a
                       then result 0 f_star capped_by False
                              (Some ''kelly_below_market_min_no_round_up'')
                       else if min_stake > round_up_ceiling position_cap
                              (ka_round_up_max_overbet_ratio a) (ka_liquidity_usdc a)
                       then result 0 f_star capped_by False
                              (Some ''bankroll_too_small_for_market_min'')
                       else result min_stake f_star (Some ''rounded_up_to_market_min'')
                              (min_stake > raw_stake) None
                     else result stake f_star capped_by False None)))"

definition kelly_stake :: "kelly_args \<Rightarrow> kelly_result" where
  "kelly_stake a =
     (case kelly_precheck a of
        Some reason \<Rightarrow> reject_with_zero_metrics (ka_price_c a) (ka_fair_value_p a) (ka_side a)
          (dmul (ka_kelly_fraction a) (ka_prob_confidence a))
          (effective_min_stake (ka_min_stake_usdc a) (ka_market_min_order_size_shares a)
             (ka_price_c a)) reason
      | None \<Rightarrow> kelly_size a)"

subsection \<open>Exit signal and adjustments\<close>

record kelly_exit =
  ke_sell_fraction :: decimal
  ke_reverse_edge :: decimal
  ke_reason :: string

definition kelly_exit_signal :: "decimal \<Rightarrow> decimal \<Rightarrow> decimal \<Rightarrow> kelly_exit" where
  "kelly_exit_signal current_price_c fair_value_p min_reverse_edge =
     (let reverse_edge = dsub current_price_c fair_value_p;
          signal = (\<lambda>f r. \<lparr>ke_sell_fraction = f, ke_reverse_edge = reverse_edge, ke_reason = r\<rparr>)
      in if reverse_edge < min_reverse_edge then signal 0 ''hold''
         else
           (let denom = dsub 1 fair_value_p
            in if denom \<le> 0 then signal 1 ''full_exit''
               else (let raw = ddiv reverse_edge denom
                     in if raw \<ge> 1 then signal 1 ''full_exit''
                        else signal raw ''partial_exit'')))"

definition apply_vol_scaling :: "decimal \<Rightarrow> decimal \<Rightarrow> decimal \<Rightarrow> decimal" where
  "apply_vol_scaling stake_usdc realized_vol baseline_vol =
     (if realized_vol \<le> 0 \<or> baseline_vol \<le> 0 then stake_usdc
      else if realized_vol \<le> baseline_vol then stake_usdc
      else (let factor = ddiv baseline_vol realized_vol
            in dmul (dmul stake_usdc factor) factor))"

definition apply_settlement_discount :: "decimal \<Rightarrow> int \<Rightarrow> decimal \<Rightarrow> decimal" where
  "apply_settlement_discount stake_usdc settlement_seconds annualized_rate =
     (if settlement_seconds \<le> 0 \<or> annualized_rate \<le> 0 then stake_usdc
      else (let discount = ddiv (dmul annualized_rate (of_int settlement_seconds)) 31536000
            in if discount \<ge> 1 then 0 else dmul stake_usdc (dsub 1 discount)))"

definition apply_dispute_premium :: "decimal \<Rightarrow> int \<Rightarrow> decimal" where
  "apply_dispute_premium edge premium_bps =
     (if premium_bps \<le> 0 then edge else dsub edge (ddiv (of_int premium_bps) 10000))"

subsection \<open>Facts about the parts\<close>

lemma kelly_bounds_lower_pos: "0 < fst (kelly_price_bounds t)"
  by (auto simp: kelly_price_bounds_def PRICE_MIN_def DEFAULT_PRICE_FLOOR_def less_max_iff_disj
      split: option.splits)

lemma kelly_precheck_None:
  "kelly_precheck a = None \<longleftrightarrow>
     0 < ka_bankroll_usdc a
     \<and> fst (kelly_price_bounds (ka_market_tick_size a)) \<le> ka_price_c a
     \<and> ka_price_c a \<le> snd (kelly_price_bounds (ka_market_tick_size a))
     \<and> 0 \<le> ka_fair_value_p a \<and> ka_fair_value_p a \<le> 1
     \<and> 0 \<le> ka_prob_confidence a \<and> ka_prob_confidence a \<le> 1"
  by (auto simp: kelly_precheck_def split: prod.splits)

lemma capped_stake_le:
  "capped_stake r c l = (s, b) \<Longrightarrow>
     s \<le> c \<and> s \<le> r \<and> (\<forall>x. usable_liquidity l = Some x \<longrightarrow> s \<le> x)
     \<and> b \<noteq> Some ''rounded_up_to_market_min''"
  by (auto simp: capped_stake_def split: if_splits option.splits)

lemma round_up_ceiling_le:
  "round_up_ceiling c r l \<le> dmul c r"
  "usable_liquidity l = Some x \<Longrightarrow> round_up_ceiling c r l \<le> x"
  by (auto simp: round_up_ceiling_def split: option.splits)

lemma fee_per_share_nonneg: "0 \<le> fee_per_share_usdc c r e"
  by (simp add: fee_per_share_usdc_def)

lemma position_cap_base: "effective_position_cap_usdc b f 1 = dmul b f"
  by (simp add: effective_position_cap_usdc_def)

text \<open>What an accepted sizing looks like: the one fact the properties below use.\<close>

definition kelly_cap :: "kelly_args \<Rightarrow> decimal" where
  "kelly_cap a = dmul (ka_bankroll_usdc a) (ka_max_position_fraction a)"

lemma kelly_size_accept:
  assumes "ks_reject_reason (kelly_size a) = None"
  defines "k \<equiv> kelly_size a"
  shows "ka_price_c a < 1" "ka_min_edge a \<le> ks_edge k" "0 < ks_f_star k"
    "ks_effective_min_stake_usdc k \<le> ks_stake_usdc k"
    "ks_capped_by k \<noteq> Some ''rounded_up_to_market_min'' \<longrightarrow> ks_stake_usdc k \<le> kelly_cap a"
    "ks_capped_by k = Some ''rounded_up_to_market_min'' \<longrightarrow>
       ks_stake_usdc k \<le> dmul (kelly_cap a) (ka_round_up_max_overbet_ratio a)"
    "usable_liquidity (ka_liquidity_usdc a) = Some l \<Longrightarrow> ks_stake_usdc k \<le> l"
proof -
  obtain s b where c: "capped_stake
      (dmul (dmul (ka_bankroll_usdc a) (dmul (ka_kelly_fraction a) (ka_prob_confidence a)))
        (ddiv (dsub (dsub (ka_fair_value_p a) (ka_price_c a))
            (fee_per_share_usdc (ka_price_c a) (ka_fee_rate_bps a) (ka_fees_enabled a)))
          (dsub 1 (ka_price_c a)))) (kelly_cap a) (ka_liquidity_usdc a) = (s, b)" by force
  note le = capped_stake_le [OF c]
  show "ka_price_c a < 1" "ka_min_edge a \<le> ks_edge k" "0 < ks_f_star k"
    "ks_effective_min_stake_usdc k \<le> ks_stake_usdc k"
    using assms c unfolding kelly_size_def Let_def position_cap_base kelly_cap_def
    by (auto split: if_splits)
  show "ks_capped_by k \<noteq> Some ''rounded_up_to_market_min'' \<longrightarrow> ks_stake_usdc k \<le> kelly_cap a"
    "ks_capped_by k = Some ''rounded_up_to_market_min'' \<longrightarrow>
       ks_stake_usdc k \<le> dmul (kelly_cap a) (ka_round_up_max_overbet_ratio a)"
    using assms c le round_up_ceiling_le(1) [of "kelly_cap a" "ka_round_up_max_overbet_ratio a"
        "ka_liquidity_usdc a"]
    unfolding kelly_size_def Let_def position_cap_base kelly_cap_def
    by (auto split: if_splits)
  show "ks_stake_usdc k \<le> l" if "usable_liquidity (ka_liquidity_usdc a) = Some l"
    using assms c le that round_up_ceiling_le(2) [OF that, of "kelly_cap a"
        "ka_round_up_max_overbet_ratio a"]
    unfolding kelly_size_def Let_def position_cap_base kelly_cap_def
    by (auto split: if_splits)
qed

lemma kelly_size_reject:
  "ks_reject_reason (kelly_size a) \<noteq> None \<Longrightarrow> ks_stake_usdc (kelly_size a) = 0"
  by (auto simp: kelly_size_def Let_def split: prod.splits if_splits)

lemma kelly_accept_size:
  "ks_reject_reason (kelly_stake a) = None \<Longrightarrow>
     kelly_precheck a = None \<and> kelly_stake a = kelly_size a"
  by (auto simp: kelly_stake_def reject_with_zero_metrics_def split: option.splits)

lemma usable_liquidity_Some: "usable_liquidity (Some l) = Some x \<longleftrightarrow> x = l \<and> 0 \<le> l"
  by (auto simp: usable_liquidity_def)

text \<open>A bound on both caps bounds the stake.\<close>

lemma kelly_stake_le:
  assumes "dmul (kelly_cap a) (ka_round_up_max_overbet_ratio a) \<le> B" "kelly_cap a \<le> B" "0 \<le> B"
  shows "ks_stake_usdc (kelly_stake a) \<le> B"
proof (cases "ks_reject_reason (kelly_stake a) = None")
  case True
  note c = kelly_accept_size [OF True]
  then have r: "ks_reject_reason (kelly_size a) = None" using True by simp
  show ?thesis using c assms kelly_size_accept(5,6) [OF r]
    by (cases "ks_capped_by (kelly_size a) = Some ''rounded_up_to_market_min''") auto
next
  case False
  then show ?thesis using assms kelly_size_reject [of a]
    by (auto simp: kelly_stake_def reject_with_zero_metrics_def split: option.splits)
qed

subsection \<open>Properties\<close>

definition demo_kelly :: kelly_args where
  "demo_kelly = \<lparr>ka_bankroll_usdc = 100, ka_price_c = 1/2, ka_fair_value_p = 3/5,
     ka_side = BUY_YES, ka_kelly_fraction = 1/4, ka_prob_confidence = 1,
     ka_max_position_fraction = 1/10, ka_min_edge = 2/100, ka_min_stake_usdc = 1,
     ka_market_min_order_size_shares = Some 5, ka_fee_rate_bps = 0, ka_fees_enabled = True,
     ka_liquidity_usdc = Some 40, ka_allow_round_up_to_market_min = True,
     ka_round_up_max_overbet_ratio = 1, ka_market_tick_size = Some (1/100)\<rparr>"

lemma demo_kelly_accepted: "ks_reject_reason (kelly_stake demo_kelly) = None"
  by code_simp

text \<open>
  An accepted Kelly sizing has inputs in range and a positive edge. The bankroll is
  positive, the price lies strictly between 0 and 1, the fair value and the confidence are
  probabilities, the edge after fees reaches the configured minimum, the Kelly fraction is
  positive, and the stake reaches the effective minimum of the market.
\<close>

lemma kelly_accept_sound:
  assumes "ks_reject_reason (kelly_stake a) = None"
  shows "0 < ka_bankroll_usdc a \<and> 0 < ka_price_c a \<and> ka_price_c a < 1
    \<and> 0 \<le> ka_fair_value_p a \<and> ka_fair_value_p a \<le> 1
    \<and> 0 \<le> ka_prob_confidence a \<and> ka_prob_confidence a \<le> 1
    \<and> ka_min_edge a \<le> ks_edge (kelly_stake a) \<and> 0 < ks_f_star (kelly_stake a)
    \<and> ks_effective_min_stake_usdc (kelly_stake a) \<le> ks_stake_usdc (kelly_stake a)"
proof -
  note c = kelly_accept_size [OF assms]
  then have r: "ks_reject_reason (kelly_size a) = None" using assms by simp
  show ?thesis
    using c kelly_size_accept(1-4) [OF r] kelly_bounds_lower_pos [of "ka_market_tick_size a"]
    by (auto simp: kelly_precheck_None)
qed

text \<open>
  The stake never passes a cap. A sizing that was not rounded up stays within bankroll
  times the position fraction; one rounded up to the market minimum stays within that cap
  times the overbet ratio; and either way a non-negative liquidity bounds the stake. A
  rejected sizing has stake zero.
\<close>

lemma kelly_stake_capped:
  "(if ks_reject_reason (kelly_stake a) = None
    then (if ks_capped_by (kelly_stake a) = Some ''rounded_up_to_market_min''
          then ks_stake_usdc (kelly_stake a) \<le> dmul (kelly_cap a) (ka_round_up_max_overbet_ratio a)
          else ks_stake_usdc (kelly_stake a) \<le> kelly_cap a)
       \<and> (\<forall>l. ka_liquidity_usdc a = Some l \<and> 0 \<le> l \<longrightarrow> ks_stake_usdc (kelly_stake a) \<le> l)
    else ks_stake_usdc (kelly_stake a) = 0)"
proof (cases "ks_reject_reason (kelly_stake a) = None")
  case True
  note c = kelly_accept_size [OF True]
  then have r: "ks_reject_reason (kelly_size a) = None" using True by simp
  show ?thesis
    using c True kelly_size_accept(5-7) [OF r] by (auto simp: usable_liquidity_Some)
next
  case False
  have "ks_stake_usdc (kelly_stake a) = 0"
    using False kelly_size_reject [of a]
    by (auto simp: kelly_stake_def reject_with_zero_metrics_def split: option.splits)
  then show ?thesis using False by (simp only: if_False)
qed

text \<open>
  With a position fraction between 0 and 1 and no overbet allowance, the stake never
  exceeds the bankroll, rounding of the decimal context included (the bankroll itself being
  a value of at most 28 digits).
\<close>

lemma kelly_stake_le_bankroll:
  assumes "0 \<le> ka_bankroll_usdc a" "dround (ka_bankroll_usdc a) = ka_bankroll_usdc a"
    and "0 \<le> ka_max_position_fraction a" "ka_max_position_fraction a \<le> 1"
    and "ka_round_up_max_overbet_ratio a \<le> 1"
  shows "ks_stake_usdc (kelly_stake a) \<le> ka_bankroll_usdc a"
proof -
  have cap: "kelly_cap a \<le> ka_bankroll_usdc a"
    unfolding kelly_cap_def using assms by (intro dmul_le_left)
  have "dmul (kelly_cap a) (ka_round_up_max_overbet_ratio a) \<le> kelly_cap a"
    using assms by (intro dmul_le_left) (simp_all add: kelly_cap_def dmul_def dr.rnd_idem dr.rnd_nonneg)
  with cap have "dmul (kelly_cap a) (ka_round_up_max_overbet_ratio a) \<le> ka_bankroll_usdc a"
    by simp
  then show ?thesis using cap assms(1) by (rule kelly_stake_le)
qed

text \<open>
  The per-share fee of the Kelly formula and the trade fee of \<open>fees.py\<close> agree: for a
  price on four places, a size on six places up to a hundred million shares and a rate of at
  most 1000 per mille, the quoted fee is the size times the per-share fee, rounded half-up
  to five places.
\<close>

lemma kelly_fee_agrees:
  assumes "calculate_trade_fee p sz sd (Some rate) en ''taker'' src = Inr q" "en \<noteq> Some False"
    and "on_grid 4 p" "on_grid 6 sz" "sz \<le> 10 ^ 8" "0 \<le> rate" "rate \<le> 1000"
  shows "fq_fee_usdc q = round_places 5 (sz * fee_per_share_usdc p rate True)"
proof -
  note c = calculate_trade_fee_Inr [OF assms(1)]
  then have b: "0 \<le> p" "p \<le> 1" "0 \<le> sz" and r: "fq_fee_rate_bps q = rate"
    using assms(2,6) by (auto simp: effective_rate_def)
  have o: "on_grid 6 1" unfolding on_grid_iff by (rule exI [of _ "10 ^ 6"]) simp
  have per: "fee_per_share_usdc p rate True = of_int rate / 1000 * p * (1 - p)"
  proof (cases "rate = 0 \<or> p = 0 \<or> p = 1")
    case True
    then show ?thesis by (auto simp: fee_per_share_usdc_def)
  next
    case False
    have g1: "on_grid 6 1" by (rule o)
    have u: "dround (bps_to_rate rate) = bps_to_rate rate"
      using assms(6) by (simp add: bps_to_rate_def ddiv_def dr.rnd_idem)
    have "raw_fee_usdc 1 rate p = of_int rate / 1000 * p * (1 - p)"
      using raw_fee_grid [OF assms(3) b(1,2) g1 _ _ assms(6,7)] by simp
    moreover have "raw_fee_usdc 1 rate p = fee_per_share_usdc p rate True"
      using False b assms(6) u by (simp add: raw_fee_usdc_def fee_per_share_usdc_def dmul_def bps_to_rate_def)
    ultimately show ?thesis by simp
  qed
  show ?thesis
    using c r raw_fee_grid [OF assms(3) b(1,2) assms(4) b(3) assms(5,6,7)]
    by (simp add: per mult.assoc)
qed

text \<open>
  The exit signal is a fraction of the position: with a non-negative threshold it lies
  between 0 and 1, it is zero exactly when the reverse edge is below the threshold or zero,
  and a higher market price never lowers it.
\<close>

lemma kelly_exit_range:
  assumes "0 \<le> m"
  shows "0 \<le> ke_sell_fraction (kelly_exit_signal c p m)"
    "ke_sell_fraction (kelly_exit_signal c p m) \<le> 1"
proof -
  have "0 \<le> ddiv (dsub c p) (dsub 1 p)" if "m \<le> dsub c p" "0 < dsub 1 p"
    using assms that order.trans [OF assms that(1)] by (intro ddiv_nonneg) (simp_all add: less_imp_le)
  then show "0 \<le> ke_sell_fraction (kelly_exit_signal c p m)"
    "ke_sell_fraction (kelly_exit_signal c p m) \<le> 1"
    using assms by (auto simp: kelly_exit_signal_def Let_def not_less not_le)
qed

lemma kelly_exit_fraction:
  assumes "0 \<le> m" and "c \<le> c'"
  shows "0 \<le> ke_sell_fraction (kelly_exit_signal c p m)
    \<and> ke_sell_fraction (kelly_exit_signal c p m) \<le> ke_sell_fraction (kelly_exit_signal c' p m)
    \<and> ke_sell_fraction (kelly_exit_signal c' p m) \<le> 1"
proof -
  have e: "dsub c p \<le> dsub c' p" using assms(2) by (simp add: dsub_mono)
  have d: "ddiv (dsub c p) (dsub 1 p) \<le> ddiv (dsub c' p) (dsub 1 p)" if "p < 1"
    using e by (rule ddiv_mono) (simp add: that)
  have "ke_sell_fraction (kelly_exit_signal c p m) \<le> ke_sell_fraction (kelly_exit_signal c' p m)"
  proof (cases "dsub c p < m")
    case True
    then show ?thesis
      using kelly_exit_range(1) [OF assms(1), of c' p] by (simp add: kelly_exit_signal_def)
  next
    case False
    with e d show ?thesis
      by (cases "p < 1"; cases "1 \<le> ddiv (dsub c p) (dsub 1 p)")
        (auto simp: kelly_exit_signal_def Let_def)
  qed
  then show ?thesis using kelly_exit_range [OF assms(1)] by blast
qed

text \<open>
  Volatility scaling and the settlement discount only shrink a stake and never make it
  negative, and a more volatile market gets no larger stake.
\<close>

lemma scaled_le:
  assumes "0 \<le> s" "dround s = s" "0 < b" "b < r"
  shows "dmul (dmul s (ddiv b r)) (ddiv b r) \<le> s" "0 \<le> dmul (dmul s (ddiv b r)) (ddiv b r)"
proof -
  have f: "0 \<le> ddiv b r" "ddiv b r \<le> 1" using assms by (simp_all add: ddiv_le_1)
  have "dmul s (ddiv b r) \<le> s" by (rule dmul_le_left [OF assms(1,2) f(2)])
  moreover have "dmul (dmul s (ddiv b r)) (ddiv b r) \<le> dmul s (ddiv b r)"
    using assms(1) f by (intro dmul_le_left) (simp_all add: dmul_def dr.rnd_idem dr.rnd_nonneg)
  ultimately show "dmul (dmul s (ddiv b r)) (ddiv b r) \<le> s" by simp
  show "0 \<le> dmul (dmul s (ddiv b r)) (ddiv b r)" using assms(1) f(1) by simp
qed

lemma vol_scaling_bounds:
  assumes "0 \<le> s" "dround s = s"
  shows "0 \<le> apply_vol_scaling s r b" "apply_vol_scaling s r b \<le> s"
  using assms scaled_le [OF assms, of b r] by (auto simp: apply_vol_scaling_def Let_def)

lemma vol_scaling_antimono:
  assumes "0 \<le> s" "dround s = s" "0 < r" "r \<le> r'"
  shows "apply_vol_scaling s r' b \<le> apply_vol_scaling s r b"
proof (cases "b \<le> 0 \<or> r \<le> b")
  case True
  then show ?thesis using vol_scaling_bounds(2) [OF assms(1,2), of r' b] assms
    by (auto simp: apply_vol_scaling_def)
next
  case False
  then have b: "0 < b" "b < r" "b < r'" using assms by auto
  have f: "ddiv b r' \<le> ddiv b r"
    unfolding ddiv_def by (rule dround_mono) (use assms b in \<open>simp add: frac_le\<close>)
  have p: "0 \<le> ddiv b r'" "0 \<le> ddiv b r" using b assms by simp_all
  have "dmul s (ddiv b r') \<le> dmul s (ddiv b r)" using f p assms(1) by (intro dmul_mono) simp_all
  then have "dmul (dmul s (ddiv b r')) (ddiv b r') \<le> dmul (dmul s (ddiv b r)) (ddiv b r)"
    using f p assms(1) by (intro dmul_mono) simp_all
  with b assms show ?thesis by (simp add: apply_vol_scaling_def Let_def)
qed

lemma settlement_discount_bounds:
  assumes "0 \<le> s" "dround s = s"
  shows "0 \<le> apply_settlement_discount s t r" "apply_settlement_discount s t r \<le> s"
proof -
  have "dsub 1 d \<le> 1" if "0 \<le> d" for d
    unfolding dsub_def using that by (intro dr.rnd_le_fix) simp_all
  then show "0 \<le> apply_settlement_discount s t r" "apply_settlement_discount s t r \<le> s"
    using assms by (auto simp: apply_settlement_discount_def Let_def intro!: dmul_le_left)
qed

lemma stake_adjustments_shrink:
  assumes "0 \<le> s" "dround s = s" "0 < r" "r \<le> r'"
  shows "0 \<le> apply_vol_scaling s r' b \<and> apply_vol_scaling s r' b \<le> apply_vol_scaling s r b
    \<and> apply_vol_scaling s r b \<le> s
    \<and> 0 \<le> apply_settlement_discount s t y \<and> apply_settlement_discount s t y \<le> s"
  using vol_scaling_bounds [OF assms(1,2)] vol_scaling_antimono [OF assms]
    settlement_discount_bounds [OF assms(1,2)] by blast

end
