(* ===== verification/Entry_Allocation.thy ===== *)
theory Entry_Allocation
  imports Decisions Kelly "HOL-Library.Multiset"
begin

text \<open>
  \<open>workflow/allocation.py\<close>: the Kelly plan that spreads the free bankroll over the candidate
  markets, best edge first. The probability of a candidate is asked of a provider, an argument of
  the plan. The list of budget changes of a plan, which the code always leaves empty, is left out.
\<close>

subsection \<open>Candidates\<close>

record allocation_market =
  am_market :: market
  am_token_id :: string
  am_orderbook :: "book option"
  am_position :: "position option"
  am_open_orders :: "order list"
  am_tradable :: bool
  am_risk_allowed :: bool
  am_market_active :: bool
  am_market_open :: bool
  am_clob_enabled :: bool
  am_resolved :: bool
  am_cancelled :: bool
  am_archived :: bool
  am_liquidity_usdc :: "decimal option"
  am_spread :: "decimal option"
  am_best_ask :: "decimal option"
  am_best_ask_size :: "decimal option"
  am_idempotency_key :: "string option"

definition am_condition_id :: "allocation_market \<Rightarrow> string" where
  "am_condition_id s = mk_condition_id (am_market s)"

definition effective_best_ask :: "allocation_market \<Rightarrow> decimal option" where
  "effective_best_ask s = or_else (am_best_ask s)
     (case am_orderbook s of None \<Rightarrow> None | Some b \<Rightarrow> ob_best_ask b)"

definition effective_spread :: "allocation_market \<Rightarrow> decimal option" where
  "effective_spread s = or_else (am_spread s)
     (case am_orderbook s of None \<Rightarrow> None | Some b \<Rightarrow> spread b)"

record prob_view =
  pv_prob_p :: "decimal option"
  pv_prob_confidence :: decimal
  pv_source :: string

text \<open>What the asks would cost.\<close>

definition ask_depth_notional :: "book option \<Rightarrow> decimal" where
  "ask_depth_notional b = (case b of
       None \<Rightarrow> 0
     | Some b \<Rightarrow>
         (case (ob_asks b, ob_best_ask b, ob_best_ask_size b) of
            ([], Some a, Some sz) \<Rightarrow> dmul a sz
          | _ \<Rightarrow> dsum (map (\<lambda>l. dmul (lv_price l) (lv_size l)) (ob_asks b))))"

definition market_liquidity_usdc :: "allocation_market \<Rightarrow> decimal" where
  "market_liquidity_usdc s = or_default (am_liquidity_usdc s) (ask_depth_notional (am_orderbook s))"

subsection \<open>Sizing one candidate\<close>

record kelly_settings =
  kc_fraction :: decimal
  kc_max_position_fraction :: decimal
  kc_min_edge :: decimal
  kc_min_stake_usdc :: decimal
  kc_allow_round_up :: bool
  kc_max_overbet_ratio :: decimal

definition compute_kelly ::
  "kelly_settings \<Rightarrow> allocation_market \<Rightarrow> decimal \<Rightarrow> prob_view \<Rightarrow> decimal \<Rightarrow> kelly_result" where
  "compute_kelly kc s bankroll pv price =
     kelly_stake
       \<lparr>ka_bankroll_usdc = bankroll, ka_price_c = price, ka_fair_value_p = or_default (pv_prob_p pv) 0,
        ka_side = BUY_YES, ka_kelly_fraction = kc_fraction kc,
        ka_prob_confidence = pv_prob_confidence pv,
        ka_max_position_fraction = kc_max_position_fraction kc, ka_min_edge = kc_min_edge kc,
        ka_min_stake_usdc = kc_min_stake_usdc kc,
        ka_market_min_order_size_shares = Some (mk_min_order_size (am_market s)),
        ka_fee_rate_bps = (case mk_fee_rate_bps (am_market s) of
            Some r \<Rightarrow> r | None \<Rightarrow> or_default (mk_taker_base_fee_bps (am_market s)) 0),
        ka_fees_enabled = (mk_fees_enabled (am_market s) \<noteq> Some False),
        ka_liquidity_usdc = Some (market_liquidity_usdc s),
        ka_allow_round_up_to_market_min = kc_allow_round_up kc,
        ka_round_up_max_overbet_ratio = kc_max_overbet_ratio kc,
        ka_market_tick_size = Some (mk_tick_size (am_market s))\<rparr>"

text \<open>The run that only ranks a candidate: a bankroll of one dollar, no minimum, no round-up.\<close>

definition ranking_settings :: "kelly_settings \<Rightarrow> kelly_settings" where
  "ranking_settings kc =
     kc\<lparr>kc_min_stake_usdc := 0, kc_allow_round_up := False, kc_max_overbet_ratio := 1\<rparr>"

definition rejected_audit ::
  "prob_view option \<Rightarrow> decimal option \<Rightarrow> kelly_result option \<Rightarrow> kelly_audit" where
  "rejected_audit pv price k =
     \<lparr>ka_prob_p = (case pv of None \<Rightarrow> None | Some v \<Rightarrow> pv_prob_p v),
      ka_audit_confidence = map_option pv_prob_confidence pv,
      ka_audit_price_c = price, ka_edge_net = map_option ks_edge k,
      ka_edge_gross = map_option ks_edge_gross k,
      ka_fee_per_share_usdc = map_option ks_fee_per_share_usdc k,
      ka_kelly_f_star = map_option ks_f_star k,
      ka_effective_kelly_fraction = map_option ks_effective_kelly_fraction k,
      ka_effective_min_stake_usdc = map_option ks_effective_min_stake_usdc k,
      ka_capped_by = (case k of None \<Rightarrow> None | Some r \<Rightarrow> ks_capped_by r),
      ka_is_round_up_overbet = (case k of None \<Rightarrow> False | Some r \<Rightarrow> ks_is_round_up_overbet r)\<rparr>"

definition reject_allocation ::
  "allocation_market \<Rightarrow> decimal \<Rightarrow> string \<Rightarrow> prob_view option \<Rightarrow> decimal option \<Rightarrow> kelly_result option
   \<Rightarrow> allocation" where
  "reject_allocation s exposure reason pv price k =
     \<lparr>al_condition_id = am_condition_id s, al_target_budget_usdc = 0, al_buy_budget_usdc = 0,
      al_market_slug = Some (mk_market_slug (am_market s)), al_token_id = Some (am_token_id s),
      al_current_exposure_usdc = exposure, al_released_budget_usdc = 0, al_reason = reason,
      al_idempotency_key = am_idempotency_key s, al_release_reason = reason,
      al_audit = rejected_audit pv price k\<rparr>"

definition sized_allocation ::
  "allocation_market \<Rightarrow> decimal \<Rightarrow> prob_view \<Rightarrow> decimal \<Rightarrow> kelly_result \<Rightarrow> allocation" where
  "sized_allocation s exposure pv price k =
     \<lparr>al_condition_id = am_condition_id s, al_target_budget_usdc = ks_stake_usdc k,
      al_buy_budget_usdc = ks_stake_usdc k,
      al_market_slug = Some (mk_market_slug (am_market s)), al_token_id = Some (am_token_id s),
      al_current_exposure_usdc = exposure, al_released_budget_usdc = 0, al_reason = ''kelly_sized'',
      al_idempotency_key = am_idempotency_key s, al_release_reason = [],
      al_audit = rejected_audit (Some pv) (Some price) (Some k)\<rparr>"

subsection \<open>The plan\<close>

record plan_candidate =
  pc_snapshot :: allocation_market
  pc_exposure_usdc :: decimal
  pc_prob_view :: prob_view
  pc_price_c :: decimal
  pc_estimate_f_star :: decimal

definition market_exposure :: "allocation_market \<Rightarrow> decimal" where
  "market_exposure s = current_exposure_usdc (am_position s) (am_open_orders s)"

text \<open>A candidate without a probability or a price is rejected, any other is ranked.\<close>

definition rank_candidate ::
  "kelly_settings \<Rightarrow> (allocation_market \<Rightarrow> prob_view) \<Rightarrow> allocation_market
   \<Rightarrow> allocation + plan_candidate" where
  "rank_candidate kc prob s =
     (let pv = prob s; price = effective_best_ask s;
          rejected = Inl (reject_allocation s (market_exposure s) ''missing_price_or_prob'' (Some pv) price None)
      in case (pv_prob_p pv, price) of
           (Some p, Some c) \<Rightarrow>
             if c \<le> 0 then rejected
             else Inr \<lparr>pc_snapshot = s, pc_exposure_usdc = market_exposure s, pc_prob_view = pv,
                    pc_price_c = c,
                    pc_estimate_f_star = ks_f_star (compute_kelly (ranking_settings kc) s 1 pv c)\<rparr>
         | _ \<Rightarrow> rejected)"

definition candidate_stake :: "kelly_settings \<Rightarrow> decimal \<Rightarrow> plan_candidate \<Rightarrow> kelly_result" where
  "candidate_stake kc remaining c =
     compute_kelly kc (pc_snapshot c) remaining (pc_prob_view c) (pc_price_c c)"

definition floor_zero :: "decimal \<Rightarrow> decimal" where
  "floor_zero x = (if x < 0 then 0 else x)"

text \<open>One candidate after the other, each against the bankroll the earlier ones have left.\<close>

fun allocate_in_order :: "kelly_settings \<Rightarrow> decimal \<Rightarrow> plan_candidate list \<Rightarrow> allocation list" where
  "allocate_in_order kc remaining [] = []"
| "allocate_in_order kc remaining (c # cs) =
     (let k = candidate_stake kc remaining c in
      if ks_stake_usdc k \<le> 0
      then reject_allocation (pc_snapshot c) (pc_exposure_usdc c)
             (or_default (str_or (ks_reject_reason k) None) ''kelly_zero'') (Some (pc_prob_view c))
             (Some (pc_price_c c)) (Some k) # allocate_in_order kc remaining cs
      else sized_allocation (pc_snapshot c) (pc_exposure_usdc c) (pc_prob_view c) (pc_price_c c) k
             # allocate_in_order kc (floor_zero (dsub remaining (ks_stake_usdc k))) cs)"

definition eligible_candidates ::
  "kelly_settings \<Rightarrow> (allocation_market \<Rightarrow> prob_view) \<Rightarrow> allocation_market list \<Rightarrow> plan_candidate list" where
  "eligible_candidates kc prob ms =
     concat (map (\<lambda>s. case rank_candidate kc prob s of Inl a \<Rightarrow> [] | Inr c \<Rightarrow> [c]) ms)"

definition unrankable ::
  "kelly_settings \<Rightarrow> (allocation_market \<Rightarrow> prob_view) \<Rightarrow> allocation_market list \<Rightarrow> allocation list" where
  "unrankable kc prob ms =
     concat (map (\<lambda>s. case rank_candidate kc prob s of Inl a \<Rightarrow> [a] | Inr c \<Rightarrow> []) ms)"

text \<open>\<open>sort(key = f_star, reverse = True)\<close> keeps candidates of equal rank in their order.\<close>

definition by_rank :: "plan_candidate list \<Rightarrow> plan_candidate list" where
  "by_rank cs = sort_key (\<lambda>c. - pc_estimate_f_star c) cs"

definition free_bankroll :: "decimal \<Rightarrow> allocation_market list \<Rightarrow> decimal" where
  "free_bankroll bankroll ms = floor_zero (dsub bankroll (dsum (map market_exposure ms)))"

definition kelly_plan ::
  "string \<Rightarrow> decimal \<Rightarrow> decimal \<Rightarrow> allocation_market list \<Rightarrow> (allocation_market \<Rightarrow> prob_view)
   \<Rightarrow> kelly_settings \<Rightarrow> allocation_plan" where
  "kelly_plan trace bankroll budget ms prob kc =
     (let rejected = unrankable kc prob ms; eligible = eligible_candidates kc prob ms
      in if eligible = [] then
           \<lparr>ap_trace_id = trace, ap_total_budget_usdc = budget, ap_allocations = rejected,
            ap_reason = ''no_eligible_market''\<rparr>
         else
           (let als = rejected @ allocate_in_order kc (free_bankroll bankroll ms) (by_rank eligible)
            in \<lparr>ap_trace_id = trace, ap_total_budget_usdc = budget, ap_allocations = als,
                ap_reason = (if list_ex (\<lambda>a. al_buy_budget_usdc a > 0) als then [] else ''no_kelly_stake'')\<rparr>))"


subsection \<open>Spending one budget in turn\<close>

text \<open>
  What the plan needs of the sizing: a stake is a bounded multiple of what is left, up to one
  rounding. Then the stakes taken one after the other are, up to rounding, the same multiple of
  the first budget.
\<close>

fun spend_in_turn :: "(decimal \<Rightarrow> 'a \<Rightarrow> decimal) \<Rightarrow> decimal \<Rightarrow> 'a list \<Rightarrow> decimal list" where
  "spend_in_turn stake remaining [] = []"
| "spend_in_turn stake remaining (c # cs) =
     (let k = stake remaining c in
      if k \<le> 0 then 0 # spend_in_turn stake remaining cs
      else k # spend_in_turn stake (floor_zero (dsub remaining k)) cs)"

lemma floor_zero_nonneg [simp]: "0 \<le> floor_zero x"
  by (simp add: floor_zero_def)

lemma floor_zero_fixed: "dround x = x \<Longrightarrow> dround (floor_zero x) = floor_zero x"
  by (simp add: floor_zero_def)

lemma floor_zero_dsub_fixed [simp]: "dround (floor_zero (dsub a b)) = floor_zero (dsub a b)"
  by (rule floor_zero_fixed) (simp add: dsub_def dr.rnd_idem)

locale bounded_stake =
  fixes stake :: "decimal \<Rightarrow> 'a \<Rightarrow> decimal" and ratio :: rat
  assumes ratio_ge: "1 \<le> ratio"
    and stake_le: "0 \<le> b \<Longrightarrow> dround b = b \<Longrightarrow> stake b c \<le> ratio * b * (1 + dec_rel)"
begin

lemma grow: "0 \<le> x \<Longrightarrow> x \<le> ratio * x * (1 + dec_rel) ^ n"
proof -
  assume x: "0 \<le> x"
  have "1 * 1 \<le> ratio * (1 + dec_rel) ^ n"
    by (rule mult_mono) (use ratio_ge in \<open>auto intro: one_le_power\<close>)
  then show ?thesis using mult_left_mono [of 1 "ratio * (1 + dec_rel) ^ n" x] x by (simp add: ac_simps)
qed

lemma spend_le:
  "0 \<le> b \<Longrightarrow> dround b = b \<Longrightarrow> sum_list (spend_in_turn stake b cs) \<le> ratio * b * (1 + dec_rel) ^ length cs"
proof (induction cs arbitrary: b)
  case Nil
  then show ?case using ratio_ge by simp
next
  case (Cons c cs)
  let ?n = "length cs" and ?k = "stake b c"
  have r0: "0 \<le> ratio" using ratio_ge by simp
  consider (none) "?k \<le> 0" | (within) "0 < ?k" "?k \<le> b" | (over) "b < ?k" "0 < ?k"
    using Cons.prems by linarith
  then show ?case
  proof cases
    case none
    have "ratio * b * (1 + dec_rel) ^ ?n \<le> ratio * b * (1 + dec_rel) ^ Suc ?n"
      using Cons.prems r0 by (intro mult_left_mono power_increasing) auto
    then show ?thesis using none Cons.IH [OF Cons.prems] by simp
  next
    case within
    let ?b = "dsub b ?k"
    have fz: "floor_zero ?b = ?b" using within by (simp add: floor_zero_def)
    have "?b \<le> (b - ?k) * (1 + dec_rel)"
      unfolding dsub_def using within by (intro dround_le_rel) simp
    then have "ratio * ?b * (1 + dec_rel) ^ ?n \<le> ratio * ((b - ?k) * (1 + dec_rel)) * (1 + dec_rel) ^ ?n"
      using r0 by (intro mult_right_mono mult_left_mono) auto
    moreover have "sum_list (spend_in_turn stake ?b cs) \<le> ratio * ?b * (1 + dec_rel) ^ ?n"
      by (rule Cons.IH) (use within in \<open>auto simp add: dsub_def dr.rnd_idem dr.rnd_nonneg\<close>)
    moreover have "?k \<le> ratio * ?k * (1 + dec_rel) ^ Suc ?n" using within by (intro grow) simp
    ultimately show ?thesis using within by (simp add: Let_def fz algebra_simps)
  next
    case over
    have fz: "floor_zero (dsub b ?k) = 0" using over by (simp add: floor_zero_def)
    have "sum_list (spend_in_turn stake 0 cs) \<le> 0" using Cons.IH [of 0] by simp
    moreover have "?k \<le> ratio * b * (1 + dec_rel) ^ Suc ?n"
    proof -
      have "?k \<le> ratio * b * (1 + dec_rel) ^ 1" using stake_le Cons.prems by simp
      also have "\<dots> \<le> ratio * b * (1 + dec_rel) ^ Suc ?n"
        using Cons.prems r0 by (intro mult_left_mono power_increasing) auto
      finally show ?thesis .
    qed
    ultimately show ?thesis using over by (simp add: Let_def fz)
  qed
qed

end

lemma kelly_stake_scaled:
  assumes "0 \<le> ka_bankroll_usdc a" "dround (ka_bankroll_usdc a) = ka_bankroll_usdc a"
    and "0 \<le> ka_max_position_fraction a" "ka_max_position_fraction a \<le> 1"
  shows "ks_stake_usdc (kelly_stake a)
    \<le> max 1 (ka_round_up_max_overbet_ratio a) * ka_bankroll_usdc a * (1 + dec_rel)"
proof -
  let ?b = "ka_bankroll_usdc a" and ?R = "ka_round_up_max_overbet_ratio a"
  have cap: "kelly_cap a \<le> ?b" "0 \<le> kelly_cap a" "dround (kelly_cap a) = kelly_cap a"
    unfolding kelly_cap_def using assms by (simp_all add: dmul_le_left) (simp add: dmul_def dr.rnd_idem)
  have b: "?b \<le> max 1 ?R * ?b * (1 + dec_rel)"
  proof -
    have "?b \<le> ?b * (1 + dec_rel)" using assms(1) by (simp add: distrib_left)
    also have "\<dots> \<le> max 1 ?R * (?b * (1 + dec_rel))"
      using assms(1) mult_right_mono [of 1 "max 1 ?R" "?b * (1 + dec_rel)"] by simp
    finally show ?thesis by (simp add: mult.assoc)
  qed
  have "dmul (kelly_cap a) ?R \<le> max 1 ?R * ?b * (1 + dec_rel)"
  proof (cases "?R \<le> 1")
    case True
    have "dmul (kelly_cap a) ?R \<le> kelly_cap a" using True cap by (intro dmul_le_left) simp_all
    then show ?thesis using b cap by simp
  next
    case False
    have "dmul (kelly_cap a) ?R \<le> kelly_cap a * ?R * (1 + dec_rel)"
      unfolding dmul_def using False cap by (intro dround_le_rel) simp
    also have "\<dots> \<le> ?b * ?R * (1 + dec_rel)"
      using False cap by (intro mult_right_mono) auto
    finally show ?thesis using False by (simp add: max_def ac_simps)
  qed
  then show ?thesis using b cap(1) assms(1) by (intro kelly_stake_le) auto
qed

interpretation stakes: bounded_stake "\<lambda>b c. ks_stake_usdc (candidate_stake (kc\<lparr>kc_max_position_fraction := min 1 (max 0 f)\<rparr>) b c)"
    "max 1 (kc_max_overbet_ratio kc)"
  by unfold_locales
    (use kelly_stake_scaled in \<open>auto simp: candidate_stake_def compute_kelly_def intro: order_trans [OF kelly_stake_scaled]\<close>)

lemma stakes_le:
  assumes "0 \<le> kc_max_position_fraction kc" "kc_max_position_fraction kc \<le> 1" "0 \<le> b" "dround b = b"
  shows "sum_list (spend_in_turn (\<lambda>b c. ks_stake_usdc (candidate_stake kc b c)) b cs)
    \<le> max 1 (kc_max_overbet_ratio kc) * b * (1 + dec_rel) ^ length cs"
proof -
  have "kc\<lparr>kc_max_position_fraction := min 1 (max 0 (kc_max_position_fraction kc))\<rparr> = kc"
    using assms(1,2) by simp
  then show ?thesis using stakes.spend_le [OF assms(3,4), where kc = kc and f = "kc_max_position_fraction kc"] by simp
qed

lemma allocate_spends:
  "map al_buy_budget_usdc (allocate_in_order kc b cs)
     = spend_in_turn (\<lambda>b c. ks_stake_usdc (candidate_stake kc b c)) b cs"
  by (induction cs arbitrary: b) (simp_all add: Let_def reject_allocation_def sized_allocation_def)

lemma rank_rejected: "rank_candidate kc prob s = Inl a \<Longrightarrow> al_buy_budget_usdc a = 0"
  by (auto simp: rank_candidate_def Let_def reject_allocation_def split: option.splits if_splits)

lemma unrankable_zero: "a \<in> set (unrankable kc prob ms) \<Longrightarrow> al_buy_budget_usdc a = 0"
  by (auto simp: unrankable_def rank_rejected split: sum.splits)

lemma unrankable_sum: "sum_list (map al_buy_budget_usdc (unrankable kc prob ms)) = 0"
proof -
  have "map al_buy_budget_usdc (unrankable kc prob ms) = map (\<lambda>a. 0) (unrankable kc prob ms)"
    using unrankable_zero by (intro map_cong) auto
  then show ?thesis by (simp only: sum_list_0)
qed


lemma length_eligible: "length (eligible_candidates kc prob ms) \<le> length ms"
  by (induction ms) (auto simp: eligible_candidates_def split: sum.splits)

lemma length_by_rank [simp]: "length (by_rank cs) = length cs"
  by (simp add: by_rank_def)

subsection \<open>What a plan may spend\<close>

text \<open>
  C6: A plan spends at most the free bankroll. With a position fraction between 0 and 1, the budgets
  of one plan add up to at most the bankroll that the open exposure of the candidates leaves,
  times the allowed overbet ratio where that is above 1, and up to one decimal rounding per
  candidate; whatever the candidates, their probabilities and their order.
\<close>

theorem plan_within_bankroll:
  assumes "0 \<le> kc_max_position_fraction kc" "kc_max_position_fraction kc \<le> 1"
  shows "sum_list (map al_buy_budget_usdc (ap_allocations (kelly_plan trace bankroll budget ms prob kc)))
    \<le> max 1 (kc_max_overbet_ratio kc) * free_bankroll bankroll ms * (1 + dec_rel) ^ length ms"
proof -
  let ?b = "free_bankroll bankroll ms" and ?cs = "by_rank (eligible_candidates kc prob ms)"
  let ?R = "max 1 (kc_max_overbet_ratio kc)"
  have b: "0 \<le> ?b" "dround ?b = ?b" by (simp_all add: free_bankroll_def)
  have "sum_list (map al_buy_budget_usdc (allocate_in_order kc ?b ?cs)) \<le> ?R * ?b * (1 + dec_rel) ^ length ?cs"
    unfolding allocate_spends by (rule stakes_le [OF assms b])
  also have "\<dots> \<le> ?R * ?b * (1 + dec_rel) ^ length ms"
    using b length_eligible [of kc prob ms] by (intro mult_left_mono power_increasing) auto
  finally have le: "sum_list (map al_buy_budget_usdc (allocate_in_order kc ?b ?cs)) \<le> ?R * ?b * (1 + dec_rel) ^ length ms" .
  have "0 \<le> ?R * ?b * (1 + dec_rel) ^ length ms" using b by (intro mult_nonneg_nonneg) auto
  then show ?thesis using le by (simp add: kelly_plan_def Let_def unrankable_sum)
qed

subsection \<open>Every candidate is answered once\<close>

definition allocation_key :: "allocation \<Rightarrow> string \<times> string option" where
  "allocation_key a = (al_condition_id a, al_token_id a)"

definition market_key :: "allocation_market \<Rightarrow> string \<times> string option" where
  "market_key s = (am_condition_id s, Some (am_token_id s))"

lemma allocation_keys [simp]:
  "allocation_key (reject_allocation s e reason pv price k) = market_key s"
  "allocation_key (sized_allocation s e pv' price' k') = market_key s"
  by (simp_all add: allocation_key_def market_key_def reject_allocation_def sized_allocation_def)

lemma allocate_keys: "map allocation_key (allocate_in_order kc b cs) = map (market_key \<circ> pc_snapshot) cs"
  by (induction cs arbitrary: b) (simp_all add: Let_def)

lemma rank_keys:
  "rank_candidate kc prob s = Inl a \<Longrightarrow> allocation_key a = market_key s"
  "rank_candidate kc prob s = Inr c \<Longrightarrow> pc_snapshot c = s"
  by (auto simp: rank_candidate_def Let_def split: option.splits if_splits)

lemma ranked_or_rejected:
  "mset (map allocation_key (unrankable kc prob ms))
     + mset (map (market_key \<circ> pc_snapshot) (eligible_candidates kc prob ms)) = mset (map market_key ms)"
  by (induction ms)
    (auto simp: unrankable_def eligible_candidates_def rank_keys split: sum.splits)

lemma mset_by_rank: "mset (map f (by_rank cs)) = mset (map f cs)"
  by (simp add: by_rank_def)

lemma plan_keys:
  "mset (map allocation_key (ap_allocations (kelly_plan trace bankroll budget ms prob kc))) = mset (map market_key ms)"
  using ranked_or_rejected [of kc prob ms]
  by (cases "eligible_candidates kc prob ms = []")
    (simp_all add: kelly_plan_def Let_def allocate_keys mset_by_rank del: mset_map)

subsection \<open>What stands behind a budget\<close>

text \<open>The probability, the price, the edge after fees and the liquidity behind an allocation.\<close>

definition backed_allocation ::
  "kelly_settings \<Rightarrow> (allocation_market \<Rightarrow> prob_view) \<Rightarrow> allocation_market \<Rightarrow> allocation \<Rightarrow> bool" where
  "backed_allocation kc prob s a \<longleftrightarrow> allocation_key a = market_key s
     \<and> (case (pv_prob_p (prob s), effective_best_ask s) of
          (Some p, Some c) \<Rightarrow> 0 < c \<and> c < 1 \<and> 0 \<le> p \<and> p \<le> 1
            \<and> kc_min_edge kc \<le> dsub (dsub p c) (fee_per_share_usdc c
                (case mk_fee_rate_bps (am_market s) of
                   Some r \<Rightarrow> r | None \<Rightarrow> or_default (mk_taker_base_fee_bps (am_market s)) 0)
                (mk_fees_enabled (am_market s) \<noteq> Some False))
        | _ \<Rightarrow> False)
     \<and> (0 \<le> market_liquidity_usdc s \<longrightarrow> al_buy_budget_usdc a \<le> market_liquidity_usdc s)
     \<and> kc_min_stake_usdc kc \<le> al_buy_budget_usdc a"

lemma effective_min_ge: "m \<le> effective_min_stake m mm p"
  by (auto simp: effective_min_stake_def split: option.splits)

lemma kelly_size_fields:
  "ks_edge (kelly_size a) = dsub (dsub (ka_fair_value_p a) (ka_price_c a))
     (fee_per_share_usdc (ka_price_c a) (ka_fee_rate_bps a) (ka_fees_enabled a))"
  "ks_effective_min_stake_usdc (kelly_size a)
     = effective_min_stake (ka_min_stake_usdc a) (ka_market_min_order_size_shares a) (ka_price_c a)"
  by (simp_all add: kelly_size_def Let_def split: prod.splits)

lemma kelly_positive_accepted:
  "0 < ks_stake_usdc (kelly_stake a) \<Longrightarrow> ks_reject_reason (kelly_stake a) = None"
  using kelly_size_reject [of a]
  by (force simp: kelly_stake_def reject_with_zero_metrics_def split: option.splits)

lemma positive_stake:
  assumes "0 < ks_stake_usdc (kelly_stake a)"
  shows "0 < ka_price_c a" "ka_price_c a < 1" "0 \<le> ka_fair_value_p a" "ka_fair_value_p a \<le> 1"
    "ka_min_edge a \<le> dsub (dsub (ka_fair_value_p a) (ka_price_c a))
       (fee_per_share_usdc (ka_price_c a) (ka_fee_rate_bps a) (ka_fees_enabled a))"
    "ka_min_stake_usdc a \<le> ks_stake_usdc (kelly_stake a)"
    "ka_liquidity_usdc a = Some l \<Longrightarrow> 0 \<le> l \<Longrightarrow> ks_stake_usdc (kelly_stake a) \<le> l"
proof -
  note c = kelly_accept_size [OF kelly_positive_accepted [OF assms]]
  then have r: "ks_reject_reason (kelly_size a) = None" using kelly_positive_accepted [OF assms] by simp
  note acc = kelly_size_accept [OF r]
  show "0 < ka_price_c a" "0 \<le> ka_fair_value_p a" "ka_fair_value_p a \<le> 1"
    using c kelly_bounds_lower_pos [of "ka_market_tick_size a"] by (auto simp: kelly_precheck_None)
  show "ka_price_c a < 1" by (rule acc(1))
  show "ka_min_edge a \<le> dsub (dsub (ka_fair_value_p a) (ka_price_c a))
       (fee_per_share_usdc (ka_price_c a) (ka_fee_rate_bps a) (ka_fees_enabled a))"
    using acc(2) by (simp add: kelly_size_fields)
  show "ka_min_stake_usdc a \<le> ks_stake_usdc (kelly_stake a)"
    using order_trans [OF effective_min_ge acc(4) [unfolded kelly_size_fields(2)]] c by simp
  show "ka_liquidity_usdc a = Some l \<Longrightarrow> 0 \<le> l \<Longrightarrow> ks_stake_usdc (kelly_stake a) \<le> l"
    using acc(7) [of l] c by (simp add: usable_liquidity_def)
qed


lemma compute_kelly_backed:
  assumes "0 < ks_stake_usdc (compute_kelly kc s b (prob s) c)" "pv_prob_p (prob s) = Some p"
    and "effective_best_ask s = Some c"
  shows "backed_allocation kc prob s
    (sized_allocation s e pv c' (compute_kelly kc s b (prob s) c))"
  using positive_stake [OF assms(1) [unfolded compute_kelly_def]] assms(2,3)
  by (simp add: backed_allocation_def compute_kelly_def) (simp add: sized_allocation_def)

definition ranked :: "(allocation_market \<Rightarrow> prob_view) \<Rightarrow> allocation_market set \<Rightarrow> plan_candidate \<Rightarrow> bool" where
  "ranked prob M c \<longleftrightarrow> pc_snapshot c \<in> M \<and> pc_prob_view c = prob (pc_snapshot c)
     \<and> effective_best_ask (pc_snapshot c) = Some (pc_price_c c) \<and> pv_prob_p (prob (pc_snapshot c)) \<noteq> None"

lemma eligible_ranked: "c \<in> set (eligible_candidates kc prob ms) \<Longrightarrow> ranked prob (set ms) c"
  by (auto simp: eligible_candidates_def rank_candidate_def ranked_def Let_def
      split: sum.splits option.splits if_splits)

lemma allocated_backed:
  "\<lbrakk>a \<in> set (allocate_in_order kc b cs); 0 < al_buy_budget_usdc a; \<forall>c \<in> set cs. ranked prob M c\<rbrakk>
     \<Longrightarrow> \<exists>s \<in> M. backed_allocation kc prob s a"
proof (induction cs arbitrary: b)
  case (Cons c cs)
  let ?k = "candidate_stake kc b c"
  have c: "ranked prob M c" using Cons.prems(3) by simp
  show ?case
  proof (cases "ks_stake_usdc ?k \<le> 0")
    case True
    then show ?thesis using Cons by (auto simp: Let_def reject_allocation_def)
  next
    case False
    then consider "a = sized_allocation (pc_snapshot c) (pc_exposure_usdc c) (pc_prob_view c) (pc_price_c c) ?k"
      | b' where "a \<in> set (allocate_in_order kc b' cs)"
      using Cons.prems(1) by (auto simp: Let_def)
    then show ?thesis
    proof cases
      case 1
      have "backed_allocation kc prob (pc_snapshot c) a"
        unfolding 1 using c False compute_kelly_backed [of kc "pc_snapshot c" b prob "pc_price_c c"]
        by (auto simp: ranked_def candidate_stake_def)
      then show ?thesis using c by (auto simp: ranked_def)
    qed (use Cons in auto)
  qed
qed simp

lemma plan_backed:
  assumes "a \<in> set (ap_allocations (kelly_plan trace bankroll budget ms prob kc))" "0 < al_buy_budget_usdc a"
  shows "\<exists>s \<in> set ms. backed_allocation kc prob s a"
proof (rule allocated_backed)
  show "\<forall>c \<in> set (by_rank (eligible_candidates kc prob ms)). ranked prob (set ms) c"
    by (auto simp: by_rank_def eligible_ranked)
  show "a \<in> set (allocate_in_order kc (free_bankroll bankroll ms) (by_rank (eligible_candidates kc prob ms)))"
    using assms unrankable_zero [of a kc prob ms]
    by (auto simp: kelly_plan_def Let_def split: if_splits)
qed (rule assms(2))

text \<open>
  C8: A plan answers every candidate exactly once, and every dollar in it is backed: the condition and
  token of its allocations are those of the candidates, each as often; and an allocation with a
  positive budget belongs to a candidate with a probability and a price strictly between 0 and 1,
  whose edge after fees reaches the minimum, within the liquidity of its asks and not below the
  minimum stake.
\<close>

theorem plan_sound:
  "mset (map allocation_key (ap_allocations (kelly_plan trace bankroll budget ms prob kc))) = mset (map market_key ms)
   \<and> list_all (\<lambda>a. al_buy_budget_usdc a \<le> 0 \<or> list_ex (\<lambda>s. backed_allocation kc prob s a) ms)
       (ap_allocations (kelly_plan trace bankroll budget ms prob kc))"
proof (rule conjI [OF plan_keys], unfold list_all_iff list_ex_iff, intro ballI)
  fix a assume a: "a \<in> set (ap_allocations (kelly_plan trace bankroll budget ms prob kc))"
  show "al_buy_budget_usdc a \<le> 0 \<or> (\<exists>s \<in> set ms. backed_allocation kc prob s a)"
    using plan_backed [OF a] by (cases "0 < al_buy_budget_usdc a") simp_all
qed

subsection \<open>The settings of the program\<close>

text \<open>
  \<open>workflow/config.py\<close>: no cap on a single position, and a round-up to the market minimum may
  reach ten times what is left. With half a dollar left, a market whose minimum order costs two
  dollars gets two dollars: four times the free bankroll.
\<close>

definition default_kelly_settings :: kelly_settings where
  "default_kelly_settings = \<lparr>kc_fraction = 1/4, kc_max_position_fraction = 1, kc_min_edge = 2/100,
     kc_min_stake_usdc = 1, kc_allow_round_up = True, kc_max_overbet_ratio = 10\<rparr>"

definition demo_candidate :: allocation_market where
  "demo_candidate = \<lparr>am_market = (new_market ''c'' ''slug'' [])\<lparr>mk_min_order_size := 5\<rparr>,
     am_token_id = ''tok'', am_orderbook = None, am_position = None, am_open_orders = [],
     am_tradable = True, am_risk_allowed = True, am_market_active = True, am_market_open = True,
     am_clob_enabled = True, am_resolved = False, am_cancelled = False, am_archived = False,
     am_liquidity_usdc = Some 100, am_spread = None, am_best_ask = Some (2/5), am_best_ask_size = None,
     am_idempotency_key = None\<rparr>"

definition demo_prob :: "allocation_market \<Rightarrow> prob_view" where
  "demo_prob s = \<lparr>pv_prob_p = Some (3/5), pv_prob_confidence = 7/10, pv_source = ''math_prob''\<rparr>"

lemma default_settings_overspend:
  "free_bankroll (1/2) [demo_candidate] = 1/2"
  "map al_buy_budget_usdc (ap_allocations (kelly_plan ''tr'' (1/2) 100 [demo_candidate] demo_prob default_kelly_settings)) = [2]"
  by code_simp+

theorem plan_within_bankroll_witness:
  "(\<Sum>a\<leftarrow>ap_allocations (kelly_plan ''tr'' (1/2) 100 [demo_candidate] demo_prob default_kelly_settings).
      al_buy_budget_usdc a) \<le> 10 * (1/2) * (1 + dec_rel)"
  using plan_within_bankroll [of default_kelly_settings "''tr''" "1/2" 100 "[demo_candidate]" demo_prob]
    default_settings_overspend(1)
  by (simp add: default_kelly_settings_def)

end
