(* ===== verification/Live_Game.thy ===== *)
theory Live_Game
  imports Py_Time Order_Types
begin

text \<open>
  \<open>sports/types.py\<close> and \<open>sports/parsing.py\<close>: the state of a live game, and how it is read from
  the metadata of a decision. Every field of a decoded mapping may hold any value; a number is
  what Python's \<open>int\<close> makes of it, and a field it cannot read is missing. Decoded mappings hold
  no objects of the state classes, so the branches for those are left out. A time without
  offset is UTC.
\<close>

subsection \<open>Markets and sides\<close>

datatype market_type = MT_TOTALS | MT_MONEYLINE | MT_SPREADS | MT_BINARY_PROP

datatype market_family = MF_SINGLE_GAME | MF_SERIES | MF_OUTRIGHT | MF_ESPORTS | MF_UNSUPPORTED

datatype market_side = MS_OVER | MS_UNDER | MS_HOME | MS_AWAY | MS_YES | MS_NO

datatype game_status =
    GS_SCHEDULED | GS_LIVE | GS_PAUSED | GS_POSTPONED | GS_CANCELLED | GS_DISPUTED | GS_RETIRED
  | GS_ENDED | GS_UNKNOWN

fun game_status_value :: "game_status \<Rightarrow> string" where
  "game_status_value GS_SCHEDULED = ''scheduled''"
| "game_status_value GS_LIVE = ''live''"
| "game_status_value GS_PAUSED = ''paused''"
| "game_status_value GS_POSTPONED = ''postponed''"
| "game_status_value GS_CANCELLED = ''cancelled''"
| "game_status_value GS_DISPUTED = ''disputed''"
| "game_status_value GS_RETIRED = ''retired''"
| "game_status_value GS_ENDED = ''ended''"
| "game_status_value GS_UNKNOWN = ''unknown''"

definition game_statuses :: "game_status list" where
  "game_statuses = [GS_SCHEDULED, GS_LIVE, GS_PAUSED, GS_POSTPONED, GS_CANCELLED, GS_DISPUTED,
     GS_RETIRED, GS_ENDED, GS_UNKNOWN]"

subsection \<open>States of a game\<close>

record baseball_state =
  bb_current_inning :: "int option"
  bb_inning_half :: "string option"
  bb_outs :: "int option"
  bb_offense_team :: "string option"
  bb_defense_team :: "string option"
  bb_occupied_bases :: "int list"
  bb_home_inning_runs :: "int option list"
  bb_away_inning_runs :: "int option list"

record basketball_state =
  bk_current_period :: "int option"
  bk_home_quarter_scores :: "int option list"
  bk_away_quarter_scores :: "int option list"

record tennis_state =
  tn_home_sets_won :: int
  tn_away_sets_won :: int
  tn_current_set :: "int option"
  tn_home_current_set_games :: "int option"
  tn_away_current_set_games :: "int option"
  tn_home_total_games :: int
  tn_away_total_games :: int
  tn_set_scores :: "(int \<times> int) list"
  tn_home_point :: "string option"
  tn_away_point :: "string option"
  tn_first_to_serve :: "string option"
  tn_serving_side :: "string option"
  tn_best_of :: "int option"

record soccer_event =
  sv_event_type :: string
  sv_player_name :: string
  sv_player_id :: string
  sv_team :: string
  sv_minute :: string
  sv_score_after :: string

record soccer_state =
  sc_period :: "string option"
  sc_clock_minutes :: "int option"
  sc_added_minutes :: "int option"
  sc_home_red_cards :: int
  sc_away_red_cards :: int
  sc_home_yellow_cards :: int
  sc_away_yellow_cards :: int
  sc_last_event_minute :: "int option"
  sc_home_halftime_score :: "int option"
  sc_away_halftime_score :: "int option"
  sc_match_events :: "soccer_event list"

record esports_state =
  es_best_of :: "int option"
  es_current_map_index :: "int option"
  es_home_maps_won :: int
  es_away_maps_won :: int
  es_home_current_map_score :: "int option"
  es_away_current_map_score :: "int option"
  es_map_winners :: "string list"

record cricket_state =
  ck_current_innings :: "int option"
  ck_batting_side :: "string option"
  ck_runs :: "int option"
  ck_wickets :: "int option"
  ck_overs_completed :: "int option"
  ck_balls_in_over :: "int option"
  ck_target :: "int option"
  ck_required_runs :: "int option"
  ck_required_balls :: "int option"

record handball_state =
  hb_period :: "string option"
  hb_clock_minutes :: "int option"
  hb_home_period1 :: "int option"
  hb_away_period1 :: "int option"

record volleyball_state =
  vb_home_sets_won :: int
  vb_away_sets_won :: int
  vb_current_set :: "int option"
  vb_home_current_set_points :: "int option"
  vb_away_current_set_points :: "int option"

record live_game =
  lg_league :: string
  lg_home_name :: string
  lg_away_name :: string
  lg_home_score :: int
  lg_away_score :: int
  lg_period :: string
  lg_status :: game_status
  lg_seconds_remaining :: "int option"
  lg_observed_at :: "int option"
  lg_server_clock_at :: "int option"
  lg_source_conflicts :: "message list"
  lg_sport :: string
  lg_baseball :: "baseball_state option"
  lg_basketball :: "basketball_state option"
  lg_tennis :: "tennis_state option"
  lg_soccer :: "soccer_state option"
  lg_esports :: "esports_state option"
  lg_cricket :: "cricket_state option"
  lg_handball :: "handball_state option"
  lg_volleyball :: "volleyball_state option"

definition new_game :: "string \<Rightarrow> int \<Rightarrow> int \<Rightarrow> game_status \<Rightarrow> live_game" where
  "new_game sport home away status =
     \<lparr>lg_league = [], lg_home_name = ''home'', lg_away_name = ''away'', lg_home_score = home,
      lg_away_score = away, lg_period = [], lg_status = status, lg_seconds_remaining = None,
      lg_observed_at = None, lg_server_clock_at = None, lg_source_conflicts = [], lg_sport = sport,
      lg_baseball = None, lg_basketball = None, lg_tennis = None, lg_soccer = None, lg_esports = None,
      lg_cricket = None, lg_handball = None, lg_volleyball = None\<rparr>"

definition total_score :: "live_game \<Rightarrow> int" where
  "total_score g = lg_home_score g + lg_away_score g"

definition score_diff_for :: "live_game \<Rightarrow> market_side \<Rightarrow> int" where
  "score_diff_for g side = (case side of
       MS_HOME \<Rightarrow> lg_home_score g - lg_away_score g
     | MS_AWAY \<Rightarrow> lg_away_score g - lg_home_score g
     | _ \<Rightarrow> 0)"

subsection \<open>Reading the fields\<close>

definition optional_int :: "py_value \<Rightarrow> int option" where
  "optional_int v = (case py_int v of Inl e \<Rightarrow> None | Inr i \<Rightarrow> Some i)"

definition opt_field :: "message \<Rightarrow> string \<Rightarrow> string option" where
  "opt_field m k = (if mget m k = PNone then None else Some (py_str (mget m k)))"

definition int_field :: "message \<Rightarrow> string \<Rightarrow> int option" where
  "int_field m k = optional_int (mget m k)"

definition count_field :: "message \<Rightarrow> string \<Rightarrow> int" where
  "count_field m k = or_default (int_field m k) 0"

definition text_field :: "message \<Rightarrow> string \<Rightarrow> string \<Rightarrow> string" where
  "text_field m k d = py_str (py_or (mget m k) (PStr d))"

definition int_list :: "py_value \<Rightarrow> int option list" where
  "int_list v = (case v of PList xs \<Rightarrow> map optional_int xs | _ \<Rightarrow> [])"

definition game_status_of :: "py_value \<Rightarrow> game_status" where
  "game_status_of v =
     (let normalized = py_lower (py_strip (py_str (py_or v (PStr []))))
      in or_default (find (\<lambda>s. normalized = game_status_value s) game_statuses) GS_UNKNOWN)"

definition game_time :: "py_value \<Rightarrow> int option" where
  "game_time v = (if v = PNone then None else parse_iso (replace_z (py_str v)))"

definition source_conflicts :: "py_value \<Rightarrow> message list" where
  "source_conflicts v = (case v of
       PList xs \<Rightarrow> concat (map (\<lambda>x. case x of PDict d \<Rightarrow> [d] | _ \<Rightarrow> []) xs) | _ \<Rightarrow> [])"

subsection \<open>Reading the state of a sport\<close>

definition some_ints :: "py_value \<Rightarrow> int list" where
  "some_ints v = concat (map (\<lambda>x. case x of None \<Rightarrow> [] | Some i \<Rightarrow> [i]) (int_list v))"

definition read_baseball :: "py_value \<Rightarrow> baseball_state option" where
  "read_baseball v = (case v of
       PDict m \<Rightarrow> Some
         \<lparr>bb_current_inning = int_field m ''current_inning'',
          bb_inning_half = map_option (\<lambda>s. py_lower (py_strip s)) (opt_field m ''inning_half''),
          bb_outs = int_field m ''outs'', bb_offense_team = opt_field m ''offense_team'',
          bb_defense_team = opt_field m ''defense_team'',
          bb_occupied_bases = some_ints (mget m ''occupied_bases''),
          bb_home_inning_runs = int_list (mget m ''home_inning_runs''),
          bb_away_inning_runs = int_list (mget m ''away_inning_runs'')\<rparr>
     | _ \<Rightarrow> None)"

definition read_basketball :: "py_value \<Rightarrow> basketball_state option" where
  "read_basketball v = (case v of
       PDict m \<Rightarrow> Some
         \<lparr>bk_current_period = int_field m ''current_period'',
          bk_home_quarter_scores = int_list (mget m ''home_quarter_scores''),
          bk_away_quarter_scores = int_list (mget m ''away_quarter_scores'')\<rparr>
     | _ \<Rightarrow> None)"

definition set_score :: "py_value \<Rightarrow> (int \<times> int) list" where
  "set_score v =
     (case (case v of
              PDict m \<Rightarrow> (int_field m ''home'', int_field m ''away'')
            | PList (a # b # _) \<Rightarrow> (optional_int a, optional_int b)
            | _ \<Rightarrow> (None, None)) of
        (Some h, Some a) \<Rightarrow> [(h, a)]
      | _ \<Rightarrow> [])"

definition tennis_set_scores :: "py_value \<Rightarrow> (int \<times> int) list" where
  "tennis_set_scores v = (case v of PList xs \<Rightarrow> concat (map set_score xs) | _ \<Rightarrow> [])"

definition read_tennis :: "py_value \<Rightarrow> tennis_state option" where
  "read_tennis v = (case v of
       PDict m \<Rightarrow> Some
         \<lparr>tn_home_sets_won = count_field m ''home_sets_won'',
          tn_away_sets_won = count_field m ''away_sets_won'',
          tn_current_set = int_field m ''current_set'',
          tn_home_current_set_games = int_field m ''home_current_set_games'',
          tn_away_current_set_games = int_field m ''away_current_set_games'',
          tn_home_total_games = count_field m ''home_total_games'',
          tn_away_total_games = count_field m ''away_total_games'',
          tn_set_scores = tennis_set_scores (mget m ''set_scores''),
          tn_home_point = opt_field m ''home_point'', tn_away_point = opt_field m ''away_point'',
          tn_first_to_serve = opt_field m ''first_to_serve'',
          tn_serving_side = opt_field m ''serving_side'', tn_best_of = int_field m ''best_of''\<rparr>
     | _ \<Rightarrow> None)"

definition soccer_event_types :: "string list" where
  "soccer_event_types = [''goal'', ''yellowcard'', ''yellowred'', ''redcard'', ''subst'', ''var_cancelled'']"

definition read_soccer_event :: "py_value \<Rightarrow> soccer_event list" where
  "read_soccer_event v = (case v of
       PDict m \<Rightarrow>
         let ty = py_lower (py_strip (text_field m ''event_type'' []));
             team = py_lower (py_strip (text_field m ''team'' []));
             minute = py_strip (text_field m ''minute'' [])
         in if ty \<notin> set soccer_event_types \<or> team \<notin> {''home'', ''away''} \<or> minute = [] then []
            else [\<lparr>sv_event_type = ty, sv_player_name = text_field m ''player_name'' [],
                   sv_player_id = text_field m ''player_id'' [], sv_team = team, sv_minute = minute,
                   sv_score_after = text_field m ''score_after'' []\<rparr>]
     | _ \<Rightarrow> [])"

definition soccer_match_events :: "py_value \<Rightarrow> soccer_event list" where
  "soccer_match_events v = (case v of PList xs \<Rightarrow> concat (map read_soccer_event xs) | _ \<Rightarrow> [])"

definition read_soccer :: "py_value \<Rightarrow> soccer_state option" where
  "read_soccer v = (case v of
       PDict m \<Rightarrow> Some
         \<lparr>sc_period = opt_field m ''period'', sc_clock_minutes = int_field m ''clock_minutes'',
          sc_added_minutes = int_field m ''added_minutes'',
          sc_home_red_cards = count_field m ''home_red_cards'',
          sc_away_red_cards = count_field m ''away_red_cards'',
          sc_home_yellow_cards = count_field m ''home_yellow_cards'',
          sc_away_yellow_cards = count_field m ''away_yellow_cards'',
          sc_last_event_minute = int_field m ''last_event_minute'',
          sc_home_halftime_score = int_field m ''home_halftime_score'',
          sc_away_halftime_score = int_field m ''away_halftime_score'',
          sc_match_events = soccer_match_events (mget m ''match_events'')\<rparr>
     | _ \<Rightarrow> None)"

definition read_esports :: "py_value \<Rightarrow> esports_state option" where
  "read_esports v = (case v of
       PDict m \<Rightarrow> Some
         \<lparr>es_best_of = int_field m ''best_of'', es_current_map_index = int_field m ''current_map_index'',
          es_home_maps_won = count_field m ''home_maps_won'',
          es_away_maps_won = count_field m ''away_maps_won'',
          es_home_current_map_score = int_field m ''home_current_map_score'',
          es_away_current_map_score = int_field m ''away_current_map_score'',
          es_map_winners = (case mget m ''map_winners'' of PList xs \<Rightarrow> map py_str xs | _ \<Rightarrow> [])\<rparr>
     | _ \<Rightarrow> None)"

definition read_cricket :: "py_value \<Rightarrow> cricket_state option" where
  "read_cricket v = (case v of
       PDict m \<Rightarrow> Some
         \<lparr>ck_current_innings = int_field m ''current_innings'',
          ck_batting_side = opt_field m ''batting_side'', ck_runs = int_field m ''runs'',
          ck_wickets = int_field m ''wickets'', ck_overs_completed = int_field m ''overs_completed'',
          ck_balls_in_over = int_field m ''balls_in_over'', ck_target = int_field m ''target'',
          ck_required_runs = int_field m ''required_runs'',
          ck_required_balls = int_field m ''required_balls''\<rparr>
     | _ \<Rightarrow> None)"

definition read_handball :: "py_value \<Rightarrow> handball_state option" where
  "read_handball v = (case v of
       PDict m \<Rightarrow> Some
         \<lparr>hb_period = opt_field m ''period'', hb_clock_minutes = int_field m ''clock_minutes'',
          hb_home_period1 = int_field m ''home_period1'', hb_away_period1 = int_field m ''away_period1''\<rparr>
     | _ \<Rightarrow> None)"

definition read_volleyball :: "py_value \<Rightarrow> volleyball_state option" where
  "read_volleyball v = (case v of
       PDict m \<Rightarrow> Some
         \<lparr>vb_home_sets_won = count_field m ''home_sets_won'',
          vb_away_sets_won = count_field m ''away_sets_won'', vb_current_set = int_field m ''current_set'',
          vb_home_current_set_points = int_field m ''home_current_set_points'',
          vb_away_current_set_points = int_field m ''away_current_set_points''\<rparr>
     | _ \<Rightarrow> None)"

subsection \<open>Reading the game\<close>

definition read_game :: "message \<Rightarrow> live_game option" where
  "read_game m = (case (int_field m ''home_score'', int_field m ''away_score'') of
       (Some h, Some a) \<Rightarrow> Some
         \<lparr>lg_league = text_field m ''league'' [], lg_home_name = text_field m ''home_name'' ''home'',
          lg_away_name = text_field m ''away_name'' ''away'', lg_home_score = h, lg_away_score = a,
          lg_period = text_field m ''period'' [], lg_status = game_status_of (mget m ''status''),
          lg_seconds_remaining = int_field m ''seconds_remaining'',
          lg_observed_at = game_time (mget m ''observed_at''),
          lg_server_clock_at = game_time (mget m ''server_clock_at''),
          lg_source_conflicts = source_conflicts (mget m ''source_conflicts''),
          lg_sport = text_field m ''sport'' [], lg_baseball = read_baseball (mget m ''baseball_state''),
          lg_basketball = read_basketball (mget m ''basketball_state''),
          lg_tennis = read_tennis (mget m ''tennis_state''),
          lg_soccer = read_soccer (mget m ''soccer_state''),
          lg_esports = read_esports (mget m ''esports_state''),
          lg_cricket = read_cricket (mget m ''cricket_state''),
          lg_handball = read_handball (mget m ''handball_state''),
          lg_volleyball = read_volleyball (mget m ''volleyball_state'')\<rparr>
     | _ \<Rightarrow> None)"

definition live_game_from_metadata :: "message \<Rightarrow> live_game option" where
  "live_game_from_metadata md = (case mget md ''live_game'' of
       PNone \<Rightarrow> read_game md
     | PDict m \<Rightarrow> read_game m
     | _ \<Rightarrow> None)"

end
