(* ===== verification/Math_Prob.thy ===== *)
theory Math_Prob
  imports Live_Game
begin

text \<open>
  \<open>sports/math_prob.py\<close>: the probability that a token wins, from the state of the live game. The
  floating-point arithmetic and the functions of \<open>math\<close> are the argument \<open>mo\<close>: operations on a
  type of floats, the integer power of a \<open>Decimal\<close>, and the rounding of a float to a decimal of
  four places. No operation is asked for a root of a negative number or a quotient by zero, so
  no value is NaN. Of the audit details only \<open>outcome\<close> is kept, which the caller reads. A
  factorial past 170, which a line above 170 goals would need, is outside the model.
\<close>

record 'f math_ops =
  fm_float :: "decimal \<Rightarrow> 'f"
  fm_add :: "'f \<Rightarrow> 'f \<Rightarrow> 'f"
  fm_sub :: "'f \<Rightarrow> 'f \<Rightarrow> 'f"
  fm_mul :: "'f \<Rightarrow> 'f \<Rightarrow> 'f"
  fm_div :: "'f \<Rightarrow> 'f \<Rightarrow> 'f"
  fm_pow :: "'f \<Rightarrow> int \<Rightarrow> 'f"
  fm_less :: "'f \<Rightarrow> 'f \<Rightarrow> bool"
  fm_sqrt :: "'f \<Rightarrow> 'f"
  fm_exp :: "'f \<Rightarrow> 'f"
  fm_erf :: "'f \<Rightarrow> 'f"
  fm_erfc :: "'f \<Rightarrow> 'f"
  fm_trunc :: "'f \<Rightarrow> int"
  fm_round4 :: "'f \<Rightarrow> decimal"
  fm_dpow :: "decimal \<Rightarrow> int \<Rightarrow> decimal"

definition fm_int :: "('f, 'x) math_ops_scheme \<Rightarrow> int \<Rightarrow> 'f" where
  "fm_int mo i = fm_float mo (of_int i)"

definition fm_min :: "('f, 'x) math_ops_scheme \<Rightarrow> 'f \<Rightarrow> 'f \<Rightarrow> 'f" where
  "fm_min mo a b = (if fm_less mo b a then b else a)"

definition fm_max :: "('f, 'x) math_ops_scheme \<Rightarrow> 'f \<Rightarrow> 'f \<Rightarrow> 'f" where
  "fm_max mo a b = (if fm_less mo a b then b else a)"

definition fm_sum :: "('f, 'x) math_ops_scheme \<Rightarrow> 'f list \<Rightarrow> 'f" where
  "fm_sum mo xs = foldl (fm_add mo) (fm_float mo 0) xs"

text \<open>\<open>max(0.0, min(1.0, x))\<close>, and its decimal.\<close>

definition clamp_unit :: "('f, 'x) math_ops_scheme \<Rightarrow> 'f \<Rightarrow> 'f" where
  "clamp_unit mo x = fm_max mo (fm_float mo 0) (fm_min mo (fm_float mo 1) x)"

definition unit_decimal :: "('f, 'x) math_ops_scheme \<Rightarrow> 'f \<Rightarrow> decimal" where
  "unit_decimal mo x = fm_round4 mo (clamp_unit mo x)"

text \<open>The upper tail of the normal distribution.\<close>

definition upper_tail :: "('f, 'x) math_ops_scheme \<Rightarrow> 'f \<Rightarrow> 'f" where
  "upper_tail mo z = fm_mul mo (fm_float mo (1/2)) (fm_erfc mo (fm_div mo z (fm_sqrt mo (fm_float mo 2))))"

definition fm_compl :: "('f, 'x) math_ops_scheme \<Rightarrow> 'f \<Rightarrow> 'f" where
  "fm_compl mo p = fm_sub mo (fm_float mo 1) p"

text \<open>\<open>lam ** k * exp(-lam) / factorial(k)\<close>\<close>

definition poisson_term :: "('f, 'x) math_ops_scheme \<Rightarrow> 'f \<Rightarrow> int \<Rightarrow> 'f" where
  "poisson_term mo lam k =
     fm_div mo (fm_mul mo (fm_pow mo lam k) (fm_exp mo (fm_mul mo (fm_float mo (-1)) lam)))
       (fm_int mo (fact (nat k)))"

record math_prob_result =
  mp_probability :: decimal
  mp_method :: string
  mp_reason :: string
  mp_outcome :: "string option"

definition mprob :: "decimal \<Rightarrow> string \<Rightarrow> string \<Rightarrow> math_prob_result" where
  "mprob p m r = \<lparr>mp_probability = p, mp_method = m, mp_reason = r, mp_outcome = None\<rparr>"

definition decided :: "bool \<Rightarrow> string \<Rightarrow> string \<Rightarrow> math_prob_result" where
  "decided won m r = mprob (if won then 1 else 0) m r"

definition unsupported :: math_prob_result where
  "unsupported = mprob 0 ''unsupported'' ''market_or_sport_not_supported''"

text \<open>\<open>x or default\<close> of an optional number.\<close>

definition int_or :: "int option \<Rightarrow> int \<Rightarrow> int" where
  "int_or x d = (case x of None \<Rightarrow> d | Some i \<Rightarrow> if i = 0 then d else i)"

definition lowered :: "string option \<Rightarrow> string \<Rightarrow> string" where
  "lowered x d = py_lower (or_default (str_or x None) d)"

subsection \<open>Baseball\<close>

definition half_inning_dist :: "int \<Rightarrow> decimal" where
  "half_inning_dist k =
     (if k = 0 then 7/10 else if k = 1 then 2/10 else if k = 2 then 6/100 else if k = 3 then 25/1000
      else if k = 4 then 1/100 else if k = 5 then 4/1000 else 1/1000)"

definition remaining_half_innings :: "baseball_state \<Rightarrow> int" where
  "remaining_half_innings s = (case bb_current_inning s of
       None \<Rightarrow> 0
     | Some inning \<Rightarrow>
         let half = lowered (bb_inning_half s) ''top'' in
         if inning \<ge> 10 then (if half = ''top'' then 1 else 0)
         else if inning \<ge> 9 then (if half = ''top'' then 1 else 0)
         else max 0 (18 - ((inning - 1) * 2 + (if half = ''bottom'' then 1 else 0)) - 1))"

definition no_break :: "('f, 'x) math_ops_scheme \<Rightarrow> decimal \<Rightarrow> int \<Rightarrow> decimal" where
  "no_break mo window n_half =
     fm_dpow mo (dsub 1 (half_inning_dist (truncated window + 1))) n_half"

text \<open>
  \<open>quantize(Decimal("0.0001"))\<close>; a value between 0 and 1 always fits, see \<open>quantize_unit\<close>.
\<close>

definition four_places :: "decimal \<Rightarrow> decimal" where
  "four_places x = even_places 4 x"

definition mlb_totals_lock ::
  "('f, 'x) math_ops_scheme \<Rightarrow> market_side \<Rightarrow> decimal \<Rightarrow> live_game \<Rightarrow> math_prob_result" where
  "mlb_totals_lock mo side line g = (case lg_baseball g of
       None \<Rightarrow> mprob 0 ''mlb_totals'' ''missing_baseball_state''
     | Some s \<Rightarrow>
         if bb_current_inning s = None then mprob 0 ''mlb_totals'' ''missing_baseball_state''
         else let tot = of_int (total_score g); n_half = remaining_half_innings s in
         if side = MS_UNDER then
           (if tot \<ge> line then (mprob 1 ''mlb_totals_under'' ''already_exceeded_line_lose'')\<lparr>mp_outcome := Some ''lose''\<rparr>
            else if n_half \<le> 0 then (mprob 1 ''mlb_totals_under'' ''no_remaining_half_innings'')\<lparr>mp_outcome := Some ''win''\<rparr>
            else mprob (four_places (dsub 1 (dsub 1 (no_break mo (dsub line tot) n_half))))
                   ''mlb_totals_under'' ''live_estimate'')
         else if side = MS_OVER then
           (if tot > line then (mprob 1 ''mlb_totals_over'' ''already_exceeded_line_win'')\<lparr>mp_outcome := Some ''win''\<rparr>
            else if n_half \<le> 0 then (mprob 1 ''mlb_totals_over'' ''no_remaining_half_innings'')\<lparr>mp_outcome := Some ''lose''\<rparr>
            else mprob (four_places (dsub 1 (no_break mo (dadd (dsub line tot) (1/2)) n_half)))
                   ''mlb_totals_over'' ''live_estimate'')
         else unsupported)"

definition baseball_moneyline_lock ::
  "('f, 'x) math_ops_scheme \<Rightarrow> market_side \<Rightarrow> live_game \<Rightarrow> math_prob_result" where
  "baseball_moneyline_lock mo side g = (case lg_baseball g of
       None \<Rightarrow> mprob 0 ''baseball_ml'' ''missing_baseball_state''
     | Some s \<Rightarrow>
         if bb_current_inning s = None then mprob 0 ''baseball_ml'' ''missing_baseball_state''
         else if side \<notin> {MS_HOME, MS_AWAY} then mprob 0 ''baseball_ml'' ''unsupported_side''
         else let lead = score_diff_for g side; n_half = remaining_half_innings s in
         if lead \<le> 0 then mprob 0 ''baseball_ml'' ''side_not_leading''
         else if n_half \<le> 0 then (mprob 1 ''baseball_ml'' ''no_remaining_half_innings'')\<lparr>mp_outcome := Some ''win''\<rparr>
         else
           let var_diff = fm_mul mo (fm_mul mo (fm_float mo 2) (fm_float mo 1)) (fm_div mo (fm_int mo n_half) (fm_float mo 2));
               p_reversal = (if \<not> fm_less mo (fm_float mo (1/10000)) var_diff then fm_float mo 0
                  else upper_tail mo (fm_div mo (fm_int mo lead) (fm_sqrt mo var_diff)))
           in mprob (unit_decimal mo (fm_compl mo p_reversal)) ''baseball_ml'' ''live_estimate'')"

definition first_run :: "int option list \<Rightarrow> int option" where
  "first_run xs = (case xs of [] \<Rightarrow> None | x # _ \<Rightarrow> x)"

definition baseball_nrfi_lock ::
  "('f, 'x) math_ops_scheme \<Rightarrow> market_side \<Rightarrow> live_game \<Rightarrow> math_prob_result" where
  "baseball_nrfi_lock mo side g =
     (if side \<notin> {MS_YES, MS_NO} then mprob 0 ''baseball_nrfi'' ''unsupported_side''
      else case lg_baseball g of
        None \<Rightarrow> mprob 0 ''baseball_nrfi'' ''missing_baseball_state''
      | Some s \<Rightarrow>
          let h = first_run (bb_home_inning_runs s); a = first_run (bb_away_inning_runs s) in
          (case bb_current_inning s of
             None \<Rightarrow> mprob 0 ''baseball_nrfi'' ''missing_baseball_state''
           | Some inning \<Rightarrow>
               if inning \<ge> 2 then
                 (case (h, a) of
                    (Some h, Some a) \<Rightarrow>
                      decided ((h = 0 \<and> a = 0) = (side = MS_YES)) ''baseball_nrfi'' ''first_inning_completed''
                  | _ \<Rightarrow> mprob 0 ''baseball_nrfi'' ''missing_first_inning_runs'')
               else if or_default h 0 \<ge> 1 \<or> or_default a 0 \<ge> 1
               then decided (side = MS_NO) ''baseball_nrfi'' ''run_already_scored_in_first''
               else
                 let n = (if lowered (bb_inning_half s) ''top'' = ''bottom'' then 1 else 2);
                     p = fm_pow mo (fm_float mo (7/10)) n
                 in mprob (unit_decimal mo (if side = MS_YES then p else fm_compl mo p))
                      ''baseball_nrfi'' ''live_estimate''))"


subsection \<open>Time left\<close>

definition game_sport :: "live_game \<Rightarrow> string" where
  "game_sport g = py_lower (py_strip (lg_sport g))"

definition soccer_seconds :: "soccer_state \<Rightarrow> int option" where
  "soccer_seconds s =
     (let period = lowered (sc_period s) []; clock = int_or (sc_clock_minutes s) 0 in
      if period = ''first_half'' then Some (max 0 (108 - clock) * 60)
      else if period = ''halftime'' then Some ((45 + 3) * 60)
      else if period = ''second_half'' then Some (max 0 (48 - clock) * 60)
      else if period \<in> {''extra_time'', ''extra_time_first_half'', ''extra_time_second_half''} then Some (15 * 60)
      else if period = ''penalties'' then Some (5 * 60)
      else None)"

definition basketball_seconds :: "basketball_state \<Rightarrow> int option" where
  "basketball_seconds s = (case bk_current_period s of
       None \<Rightarrow> None
     | Some period \<Rightarrow> if period \<ge> 5 then Some (5 * 60) else Some (((4 - period) * 12 + 6) * 60))"

definition hockey_seconds :: "string \<Rightarrow> int option" where
  "hockey_seconds period =
     (if py_in ''overtime'' period \<or> py_in ''ot'' period then Some (5 * 60)
      else if py_in ''1st'' period \<or> py_in ''first'' period then Some ((10 + 20 + 20) * 60)
      else if py_in ''2nd'' period \<or> py_in ''second'' period then Some ((10 + 20) * 60)
      else if py_in ''3rd'' period \<or> py_in ''third'' period \<or> py_in ''final'' period then Some (10 * 60)
      else None)"

definition estimated_seconds :: "live_game \<Rightarrow> int option" where
  "estimated_seconds g =
     (let sport = game_sport g in
      if lg_soccer g \<noteq> None \<or> sport = ''soccer''
      then (case lg_soccer g of None \<Rightarrow> None | Some s \<Rightarrow> soccer_seconds s)
      else if lg_basketball g \<noteq> None \<or> sport = ''basketball''
      then (case lg_basketball g of None \<Rightarrow> None | Some s \<Rightarrow> basketball_seconds s)
      else if sport = ''hockey'' then hockey_seconds (py_lower (lg_period g))
      else None)"

definition estimate_remaining_seconds :: "live_game \<Rightarrow> int option" where
  "estimate_remaining_seconds g = (case lg_seconds_remaining g of
       Some s \<Rightarrow> if s > 0 then Some s else estimated_seconds g
     | None \<Rightarrow> estimated_seconds g)"

subsection \<open>Totals, leads and spreads\<close>

text \<open>\<open>remaining is None or remaining <= 0\<close>\<close>

definition no_time :: "int option \<Rightarrow> bool" where
  "no_time r = (case r of None \<Rightarrow> True | Some s \<Rightarrow> s \<le> 0)"

text \<open>A total against its line, and the total that already decides.\<close>

definition total_won :: "market_side \<Rightarrow> decimal \<Rightarrow> decimal \<Rightarrow> bool" where
  "total_won side line tot = (if side = MS_OVER then tot > line else tot < line)"

definition total_decided :: "market_side \<Rightarrow> decimal \<Rightarrow> decimal \<Rightarrow> bool" where
  "total_decided side line tot = (if side = MS_OVER then tot > line else tot \<ge> line)"

definition decided_total :: "market_side \<Rightarrow> string \<Rightarrow> math_prob_result" where
  "decided_total side m =
     (if side = MS_OVER then mprob 1 m ''already_over_win'' else mprob 0 m ''already_over_lose'')"

definition adjusted_lead :: "('f, 'x) math_ops_scheme \<Rightarrow> market_side \<Rightarrow> decimal \<Rightarrow> live_game \<Rightarrow> 'f" where
  "adjusted_lead mo side line g =
     fm_add mo (fm_int mo (score_diff_for g side)) (fm_float mo (if side = MS_HOME then line else - line))"

text \<open>\<open>1 - P(reversal)\<close> for a lead and its standard deviation.\<close>

definition hold_lead :: "('f, 'x) math_ops_scheme \<Rightarrow> 'f \<Rightarrow> 'f \<Rightarrow> decimal" where
  "hold_lead mo lead sigma = unit_decimal mo (fm_compl mo (upper_tail mo (fm_div mo lead sigma)))"

text \<open>The probability that a normal total passes the line.\<close>

definition normal_total ::
  "('f, 'x) math_ops_scheme \<Rightarrow> market_side \<Rightarrow> decimal \<Rightarrow> decimal \<Rightarrow> 'f \<Rightarrow> decimal" where
  "normal_total mo side line tot var =
     (let need = fm_add mo (fm_sub mo (fm_float mo line) (fm_float mo tot))
            (fm_float mo (if side = MS_OVER then 1/2 else 0));
          p_break = upper_tail mo (fm_div mo need (fm_sqrt mo var))
      in unit_decimal mo (if side = MS_OVER then p_break else fm_compl mo p_break))"

text \<open>\<open>P(Poisson(lam) >= need)\<close>\<close>

definition poisson_total ::
  "('f, 'x) math_ops_scheme \<Rightarrow> market_side \<Rightarrow> decimal \<Rightarrow> decimal \<Rightarrow> 'f \<Rightarrow> decimal" where
  "poisson_total mo side line tot lam =
     (let need = fm_trunc mo (fm_sub mo (fm_float mo line) (fm_float mo tot))
            + (if side = MS_OVER then 1 else 0);
          p_at_least = fm_compl mo (fm_sum mo (map (poisson_term mo lam) [0..max 0 need - 1]))
      in unit_decimal mo (if side = MS_OVER then p_at_least else fm_compl mo p_at_least))"

subsection \<open>Basketball\<close>

definition per_second :: "('f, 'x) math_ops_scheme \<Rightarrow> decimal \<Rightarrow> int \<Rightarrow> 'f" where
  "per_second mo rate seconds =
     fm_mul mo (fm_mul mo (fm_float mo 2) (fm_float mo rate)) (fm_int mo seconds)"

definition BASKETBALL_VAR :: decimal where "BASKETBALL_VAR = 18/100"

definition basketball_ml_lock ::
  "('f, 'x) math_ops_scheme \<Rightarrow> market_side \<Rightarrow> live_game \<Rightarrow> math_prob_result" where
  "basketball_ml_lock mo side g =
     (if side \<notin> {MS_HOME, MS_AWAY} then mprob 0 ''basketball_ml'' ''unsupported_side''
      else let lead = score_diff_for g side in
      if lead \<le> 0 then mprob 0 ''basketball_ml'' ''side_not_leading''
      else case estimate_remaining_seconds g of
          None \<Rightarrow> mprob 0 ''basketball_ml'' ''missing_remaining_time''
        | Some r \<Rightarrow>
            if r \<le> 0 then mprob 1 ''basketball_ml'' ''no_remaining_time''
            else mprob (hold_lead mo (fm_int mo lead) (fm_sqrt mo (per_second mo BASKETBALL_VAR r)))
                   ''basketball_ml'' ''live_estimate'')"

definition is_nba_q4_endgame :: "live_game \<Rightarrow> int \<Rightarrow> bool" where
  "is_nba_q4_endgame g remaining \<longleftrightarrow>
     take 3 (py_upper (lg_league g)) = ''NBA'' \<and> take 4 (py_upper (lg_league g)) \<noteq> ''WNBA''
     \<and> (case lg_basketball g of None \<Rightarrow> False | Some s \<Rightarrow> bk_current_period s = Some 4)
     \<and> remaining < 240"

definition basketball_totals_lock ::
  "('f, 'x) math_ops_scheme \<Rightarrow> market_side \<Rightarrow> decimal \<Rightarrow> live_game \<Rightarrow> math_prob_result" where
  "basketball_totals_lock mo side line g =
     (if side \<notin> {MS_OVER, MS_UNDER} then mprob 0 ''basketball_totals'' ''unsupported_side''
      else let tot = of_int (total_score g); remaining = estimate_remaining_seconds g in
      if no_time remaining then decided (total_won side line tot) ''basketball_totals'' ''game_ended''
      else if total_decided side line tot then decided_total side ''basketball_totals''
      else let r = the remaining; var = per_second mo BASKETBALL_VAR r in
        mprob (normal_total mo side line tot
            (if is_nba_q4_endgame g r then fm_mul mo var (fm_float mo (7/10)) else var))
          ''basketball_totals'' ''live_estimate'')"

definition basketball_spreads_lock ::
  "('f, 'x) math_ops_scheme \<Rightarrow> market_side \<Rightarrow> decimal \<Rightarrow> live_game \<Rightarrow> math_prob_result" where
  "basketball_spreads_lock mo side line g =
     (if side \<notin> {MS_HOME, MS_AWAY} then mprob 0 ''basketball_spreads'' ''unsupported_side''
      else let adj = adjusted_lead mo side line g; remaining = estimate_remaining_seconds g;
               ahead = fm_less mo (fm_float mo 0) adj in
      if no_time remaining then decided ahead ''basketball_spreads'' ''no_remaining_time''
      else if \<not> ahead then mprob 0 ''basketball_spreads'' ''not_leading_after_handicap''
      else mprob (hold_lead mo adj (fm_sqrt mo (per_second mo BASKETBALL_VAR (the remaining))))
             ''basketball_spreads'' ''live_estimate'')"

subsection \<open>Soccer\<close>

definition SOCCER_GOAL_RATE :: decimal where "SOCCER_GOAL_RATE = 233/1000000"

definition goal_rate :: "('f, 'x) math_ops_scheme \<Rightarrow> decimal \<Rightarrow> int \<Rightarrow> 'f" where
  "goal_rate mo rate seconds = fm_mul mo (fm_float mo rate) (fm_int mo seconds)"

definition goal_sigma :: "('f, 'x) math_ops_scheme \<Rightarrow> 'f \<Rightarrow> 'f" where
  "goal_sigma mo lam = fm_sqrt mo (fm_mul mo (fm_float mo 2) lam)"

definition negligible :: "('f, 'x) math_ops_scheme \<Rightarrow> 'f \<Rightarrow> bool" where
  "negligible mo sigma \<longleftrightarrow> \<not> fm_less mo (fm_float mo (1/100)) sigma"

definition soccer_ml_lock ::
  "('f, 'x) math_ops_scheme \<Rightarrow> market_side \<Rightarrow> live_game \<Rightarrow> math_prob_result" where
  "soccer_ml_lock mo side g =
     (if side \<notin> {MS_HOME, MS_AWAY} then mprob 0 ''soccer_ml'' ''unsupported_side''
      else let lead = score_diff_for g side; remaining = estimate_remaining_seconds g in
      if no_time remaining then decided (lead > 0) ''soccer_ml'' ''no_remaining_time''
      else let sigma = goal_sigma mo (goal_rate mo SOCCER_GOAL_RATE (the remaining)) in
      if negligible mo sigma then decided (lead > 0) ''soccer_ml'' ''negligible_remaining''
      else if lead \<le> 0 then mprob 0 ''soccer_ml'' ''not_leading''
      else mprob (hold_lead mo (fm_int mo lead) sigma) ''soccer_ml'' ''live_estimate'')"

definition soccer_totals_lock ::
  "('f, 'x) math_ops_scheme \<Rightarrow> market_side \<Rightarrow> decimal \<Rightarrow> live_game \<Rightarrow> math_prob_result" where
  "soccer_totals_lock mo side line g =
     (if side \<notin> {MS_OVER, MS_UNDER} then mprob 0 ''soccer_totals'' ''unsupported_side''
      else let tot = of_int (total_score g); remaining = estimate_remaining_seconds g in
      if no_time remaining then decided (total_won side line tot) ''soccer_totals'' ''game_ended''
      else if total_decided side line tot then decided_total side ''soccer_totals''
      else mprob (poisson_total mo side line tot (per_second mo SOCCER_GOAL_RATE (the remaining)))
             ''soccer_totals'' ''live_estimate'')"

definition soccer_spreads_lock ::
  "('f, 'x) math_ops_scheme \<Rightarrow> market_side \<Rightarrow> decimal \<Rightarrow> live_game \<Rightarrow> math_prob_result" where
  "soccer_spreads_lock mo side line g =
     (if side \<notin> {MS_HOME, MS_AWAY} then mprob 0 ''soccer_spreads'' ''unsupported_side''
      else let adj = adjusted_lead mo side line g; remaining = estimate_remaining_seconds g;
               ahead = fm_less mo (fm_float mo 0) adj in
      if no_time remaining then decided ahead ''soccer_spreads'' ''no_remaining_time''
      else if \<not> ahead then mprob 0 ''soccer_spreads'' ''not_leading_after_handicap''
      else let sigma = goal_sigma mo (goal_rate mo SOCCER_GOAL_RATE (the remaining)) in
      if negligible mo sigma then mprob 1 ''soccer_spreads'' ''negligible_remaining''
      else mprob (hold_lead mo adj sigma) ''soccer_spreads'' ''live_estimate'')"

text \<open>The result at half time; the directions are \<open>home\<close>, \<open>draw\<close> and \<open>away\<close>.\<close>

definition halftime_score :: "soccer_state \<Rightarrow> live_game \<Rightarrow> int \<times> int" where
  "halftime_score s g =
     (if lowered (sc_period s) [] = ''first_half'' then (lg_home_score g, lg_away_score g)
      else (or_default (sc_home_halftime_score s) (lg_home_score g),
            or_default (sc_away_halftime_score s) (lg_away_score g)))"

definition score_direction :: "int \<times> int \<Rightarrow> string" where
  "score_direction sc = (if fst sc > snd sc then ''home'' else if fst sc < snd sc then ''away'' else ''draw'')"

definition soccer_halftime_lock ::
  "('f, 'x) math_ops_scheme \<Rightarrow> market_side \<Rightarrow> string \<Rightarrow> live_game \<Rightarrow> math_prob_result" where
  "soccer_halftime_lock mo side direction g = (case lg_soccer g of
       None \<Rightarrow> mprob 0 ''soccer_halftime'' ''missing_soccer_state''
     | Some s \<Rightarrow>
         let period = lowered (sc_period s) []; won = (score_direction (halftime_score s g) = direction) in
         if period \<in> {''second_half'', ''ended'', ''full_time'', ''halftime''}
         then decided (won = (side = MS_YES)) ''soccer_halftime'' ''halftime_settled''
         else if period \<noteq> ''first_half'' then mprob 0 ''soccer_halftime'' ''unknown_period''
         else
           let remaining = max 0 (45 - int_or (sc_clock_minutes s) 0) + 3;
               p_any_goal = dsub 1 (fm_dpow mo (dsub 1 (25/1000)) (remaining * 2));
               p_stay = dsub 1 (dmul p_any_goal (1/2));
               p_flip = dmul (dsub 1 p_stay) (1/2)
           in mprob (four_places (if won = (side = MS_YES) then p_stay else p_flip))
                ''soccer_halftime'' ''live_estimate'')"

definition soccer_btts_lock ::
  "('f, 'x) math_ops_scheme \<Rightarrow> market_side \<Rightarrow> live_game \<Rightarrow> math_prob_result" where
  "soccer_btts_lock mo side g =
     (if side \<notin> {MS_YES, MS_NO} then mprob 0 ''soccer_btts'' ''unsupported_side''
      else let h = lg_home_score g; a = lg_away_score g; both = (h \<ge> 1 \<and> a \<ge> 1) in
      case estimate_remaining_seconds g of
        None \<Rightarrow> mprob 0 ''soccer_btts'' ''missing_remaining_time''
      | Some r \<Rightarrow>
          if r \<le> 0 \<or> lg_status g = GS_ENDED then decided (both = (side = MS_YES)) ''soccer_btts'' ''game_ended''
          else if both then decided (side = MS_YES) ''soccer_btts'' ''both_already_scored''
          else
            let lam = goal_rate mo SOCCER_GOAL_RATE r;
                p_scores = fm_compl mo (fm_exp mo (fm_mul mo (fm_float mo (-1)) lam));
                p_yes = (if h = 0 \<and> a = 0 then fm_pow mo p_scores 2 else p_scores)
            in mprob (unit_decimal mo (if side = MS_YES then p_yes else fm_compl mo p_yes))
                 ''soccer_btts'' ''live_estimate'')"

definition draw_probability :: "('f, 'x) math_ops_scheme \<Rightarrow> 'f \<Rightarrow> int \<Rightarrow> 'f" where
  "draw_probability mo lam diff =
     (let max_k = max 3 (fm_trunc mo (fm_mul mo lam (fm_float mo 5))) in
      fm_sum mo (map (\<lambda>k. fm_mul mo (poisson_term mo lam k)
            (if k + diff \<le> max_k then poisson_term mo lam (k + diff) else fm_float mo 0))
        (filter (\<lambda>k. k + diff \<ge> 0) [0..max_k])))"

definition soccer_draw_ft_lock ::
  "('f, 'x) math_ops_scheme \<Rightarrow> market_side \<Rightarrow> live_game \<Rightarrow> math_prob_result" where
  "soccer_draw_ft_lock mo side g =
     (if side \<notin> {MS_YES, MS_NO} then mprob 0 ''soccer_draw_ft'' ''unsupported_side''
      else let diff = lg_home_score g - lg_away_score g in
      case estimate_remaining_seconds g of
        None \<Rightarrow> mprob 0 ''soccer_draw_ft'' ''missing_remaining_time''
      | Some r \<Rightarrow>
          if r \<le> 0 \<or> lg_status g = GS_ENDED then decided ((diff = 0) = (side = MS_YES)) ''soccer_draw_ft'' ''game_ended''
          else let p_draw = draw_probability mo (goal_rate mo SOCCER_GOAL_RATE r) diff in
            mprob (unit_decimal mo (if side = MS_YES then p_draw else fm_compl mo p_draw))
              ''soccer_draw_ft'' ''live_estimate'')"


subsection \<open>Tennis\<close>

text \<open>\<open>math.comb(n, k)\<close> for a \<open>k\<close> that is not negative.\<close>

definition py_comb :: "int \<Rightarrow> int \<Rightarrow> int result" where
  "py_comb n k = (if n < 0 then Inl (ValueError ''n must be a non-negative integer'')
     else Inr (int (nat n choose nat k)))"

fun results :: "'a result list \<Rightarrow> 'a list result" where
  "results [] = Inr []"
| "results (r # rs) = bind_result r (\<lambda>x. bind_result (results rs) (\<lambda>xs. Inr (x # xs)))"

text \<open>Who first wins the sets (games) still needed, each won with the same probability.\<close>

definition race_terms :: "('f, 'x) math_ops_scheme \<Rightarrow> 'f \<Rightarrow> int \<Rightarrow> int \<Rightarrow> 'f list result" where
  "race_terms mo p my_need opp_need =
     results (map (\<lambda>opp_wins.
         bind_result (py_comb (my_need + opp_wins - 1) opp_wins) (\<lambda>c.
           Inr (fm_mul mo (fm_mul mo (fm_int mo c) (fm_pow mo p my_need))
                  (fm_pow mo (fm_compl mo p) opp_wins))))
       [0..opp_need - 1])"

definition race_probability :: "('f, 'x) math_ops_scheme \<Rightarrow> 'f \<Rightarrow> int \<Rightarrow> int \<Rightarrow> decimal result" where
  "race_probability mo p my_need opp_need =
     bind_result (race_terms mo p my_need opp_need) (\<lambda>ts. Inr (unit_decimal mo (fm_sum mo ts)))"

definition tennis_ml_lock ::
  "('f, 'x) math_ops_scheme \<Rightarrow> market_side \<Rightarrow> live_game \<Rightarrow> math_prob_result result" where
  "tennis_ml_lock mo side g = (case lg_tennis g of
       None \<Rightarrow> Inr (mprob 0 ''tennis_ml'' ''missing_tennis_state'')
     | Some s \<Rightarrow>
         if side \<notin> {MS_HOME, MS_AWAY} then Inr (mprob 0 ''tennis_ml'' ''unsupported_side'')
         else
           let my_sets = (if side = MS_HOME then tn_home_sets_won s else tn_away_sets_won s);
               opp_sets = (if side = MS_HOME then tn_away_sets_won s else tn_home_sets_won s);
               best_of = int_or (tn_best_of s) 3;
               need_sets = best_of div 2 + 1
           in if my_sets \<ge> need_sets then Inr (mprob 1 ''tennis_ml'' ''match_already_won'')
              else if opp_sets \<ge> need_sets then Inr (mprob 0 ''tennis_ml'' ''match_already_lost'')
              else if need_sets - opp_sets > best_of - my_sets - opp_sets
              then Inr (mprob 1 ''tennis_ml'' ''opp_cannot_win'')
              else bind_result
                (race_probability mo (fm_float mo (if my_sets > opp_sets then 55/100 else 45/100))
                  (need_sets - my_sets) (need_sets - opp_sets))
                (\<lambda>p. Inr (mprob p ''tennis_ml'' ''live_estimate'')))"

definition tennis_totals_lock ::
  "('f, 'x) math_ops_scheme \<Rightarrow> market_side \<Rightarrow> decimal \<Rightarrow> live_game \<Rightarrow> math_prob_result" where
  "tennis_totals_lock mo side line g = (case lg_tennis g of
       None \<Rightarrow> mprob 0 ''tennis_totals'' ''missing_tennis_state''
     | Some s \<Rightarrow>
         if side \<notin> {MS_OVER, MS_UNDER} then mprob 0 ''tennis_totals'' ''unsupported_side''
         else
           let played = tn_home_total_games s + tn_away_total_games s;
               best_of = int_or (tn_best_of s) 3;
               least = max 0 (best_of div 2 + 1 - max (tn_home_sets_won s) (tn_away_sets_won s));
               most = best_of - (tn_home_sets_won s + tn_away_sets_won s)
           in if most \<le> 0 then decided (total_won side line (of_int played)) ''tennis_totals'' ''match_ended''
              else
                let expected = fm_add mo (fm_int mo played)
                      (fm_mul mo (fm_div mo (fm_int mo (least + most)) (fm_float mo 2)) (fm_float mo 10));
                    sigma = fm_mul mo (fm_sqrt mo (fm_int mo most)) (fm_float mo 4)
                in if negligible mo sigma
                   then decided (total_won side line (of_int played)) ''tennis_totals'' ''negligible_remaining''
                   else
                     let p_above = upper_tail mo (fm_div mo (fm_sub mo (fm_float mo line) expected) sigma)
                     in mprob (unit_decimal mo (if side = MS_OVER then p_above else fm_compl mo p_above))
                          ''tennis_totals'' ''live_estimate'')"

text \<open>The share of games won in the set so far, kept between 0.3 and 0.7.\<close>

definition game_share :: "('f, 'x) math_ops_scheme \<Rightarrow> int \<Rightarrow> int \<Rightarrow> 'f" where
  "game_share mo my_games opp_games =
     fm_max mo (fm_float mo (3/10)) (fm_min mo (fm_float mo (7/10))
       (if my_games + opp_games > 0 then fm_div mo (fm_int mo my_games) (fm_int mo (my_games + opp_games))
        else fm_float mo (1/2)))"

definition tennis_set_winner_lock ::
  "('f, 'x) math_ops_scheme \<Rightarrow> market_side \<Rightarrow> live_game \<Rightarrow> math_prob_result result" where
  "tennis_set_winner_lock mo side g = (case lg_tennis g of
       None \<Rightarrow> Inr (mprob 0 ''tennis_set_winner'' ''missing_tennis_state'')
     | Some s \<Rightarrow>
         if side \<notin> {MS_HOME, MS_AWAY} then Inr (mprob 0 ''tennis_set_winner'' ''unsupported_side'')
         else
           (case (if side = MS_HOME then (tn_home_current_set_games s, tn_away_current_set_games s)
                  else (tn_away_current_set_games s, tn_home_current_set_games s)) of
              (Some my, Some opp) \<Rightarrow>
                if my \<ge> 6 \<and> my \<ge> opp + 2 then Inr (mprob 1 ''tennis_set_winner'' ''set_already_won'')
                else if opp \<ge> 6 \<and> opp \<ge> my + 2 then Inr (mprob 0 ''tennis_set_winner'' ''set_already_lost'')
                else
                  let target = (if max my opp \<ge> 6 then 7 else 6)
                  in bind_result (race_probability mo (game_share mo my opp)
                       (max 0 (target - my)) (max 0 (target - opp)))
                     (\<lambda>p. Inr (mprob p ''tennis_set_winner'' ''live_estimate''))
            | _ \<Rightarrow> Inr (mprob 0 ''tennis_set_winner'' ''missing_set_games'')))"

subsection \<open>Hockey\<close>

definition HOCKEY_GOAL_RATE :: decimal where "HOCKEY_GOAL_RATE = 833/1000000"

definition hockey_ml_lock ::
  "('f, 'x) math_ops_scheme \<Rightarrow> market_side \<Rightarrow> live_game \<Rightarrow> math_prob_result" where
  "hockey_ml_lock mo side g =
     (if side \<notin> {MS_HOME, MS_AWAY} then mprob 0 ''hockey_ml'' ''unsupported_side''
      else let lead = score_diff_for g side; remaining = estimate_remaining_seconds g in
      if lead \<le> 0 then mprob 0 ''hockey_ml'' ''not_leading''
      else if no_time remaining then mprob 1 ''hockey_ml'' ''no_remaining_time''
      else let sigma = goal_sigma mo (goal_rate mo HOCKEY_GOAL_RATE (the remaining)) in
      if negligible mo sigma then mprob 1 ''hockey_ml'' ''negligible_remaining''
      else mprob (hold_lead mo (fm_int mo lead) sigma) ''hockey_ml'' ''live_estimate'')"

definition hockey_spreads_lock ::
  "('f, 'x) math_ops_scheme \<Rightarrow> market_side \<Rightarrow> decimal \<Rightarrow> live_game \<Rightarrow> math_prob_result" where
  "hockey_spreads_lock mo side line g =
     (if side \<notin> {MS_HOME, MS_AWAY} then mprob 0 ''hockey_spreads'' ''unsupported_side''
      else let adj = adjusted_lead mo side line g; ahead = fm_less mo (fm_float mo 0) adj in
      case estimate_remaining_seconds g of
        None \<Rightarrow> mprob 0 ''hockey_spreads'' ''missing_remaining_time''
      | Some r \<Rightarrow>
          if r \<le> 0 then decided ahead ''hockey_spreads'' ''no_remaining_time''
          else if \<not> ahead then mprob 0 ''hockey_spreads'' ''not_leading_after_handicap''
          else let sigma = goal_sigma mo (goal_rate mo HOCKEY_GOAL_RATE r) in
          if negligible mo sigma then mprob 1 ''hockey_spreads'' ''negligible_remaining''
          else mprob (hold_lead mo adj sigma) ''hockey_spreads'' ''live_estimate'')"

definition hockey_totals_lock ::
  "('f, 'x) math_ops_scheme \<Rightarrow> market_side \<Rightarrow> decimal \<Rightarrow> live_game \<Rightarrow> math_prob_result" where
  "hockey_totals_lock mo side line g =
     (if side \<notin> {MS_OVER, MS_UNDER} then mprob 0 ''hockey_totals'' ''unsupported_side''
      else let tot = of_int (total_score g); remaining = estimate_remaining_seconds g in
      if no_time remaining then decided (total_won side line tot) ''hockey_totals'' ''game_ended''
      else if total_decided side line tot then decided_total side ''hockey_totals''
      else mprob (poisson_total mo side line tot (per_second mo HOCKEY_GOAL_RATE (the remaining)))
             ''hockey_totals'' ''live_estimate'')"

subsection \<open>American football\<close>

definition NFL_VAR :: decimal where "NFL_VAR = 5/100"

definition nfl_ml_lock ::
  "('f, 'x) math_ops_scheme \<Rightarrow> market_side \<Rightarrow> live_game \<Rightarrow> math_prob_result" where
  "nfl_ml_lock mo side g =
     (if side \<notin> {MS_HOME, MS_AWAY} then mprob 0 ''nfl_ml'' ''unsupported_side''
      else let lead = score_diff_for g side in
      if lead \<le> 0 then mprob 0 ''nfl_ml'' ''not_leading''
      else case estimate_remaining_seconds g of
          None \<Rightarrow> mprob 0 ''nfl_ml'' ''missing_remaining_time''
        | Some r \<Rightarrow>
            if r \<le> 0 then mprob 1 ''nfl_ml'' ''no_remaining_time''
            else mprob (hold_lead mo (fm_int mo lead) (fm_sqrt mo (per_second mo NFL_VAR r)))
                   ''nfl_ml'' ''live_estimate'')"

definition nfl_totals_lock ::
  "('f, 'x) math_ops_scheme \<Rightarrow> market_side \<Rightarrow> decimal \<Rightarrow> live_game \<Rightarrow> math_prob_result" where
  "nfl_totals_lock mo side line g =
     (if side \<notin> {MS_OVER, MS_UNDER} then mprob 0 ''nfl_totals'' ''unsupported_side''
      else let tot = of_int (total_score g) in
      case estimate_remaining_seconds g of
        None \<Rightarrow> mprob 0 ''nfl_totals'' ''missing_remaining_time''
      | Some r \<Rightarrow>
          if r \<le> 0 then decided (total_won side line tot) ''nfl_totals'' ''game_ended''
          else if total_decided side line tot then decided_total side ''nfl_totals''
          else mprob (normal_total mo side line tot (per_second mo NFL_VAR r)) ''nfl_totals'' ''live_estimate'')"

definition nfl_spreads_lock ::
  "('f, 'x) math_ops_scheme \<Rightarrow> market_side \<Rightarrow> decimal \<Rightarrow> live_game \<Rightarrow> math_prob_result" where
  "nfl_spreads_lock mo side line g =
     (if side \<notin> {MS_HOME, MS_AWAY} then mprob 0 ''nfl_spreads'' ''unsupported_side''
      else let adj = adjusted_lead mo side line g; ahead = fm_less mo (fm_float mo 0) adj in
      case estimate_remaining_seconds g of
        None \<Rightarrow> mprob 0 ''nfl_spreads'' ''missing_remaining_time''
      | Some r \<Rightarrow>
          if r \<le> 0 then decided ahead ''nfl_spreads'' ''no_remaining_time''
          else if \<not> ahead then mprob 0 ''nfl_spreads'' ''not_leading_after_handicap''
          else mprob (hold_lead mo adj (fm_sqrt mo (per_second mo NFL_VAR r))) ''nfl_spreads'' ''live_estimate'')"

subsection \<open>Cricket\<close>

definition cricket_chase_lock ::
  "('f, 'x) math_ops_scheme \<Rightarrow> market_side \<Rightarrow> live_game \<Rightarrow> math_prob_result" where
  "cricket_chase_lock mo side g =
     (case (lg_cricket g, Option.bind (lg_cricket g) ck_target) of
        (Some s, Some target) \<Rightarrow>
          if side \<notin> {MS_HOME, MS_AWAY} then mprob 0 ''cricket_ml'' ''unsupported_side''
          else
            let need = target - int_or (ck_runs s) 0; balls = int_or (ck_required_balls s) 0;
                wickets_left = max 0 (10 - int_or (ck_wickets s) 0);
                bat = lowered (ck_batting_side s) [];
                batting = (side = MS_HOME \<and> bat = ''home'' \<or> side = MS_AWAY \<and> bat = ''away'')
            in if need \<le> 0 then decided batting ''cricket_ml'' ''chase_target_reached''
               else if balls \<le> 0 \<or> wickets_left \<le> 0
               then decided (\<not> batting) ''cricket_ml'' ''no_remaining_balls_or_wickets''
               else
                 let std = fm_sqrt mo (fm_mul mo (fm_int mo balls) (fm_float mo 2));
                     z = (if fm_less mo (fm_float mo 0) std
                          then fm_div mo (fm_sub mo (fm_mul mo (fm_int mo balls) (fm_float mo 1)) (fm_int mo need)) std
                          else fm_float mo 0);
                     p_chase = fm_mul mo (fm_float mo (1/2))
                        (fm_add mo (fm_float mo 1) (fm_erf mo (fm_div mo z (fm_sqrt mo (fm_float mo 2)))));
                     factor = fm_min mo (fm_float mo 1) (fm_div mo (fm_int mo wickets_left) (fm_float mo 5));
                     p_win = clamp_unit mo (fm_mul mo p_chase factor)
                 in mprob (fm_round4 mo (if batting then p_win else fm_compl mo p_win))
                      ''cricket_ml'' ''live_estimate''
      | _ \<Rightarrow> mprob 0 ''cricket_ml'' ''missing_cricket_target'')"

subsection \<open>Dispatch\<close>

definition sub_scope_tokens :: "string list" where
  "sub_scope_tokens =
     [''first-set'', ''second-set'', ''third-set'', ''fourth-set'', ''fifth-set'',
      ''set-1'', ''set-2'', ''set-3'', ''set-4'', ''set-5'',
      ''first-half'', ''second-half'', ''1st-half'', ''2nd-half'', ''1h-'', ''2h-'',
      ''first-quarter'', ''second-quarter'', ''third-quarter'', ''fourth-quarter'',
      ''1st-quarter'', ''2nd-quarter'', ''3rd-quarter'', ''4th-quarter'',
      ''q1-'', ''q2-'', ''q3-'', ''q4-'',
      ''first-period'', ''second-period'', ''third-period'',
      ''1st-period'', ''2nd-period'', ''3rd-period'',
      ''first-inning'', ''second-inning'', ''third-inning'', ''fourth-inning'', ''fifth-inning'',
      ''exact-score'', ''correct-score'', ''exact-'',
      ''anytime-goalscorer'', ''first-goalscorer'', ''last-goalscorer'',
      ''player-'', ''to-score'', ''to-win-'', ''halftime'', ''ht-'']"

definition slug_has :: "string \<Rightarrow> string list \<Rightarrow> bool" where
  "slug_has slug parts \<longleftrightarrow> list_ex (\<lambda>t. py_in t slug) parts"

definition ends_with :: "string \<Rightarrow> string \<Rightarrow> bool" where
  "ends_with s suffix \<longleftrightarrow> length suffix \<le> length s \<and> drop (length s - length suffix) s = suffix"

definition is_sub_scope_without_lock ::
  "string \<Rightarrow> market_type \<Rightarrow> string \<Rightarrow> live_game option \<Rightarrow> bool" where
  "is_sub_scope_without_lock slug ty sport g \<longleftrightarrow>
     slug \<noteq> [] \<and> slug_has slug sub_scope_tokens \<and>
     \<not> (ty = MT_BINARY_PROP \<and>
        (sport = ''soccer'' \<and> slug_has slug [''halftime-result-'', ''btts'', ''both-teams-to-score'', ''both-teams-score'']
         \<or> sport = ''tennis'' \<and> slug_has slug [''set-winner'', ''current-set'']
         \<or> (case g of None \<Rightarrow> False | Some g \<Rightarrow> lg_baseball g \<noteq> None)
             \<and> slug_has slug [''nrfi'', ''first-inning-no-run'', ''no-runs-first-inning'']))"

definition halftime_direction :: "string \<Rightarrow> string option" where
  "halftime_direction slug = find (\<lambda>d. ends_with slug (''halftime-result-'' @ d)) [''home'', ''draw'', ''away'']"

definition is_draw_slug :: "string \<Rightarrow> bool" where
  "is_draw_slug slug \<longleftrightarrow>
     (ends_with slug ''-draw'' \<or> ends_with slug ''-tie''
      \<or> \<not> py_in ''draw-no-bet'' slug \<and> py_in ''-draw-'' slug) \<and> \<not> py_in ''halftime'' slug"

text \<open>Each sport answers for its markets, or leaves them to the next.\<close>

definition baseball_branch ::
  "('f, 'x) math_ops_scheme \<Rightarrow> market_type \<Rightarrow> market_side \<Rightarrow> decimal option \<Rightarrow> string \<Rightarrow> live_game
   \<Rightarrow> math_prob_result result option" where
  "baseball_branch mo ty side line slug g =
     (if lg_baseball g = None then None
      else if ty = MT_BINARY_PROP \<and> slug_has slug [''nrfi'', ''no-runs-first-inning'', ''first-inning-no-run'']
      then Some (Inr (baseball_nrfi_lock mo side g))
      else if ty = MT_MONEYLINE then Some (Inr (baseball_moneyline_lock mo side g))
      else (case (ty, line) of
          (MT_TOTALS, Some l) \<Rightarrow> Some (Inr (mlb_totals_lock mo side l g)) | _ \<Rightarrow> None))"

definition soccer_prop ::
  "('f, 'x) math_ops_scheme \<Rightarrow> market_side \<Rightarrow> string \<Rightarrow> live_game \<Rightarrow> math_prob_result option" where
  "soccer_prop mo side slug g = (case halftime_direction slug of
       Some d \<Rightarrow> Some (soccer_halftime_lock mo side d g)
     | None \<Rightarrow>
         if slug_has slug [''btts'', ''both-teams-to-score'', ''both-teams-score'']
         then Some (soccer_btts_lock mo side g)
         else if is_draw_slug slug then Some (soccer_draw_ft_lock mo side g)
         else None)"

definition soccer_branch ::
  "('f, 'x) math_ops_scheme \<Rightarrow> market_type \<Rightarrow> market_side \<Rightarrow> decimal option \<Rightarrow> string \<Rightarrow> live_game
   \<Rightarrow> math_prob_result result option" where
  "soccer_branch mo ty side line slug g =
     (if lg_soccer g = None \<and> game_sport g \<noteq> ''soccer'' then None
      else case (ty, line) of
          (MT_BINARY_PROP, _) \<Rightarrow> map_option Inr (soccer_prop mo side slug g)
        | (MT_MONEYLINE, _) \<Rightarrow> Some (Inr (soccer_ml_lock mo side g))
        | (MT_TOTALS, Some l) \<Rightarrow> Some (Inr (soccer_totals_lock mo side l g))
        | (MT_SPREADS, Some l) \<Rightarrow> Some (Inr (soccer_spreads_lock mo side l g))
        | _ \<Rightarrow> None)"

definition basketball_branch ::
  "('f, 'x) math_ops_scheme \<Rightarrow> market_type \<Rightarrow> market_side \<Rightarrow> decimal option \<Rightarrow> live_game
   \<Rightarrow> math_prob_result result option" where
  "basketball_branch mo ty side line g =
     (if lg_basketball g = None \<and> game_sport g \<noteq> ''basketball'' then None
      else case (ty, line) of
          (MT_MONEYLINE, _) \<Rightarrow> Some (Inr (basketball_ml_lock mo side g))
        | (MT_TOTALS, Some l) \<Rightarrow> Some (Inr (basketball_totals_lock mo side l g))
        | (MT_SPREADS, Some l) \<Rightarrow> Some (Inr (basketball_spreads_lock mo side l g))
        | _ \<Rightarrow> None)"

definition is_tennis :: "live_game \<Rightarrow> bool" where
  "is_tennis g \<longleftrightarrow> lg_tennis g \<noteq> None \<or> game_sport g = ''tennis''"

definition tennis_branch ::
  "('f, 'x) math_ops_scheme \<Rightarrow> market_type \<Rightarrow> market_side \<Rightarrow> decimal option \<Rightarrow> live_game
   \<Rightarrow> math_prob_result result option" where
  "tennis_branch mo ty side line g =
     (if \<not> is_tennis g then None
      else case (ty, line) of
          (MT_MONEYLINE, _) \<Rightarrow> Some (tennis_ml_lock mo side g)
        | (MT_TOTALS, Some l) \<Rightarrow> Some (Inr (tennis_totals_lock mo side l g))
        | _ \<Rightarrow> None)"

definition cricket_branch ::
  "('f, 'x) math_ops_scheme \<Rightarrow> market_type \<Rightarrow> market_side \<Rightarrow> live_game \<Rightarrow> math_prob_result result option" where
  "cricket_branch mo ty side g =
     (if (lg_cricket g \<noteq> None \<or> game_sport g = ''cricket'') \<and> ty = MT_MONEYLINE
      then Some (Inr (cricket_chase_lock mo side g)) else None)"

definition hockey_branch ::
  "('f, 'x) math_ops_scheme \<Rightarrow> market_type \<Rightarrow> market_side \<Rightarrow> decimal option \<Rightarrow> live_game
   \<Rightarrow> math_prob_result result option" where
  "hockey_branch mo ty side line g =
     (if game_sport g \<notin> {''hockey'', ''ice-hockey''} then None
      else case (ty, line) of
          (MT_MONEYLINE, _) \<Rightarrow> Some (Inr (hockey_ml_lock mo side g))
        | (MT_TOTALS, Some l) \<Rightarrow> Some (Inr (hockey_totals_lock mo side l g))
        | (MT_SPREADS, Some l) \<Rightarrow> Some (Inr (hockey_spreads_lock mo side l g))
        | _ \<Rightarrow> None)"

definition set_winner_branch ::
  "('f, 'x) math_ops_scheme \<Rightarrow> market_type \<Rightarrow> market_side \<Rightarrow> string \<Rightarrow> live_game
   \<Rightarrow> math_prob_result result option" where
  "set_winner_branch mo ty side slug g =
     (if is_tennis g \<and> ty = MT_BINARY_PROP
         \<and> (slug_has slug [''set-winner'', ''current-set''] \<or> py_in ''set'' slug \<and> \<not> py_in ''tiebreak'' slug)
      then Some (tennis_set_winner_lock mo side g) else None)"

definition nfl_branch ::
  "('f, 'x) math_ops_scheme \<Rightarrow> market_type \<Rightarrow> market_side \<Rightarrow> decimal option \<Rightarrow> live_game
   \<Rightarrow> math_prob_result result option" where
  "nfl_branch mo ty side line g =
     (if game_sport g \<notin> {''amfootball'', ''americanfootball'', ''football''} \<or> py_in ''soccer'' (py_lower (lg_league g))
      then None
      else case (ty, line) of
          (MT_MONEYLINE, _) \<Rightarrow> Some (Inr (nfl_ml_lock mo side g))
        | (MT_TOTALS, Some l) \<Rightarrow> Some (Inr (nfl_totals_lock mo side l g))
        | (MT_SPREADS, Some l) \<Rightarrow> Some (Inr (nfl_spreads_lock mo side l g))
        | _ \<Rightarrow> None)"

fun first_branch :: "math_prob_result result option list \<Rightarrow> math_prob_result result" where
  "first_branch [] = Inr unsupported"
| "first_branch (b # bs) = (case b of Some r \<Rightarrow> r | None \<Rightarrow> first_branch bs)"

definition evaluate_math_prob ::
  "('f, 'x) math_ops_scheme \<Rightarrow> market_type \<Rightarrow> market_side \<Rightarrow> decimal option \<Rightarrow> live_game option
   \<Rightarrow> string option \<Rightarrow> math_prob_result result" where
  "evaluate_math_prob mo ty side line game market_slug = (case game of
       None \<Rightarrow> Inr (mprob 0 ''no_game'' ''missing_live_game_state'')
     | Some g \<Rightarrow>
         let slug = lowered market_slug [] in
         if is_sub_scope_without_lock slug ty (game_sport g) game
         then Inr (mprob 0 ''sub_scope'' ''sub_scope_no_dedicated_lock'')
         else first_branch
           [baseball_branch mo ty side line slug g, soccer_branch mo ty side line slug g,
            basketball_branch mo ty side line g, tennis_branch mo ty side line g,
            cricket_branch mo ty side g, hockey_branch mo ty side line g,
            set_winner_branch mo ty side slug g, nfl_branch mo ty side line g])"


subsection \<open>Probabilities are probabilities\<close>

text \<open>
  What is used of the float library: the order is asymmetric and has 0 below 1; the difference of
  1 and a float between 0 and 1 is one; rounding to four places and the integer power keep the
  interval.
\<close>

definition unit_float :: "('f, 'x) math_ops_scheme \<Rightarrow> 'f \<Rightarrow> bool" where
  "unit_float mo x \<longleftrightarrow> \<not> fm_less mo x (fm_float mo 0) \<and> \<not> fm_less mo (fm_float mo 1) x"

definition float_laws :: "('f, 'x) math_ops_scheme \<Rightarrow> bool" where
  "float_laws mo \<longleftrightarrow>
     (\<forall>x y. fm_less mo x y \<longrightarrow> \<not> fm_less mo y x)
     \<and> fm_less mo (fm_float mo 0) (fm_float mo 1)
     \<and> (\<forall>x. unit_float mo x \<longrightarrow> unit_float mo (fm_sub mo (fm_float mo 1) x))
     \<and> (\<forall>x. unit_float mo x \<longrightarrow> 0 \<le> fm_round4 mo x \<and> fm_round4 mo x \<le> 1)
     \<and> (\<forall>x n. 0 \<le> x \<and> x \<le> 1 \<and> 0 \<le> n \<longrightarrow> 0 \<le> fm_dpow mo x n \<and> fm_dpow mo x n \<le> 1)"

definition unit_prob :: "math_prob_result \<Rightarrow> bool" where
  "unit_prob r \<longleftrightarrow> 0 \<le> mp_probability r \<and> mp_probability r \<le> 1"

lemma unit_prob_simps [simp]:
  "unit_prob (mprob p m r) \<longleftrightarrow> 0 \<le> p \<and> p \<le> 1"
  "unit_prob ((mprob p m r)\<lparr>mp_outcome := x\<rparr>) \<longleftrightarrow> 0 \<le> p \<and> p \<le> 1"
  "unit_prob (decided w m r)" "unit_prob (decided_total side m)" "unit_prob unsupported"
  by (simp_all add: unit_prob_def mprob_def decided_def decided_total_def unsupported_def)

lemma clamp_unit_unit: "float_laws mo \<Longrightarrow> unit_float mo (clamp_unit mo x)"
proof -
  assume l: "float_laws mo"
  have asym: "fm_less mo a b \<Longrightarrow> \<not> fm_less mo b a" for a b using l by (simp add: float_laws_def)
  have irr: "\<not> fm_less mo a a" for a using asym by blast
  have one: "fm_less mo (fm_float mo 0) (fm_float mo 1)" using l by (simp add: float_laws_def)
  show ?thesis
    by (cases "fm_less mo x (fm_float mo 1)"; cases "fm_less mo (fm_float mo 0) x")
      (simp_all add: unit_float_def clamp_unit_def fm_max_def fm_min_def one asym irr)
qed

lemma unit_decimal_bounds: "float_laws mo \<Longrightarrow> 0 \<le> unit_decimal mo x" "float_laws mo \<Longrightarrow> unit_decimal mo x \<le> 1"
  using clamp_unit_unit [of mo x] by (auto simp: float_laws_def unit_decimal_def)

lemma hold_lead_bounds: "float_laws mo \<Longrightarrow> 0 \<le> hold_lead mo a b" "float_laws mo \<Longrightarrow> hold_lead mo a b \<le> 1"
  by (simp_all add: hold_lead_def unit_decimal_bounds)

lemma normal_total_bounds:
  "float_laws mo \<Longrightarrow> 0 \<le> normal_total mo sd l tot v" "float_laws mo \<Longrightarrow> normal_total mo sd l tot v \<le> 1"
  by (simp_all add: normal_total_def Let_def unit_decimal_bounds)

lemma poisson_total_bounds:
  "float_laws mo \<Longrightarrow> 0 \<le> poisson_total mo sd l tot v" "float_laws mo \<Longrightarrow> poisson_total mo sd l tot v \<le> 1"
  by (simp_all add: poisson_total_def Let_def unit_decimal_bounds)

lemma race_bounds:
  "float_laws mo \<Longrightarrow> race_probability mo p m n = Inr q \<Longrightarrow> 0 \<le> q \<and> q \<le> 1"
  by (auto simp: race_probability_def unit_decimal_bounds)

lemmas estimate_bounds = unit_decimal_bounds hold_lead_bounds normal_total_bounds poisson_total_bounds

lemma four_places_unit: "0 \<le> x \<Longrightarrow> x \<le> 1 \<Longrightarrow> 0 \<le> four_places x \<and> four_places x \<le> 1"
proof -
  have "even_places 4 1 = 1" using rhe_of_int [of 10000] by (simp add: even_places_def)
  then show "0 \<le> x \<Longrightarrow> x \<le> 1 \<Longrightarrow> ?thesis"
    by (auto simp: four_places_def intro: evens.rnd_nonneg evens.rnd_le_fix)
qed

lemma quantize_unit: "0 \<le> x \<Longrightarrow> x \<le> 1 \<Longrightarrow> quantize_half_even 4 x = Inr (four_places x)"
proof -
  assume x: "0 \<le> x" "x \<le> 1"
  have "0 \<le> four_places x" "four_places x \<le> 1" using four_places_unit [OF x] by simp_all
  then have "0 \<le> (of_int (round_half_even (x * 10000)) :: rat)" "(of_int (round_half_even (x * 10000)) :: rat) \<le> 10000"
    by (simp_all add: four_places_def even_places_def)
  then have "0 \<le> round_half_even (x * 10000)" "round_half_even (x * 10000) \<le> 10000" by simp_all
  then show ?thesis by (simp add: quantize_half_even_def four_places_def)
qed

lemma dsub_unit: "0 \<le> x \<Longrightarrow> x \<le> 1 \<Longrightarrow> 0 \<le> dsub 1 x \<and> dsub 1 x \<le> 1"
  unfolding dsub_def by (auto intro: dr.rnd_nonneg dr.rnd_le_fix)

lemma half_inning_unit: "0 \<le> half_inning_dist k" "half_inning_dist k \<le> 1"
  by (simp_all add: half_inning_dist_def)

lemma no_break_unit:
  "float_laws mo \<Longrightarrow> 0 \<le> n \<Longrightarrow> 0 \<le> no_break mo w n \<and> no_break mo w n \<le> 1"
  using dsub_unit [OF half_inning_unit] unfolding no_break_def float_laws_def by blast

lemma baseball_unit:
  assumes "float_laws mo"
  shows "unit_prob (mlb_totals_lock mo side l g)" "unit_prob (baseball_moneyline_lock mo side g)"
    "unit_prob (baseball_nrfi_lock mo side g)"
proof -
  have nb: "0 \<le> four_places (dsub 1 (dsub 1 (no_break mo w n))) \<and> four_places (dsub 1 (dsub 1 (no_break mo w n))) \<le> 1"
    "0 \<le> four_places (dsub 1 (no_break mo w n)) \<and> four_places (dsub 1 (no_break mo w n)) \<le> 1"
    if "\<not> n \<le> 0" for w n
    using no_break_unit [OF assms, of n w] that dsub_unit four_places_unit by simp_all
  show "unit_prob (mlb_totals_lock mo side l g)"
    using nb by (simp add: mlb_totals_lock_def Let_def split: option.split)
  show "unit_prob (baseball_moneyline_lock mo side g)" "unit_prob (baseball_nrfi_lock mo side g)"
    using assms by (simp_all add: baseball_moneyline_lock_def baseball_nrfi_lock_def Let_def estimate_bounds split: option.split)
qed

lemma soccer_unit:
  assumes "float_laws mo"
  shows "unit_prob (soccer_ml_lock mo side g)" "unit_prob (soccer_totals_lock mo side l g)"
    "unit_prob (soccer_spreads_lock mo side l g)" "unit_prob (soccer_btts_lock mo side g)"
    "unit_prob (soccer_draw_ft_lock mo side g)"
  using assms
  by (simp_all add: soccer_ml_lock_def soccer_totals_lock_def soccer_spreads_lock_def soccer_btts_lock_def
      soccer_draw_ft_lock_def Let_def estimate_bounds split: option.split)

lemma halftime_unit:
  assumes "float_laws mo"
  shows "unit_prob (soccer_halftime_lock mo side d g)"
proof -
  let ?goal = "\<lambda>n. dsub 1 (fm_dpow mo (dsub 1 (25/1000)) n)"
  have g: "0 \<le> ?goal n \<and> ?goal n \<le> 1" if "0 \<le> n" for n
    using dsub_unit [of "25/1000"] assms that unfolding float_laws_def by (intro dsub_unit) auto
  have h: "0 \<le> dmul x (1/2) \<and> dmul x (1/2) \<le> 1" if "0 \<le> x" "x \<le> 1" for x
    using that unfolding dmul_def by (auto intro: dr.rnd_nonneg dr.rnd_le_fix)
  have "0 \<le> max 0 (45 - c) * 2 + 6" for c :: int by simp
  then have "0 \<le> (max 0 (45 - c) + 3) * 2" for c :: int by simp
  then show ?thesis
    using g h dsub_unit four_places_unit
    by (simp add: soccer_halftime_lock_def Let_def split: option.split)
qed


lemma other_sports_unit:
  assumes "float_laws mo"
  shows "unit_prob (basketball_ml_lock mo side g)" "unit_prob (basketball_totals_lock mo side l g)"
    "unit_prob (basketball_spreads_lock mo side l g)" "unit_prob (hockey_ml_lock mo side g)"
    "unit_prob (hockey_totals_lock mo side l g)" "unit_prob (hockey_spreads_lock mo side l g)"
    "unit_prob (nfl_ml_lock mo side g)" "unit_prob (nfl_totals_lock mo side l g)"
    "unit_prob (nfl_spreads_lock mo side l g)" "unit_prob (tennis_totals_lock mo side l g)"
  using assms
  by (simp_all add: basketball_ml_lock_def basketball_totals_lock_def basketball_spreads_lock_def
      hockey_ml_lock_def hockey_totals_lock_def hockey_spreads_lock_def nfl_ml_lock_def nfl_totals_lock_def
      nfl_spreads_lock_def tennis_totals_lock_def Let_def estimate_bounds split: option.split)

lemma cricket_unit: "float_laws mo \<Longrightarrow> unit_prob (cricket_chase_lock mo side g)"
proof -
  assume l: "float_laws mo"
  have "0 \<le> fm_round4 mo (clamp_unit mo x) \<and> fm_round4 mo (clamp_unit mo x) \<le> 1"
    "0 \<le> fm_round4 mo (fm_compl mo (clamp_unit mo x)) \<and> fm_round4 mo (fm_compl mo (clamp_unit mo x)) \<le> 1" for x
    using l clamp_unit_unit [OF l, of x] by (simp_all add: float_laws_def fm_compl_def)
  then show ?thesis by (simp add: cricket_chase_lock_def Let_def split: option.split)
qed

definition unit_result :: "math_prob_result result \<Rightarrow> bool" where
  "unit_result r = (case r of Inl e \<Rightarrow> True | Inr x \<Rightarrow> unit_prob x)"

lemma unit_result_simps [simp]: "unit_result (Inr x) = unit_prob x" "unit_result (Inl e)"
  by (simp_all add: unit_result_def)

lemma tennis_unit:
  assumes "float_laws mo"
  shows "unit_result (tennis_ml_lock mo side g)" "unit_result (tennis_set_winner_lock mo side g)"
proof -
  have b: "unit_result (bind_result (race_probability mo p m n) (\<lambda>q. Inr (mprob q a c)))" for p m n a c
    using race_bounds [OF assms, of p m n] by (cases "race_probability mo p m n") simp_all
  show "unit_result (tennis_ml_lock mo side g)" "unit_result (tennis_set_winner_lock mo side g)"
    using b by (simp_all add: tennis_ml_lock_def tennis_set_winner_lock_def Let_def split: option.split prod.split)
qed

lemmas lock_unit = baseball_unit soccer_unit halftime_unit other_sports_unit cricket_unit tennis_unit

lemmas branch_defs = baseball_branch_def soccer_branch_def basketball_branch_def tennis_branch_def
  cricket_branch_def hockey_branch_def set_winner_branch_def nfl_branch_def

lemma first_branch_unit: "\<forall>b \<in> set bs. \<forall>r. b = Some r \<longrightarrow> unit_result r \<Longrightarrow> unit_result (first_branch bs)"
  by (induction bs) (auto split: option.split)

lemma soccer_prop_unit: "float_laws mo \<Longrightarrow> soccer_prop mo side slug g = Some r \<Longrightarrow> unit_prob r"
  by (auto simp: soccer_prop_def lock_unit split: option.splits if_splits)

lemma branches_unit:
  assumes "float_laws mo"
  shows "baseball_branch mo ty side line slug g = Some r \<Longrightarrow> unit_result r"
    "soccer_branch mo ty side line slug g = Some r \<Longrightarrow> unit_result r"
    "basketball_branch mo ty side line g = Some r \<Longrightarrow> unit_result r"
    "tennis_branch mo ty side line g = Some r \<Longrightarrow> unit_result r"
    "cricket_branch mo ty side g = Some r \<Longrightarrow> unit_result r"
    "hockey_branch mo ty side line g = Some r \<Longrightarrow> unit_result r"
    "set_winner_branch mo ty side slug g = Some r \<Longrightarrow> unit_result r"
    "nfl_branch mo ty side line g = Some r \<Longrightarrow> unit_result r"
  using assms soccer_prop_unit
  by (auto simp: branch_defs lock_unit split: option.splits if_splits market_type.splits)

text \<open>
  C12: What the strategy takes for a probability is one. Whatever the market, the side, the line, the
  live game and the float library (within \<open>float_laws\<close>), an evaluation that returns yields a
  number between 0 and 1.
\<close>

theorem math_prob_is_probability:
  assumes "float_laws mo" "evaluate_math_prob mo ty side line game slug = Inr r"
  shows "0 \<le> mp_probability r \<and> mp_probability r \<le> 1"
proof (cases game)
  case None
  then show ?thesis using assms(2) by (auto simp: evaluate_math_prob_def mprob_def)
next
  case (Some g)
  have "unit_result (first_branch
      [baseball_branch mo ty side line s g, soccer_branch mo ty side line s g,
       basketball_branch mo ty side line g, tennis_branch mo ty side line g,
       cricket_branch mo ty side g, hockey_branch mo ty side line g,
       set_winner_branch mo ty side s g, nfl_branch mo ty side line g])" for s
    by (rule first_branch_unit) (use branches_unit [OF assms(1)] in auto)
  then have "unit_result (evaluate_math_prob mo ty side line game slug)"
    by (simp add: evaluate_math_prob_def Some Let_def)
  then show ?thesis using assms(2) by (simp add: unit_prob_def)
qed

text \<open>A float library over the rationals, with crude functions.\<close>

definition demo_floats :: "rat math_ops" where
  "demo_floats = \<lparr>fm_float = (\<lambda>x. x), fm_add = (+), fm_sub = (-), fm_mul = (*), fm_div = (/),
     fm_pow = (\<lambda>x n. x ^ nat n), fm_less = (<), fm_sqrt = (\<lambda>x. x), fm_exp = (\<lambda>x. 1/2),
     fm_erf = (\<lambda>x. 1/2), fm_erfc = (\<lambda>x. 1/2), fm_trunc = truncated, fm_round4 = even_places 4,
     fm_dpow = (\<lambda>x n. dround (x ^ nat n))\<rparr>"

lemma demo_float_laws: "float_laws demo_floats"
proof -
  have r: "0 \<le> even_places 4 x \<and> even_places 4 x \<le> 1" if "0 \<le> x" "x \<le> 1" for x
    using four_places_unit [OF that] by (simp add: four_places_def)
  have p: "0 \<le> dround (x ^ nat n) \<and> dround (x ^ nat n) \<le> 1" if "0 \<le> x" "x \<le> 1" for x n
    using that by (auto intro: dr.rnd_nonneg dr.rnd_le_fix power_le_one)
  show ?thesis using r p by (simp add: float_laws_def demo_floats_def unit_float_def)
qed

definition demo_tennis :: live_game where
  "demo_tennis = (new_game ''tennis'' 0 0 GS_LIVE)\<lparr>lg_tennis := Some
     \<lparr>tn_home_sets_won = 1, tn_away_sets_won = 0, tn_current_set = Some 2, tn_home_current_set_games = Some 7,
      tn_away_current_set_games = Some 6, tn_home_total_games = 19, tn_away_total_games = 15,
      tn_set_scores = [], tn_home_point = None, tn_away_point = None, tn_first_to_serve = None,
      tn_serving_side = None, tn_best_of = Some 3\<rparr>\<rparr>"

theorem math_prob_is_probability_witness:
  "case evaluate_math_prob demo_floats MT_MONEYLINE MS_HOME None (Some demo_tennis) None of
     Inl e \<Rightarrow> False
   | Inr r \<Rightarrow> mp_reason r = ''live_estimate'' \<and> 0 \<le> mp_probability r \<and> mp_probability r \<le> 1"
proof -
  have "case evaluate_math_prob demo_floats MT_MONEYLINE MS_HOME None (Some demo_tennis) None of
     Inl e \<Rightarrow> False | Inr r \<Rightarrow> mp_reason r = ''live_estimate''" by code_simp
  then show ?thesis
    using math_prob_is_probability [OF demo_float_laws, of MT_MONEYLINE MS_HOME None "Some demo_tennis" None]
    by (cases "evaluate_math_prob demo_floats MT_MONEYLINE MS_HOME None (Some demo_tennis) None") simp_all
qed


subsection \<open>Totals\<close>

lemma sub_scope_needs_token: "\<not> slug_has slug sub_scope_tokens \<Longrightarrow> \<not> is_sub_scope_without_lock slug ty sport g"
  by (simp add: is_sub_scope_without_lock_def)

text \<open>Which lock answers for a total.\<close>

lemma totals_dispatch:
  assumes "\<not> slug_has (lowered slug []) sub_scope_tokens"
  shows "evaluate_math_prob mo MT_TOTALS side (Some l) (Some g) slug =
    Inr (if lg_baseball g \<noteq> None then mlb_totals_lock mo side l g
         else if lg_soccer g \<noteq> None \<or> game_sport g = ''soccer'' then soccer_totals_lock mo side l g
         else if lg_basketball g \<noteq> None \<or> game_sport g = ''basketball'' then basketball_totals_lock mo side l g
         else if is_tennis g then tennis_totals_lock mo side l g
         else if game_sport g \<in> {''hockey'', ''ice-hockey''} then hockey_totals_lock mo side l g
         else if game_sport g \<in> {''amfootball'', ''americanfootball'', ''football''}
              \<and> \<not> py_in ''soccer'' (py_lower (lg_league g)) then nfl_totals_lock mo side l g
         else unsupported)"
  using sub_scope_needs_token [OF assms]
  by (simp add: evaluate_math_prob_def Let_def branch_defs)

text \<open>A score only grows, so a total past its line is decided, whatever else the game brings.\<close>

lemma over_decided:
  assumes "of_int (total_score g) > l" "\<not> is_tennis g \<or> lg_baseball g \<noteq> None"
    and "\<not> slug_has (lowered slug []) sub_scope_tokens"
    and "evaluate_math_prob mo MT_TOTALS MS_OVER (Some l) (Some g) slug = Inr r"
  shows "mp_outcome r \<noteq> Some ''lose'' \<and> mp_probability r \<in> {0, 1}"
  using assms
  by (auto simp: totals_dispatch mlb_totals_lock_def soccer_totals_lock_def basketball_totals_lock_def
      hockey_totals_lock_def nfl_totals_lock_def Let_def decided_def decided_total_def total_decided_def
      total_won_def mprob_def unsupported_def split: if_splits option.splits)

lemma under_lost:
  assumes "of_int (total_score g) \<ge> l" "\<not> is_tennis g \<or> lg_baseball g \<noteq> None"
    and "\<not> slug_has (lowered slug []) sub_scope_tokens"
    and "evaluate_math_prob mo MT_TOTALS MS_UNDER (Some l) (Some g) slug = Inr r"
  shows "mp_outcome r = Some ''lose'' \<or> mp_probability r = 0"
  using assms
  by (auto simp: totals_dispatch mlb_totals_lock_def soccer_totals_lock_def basketball_totals_lock_def
      hockey_totals_lock_def nfl_totals_lock_def Let_def decided_def decided_total_def total_decided_def
      total_won_def mprob_def unsupported_def split: if_splits option.splits)

text \<open>A game without a clock is taken for over.\<close>

definition clockless_sport :: "live_game \<Rightarrow> bool" where
  "clockless_sport g \<longleftrightarrow> lg_baseball g = None
     \<and> (lg_soccer g \<noteq> None \<or> lg_basketball g \<noteq> None \<or> game_sport g \<in> {''soccer'', ''basketball''}
        \<or> \<not> is_tennis g \<and> game_sport g \<in> {''hockey'', ''ice-hockey''})"

lemma no_clock_under:
  assumes "estimate_remaining_seconds g = None" "clockless_sport g" "of_int (total_score g) < l"
    and "\<not> slug_has (lowered slug []) sub_scope_tokens"
  shows "case evaluate_math_prob mo MT_TOTALS MS_UNDER (Some l) (Some g) slug of Inl e \<Rightarrow> False
    | Inr r \<Rightarrow> mp_probability r = 1 \<and> mp_outcome r = None \<and> mp_method r \<noteq> ''unsupported''"
  using assms
  by (auto simp: totals_dispatch clockless_sport_def soccer_totals_lock_def basketball_totals_lock_def
      hockey_totals_lock_def Let_def decided_def mprob_def no_time_def total_won_def)

subsection \<open>False certainties\<close>

text \<open>
  The half innings left do not count the one being played: in the bottom of the ninth, with the
  home team at bat, a visitor's lead is taken for a win and a total below its line for final.
\<close>

lemma bottom_ninth_certain:
  assumes "lg_baseball g = Some s" "bb_current_inning s = Some 9" "bb_inning_half s = Some ''bottom''"
  shows "lg_home_score g < lg_away_score g \<Longrightarrow> mp_probability (baseball_moneyline_lock mo MS_AWAY g) = 1"
    "of_int (total_score g) < l \<Longrightarrow> mp_probability (mlb_totals_lock mo MS_UNDER l g) = 1"
proof -
  have "lowered (Some ''bottom'') ''top'' = ''bottom''" by code_simp
  then have n: "remaining_half_innings s = 0" using assms by (simp add: remaining_half_innings_def)
  show "lg_home_score g < lg_away_score g \<Longrightarrow> mp_probability (baseball_moneyline_lock mo MS_AWAY g) = 1"
    using assms n by (simp add: baseball_moneyline_lock_def score_diff_for_def mprob_def Let_def)
  show "of_int (total_score g) < l \<Longrightarrow> mp_probability (mlb_totals_lock mo MS_UNDER l g) = 1"
    using assms n by (simp add: mlb_totals_lock_def mprob_def Let_def)
qed

text \<open>
  A chase without the number of balls left and without the batting side: both teams are certain
  to win.
\<close>

lemma cricket_both_certain:
  assumes "lg_cricket g = Some s" "ck_target s = Some t" "ck_required_balls s = None" "int_or (ck_runs s) 0 < t"
    and "ck_batting_side s = None"
  shows "mp_probability (cricket_chase_lock mo MS_HOME g) = 1 \<and> mp_probability (cricket_chase_lock mo MS_AWAY g) = 1"
proof -
  have "lowered None [] = []" by (simp add: lowered_def py_lower_def)
  then show ?thesis using assms by (simp add: cricket_chase_lock_def Let_def int_or_def decided_def mprob_def)
qed

text \<open>The hockey clock knows the sport under one of its two names only.\<close>

lemma ice_hockey_lead_certain:
  assumes "game_sport g = ''ice-hockey''" "lg_seconds_remaining g = None" "lg_soccer g = None" "lg_basketball g = None"
    and "lg_away_score g < lg_home_score g"
  shows "mp_probability (hockey_ml_lock mo MS_HOME g) = 1"
  using assms
  by (simp add: hockey_ml_lock_def estimate_remaining_seconds_def estimated_seconds_def no_time_def
      score_diff_for_def mprob_def Let_def)

text \<open>A set won in the tie-break raises: no more game is needed, and \<open>comb\<close> is asked for -1.\<close>

lemma set_winner_raises:
  assumes "lg_tennis g = Some s" "tn_home_current_set_games s = Some 7" "tn_away_current_set_games s = Some 6"
  shows "tennis_set_winner_lock mo MS_HOME g = Inl (ValueError ''n must be a non-negative integer'')"
  using assms by (simp add: tennis_set_winner_lock_def Let_def race_probability_def race_terms_def py_comb_def)

text \<open>A tennis total past its line is still estimated, so the lost side keeps a probability.\<close>

lemma tennis_lost_under_estimated:
  assumes "lg_tennis g = Some s" "tn_home_sets_won s = 1" "tn_away_sets_won s = 0" "tn_best_of s = Some 3"
    and "fm_less mo (fm_float mo (1/100)) (fm_mul mo (fm_sqrt mo (fm_int mo 2)) (fm_float mo 4))"
  shows "mp_reason (tennis_totals_lock mo MS_UNDER l g) = ''live_estimate''"
  using assms by (simp add: tennis_totals_lock_def Let_def int_or_def negligible_def mprob_def)

text \<open>The marker \<open>ht-\<close> of half-time markets is also the end of a name.\<close>

lemma sub_scope_by_name: "is_sub_scope_without_lock ''atp-wright-smith-2026-05-01'' MT_MONEYLINE ''tennis'' None"
  by code_simp

end
