(* ===== verification/Quant_Signal.thy ===== *)
theory Quant_Signal
  imports Entry_Allocation Math_Prob
begin

text \<open>
  \<open>workflow/quant_signal.py\<close> and \<open>app/signal_snapshot_store.py\<close>: the probability the strategy
  trades on. How a market is classified from its title (\<open>workflow/outcomes.py\<close>) is an argument,
  the descriptor it yields is a record here. A snapshot has no time stamp and no age of the account.
\<close>

subsection \<open>Classified markets\<close>

record token_target =
  tt_token_id :: string
  tt_side :: market_side
  tt_label :: string
  tt_invert_side :: bool

record sports_descriptor =
  sd_accepted :: bool
  sd_reason :: string
  sd_family :: market_family
  sd_market_type :: "market_type option"
  sd_line :: "decimal option"
  sd_targets :: "token_target list"

definition rejected_descriptor :: "string \<Rightarrow> sports_descriptor" where
  "rejected_descriptor reason = \<lparr>sd_accepted = False, sd_reason = reason, sd_family = MF_UNSUPPORTED,
     sd_market_type = None, sd_line = None, sd_targets = []\<rparr>"

text \<open>What the strategy is given: the classification of markets and the float library.\<close>

record 'f strategy =
  sg_describe :: "market \<Rightarrow> sports_descriptor"
  sg_math :: "'f math_ops"

definition target_for_token :: "sports_descriptor \<Rightarrow> string option \<Rightarrow> token_target option" where
  "target_for_token d tok = (case tok of
       None \<Rightarrow> None | Some t \<Rightarrow> find (\<lambda>x. tt_token_id x = t) (sd_targets d))"

definition primary_token_id :: "sports_descriptor \<Rightarrow> string result" where
  "primary_token_id d = (case sd_targets d of
       [] \<Rightarrow> Inl (ValueError (if sd_reason d = [] then ''missing_target'' else sd_reason d))
     | t # _ \<Rightarrow> Inr (tt_token_id t))"

subsection \<open>Sources\<close>

definition clamp_probability :: "decimal \<Rightarrow> decimal" where
  "clamp_probability v = min (99/100) (max (1/100) v)"

text \<open>
  \<open>Decimal(str(raw))\<close> of a text that is no number raises \<open>InvalidOperation\<close>, which is not among
  the exceptions the code catches.
\<close>

definition fair_prob_field :: "py_value \<Rightarrow> string \<Rightarrow> decimal option result" where
  "fair_prob_field odds base = (case odds of
       PDict m \<Rightarrow>
         if py_truthy (mget m ''suspended'') \<or> py_truthy (mget m (base @ ''_suspended'')) then Inr None
         else let raw = (if mget m (base @ ''_fair_prob'') = PNone then mget m (base @ ''_implied_prob'')
                         else mget m (base @ ''_fair_prob''))
              in if raw = PNone then Inr None
                 else bind_result (parse_decimal (py_str raw)) (\<lambda>x. Inr (Some x))
     | _ \<Rightarrow> Inr None)"

definition goalserve_prob ::
  "('f, 'x) strategy_scheme \<Rightarrow> decision_context \<Rightarrow> string option \<Rightarrow> decimal option result" where
  "goalserve_prob sg cx tok = (case dx_market cx of
       None \<Rightarrow> Inr None
     | Some m \<Rightarrow>
         (case target_for_token (sg_describe sg m) tok of
            None \<Rightarrow> Inr None
          | Some t \<Rightarrow>
              let md = dx_metadata cx;
                  sided = (\<lambda>base. bind_result (fair_prob_field (mget md ''goalserve_moneyline'') base)
                    (\<lambda>p. case p of Some x \<Rightarrow> Inr (Some x)
                         | None \<Rightarrow> fair_prob_field (mget md ''goalserve_spread'') base))
              in (case tt_side t of
                    MS_OVER \<Rightarrow> fair_prob_field (mget md ''goalserve_totals'') ''over''
                  | MS_UNDER \<Rightarrow> fair_prob_field (mget md ''goalserve_totals'') ''under''
                  | MS_HOME \<Rightarrow> sided ''home''
                  | MS_AWAY \<Rightarrow> sided ''away''
                  | _ \<Rightarrow> Inr None)))"

text \<open>An evaluation that is no signal: unsupported, zero, or certain to lose.\<close>

definition usable_probability :: "math_prob_result \<Rightarrow> decimal option" where
  "usable_probability r =
     (if mp_method r = ''unsupported'' \<or> mp_probability r \<le> 0 then None
      else if mp_outcome r = Some ''lose'' then None
      else Some (mp_probability r))"

definition math_prob ::
  "('f, 'x) strategy_scheme \<Rightarrow> decision_context \<Rightarrow> string option \<Rightarrow> decimal option result" where
  "math_prob sg cx tok = (case dx_market cx of
       None \<Rightarrow> Inr None
     | Some m \<Rightarrow>
         let d = sg_describe sg m in
         (case (sd_market_type d, target_for_token d tok, live_game_from_metadata (dx_metadata cx)) of
            (Some ty, Some t, Some g) \<Rightarrow>
              if \<not> sd_accepted d then Inr None
              else bind_result
                (evaluate_math_prob (sg_math sg) ty (tt_side t) (sd_line d) (Some g) (Some (mk_market_slug m)))
                (\<lambda>r. Inr (usable_probability r))
          | _ \<Rightarrow> Inr None))"

subsection \<open>The estimate\<close>

record signal_snapshot =
  ss_condition_id :: string
  ss_token_id :: string
  ss_pm_best_ask :: "decimal option"
  ss_pm_best_bid :: decimal
  ss_goalserve_fair_prob :: "decimal option"
  ss_math_prob :: "decimal option"
  ss_microprice :: "decimal option"
  ss_final_prob_p :: decimal
  ss_source_used :: string
  ss_edge_pp :: "decimal option"

text \<open>The larger of the two real probabilities, the odds on a tie; without one the book.\<close>

definition true_signal :: "decimal option \<Rightarrow> decimal option \<Rightarrow> (decimal \<times> string) option" where
  "true_signal goal math = (case (goal, math) of
       (Some x, Some y) \<Rightarrow> Some (if y > x then (y, ''math_prob'') else (x, ''goalserve_implied_prob''))
     | (Some x, None) \<Rightarrow> Some (x, ''goalserve_implied_prob'')
     | (None, Some y) \<Rightarrow> Some (y, ''math_prob'')
     | (None, None) \<Rightarrow> None)"

definition book_signal :: "decimal option \<Rightarrow> decimal \<Rightarrow> decimal option \<Rightarrow> decimal \<times> string" where
  "book_signal micro bid ask = (case micro of
       Some x \<Rightarrow> (x, ''microprice'')
     | None \<Rightarrow>
         (case ask of
            Some a \<Rightarrow> if a > bid then (ddiv (dadd bid a) 2, ''market_mid'') else (bid, ''best_bid'')
          | None \<Rightarrow> (bid, ''best_bid'')))"

definition estimate_signal ::
  "('f, 'x) strategy_scheme \<Rightarrow> decision_context \<Rightarrow> string option \<Rightarrow> decimal \<Rightarrow> decimal option
   \<Rightarrow> signal_snapshot result" where
  "estimate_signal sg cx tok bid ask =
     bind_result (goalserve_prob sg cx tok) (\<lambda>goal.
     bind_result (math_prob sg cx tok) (\<lambda>math.
       let micro = (case dx_orderbook cx of None \<Rightarrow> None | Some b \<Rightarrow> microprice b);
           (value, source) = (case true_signal goal math of Some vs \<Rightarrow> vs | None \<Rightarrow> book_signal micro bid ask)
       in Inr \<lparr>ss_condition_id = (case dx_market cx of None \<Rightarrow> [] | Some m \<Rightarrow> mk_condition_id m),
            ss_token_id = or_default tok [], ss_pm_best_ask = ask, ss_pm_best_bid = bid,
            ss_goalserve_fair_prob = goal, ss_math_prob = math, ss_microprice = micro,
            ss_final_prob_p = clamp_probability value, ss_source_used = source,
            ss_edge_pp = (case (goal, ask) of (Some g, Some a) \<Rightarrow> Some (dsub g a) | _ \<Rightarrow> None)\<rparr>))"

subsection \<open>The store of snapshots\<close>

type_synonym signal_store = "(string, signal_snapshot list) dict"

definition PER_TOKEN_RING_CAPACITY :: nat where "PER_TOKEN_RING_CAPACITY = 300"

definition record_signal :: "signal_store \<Rightarrow> signal_snapshot \<Rightarrow> signal_store" where
  "record_signal st s =
     dict_set st (ss_token_id s)
       (keep_last PER_TOKEN_RING_CAPACITY (dict_get_or st (ss_token_id s) [] @ [s]))"

definition history_for_token :: "signal_store \<Rightarrow> string \<Rightarrow> signal_snapshot list" where
  "history_for_token st tok = dict_get_or st tok []"

definition latest_for_token :: "signal_store \<Rightarrow> string \<Rightarrow> signal_snapshot option" where
  "latest_for_token st tok = (case history_for_token st tok of [] \<Rightarrow> None | xs \<Rightarrow> Some (last xs))"

definition all_latest :: "signal_store \<Rightarrow> signal_snapshot list" where
  "all_latest st = concat (map (\<lambda>xs. if xs = [] then [] else [last xs]) (dict_values st))"

definition top_by_edge :: "signal_store \<Rightarrow> int \<Rightarrow> signal_snapshot list" where
  "top_by_edge st k =
     take (nat k) (sort_key (\<lambda>s. - or_default (ss_edge_pp s) 0)
       (filter (\<lambda>s. case ss_edge_pp s of None \<Rightarrow> False | Some e \<Rightarrow> e > 0) (all_latest st)))"

definition token_count :: "signal_store \<Rightarrow> nat" where
  "token_count st = length st"

subsection \<open>Facts about the signal\<close>

lemma clamp_probability_bounds: "1/100 \<le> clamp_probability v" "clamp_probability v \<le> 99/100"
  by (auto simp: clamp_probability_def)

definition real_sources :: "string list" where
  "real_sources = [''goalserve_implied_prob'', ''math_prob'']"

lemma book_signal_source: "snd (book_signal micro bid ask) \<notin> set real_sources"
  by (simp add: book_signal_def real_sources_def split: option.split)

lemma true_signal_value: "true_signal goal math = Some (v, src) \<Longrightarrow> goal = Some v \<or> math = Some v"
  by (auto simp: true_signal_def split: option.splits if_splits)

lemma estimate_real:
  assumes est: "estimate_signal sg cx tok bid ask = Inr s" and src: "ss_source_used s \<in> set real_sources"
  shows "\<exists>goal math p. goalserve_prob sg cx tok = Inr goal \<and> math_prob sg cx tok = Inr math
    \<and> (goal = Some p \<or> math = Some p) \<and> ss_final_prob_p s = clamp_probability p"
proof -
  obtain goal where goal: "goalserve_prob sg cx tok = Inr goal"
    using est by (cases "goalserve_prob sg cx tok") (simp_all add: estimate_signal_def)
  obtain math where math: "math_prob sg cx tok = Inr math"
    using est goal by (cases "math_prob sg cx tok") (simp_all add: estimate_signal_def)
  let ?vs = "case true_signal goal math of Some vs \<Rightarrow> vs
    | None \<Rightarrow> book_signal (case dx_orderbook cx of None \<Rightarrow> None | Some b \<Rightarrow> microprice b) bid ask"
  have s: "ss_final_prob_p s = clamp_probability (fst ?vs)" "ss_source_used s = snd ?vs"
    using est by (auto simp: estimate_signal_def goal math Let_def split_beta)
  have "true_signal goal math \<noteq> None"
    using src book_signal_source by (auto simp: s split: option.splits)
  then obtain v src' where ts: "true_signal goal math = Some (v, src')"
    by (cases "true_signal goal math") auto
  show ?thesis using true_signal_value [OF ts] by (auto simp: goal math s ts)
qed

lemma history_record:
  "history_for_token (record_signal st s) tok =
     (if tok = ss_token_id s then keep_last PER_TOKEN_RING_CAPACITY (history_for_token st tok @ [s])
      else history_for_token st tok)"
  by (simp add: history_for_token_def record_signal_def)

lemma latest_record: "latest_for_token (record_signal st s) (ss_token_id s) = Some s"
proof -
  have "history_for_token (record_signal st s) (ss_token_id s) = keep_last 299 (history_for_token st (ss_token_id s)) @ [s]"
    by (simp add: history_record PER_TOKEN_RING_CAPACITY_def last_keep_last)
  then show ?thesis
    by (metis (no_types, lifting) append_is_Nil_conv last_snoc latest_for_token_def list.case(2) neq_Nil_conv)
qed

text \<open>A total that is past its line.\<close>

lemma math_prob_dispatch:
  assumes "dx_market cx = Some m" "sg_describe sg m = d" "sd_accepted d" "sd_market_type d = Some ty"
    and "target_for_token d tok = Some t" "live_game_from_metadata (dx_metadata cx) = Some g"
  shows "math_prob sg cx tok = bind_result
    (evaluate_math_prob (sg_math sg) ty (tt_side t) (sd_line d) (Some g) (Some (mk_market_slug m)))
    (\<lambda>r. Inr (usable_probability r))"
  using assms by (simp add: math_prob_def)

definition sports_view ::
  "('f, 'x) strategy_scheme \<Rightarrow> decision_context \<Rightarrow> string option \<Rightarrow> (market \<times> sports_descriptor \<times> token_target \<times> live_game) option"
where
  "sports_view sg cx tok = (case dx_market cx of
       None \<Rightarrow> None
     | Some m \<Rightarrow>
         (case (target_for_token (sg_describe sg m) tok, live_game_from_metadata (dx_metadata cx)) of
            (Some t, Some g) \<Rightarrow> Some (m, sg_describe sg m, t, g)
          | _ \<Rightarrow> None))"

text \<open>The token is the over or the under of a line on the whole game.\<close>

definition full_game_total :: "market \<Rightarrow> sports_descriptor \<Rightarrow> bool" where
  "full_game_total m d \<longleftrightarrow> sd_accepted d \<and> sd_market_type d = Some MT_TOTALS
     \<and> \<not> slug_has (lowered (Some (mk_market_slug m)) []) sub_scope_tokens"

lemma sports_viewD:
  assumes "sports_view sg cx tok = Some (m, d, t, g)"
  shows "dx_market cx = Some m" "d = sg_describe sg m" "target_for_token d tok = Some t"
    and "live_game_from_metadata (dx_metadata cx) = Some g"
  using assms by (auto simp: sports_view_def split: option.splits)

lemma math_prob_total:
  assumes "sports_view sg cx tok = Some (m, d, t, g)" "full_game_total m d"
  shows "math_prob sg cx tok = bind_result
    (evaluate_math_prob (sg_math sg) MT_TOTALS (tt_side t) (sd_line d) (Some g) (Some (mk_market_slug m)))
    (\<lambda>r. Inr (usable_probability r))"
  using assms(2) math_prob_dispatch [OF sports_viewD(1) [OF assms(1)] sports_viewD(2) [OF assms(1), symmetric] _ _
      sports_viewD(3,4) [OF assms(1)]]
  by (simp add: full_game_total_def)


definition demo_strategy :: "market_type \<Rightarrow> (token_target list) \<Rightarrow> rat strategy" where
  "demo_strategy ty ts = \<lparr>sg_describe = (\<lambda>m. \<lparr>sd_accepted = True, sd_reason = [], sd_family = MF_SINGLE_GAME,
     sd_market_type = Some ty, sd_line = Some (11/2), sd_targets = ts\<rparr>), sg_math = demo_floats\<rparr>"

definition demo_totals :: "rat strategy" where
  "demo_totals = demo_strategy MT_TOTALS [\<lparr>tt_token_id = ''o'', tt_side = MS_OVER, tt_label = [], tt_invert_side = False\<rparr>,
     \<lparr>tt_token_id = ''u'', tt_side = MS_UNDER, tt_label = [], tt_invert_side = False\<rparr>]"

definition demo_game_context :: "string \<Rightarrow> int \<Rightarrow> decision_context" where
  "demo_game_context sport home = (new_context ''tr'')\<lparr>dx_market := Some (new_market ''c1'' ''nhl-a-b'' []),
     dx_metadata := [(''sport'', PStr sport), (''home_score'', PInt home), (''away_score'', PInt 0),
       (''period'', PStr ''1st'')]\<rparr>"

definition unclocked_total :: "rat strategy \<Rightarrow> decision_context \<Rightarrow> int \<Rightarrow> bool" where
  "unclocked_total sg cx h = (case sports_view sg cx (Some ''u'') of
       None \<Rightarrow> False
     | Some (m, d, t, g) \<Rightarrow> full_game_total m d \<and> sd_line d = Some (11/2) \<and> tt_side t = MS_UNDER
         \<and> total_score g = h \<and> \<not> is_tennis g \<and> clockless_sport g \<and> estimate_remaining_seconds g = None)"

lemma demo_views:
  "unclocked_total demo_totals (demo_game_context ''ice-hockey'' 1) 1"
  "unclocked_total demo_totals (demo_game_context ''ice-hockey'' 7) 7"
  "math_prob demo_totals (demo_game_context ''ice-hockey'' 7) (Some ''u'') = Inr None"
  by code_simp+

lemma unclocked_totalE:
  assumes "unclocked_total sg cx h"
  obtains m d t g where "sports_view sg cx (Some ''u'') = Some (m, d, t, g)" "full_game_total m d"
    "sd_line d = Some (11/2)" "tt_side t = MS_UNDER" "total_score g = h" "\<not> is_tennis g" "clockless_sport g"
    "estimate_remaining_seconds g = None"
  using assms by (auto simp: unclocked_total_def split: option.splits)


text \<open>
  C25: A soccer, basketball or hockey game whose clock is not known is taken for over, whatever its
  status: on an accepted total of the full game whose line the score has not reached, the under
  is signalled with probability one. (Other sports are not concerned: without a clock NFL, for
  one, answers zero.)
\<close>

theorem clockless_under_certain:
  assumes "sports_view sg cx tok = Some (m, d, t, g)" "full_game_total m d" "sd_line d = Some l"
    and "tt_side t = MS_UNDER" "estimate_remaining_seconds g = None" "clockless_sport g"
    and "of_int (total_score g) < l"
  shows "math_prob sg cx tok = Inr (Some 1)"
proof -
  have slug: "\<not> slug_has (lowered (Some (mk_market_slug m)) []) sub_scope_tokens"
    using assms(2) by (simp add: full_game_total_def)
  show ?thesis
    using no_clock_under [OF assms(5-7) slug, of "sg_math sg"] math_prob_total [OF assms(1,2)] assms(3,4)
    by (auto simp: usable_probability_def split: sum.splits)
qed

theorem clockless_under_certain_witness:
  "math_prob demo_totals (demo_game_context ''ice-hockey'' 1) (Some ''u'') = Inr (Some 1)"
proof -
  obtain m d t g where v: "sports_view demo_totals (demo_game_context ''ice-hockey'' 1) (Some ''u'') = Some (m, d, t, g)"
      "full_game_total m d" "sd_line d = Some (11/2)" "tt_side t = MS_UNDER" "total_score g = 1" "clockless_sport g"
      "estimate_remaining_seconds g = None"
    using unclocked_totalE [OF demo_views(1)] by metis
  then show ?thesis by (intro clockless_under_certain [OF v(1-4) v(7,6)]) simp
qed

end
