(* ===== verification/Quant_Decider.thy ===== *)
theory Quant_Decider
  imports Quant_Signal
begin

text \<open>
  \<open>workflow/trading/allocation.py\<close>, \<open>workflow/quant_decider.py\<close>, \<open>workflow/recovery.py\<close> and the
  decision of \<open>workflow/workflow.py\<close>: entries on a market tick, cancellations and pauses on a
  reconciliation cycle. The metadata that explains a skipped candidate and the display summary,
  which nothing reads back, are left out. The text form of a decimal is the argument \<open>dstr\<close>, the
  clock the argument \<open>now\<close>. The managed tokens of a market are a set in the code, whose order of
  iteration is not specified; here they come in the order of the targets.
\<close>

subsection \<open>Candidates\<close>

record workflow_config =
  wc_default_max_age :: int
  wc_baseball_max_age :: int
  wc_livescore_only_max_age :: int
  wc_tennis_max_age :: int
  wc_soccer_max_age :: int
  wc_esports_max_age :: int
  wc_stale_no_live_state_seconds :: int
  wc_entry_maker_max_resting_seconds :: int

definition default_workflow_config :: workflow_config where
  "default_workflow_config =
     \<lparr>wc_default_max_age = 60, wc_baseball_max_age = 120, wc_livescore_only_max_age = 120,
      wc_tennis_max_age = 35, wc_soccer_max_age = 120, wc_esports_max_age = 90,
      wc_stale_no_live_state_seconds = 86400, wc_entry_maker_max_resting_seconds = 60\<rparr>"

definition blocking_statuses :: "game_status set" where
  "blocking_statuses = {GS_POSTPONED, GS_CANCELLED, GS_RETIRED, GS_DISPUTED}"

definition market_snapshot ::
  "market \<Rightarrow> string \<Rightarrow> book \<Rightarrow> position option \<Rightarrow> order list \<Rightarrow> string option \<Rightarrow> allocation_market" where
  "market_snapshot m tok b pos orders key =
     (let eligible = (mk_trading_status m = TS_ELIGIBLE) in
      \<lparr>am_market = m, am_token_id = tok, am_orderbook = Some b, am_position = pos, am_open_orders = orders,
       am_tradable = eligible, am_risk_allowed = True, am_market_active = eligible,
       am_market_open = eligible, am_clob_enabled = True,
       am_resolved = (mk_trading_status m = TS_RESOLVED), am_cancelled = False,
       am_archived = (mk_trading_status m = TS_CLOSED),
       am_liquidity_usdc = Some (ask_depth_notional (Some b)), am_spread = spread b,
       am_best_ask = ob_best_ask b, am_best_ask_size = ob_best_ask_size b, am_idempotency_key = key\<rparr>)"

definition focus_token :: "decision_context \<Rightarrow> string option" where
  "focus_token cx = str_or (dx_token_id cx) (map_option ob_token_id (dx_orderbook cx))"

definition fallback_snapshot :: "decision_context \<Rightarrow> allocation_market option" where
  "fallback_snapshot cx = (case (dx_market cx, dx_orderbook cx) of
       (Some m, Some b) \<Rightarrow>
         let tok = or_default (focus_token cx) []
         in Some (market_snapshot m tok b (dx_position cx) (dx_open_orders cx)
              (Some (dx_trace_id cx @ '':'' @ mk_condition_id m @ '':'' @ tok)))
     | _ \<Rightarrow> None)"

definition entry_candidate_to_snapshot :: "entry_candidate \<Rightarrow> allocation_market" where
  "entry_candidate_to_snapshot c =
     market_snapshot (ec_market c) (ec_token_id c) (ec_orderbook c) (ec_position c) (ec_open_orders c)
       (ec_idempotency_key c)"

definition candidate_snapshots :: "decision_context \<Rightarrow> allocation_market list" where
  "candidate_snapshots cx =
     (if dx_entry_candidates cx \<noteq> [] then map entry_candidate_to_snapshot (dx_entry_candidates cx)
      else case fallback_snapshot cx of None \<Rightarrow> [] | Some s \<Rightarrow> [s])"

text \<open>Why a candidate is left out, or the empty text.\<close>

definition live_skip_reason :: "decision_context \<Rightarrow> string" where
  "live_skip_reason cx = (case live_game_from_metadata (dx_metadata cx) of
       None \<Rightarrow> ''missing_live_game_state''
     | Some g \<Rightarrow>
         if lg_status g \<in> blocking_statuses then ''live_game_terminal_'' @ game_status_value (lg_status g)
         else [])"

definition allocation_skip_reason ::
  "('f, 'x) strategy_scheme \<Rightarrow> decision_context \<Rightarrow> allocation_market \<Rightarrow> string" where
  "allocation_skip_reason sg cx s =
     (let d = sg_describe sg (am_market s);
          live = (if sd_family d = MF_SINGLE_GAME then live_skip_reason cx else [])
      in if sd_family d = MF_UNSUPPORTED \<or> sd_market_type d = None then ''unsupported_market_family''
         else if live \<noteq> [] then live
         else if \<not> am_tradable s then ''market_not_tradable''
         else if \<not> am_market_active s then ''market_not_active''
         else if \<not> am_market_open s then ''market_not_open''
         else if \<not> am_clob_enabled s then ''clob_disabled''
         else if am_resolved s then ''market_resolved''
         else if am_cancelled s then ''market_cancelled''
         else if am_archived s then ''market_archived''
         else if \<not> am_risk_allowed s then ''risk_limit_reached''
         else if effective_best_ask s = None then ''missing_best_ask''
         else [])"

definition skipped_allocation :: "allocation_market \<Rightarrow> string \<Rightarrow> allocation" where
  "skipped_allocation s reason = reject_allocation s (market_exposure s) reason None None None"

type_synonym allocation_map = "(string \<times> string, allocation) dict"

definition plan_map :: "allocation list \<Rightarrow> allocation_map" where
  "plan_map als = foldl (\<lambda>m a. dict_set m (al_condition_id a, or_default (al_token_id a) []) a) [] als"

definition merge_allocation_plan ::
  "string \<Rightarrow> decimal \<Rightarrow> allocation_market list \<Rightarrow> allocation_plan \<Rightarrow> allocation_map \<Rightarrow> allocation_plan" where
  "merge_allocation_plan trace budget snaps plan skipped =
     (let m = foldl (\<lambda>m (k, a). dict_set m k a) (plan_map (ap_allocations plan)) skipped
      in \<lparr>ap_trace_id = trace, ap_total_budget_usdc = budget,
          ap_allocations = concat (map (\<lambda>s. case dict_get m (am_condition_id s, am_token_id s) of
              None \<Rightarrow> [] | Some a \<Rightarrow> [a]) snaps),
          ap_reason = ap_reason plan\<rparr>)"

definition pick_allocation :: "allocation list \<Rightarrow> string option \<Rightarrow> string option \<Rightarrow> allocation option" where
  "pick_allocation als cid tok = (case (cid, tok) of
       (Some c, Some t) \<Rightarrow> find (\<lambda>a. al_condition_id a = c \<and> al_token_id a = Some t) als
     | _ \<Rightarrow> None)"

definition sizing_reason :: "allocation_plan \<Rightarrow> allocation option \<Rightarrow> string" where
  "sizing_reason p a = (case a of
       None \<Rightarrow> ap_reason p | Some a \<Rightarrow> if al_reason a = [] then ap_reason p else al_reason a)"

definition empty_sizing :: "decision_context \<Rightarrow> string \<Rightarrow> entry_sizing" where
  "empty_sizing cx reason =
     \<lparr>es_plan = \<lparr>ap_trace_id = dx_trace_id cx,
        ap_total_budget_usdc = or_default
          (dec_or (dx_portfolio_budget_usdc cx) (metadata_decimal (dx_metadata cx) [''portfolio_budget_usdc''])) 0,
        ap_allocations = [], ap_reason = reason\<rparr>,
      es_allocation = None, es_reason = reason\<rparr>"

subsection \<open>Sizing an entry\<close>

text \<open>The settings a context carries; the planner that builds contexts writes all of them.\<close>

definition context_kelly :: "decision_context \<Rightarrow> kelly_settings result" where
  "context_kelly cx = (case (dx_kelly_fraction cx, dx_kelly_max_position_fraction cx, dx_kelly_min_stake_usdc cx) of
       (Some f, Some mx, Some st) \<Rightarrow> Inr
         \<lparr>kc_fraction = f, kc_max_position_fraction = mx, kc_min_edge = or_default (dx_kelly_min_edge cx) 0,
          kc_min_stake_usdc = st, kc_allow_round_up = or_default (dx_kelly_allow_round_up cx) True,
          kc_max_overbet_ratio = or_default (dec_truthy (dx_kelly_round_up_max_overbet_ratio cx)) 1\<rparr>
     | _ \<Rightarrow> Inl (ValueError ''missing Kelly settings''))"

text \<open>The signal of one candidate, and what the sizing may take for its probability.\<close>

definition candidate_signal ::
  "('f, 'x) strategy_scheme \<Rightarrow> decision_context \<Rightarrow> allocation_market \<Rightarrow> signal_snapshot option result" where
  "candidate_signal sg cx s = (case am_orderbook s of
       None \<Rightarrow> Inr None
     | Some b \<Rightarrow>
         (case ob_best_bid b of
            None \<Rightarrow> Inr None
          | Some bid \<Rightarrow> bind_result (estimate_signal sg cx (Some (am_token_id s)) bid (ob_best_ask b))
              (\<lambda>x. Inr (Some x))))"

definition signal_view :: "signal_snapshot option \<Rightarrow> prob_view" where
  "signal_view x = (case x of
       None \<Rightarrow> \<lparr>pv_prob_p = None, pv_prob_confidence = 0, pv_source = ''missing_orderbook''\<rparr>
     | Some s \<Rightarrow>
         if ss_source_used s \<in> set real_sources
         then \<lparr>pv_prob_p = Some (ss_final_prob_p s), pv_prob_confidence = 7/10, pv_source = ss_source_used s\<rparr>
         else \<lparr>pv_prob_p = None, pv_prob_confidence = 0, pv_source = ss_source_used s\<rparr>)"

definition candidate_view ::
  "('f, 'x) strategy_scheme \<Rightarrow> decision_context \<Rightarrow> allocation_market \<Rightarrow> prob_view" where
  "candidate_view sg cx s =
     (case candidate_signal sg cx s of Inl e \<Rightarrow> signal_view None | Inr x \<Rightarrow> signal_view x)"

text \<open>
  The plan asks for the candidates in their order; what a signal raises ends the sizing, and the
  signals computed until then stay recorded.
\<close>

fun ask_signals ::
  "('f, 'x) strategy_scheme \<Rightarrow> decision_context \<Rightarrow> signal_store \<Rightarrow> allocation_market list
   \<Rightarrow> signal_store \<times> unit result" where
  "ask_signals sg cx st [] = (st, Inr ())"
| "ask_signals sg cx st (s # ss) = (case candidate_signal sg cx s of
       Inl e \<Rightarrow> (st, Inl e)
     | Inr None \<Rightarrow> ask_signals sg cx st ss
     | Inr (Some x) \<Rightarrow> ask_signals sg cx (record_signal st x) ss)"

definition eligible_snapshots ::
  "('f, 'x) strategy_scheme \<Rightarrow> decision_context \<Rightarrow> allocation_market list \<Rightarrow> allocation_market list" where
  "eligible_snapshots sg cx snaps =
     map (\<lambda>s. s\<lparr>am_liquidity_usdc := Some (ask_depth_notional (am_orderbook s))\<rparr>)
       (filter (\<lambda>s. allocation_skip_reason sg cx s = []) snaps)"

definition skipped_map ::
  "('f, 'x) strategy_scheme \<Rightarrow> decision_context \<Rightarrow> allocation_market list \<Rightarrow> allocation_map" where
  "skipped_map sg cx snaps =
     foldl (\<lambda>m s. dict_set m (am_condition_id s, am_token_id s)
         (skipped_allocation s (allocation_skip_reason sg cx s))) []
       (filter (\<lambda>s. allocation_skip_reason sg cx s \<noteq> []) snaps)"

definition size_candidates ::
  "('f, 'x) strategy_scheme \<Rightarrow> decision_context \<Rightarrow> decimal \<Rightarrow> kelly_settings \<Rightarrow> allocation_market list
   \<Rightarrow> entry_sizing" where
  "size_candidates sg cx budget kc snaps =
     (let plan = merge_allocation_plan (dx_trace_id cx) budget snaps
            (kelly_plan (dx_trace_id cx) (or_default (dx_bankroll_usdc cx) budget) budget
               (eligible_snapshots sg cx snaps) (candidate_view sg cx) kc)
            (skipped_map sg cx snaps);
          al = pick_allocation (ap_allocations plan) (map_option mk_condition_id (dx_market cx)) (focus_token cx)
      in \<lparr>es_plan = plan, es_allocation = al, es_reason = sizing_reason plan al\<rparr>)"

definition no_market_state :: "decision_context \<Rightarrow> decimal \<Rightarrow> entry_sizing" where
  "no_market_state cx budget =
     \<lparr>es_plan = \<lparr>ap_trace_id = dx_trace_id cx, ap_total_budget_usdc = budget, ap_allocations = [],
        ap_reason = ''missing_market_state''\<rparr>, es_allocation = None, es_reason = ''missing_market_state''\<rparr>"

definition cash_too_low :: "decision_context \<Rightarrow> bool" where
  "cash_too_low cx = (case dx_available_usdc cx of None \<Rightarrow> False | Some x \<Rightarrow> x < 5)"

definition size_entry ::
  "('f, 'x) strategy_scheme \<Rightarrow> decision_context \<Rightarrow> signal_store \<Rightarrow> signal_store \<times> entry_sizing result" where
  "size_entry sg cx st = (case dx_portfolio_budget_usdc cx of
       None \<Rightarrow> (st, Inr (empty_sizing cx ''missing_portfolio_budget''))
     | Some budget \<Rightarrow>
         let snaps = candidate_snapshots cx in
         if cash_too_low cx then (st, Inr (empty_sizing cx ''insufficient_available_cash''))
         else if snaps = [] then (st, Inr (no_market_state cx budget))
         else (case context_kelly cx of
             Inl e \<Rightarrow> (st, Inl e)
           | Inr kc \<Rightarrow>
               (case ask_signals sg cx st (eligible_snapshots sg cx snaps) of
                  (st1, Inl e) \<Rightarrow> (st1, Inl e)
                | (st1, Inr _) \<Rightarrow> (st1, Inr (size_candidates sg cx budget kc snaps)))))"

subsection \<open>The entry decision\<close>

definition kelly_metadata :: "(decimal \<Rightarrow> string) \<Rightarrow> allocation \<Rightarrow> message" where
  "kelly_metadata dstr a =
     (let txt = (\<lambda>x. case x of None \<Rightarrow> PNone | Some d \<Rightarrow> PStr (dstr d)); k = al_audit a
      in [(''prob_p'', txt (ka_prob_p k)), (''prob_confidence'', txt (ka_audit_confidence k)),
          (''price_c'', txt (ka_audit_price_c k)), (''edge_gross'', txt (ka_edge_gross k)),
          (''edge_net'', txt (ka_edge_net k)), (''fee_per_share_usdc'', txt (ka_fee_per_share_usdc k)),
          (''f_star'', txt (ka_kelly_f_star k)),
          (''effective_kelly_fraction'', txt (ka_effective_kelly_fraction k)),
          (''effective_min_stake_usdc'', txt (ka_effective_min_stake_usdc k)),
          (''capped_by'', case ka_capped_by k of None \<Rightarrow> PNone | Some s \<Rightarrow> PStr s),
          (''is_round_up_overbet'', PBool (ka_is_round_up_overbet k)),
          (''buy_budget_usdc'', PStr (dstr (al_buy_budget_usdc a))),
          (''target_budget_usdc'', PStr (dstr (al_target_budget_usdc a))),
          (''current_exposure_usdc'', PStr (dstr (al_current_exposure_usdc a)))])"

definition decide_entry :: "(decimal \<Rightarrow> string) \<Rightarrow> decision_context \<Rightarrow> trading_decision" where
  "decide_entry dstr cx = (case (dx_market cx, dx_orderbook cx) of
       (Some m, Some b) \<Rightarrow>
         (case ob_best_ask b of
            None \<Rightarrow> decide_skip ''missing_best_ask''
          | Some ask \<Rightarrow>
              (case dx_amount_usdc cx of
                 None \<Rightarrow> decide_skip ''missing_entry_amount''
               | Some amount \<Rightarrow>
                   if amount \<le> 0 then decide_skip ''missing_entry_amount''
                   else decide_buy ''quant_entry'' (focus_token cx) ask amount None False
                          (Some (mk_market_slug m))
                          (case dx_allocation cx of None \<Rightarrow> []
                           | Some a \<Rightarrow> [(''kelly'', PDict (kelly_metadata dstr a))])))
     | _ \<Rightarrow> decide_skip ''missing_market_state'')"

definition entry_after_sizing ::
  "(decimal \<Rightarrow> string) \<Rightarrow> decision_context \<Rightarrow> entry_sizing \<Rightarrow> trading_decision" where
  "entry_after_sizing dstr cx sz =
     (let no_entry = decide_skip (or_default (str_or (Some (es_reason sz)) None) ''no_allocation'')
      in case es_allocation sz of
           None \<Rightarrow> no_entry
         | Some a \<Rightarrow>
             if al_buy_budget_usdc a \<le> 0 then no_entry
             else decide_entry dstr (cx\<lparr>dx_amount_usdc := Some (al_buy_budget_usdc a),
                    dx_allocation := Some a, dx_allocation_plan := Some (es_plan sz)\<rparr>))"

definition decide_entry_attempt ::
  "('f, 'x) strategy_scheme \<Rightarrow> (decimal \<Rightarrow> string) \<Rightarrow> decision_context \<Rightarrow> signal_store
   \<Rightarrow> signal_store \<times> trading_decision result" where
  "decide_entry_attempt sg dstr cx st =
     (if dx_market cx = None \<or> dx_orderbook cx = None then (st, Inr (decide_skip ''missing_market_state''))
      else case size_entry sg cx st of
          (st1, Inl e) \<Rightarrow> (st1, Inl e)
        | (st1, Inr sz) \<Rightarrow> (st1, Inr (entry_after_sizing dstr cx sz)))"

text \<open>A position is held whatever the signals say.\<close>

definition decide_position_action :: "decision_context \<Rightarrow> trading_decision" where
  "decide_position_action cx = decide_skip ''quant_position_hold''"

definition holds_position :: "decision_context \<Rightarrow> bool" where
  "holds_position cx = (case dx_position cx of None \<Rightarrow> False | Some p \<Rightarrow> po_shares p > 0)"

definition decision_to_quant :: "trading_decision \<Rightarrow> quant_decision" where
  "decision_to_quant d =
     (if td_action d = TA_SKIP then no_actions (td_reason d)
      else (no_actions (td_reason d))\<lparr>qd_actions := [d]\<rparr>)"

definition decide_market_tick ::
  "('f, 'x) strategy_scheme \<Rightarrow> (decimal \<Rightarrow> string) \<Rightarrow> decision_context \<Rightarrow> signal_store
   \<Rightarrow> signal_store \<times> quant_decision result" where
  "decide_market_tick sg dstr cx st =
     (if holds_position cx then (st, Inr (decision_to_quant (decide_position_action cx)))
      else case decide_entry_attempt sg dstr cx st of
          (st1, Inl e) \<Rightarrow> (st1, Inl e)
        | (st1, Inr d) \<Rightarrow> (st1, Inr (decision_to_quant d)))"

subsection \<open>Recovery\<close>

definition order_identifier :: "order \<Rightarrow> string option" where
  "order_identifier r = str_or (or_order_id r) (or_idempotency_key r)"

definition is_open_entry_order :: "order \<Rightarrow> bool" where
  "is_open_entry_order r \<longleftrightarrow> or_side r = BUY \<and> order_open r"

definition decision_time :: "int \<Rightarrow> decision_context \<Rightarrow> int" where
  "decision_time now cx = or_default (dx_now cx) now"

definition should_cancel_open_entry_order ::
  "workflow_config \<Rightarrow> int \<Rightarrow> decision_context \<Rightarrow> order \<Rightarrow> bool" where
  "should_cancel_open_entry_order cfg now cx r =
     (if \<not> is_open_entry_order r then False
      else if wc_entry_maker_max_resting_seconds cfg \<le> 0 then True
      else case or_else (or_created_at r) (or_updated_at r) of
          None \<Rightarrow> or_order_type r \<noteq> GTC
        | Some opened \<Rightarrow> decision_time now cx - opened > wc_entry_maker_max_resting_seconds cfg * 1000000)"

definition stale_no_live_state_pause_reason ::
  "workflow_config \<Rightarrow> ('f, 'x) strategy_scheme \<Rightarrow> int \<Rightarrow> decision_context \<Rightarrow> string option" where
  "stale_no_live_state_pause_reason cfg sg now cx = (case dx_market cx of
       None \<Rightarrow> None
     | Some m \<Rightarrow>
         (case mk_game_start_time m of
            None \<Rightarrow> None
          | Some start \<Rightarrow>
              if sd_family (sg_describe sg m) \<noteq> MF_SINGLE_GAME then None
              else if live_game_from_metadata (dx_metadata cx) \<noteq> None then None
              else if wc_stale_no_live_state_seconds cfg \<le> 0 then None
              else if decision_time now cx - start \<le> wc_stale_no_live_state_seconds cfg * 1000000 then None
              else Some ''stale_no_live_state''))"

text \<open>The age a live state may have, by sport: the first rule that applies.\<close>

definition max_live_state_age_seconds :: "workflow_config \<Rightarrow> live_game \<Rightarrow> int" where
  "max_live_state_age_seconds cfg g =
     (let league = py_lower (py_strip (lg_league g)); sport = py_lower (py_strip (lg_sport g)) in
      if lg_tennis g \<noteq> None \<or> py_in ''tennis'' league \<or> league \<in> {''atp'', ''wta''}
      then wc_tennis_max_age cfg
      else if lg_baseball g \<noteq> None \<or> league \<in> {''mlb'', ''baseball''} then wc_baseball_max_age cfg
      else if lg_esports g \<noteq> None \<or> sport = ''esports'' then wc_esports_max_age cfg
      else if lg_soccer g \<noteq> None \<or> sport = ''soccer'' \<or> league \<in> {''j1'', ''j2'', ''j1100'', ''j2100''}
        \<or> list_ex (\<lambda>k. py_in k league) [''soccer'', ''football'', ''liga'', ''league'', ''serie'']
      then wc_soccer_max_age cfg
      else if lg_cricket g \<noteq> None \<or> lg_handball g \<noteq> None
        \<or> sport \<in> {''cricket'', ''rugby'', ''handball'', ''rugbyleague''}
        \<or> list_ex (\<lambda>k. py_in k league) [''rugby'', ''cricket'', ''handball'']
      then wc_livescore_only_max_age cfg
      else wc_default_max_age cfg)"

definition abnormal_statuses :: "game_status set" where
  "abnormal_statuses = {GS_POSTPONED, GS_CANCELLED, GS_DISPUTED, GS_RETIRED, GS_UNKNOWN}"

definition abnormal_live_state_pause_reason ::
  "workflow_config \<Rightarrow> int \<Rightarrow> decision_context \<Rightarrow> string option" where
  "abnormal_live_state_pause_reason cfg now cx = (case live_game_from_metadata (dx_metadata cx) of
       None \<Rightarrow> None
     | Some g \<Rightarrow>
         if lg_status g \<in> abnormal_statuses then Some (''sports_live_state_'' @ game_status_value (lg_status g))
         else if lg_status g = GS_ENDED then None
         else (case lg_observed_at g of
             None \<Rightarrow> None
           | Some t \<Rightarrow>
               if decision_time now cx - t > max_live_state_age_seconds cfg g * 1000000
               then Some ''sports_live_state_stale'' else None))"

definition recovery_metadata :: "decision_context \<Rightarrow> string option \<Rightarrow> message" where
  "recovery_metadata cx reason = (case reason of
       None \<Rightarrow> [(''recovery_reason'', PStr ''quant_recovery'')]
     | Some r \<Rightarrow>
         [(''recovery_reason'', PStr r), (''recovery_pause_reason'', PStr r)] @
         (case dx_market cx of None \<Rightarrow> []
          | Some m \<Rightarrow> [(''condition_id'', PStr (mk_condition_id m)), (''market_slug'', PStr (mk_market_slug m))]) @
         (case str_or (dx_token_id cx) None of None \<Rightarrow> [] | Some t \<Rightarrow> [(''token_id'', PStr t)]))"

definition managed_token_ids :: "('f, 'x) strategy_scheme \<Rightarrow> market \<Rightarrow> string list" where
  "managed_token_ids sg m = remdups (map tt_token_id (sd_targets (sg_describe sg m)))"

definition recovery_orders ::
  "('f, 'x) strategy_scheme \<Rightarrow> decision_context \<Rightarrow> market \<Rightarrow> order list" where
  "recovery_orders sg cx m =
     (let ids = managed_token_ids sg m; cid = mk_condition_id m;
          own = filter (\<lambda>r. or_token_id r \<in> set ids \<or> ids = [] \<and> or_condition_id r = cid) (dx_open_orders cx)
      in if own \<noteq> [] then own
         else (case dx_account_snapshot cx of
             None \<Rightarrow> []
           | Some a \<Rightarrow>
               if ids \<noteq> [] then concat (map (open_orders_for_market a cid) ids)
               else filter (\<lambda>r. or_condition_id r = cid) (ac_open_orders a)))"

definition recovery_cancel ::
  "workflow_config \<Rightarrow> int \<Rightarrow> decision_context \<Rightarrow> market \<Rightarrow> message \<Rightarrow> order \<Rightarrow> trading_decision list" where
  "recovery_cancel cfg now cx m md r = (case order_identifier r of
       None \<Rightarrow> []
     | Some oid \<Rightarrow>
         if should_cancel_open_entry_order cfg now cx r
         then [decide_cancel ''open_entry_order_detected'' (Some (or_token_id r)) oid
                 (str_or (or_market_slug r) (Some (mk_market_slug m))) md]
         else [])"

definition build_recovery_quant_decision ::
  "workflow_config \<Rightarrow> ('f, 'x) strategy_scheme \<Rightarrow> int \<Rightarrow> decision_context \<Rightarrow> quant_decision" where
  "build_recovery_quant_decision cfg sg now cx = (case dx_market cx of
       None \<Rightarrow> no_actions ''missing_market_state''
     | Some m \<Rightarrow>
         let missing_target = (managed_token_ids sg m = []);
             abnormal = or_else (abnormal_live_state_pause_reason cfg now cx)
                          (stale_no_live_state_pause_reason cfg sg now cx);
             pause = (mk_trading_status m \<in> {TS_PAUSED, TS_CLOSED, TS_RESOLVED}
               \<or> (case dx_account_snapshot cx of None \<Rightarrow> False | Some a \<Rightarrow> is_market_paused a (mk_condition_id m))
               \<or> abnormal \<noteq> None \<or> missing_target)
         in \<lparr>qd_actions = concat (map (recovery_cancel cfg now cx m (recovery_metadata cx abnormal))
               (recovery_orders sg cx m)),
             qd_reason = ''quant_recovery'', qd_pause_trading = pause,
             qd_pause_reason = (case abnormal of
                 Some r \<Rightarrow> r
               | None \<Rightarrow> if missing_target then ''missing_target''
                        else if pause then ''market_not_tradable'' else [])\<rparr>)"

subsection \<open>The decider and the workflow\<close>

definition quant_decider_decide ::
  "workflow_config \<Rightarrow> ('f, 'x) strategy_scheme \<Rightarrow> (decimal \<Rightarrow> string) \<Rightarrow> int \<Rightarrow> decision_context \<Rightarrow> signal_store
   \<Rightarrow> signal_store \<times> quant_decision result" where
  "quant_decider_decide cfg sg dstr now cx st =
     (if dx_quant_trigger_kind cx = ''market_tick'' then decide_market_tick sg dstr cx st
      else if dx_quant_trigger_kind cx = ''reconcile_cycle''
      then (st, Inr (build_recovery_quant_decision cfg sg now cx))
      else (st, Inr (no_actions (''unknown_trigger_kind:'' @ dx_quant_trigger_kind cx))))"

text \<open>The workflow: its decider, and whether a notice said that no live source works.\<close>

record workflow =
  wf_config :: workflow_config
  wf_no_feasible_source :: bool
  wf_signals :: signal_store

definition quant_decide ::
  "('f, 'x) strategy_scheme \<Rightarrow> (decimal \<Rightarrow> string) \<Rightarrow> int \<Rightarrow> decision_context \<Rightarrow> workflow
   \<Rightarrow> workflow \<times> quant_decision result" where
  "quant_decide sg dstr now cx w =
     (if dx_quant_trigger_kind cx = ''reconcile_cycle'' \<and> wf_no_feasible_source w
         \<and> (case dx_market cx of None \<Rightarrow> False | Some m \<Rightarrow> sd_family (sg_describe sg m) = MF_SINGLE_GAME)
      then (w, Inr \<lparr>qd_actions = [], qd_reason = ''sports_live_state_no_source'', qd_pause_trading = True,
             qd_pause_reason = ''sports_live_state_no_source''\<rparr>)
      else case quant_decider_decide (wf_config w) sg dstr now cx (wf_signals w) of
          (st, Inl e) \<Rightarrow> (w\<lparr>wf_signals := st\<rparr>, Inl e)
        | (st, Inr d) \<Rightarrow> (w\<lparr>wf_signals := st\<rparr>,
            Inr (d\<lparr>qd_actions := map (enrich_decision DK_EXIT) (qd_actions d)\<rparr>)))"

definition on_live_state_no_feasible_source :: "py_value list \<Rightarrow> workflow \<Rightarrow> workflow" where
  "on_live_state_no_feasible_source statuses w =
     w\<lparr>wf_no_feasible_source := \<not> list_ex (\<lambda>s. case s of
          PDict m \<Rightarrow> mget m ''health'' \<in> {PStr ''success_with_live_data'', PStr ''cached''}
        | _ \<Rightarrow> False) statuses\<rparr>"

subsection \<open>What an allocation rests on\<close>

lemma dict_get_fold_set:
  "dict_get (foldl (\<lambda>m a. dict_set m (f a) (g a)) d xs) k = Some v
     \<Longrightarrow> dict_get d k = Some v \<or> (\<exists>a \<in> set xs. k = f a \<and> v = g a)"
  by (induction xs arbitrary: d) (fastforce simp: dict_get_set split: if_splits)+

lemma merged_allocation:
  assumes "a \<in> set (ap_allocations (merge_allocation_plan trace budget snaps plan skipped))"
  shows "a \<in> set (ap_allocations plan) \<or> a \<in> snd ` set skipped"
proof -
  let ?m = "foldl (\<lambda>m (k, a). dict_set m k a) (plan_map (ap_allocations plan)) skipped"
  obtain k where "dict_get ?m k = Some a"
    using assms by (auto simp: merge_allocation_plan_def Let_def split: option.splits)
  then have "dict_get (plan_map (ap_allocations plan)) k = Some a \<or> a \<in> snd ` set skipped"
    using dict_get_fold_set [of fst snd "plan_map (ap_allocations plan)" skipped k a]
    by (auto simp: case_prod_beta')
  then show ?thesis
    using dict_get_fold_set [of "\<lambda>a. (al_condition_id a, or_default (al_token_id a) [])" "\<lambda>a. a" "[]" "ap_allocations plan" k a]
    by (auto simp: plan_map_def)
qed

lemma skipped_zero:
  assumes "a \<in> snd ` set (skipped_map sg cx snaps)" shows "al_buy_budget_usdc a = 0"
proof -
  have "dict_all (\<lambda>a. al_buy_budget_usdc a = 0) (foldl (\<lambda>m s. dict_set m (am_condition_id s, am_token_id s)
      (skipped_allocation s (allocation_skip_reason sg cx s))) d ss)"
    if "dict_all (\<lambda>a. al_buy_budget_usdc a = 0) d" for d :: allocation_map and ss
    using that by (induction ss arbitrary: d) (simp_all add: dict_all_set skipped_allocation_def reject_allocation_def)
  then have "dict_all (\<lambda>a. al_buy_budget_usdc a = 0) (skipped_map sg cx snaps)" by (simp add: skipped_map_def)
  with assms show ?thesis by (fastforce simp: dict_all_def)
qed

lemma pick_allocation_Some:
  "pick_allocation als cid tok = Some a \<Longrightarrow> a \<in> set als \<and> cid = Some (al_condition_id a) \<and> tok = al_token_id a"
  by (auto simp: pick_allocation_def find_Some_iff split: option.splits)

text \<open>
  The probabilities that count as a signal: the devigged odds and the mathematical probability,
  each within one percent of impossible and certain.
\<close>

definition signal_values :: "('f, 'x) strategy_scheme \<Rightarrow> decision_context \<Rightarrow> string \<Rightarrow> decimal list" where
  "signal_values sg cx tok = concat (map (\<lambda>r. case r of Inr (Some p) \<Rightarrow> [clamp_probability p] | _ \<Rightarrow> [])
     [goalserve_prob sg cx (Some tok), math_prob sg cx (Some tok)])"

text \<open>
  A candidate the strategy may buy for an amount: nothing speaks against it, a signal beats its
  best ask by the minimum edge after fees, and the amount is within the depth of the asks.
\<close>

definition buyable_candidate ::
  "('f, 'x) strategy_scheme \<Rightarrow> decision_context \<Rightarrow> kelly_settings \<Rightarrow> decimal \<Rightarrow> allocation_market \<Rightarrow> bool" where
  "buyable_candidate sg cx kc amount s \<longleftrightarrow> allocation_skip_reason sg cx s = []
     \<and> Some (am_condition_id s) = map_option mk_condition_id (dx_market cx) \<and> Some (am_token_id s) = focus_token cx
     \<and> (case effective_best_ask s of
          None \<Rightarrow> False
        | Some c \<Rightarrow> 0 < c \<and> c < 1 \<and>
            list_ex (\<lambda>p. kc_min_edge kc \<le> dsub (dsub p c) (fee_per_share_usdc c
                (case mk_fee_rate_bps (am_market s) of
                   Some r \<Rightarrow> r | None \<Rightarrow> or_default (mk_taker_base_fee_bps (am_market s)) 0)
                (mk_fees_enabled (am_market s) \<noteq> Some False))) (signal_values sg cx (am_token_id s)))
     \<and> kc_min_stake_usdc kc \<le> amount
     \<and> (0 \<le> ask_depth_notional (am_orderbook s) \<longrightarrow> amount \<le> ask_depth_notional (am_orderbook s))"

lemma candidate_view_signal:
  assumes "pv_prob_p (candidate_view sg cx s) = Some p"
  shows "p \<in> set (signal_values sg cx (am_token_id s))"
proof -
  obtain x where x: "candidate_signal sg cx s = Inr (Some x)" "ss_source_used x \<in> set real_sources"
      "p = ss_final_prob_p x"
    using assms by (auto simp: candidate_view_def signal_view_def split: sum.splits option.splits if_splits)
  obtain bid ask where "estimate_signal sg cx (Some (am_token_id s)) bid ask = Inr x"
    using x(1) by (auto simp: candidate_signal_def split: option.splits)
  from estimate_real [OF this x(2)] show ?thesis
    by (auto simp: signal_values_def x(3))
qed

lemma with_liquidity [simp]:
  "effective_best_ask (s\<lparr>am_liquidity_usdc := l\<rparr>) = effective_best_ask s"
  "am_condition_id (s\<lparr>am_liquidity_usdc := l\<rparr>) = am_condition_id s"
  "candidate_view sg cx (s\<lparr>am_liquidity_usdc := l\<rparr>) = candidate_view sg cx s"
  by (simp_all add: effective_best_ask_def am_condition_id_def candidate_view_def candidate_signal_def
      cong: option.case_cong)

lemma skip_with_liquidity [simp]:
  "allocation_skip_reason sg cx (s\<lparr>am_liquidity_usdc := l\<rparr>) = allocation_skip_reason sg cx s"
  by (simp add: allocation_skip_reason_def del: not_None_eq)

lemma sized_buyable:
  assumes "es_allocation (size_candidates sg cx budget kc snaps) = Some a" "0 < al_buy_budget_usdc a"
  shows "\<exists>s \<in> set snaps. buyable_candidate sg cx kc (al_buy_budget_usdc a) s"
proof -
  let ?plan = "kelly_plan (dx_trace_id cx) (or_default (dx_bankroll_usdc cx) budget) budget
    (eligible_snapshots sg cx snaps) (candidate_view sg cx) kc"
  have pick: "a \<in> set (ap_allocations (merge_allocation_plan (dx_trace_id cx) budget snaps ?plan (skipped_map sg cx snaps)))"
      "map_option mk_condition_id (dx_market cx) = Some (al_condition_id a)" "focus_token cx = al_token_id a"
    using pick_allocation_Some [of _ _ _ a] assms(1) by (auto simp: size_candidates_def Let_def)
  then have "a \<in> set (ap_allocations ?plan)"
    using merged_allocation skipped_zero assms(2) by fastforce
  then obtain s' where s': "s' \<in> set (eligible_snapshots sg cx snaps)" "backed_allocation kc (candidate_view sg cx) s' a"
    using plan_backed assms(2) by blast
  then obtain s where s: "s \<in> set snaps" "s' = s\<lparr>am_liquidity_usdc := Some (ask_depth_notional (am_orderbook s))\<rparr>"
      "allocation_skip_reason sg cx s = []"
    by (auto simp: eligible_snapshots_def)
  obtain p where p: "pv_prob_p (candidate_view sg cx s) = Some p"
    using s'(2) by (auto simp: backed_allocation_def s(2) split: option.splits)
  have "buyable_candidate sg cx kc (al_buy_budget_usdc a) s"
    using s'(2) s(3) pick(2,3) candidate_view_signal [OF p]
    by (auto simp: backed_allocation_def buyable_candidate_def s(2) p list_ex_iff allocation_key_def market_key_def
        market_liquidity_usdc_def split: option.splits)
  with s(1) show ?thesis by blast
qed

lemma size_entry_cases:
  assumes "size_entry sg cx st = (st1, Inr sz)" "es_allocation sz = Some a"
  obtains budget kc where "dx_portfolio_budget_usdc cx = Some budget" "context_kelly cx = Inr kc"
    "\<not> cash_too_low cx" "sz = size_candidates sg cx budget kc (candidate_snapshots cx)"
  using assms by (auto simp: size_entry_def Let_def empty_sizing_def no_market_state_def
      split: option.splits if_splits sum.splits prod.splits)

text \<open>An order to buy that the strategy may give.\<close>

definition sound_entry :: "('f, 'x) strategy_scheme \<Rightarrow> decision_context \<Rightarrow> trading_decision \<Rightarrow> bool" where
  "sound_entry sg cx d \<longleftrightarrow> \<not> holds_position cx \<and> \<not> cash_too_low cx \<and> td_token_id d = focus_token cx
     \<and> td_price d = (case dx_orderbook cx of None \<Rightarrow> None | Some b \<Rightarrow> ob_best_ask b)
     \<and> (case (td_amount_usdc d, context_kelly cx) of
          (Some amount, Inr kc) \<Rightarrow> 0 < amount
            \<and> list_ex (buyable_candidate sg cx kc amount) (candidate_snapshots cx)
        | _ \<Rightarrow> False)"

lemma entry_attempt_sound:
  assumes "decide_entry_attempt sg dstr cx st = (st1, Inr d)" "\<not> holds_position cx"
  shows "td_action d = TA_SKIP \<or> td_action d = TA_BUY \<and> sound_entry sg cx d"
proof (cases "td_action d = TA_SKIP")
  case False
  then obtain sz where sz: "size_entry sg cx st = (st1, Inr sz)" "d = entry_after_sizing dstr cx sz"
    using assms(1) by (auto simp: decide_entry_attempt_def decide_skip_def plain_decision_def
        split: if_splits prod.splits sum.splits)
  obtain a where a: "es_allocation sz = Some a" "0 < al_buy_budget_usdc a"
    using False by (auto simp: sz(2) entry_after_sizing_def Let_def decide_skip_def plain_decision_def
        split: option.splits if_splits)
  obtain budget kc where kc: "context_kelly cx = Inr kc" "\<not> cash_too_low cx"
      "sz = size_candidates sg cx budget kc (candidate_snapshots cx)"
    using size_entry_cases [OF sz(1) a(1)] by metis
  have buy: "list_ex (buyable_candidate sg cx kc (al_buy_budget_usdc a)) (candidate_snapshots cx)"
    using sized_buyable [of sg cx budget kc "candidate_snapshots cx" a] a kc(3) by (auto simp: list_ex_iff)
  obtain m b ask where b: "dx_market cx = Some m" "dx_orderbook cx = Some b" "ob_best_ask b = Some ask"
    using False a by (auto simp: sz(2) entry_after_sizing_def Let_def decide_entry_def decide_skip_def
        plain_decision_def split: option.splits)
  have "d = decide_buy ''quant_entry'' (focus_token cx) ask (al_buy_budget_usdc a) None False
      (Some (mk_market_slug m)) [(''kelly'', PDict (kelly_metadata dstr a))]"
    using a b by (simp add: sz(2) entry_after_sizing_def Let_def decide_entry_def focus_token_def)
  then show ?thesis
    using assms(2) a b buy kc by (simp add: decide_buy_def plain_decision_def sound_entry_def)
qed simp

text \<open>
  C2: What the strategy does to the market: on a tick it does nothing or places a single sound
  order to buy (there is no position, at least five dollars of cash, nothing speaks against the candidate,
  a live signal beats the best ask by the minimum edge after fees, the amount lies within the depth of the
  asks), in a reconciliation cycle it only cancels open buy orders. It never
  sells and never replaces, whatever the position.
\<close>

definition sound_action :: "('f, 'x) strategy_scheme \<Rightarrow> decision_context \<Rightarrow> trading_decision \<Rightarrow> bool" where
  "sound_action sg cx d \<longleftrightarrow>
     (if dx_quant_trigger_kind cx = ''market_tick'' then td_action d = TA_BUY \<and> sound_entry sg cx d
      else dx_quant_trigger_kind cx = ''reconcile_cycle'' \<and> td_action d = TA_CANCEL
        \<and> (case dx_market cx of None \<Rightarrow> False | Some m \<Rightarrow>
            list_ex (\<lambda>r. is_open_entry_order r \<and> order_identifier r = td_order_id d
               \<and> td_token_id d = Some (or_token_id r)) (recovery_orders sg cx m)))"

lemma enriched_fields [simp]:
  "td_action (enrich_decision k d) = td_action d" "td_order_id (enrich_decision k d) = td_order_id d"
  "td_token_id (enrich_decision k d) = td_token_id d"
  by (simp_all add: enrich_decision_def)

lemma sound_entry_enriched [simp]: "sound_entry sg cx (enrich_decision k d) = sound_entry sg cx d"
  by (simp add: sound_entry_def enrich_decision_def)

lemma recovery_cancelD:
  assumes "d \<in> set (recovery_cancel cfg now cx m md r)"
  shows "td_action d = TA_CANCEL" "is_open_entry_order r" "order_identifier r = td_order_id d"
    "td_token_id d = Some (or_token_id r)"
  using assms by (auto simp: recovery_cancel_def decide_cancel_def plain_decision_def
      should_cancel_open_entry_order_def split: option.splits if_splits)

lemma recovery_action_sound:
  assumes "d \<in> set (qd_actions (build_recovery_quant_decision cfg sg now cx))"
  shows "td_action d = TA_CANCEL \<and> (case dx_market cx of None \<Rightarrow> False | Some m \<Rightarrow>
    list_ex (\<lambda>r. is_open_entry_order r \<and> order_identifier r = td_order_id d
      \<and> td_token_id d = Some (or_token_id r)) (recovery_orders sg cx m))"
proof (cases "dx_market cx")
  case None
  then show ?thesis using assms by (simp add: build_recovery_quant_decision_def no_actions_def)
next
  case (Some m)
  then obtain md r where r: "r \<in> set (recovery_orders sg cx m)" "d \<in> set (recovery_cancel cfg now cx m md r)"
    using assms by (auto simp: build_recovery_quant_decision_def Let_def)
  then show ?thesis using recovery_cancelD [OF r(2)] by (auto simp: Some list_ex_iff)
qed

lemma tick_action_sound:
  assumes "decide_market_tick sg dstr cx st = (st1, Inr q)" "d \<in> set (qd_actions q)"
  shows "td_action d = TA_BUY \<and> sound_entry sg cx d"
proof -
  have "\<not> holds_position cx"
    using assms by (auto simp: decide_market_tick_def decision_to_quant_def decide_position_action_def decide_skip_def
        plain_decision_def no_actions_def)
  then obtain d' where d': "decide_entry_attempt sg dstr cx st = (st1, Inr d')" "q = decision_to_quant d'"
    using assms(1) by (auto simp: decide_market_tick_def split: prod.splits sum.splits)
  then have "d = d'" "td_action d' \<noteq> TA_SKIP"
    using assms(2) by (auto simp: decision_to_quant_def no_actions_def split: if_splits)
  then show ?thesis using entry_attempt_sound [OF d'(1) \<open>\<not> holds_position cx\<close>] by simp
qed

lemma decider_action_sound:
  assumes "quant_decider_decide cfg sg dstr now cx st = (st1, Inr q)" "d \<in> set (qd_actions q)"
  shows "sound_action sg cx d"
proof (cases "dx_quant_trigger_kind cx = ''market_tick''")
  case True
  then show ?thesis
    using tick_action_sound [of sg dstr cx st st1 q d] assms by (simp add: quant_decider_decide_def sound_action_def)
next
  case False
  then have "dx_quant_trigger_kind cx = ''reconcile_cycle''" "q = build_recovery_quant_decision cfg sg now cx"
    using assms by (auto simp: quant_decider_decide_def no_actions_def split: if_splits)
  then show ?thesis using recovery_action_sound [of d cfg sg now cx] assms(2) by (simp add: sound_action_def)
qed

lemma tick_one_action:
  assumes "decide_market_tick sg dstr cx st = (st1, Inr q)"
  shows "length (qd_actions q) \<le> 1"
  using assms by (auto simp: decide_market_tick_def decision_to_quant_def no_actions_def
      split: if_splits prod.splits sum.splits)

lemma quant_decide_tick_one:
  assumes "quant_decide sg dstr now cx w = (w', Inr q)" "dx_quant_trigger_kind cx = ''market_tick''"
  shows "length (qd_actions q) \<le> 1"
  using assms tick_one_action
  by (fastforce simp: quant_decide_def quant_decider_decide_def split: if_splits prod.splits sum.splits)

lemma enriched_sound: "sound_action sg cx d \<Longrightarrow> sound_action sg cx (enrich_decision k d)"
  by (simp add: sound_action_def cong: option.case_cong)

lemma quant_decide_sound:
  assumes "quant_decide sg dstr now cx w = (w', Inr q)" "d \<in> set (qd_actions q)"
  shows "sound_action sg cx d"
proof -
  obtain st q' where q': "quant_decider_decide (wf_config w) sg dstr now cx (wf_signals w) = (st, Inr q')"
      "d \<in> enrich_decision DK_EXIT ` set (qd_actions q')"
    using assms by (auto simp: quant_decide_def split: if_splits prod.splits sum.splits)
  then show ?thesis using decider_action_sound [OF q'(1)] enriched_sound by blast
qed

theorem strategy_actions_sound:
  assumes "quant_decide sg dstr now cx w = (w', Inr q)"
  shows "list_all (sound_action sg cx) (qd_actions q)
    \<and> (dx_quant_trigger_kind cx = ''market_tick'' \<longrightarrow> length (qd_actions q) \<le> 1)"
  using quant_decide_sound [OF assms] quant_decide_tick_one [OF assms] by (simp add: list_all_iff)

definition demo_entry_context :: decision_context where
  "demo_entry_context = (demo_game_context ''ice-hockey'' 7)\<lparr>
     dx_market := Some ((new_market ''c1'' ''nhl-a-b'' [])\<lparr>mk_trading_status := TS_ELIGIBLE\<rparr>),
     dx_token_id := Some ''o'', dx_orderbook := Some (demo_book\<lparr>ob_token_id := ''o''\<rparr>),
     dx_portfolio_budget_usdc := Some 100, dx_available_usdc := Some 50, dx_bankroll_usdc := Some 50,
     dx_kelly_fraction := Some (1/4), dx_kelly_max_position_fraction := Some 1, dx_kelly_min_edge := Some (2/100),
     dx_kelly_min_stake_usdc := Some 1, dx_quant_trigger_kind := ''market_tick''\<rparr>"

definition demo_workflow :: workflow where
  "demo_workflow = \<lparr>wf_config = default_workflow_config, wf_no_feasible_source = False, wf_signals = []\<rparr>"

definition demo_entry :: "quant_decision result" where
  "demo_entry = snd (quant_decide demo_totals (\<lambda>_. []) 0 demo_entry_context demo_workflow)"

lemma demo_entry_buys: "case demo_entry of Inl e \<Rightarrow> False | Inr q \<Rightarrow> map td_action (qd_actions q) = [TA_BUY]"
  by code_simp

theorem strategy_actions_sound_witness:
  "case demo_entry of Inl e \<Rightarrow> False
   | Inr q \<Rightarrow> length (qd_actions q) = 1 \<and> list_all (sound_action demo_totals demo_entry_context) (qd_actions q)
       \<and> (dx_quant_trigger_kind demo_entry_context = ''market_tick'' \<longrightarrow> length (qd_actions q) \<le> 1)"
  using demo_entry_buys strategy_actions_sound [of demo_totals "\<lambda>_. []" 0 demo_entry_context demo_workflow]
  by (cases "quant_decide demo_totals (\<lambda>_. []) 0 demo_entry_context demo_workflow")
    (auto simp: demo_entry_def split: sum.splits)

end
