(* ===== verification/Order_Projection.thy ===== *)
theory Order_Projection
  imports Account_State Market_Model
begin

text \<open>
  \<open>app/order_projection.py\<close>: how the result of an order changes the account store. The
  clock is the argument \<open>now\<close>. A decimal in a boolean position is falsy when it is zero, so
  \<open>a or b\<close> on optional decimals is \<open>dec_or\<close>.
\<close>

definition order_open_size :: "order \<Rightarrow> decimal" where
  "order_open_size r = (case or_remaining_shares r of Some s \<Rightarrow> max s 0
     | None \<Rightarrow> (case or_size_shares r of Some s \<Rightarrow> max s 0
     | None \<Rightarrow> (case or_amount_usdc r of Some a \<Rightarrow> max a 0 | None \<Rightarrow> 0)))"

definition order_open_shares :: "order \<Rightarrow> decimal option" where
  "order_open_shares r = (case or_remaining_shares r of Some s \<Rightarrow> Some (max s 0)
     | None \<Rightarrow> (case or_size_shares r of Some s \<Rightarrow> Some (max s 0) | None \<Rightarrow> None))"

definition filled_shares :: "order_result \<Rightarrow> decimal" where
  "filled_shares r =
     (if rs_matched_shares r > 0 then rs_matched_shares r
      else (case rs_requested_size_shares r of
          Some q \<Rightarrow> dsub q (rs_remaining_shares r)
        | None \<Rightarrow>
            (case rs_price r of
               Some p \<Rightarrow> if rs_notional_usdc r > 0 \<and> p > 0 then ddiv (rs_notional_usdc r) p else 0
             | None \<Rightarrow> 0)))"

definition spent_usdc :: "order_result \<Rightarrow> decimal" where
  "spent_usdc r =
     (if rs_spent_usdc r > 0 then rs_spent_usdc r
      else (case rs_price r of
          Some p \<Rightarrow> if rs_matched_shares r > 0 then dmul p (rs_matched_shares r) else 0
        | None \<Rightarrow> 0))"

definition released_budget :: "order_result \<Rightarrow> decimal" where
  "released_budget r =
     (let requested = or_default (dec_truthy (rs_requested_amount_usdc r)) (rs_notional_usdc r);
          released = dsub requested (rs_spent_usdc r)
      in if released < 0 then 0 else released)"

definition has_unexpected_resting_order :: "order_result \<Rightarrow> bool" where
  "has_unexpected_resting_order r \<longleftrightarrow>
     rs_order_type r = Some FAK \<and> (has_resting_order r \<or> rs_status r = LIVE)"

definition find_open_order ::
  "account option \<Rightarrow> string \<Rightarrow> string \<Rightarrow> string option \<Rightarrow> order option" where
  "find_open_order snapshot cid tok order_id =
     (case (snapshot, order_id) of
        (Some a, Some i) \<Rightarrow>
          find (\<lambda>r. str_or (or_order_id r) (or_idempotency_key r) = Some i)
            (open_orders_for_market a cid tok)
      | _ \<Rightarrow> None)"

definition snapshot_position :: "account option \<Rightarrow> string \<Rightarrow> string \<Rightarrow> position option" where
  "snapshot_position snapshot cid tok =
     (case snapshot of None \<Rightarrow> None | Some a \<Rightarrow> get_position a cid tok)"

definition existing_order_size :: "account option \<Rightarrow> order_result \<Rightarrow> decimal" where
  "existing_order_size snapshot r =
     (case snapshot of
        None \<Rightarrow> 0
      | Some a \<Rightarrow>
          (case find (\<lambda>x. or_order_id x = rs_order_id r
               \<or> rs_order_id r = None \<and> or_idempotency_key x
                   = (case rs_intent r of Some i \<Rightarrow> managed_idempotency_key i | None \<Rightarrow> None))
              (open_orders_for_market a (rs_condition_id r) (rs_token_id r)) of
             Some x \<Rightarrow> or_default (dec_or (or_remaining_shares x) (dec_truthy (or_size_shares x))) 0
           | None \<Rightarrow> 0))"

definition replacement_remaining :: "order_result \<Rightarrow> decimal option \<Rightarrow> decimal" where
  "replacement_remaining r sz =
     (let rem = (case sz of
            Some s \<Rightarrow> if rs_status r \<in> {LIVE, PARTIAL_FILL} \<and> rs_remaining_shares r \<le> 0
                then max (dsub s (rs_matched_shares r)) 0 else rs_remaining_shares r
          | None \<Rightarrow> rs_remaining_shares r)
      in if rem < 0 then 0 else rem)"

subsection \<open>Projections onto the store\<close>

definition refresh_balances_from :: "account_store \<Rightarrow> account option \<Rightarrow> account_store" where
  "refresh_balances_from s snapshot =
     (case snapshot of
        None \<Rightarrow> s
      | Some a \<Rightarrow> update_balances s (Some (ac_balance_usdc a)) (Some (ac_allowance_usdc a)))"

definition bought_position ::
  "order_result \<Rightarrow> position option \<Rightarrow> int \<Rightarrow> position option" where
  "bought_position r previous now =
     (let fill_size = filled_shares r; cost = spent_usdc r
      in case previous of
        None \<Rightarrow>
          if fill_size \<le> 0 then None
          else Some ((new_position (rs_condition_id r) (rs_token_id r) fill_size cost)
            \<lparr>po_market_slug := rs_market_slug r,
             po_confirmation_status := result_status_value (rs_status r),
             po_last_order_id := rs_order_id r, po_last_trade_id := rs_trade_id r,
             po_updated_at := Some now\<rparr>)
      | Some p \<Rightarrow>
          Some ((new_position (po_condition_id p) (po_token_id p)
              (dadd (po_shares p) fill_size) (dadd (po_cost_usdc p) cost))
            \<lparr>po_market_slug := str_or (po_market_slug p) (rs_market_slug r),
             po_open_buy_shares := 0, po_open_sell_shares := po_open_sell_shares p,
             po_pending_buy_shares := 0,
             po_confirmed_shares := dadd (po_confirmed_shares p) fill_size,
             po_last_order_id := str_or (rs_order_id r) (po_last_order_id p),
             po_last_trade_id := str_or (rs_trade_id r) (po_last_trade_id p),
             po_confirmation_status := result_status_value (rs_status r),
             po_updated_at := Some now\<rparr>))"

definition apply_buy_result ::
  "account_store \<Rightarrow> order_result \<Rightarrow> account option \<Rightarrow> int \<Rightarrow> account_store" where
  "apply_buy_result s r snapshot now =
     (if rs_status r \<notin> {FULL_FILL, PARTIAL_FILL, NO_FILL} then s
      else (case bought_position r
          (snapshot_position snapshot (rs_condition_id r) (rs_token_id r)) now of
          None \<Rightarrow> s
        | Some p \<Rightarrow> refresh_balances_from (upsert_position s p) snapshot))"

definition sell_remaining :: "order_result \<Rightarrow> sell_intent \<Rightarrow> decimal" where
  "sell_remaining r intent =
     (let rem = (if rs_status r \<in> {LIVE, PARTIAL_FILL} \<and> rs_remaining_shares r \<le> 0
                 then dsub (si_size_shares intent) (filled_shares r) else rs_remaining_shares r)
      in if rem < 0 then 0 else rem)"

definition sell_order_id :: "order_result \<Rightarrow> sell_intent \<Rightarrow> string" where
  "sell_order_id r intent =
     or_default (str_or (rs_order_id r) (str_or (si_idempotency_key intent) None))
       (rs_trace_id r @ '':'' @ rs_condition_id r @ '':'' @ rs_token_id r @ '':sell'')"

definition sell_order_record ::
  "order_result \<Rightarrow> sell_intent \<Rightarrow> position \<Rightarrow> decimal \<Rightarrow> order" where
  "sell_order_record r intent p remaining =
     \<lparr>or_condition_id = rs_condition_id r, or_token_id = rs_token_id r, or_side = SELL,
      or_order_type = or_default (rs_order_type r) (si_order_type intent),
      or_price = or_default (dec_truthy (rs_price r)) (si_price intent),
      or_trace_id = rs_trace_id r,
      or_market_slug = str_or (po_market_slug p) (rs_market_slug r), or_amount_usdc = None,
      or_size_shares = dec_or (rs_requested_size_shares r) (Some (si_size_shares intent)),
      or_filled_shares = rs_matched_shares r, or_remaining_shares = Some remaining,
      or_notional_usdc = Some (rs_notional_usdc r),
      or_order_id = Some (sell_order_id r intent), or_trade_id = rs_trade_id r,
      or_status = order_result_to_order_status (rs_status r),
      or_idempotency_key = str_or (si_idempotency_key intent) (Some (sell_order_id r intent)),
      or_reason = rs_reason r, or_post_only = si_post_only intent,
      or_created_at = rs_queued_at r, or_updated_at = rs_ack_at r\<rparr>"

definition sold_position :: "order_result \<Rightarrow> position \<Rightarrow> decimal \<Rightarrow> int \<Rightarrow> position" where
  "sold_position r p open_sell now =
     (new_position (po_condition_id p) (po_token_id p) (po_shares p) (po_cost_usdc p))
       \<lparr>po_market_slug := str_or (po_market_slug p) (rs_market_slug r),
        po_open_buy_shares := po_open_buy_shares p, po_open_sell_shares := open_sell,
        po_pending_buy_shares := po_pending_buy_shares p,
        po_confirmed_shares := po_confirmed_shares p,
        po_last_order_id := str_or (rs_order_id r) (po_last_order_id p),
        po_last_trade_id := str_or (rs_trade_id r) (po_last_trade_id p),
        po_confirmation_status := result_status_value (rs_status r),
        po_updated_at := Some now\<rparr>"

definition apply_sell_result ::
  "account_store \<Rightarrow> order_result \<Rightarrow> account option \<Rightarrow> sell_intent \<Rightarrow> int \<Rightarrow> account_store" where
  "apply_sell_result s r snapshot intent now =
     (if rs_status r \<notin> {FULL_FILL, PARTIAL_FILL, LIVE} then s
      else (let current = st_snapshot s
            in case or_else (snapshot_position (Some current) (rs_condition_id r) (rs_token_id r))
                 (snapshot_position snapshot (rs_condition_id r) (rs_token_id r)) of
              None \<Rightarrow> s
            | Some p \<Rightarrow>
                (let remaining = sell_remaining r intent;
                     kept = max (dsub (po_open_sell_shares p) (existing_order_size (Some current) r)) 0;
                     total_sell = dadd kept remaining;
                     open_sell = (if total_sell < 0 then 0 else total_sell);
                     s1 = (if rs_status r \<in> {LIVE, PARTIAL_FILL}
                           then upsert_order s (sell_order_record r intent p remaining)
                           else remove_order s (sell_order_id r intent))
                 in upsert_position s1 (sold_position r p open_sell now))))"

definition apply_result_flags ::
  "account_store \<Rightarrow> order_result \<Rightarrow> account option \<Rightarrow> account_store" where
  "apply_result_flags s r snapshot =
     (let s1 = (if has_unexpected_resting_order r
                then store_step (set_allow_new_entries s False)
                  (PauseMarket (rs_condition_id r) ''unexpected_resting_order'' (Some ''risk'') None)
                else s);
          s2 = (if rs_status r \<in> {REJECTED, FAILED, UNKNOWN_TIMEOUT}
                then set_allow_new_entries s1 True else s1)
      in refresh_balances_from s2 snapshot)"

definition submitted_order_id :: "order_intent \<Rightarrow> string" where
  "submitted_order_id intent =
     or_default (str_or (intent_idempotency_key intent) None)
       (intent_trace_id intent @ '':'' @ intent_condition_id intent @ '':'' @ intent_token_id intent
        @ '':'' @ py_lower (side_value (intent_side intent)))"

definition submitted_position ::
  "order_intent \<Rightarrow> string option \<Rightarrow> account \<Rightarrow> position" where
  "submitted_position intent slug snapshot =
     (let buy_open = (case intent of
            BuyIntent b \<Rightarrow> if bi_price b > 0 then ddiv (bi_amount_usdc b) (bi_price b) else 0
          | SellIntent x \<Rightarrow> 0);
          cid = intent_condition_id intent; tok = intent_token_id intent
      in case get_position snapshot cid tok of
        None \<Rightarrow> (new_position cid tok 0 0)\<lparr>po_market_slug := slug, po_open_buy_shares := buy_open,
            po_open_sell_shares := (case intent of SellIntent x \<Rightarrow> si_size_shares x | BuyIntent b \<Rightarrow> 0),
            po_pending_buy_shares := buy_open\<rparr>
      | Some p \<Rightarrow>
          (case intent of
             SellIntent x \<Rightarrow> with_open_sell_shares p
               (dadd (open_sell_shares_for_market snapshot cid tok) (si_size_shares x))
           | BuyIntent b \<Rightarrow>
               (let p1 = with_open_buy_shares p (dadd (po_open_buy_shares p) buy_open)
                in with_pending_buy_shares p1 (dadd (po_pending_buy_shares p1) buy_open))))"

definition submitted_order :: "order_intent \<Rightarrow> string \<Rightarrow> int \<Rightarrow> order" where
  "submitted_order intent reason now =
     \<lparr>or_condition_id = intent_condition_id intent, or_token_id = intent_token_id intent,
      or_side = intent_side intent, or_order_type = intent_order_type intent,
      or_price = intent_price intent, or_trace_id = intent_trace_id intent,
      or_market_slug = intent_market_slug intent, or_amount_usdc = intent_amount_usdc intent,
      or_size_shares = intent_size_shares intent, or_filled_shares = 0,
      or_remaining_shares = intent_size_shares intent,
      or_notional_usdc = Some (intent_notional_usdc intent),
      or_order_id = Some (submitted_order_id intent), or_trade_id = None,
      or_status = OS_SUBMITTED,
      or_idempotency_key = str_or (intent_idempotency_key intent) (Some (submitted_order_id intent)),
      or_reason = reason, or_post_only = intent_post_only intent,
      or_created_at = Some now, or_updated_at = Some now\<rparr>"

definition apply_submitted_intent ::
  "account_store \<Rightarrow> order_intent \<Rightarrow> string option \<Rightarrow> account \<Rightarrow> string \<Rightarrow> int \<Rightarrow> account_store" where
  "apply_submitted_intent s intent slug snapshot reason now =
     upsert_position (upsert_order s (submitted_order intent reason now))
       (submitted_position intent slug snapshot)"

definition open_buy_shares_for_market :: "account \<Rightarrow> string \<Rightarrow> string \<Rightarrow> decimal" where
  "open_buy_shares_for_market a cid tok =
     dsum (map (\<lambda>r. or_default (dec_truthy (order_open_shares r)) 0)
       (open_buy_orders_for_market a cid tok))"

definition refresh_position_coverage ::
  "account_store \<Rightarrow> string \<Rightarrow> string \<Rightarrow> string option \<Rightarrow> string option \<Rightarrow> string option \<Rightarrow> string
   \<Rightarrow> int option \<Rightarrow> account_store" where
  "refresh_position_coverage s cid tok slug last_order_id last_trade_id status updated_at =
     (let snapshot = st_snapshot s;
          open_buy = open_buy_shares_for_market snapshot cid tok;
          open_sell = open_sell_shares_for_market snapshot cid tok
      in if get_position snapshot cid tok = None \<and> open_buy \<le> 0 \<and> open_sell \<le> 0 then s
         else (let p = or_default (get_position snapshot cid tok)
                   ((new_position cid tok 0 0)\<lparr>po_market_slug := slug\<rparr>)
               in upsert_position s ((new_position (po_condition_id p) (po_token_id p)
                     (po_shares p) (po_cost_usdc p))
                   \<lparr>po_market_slug := str_or (po_market_slug p) slug,
                    po_open_buy_shares := open_buy, po_open_sell_shares := open_sell,
                    po_pending_buy_shares := open_buy,
                    po_confirmed_shares := po_confirmed_shares p,
                    po_last_order_id := last_order_id, po_last_trade_id := last_trade_id,
                    po_confirmation_status := status, po_updated_at := updated_at\<rparr>)))"

definition replacement_order ::
  "market \<Rightarrow> order \<Rightarrow> order_result \<Rightarrow> string \<Rightarrow> string \<Rightarrow> order" where
  "replacement_order m src r operator reason =
     (let sz = dec_or (rs_requested_size_shares r) (dec_or (order_open_shares src) (or_size_shares src));
          order_id = or_default (str_or (rs_order_id r) None) (rs_trace_id r);
          sd = or_default (rs_side r) (or_side src);
          price = or_default (dec_truthy (rs_price r)) (or_price src);
          amount = (case rs_requested_amount_usdc r of Some a \<Rightarrow> Some a
                    | None \<Rightarrow> if sd = BUY then or_amount_usdc src else None);
          notional = (case sz of
              Some z \<Rightarrow> if rs_notional_usdc r = 0 then dmul price z else rs_notional_usdc r
            | None \<Rightarrow> rs_notional_usdc r)
      in \<lparr>or_condition_id = rs_condition_id r, or_token_id = rs_token_id r, or_side = sd,
          or_order_type = or_default (rs_order_type r) (or_order_type src), or_price = price,
          or_trace_id = rs_trace_id r,
          or_market_slug = str_or (or_market_slug src) (Some (mk_market_slug m)),
          or_amount_usdc = amount, or_size_shares = sz, or_filled_shares = rs_matched_shares r,
          or_remaining_shares = Some (replacement_remaining r sz),
          or_notional_usdc = Some notional, or_order_id = Some order_id,
          or_trade_id = rs_trade_id r, or_status = order_result_to_order_status (rs_status r),
          or_idempotency_key = (case rs_intent r of
              Some i \<Rightarrow> managed_idempotency_key i | None \<Rightarrow> Some order_id),
          or_reason = reason @ '':'' @ operator,
          or_post_only = (case rs_intent r of Some i \<Rightarrow> managed_post_only i | None \<Rightarrow> False),
          or_created_at = rs_queued_at r, or_updated_at = rs_ack_at r\<rparr>)"

definition apply_replace_result ::
  "account_store \<Rightarrow> market \<Rightarrow> order \<Rightarrow> order_result \<Rightarrow> string \<Rightarrow> string \<Rightarrow> account_store" where
  "apply_replace_result s m src r operator reason =
     (let s1 = remove_order s (order_key src);
          s2 = (if order_result_to_order_status (rs_status r) \<in>
                  {OS_CREATED, OS_SIGNED, OS_SUBMITTED, OS_LIVE, OS_MATCHED, OS_PARTIALLY_FILLED}
                then upsert_order s1 (replacement_order m src r operator reason) else s1)
      in refresh_position_coverage s2 (or_condition_id src) (or_token_id src)
           (str_or (or_market_slug src) (Some (mk_market_slug m)))
           (str_or (rs_order_id r) (Some (rs_trace_id r))) (rs_trade_id r)
           (result_status_value (rs_status r)) (rs_ack_at r))"

subsection \<open>Projections are runs of the store\<close>

lemma reachable_ops [intro]:
  assumes "store_reachable s"
  shows "store_reachable (upsert_position s p)" "store_reachable (upsert_order s r)"
    "store_reachable (remove_order s i)" "store_reachable (set_allow_new_entries s b)"
    "store_reachable (update_balances s x y)"
  using store_next [OF assms, of "UpsertPosition p"] store_next [OF assms, of "UpsertOrder r"]
    store_next [OF assms, of "RemoveOrder i"] store_next [OF assms, of "SetAllowNewEntries b"]
    store_next [OF assms, of "UpdateBalances x y"] by simp_all

lemma refresh_balances_reachable [intro]:
  "store_reachable s \<Longrightarrow> store_reachable (refresh_balances_from s snapshot)"
  by (auto simp: refresh_balances_from_def split: option.splits)

lemma projections_reachable:
  assumes "store_reachable s"
  shows "store_reachable (apply_buy_result s r snapshot now)"
    "store_reachable (apply_sell_result s r snapshot intent now)"
    "store_reachable (apply_result_flags s r snapshot)"
    "store_reachable (apply_submitted_intent s i slug a reason now)"
    "store_reachable (refresh_position_coverage s cid tok slug lo lt st up)"
  using assms
  by (auto simp: apply_buy_result_def apply_sell_result_def apply_result_flags_def
      apply_submitted_intent_def refresh_position_coverage_def Let_def
      simp del: store_step.simps intro: store_next split: option.splits)

text \<open>Operations that keep the positions.\<close>

lemma positions_kept [simp]:
  "st_positions (upsert_order s r) = st_positions s"
  "st_positions (remove_order s i) = st_positions s"
  "st_positions (update_balances s x y) = st_positions s"
  "st_positions (set_allow_new_entries s b) = st_positions s"
  "st_positions (refresh_balances_from s snapshot) = st_positions s"
  by (simp_all add: upsert_order_def remove_order_def update_balances_def set_allow_new_entries_def
      refresh_balances_from_def Let_def split: option.splits)

lemma reachable_position:
  "store_reachable s \<Longrightarrow> get_position (st_snapshot s) cid tok = dict_get (st_positions s) (cid, tok)"
  using store_invariant [of s] snapshot_fields(1) [of s] get_position_store [of s]
  by (simp add: store_ok_def)

lemma get_position_key:
  "store_reachable s \<Longrightarrow> get_position (st_snapshot s) cid tok = Some p \<Longrightarrow> position_key p = (cid, tok)"
  using store_invariant(1) [of s] keyed_get [of position_key "st_positions s" "(cid, tok)" p]
  by (simp add: reachable_position store_ok_def)

lemma kept_position:
  assumes "store_reachable s" "store_reachable s'" "st_positions s' = st_positions s"
  shows "get_position (st_snapshot s') = get_position (st_snapshot s)"
  by (intro ext) (simp add: reachable_position [OF assms(1)] reachable_position [OF assms(2)] assms(3))

lemma merge_shares_cost [simp]:
  "po_shares (merge_position_authority_fields prev p) = po_shares p"
  "po_cost_usdc (merge_position_authority_fields prev p) = po_cost_usdc p"
  "po_open_sell_shares (merge_position_authority_fields prev p) = po_open_sell_shares p"
  "po_open_buy_shares (merge_position_authority_fields prev p) = po_open_buy_shares p"
  "po_pending_buy_shares (merge_position_authority_fields prev p) = po_pending_buy_shares p"
  by (simp_all add: merge_position_authority_fields_def split: option.split)

subsection \<open>Properties\<close>

definition demo_store :: account_store where
  "demo_store = foldl store_step init_store
     [UpdateBalances (Some 100) (Some 100), UpsertPosition (new_position ''c'' ''t'' 10 4)]"

definition demo_buy_result :: order_result where
  "demo_buy_result = (new_result ''x'' ''c'' ''t'' PARTIAL_FILL)
     \<lparr>rs_side := Some BUY, rs_price := Some (1/2), rs_matched_shares := 6\<rparr>"

lemma demo_store_reachable: "store_reachable demo_store"
  unfolding demo_store_def by (rule reachable_run) (rule store_init)

text \<open>
  Applying the result of a buy to the current snapshot adds exactly what was filled and
  spent: the position of the token holds the old shares plus the filled shares at the old
  cost plus the dollars spent, its pending buys are cleared, a fill without a prior position
  opens one, a result without fill opens none, and every other position is untouched. The
  statuses that are not an outcome of matching change nothing.
\<close>

lemma buy_result_accounting:
  assumes "store_reachable s" "rs_condition_id r = cid" "rs_token_id r = tok"
  shows "if rs_status r \<notin> {FULL_FILL, PARTIAL_FILL, NO_FILL}
    then apply_buy_result s r (Some (st_snapshot s)) now = s
    else (case get_position (st_snapshot s) cid tok of
        Some p \<Rightarrow> \<exists>q. get_position (st_snapshot (apply_buy_result s r (Some (st_snapshot s)) now)) cid tok = Some q
          \<and> po_shares q = dadd (po_shares p) (filled_shares r)
          \<and> po_cost_usdc q = dadd (po_cost_usdc p) (spent_usdc r)
          \<and> po_open_sell_shares q = po_open_sell_shares p \<and> po_pending_buy_shares q = 0
      | None \<Rightarrow> (case get_position (st_snapshot (apply_buy_result s r (Some (st_snapshot s)) now)) cid tok of
            None \<Rightarrow> filled_shares r \<le> 0
          | Some q \<Rightarrow> 0 < filled_shares r \<and> po_shares q = filled_shares r \<and> po_cost_usdc q = spent_usdc r))
      \<and> (\<forall>cid' tok'. (cid', tok') \<noteq> (cid, tok) \<longrightarrow>
          get_position (st_snapshot (apply_buy_result s r (Some (st_snapshot s)) now)) cid' tok'
            = get_position (st_snapshot s) cid' tok')"
proof (cases "rs_status r \<in> {FULL_FILL, PARTIAL_FILL, NO_FILL}")
  case True
  let ?a = "Some (st_snapshot s)" and ?prev = "get_position (st_snapshot s) cid tok"
  have g: "get_position (st_snapshot (apply_buy_result s r ?a now)) c t =
      (case bought_position r ?prev now of None \<Rightarrow> get_position (st_snapshot s) c t
       | Some p \<Rightarrow> if (c, t) = position_key p
           then Some (merge_position_authority_fields (get_position (st_snapshot s) c t) p)
           else get_position (st_snapshot s) c t)" for c t
  proof (cases "bought_position r ?prev now")
    case None
    then show ?thesis using True assms by (auto simp: apply_buy_result_def snapshot_position_def)
  next
    case (Some p)
    have "apply_buy_result s r ?a now = refresh_balances_from (upsert_position s p) ?a"
      using True assms Some by (auto simp: apply_buy_result_def snapshot_position_def)
    then have "get_position (st_snapshot (apply_buy_result s r ?a now))
        = get_position (st_snapshot (upsert_position s p))"
      using assms(1) by (intro kept_position) auto
    then show ?thesis using Some upsert_position_get [OF assms(1), of p c t] by simp
  qed
  have k: "position_key p = (cid, tok)" if "bought_position r ?prev now = Some p" for p
    using that assms get_position_key [OF assms(1), of cid tok]
    by (auto simp: bought_position_def Let_def position_key_def new_position_def
        split: option.splits if_splits)
  show ?thesis
    using True unfolding g
    by (cases ?prev; cases "bought_position r ?prev now")
      (auto simp: k dest: k, auto simp: bought_position_def Let_def new_position_def split: if_splits)
qed (simp add: apply_buy_result_def)

lemma sell_result_cases:
  assumes "store_reachable s"
  shows "apply_sell_result s r None intent now = s \<or>
    (\<exists>p s1 x. get_position (st_snapshot s) (rs_condition_id r) (rs_token_id r) = Some p \<and> store_reachable s1
      \<and> st_positions s1 = st_positions s \<and> 0 \<le> x
      \<and> apply_sell_result s r None intent now = upsert_position s1 (sold_position r p x now))"
proof (cases "rs_status r \<in> {FULL_FILL, PARTIAL_FILL, LIVE} \<and> get_position (st_snapshot s) (rs_condition_id r) (rs_token_id r) \<noteq> None")
  case True
  then obtain p where p: "get_position (st_snapshot s) (rs_condition_id r) (rs_token_id r) = Some p" by auto
  let ?s1 = "if rs_status r \<in> {LIVE, PARTIAL_FILL}
      then upsert_order s (sell_order_record r intent p (sell_remaining r intent))
      else remove_order s (sell_order_id r intent)"
  let ?t = "dadd (max (dsub (po_open_sell_shares p) (existing_order_size (Some (st_snapshot s)) r)) 0)
      (sell_remaining r intent)"
  have "apply_sell_result s r None intent now =
      upsert_position ?s1 (sold_position r p (if ?t < 0 then 0 else ?t) now)"
    using True p by (simp add: apply_sell_result_def snapshot_position_def Let_def)
  moreover have "store_reachable ?s1" "st_positions ?s1 = st_positions s"
    using assms by auto
  moreover have "0 \<le> (if ?t < 0 then 0 else ?t)" by simp
  ultimately show ?thesis using p by blast
next
  case False
  then show ?thesis by (auto simp: apply_sell_result_def snapshot_position_def)
qed

text \<open>
  The result of a sell order only reserves shares: whatever the result, in every reachable
  state it leaves the shares and the cost of every position as they were (fills arrive through
  the user stream), never leaves a negative number of shares for sale, opens no position the
  store or the caller did not know, and touches no other position.
\<close>

lemma sell_result_reserves_only:
  assumes "store_reachable s"
  shows "case get_position (st_snapshot (apply_sell_result s r None intent now)) c t of
      None \<Rightarrow> get_position (st_snapshot s) c t = None
    | Some q \<Rightarrow> \<exists>p. get_position (st_snapshot s) c t = Some p \<and> po_shares q = po_shares p
        \<and> po_cost_usdc q = po_cost_usdc p
        \<and> (if (c, t) = (rs_condition_id r, rs_token_id r)
           then q = p \<or> 0 \<le> po_open_sell_shares q
           else q = p)"
proof -
  let ?cid = "rs_condition_id r" and ?tok = "rs_token_id r"
  show ?thesis
    using sell_result_cases [OF assms, of r intent now]
  proof (elim disjE exE conjE)
    assume "apply_sell_result s r None intent now = s"
    then show ?thesis by (auto split: option.splits)
  next
    fix p s1 x
    assume p: "get_position (st_snapshot s) ?cid ?tok = Some p" and s1: "store_reachable s1"
      and pos: "st_positions s1 = st_positions s" and x: "0 \<le> x"
      and e: "apply_sell_result s r None intent now = upsert_position s1 (sold_position r p x now)"
    have k: "position_key (sold_position r p x now) = (?cid, ?tok)"
      using get_position_key [OF assms p] by (simp add: sold_position_def position_key_def new_position_def)
    have f: "po_shares (sold_position r p x now) = po_shares p"
      "po_cost_usdc (sold_position r p x now) = po_cost_usdc p"
      "po_open_sell_shares (sold_position r p x now) = x"
      by (simp_all add: sold_position_def new_position_def)
    show ?thesis
      unfolding e upsert_position_get [OF s1] k kept_position [OF assms s1 pos]
      using p x f by (auto split: option.splits)
  qed
qed

definition demo_sell_intent :: sell_intent where
  "demo_sell_intent = sell_order ''x'' ''c'' ''t'' (9/10) 10"

definition demo_sell_result :: order_result where
  "demo_sell_result = (new_result ''x'' ''c'' ''t'' LIVE)\<lparr>rs_side := Some SELL, rs_order_id := Some ''o''\<rparr>"

text \<open>
  A fill-and-kill order left resting on the exchange closes the entry gate and pauses its
  market with a risk pause that is never recovered automatically. A rejected, failed or timed
  out order sets the gate to whatever the connection and the last reconciliation allow, even
  when the operator or an earlier resting order had closed it.
\<close>

lemma result_flags:
  "(if has_unexpected_resting_order r
    then \<not> st_allow_new_entries (apply_result_flags s r snapshot)
      \<and> dict_get (st_market_pauses (apply_result_flags s r snapshot)) (rs_condition_id r)
          = Some \<lparr>mp_condition_id = rs_condition_id r, mp_reason = ''unexpected_resting_order'',
                  mp_source = PS_RISK, mp_recoverable = False\<rparr>
    else if rs_status r \<in> {REJECTED, FAILED, UNKNOWN_TIMEOUT}
    then st_allow_new_entries (apply_result_flags s r snapshot) = entry_gate_can_open s
      \<and> st_market_pauses (apply_result_flags s r snapshot) = st_market_pauses s
    else st_allow_new_entries (apply_result_flags s r snapshot) = st_allow_new_entries s
      \<and> st_market_pauses (apply_result_flags s r snapshot) = st_market_pauses s)"
proof -
  have rb: "st_allow_new_entries (refresh_balances_from x snapshot) = st_allow_new_entries x"
    "st_market_pauses (refresh_balances_from x snapshot) = st_market_pauses x" for x
    by (simp_all add: refresh_balances_from_def update_balances_def Let_def split: option.split)
  have b: "build_pause c ''unexpected_resting_order'' (Some ''risk'') None =
      Inr \<lparr>mp_condition_id = c, mp_reason = ''unexpected_resting_order'', mp_source = PS_RISK,
           mp_recoverable = False\<rparr>" for c
    by (simp add: build_pause_def parse_pause_source_def)
  have n: "has_unexpected_resting_order r \<Longrightarrow> rs_status r \<notin> {REJECTED, FAILED, UNKNOWN_TIMEOUT}"
    by (auto simp: has_unexpected_resting_order_def has_resting_order_def)
  show ?thesis
  proof (cases "has_unexpected_resting_order r")
    case True
    with n show ?thesis
      by (simp add: apply_result_flags_def Let_def rb pause_market_def b set_allow_new_entries_def pd.get_put)
  next
    case False
    then show ?thesis
      by (simp add: apply_result_flags_def Let_def rb set_allow_new_entries_def)
  qed
qed

text \<open>
  After refreshing the coverage of a token its position agrees with its open orders: the
  shares for sale and the shares being bought are the sums over the open orders of the token,
  and the shares and the cost held are unchanged; without a position and without open orders
  nothing is created.
\<close>

lemma coverage_agrees:
  assumes "store_reachable s" "s' = refresh_position_coverage s cid tok slug lo lt st up"
  shows "case get_position (st_snapshot s') cid tok of
      None \<Rightarrow> get_position (st_snapshot s) cid tok = None
        \<and> open_buy_shares_for_market (st_snapshot s) cid tok \<le> 0
        \<and> open_sell_shares_for_market (st_snapshot s) cid tok \<le> 0
    | Some q \<Rightarrow> po_open_buy_shares q = open_buy_shares_for_market (st_snapshot s) cid tok
        \<and> po_open_sell_shares q = open_sell_shares_for_market (st_snapshot s) cid tok
        \<and> po_pending_buy_shares q = po_open_buy_shares q
        \<and> (case get_position (st_snapshot s) cid tok of
             Some p \<Rightarrow> po_shares q = po_shares p \<and> po_cost_usdc q = po_cost_usdc p
           | None \<Rightarrow> po_shares q = 0 \<and> po_cost_usdc q = 0)"
proof (cases "get_position (st_snapshot s) cid tok")
  case None
  show ?thesis
  proof (cases "open_buy_shares_for_market (st_snapshot s) cid tok \<le> 0
      \<and> open_sell_shares_for_market (st_snapshot s) cid tok \<le> 0")
    case True
    then show ?thesis using None by (simp add: assms(2) refresh_position_coverage_def Let_def)
  next
    case False
    then show ?thesis
      using None upsert_position_get [OF assms(1)]
      by (simp add: assms(2) refresh_position_coverage_def Let_def position_key_def new_position_def)
  qed
next
  case (Some p)
  then show ?thesis
    using upsert_position_get [OF assms(1)] get_position_key [OF assms(1) Some]
    by (simp add: assms(2) refresh_position_coverage_def Let_def position_key_def new_position_def)
qed

end
