(* ===== verification/Reconcile_Plan.thy ===== *)
theory Reconcile_Plan
  imports Quant_Decider Order_Projection
begin

text \<open>
  \<open>recovery/reconcile_service.py\<close>: what a reconciliation would do to a market, computed from the
  snapshots. The decision of the strategy is an argument over a state of its own; so are the
  metadata provider and the reader of books. The trace identifier and the clock are arguments.
\<close>

subsection \<open>Actions and plans\<close>

datatype reconcile_action_type = CANCEL_ORDER | SUBMIT_ORDER | REPLACE_ORDER | PAUSE_TRADING | RESUME_TRADING

fun action_type_value :: "reconcile_action_type \<Rightarrow> string" where
  "action_type_value CANCEL_ORDER = ''cancel_order''"
| "action_type_value SUBMIT_ORDER = ''submit_order''"
| "action_type_value REPLACE_ORDER = ''replace_order''"
| "action_type_value PAUSE_TRADING = ''pause_trading''"
| "action_type_value RESUME_TRADING = ''resume_trading''"

record reconcile_action =
  act_action_type :: reconcile_action_type
  act_trace :: string
  act_condition_id :: string
  act_token_id :: "string option"
  act_market_slug :: "string option"
  act_reason :: string
  act_source_order_id :: "string option"
  act_source_order_side :: "order_side option"
  act_target_size_shares :: "decimal option"
  act_target_notional_usdc :: "decimal option"
  act_pause_reason :: "string option"
  act_intent :: "managed_intent option"
  act_metadata :: message

definition action_priority :: "reconcile_action \<Rightarrow> int" where
  "action_priority a = (if act_action_type a \<in> {PAUSE_TRADING, RESUME_TRADING} then 1 else 2)"

definition merge_key :: "reconcile_action \<Rightarrow> string" where
  "merge_key a = action_type_value (act_action_type a) @ ''|'' @ act_condition_id a @ ''|'' @
     or_default (act_token_id a) [] @ ''|'' @ or_default (act_source_order_id a) [] @ ''|'' @ act_reason a"

definition market_action ::
  "reconcile_action_type \<Rightarrow> string \<Rightarrow> market \<Rightarrow> string \<Rightarrow> string option \<Rightarrow> reconcile_action" where
  "market_action ty trace m reason pause_reason =
     \<lparr>act_action_type = ty, act_trace = trace, act_condition_id = mk_condition_id m, act_token_id = None,
      act_market_slug = Some (mk_market_slug m), act_reason = reason, act_source_order_id = None,
      act_source_order_side = None, act_target_size_shares = None, act_target_notional_usdc = None,
      act_pause_reason = pause_reason, act_intent = None, act_metadata = []\<rparr>"

record market_plan =
  rp_trace :: string
  rp_market :: market
  rp_position :: "position option"
  rp_open_orders :: "order list"
  rp_actions :: "reconcile_action list"
  rp_pause_trading :: bool
  rp_pause_reason :: string

definition plan_has_changes :: "market_plan \<Rightarrow> bool" where
  "plan_has_changes p \<longleftrightarrow> rp_actions p \<noteq> [] \<or> rp_pause_trading p"

record reconcile_plan =
  rc_trace :: string
  rc_generated_at :: int
  rc_market_plans :: "market_plan list"
  rc_total_actions :: nat
  rc_paused_market_count :: nat

definition reconcile_has_changes :: "reconcile_plan \<Rightarrow> bool" where
  "reconcile_has_changes p \<longleftrightarrow> rc_total_actions p > 0 \<or> rc_paused_market_count p > 0"

subsection \<open>The plan of a market\<close>

record 's planner =
  pl_decide :: "decision_context \<Rightarrow> 's \<Rightarrow> 's \<times> quant_decision result"
  pl_metadata :: "market \<Rightarrow> message"
  pl_orderbook :: "string \<Rightarrow> book option"

definition market_open_orders :: "account \<Rightarrow> market \<Rightarrow> order list" where
  "market_open_orders a m = concat (map (open_orders_for_market a (mk_condition_id m)) (token_ids m))"

definition main_position :: "account \<Rightarrow> market \<Rightarrow> position option" where
  "main_position a m =
     (case concat (map (\<lambda>t. case get_position a (mk_condition_id m) t of None \<Rightarrow> [] | Some p \<Rightarrow> [p]) (token_ids m)) of
        [] \<Rightarrow> None | p # _ \<Rightarrow> Some p)"

definition market_token_views :: "('s, 'x) planner_scheme \<Rightarrow> account \<Rightarrow> market \<Rightarrow> token_view list" where
  "market_token_views pl a m = map (\<lambda>out.
     \<lparr>tv_token_id = mo_token_id out, tv_outcome = mo_outcome out, tv_orderbook = pl_orderbook pl (mo_token_id out),
      tv_position = get_position a (mk_condition_id m) (mo_token_id out),
      tv_open_orders = open_orders_for_market a (mk_condition_id m) (mo_token_id out)\<rparr>) (mk_outcomes m)"

text \<open>A pause that may be lifted is hidden from the strategy, so that it judges the market afresh.\<close>

definition account_snapshot_for_recovery :: "account \<Rightarrow> string \<Rightarrow> account" where
  "account_snapshot_for_recovery a cid = (case pause_for_market a cid of
       None \<Rightarrow> a
     | Some p \<Rightarrow> if mp_recoverable p then without_market_pause a cid else a)"

definition recovery_context ::
  "('s, 'x) planner_scheme \<Rightarrow> string \<Rightarrow> int \<Rightarrow> account \<Rightarrow> market \<Rightarrow> decision_context" where
  "recovery_context pl trace now a m = (new_context trace)\<lparr>
     dx_market := Some m, dx_market_token_views := market_token_views pl a m,
     dx_account_snapshot := Some (account_snapshot_for_recovery a (mk_condition_id m)),
     dx_position := main_position a m, dx_open_orders := market_open_orders a m, dx_now := Some now,
     dx_quant_trigger_kind := ''reconcile_cycle'', dx_metadata := pl_metadata pl m\<rparr>"

definition exit_context ::
  "('s, 'x) planner_scheme \<Rightarrow> string \<Rightarrow> account \<Rightarrow> market \<Rightarrow> string \<Rightarrow> position \<Rightarrow> decision_context" where
  "exit_context pl trace a m tok p =
     (let cid = mk_condition_id m;
          selling = max (po_open_sell_shares p) (open_sell_shares_for_market a cid tok)
      in (new_context trace)\<lparr>
           dx_market := Some m, dx_token_id := Some tok, dx_market_token_views := market_token_views pl a m,
           dx_account_snapshot := Some a, dx_position := Some (with_open_sell_shares p selling),
           dx_open_orders := open_orders_for_market a cid tok, dx_quant_trigger_kind := ''market_tick'',
           dx_metadata := dict_set (pl_metadata pl m) ''exit_trigger'' (PStr ''reconcile_position'')\<rparr>)"

fun position_exit_decisions ::
  "('s, 'x) planner_scheme \<Rightarrow> string \<Rightarrow> account \<Rightarrow> market \<Rightarrow> string list \<Rightarrow> 's
   \<Rightarrow> 's \<times> trading_decision list result" where
  "position_exit_decisions pl trace a m [] s = (s, Inr [])"
| "position_exit_decisions pl trace a m (tok # toks) s =
     (case get_position a (mk_condition_id m) tok of
        None \<Rightarrow> position_exit_decisions pl trace a m toks s
      | Some p \<Rightarrow>
          if po_shares p \<le> 0 then position_exit_decisions pl trace a m toks s
          else (case pl_decide pl (exit_context pl trace a m tok p) s of
              (s1, Inl e) \<Rightarrow> (s1, Inl e)
            | (s1, Inr q) \<Rightarrow>
                (case position_exit_decisions pl trace a m toks s1 of
                   (s2, Inl e) \<Rightarrow> (s2, Inl e)
                 | (s2, Inr ds) \<Rightarrow>
                     (s2, Inr (filter (\<lambda>d. td_action d \<in> {TA_SELL, TA_REPLACE}) (qd_actions q) @ ds)))))"

text \<open>The exits of the recovery take precedence over the exits of the tick.\<close>

definition merged_decisions :: "trading_decision list \<Rightarrow> trading_decision list \<Rightarrow> trading_decision list" where
  "merged_decisions recovery exits =
     (let toks = map td_token_id (filter (\<lambda>d. td_action d = TA_SELL \<and> td_token_id d \<noteq> None) recovery)
      in recovery @ filter (\<lambda>d. td_token_id d \<notin> set toks) exits)"

definition pause_reason :: "market \<Rightarrow> account \<Rightarrow> string" where
  "pause_reason m a =
     (let own = (\<lambda>d. or_default (str_or (mk_reject_reason m) None) d) in
      if mk_trading_status m = TS_PAUSED then own ''market_paused''
      else if mk_trading_status m = TS_CLOSED then own ''market_closed''
      else if mk_trading_status m = TS_RESOLVED then own ''market_resolved''
      else case pause_for_market a (mk_condition_id m) of None \<Rightarrow> [] | Some p \<Rightarrow> market_pause.mp_reason p)"

definition sticky_pause :: "account \<Rightarrow> string \<Rightarrow> bool" where
  "sticky_pause a cid = (case pause_for_market a cid of None \<Rightarrow> False | Some p \<Rightarrow> \<not> mp_recoverable p)"

definition resolved_pause_reason :: "market \<Rightarrow> account \<Rightarrow> string \<Rightarrow> bool \<Rightarrow> string" where
  "resolved_pause_reason m a recovery_reason pausing =
     (case pause_for_market a (mk_condition_id m) of
        Some p \<Rightarrow> if \<not> mp_recoverable p then market_pause.mp_reason p
          else if recovery_reason \<noteq> [] then recovery_reason
          else if pausing then pause_reason m a else []
      | None \<Rightarrow> if recovery_reason \<noteq> [] then recovery_reason else if pausing then pause_reason m a else [])"

definition order_index :: "order list \<Rightarrow> (string, order) dict" where
  "order_index rs = foldl (\<lambda>d r. dict_set d (order_key r) r) [] rs"

definition action_from_intent ::
  "string \<Rightarrow> market \<Rightarrow> managed_intent \<Rightarrow> string \<Rightarrow> (string, order) dict \<Rightarrow> message \<Rightarrow> reconcile_action" where
  "action_from_intent trace m intent reason index md = (case intent of
       Cancelling c \<Rightarrow>
         let source = dict_get index (ci_order_id c) in
         \<lparr>act_action_type = CANCEL_ORDER, act_trace = trace, act_condition_id = ci_condition_id c,
          act_token_id = Some (ci_token_id c), act_market_slug = ci_market_slug c, act_reason = reason,
          act_source_order_id = Some (ci_order_id c), act_source_order_side = map_option or_side source,
          act_target_size_shares = map_option order_open_size source, act_target_notional_usdc = None,
          act_pause_reason = None, act_intent = Some intent, act_metadata = md\<rparr>
     | Replacing r \<Rightarrow>
         \<lparr>act_action_type = REPLACE_ORDER, act_trace = trace, act_condition_id = ri_condition_id r,
          act_token_id = Some (ri_token_id r), act_market_slug = ri_market_slug r, act_reason = reason,
          act_source_order_id = Some (ri_order_id r),
          act_source_order_side = map_option or_side (dict_get index (ri_order_id r)),
          act_target_size_shares = Some (ri_size_shares r),
          act_target_notional_usdc = Some (dmul (ri_size_shares r) (ri_new_price r)),
          act_pause_reason = None, act_intent = Some intent, act_metadata = md\<rparr>
     | Tradable i \<Rightarrow>
         \<lparr>act_action_type = SUBMIT_ORDER, act_trace = trace, act_condition_id = intent_condition_id i,
          act_token_id = Some (intent_token_id i),
          act_market_slug = str_or (intent_market_slug i) (Some (mk_market_slug m)), act_reason = reason,
          act_source_order_id = None, act_source_order_side = Some (intent_side i),
          act_target_size_shares = intent_size_shares i,
          act_target_notional_usdc = (case i of
              BuyIntent b \<Rightarrow> Some (bi_amount_usdc b)
            | SellIntent x \<Rightarrow> if si_price x = 0 then None else Some (dmul (si_price x) (si_size_shares x))),
          act_pause_reason = None, act_intent = Some intent, act_metadata = md\<rparr>)"

definition decision_actions ::
  "string \<Rightarrow> market \<Rightarrow> (string, order) dict \<Rightarrow> trading_decision \<Rightarrow> reconcile_action list" where
  "decision_actions trace m index d =
     (case decision_to_managed_intent trace (mk_condition_id m) (Some (mk_market_slug m)) None d of
        None \<Rightarrow> []
      | Some intent \<Rightarrow> [action_from_intent trace m intent (td_reason d) index (td_metadata d)])"

definition assemble_market_plan ::
  "string \<Rightarrow> account \<Rightarrow> market \<Rightarrow> quant_decision \<Rightarrow> trading_decision list \<Rightarrow> market_plan" where
  "assemble_market_plan trace a m recovery exits =
     (let cid = mk_condition_id m;
          pausing = (mk_trading_status m \<in> {TS_PAUSED, TS_CLOSED, TS_RESOLVED} \<or> sticky_pause a cid
            \<or> qd_pause_trading recovery);
          reason = resolved_pause_reason m a (qd_pause_reason recovery) pausing;
          orders = market_open_orders a m
      in \<lparr>rp_trace = trace, rp_market = m, rp_position = main_position a m, rp_open_orders = orders,
          rp_actions =
            (case pause_for_market a cid of
               Some p \<Rightarrow> if \<not> pausing
                 then [market_action RESUME_TRADING trace m ''stale_pause_cleared'' (Some (market_pause.mp_reason p))] else []
             | None \<Rightarrow> []) @
            concat (map (decision_actions trace m (order_index orders)) (merged_decisions (qd_actions recovery) exits)) @
            (if pausing then [market_action PAUSE_TRADING trace m ''market_not_tradable'' (Some reason)] else []),
          rp_pause_trading = pausing, rp_pause_reason = reason\<rparr>)"

definition build_market_plan ::
  "('s, 'x) planner_scheme \<Rightarrow> string \<Rightarrow> int \<Rightarrow> account \<Rightarrow> market \<Rightarrow> 's \<Rightarrow> 's \<times> market_plan result" where
  "build_market_plan pl trace now a m s =
     (case pl_decide pl (recovery_context pl trace now a m) s of
        (s1, Inl e) \<Rightarrow> (s1, Inl e)
      | (s1, Inr recovery) \<Rightarrow>
          (case position_exit_decisions pl trace a m (token_ids m) s1 of
             (s2, Inl e) \<Rightarrow> (s2, Inl e)
           | (s2, Inr exits) \<Rightarrow> (s2, Inr (assemble_market_plan trace a m recovery exits))))"

fun build_market_plans ::
  "('s, 'x) planner_scheme \<Rightarrow> string \<Rightarrow> int \<Rightarrow> account \<Rightarrow> market list \<Rightarrow> 's \<Rightarrow> 's \<times> market_plan list result" where
  "build_market_plans pl trace now a [] s = (s, Inr [])"
| "build_market_plans pl trace now a (m # ms) s =
     (case build_market_plan pl trace now a m s of
        (s1, Inl e) \<Rightarrow> (s1, Inl e)
      | (s1, Inr p) \<Rightarrow>
          (case build_market_plans pl trace now a ms s1 of
             (s2, Inl e) \<Rightarrow> (s2, Inl e)
           | (s2, Inr ps) \<Rightarrow> (s2, Inr (p # ps))))"

definition build_reconcile_plan ::
  "('s, 'x) planner_scheme \<Rightarrow> string \<Rightarrow> int \<Rightarrow> market list \<Rightarrow> account \<Rightarrow> string list option \<Rightarrow> 's
   \<Rightarrow> 's \<times> reconcile_plan result" where
  "build_reconcile_plan pl trace now ms a cids s =
     (let ms = (case cids of None \<Rightarrow> ms | Some c \<Rightarrow> filter (\<lambda>m. mk_condition_id m \<in> set c) ms) in
      case build_market_plans pl trace now a ms s of
        (s1, Inl e) \<Rightarrow> (s1, Inl e)
      | (s1, Inr ps) \<Rightarrow> (s1, Inr
          \<lparr>rc_trace = trace, rc_generated_at = now, rc_market_plans = ps,
           rc_total_actions = sum_list (map (\<lambda>p. length (rp_actions p)) ps),
           rc_paused_market_count = length (filter rp_pause_trading ps)\<rparr>))"

subsection \<open>A strategy that only cancels\<close>

text \<open>
  What the reconciliation needs of a strategy to place no order of its own: a tick proposes no exit, and a
  reconciliation cycle proposes nothing but to cancel open buy orders it was shown.
\<close>

definition shown_orders :: "decision_context \<Rightarrow> order set" where
  "shown_orders cx = set (dx_open_orders cx)
     \<union> (case dx_account_snapshot cx of None \<Rightarrow> {} | Some a \<Rightarrow> set (ac_open_orders a))"

locale cancelling_strategy =
  fixes decide :: "decision_context \<Rightarrow> 's \<Rightarrow> 's \<times> quant_decision result"
  assumes tick_no_exit: "\<lbrakk>decide cx s = (s', Inr q); dx_quant_trigger_kind cx = ''market_tick''; d \<in> set (qd_actions q)\<rbrakk>
      \<Longrightarrow> td_action d \<notin> {TA_SELL, TA_REPLACE}"
    and cycle_cancels: "\<lbrakk>decide cx s = (s', Inr q); dx_quant_trigger_kind cx = ''reconcile_cycle''; d \<in> set (qd_actions q)\<rbrakk>
      \<Longrightarrow> td_action d = TA_CANCEL \<and> (\<exists>r \<in> shown_orders cx. is_open_entry_order r \<and> order_identifier r = td_order_id d)"
begin

lemma no_exits:
  "\<lbrakk>pl_decide pl = decide; position_exit_decisions pl trace a m toks s = (s', Inr ds)\<rbrakk> \<Longrightarrow> ds = []"
proof (induction toks arbitrary: s s' ds)
  case (Cons tok toks)
  show ?case
  proof (cases "get_position a (mk_condition_id m) tok")
    case None
    then show ?thesis using Cons by simp
  next
    case (Some p)
    show ?thesis
    proof (cases "po_shares p \<le> 0")
      case True
      then show ?thesis using Cons Some by simp
    next
      case False
      obtain s1 q where q: "decide (exit_context pl trace a m tok p) s = (s1, Inr q)"
        using Cons.prems Some False by (auto split: prod.splits sum.splits)
      obtain s2 rest where rest: "position_exit_decisions pl trace a m toks s1 = (s2, Inr rest)"
          "ds = filter (\<lambda>d. td_action d \<in> {TA_SELL, TA_REPLACE}) (qd_actions q) @ rest"
        using Cons.prems Some False q by (auto split: prod.splits sum.splits)
      have "dx_quant_trigger_kind (exit_context pl trace a m tok p) = ''market_tick''"
        by (simp add: exit_context_def Let_def)
      then have "filter (\<lambda>d. td_action d \<in> {TA_SELL, TA_REPLACE}) (qd_actions q) = []"
        using tick_no_exit [OF q] by (auto simp: filter_empty_conv)
      then show ?thesis using Cons.IH [OF Cons.prems(1) rest(1)] rest(2) by simp
    qed
  qed
qed simp

end

text \<open>An action that is no order: it pauses, resumes, or cancels an open buy of the account.\<close>

definition harmless_action :: "account \<Rightarrow> reconcile_action \<Rightarrow> bool" where
  "harmless_action a act \<longleftrightarrow> act_action_type act \<in> {PAUSE_TRADING, RESUME_TRADING}
     \<or> act_action_type act = CANCEL_ORDER
       \<and> list_ex (\<lambda>r. is_open_entry_order r \<and> order_identifier r = act_source_order_id act) (ac_open_orders a)"

lemma cancel_action:
  assumes "act \<in> set (decision_actions trace m index d)" "td_action d = TA_CANCEL"
  shows "act_action_type act = CANCEL_ORDER \<and> act_source_order_id act = td_order_id d"
  using assms
  by (auto simp: decision_actions_def decision_to_managed_intent_def action_from_intent_def Let_def str_or_def
      split: option.splits if_splits)

lemma recovery_shown: "shown_orders (recovery_context pl trace now a m) \<subseteq> set (ac_open_orders a)"
  by (auto simp: shown_orders_def recovery_context_def market_open_orders_def open_orders_for_market_def
      account_snapshot_for_recovery_def without_market_pause_def split: option.splits if_splits)

context cancelling_strategy
begin

lemma market_plan_harmless:
  assumes "pl_decide pl = decide" "build_market_plan pl trace now a m s = (s', Inr p)"
  shows "list_all (harmless_action a) (rp_actions p)"
proof -
  let ?cx = "recovery_context pl trace now a m"
  obtain s1 q where q: "decide ?cx s = (s1, Inr q)"
    using assms by (auto simp: build_market_plan_def split: prod.splits sum.splits)
  obtain ds where ds: "position_exit_decisions pl trace a m (token_ids m) s1 = (s', Inr ds)"
      "p = assemble_market_plan trace a m q ds"
    using assms q by (auto simp: build_market_plan_def split: prod.splits sum.splits)
  have "ds = []" by (rule no_exits [OF assms(1) ds(1)])
  have trig: "dx_quant_trigger_kind ?cx = ''reconcile_cycle''" by (simp add: recovery_context_def)
  have "harmless_action a act" if "d \<in> set (qd_actions q)" "act \<in> set (decision_actions trace m index d)" for d act index
    using cycle_cancels [OF q trig that(1)] cancel_action [OF that(2)] recovery_shown [of pl trace now a m]
    by (auto simp: harmless_action_def list_ex_iff)
  moreover have "harmless_action a (market_action ty trace m r pr)" if "ty \<in> {PAUSE_TRADING, RESUME_TRADING}" for ty r pr
    using that by (simp add: harmless_action_def market_action_def)
  ultimately show ?thesis
    unfolding ds(2) \<open>ds = []\<close>
    by (auto simp: assemble_market_plan_def Let_def merged_decisions_def list_all_iff split: option.splits)
qed

lemma plans_harmless:
  assumes "pl_decide pl = decide"
  shows "build_market_plans pl trace now a ms s = (s', Inr ps)
    \<Longrightarrow> list_all (\<lambda>p. list_all (harmless_action a) (rp_actions p)) ps"
proof (induction ms arbitrary: s s' ps)
  case (Cons m ms)
  then obtain s1 p ps' where "build_market_plan pl trace now a m s = (s1, Inr p)"
      "build_market_plans pl trace now a ms s1 = (s', Inr ps')" "ps = p # ps'"
    by (auto split: prod.splits sum.splits)
  then show ?case using Cons.IH market_plan_harmless [OF assms] by simp
qed simp

end

lemma recovery_orders_shown: "set (recovery_orders sg cx m) \<subseteq> shown_orders cx"
  by (auto simp: recovery_orders_def shown_orders_def open_orders_for_market_def Let_def split: option.splits)

interpretation strategy: cancelling_strategy "quant_decide sg dstr now"
proof unfold_locales
  fix cx :: decision_context and s s' q d
  assume q: "quant_decide sg dstr now cx s = (s', Inr q)" "d \<in> set (qd_actions q)"
  note sound = quant_decide_sound [OF q]
  show "dx_quant_trigger_kind cx = ''market_tick'' \<Longrightarrow> td_action d \<notin> {TA_SELL, TA_REPLACE}"
    using sound by (simp add: sound_action_def)
  assume "dx_quant_trigger_kind cx = ''reconcile_cycle''"
  then have "td_action d = TA_CANCEL" "\<exists>m. dx_market cx = Some m \<and> (\<exists>r \<in> set (recovery_orders sg cx m).
      is_open_entry_order r \<and> order_identifier r = td_order_id d)"
    using sound by (auto simp: sound_action_def list_ex_iff split: option.splits)
  then show "td_action d = TA_CANCEL \<and> (\<exists>r \<in> shown_orders cx. is_open_entry_order r \<and> order_identifier r = td_order_id d)"
    using recovery_orders_shown by blast
qed

text \<open>
  C5: With the program's own strategy a reconciliation never places an order: each action of its
  plan pauses a market, resumes it, or cancels an open buy order of the account. A position
  without an exit stays as it is.
\<close>

theorem reconcile_places_no_order:
  assumes "pl_decide pl = quant_decide sg dstr now"
    and "build_reconcile_plan pl trace now ms a cids w = (w', Inr plan)"
  shows "list_all (\<lambda>p. list_all (harmless_action a) (rp_actions p)) (rc_market_plans plan)"
proof -
  obtain ms' ps where "build_market_plans pl trace now a ms' w = (w', Inr ps)" "rc_market_plans plan = ps"
    using assms(2) by (auto simp: build_reconcile_plan_def Let_def split: prod.splits sum.splits)
  then show ?thesis using strategy.plans_harmless [OF assms(1)] by simp
qed

definition demo_planner :: "workflow planner" where
  "demo_planner = \<lparr>pl_decide = quant_decide demo_totals (\<lambda>_. []) 100000000,
     pl_metadata = (\<lambda>m. (''status'', PStr ''live'') # dx_metadata (demo_game_context ''ice-hockey'' 1)), pl_orderbook = (\<lambda>t. None)\<rparr>"

definition demo_reconcile_market :: market where
  "demo_reconcile_market =
     (new_market ''c1'' ''nhl-a-b'' [\<lparr>mo_token_id = ''o'', mo_outcome = ''Over''\<rparr>])\<lparr>mk_trading_status := TS_ELIGIBLE\<rparr>"

text \<open>An old buy order, and a position no order covers.\<close>

definition demo_reconcile_account :: account where
  "demo_reconcile_account = new_account\<lparr>
     ac_positions := [new_position ''c1'' ''o'' 10 5],
     ac_open_orders := [submitted_order (BuyIntent (buy_order ''t'' ''c1'' ''o'' (1/2) 5)) [] 0]\<rparr>"

definition demo_reconcile_plan :: "reconcile_plan result" where
  "demo_reconcile_plan =
     snd (build_reconcile_plan demo_planner ''tr'' 100000000 [demo_reconcile_market] demo_reconcile_account None demo_workflow)"

lemma demo_reconcile_cancels:
  "case demo_reconcile_plan of Inl e \<Rightarrow> False
   | Inr p \<Rightarrow> map (\<lambda>p. map act_action_type (rp_actions p)) (rc_market_plans p) = [[CANCEL_ORDER]]"
  by code_simp

theorem reconcile_places_no_order_witness:
  "case demo_reconcile_plan of Inl e \<Rightarrow> False
   | Inr p \<Rightarrow> map (\<lambda>p. map act_action_type (rp_actions p)) (rc_market_plans p) = [[CANCEL_ORDER]]
       \<and> list_all (\<lambda>p. list_all (harmless_action demo_reconcile_account) (rp_actions p)) (rc_market_plans p)"
proof -
  obtain w' p where p: "build_reconcile_plan demo_planner ''tr'' 100000000 [demo_reconcile_market]
      demo_reconcile_account None demo_workflow = (w', Inr p)"
    using demo_reconcile_cancels by (auto simp: demo_reconcile_plan_def split: sum.splits prod.splits)
      (metis prod.collapse)
  have d: "pl_decide demo_planner = quant_decide demo_totals (\<lambda>_. []) 100000000"
    by (simp add: demo_planner_def)
  show ?thesis
    using demo_reconcile_cancels reconcile_places_no_order [OF d p] by (simp add: demo_reconcile_plan_def p)
qed

end
