(* ===== verification/Reconcile_Apply.thy ===== *)
theory Reconcile_Apply
  imports Reconcile_Plan Order_Gateway Tracking_Policy Market_Registry
begin

text \<open>
  \<open>recovery/action_applier.py\<close> and \<open>ReconcileWorker.reconcile_once\<close> (\<open>recovery/reconcile_worker.py\<close>):
  carrying a plan out against the gateway and the account store. The store is present, as the
  program builds the worker; the gateway may be missing. Left out are the refresh of the authoritative
  state before the plan, the audit events with their throttling, and the tracking of the market
  stream.
\<close>

subsection \<open>Applying one action\<close>

definition submission_succeeded :: "order_result \<Rightarrow> bool" where
  "submission_succeeded r \<longleftrightarrow> rs_status r \<notin> {REJECTED, FAILED, UNKNOWN_TIMEOUT}"

text \<open>The position after its order was cancelled: a cancelled buy clears all open buys of the token.\<close>

definition cancelled_position :: "reconcile_action \<Rightarrow> position \<Rightarrow> position" where
  "cancelled_position act p =
     (if act_source_order_side act = Some BUY then with_pending_buy_shares (with_open_buy_shares p 0) 0
      else with_open_sell_shares p
        (max (dsub (po_open_sell_shares p) (or_default (act_target_size_shares act) 0)) 0))"

definition book_cancellation :: "reconcile_action \<Rightarrow> account \<Rightarrow> account_store \<Rightarrow> account_store result" where
  "book_cancellation act snap st = (case act_source_order_id act of
       None \<Rightarrow> Inr st
     | Some oid \<Rightarrow>
         (case act_token_id act of
            None \<Rightarrow> Inl (LibraryError ''reconcile_action_token_id_required'')
          | Some tok \<Rightarrow>
              let st1 = remove_order st oid in
              Inr (case get_position snap (act_condition_id act) tok of
                  None \<Rightarrow> st1 | Some p \<Rightarrow> upsert_position st1 (cancelled_position act p))))"

definition keep_on_error :: "'a \<Rightarrow> 'a result \<Rightarrow> 'a \<times> unit result" where
  "keep_on_error x r = (case r of Inl e \<Rightarrow> (x, Inl e) | Inr y \<Rightarrow> (y, Inr ()))"

definition apply_cancel ::
  "'s gateway option \<Rightarrow> reconcile_action \<Rightarrow> account \<Rightarrow> account_store \<Rightarrow> 's \<Rightarrow> 's \<times> account_store \<times> unit result" where
  "apply_cancel gw act snap st s = (case act_intent act of
       Some (Cancelling c) \<Rightarrow>
         (case gw of
            None \<Rightarrow> (s, st, Inl (LibraryError ''trading_service_required''))
          | Some g \<Rightarrow>
              (case gateway_cancel g s c of (s1, v, notice) \<Rightarrow>
                 if gr_submitted v \<and> rs_status (gr_order_result v) = CANCELLED
                 then (s1, keep_on_error st (book_cancellation act snap st))
                 else (s1, st, Inr ())))
     | _ \<Rightarrow> (s, st, Inl (LibraryError ''cancel action is missing cancel intent'')))"

text \<open>
  The submission passes three keyword arguments that \<open>OrderGateway.review_intent\<close> does not take
  (\<open>open_orders\<close>, \<open>classification_passed\<close>, \<open>min_order_size\<close>): the call raises before
  anything is reviewed.
\<close>

definition apply_submit_order ::
  "'s gateway option \<Rightarrow> reconcile_action \<Rightarrow> account_store \<Rightarrow> 's \<Rightarrow> 's \<times> account_store \<times> unit result" where
  "apply_submit_order gw act st s = (case act_intent act of
       Some (Tradable i) \<Rightarrow>
         (s, st, Inl (LibraryError
            (if gw = None then ''trading_service_required''
             else if act_token_id act = None then ''reconcile_action_token_id_required''
             else ''TypeError: unexpected keyword argument'')))
     | _ \<Rightarrow> (s, st, Inl (LibraryError ''submit action is missing trade intent'')))"

definition reconcile_remaining :: "replace_intent \<Rightarrow> order_result \<Rightarrow> decimal" where
  "reconcile_remaining r res =
     max 0 (if rs_status res \<in> {LIVE, PARTIAL_FILL} \<and> rs_remaining_shares res \<le> 0
            then max (dsub (ri_size_shares r) (rs_matched_shares res)) 0
            else rs_remaining_shares res)"

definition replaced_order ::
  "replace_intent \<Rightarrow> order option \<Rightarrow> order_result \<Rightarrow> int \<Rightarrow> order" where
  "replaced_order r source res now =
     (let order_id = or_default (str_or (rs_order_id res) None) (ri_order_id r);
          price = or_default (dec_truthy (rs_price res)) (ri_new_price r)
      in \<lparr>or_condition_id = ri_condition_id r, or_token_id = ri_token_id r,
          or_side = or_default (rs_side res) (case source of None \<Rightarrow> SELL | Some q \<Rightarrow> or_side q),
          or_order_type = or_default (rs_order_type res) (case source of None \<Rightarrow> GTC | Some q \<Rightarrow> or_order_type q),
          or_price = price, or_trace_id = ri_trace_id r, or_market_slug = ri_market_slug r,
          or_amount_usdc = None, or_size_shares = Some (ri_size_shares r),
          or_filled_shares = rs_matched_shares res, or_remaining_shares = Some (reconcile_remaining r res),
          or_notional_usdc = Some (dmul price (ri_size_shares r)), or_order_id = Some order_id,
          or_trade_id = rs_trade_id res, or_status = order_result_to_order_status (rs_status res),
          or_idempotency_key = str_or (ri_idempotency_key r) (Some order_id),
          or_reason = (if ri_reason r = [] then ''reconcile_replace_order'' else ri_reason r),
          or_post_only = False, or_created_at = Some now, or_updated_at = Some now\<rparr>)"

definition open_statuses :: "order_status set" where
  "open_statuses = {OS_SUBMITTED, OS_LIVE, OS_PARTIALLY_FILLED, OS_CREATED, OS_SIGNED}"

definition replaced_position :: "order option \<Rightarrow> order \<Rightarrow> position \<Rightarrow> position" where
  "replaced_position source new p =
     (let remaining = or_default (or_remaining_shares new) 0 in
      if or_side new = SELL
      then with_open_sell_shares p (dadd (max (dsub (po_open_sell_shares p)
             (case source of None \<Rightarrow> 0 | Some q \<Rightarrow> order_open_size q)) 0) remaining)
      else (let bought = dadd (max (dsub (po_open_buy_shares p)
             (case source of None \<Rightarrow> 0 | Some q \<Rightarrow> or_default (order_open_shares q) 0)) 0) remaining
            in with_pending_buy_shares (with_open_buy_shares p bought) bought))"

definition book_replacement ::
  "reconcile_action \<Rightarrow> replace_intent \<Rightarrow> order_result \<Rightarrow> account \<Rightarrow> int \<Rightarrow> account_store \<Rightarrow> account_store result" where
  "book_replacement act r res snap now st = (case act_token_id act of
       None \<Rightarrow> Inl (LibraryError ''reconcile_action_token_id_required'')
     | Some tok \<Rightarrow>
         let cid = act_condition_id act; cur = st_snapshot st;
             source = or_else (find_open_order (Some cur) cid tok (act_source_order_id act))
                        (find_open_order (Some snap) cid tok (act_source_order_id act));
             new = replaced_order r source res now;
             st1 = (case act_source_order_id act of None \<Rightarrow> st | Some oid \<Rightarrow> remove_order st oid);
             st2 = (if or_status new \<in> open_statuses then upsert_order st1 new
                    else remove_order st1 (or_default (or_order_id new) []))
         in Inr (case or_else (get_position cur cid tok) (get_position snap cid tok) of
             None \<Rightarrow> st2 | Some p \<Rightarrow> upsert_position st2 (replaced_position source new p)))"

definition apply_replace ::
  "'s gateway option \<Rightarrow> reconcile_action \<Rightarrow> account \<Rightarrow> int \<Rightarrow> account_store \<Rightarrow> 's
   \<Rightarrow> 's \<times> account_store \<times> unit result" where
  "apply_replace gw act snap now st s = (case act_intent act of
       Some (Replacing r) \<Rightarrow>
         (case gw of
            None \<Rightarrow> (s, st, Inl (LibraryError ''trading_service_required''))
          | Some g \<Rightarrow>
              (case gateway_replace g s r of (s1, v, notice) \<Rightarrow>
                 if gr_submitted v \<and> submission_succeeded (gr_order_result v)
                 then (s1, keep_on_error st (book_replacement act r (gr_order_result v) snap now st))
                 else (s1, st, Inr ())))
     | _ \<Rightarrow> (s, st, Inl (LibraryError ''replace action is missing replace intent'')))"

definition apply_action ::
  "'s gateway option \<Rightarrow> int \<Rightarrow> reconcile_action \<Rightarrow> account \<Rightarrow> account_store \<Rightarrow> 's
   \<Rightarrow> 's \<times> account_store \<times> unit result" where
  "apply_action gw now act snap st s = (case act_action_type act of
       PAUSE_TRADING \<Rightarrow> (s, st, Inr ())
     | RESUME_TRADING \<Rightarrow> (s, resume_market st (act_condition_id act), Inr ())
     | CANCEL_ORDER \<Rightarrow> apply_cancel gw act snap st s
     | REPLACE_ORDER \<Rightarrow> apply_replace gw act snap now st s
     | SUBMIT_ORDER \<Rightarrow> apply_submit_order gw act st s)"

subsection \<open>Carrying out a plan\<close>

record 's reconcile_run =
  rw_exec :: 's
  rw_store :: account_store
  rw_working :: account
  rw_applied :: "reconcile_action list"
  rw_failed :: "(reconcile_action \<times> py_error) list"

definition run_action ::
  "'s gateway option \<Rightarrow> int \<Rightarrow> reconcile_action \<Rightarrow> 's reconcile_run \<Rightarrow> 's reconcile_run" where
  "run_action gw now act w =
     (case apply_action gw now act (rw_working w) (rw_store w) (rw_exec w) of
        (s, st, Inl e) \<Rightarrow> w\<lparr>rw_exec := s, rw_store := st, rw_failed := rw_failed w @ [(act, e)]\<rparr>
      | (s, st, Inr _) \<Rightarrow> w\<lparr>rw_exec := s, rw_store := st, rw_applied := rw_applied w @ [act],
                            rw_working := st_snapshot st\<rparr>)"

definition run_pause :: "market_plan \<Rightarrow> 's reconcile_run \<Rightarrow> 's reconcile_run" where
  "run_pause p w =
     (if \<not> rp_pause_trading p then w
      else let reason = or_default (str_or (Some (rp_pause_reason p)) None) ''market_not_tradable'';
               st = store_step (rw_store w)
                 (PauseMarket (mk_condition_id (rp_market p)) reason (Some ''reconcile'') None)
           in w\<lparr>rw_store := st, rw_working := st_snapshot st\<rparr>)"

definition run_market_plan ::
  "'s gateway option \<Rightarrow> int \<Rightarrow> market_plan \<Rightarrow> 's reconcile_run \<Rightarrow> 's reconcile_run" where
  "run_market_plan gw now p w = fold (run_action gw now) (rp_actions p) (run_pause p w)"

text \<open>
  Pruning at the end: a market without exposure that is over leaves the registry, and its pause is
  lifted. The snapshot it judges by is the one taken before.
\<close>

definition prune_market ::
  "account \<Rightarrow> int \<Rightarrow> market \<Rightarrow> registry \<times> account_store \<Rightarrow> registry \<times> account_store" where
  "prune_market a now m rs = (case market_unsubscribe_prune_reason (Some a) m now of
       None \<Rightarrow> rs
     | Some reason \<Rightarrow> (fst (remove_market True (fst rs) (mk_condition_id m)),
         resume_market (snd rs) (mk_condition_id m)))"

definition prune_unsubscribable_markets ::
  "account \<Rightarrow> int \<Rightarrow> registry \<Rightarrow> account_store \<Rightarrow> registry \<times> account_store" where
  "prune_unsubscribable_markets a now g st = fold (prune_market a now) (rg_snapshot g) (g, st)"

record 's reconcile_worker =
  rk_registry :: registry
  rk_store :: account_store
  rk_exec :: 's

definition new_run :: "'s reconcile_worker \<Rightarrow> 's reconcile_run" where
  "new_run k = \<lparr>rw_exec = rk_exec k, rw_store = rk_store k, rw_working = st_snapshot (rk_store k),
     rw_applied = [], rw_failed = []\<rparr>"

definition finish_reconcile :: "int \<Rightarrow> 's reconcile_worker \<Rightarrow> 's reconcile_run \<Rightarrow> 's reconcile_worker" where
  "finish_reconcile now k w =
     (let st = mark_reconciled (rw_store w) now None;
          (g, st') = prune_unsubscribable_markets (st_snapshot st) now (rk_registry k) st
      in k\<lparr>rk_registry := g, rk_store := st', rk_exec := rw_exec w\<rparr>)"

definition reconcile_once ::
  "('p, 'x) planner_scheme \<Rightarrow> 's gateway option \<Rightarrow> string \<Rightarrow> int \<Rightarrow> string list option \<Rightarrow> 'p
   \<Rightarrow> 's reconcile_worker \<Rightarrow> 'p \<times> 's reconcile_worker \<times> 's reconcile_run result" where
  "reconcile_once pl gw trace now cids p k =
     (case build_reconcile_plan pl trace now (rg_snapshot (rk_registry k))
             (st_snapshot (rk_store k)) cids p of
        (p1, Inl e) \<Rightarrow> (p1, k, Inl e)
      | (p1, Inr plan) \<Rightarrow>
          let w = fold (run_market_plan gw now) (rc_market_plans plan) (new_run k)
          in (p1, finish_reconcile now k w, Inr w))"

subsection \<open>Every step is a run of the store\<close>






lemma run_action_store: "rw_store (run_action gw now act w) =
    fst (snd (apply_action gw now act (rw_working w) (rw_store w) (rw_exec w)))"
  by (simp add: run_action_def split: prod.split sum.split)

lemma run_pause_store: "rw_store (run_pause p w) = (if \<not> rp_pause_trading p then rw_store w
    else store_step (rw_store w) (PauseMarket (mk_condition_id (rp_market p))
      (or_default (str_or (Some (rp_pause_reason p)) None) ''market_not_tradable'') (Some ''reconcile'') None))"
  by (simp add: run_pause_def Let_def)

lemma fold_store:
  assumes "\<And>x w. Q x \<Longrightarrow> P (rw_store w) \<Longrightarrow> P (rw_store (f x w))" "\<forall>x \<in> set xs. Q x"
  shows "P (rw_store w) \<Longrightarrow> P (rw_store (fold f xs w))"
  using assms(2) by (induction xs arbitrary: w) (simp_all add: assms(1))



subsection \<open>What a reconciliation changes\<close>











lemma snapshot_pause:
  assumes "store_reachable st"
  shows "pause_for_market (st_snapshot st) cid = dict_get (st_market_pauses st) cid"
  using store_invariant [OF assms] keyed_find [of mp_condition_id "st_market_pauses st" cid]
  by (simp add: pause_for_market_def store_ok_def snapshot_fields [OF store_invariant(2) [OF assms]])































subsection \<open>A pause that is not recoverable\<close>

definition stuck_pause :: "(string, market_pause) dict \<Rightarrow> string \<Rightarrow> string \<Rightarrow> bool" where
  "stuck_pause ps cid reason = (case dict_get ps cid of
       None \<Rightarrow> False | Some p \<Rightarrow> \<not> mp_recoverable p \<and> market_pause.mp_reason p = reason)"

lemma pauses_kept [simp]:
  "st_market_pauses (upsert_position s p) = st_market_pauses s"
  "st_market_pauses (upsert_order s r) = st_market_pauses s"
  "st_market_pauses (remove_order s i) = st_market_pauses s"
  "st_market_pauses (mark_reconciled s now ts) = st_market_pauses s"
  by (simp_all add: upsert_position_def upsert_order_def remove_order_def mark_reconciled_def publish_snapshot_def Let_def)

lemma resume_pauses [simp]: "st_market_pauses (resume_market s cid) = dict_pop (st_market_pauses s) cid"
  by (simp add: resume_market_def publish_snapshot_def)

lemma booked_pauses:
  "st_market_pauses (fst (keep_on_error st (book_cancellation act snap st))) = st_market_pauses st"
  "st_market_pauses (fst (keep_on_error st (book_replacement act r res snap now st))) = st_market_pauses st"
  by (auto simp: keep_on_error_def book_cancellation_def book_replacement_def Let_def split: option.splits)

lemma action_pauses:
  "st_market_pauses (fst (snd (apply_action gw now act snap st s))) =
     (if act_action_type act = RESUME_TRADING then dict_pop (st_market_pauses st) (act_condition_id act)
      else st_market_pauses st)"
  using booked_pauses(1) [of st act snap] booked_pauses(2) [of st act _ _ snap now]
  by (auto simp: apply_action_def apply_cancel_def apply_submit_order_def apply_replace_def
      split: reconcile_action_type.split option.split managed_intent.split prod.split)

text \<open>What the plans of one reconciliation do to a stuck pause of the snapshot they were made from.\<close>

definition keeps_stuck :: "string \<Rightarrow> string \<Rightarrow> market_plan \<Rightarrow> bool" where
  "keeps_stuck cid reason p \<longleftrightarrow>
     (mk_condition_id (rp_market p) = cid \<longrightarrow> rp_pause_reason p = reason)
     \<and> list_all (\<lambda>act. act_action_type act = RESUME_TRADING \<longrightarrow> act_condition_id act \<noteq> cid) (rp_actions p)"

lemma intent_action_type: "act_action_type (action_from_intent trace m i reason index md) \<noteq> RESUME_TRADING"
  by (cases i) (simp_all add: action_from_intent_def Let_def)

lemma decision_action_type:
  "act \<in> set (decision_actions trace m index d) \<Longrightarrow> act_action_type act \<noteq> RESUME_TRADING"
  using intent_action_type by (auto simp: decision_actions_def split: option.splits)

lemma planned_keeps_stuck:
  assumes "pause_for_market a cid = Some ps" "\<not> mp_recoverable ps"
    and "build_market_plan pl trace now a m s = (s', Inr p)"
  shows "keeps_stuck cid (market_pause.mp_reason ps) p"
proof -
  obtain q ds where p: "p = assemble_market_plan trace a m q ds"
    using assms(3) by (auto simp: build_market_plan_def split: prod.splits sum.splits)
  show ?thesis
    using assms(1,2) decision_action_type
    by (auto simp: keeps_stuck_def p assemble_market_plan_def Let_def list_all_iff resolved_pause_reason_def
        sticky_pause_def market_action_def split: option.splits if_splits)
qed

lemma plans_keep_stuck:
  assumes "pause_for_market a cid = Some ps" "\<not> mp_recoverable ps"
  shows "build_market_plans pl trace now a ms s = (s', Inr plans)
    \<Longrightarrow> \<forall>p \<in> set plans. keeps_stuck cid (market_pause.mp_reason ps) p"
proof (induction ms arbitrary: s s' plans)
  case (Cons m ms)
  then obtain s1 p plans' where "build_market_plan pl trace now a m s = (s1, Inr p)"
      "build_market_plans pl trace now a ms s1 = (s', Inr plans')" "plans = p # plans'"
    by (auto split: prod.splits sum.splits)
  then show ?case using Cons.IH planned_keeps_stuck [OF assms] by simp
qed simp

lemma stuck_after_pause:
  assumes "stuck_pause (st_market_pauses st) cid reason" "reason \<noteq> []" "reason \<notin> set recoverable_pause_reasons"
    and "c = cid \<longrightarrow> r = reason"
  shows "stuck_pause (st_market_pauses (store_step st (PauseMarket c
    (or_default (str_or (Some r) None) ''market_not_tradable'') (Some ''reconcile'') None))) cid reason"
proof (cases "c = cid")
  case True
  then show ?thesis using assms
    by (auto simp: pause_market_def build_pause_def parse_pause_source_def publish_snapshot_def stuck_pause_def
        dict_get_set str_or_def)
next
  case False
  then show ?thesis using assms(1)
    by (simp add: pause_market_def build_pause_def parse_pause_source_def publish_snapshot_def stuck_pause_def
        dict_get_set)
qed

lemma run_plan_stuck:
  assumes "keeps_stuck cid reason p" "reason \<noteq> []" "reason \<notin> set recoverable_pause_reasons"
    and "stuck_pause (st_market_pauses (rw_store w)) cid reason"
  shows "stuck_pause (st_market_pauses (rw_store (run_market_plan gw now p w))) cid reason"
  unfolding run_market_plan_def
proof (rule fold_store [where P = "\<lambda>st. stuck_pause (st_market_pauses st) cid reason"
      and Q = "\<lambda>act. act_action_type act = RESUME_TRADING \<longrightarrow> act_condition_id act \<noteq> cid"])
  show "\<forall>act \<in> set (rp_actions p). act_action_type act = RESUME_TRADING \<longrightarrow> act_condition_id act \<noteq> cid"
    using assms(1) by (simp add: keeps_stuck_def list_all_iff)
  show "stuck_pause (st_market_pauses (rw_store (run_pause p w))) cid reason"
    using assms stuck_after_pause by (simp add: run_pause_store keeps_stuck_def del: store_step.simps)
qed (auto simp: run_action_store action_pauses stuck_pause_def dict_get_pop)

lemma prune_stuck:
  assumes "stuck_pause (st_market_pauses st) cid reason"
    and "\<forall>m \<in> set (rg_snapshot g). mk_condition_id m = cid \<longrightarrow> market_unsubscribe_prune_reason (Some a) m now = None"
  shows "stuck_pause (st_market_pauses (snd (prune_unsubscribable_markets a now g st))) cid reason"
proof -
  have "stuck_pause (st_market_pauses (snd (fold (prune_market a now) ms rs))) cid reason"
    if "stuck_pause (st_market_pauses (snd rs)) cid reason"
      "\<forall>m \<in> set ms. mk_condition_id m = cid \<longrightarrow> market_unsubscribe_prune_reason (Some a) m now = None" for ms rs
    using that
  proof (induction ms arbitrary: rs)
    case (Cons m ms)
    then have "stuck_pause (st_market_pauses (snd (prune_market a now m rs))) cid reason"
      by (auto simp: prune_market_def stuck_pause_def dict_get_pop split: option.splits)
    then show ?case using Cons by simp
  qed simp
  then show ?thesis using assms by (simp add: prune_unsubscribable_markets_def)
qed

text \<open>
  C11: A pause for a reason that is not on the short list of recoverable ones outlives every
  reconciliation, whatever the strategy now says: it ends only when the market has no exposure
  left and is pruned. A live state that was stale once pauses its market for good.
\<close>

theorem stuck_pause_permanent:
  assumes "store_reachable (rk_store k)" "stuck_pause (st_market_pauses (rk_store k)) cid reason"
    and "reason \<noteq> []" "reason \<notin> set recoverable_pause_reasons"
    and run: "reconcile_once pl gw trace now cids p k = (p', k', Inr w)"
  shows "stuck_pause (st_market_pauses (rk_store k')) cid reason
    \<or> list_ex (\<lambda>m. mk_condition_id m = cid \<and>
        market_unsubscribe_prune_reason (Some (st_snapshot (mark_reconciled (rw_store w) now None))) m now \<noteq> None)
        (rg_snapshot (rk_registry k))"
proof -
  obtain ps where ps: "pause_for_market (st_snapshot (rk_store k)) cid = Some ps" "\<not> mp_recoverable ps"
      "market_pause.mp_reason ps = reason"
    using assms(1,2) by (auto simp: stuck_pause_def snapshot_pause split: option.splits)
  obtain plan where plan: "build_reconcile_plan pl trace now (rg_snapshot (rk_registry k)) (st_snapshot (rk_store k)) cids p =
      (p', Inr plan)" "w = fold (run_market_plan gw now) (rc_market_plans plan) (new_run k)"
      "k' = finish_reconcile now k w"
    using run by (auto simp: reconcile_once_def Let_def split: prod.splits sum.splits)
  obtain ms where "build_market_plans pl trace now (st_snapshot (rk_store k)) ms p = (p', Inr (rc_market_plans plan))"
    using plan(1) by (auto simp: build_reconcile_plan_def Let_def split: prod.splits sum.splits)
  from plans_keep_stuck [OF ps(1,2) this] have "\<forall>q \<in> set (rc_market_plans plan). keeps_stuck cid reason q"
    by (simp add: ps(3))
  then have "stuck_pause (st_market_pauses (rw_store w)) cid reason"
    unfolding plan(2)
    by (intro fold_store [where P = "\<lambda>st. stuck_pause (st_market_pauses st) cid reason" and Q = "keeps_stuck cid reason"])
      (use assms(2-4) run_plan_stuck in \<open>auto simp: new_run_def\<close>)
  then show ?thesis
    using prune_stuck [of "mark_reconciled (rw_store w) now None" cid reason "rk_registry k"
        "st_snapshot (mark_reconciled (rw_store w) now None)" now]
    by (auto simp: plan(3) finish_reconcile_def Let_def list_ex_iff split: prod.splits)
qed

text \<open>Reconciling once: a strategy that finds nothing wrong, and a market paused by an old state.\<close>

definition content_planner :: "unit planner" where
  "content_planner = \<lparr>pl_decide = (\<lambda>cx s. (s, Inr (no_actions ''quant_recovery''))), pl_metadata = (\<lambda>m. []),
     pl_orderbook = (\<lambda>t. None)\<rparr>"

definition stale_worker :: "unit reconcile_worker" where
  "stale_worker = \<lparr>rk_registry = demo_registry, rk_store = store_step init_store
     (PauseMarket ''c1'' ''sports_live_state_stale'' (Some ''reconcile'') None), rk_exec = ()\<rparr>"

definition stale_run :: "unit \<times> unit reconcile_worker \<times> unit reconcile_run result" where
  "stale_run = reconcile_once content_planner (None :: unit gateway option) ''tr'' 100 None () stale_worker"

definition stale_result :: "unit reconcile_worker" where "stale_result = fst (snd stale_run)"

lemma stale_worker_reachable: "store_reachable (rk_store stale_worker)"
  unfolding stale_worker_def by (simp add: store_init store_next del: store_step.simps)

lemma stale_worker_stuck:
  "stuck_pause (st_market_pauses (rk_store stale_worker)) ''c1'' ''sports_live_state_stale''"
  "case snd (snd stale_run) of Inl e \<Rightarrow> False | Inr w \<Rightarrow>
     \<not> list_ex (\<lambda>m. mk_condition_id m = ''c1'' \<and>
        market_unsubscribe_prune_reason (Some (st_snapshot (mark_reconciled (rw_store w) 100 None))) m 100 \<noteq> None)
        (rg_snapshot (rk_registry stale_worker))"
  by code_simp+

theorem stuck_pause_permanent_witness:
  "stuck_pause (st_market_pauses (rk_store stale_result)) ''c1'' ''sports_live_state_stale''"
proof -
  obtain w where w: "snd (snd stale_run) = Inr w"
    using stale_worker_stuck(2) by (cases "snd (snd stale_run)") simp_all
  then obtain p' k' where run: "stale_run = (p', k', Inr w)" by (metis prod.collapse)
  have r: "''sports_live_state_stale'' \<noteq> []" "''sports_live_state_stale'' \<notin> set recoverable_pause_reasons"
    by (simp_all add: recoverable_pause_reasons_def)
  show ?thesis
    using stuck_pause_permanent [OF stale_worker_reachable stale_worker_stuck(1) r run [unfolded stale_run_def]]
      stale_worker_stuck(2) by (auto simp: run stale_result_def)
qed

end
