(* ===== verification/Spec2Isabelle.thy ===== *)
theory Spec2Isabelle
  imports Outbox Orderbook_Delta Book_History Order_Path Market_Stream User_Stream Exchange_Client Reconcile_Apply
begin

text \<open>
  A verification of the trading core of the Polymarket sports trader
  (\<open>src/src/polymarket_trader\<close>, paths below are relative to it).

  \<^bold>\<open>The program.\<close> Order books and live scores come in, a strategy sizes a stake, the order
  gateway lets the risk manager check every intent, the executor submits, cancels or replaces
  the order through an order client, and the result is projected into the account store that
  the next decision reads. A reconciliation compares the store with the exchange, pauses or
  resumes markets and cancels open buys. Everything that happens is published on an event bus and written to
  the database through a local outbox. In paper mode the order client is a matching engine over
  the observed books with a virtual ledger. The development follows one order through this:

    intent \<open>\<rightarrow>\<close> risk gate \<open>\<rightarrow>\<close> executor \<open>\<rightarrow>\<close> client (paper exchange) \<open>\<rightarrow>\<close> result \<open>\<rightarrow>\<close> account store,
    with the event bus and the outbox beside it,

  the strategy that makes the intent:

    game state \<open>\<rightarrow>\<close> probability \<open>\<rightarrow>\<close> signal \<open>\<rightarrow>\<close> Kelly plan \<open>\<rightarrow>\<close> decision \<open>\<rightarrow>\<close> intent,

  the two streams that feed it:

    market channel \<open>\<rightarrow>\<close> book states, market registry \<open>\<rightarrow>\<close> events; user channel \<open>\<rightarrow>\<close> account store \<open>\<rightarrow>\<close> events,

  and the reconciliation that repairs it: store \<open>\<rightarrow>\<close> plan \<open>\<rightarrow>\<close> pauses, resumptions, cancellations.

  \<^bold>\<open>The theories and the code they model.\<close>

  \<^descr> \<open>Prelude\<close>: Python values the components share: insertion-ordered dictionaries (locale
    \<open>py_dict\<close>, interpreted on association lists), optional values, ASCII strings, exceptions as
    the left side of a sum, dictionaries keyed by a field of their values, bounded buffers.
  \<^descr> \<open>Decimal_Arith\<close>: \<open>decimal.Decimal\<close> in its default context. A decimal is an exact rational;
    every operation rounds its exact result half-even to 28 significant digits (\<open>dround\<close>), and
    \<open>quantize\<close> raises when the result does not fit. Locale \<open>rounding\<close> is the contract of a
    rounding function, interpreted on the context rounding and on both quantisers. The exponent
    range, NaN and infinities are not modelled.
  \<^descr> \<open>Order_Types\<close> (\<open>domain/order.py\<close>), \<open>Market_Model\<close> (\<open>domain/market.py\<close>), \<open>Orderbook\<close>
    (\<open>domain/orderbook.py\<close>), \<open>Execution_Types\<close> (\<open>infra/polymarket/order_execution_types.py\<close>): the
    data of the trading core.
  \<^descr> \<open>Fees\<close> (\<open>domain/fees.py\<close>) and \<open>Kelly\<close> (\<open>domain/kelly.py\<close>): taker fees and stake sizing.
  \<^descr> \<open>Position\<close>, \<open>Account\<close>, \<open>Allocation\<close> (\<open>domain/position.py\<close>, \<open>domain/account.py\<close>,
    \<open>domain/allocation.py\<close>): positions, snapshots, the budget of a market.
  \<^descr> \<open>Risk\<close> (\<open>domain/risk.py\<close>): the gates of the risk manager, in their order, each an instance of
    the locale \<open>audited_gate\<close>.
  \<^descr> \<open>Account_State\<close> (\<open>app/account_state.py\<close>) and \<open>Order_Projection\<close> (\<open>app/order_projection.py\<close>):
    the account store with all operations that change it, as a record and the reachable states
    of \<open>store_step\<close>; and what a result does to it.
  \<^descr> \<open>Outbox\<close> (\<open>infra/outbox/local_outbox.py\<close>) and \<open>Event_Bus\<close> (\<open>runtime/event_bus.py\<close>): the
    priority lanes, the merge and dead-letter rules, back-pressure; reachable states of
    \<open>outbox_step\<close> and \<open>bus_step\<close>. Lanes are ordered by an instance of \<open>linorder\<close>.
  \<^descr> \<open>Paper_Match\<close>, \<open>Paper_Ledger\<close>, \<open>Paper_Fill\<close> (\<open>app/paper/\<close>): matching engine (locale
    \<open>taker_loop\<close>, interpreted on the buy and on the sell side), virtual ledger, order client.
  \<^descr> \<open>Order_Result\<close> (\<open>infra/polymarket/order_result_builder.py\<close>), \<open>Order_Executor\<close> and
    \<open>Executor_Clients\<close> (\<open>infra/polymarket/order_executor.py\<close>): the idempotency index, the tasks in
    flight, the windows after timeouts, one operation from signing to its result, and the relation
    \<open>executor_reachable\<close> of all interleavings, with a trail of the operations started and the
    keys evicted; \<open>executor_timed\<close> are the same runs with their clock and the submits that timed
    out. Locale \<open>guarded_client\<close> is what the executor keeps of its client, interpreted
    on the paper client.
  \<^descr> \<open>Order_Gateway\<close> (\<open>pipeline/execution/order_gateway.py\<close>): review, cancel, replace and what they
    publish. Locale \<open>guarded_executor\<close> is the contract with the executor; \<open>Order_Path\<close> interprets
    it on the modelled executor with the paper client, which gives the properties of the whole path.
  \<^descr> \<open>Orderbook_Delta\<close> (\<open>runtime/orderbook_delta.py\<close>): sample buffers and the direction signal.
  \<^descr> \<open>Book_History\<close> (\<open>runtime/orderbook_history_buffer.py\<close>): the books of a token within a window of
    time, and the search for the one nearest to a given time.
  \<^descr> \<open>Py_Value\<close> and \<open>Py_Time\<close>: decoded JSON values with the conversions of the standard library
    (\<open>str\<close>, \<open>bool\<close>, \<open>int\<close>, \<open>Decimal\<close>, \<open>datetime\<close>); \<open>Market_Adapter\<close> and \<open>User_Adapter\<close>
    (\<open>infra/polymarket/market_ws_adapter.py\<close>, \<open>user_ws_adapter.py\<close>): the fields of a message, with
    every numeral that raises as a value of the sum.
  \<^descr> \<open>Book_Projector\<close>, \<open>Market_Updater\<close>, \<open>Market_Ingest\<close> and \<open>Market_Stream\<close>
    (\<open>pipeline/ingest/orderbook_ws/\<close>): the book state of a token and what each message does to it
    (locale \<open>price_store\<close>, interpreted on the levels of a book), the fees of a market, the worker
    that dispatches messages, and its reachable states. Locale \<open>worker_relation\<close> carries a
    relation through every handler and every nesting of batches; it is interpreted for the freezing
    of resolved books, with and without a REST loader, for the quarantine after a gap and for
    the typing of the states.
  \<^descr> \<open>Market_Registry\<close> (\<open>runtime/registry.py\<close>) and \<open>Tracking_Policy\<close>
    (\<open>app/market_tracking_policy.py\<close>): markets with three indexes (locale \<open>market_index\<close>,
    interpreted on each), callbacks, reachable states; when a market may be dropped.
  \<^descr> \<open>User_Stream\<close> (\<open>pipeline/feedback/user_ws/\<close>): balances, positions, orders and fills projected
    into the account store, and the worker. Locale \<open>store_handler\<close> is what a handler keeps of the
    store, its extension \<open>announcing_handler\<close> what its events say of the store; both are
    interpreted on the four handlers.

  \<^descr> \<open>Response_Mapper\<close> (\<open>infra/polymarket/execution_response_mapper.py\<close>, \<open>order_signing.py\<close>) and
    \<open>Exchange_Client\<close> (\<open>infra/polymarket/auth.py\<close>): how a request is signed and what becomes of
    the exchange's JSON answers; the production client, whose signing library with its remote
    state is the parameter \<open>sdk\<close>. It interprets \<open>guarded_client\<close> a second time.
  \<^descr> \<open>Decisions\<close> (\<open>domain/decisions.py\<close>, \<open>app/intent_builder.py\<close>) and \<open>Entry_Allocation\<close>
    (\<open>workflow/allocation.py\<close>): decisions, contexts and intents; the Kelly plan over all
    candidates (locale \<open>bounded_stake\<close>, interpreted on the capped stake of a candidate).
  \<^descr> \<open>Live_Game\<close> (\<open>sports/types.py\<close>, \<open>sports/parsing.py\<close>), \<open>Math_Prob\<close>
    (\<open>sports/math_prob.py\<close>), \<open>Quant_Signal\<close> (\<open>workflow/quant_signal.py\<close>,
    \<open>app/signal_snapshot_store.py\<close>) and \<open>Quant_Decider\<close> (\<open>workflow/quant_decider.py\<close>,
    \<open>workflow/trading/allocation.py\<close>, \<open>workflow/recovery.py\<close>): the state of a game from the
    feed's metadata, the probability of each token, the signal with its sources, and the strategy
    that answers a tick or a reconciliation cycle with actions.
  \<^descr> \<open>Reconcile_Plan\<close> (\<open>recovery/reconcile_service.py\<close>) and \<open>Reconcile_Apply\<close>
    (\<open>recovery/action_applier.py\<close>, \<open>recovery/reconcile_worker.py\<close>): what is found inconsistent,
    the actions that answer it, and what carrying them out does to the store and the executor.
    Locale \<open>cancelling_strategy\<close> is what the plan asks of the strategy, interpreted on
    \<open>quant_decide\<close>.

  \<^bold>\<open>What is shown.\<close> The claims C1 to C39 stand beside the definitions they are about. In short:

  \<^item> The path of an order: no submit reaches the paper exchange unless its intent passed the risk
    gate; the gate admits a buy exactly when market, bankroll, balance, allowance and order type
    allow it (each order alone: no caller tells the gate what is already invested), never raises on
    sane input and leaves an audit trail; an order runs at most once per remembered idempotency
    key, a retry is a lookup, a submit is refused exactly within two seconds of the last timeout of its
    condition; what is posted was signed for the request it answers; a matched answer is booked
    as it says; refusals are quiet and visible.
  \<^item> The paper exchange: a match consumes the best levels first and implements its specification
    on sells; the ledger keeps its invariant, alone and behind the executor.
  \<^item> The strategy: a probability lies between 0 and 1, a full-game total that is passed is, outside
    tennis, signalled with certainty or not at all, the plan answers every candidate once, backs
    each budget by its edge and stays within the bankroll times the round-up ratio, a tick yields
    at most one buy and the strategy never sells.
  \<^item> The state: the store opens the entry gate only after a fresh reconciliation; what the user
    stream announces is in step with the account it shows; a reconciliation places no order and
    takes exactly the buys off the account whose cancellation the exchange confirmed; the book of a
    token is a map from prices to sizes, is untouched between a gap and the next whole or REST
    book, and final once the market is resolved but for a REST book that a further resolution message
    with a gap brings in; registry lookups are sound; the outbox keeps critical events until they are
    acknowledged and the bus delivers what is pending.

  Several claims state a defect as the code has it: the replacement retry that never runs, the
  cancellation that was refused and is reported as done, the trade that is counted twice, the pause
  that no reconciliation lifts, the total of a game without a clock that is taken for decided.

  \<^bold>\<open>Conventions.\<close> A time is a number of microseconds and is an argument of the operation that
  reads the clock. Loops are structural recursion or recursion with a measure; no definition uses
  fuel. A coroutine that runs to its next completion is one step; what may happen between two
  steps is an inductive relation. The text form of a decimal, which depends on an exponent the
  model does not carry, is the argument \<open>dstr\<close>; markets, books and the signing client that are
  handed to the paper client are arguments as well.

  \<^bold>\<open>Not modelled.\<close> The clients of the exchange, the feeds and the database, and the HTTP API:
  they are input and output through third-party packages; what the modelled code uses of the
  signing library and of the float library is a parameter. The classification of markets and the
  matching of titles, teams and feeds: regular expressions, alias tables and similarity scores over
  loosely typed values; its result is the argument \<open>sg_describe\<close> of the strategy. Devigging and the
  windowed order-flow features: iteration over floats that nothing which trades reads. The refresh
  of the authority and the scan for settlements: they replace records of the store by what remote
  services answer. The asyncio workers of \<open>pipeline/decision/\<close> and the pollers that pass events between
  the modelled strategy, gateway and projections, with payloads of free-form mappings; the properties
  therefore say nothing of the lifecycle map by which the decision worker holds back a second entry
  into a market. Task supervision, metrics and logging, read-only analytics, the operator
  service, the wiring of the application and the user interface: no trading state of their own.
  Within the modelled files, free-form audit payloads, tags and metadata are left out where no
  modelled operation reads them, as the text at the head of each theory says.
\<close>

end
